(* ===== verification/Prelude.thy ===== *)
theory Prelude
  imports Main "HOL-Library.AList"
begin

text \<open>
  Shared vocabulary of the development: sequential effectful code as functions over an
  explicit state with an error result (\<open>io\<close>), JavaScript objects as association
  lists that keep insertion order, the truthiness of optional strings, and the locale
  \<open>guarded_steps\<close>, through which every frame and invariant argument about a script is
  composed from its primitive steps.
\<close>

section \<open>Effectful code: a state, an error or a result\<close>

text \<open>
  An \<open>async\<close> function of the source is a function from the state to an error or a value
  and the state it leaves. A throw keeps the effects that happened before it: the state is
  returned in both cases.
\<close>

type_synonym ('s, 'e, 'a) io = "'s \<Rightarrow> ('e + 'a) \<times> 's"

definition returnIO :: "'a \<Rightarrow> ('s, 'e, 'a) io" where
  "returnIO x = (\<lambda>s. (Inr x, s))"

definition throwIO :: "'e \<Rightarrow> ('s, 'e, 'a) io" where
  "throwIO e = (\<lambda>s. (Inl e, s))"

definition bindIO :: "('s, 'e, 'a) io \<Rightarrow> ('a \<Rightarrow> ('s, 'e, 'b) io) \<Rightarrow> ('s, 'e, 'b) io" where
  "bindIO m f = (\<lambda>s. case m s of (Inl e, s') \<Rightarrow> (Inl e, s') | (Inr x, s') \<Rightarrow> f x s')"

definition thenIO :: "('s, 'e, 'a) io \<Rightarrow> ('s, 'e, 'b) io \<Rightarrow> ('s, 'e, 'b) io" where
  "thenIO m k = bindIO m (\<lambda>_. k)"

definition getsIO :: "('s \<Rightarrow> 'a) \<Rightarrow> ('s, 'e, 'a) io" where
  "getsIO f = (\<lambda>s. (Inr (f s), s))"

definition modifyIO :: "('s \<Rightarrow> 's) \<Rightarrow> ('s, 'e, unit) io" where
  "modifyIO f = (\<lambda>s. (Inr (), f s))"

definition requireIO :: "bool \<Rightarrow> 'e \<Rightarrow> ('s, 'e, unit) io" where
  "requireIO b e = (if b then returnIO () else throwIO e)"

text \<open>A promise that is neither awaited nor returned: its effects happen, its result and its
  error are dropped.\<close>

definition detachIO :: "('s, 'e, 'a) io \<Rightarrow> ('s, 'e, unit) io" where
  "detachIO m = (\<lambda>s. (Inr (), snd (m s)))"

text \<open>\<open>try { ... } catch (e) { ... }\<close>\<close>

definition catchIO :: "('s, 'e, 'a) io \<Rightarrow> ('e \<Rightarrow> ('s, 'e, 'a) io) \<Rightarrow> ('s, 'e, 'a) io" where
  "catchIO m handler = (\<lambda>s. case m s of (Inl e, s') \<Rightarrow> handler e s' | (Inr x, s') \<Rightarrow> (Inr x, s'))"

text \<open>\<open>for ... of\<close> with an awaited body: the first error ends the loop.\<close>

fun forIO :: "'a list \<Rightarrow> ('a \<Rightarrow> ('s, 'e, 'b) io) \<Rightarrow> ('s, 'e, 'b list) io" where
  "forIO [] f = returnIO []"
| "forIO (x # xs) f = bindIO (f x) (\<lambda>y. bindIO (forIO xs f) (\<lambda>ys. returnIO (y # ys)))"

named_theorems io_run \<open>equations that execute effectful code on a state\<close>

lemma returnIO_run [io_run]: "returnIO x s = (Inr x, s)"
  by (simp add: returnIO_def)

lemma throwIO_run [io_run]: "throwIO e s = (Inl e, s)"
  by (simp add: throwIO_def)

lemma bindIO_run [io_run]:
  "bindIO m f s = (case m s of (Inl e, s') \<Rightarrow> (Inl e, s') | (Inr x, s') \<Rightarrow> f x s')"
  by (simp add: bindIO_def)

lemma thenIO_run [io_run]:
  "thenIO m k s = (case m s of (Inl e, s') \<Rightarrow> (Inl e, s') | (Inr x, s') \<Rightarrow> k s')"
  by (simp add: thenIO_def bindIO_def)

lemma getsIO_run [io_run]: "getsIO f s = (Inr (f s), s)"
  by (simp add: getsIO_def)

lemma modifyIO_run [io_run]: "modifyIO f s = (Inr (), f s)"
  by (simp add: modifyIO_def)

lemma requireIO_run [io_run]: "requireIO b e s = (if b then (Inr (), s) else (Inl e, s))"
  by (simp add: requireIO_def returnIO_def throwIO_def)

lemma detachIO_run [io_run]: "detachIO m s = (Inr (), snd (m s))"
  by (simp add: detachIO_def)

lemma catchIO_run [io_run]:
  "catchIO m g s = (case m s of (Inl e, s') \<Rightarrow> g e s' | (Inr x, s') \<Rightarrow> (Inr x, s'))"
  by (simp add: catchIO_def)

text \<open>Inversion: a sequence that succeeds has succeeded step by step.\<close>

lemma bindIO_InrE:
  assumes "bindIO m f s = (Inr y, s')"
  obtains x s1 where "m s = (Inr x, s1)" and "f x s1 = (Inr y, s')"
  using assms by (auto simp: bindIO_def split: prod.splits sum.splits)

lemma bindIO_pair_InrE:
  assumes "bindIO m (\<lambda>(a, b). f a b) s = (Inr y, s')"
  obtains a b s1 where "m s = (Inr (a, b), s1)" and "f a b s1 = (Inr y, s')"
  using assms by (auto elim!: bindIO_InrE)

lemma bindIO_triple_InrE:
  assumes "bindIO m (\<lambda>(a, b, c). f a b c) s = (Inr y, s')"
  obtains a b c s1 where "m s = (Inr (a, b, c), s1)" and "f a b c s1 = (Inr y, s')"
  using assms by (auto elim!: bindIO_InrE)

lemma thenIO_InrE:
  assumes "thenIO m k s = (Inr y, s')"
  obtains x s1 where "m s = (Inr x, s1)" and "k s1 = (Inr y, s')"
  using assms by (auto simp: thenIO_def elim: bindIO_InrE)

lemma requireIO_InrE:
  assumes "requireIO b e s = (Inr y, s')"
  obtains b and "s' = s"
  using assms that by (simp add: requireIO_run split: if_split_asm)

lemma getsIO_InrD: "getsIO f s = (Inr y, s') \<Longrightarrow> y = f s \<and> s' = s"
  unfolding getsIO_def by (blast dest: prod.inject [THEN iffD1] sum.inject [THEN iffD1])

lemma getsIO_InrE:
  assumes "getsIO f s = (Inr y, s')"
  obtains "y = f s" and "s' = s"
  by (rule that) (use getsIO_InrD [OF assms] in blast)+

lemma returnIO_InrD: "returnIO x s = (Inr y, s') \<Longrightarrow> y = x \<and> s' = s"
  unfolding returnIO_def by (blast dest: prod.inject [THEN iffD1] sum.inject [THEN iffD1])

lemma returnIO_InrE:
  assumes "returnIO x s = (Inr y, s')"
  obtains "y = x" and "s' = s"
  by (rule that) (use returnIO_InrD [OF assms] in blast)+

lemmas io_elims = bindIO_InrE thenIO_InrE requireIO_InrE getsIO_InrE returnIO_InrE

lemma bindIO_assoc: "bindIO (bindIO m f) g = bindIO m (\<lambda>x. bindIO (f x) g)"
  by (auto simp: bindIO_def fun_eq_iff split: prod.splits sum.splits)

lemma bindIO_return_left [simp]: "bindIO (returnIO x) f = f x"
  by (simp add: bindIO_def returnIO_def)

lemma thenIO_assoc: "thenIO (thenIO m k) l = thenIO m (thenIO k l)"
  by (simp add: thenIO_def bindIO_assoc)

lemma thenIO_return_left [simp]: "thenIO (returnIO x) k = k"
  by (simp add: thenIO_def)

lemma forIO_length: "forIO xs f s = (Inr ys, s') \<Longrightarrow> length ys = length xs"
  by (induction xs arbitrary: s ys) (auto simp: returnIO_run elim!: bindIO_InrE)

section \<open>Guarded steps\<close>

text \<open>
  How a script changes the state, whatever its outcome, composed from how its primitive steps
  do. \<open>I\<close> is an invariant of the state, \<open>R\<close> a reflexive and transitive relation between the
  state a piece of code starts in and the one it leaves, \<open>ok\<close> a property of the values it
  holds that later steps do not destroy. \<open>keeps I R ok hs m\<close>: started in a state that
  satisfies \<open>I\<close>, with \<open>ok\<close> values \<open>hs\<close>, the code \<open>m\<close> leaves, also when it stops with an error
  half way, a state that satisfies \<open>I\<close> and is related to the first by \<open>R\<close>.
\<close>

definition keeps ::
  "('s \<Rightarrow> bool) \<Rightarrow> ('s \<Rightarrow> 's \<Rightarrow> bool) \<Rightarrow> ('h \<Rightarrow> 's \<Rightarrow> bool) \<Rightarrow> 'h list \<Rightarrow> ('s, 'e, 'a) io \<Rightarrow> bool" where
  "keeps I R ok hs m \<longleftrightarrow>
     (\<forall>s. I s \<longrightarrow> list_all (\<lambda>h. ok h s) hs \<longrightarrow> I (snd (m s)) \<and> R s (snd (m s)))"

text \<open>\<open>yields\<close>: moreover, a value \<open>m\<close> returns is \<open>ok\<close>.\<close>

definition yields ::
  "('s \<Rightarrow> bool) \<Rightarrow> ('h \<Rightarrow> 's \<Rightarrow> bool) \<Rightarrow> 'h list \<Rightarrow> ('s, 'e, 'h) io \<Rightarrow> bool" where
  "yields I ok hs m \<longleftrightarrow>
     (\<forall>s x s'. I s \<longrightarrow> list_all (\<lambda>h. ok h s) hs \<longrightarrow> m s = (Inr x, s') \<longrightarrow> ok x s')"

lemma keepsI:
  "(\<And>s. I s \<Longrightarrow> list_all (\<lambda>h. ok h s) hs \<Longrightarrow> I (snd (m s)) \<and> R s (snd (m s))) \<Longrightarrow> keeps I R ok hs m"
  by (simp add: keeps_def)

lemma keepsD:
  "keeps I R ok hs m \<Longrightarrow> I s \<Longrightarrow> list_all (\<lambda>h. ok h s) hs \<Longrightarrow> m s = (r, s') \<Longrightarrow> I s' \<and> R s s'"
  by (metis keeps_def snd_conv)

lemma yieldsI:
  "(\<And>s x s'. I s \<Longrightarrow> list_all (\<lambda>h. ok h s) hs \<Longrightarrow> m s = (Inr x, s') \<Longrightarrow> ok x s') \<Longrightarrow> yields I ok hs m"
  by (simp add: yields_def)

locale guarded_steps =
  fixes I :: "'s \<Rightarrow> bool" and R :: "'s \<Rightarrow> 's \<Rightarrow> bool" and ok :: "'h \<Rightarrow> 's \<Rightarrow> bool"
  assumes refl: "R s s"
    and trans: "R s1 s2 \<Longrightarrow> R s2 s3 \<Longrightarrow> R s1 s3"
    and ok_persists: "ok h s \<Longrightarrow> R s s' \<Longrightarrow> ok h s'"
begin

lemma oks_persist: "list_all (\<lambda>h. ok h s) hs \<Longrightarrow> R s s' \<Longrightarrow> list_all (\<lambda>h. ok h s') hs"
  by (auto simp: list_all_iff intro: ok_persists)

lemma keeps_return: "keeps I R ok hs (returnIO x)"
  by (rule keepsI) (simp add: returnIO_run refl)

lemma keeps_throw: "keeps I R ok hs (throwIO e)"
  by (rule keepsI) (simp add: throwIO_run refl)

lemma keeps_gets: "keeps I R ok hs (getsIO f)"
  by (rule keepsI) (simp add: getsIO_run refl)

lemma keeps_require: "keeps I R ok hs (requireIO b e)"
  by (rule keepsI) (simp add: requireIO_run refl)

lemma keeps_modify:
  "(\<And>s. I s \<Longrightarrow> list_all (\<lambda>h. ok h s) hs \<Longrightarrow> I (f s) \<and> R s (f s)) \<Longrightarrow> keeps I R ok hs (modifyIO f)"
  by (rule keepsI) (simp add: modifyIO_run)

text \<open>The sequence rule in two forms: the second hands on that the first result is \<open>ok\<close>.\<close>

lemma keeps_bind_result:
  assumes m: "keeps I R ok hs m"
    and f: "\<And>s x s1. I s \<Longrightarrow> list_all (\<lambda>h. ok h s) hs \<Longrightarrow> m s = (Inr x, s1) \<Longrightarrow>
      I s1 \<Longrightarrow> R s s1 \<Longrightarrow> list_all (\<lambda>h. ok h s1) hs \<Longrightarrow>
      I (snd (f x s1)) \<and> R s1 (snd (f x s1))"
  shows "keeps I R ok hs (bindIO m f)"
proof (rule keepsI)
  fix s
  assume s: "I s" "list_all (\<lambda>h. ok h s) hs"
  obtain r s1 where ms: "m s = (r, s1)" by fastforce
  with m s have s1: "I s1" "R s s1" by (auto dest: keepsD)
  show "I (snd (bindIO m f s)) \<and> R s (snd (bindIO m f s))"
  proof (cases r)
    case (Inl e)
    with ms s1 show ?thesis by (simp add: bindIO_run)
  next
    case (Inr x)
    with f s ms s1 oks_persist have "I (snd (f x s1)) \<and> R s1 (snd (f x s1))" by blast
    with ms s1 Inr show ?thesis by (auto simp: bindIO_run intro: trans)
  qed
qed

lemma keeps_bind:
  assumes "keeps I R ok hs m" and "\<And>x. keeps I R ok hs (f x)"
  shows "keeps I R ok hs (bindIO m f)"
proof (rule keeps_bind_result [OF assms(1)])
  fix s x s1
  assume "I s1" "list_all (\<lambda>h. ok h s1) hs"
  with assms(2) show "I (snd (f x s1)) \<and> R s1 (snd (f x s1))" unfolding keeps_def by blast
qed

lemma keeps_bind_ok:
  assumes "keeps I R ok hs m" and "yields I ok hs m" and "\<And>x. keeps I R ok (x # hs) (f x)"
  shows "keeps I R ok hs (bindIO m f)"
proof (rule keeps_bind_result [OF assms(1)])
  fix s x s1
  assume "I s" "list_all (\<lambda>h. ok h s) hs" "m s = (Inr x, s1)" "I s1" "list_all (\<lambda>h. ok h s1) hs"
  moreover from this assms(2) have "ok x s1" unfolding yields_def by blast
  ultimately show "I (snd (f x s1)) \<and> R s1 (snd (f x s1))"
    using assms(3) [of x] unfolding keeps_def by simp
qed

lemma keeps_then: "keeps I R ok hs m \<Longrightarrow> keeps I R ok hs k \<Longrightarrow> keeps I R ok hs (thenIO m k)"
  by (simp add: thenIO_def keeps_bind)

lemma keeps_detach: "keeps I R ok hs m \<Longrightarrow> keeps I R ok hs (detachIO m)"
  by (simp add: keeps_def detachIO_run)

lemma keeps_catch:
  assumes m: "keeps I R ok hs m" and g: "\<And>e. keeps I R ok hs (g e)"
  shows "keeps I R ok hs (catchIO m g)"
proof (rule keepsI)
  fix s
  assume s: "I s" "list_all (\<lambda>h. ok h s) hs"
  obtain r s1 where ms: "m s = (r, s1)" by fastforce
  from keepsD [OF m s ms] have s1: "I s1" "R s s1" by simp_all
  show "I (snd (catchIO m g s)) \<and> R s (snd (catchIO m g s))"
  proof (cases r)
    case (Inl e)
    have "I (snd (g e s1)) \<and> R s1 (snd (g e s1))"
      using g s1 oks_persist [OF s(2)] unfolding keeps_def by blast
    with ms s1 Inl show ?thesis by (auto simp: catchIO_run intro: trans)
  next
    case (Inr x)
    with ms s1 show ?thesis by (simp add: catchIO_run)
  qed
qed

lemma keeps_for: "(\<And>x. keeps I R ok hs (f x)) \<Longrightarrow> keeps I R ok hs (forIO xs f)"
  by (induction xs) (auto intro: keeps_return keeps_bind)

lemma keeps_if: "keeps I R ok hs m \<Longrightarrow> keeps I R ok hs k \<Longrightarrow> keeps I R ok hs (if b then m else k)"
  by simp

lemma keeps_case_option:
  "keeps I R ok hs m \<Longrightarrow> (\<And>x. keeps I R ok hs (f x)) \<Longrightarrow>
   keeps I R ok hs (case v of None \<Rightarrow> m | Some x \<Rightarrow> f x)"
  by (simp split: option.split)

lemma keeps_case_sum:
  "(\<And>e. keeps I R ok hs (g e)) \<Longrightarrow> (\<And>x. keeps I R ok hs (f x)) \<Longrightarrow>
   keeps I R ok hs (case v of Inl e \<Rightarrow> g e | Inr x \<Rightarrow> f x)"
  by (simp split: sum.split)

lemma keeps_case_prod:
  "(\<And>x y. keeps I R ok hs (f x y)) \<Longrightarrow> keeps I R ok hs (case v of (x, y) \<Rightarrow> f x y)"
  by (simp split: prod.split)

lemma keeps_let: "(\<And>x. keeps I R ok hs (f x)) \<Longrightarrow> keeps I R ok hs (let x = v in f x)"
  by (simp add: Let_def)

lemma keeps_weaken: "keeps I R ok [] m \<Longrightarrow> keeps I R ok hs m"
  by (simp add: keeps_def)

lemmas keeps_rules =
  keeps_return keeps_throw keeps_gets keeps_require keeps_bind keeps_then keeps_detach
  keeps_catch keeps_for keeps_if keeps_case_option keeps_case_sum keeps_case_prod keeps_let

text \<open>What a returned value satisfies.\<close>

lemma yields_return: "h \<in> set hs \<Longrightarrow> yields I ok hs (returnIO h)"
  by (auto simp: yields_def returnIO_run list_all_iff)

lemma yields_throw: "yields I ok hs (throwIO e)"
  by (simp add: yields_def throwIO_run)

lemma yields_bind:
  assumes "keeps I R ok hs m" and "\<And>x. yields I ok hs (f x)"
  shows "yields I ok hs (bindIO m f)"
proof (rule yieldsI)
  fix s x s'
  assume s: "I s" "list_all (\<lambda>h. ok h s) hs" and run: "bindIO m f s = (Inr x, s')"
  from run obtain y s1 where 1: "m s = (Inr y, s1)" and 2: "f y s1 = (Inr x, s')"
    by (rule bindIO_InrE)
  from keepsD [OF assms(1) s 1] have s1: "I s1" "R s s1" by simp_all
  with s oks_persist have "list_all (\<lambda>h. ok h s1) hs" by blast
  with s1 2 assms(2) show "ok x s'" unfolding yields_def by blast
qed

lemma yields_bind_ok:
  assumes "keeps I R ok hs m" and "yields I ok hs m" and "\<And>x. yields I ok (x # hs) (f x)"
  shows "yields I ok hs (bindIO m f)"
proof (rule yieldsI)
  fix s x s'
  assume s: "I s" "list_all (\<lambda>h. ok h s) hs" and run: "bindIO m f s = (Inr x, s')"
  from run obtain y s1 where 1: "m s = (Inr y, s1)" and 2: "f y s1 = (Inr x, s')"
    by (rule bindIO_InrE)
  from keepsD [OF assms(1) s 1] have "I s1" "R s s1" by simp_all
  moreover have "ok y s1" using assms(2) s 1 unfolding yields_def by blast
  ultimately have "list_all (\<lambda>h. ok h s1) (y # hs)" using oks_persist [OF s(2)] by simp
  with 2 \<open>I s1\<close> assms(3) show "ok x s'" unfolding yields_def by blast
qed

lemma yields_then: "keeps I R ok hs m \<Longrightarrow> yields I ok hs k \<Longrightarrow> yields I ok hs (thenIO m k)"
  by (simp add: thenIO_def yields_bind)

lemma yields_if: "yields I ok hs m \<Longrightarrow> yields I ok hs k \<Longrightarrow> yields I ok hs (if b then m else k)"
  by simp

end

section \<open>JavaScript values\<close>

text \<open>
  An object with string keys is an association list in insertion order: \<open>Object.keys\<close> and
  \<open>Object.entries\<close> list it in that order, an assignment to a present key keeps the key's
  place (\<open>AList.update\<close>), an absent key reads as \<open>undefined\<close>.
\<close>

type_synonym 'v jsobj = "(string \<times> 'v) list"

definition obj_keys :: "'v jsobj \<Rightarrow> string list" where
  "obj_keys ob = map fst ob"

definition obj_get :: "'v jsobj \<Rightarrow> string \<Rightarrow> 'v option" where
  "obj_get ob k = map_of ob k"

definition obj_set :: "string \<Rightarrow> 'v \<Rightarrow> 'v jsobj \<Rightarrow> 'v jsobj" where
  "obj_set k v ob = AList.update k v ob"

lemma obj_get_set [simp]: "obj_get (obj_set k v ob) k' = (if k' = k then Some v else obj_get ob k')"
  by (simp add: obj_get_def obj_set_def update_conv')

lemma obj_get_Nil [simp]: "obj_get [] k = None"
  by (simp add: obj_get_def)

lemma obj_get_Cons [simp]: "obj_get ((k, v) # ob) k' = (if k' = k then Some v else obj_get ob k')"
  by (simp add: obj_get_def)

lemma obj_get_None_iff: "obj_get ob k = None \<longleftrightarrow> k \<notin> set (obj_keys ob)"
  by (simp add: obj_get_def obj_keys_def map_of_eq_None_iff)

lemma distinct_obj_keys_set: "distinct (obj_keys ob) \<Longrightarrow> distinct (obj_keys (obj_set k v ob))"
  by (simp add: obj_keys_def obj_set_def distinct_update)

text \<open>\<open>undefined\<close> and the empty string are falsy.\<close>

definition truthy :: "string option \<Rightarrow> bool" where
  "truthy v \<longleftrightarrow> v \<noteq> None \<and> v \<noteq> Some ''''"

lemma truthy_simps [simp]: "\<not> truthy None" "truthy (Some s) \<longleftrightarrow> s \<noteq> ''''"
  by (auto simp: truthy_def)

text \<open>\<open>haystack.includes(needle)\<close> on strings.\<close>

fun str_includes :: "string \<Rightarrow> string \<Rightarrow> bool" where
  "str_includes [] needle = (needle = [])"
| "str_includes (c # cs) needle = (take (length needle) (c # cs) = needle \<or> str_includes cs needle)"

text \<open>A non-negative integer as JavaScript prints it.\<close>

fun showNat :: "nat \<Rightarrow> string" where
  "showNat n = (if n < 10 then [char_of (n + 48)] else showNat (n div 10) @ [char_of (n mod 10 + 48)])"

declare showNat.simps [simp del]

text \<open>\<open>toUpperCase\<close> on ASCII text.\<close>

definition char_upper :: "char \<Rightarrow> char" where
  "char_upper c = (let n = of_char c :: nat in if 97 \<le> n \<and> n \<le> 122 then char_of (n - 32) else c)"

definition char_lower :: "char \<Rightarrow> char" where
  "char_lower c = (let n = of_char c :: nat in if 65 \<le> n \<and> n \<le> 90 then char_of (n + 32) else c)"

text \<open>\<open>toLocaleLowerCase\<close> on ASCII text.\<close>

definition toLowerCase :: "string \<Rightarrow> string" where
  "toLowerCase s = map char_lower s"

definition toUpperCase :: "string \<Rightarrow> string" where
  "toUpperCase s = map char_upper s"

text \<open>The first index whose element satisfies the test; \<open>-1\<close> is \<open>None\<close>.\<close>

fun findIndex :: "('a \<Rightarrow> bool) \<Rightarrow> 'a list \<Rightarrow> nat option" where
  "findIndex p [] = None"
| "findIndex p (x # xs) = (if p x then Some 0 else map_option Suc (findIndex p xs))"

text \<open>Looking a key up through its index among the keys is looking it up in the object.\<close>

lemma findIndex_obj_get:
  "(case findIndex (\<lambda>value. value = k) (obj_keys ob) of None \<Rightarrow> None | Some i \<Rightarrow> Some (snd (ob ! i))) = obj_get ob k"
  by (induction ob) (auto simp: obj_keys_def obj_get_def split: option.splits)

end
