(* ===== verification/World.thy ===== *)
theory World
  imports Prelude
begin

text \<open>
  The state the deployment scripts work on: the Hardhat runtime environment they read, the
  chain they create contracts on, and the file \<open>deployed-contracts.json\<close> they record
  addresses in. What the repository does not implement (address validation and address
  allocation of the chain, rejection of a creation transaction, the outcome of an Etherscan
  verification run) or the development does not model (the result of a view call on another
  contract, as a function of the calls made before) is a field of the environment, and \<open>env_laws\<close> names what is documented
  about it.
\<close>

section \<open>Values\<close>

type_synonym address = string

text \<open>The arguments of constructors and calls: \<open>(string | string[] | boolean[])\<close>, booleans, and the
  structures and arrays of structures of the batch calls.\<close>

datatype arg =
    Str string
  | Strs "string list"
  | Bools "bool list"
  | Flag bool
  | Struct "(string \<times> arg) list"
  | Structs "arg list"

datatype error =
    TypeError string        \<comment> \<open>a read of a property of \<open>undefined\<close>\<close>
  | Error string            \<comment> \<open>\<open>throw new Error(...)\<close>\<close>
  | Thrown string           \<comment> \<open>\<open>throw '...'\<close>\<close>
  | InvalidArgument string  \<comment> \<open>rejected by ethers before a transaction is sent\<close>
  | Revert string           \<comment> \<open>the transaction reverted\<close>
  | ProcessExit nat         \<comment> \<open>\<open>process.exit(code)\<close>\<close>

definition ZERO_ADDRESS :: address where
  "ZERO_ADDRESS = ''0x0000000000000000000000000000000000000000''"

definition ONE_ADDRESS :: address where
  "ONE_ADDRESS = ''0x0000000000000000000000000000000000000001''"

section \<open>The chain\<close>

text \<open>
  A contract account: the contract it was compiled from, what it was created with, the
  storage word of \<open>VersionedInitializable\<close>, and for an upgradeability proxy the
  implementation slot (zero when unset) and the admin.
\<close>

record contract =
  code :: string
  ctor_args :: "arg list"
  libraries :: "(string \<times> address) list"
  lastInitializedRevision :: nat
  implementation :: address
  proxy_admin :: address

text \<open>The storage of a \<open>LendingPoolAddressesProvider\<close>: an unset id reads as zero.\<close>

record provider =
  owner :: address
  marketId :: string
  addresses :: "string \<Rightarrow> address"

section \<open>The registry file\<close>

record db_entry =
  entry_address :: address
  entry_deployer :: "address option"

section \<open>Build artifacts\<close>

text \<open>
  What the compiler leaves for a contract: its creation code in hexadecimal, with a
  placeholder at each place a library address belongs, and where those places are (file, then
  library, then byte offset and length). The files are build output, so they are a field of
  the environment.
\<close>

record fixup =
  fix_start :: nat
  fix_length :: nat

record artifact =
  bytecode :: string
  linkReferences :: "fixup list jsobj jsobj"

section \<open>The world\<close>

record world =
  network_name :: string
  network_chainId :: "nat option"
  env_FORK :: "string option"
  env_ETHERSCAN_KEY :: "string option"
  env_TENDERLY :: "string option"
  env_DEFENDER :: "string option"
  node_signers :: "address list"
  is_address :: "string \<Rightarrow> bool"
  create_address :: "nat \<Rightarrow> address"
  artifact_of :: "string \<Rightarrow> artifact"
  creation_rejected :: "string \<Rightarrow> arg list \<Rightarrow> bool"
  call_rejected :: "string \<Rightarrow> string \<Rightarrow> arg list \<Rightarrow> bool"
  verify_outcome :: "nat \<Rightarrow> string option"
  view_result :: "(address \<times> string \<times> arg list) list \<Rightarrow> address \<Rightarrow> string \<Rightarrow> string \<Rightarrow> string"
  creations :: nat
  contracts :: "address \<Rightarrow> contract option"
  providers :: "address \<Rightarrow> provider option"
  json_db :: "string \<Rightarrow> string \<Rightarrow> db_entry option"
  call_log :: "(address \<times> string \<times> arg list) list"
  verify_runs :: "(address \<times> arg list \<times> bool) list"
  cleanups :: nat
  tenderly_log :: "(string \<times> address) list"
  impersonated :: "address list"
  asset_writes :: "(string \<times> string \<times> string \<times> address) list"

type_synonym 'a script = "(world, error, 'a) io"

text \<open>The outcome of a synchronous computation.\<close>

definition liftSum :: "error + 'a \<Rightarrow> 'a script" where
  "liftSum v = (case v of Inl e \<Rightarrow> throwIO e | Inr x \<Rightarrow> returnIO x)"

text \<open>
  Documented behaviour of the chain and of \<open>ethers.utils.isAddress\<close>: contract creations get
  pairwise distinct, valid, non-zero addresses.
\<close>

definition env_laws :: "world \<Rightarrow> bool" where
  "env_laws w \<longleftrightarrow> inj (create_address w) \<and>
     (\<forall>n. create_address w n \<noteq> ZERO_ADDRESS \<and> create_address w n \<noteq> '''' \<and>
       is_address w (create_address w n))"

lemma env_lawsD:
  assumes "env_laws w"
  shows "create_address w n \<noteq> ZERO_ADDRESS" and "create_address w n \<noteq> ''''"
    and "is_address w (create_address w n)"
    and "create_address w m = create_address w n \<longleftrightarrow> m = n"
  using assms by (auto simp: env_laws_def inj_eq)

section \<open>Handles and transactions\<close>

text \<open>
  An ethers \<open>Contract\<close> object: the address, the interface it was connected with, the signer,
  and \<open>deployTransaction.from\<close>, present only on the object that \<open>deploy\<close> returned.
\<close>

record handle =
  h_address :: address
  h_factory :: string
  h_signer :: "address option"
  h_deployer :: "address option"

definition new_contract :: "string \<Rightarrow> arg list \<Rightarrow> (string \<times> address) list \<Rightarrow> contract" where
  "new_contract name args libs =
     \<lparr>code = name, ctor_args = args, libraries = libs, lastInitializedRevision = 0,
      implementation = ZERO_ADDRESS, proxy_admin = ZERO_ADDRESS\<rparr>"

text \<open>Account creation: the next address of the chain gets the contract.\<close>

definition next_address :: "world \<Rightarrow> address" where
  "next_address w = create_address w (creations w)"

definition create_contract :: "contract \<Rightarrow> world \<Rightarrow> world" where
  "create_contract c w =
     w\<lparr>creations := Suc (creations w), contracts := (contracts w)(next_address w \<mapsto> c)\<rparr>"

definition update_contract :: "address \<Rightarrow> (contract \<Rightarrow> contract) \<Rightarrow> world \<Rightarrow> world" where
  "update_contract a f w = w\<lparr>contracts := (contracts w)(a := map_option f (contracts w a))\<rparr>"

text \<open>The addresses provider's constructor: the sender owns it, the market id is stored.\<close>

definition construct_provider :: "address \<Rightarrow> string \<Rightarrow> provider" where
  "construct_provider sender market =
     \<lparr>owner = sender, marketId = market, addresses = (\<lambda>_. ZERO_ADDRESS)\<rparr>"

definition run_constructor :: "address \<Rightarrow> string \<Rightarrow> arg list \<Rightarrow> address \<Rightarrow> world \<Rightarrow> world" where
  "run_constructor sender name args a w =
     (if name = ''LendingPoolAddressesProvider''
      then w\<lparr>providers := (providers w)(a \<mapsto>
             construct_provider sender (case args of [Str m] \<Rightarrow> m | _ \<Rightarrow> ''''))\<rparr>
      else w)"

text \<open>
  \<open>new X__factory(libraries, signer).deploy(...args)\<close>: without a signer ethers throws; a
  rejected creation throws; otherwise a fresh account holds the contract.
\<close>

definition deployNew ::
  "address option \<Rightarrow> string \<Rightarrow> (string \<times> address) list \<Rightarrow> arg list \<Rightarrow> handle script" where
  "deployNew signer name libs args = (\<lambda>w.
     case signer of
       None \<Rightarrow> (Inl (InvalidArgument ''sending a transaction requires a signer''), w)
     | Some s \<Rightarrow>
         if creation_rejected w name args then (Inl (Revert ''contract creation''), w)
         else (Inr \<lparr>h_address = next_address w, h_factory = name, h_signer = Some s,
                    h_deployer = Some s\<rparr>,
               run_constructor s name args (next_address w)
                 (create_contract (new_contract name args libs) w)))"

text \<open>\<open>X__factory.connect(address, signer)\<close> and \<open>ethers.getContractAt\<close>.\<close>

definition connectAt :: "string \<Rightarrow> address \<Rightarrow> address option \<Rightarrow> handle" where
  "connectAt name a s = \<lparr>h_address = a, h_factory = name, h_signer = s, h_deployer = None\<rparr>"

definition senderOf :: "handle \<Rightarrow> address script" where
  "senderOf h = (case h_signer h of
     None \<Rightarrow> throwIO (InvalidArgument ''sending a transaction requires a signer'')
   | Some s \<Rightarrow> returnIO s)"

text \<open>An address argument: \<open>undefined\<close>, the empty string and anything that is not an address
  (names are not resolved) is rejected by ethers.\<close>

definition addressArg :: "string option \<Rightarrow> address script" where
  "addressArg v = bindIO (getsIO is_address) (\<lambda>ok. case v of
     None \<Rightarrow> throwIO (InvalidArgument ''address'')
   | Some a \<Rightarrow> if ok a then returnIO a else throwIO (InvalidArgument a))"

text \<open>\<open>ethers.utils.formatBytes32String\<close>: at most 31 bytes; the padding is left out.\<close>

definition formatBytes32String :: "string \<Rightarrow> string script" where
  "formatBytes32String s =
     (if length s \<le> 31 then returnIO s else throwIO (Error ''bytes32 string must be less than 32 bytes''))"

text \<open>Simplification of the updates above.\<close>

lemma create_contract_simps [simp]:
  "creations (create_contract c w) = Suc (creations w)"
  "contracts (create_contract c w) = (contracts w)(next_address w \<mapsto> c)"
  "providers (create_contract c w) = providers w"
  "json_db (create_contract c w) = json_db w"
  "network_name (create_contract c w) = network_name w"
  "create_address (create_contract c w) = create_address w"
  "is_address (create_contract c w) = is_address w"
  by (simp_all add: create_contract_def)

lemma update_contract_simps [simp]:
  "creations (update_contract a f w) = creations w"
  "contracts (update_contract a f w) = (contracts w)(a := map_option f (contracts w a))"
  "providers (update_contract a f w) = providers w"
  "json_db (update_contract a f w) = json_db w"
  "network_name (update_contract a f w) = network_name w"
  "create_address (update_contract a f w) = create_address w"
  "is_address (update_contract a f w) = is_address w"
  by (simp_all add: update_contract_def)

lemma run_constructor_simps [simp]:
  "creations (run_constructor s n args a w) = creations w"
  "contracts (run_constructor s n args a w) = contracts w"
  "json_db (run_constructor s n args a w) = json_db w"
  "network_name (run_constructor s n args a w) = network_name w"
  "create_address (run_constructor s n args a w) = create_address w"
  "is_address (run_constructor s n args a w) = is_address w"
  "n \<noteq> ''LendingPoolAddressesProvider'' \<Longrightarrow> run_constructor s n args a w = w"
  by (simp_all add: run_constructor_def)

section \<open>A sample world\<close>

text \<open>
  A chain with no contracts, an empty registry file and two signers, on which the theorems'
  hypotheses are seen to hold: contract addresses are pairwise distinct strings, and a string
  counts as an address when it starts with \<open>0x\<close>.
\<close>

definition sampleWorld :: "string \<Rightarrow> world" where
  "sampleWorld network =
     \<lparr>network_name = network, network_chainId = Some 1, env_FORK = None, env_ETHERSCAN_KEY = None,
      env_TENDERLY = None, env_DEFENDER = None, node_signers = [''0xA1'', ''0xA2''],
      is_address = (\<lambda>s. take 2 s = ''0x''), create_address = (\<lambda>n. ''0xC'' @ replicate n CHR ''1''),
      artifact_of = (\<lambda>_. \<lparr>bytecode = ''0x'', linkReferences = []\<rparr>),
      creation_rejected = (\<lambda>_ _. False), call_rejected = (\<lambda>_ _ _. False),
      verify_outcome = (\<lambda>_. None), view_result = (\<lambda>_ _ _ _. ''''),
      creations = 0, contracts = (\<lambda>_. None), providers = (\<lambda>_. None), json_db = (\<lambda>_ _. None),
      call_log = [], verify_runs = [], cleanups = 0, tenderly_log = [], impersonated = [],
      asset_writes = []\<rparr>"

lemma sampleWorld_env_laws: "env_laws (sampleWorld network)"
  by (simp add: env_laws_def sampleWorld_def ZERO_ADDRESS_def inj_on_def)

end
