(* ===== verification/AddressesProvider.thy ===== *)
theory AddressesProvider
  imports World
begin

text \<open>
  The contract \<open>LendingPoolAddressesProvider.sol\<close> with the upgradeability proxies it creates
  and the \<open>initializer\<close> guard of \<open>VersionedInitializable\<close>, and the ethers calls through
  which the deployment scripts use it. A reverted transaction leaves the chain as it was
  (\<open>transaction\<close>). Events are not modelled.
\<close>

section \<open>Transactions\<close>

definition transaction :: "'a script \<Rightarrow> 'a script" where
  "transaction m = (\<lambda>w. case m w of (Inl e, _) \<Rightarrow> (Inl e, w) | (Inr x, w') \<Rightarrow> (Inr x, w'))"

definition revert :: "string \<Rightarrow> 'a script" where
  "revert reason = throwIO (Revert reason)"

definition requires :: "bool \<Rightarrow> string \<Rightarrow> unit script" where
  "requires b reason = requireIO b (Revert reason)"

section \<open>The initializer guard\<close>

text \<open>
  The contracts with an \<open>initialize(address)\<close> behind the \<open>initializer\<close> modifier; each of them
  returns revision 1. The vaults inherit it from \<open>GeneralVault\<close> or \<open>StructuredVault\<close>.
\<close>

definition versionedContracts :: "string list" where
  "versionedContracts =
     [''LendingPool'', ''LendingPoolConfigurator'', ''CollateralAdapter'', ''LeverageSwapManager'',
      ''YieldManager'', ''SturdyToken'', ''StakedTokenIncentivesController'',
      ''StableYieldDistribution'', ''VariableYieldDistribution'', ''StableStructuredVault'',
      ''LidoVault'', ''YearnRETHWstETHVault'', ''ConvexCurveLPVault'', ''ConvexCurveLPVault2'',
      ''AuraBalancerLPVault'', ''YearnVault'', ''YearnWETHVault'', ''YearnWBTCVault'',
      ''YearnBOOVault'', ''TombFtmBeefyVault'', ''TombMimaticBeefyVault'',
      ''BasedMimaticBeefyVault'', ''BeefyMIM2CRVVault'', ''YearnFBEETSVault'', ''YearnLINKVault'',
      ''BeefyETHVault'', ''YearnCRVVault'', ''YearnSPELLVault'']"

definition getRevision :: "string \<Rightarrow> nat option" where
  "getRevision name = (if name \<in> set versionedContracts then Some 1 else None)"

text \<open>
  The body of \<open>initialize(provider)\<close>: the incentive token mints its supply to the incentives
  controller of the provider (minting to the zero address reverts), the configurator reads
  the lending pool from it, the pool, the configurator and the vaults reject a zero provider.
\<close>

definition initialize_body :: "world \<Rightarrow> string \<Rightarrow> address \<Rightarrow> bool" where
  "initialize_body w name prov =
     (if name = ''SturdyToken'' then
        (case providers w prov of
           None \<Rightarrow> False
         | Some p \<Rightarrow> addresses p ''INCENTIVE_CONTROLLER'' \<noteq> ZERO_ADDRESS)
      else if name = ''LendingPoolConfigurator'' then prov \<noteq> ZERO_ADDRESS \<and> providers w prov \<noteq> None
      else if name \<in> {''CollateralAdapter'', ''LeverageSwapManager'', ''YieldManager'',
                       ''StakedTokenIncentivesController'', ''StableYieldDistribution'',
                       ''VariableYieldDistribution''} then True
      else prov \<noteq> ZERO_ADDRESS)"

text \<open>
  Running \<open>initialize(prov)\<close> of the contract \<open>name\<close> on the storage of the account \<open>acct\<close>:
  the account itself for a direct call, the proxy for a delegated one. Outside a constructor
  and outside a nested call the guard is \<open>revision > lastInitializedRevision\<close>.
\<close>

definition initializer :: "address \<Rightarrow> string \<Rightarrow> address \<Rightarrow> unit script" where
  "initializer acct name prov = (\<lambda>w.
     case (getRevision name, contracts w acct) of
       (Some revision, Some c) \<Rightarrow>
         if lastInitializedRevision c < revision then
           if initialize_body w name prov
           then (Inr (), update_contract acct (\<lambda>c. c\<lparr>lastInitializedRevision := revision\<rparr>) w)
           else (Inl (Revert ''initialize''), w)
         else (Inl (Revert ''Contract instance has already been initialized''), w)
     | _ \<Rightarrow> (Inl (Revert ''no initialize''), w))"

section \<open>Proxies\<close>

definition proxyCode :: string where
  "proxyCode = ''InitializableImmutableAdminUpgradeabilityProxy''"

definition proxy_contract :: "address \<Rightarrow> contract" where
  "proxy_contract admin = (new_contract proxyCode [Str admin] [])\<lparr>proxy_admin := admin\<rparr>"

definition setImplementation :: "address \<Rightarrow> address \<Rightarrow> unit script" where
  "setImplementation proxy impl = (\<lambda>w.
     if contracts w impl = None
     then (Inl (Revert ''Cannot set a proxy implementation to a non-contract address''), w)
     else (Inr (), update_contract proxy (\<lambda>c. c\<lparr>implementation := impl\<rparr>) w))"

definition codeAt :: "world \<Rightarrow> address \<Rightarrow> string" where
  "codeAt w a = (case contracts w a of None \<Rightarrow> '''' | Some c \<Rightarrow> code c)"

text \<open>\<open>logic.delegatecall(data); require(success)\<close> with \<open>data\<close> an encoded \<open>initialize(provider)\<close>: a
  failure inside reverts without its reason.\<close>

definition delegateInitialize :: "address \<Rightarrow> string \<Rightarrow> address \<Rightarrow> unit script" where
  "delegateInitialize proxy name prov = catchIO (initializer proxy name prov) (\<lambda>_. revert '''')"

text \<open>\<open>initialize(logic, data)\<close> of the proxy and \<open>upgradeToAndCall\<close>, both with \<open>data\<close> an encoded
  \<open>initialize(provider)\<close>: set the slot, then delegate the call.\<close>

definition proxy_initialize :: "address \<Rightarrow> address \<Rightarrow> address \<Rightarrow> unit script" where
  "proxy_initialize proxy logic prov =
     bindIO (getsIO (\<lambda>w. map_option implementation (contracts w proxy))) (\<lambda>impl.
     thenIO (requires (impl = Some ZERO_ADDRESS) ''already initialized'')
    (thenIO (setImplementation proxy logic)
    (bindIO (getsIO (\<lambda>w. codeAt w logic)) (\<lambda>name. delegateInitialize proxy name prov))))"

definition upgradeToAndCall :: "address \<Rightarrow> address \<Rightarrow> address \<Rightarrow> address \<Rightarrow> unit script" where
  "upgradeToAndCall sender proxy newImplementation prov =
     bindIO (getsIO (\<lambda>w. contracts w proxy)) (\<lambda>c.
     thenIO (requires (case c of None \<Rightarrow> False
                       | Some p \<Rightarrow> code p = proxyCode \<and> proxy_admin p = sender) ''not the proxy admin'')
    (thenIO (setImplementation proxy newImplementation)
    (bindIO (getsIO (\<lambda>w. codeAt w newImplementation)) (\<lambda>name. delegateInitialize proxy name prov))))"

section \<open>The provider contract\<close>

definition onlyOwner :: "address \<Rightarrow> address \<Rightarrow> unit script" where
  "onlyOwner self sender =
     bindIO (getsIO (\<lambda>w. map_option owner (providers w self))) (\<lambda>ow.
     requires (ow = Some sender) ''Ownable: caller is not the owner'')"

definition sol_getAddress :: "address \<Rightarrow> string \<Rightarrow> world \<Rightarrow> address" where
  "sol_getAddress self aid w =
     (case providers w self of None \<Rightarrow> ZERO_ADDRESS | Some p \<Rightarrow> addresses p aid)"

definition put_address :: "address \<Rightarrow> string \<Rightarrow> address \<Rightarrow> world \<Rightarrow> world" where
  "put_address self aid a w =
     w\<lparr>providers := (providers w)(self :=
         map_option (\<lambda>p. p\<lparr>addresses := (addresses p)(aid := a)\<rparr>) (providers w self))\<rparr>"

definition sol_setAddress :: "address \<Rightarrow> address \<Rightarrow> string \<Rightarrow> address \<Rightarrow> unit script" where
  "sol_setAddress self sender aid newAddress =
     thenIO (onlyOwner self sender) (modifyIO (put_address self aid newAddress))"

definition createProxy :: "address \<Rightarrow> address script" where
  "createProxy self =
     bindIO (getsIO next_address) (\<lambda>a.
     thenIO (modifyIO (create_contract (proxy_contract self))) (returnIO a))"

definition updateImpl :: "address \<Rightarrow> string \<Rightarrow> address \<Rightarrow> unit script" where
  "updateImpl self aid newAddress =
     bindIO (getsIO (sol_getAddress self aid)) (\<lambda>proxyAddress.
     if proxyAddress = ZERO_ADDRESS then
       bindIO (createProxy self) (\<lambda>proxy.
       thenIO (proxy_initialize proxy newAddress self)
         (modifyIO (put_address self aid proxy)))
     else upgradeToAndCall self proxyAddress newAddress self)"

definition sol_setAddressAsProxy :: "address \<Rightarrow> address \<Rightarrow> string \<Rightarrow> address \<Rightarrow> unit script" where
  "sol_setAddressAsProxy self sender aid implementationAddress =
     thenIO (onlyOwner self sender) (updateImpl self aid implementationAddress)"

definition sol_setMarketId :: "address \<Rightarrow> address \<Rightarrow> string \<Rightarrow> unit script" where
  "sol_setMarketId self sender newMarketId =
     thenIO (onlyOwner self sender)
       (modifyIO (\<lambda>w. w\<lparr>providers := (providers w)(self :=
          map_option (\<lambda>p. p\<lparr>marketId := newMarketId\<rparr>) (providers w self))\<rparr>))"

section \<open>Calls from the scripts\<close>

text \<open>
  A transaction sent to an account that holds no contract succeeds without effect; one sent
  to a contract that is not an addresses provider reverts (there is no such function). A
  view call on anything but a provider throws.
\<close>

definition providerTx :: "handle \<Rightarrow> (address \<Rightarrow> address \<Rightarrow> unit script) \<Rightarrow> unit script" where
  "providerTx h body =
     bindIO (senderOf h) (\<lambda>sender.
     bindIO (getsIO (\<lambda>w. (contracts w (h_address h) = None, providers w (h_address h) = None))) (\<lambda>(noCode, noProvider).
     if noCode then returnIO ()
     else if noProvider then revert ''function selector was not recognized''
     else transaction (body (h_address h) sender)))"

definition setAddress :: "handle \<Rightarrow> string \<Rightarrow> string option \<Rightarrow> unit script" where
  "setAddress h aid newAddress =
     bindIO (formatBytes32String aid) (\<lambda>i.
     bindIO (addressArg newAddress) (\<lambda>a.
     providerTx h (\<lambda>self sender. sol_setAddress self sender i a)))"

definition setAddressAsProxy :: "handle \<Rightarrow> string \<Rightarrow> address \<Rightarrow> unit script" where
  "setAddressAsProxy h aid impl =
     bindIO (formatBytes32String aid) (\<lambda>i.
     bindIO (addressArg (Some impl)) (\<lambda>a.
     providerTx h (\<lambda>self sender. sol_setAddressAsProxy self sender i a)))"

definition setMarketId :: "handle \<Rightarrow> string \<Rightarrow> unit script" where
  "setMarketId h market = providerTx h (\<lambda>self sender. sol_setMarketId self sender market)"

definition getAddress :: "handle \<Rightarrow> string \<Rightarrow> address script" where
  "getAddress h aid =
     bindIO (formatBytes32String aid) (\<lambda>i. bindIO (getsIO (\<lambda>w. providers w (h_address h))) (\<lambda>p.
       case p of None \<Rightarrow> revert ''call revert exception'' | Some q \<Rightarrow> returnIO (addresses q i)))"

text \<open>The setters and getters with an id of their own (the constants at the head of the
  contract).\<close>

definition setLendingPoolImpl :: "handle \<Rightarrow> string option \<Rightarrow> unit script" where
  "setLendingPoolImpl h pool =
     bindIO (addressArg pool) (\<lambda>a. setAddressAsProxy h ''LENDING_POOL'' a)"

definition setLendingPoolConfiguratorImpl :: "handle \<Rightarrow> string option \<Rightarrow> unit script" where
  "setLendingPoolConfiguratorImpl h configurator =
     bindIO (addressArg configurator) (\<lambda>a. setAddressAsProxy h ''LENDING_POOL_CONFIGURATOR'' a)"

definition setIncentiveControllerImpl :: "handle \<Rightarrow> address \<Rightarrow> unit script" where
  "setIncentiveControllerImpl h impl = setAddressAsProxy h ''INCENTIVE_CONTROLLER'' impl"

definition setIncentiveTokenImpl :: "handle \<Rightarrow> address \<Rightarrow> unit script" where
  "setIncentiveTokenImpl h impl = setAddressAsProxy h ''INCENTIVE_TOKEN'' impl"

definition setLendingPoolCollateralManager :: "handle \<Rightarrow> string option \<Rightarrow> unit script" where
  "setLendingPoolCollateralManager h manager = setAddress h ''COLLATERAL_MANAGER'' manager"

definition setPoolAdmin :: "handle \<Rightarrow> string option \<Rightarrow> unit script" where
  "setPoolAdmin h admin = setAddress h ''POOL_ADMIN'' admin"

definition setEmergencyAdmin :: "handle \<Rightarrow> string option \<Rightarrow> unit script" where
  "setEmergencyAdmin h admin = setAddress h ''EMERGENCY_ADMIN'' admin"

definition setPriceOracle :: "handle \<Rightarrow> string option \<Rightarrow> unit script" where
  "setPriceOracle h oracle = setAddress h ''PRICE_ORACLE'' oracle"

definition setLendingRateOracle :: "handle \<Rightarrow> string option \<Rightarrow> unit script" where
  "setLendingRateOracle h oracle = setAddress h ''LENDING_RATE_ORACLE'' oracle"

definition getLendingPool_addr :: "handle \<Rightarrow> address script" where
  "getLendingPool_addr h = getAddress h ''LENDING_POOL''"

definition getLendingPoolConfigurator_addr :: "handle \<Rightarrow> address script" where
  "getLendingPoolConfigurator_addr h = getAddress h ''LENDING_POOL_CONFIGURATOR''"

definition getIncentiveController :: "handle \<Rightarrow> address script" where
  "getIncentiveController h = getAddress h ''INCENTIVE_CONTROLLER''"

definition getIncentiveToken :: "handle \<Rightarrow> address script" where
  "getIncentiveToken h = getAddress h ''INCENTIVE_TOKEN''"

definition getPoolAdmin :: "handle \<Rightarrow> address script" where
  "getPoolAdmin h = getAddress h ''POOL_ADMIN''"

definition getEmergencyAdmin_addr :: "handle \<Rightarrow> address script" where
  "getEmergencyAdmin_addr h = getAddress h ''EMERGENCY_ADMIN''"

definition getPriceOracle_addr :: "handle \<Rightarrow> address script" where
  "getPriceOracle_addr h = getAddress h ''PRICE_ORACLE''"

text \<open>\<open>implementation.initialize(provider)\<close> sent by a script, and calls to contracts whose code
  is outside the model: those are recorded and may be rejected.\<close>

definition initialize :: "handle \<Rightarrow> address \<Rightarrow> unit script" where
  "initialize h prov =
     bindIO (addressArg (Some prov)) (\<lambda>a.
     bindIO (senderOf h) (\<lambda>_.
     bindIO (getsIO (\<lambda>w. contracts w (h_address h))) (\<lambda>c.
     case c of None \<Rightarrow> returnIO ()
     | Some ct \<Rightarrow> transaction (initializer (h_address h) (code ct) a))))"

definition callContract :: "handle \<Rightarrow> string \<Rightarrow> arg list \<Rightarrow> unit script" where
  "callContract h method args =
     bindIO (senderOf h) (\<lambda>_.
     bindIO (getsIO (\<lambda>w. call_rejected w (h_factory h) method args)) (\<lambda>bad.
     if bad then revert method
     else modifyIO (\<lambda>w. w\<lparr>call_log := call_log w @ [(h_address h, method, args)]\<rparr>)))"

text \<open>One field of the result of a view call with one argument.\<close>

definition viewContract :: "handle \<Rightarrow> string \<Rightarrow> string \<Rightarrow> string script" where
  "viewContract h method argument =
     getsIO (\<lambda>w. view_result w (call_log w) (h_address h) method argument)"

section \<open>Executing the provider\<close>

lemma initializer_Inr:
  "initializer acct name prov w = (Inr (), w') \<longleftrightarrow>
   (\<exists>revision c. getRevision name = Some revision \<and> contracts w acct = Some c \<and>
      lastInitializedRevision c < revision \<and> initialize_body w name prov \<and>
      w' = update_contract acct (\<lambda>c. c\<lparr>lastInitializedRevision := revision\<rparr>) w)"
  by (auto simp: initializer_def split: option.splits)

lemma delegateInitialize_Inr:
  "delegateInitialize acct name prov w = (Inr (), w') \<longleftrightarrow> initializer acct name prov w = (Inr (), w')"
  by (auto simp: delegateInitialize_def revert_def io_run split: prod.splits sum.splits)

lemma setImplementation_Inr:
  "setImplementation proxy impl w = (Inr (), w') \<longleftrightarrow>
   contracts w impl \<noteq> None \<and> w' = update_contract proxy (\<lambda>c. c\<lparr>implementation := impl\<rparr>) w"
  by (auto simp: setImplementation_def)

lemma codeAt_update_contract [simp]:
  "(\<And>c. code (f c) = code c) \<Longrightarrow> codeAt (update_contract a f w) b = codeAt w b"
  by (simp add: codeAt_def split: option.split)

text \<open>An installed implementation: the slot is set, then the initializer runs on the proxy.\<close>

definition installed :: "address \<Rightarrow> address \<Rightarrow> address \<Rightarrow> world \<Rightarrow> world \<Rightarrow> bool" where
  "installed proxy impl prov w w' \<longleftrightarrow>
     contracts w impl \<noteq> None \<and>
     (\<exists>revision c. getRevision (codeAt w impl) = Some revision \<and> contracts w proxy = Some c \<and>
        lastInitializedRevision c < revision \<and>
        initialize_body (update_contract proxy (\<lambda>c. c\<lparr>implementation := impl\<rparr>) w) (codeAt w impl) prov \<and>
        w' = update_contract proxy
               (\<lambda>c. c\<lparr>implementation := impl, lastInitializedRevision := revision\<rparr>) w)"

lemma install_Inr:
  "thenIO (setImplementation proxy impl)
     (bindIO (getsIO (\<lambda>w. codeAt w impl)) (\<lambda>name. delegateInitialize proxy name prov)) w = (Inr (), w')
   \<longleftrightarrow> installed proxy impl prov w w'" (is "?run \<longleftrightarrow> _")
proof -
  let ?w1 = "update_contract proxy (\<lambda>c. c\<lparr>implementation := impl\<rparr>) w"
  have "?run \<longleftrightarrow> contracts w impl \<noteq> None \<and> initializer proxy (codeAt w impl) prov ?w1 = (Inr (), w')"
    by (auto simp: io_run setImplementation_def delegateInitialize_Inr)
  also have "\<dots> \<longleftrightarrow> installed proxy impl prov w w'"
    unfolding initializer_Inr installed_def
    by (auto simp: update_contract_def comp_def fun_upd_def cong: if_cong)
  finally show ?thesis .
qed

lemma proxy_initialize_Inr:
  "proxy_initialize proxy impl prov w = (Inr (), w') \<longleftrightarrow>
   map_option implementation (contracts w proxy) = Some ZERO_ADDRESS \<and> installed proxy impl prov w w'"
  unfolding proxy_initialize_def install_Inr [symmetric]
  by (auto simp: io_run requires_def)

lemma upgradeToAndCall_Inr:
  "upgradeToAndCall sender proxy impl prov w = (Inr (), w') \<longleftrightarrow>
   (\<exists>c. contracts w proxy = Some c \<and> code c = proxyCode \<and> proxy_admin c = sender) \<and>
   installed proxy impl prov w w'"
  unfolding upgradeToAndCall_def install_Inr [symmetric]
  by (auto simp: io_run requires_def split: option.splits)

lemma updateImpl_Inr:
  "updateImpl self aid impl w = (Inr (), w') \<longleftrightarrow>
   (if sol_getAddress self aid w = ZERO_ADDRESS then
      \<exists>w1. installed (next_address w) impl self (create_contract (proxy_contract self) w) w1 \<and>
           w' = put_address self aid (next_address w) w1
    else
      (\<exists>c. contracts w (sol_getAddress self aid w) = Some c \<and> code c = proxyCode \<and> proxy_admin c = self) \<and>
      installed (sol_getAddress self aid w) impl self w w')"
proof (cases "sol_getAddress self aid w = ZERO_ADDRESS")
  case True
  have "map_option implementation
      (contracts (create_contract (proxy_contract self) w) (next_address w)) = Some ZERO_ADDRESS"
    by (simp add: proxy_contract_def new_contract_def)
  then have "updateImpl self aid impl w = (Inr (), w') \<longleftrightarrow>
      (\<exists>w1. proxy_initialize (next_address w) impl self (create_contract (proxy_contract self) w) = (Inr (), w1) \<and>
            w' = put_address self aid (next_address w) w1)"
    using True
    by (auto simp: updateImpl_def createProxy_def io_run split: prod.splits sum.splits)
  with True show ?thesis
    by (simp add: proxy_initialize_Inr proxy_contract_def new_contract_def)
next
  case False
  then show ?thesis
    by (simp add: updateImpl_def io_run upgradeToAndCall_Inr)
qed

lemma sol_setAddressAsProxy_Inr:
  "sol_setAddressAsProxy self sender aid impl w = (Inr (), w') \<longleftrightarrow>
   map_option owner (providers w self) = Some sender \<and> updateImpl self aid impl w = (Inr (), w')"
  by (auto simp: sol_setAddressAsProxy_def onlyOwner_def requires_def io_run)

lemma sol_setAddress_Inr:
  "sol_setAddress self sender aid a w = (Inr (), w') \<longleftrightarrow>
   map_option owner (providers w self) = Some sender \<and> w' = put_address self aid a w"
  by (auto simp: sol_setAddress_def onlyOwner_def requires_def io_run)

section \<open>Properties\<close>

text \<open>C21. Nobody but the owner writes to the addresses provider: a call of \<open>setAddress\<close>,
  \<open>setAddressAsProxy\<close> or \<open>setMarketId\<close> signed by anyone else fails and leaves the world as it was.\<close>

theorem provider_rejects_strangers:
  assumes "contracts w (h_address h) \<noteq> None" and "providers w (h_address h) = Some p"
    and "h_signer h = Some s" and "s \<noteq> owner p"
  shows "(\<exists>e. setAddress h i v w = (Inl e, w)) \<and> (\<exists>e. setAddressAsProxy h i impl w = (Inl e, w)) \<and>
    (\<exists>e. setMarketId h market w = (Inl e, w))"
  using assms
  by (auto simp: setAddress_def setAddressAsProxy_def setMarketId_def formatBytes32String_def
      addressArg_def providerTx_def senderOf_def transaction_def sol_setAddress_def
      sol_setAddressAsProxy_def sol_setMarketId_def onlyOwner_def requires_def io_run split: option.splits)

definition sampleProviderWorld :: world where
  "sampleProviderWorld = (sampleWorld ''main'')
     \<lparr>contracts := [''0xC'' \<mapsto> new_contract ''LendingPoolAddressesProvider'' [Str ''Market''] []],
      providers := [''0xC'' \<mapsto> construct_provider ''0xA1'' ''Market''], creations := 1\<rparr>"

theorem provider_rejects_strangers_witness:
  "\<exists>e. setAddress (connectAt ''LendingPoolAddressesProvider'' ''0xC'' (Some ''0xA2'')) ''POOL_ADMIN''
     (Some ''0xA2'') sampleProviderWorld = (Inl e, sampleProviderWorld)"
  using provider_rejects_strangers [of sampleProviderWorld
      "connectAt ''LendingPoolAddressesProvider'' ''0xC'' (Some ''0xA2'')" _ "''0xA2''" "''POOL_ADMIN''" "Some ''0xA2''"]
  by (simp add: sampleProviderWorld_def connectAt_def construct_provider_def)

lemma setAddress_run:
  assumes "h_signer h = Some s" and "length i \<le> 31" and "is_address w a"
    and "contracts w (h_address h) \<noteq> None" and "map_option owner (providers w (h_address h)) = Some s"
  shows "setAddress h i (Some a) w = (Inr (), put_address (h_address h) i a w)"
  using assms
  by (auto simp: setAddress_def formatBytes32String_def addressArg_def senderOf_def providerTx_def
      transaction_def sol_setAddress_def onlyOwner_def requires_def io_run)

text \<open>C22. What the owner stores under an id is read back under it, by anyone, and the addresses
  under all other ids stay what they were.\<close>

theorem provider_stores_addresses:
  assumes "h_signer h = Some s" and "length i \<le> 31" and "length j \<le> 31" and "is_address w a"
    and "contracts w (h_address h) \<noteq> None" and "map_option owner (providers w (h_address h)) = Some s"
    and "h_address reader = h_address h"
  shows "\<exists>w'. setAddress h i (Some a) w = (Inr (), w') \<and>
    getAddress reader j w' = (Inr (if j = i then a else sol_getAddress (h_address h) j w), w')"
  using setAddress_run [OF assms(1,2,4-6)] assms
  by (auto simp: getAddress_def formatBytes32String_def put_address_def sol_getAddress_def io_run)

theorem provider_stores_addresses_witness:
  "\<exists>w'. setAddress (connectAt ''LendingPoolAddressesProvider'' ''0xC'' (Some ''0xA1'')) ''POOL_ADMIN''
      (Some ''0xA2'') sampleProviderWorld = (Inr (), w') \<and>
    getPoolAdmin (connectAt ''LendingPoolAddressesProvider'' ''0xC'' None) w' = (Inr ''0xA2'', w')"
  using provider_stores_addresses [of "connectAt ''LendingPoolAddressesProvider'' ''0xC'' (Some ''0xA1'')" "''0xA1''"
      "''POOL_ADMIN''" "''POOL_ADMIN''" sampleProviderWorld "''0xA2''" "connectAt ''LendingPoolAddressesProvider'' ''0xC'' None"]
  by (simp add: sampleProviderWorld_def connectAt_def construct_provider_def getPoolAdmin_def sampleWorld_def)

end
