(* ===== verification/Etherscan.thy ===== *)
theory Etherscan
  imports AddressesProvider
begin

text \<open>
  Contract verification: \<open>helpers/etherscan-verification.ts\<close>, \<open>helpers/tenderly-utils.ts\<close> and
  \<open>helpers/defender-utils.ts\<close>. The outcome of each run of the Hardhat task \<open>verify\<close> is the
  environment's \<open>verify_outcome\<close>: \<open>None\<close> for success, \<open>Some message\<close> for the error it throws.
  \<open>verify_runs\<close> records every run with the \<open>relatedSources\<close> flag it was given, \<open>cleanups\<close>
  counts how often the temporary parameter file was removed.
\<close>

section \<open>Etherscan\<close>

definition fatalErrors :: "string list" where
  "fatalErrors =
     [''The address provided as argument contains a contract, but its bytecode'',
      ''Daily limit of 100 source code submissions reached'',
      ''has no bytecode. Is the contract deployed to this network'',
      ''The constructor for'']"

definition okErrors :: "string list" where
  "okErrors = [''Contract source code already verified'']"

definition unableVerifyError :: string where
  "unableVerifyError = ''Fail - Unable to verify''"

definition SUPPORTED_ETHERSCAN_NETWORKS :: "string list" where
  "SUPPORTED_ETHERSCAN_NETWORKS =
     [''main'', ''ropsten'', ''kovan'', ''goerli'', ''ftm_test'', ''ftm'']"

definition isOkError :: "string \<Rightarrow> bool" where
  "isOkError message \<longleftrightarrow> list_ex (str_includes message) okErrors"

definition isFatalError :: "string \<Rightarrow> bool" where
  "isFatalError message \<longleftrightarrow> list_ex (str_includes message) fatalErrors"

definition cleanup :: "unit script" where
  "cleanup = modifyIO (\<lambda>w. w\<lparr>cleanups := Suc (cleanups w)\<rparr>)"

text \<open>One run of the task: recorded, then its outcome.\<close>

definition runVerify :: "address \<Rightarrow> arg list \<Rightarrow> bool \<Rightarrow> string option script" where
  "runVerify a args relatedSources = (\<lambda>w.
     (Inr (verify_outcome w (length (verify_runs w))),
      w\<lparr>verify_runs := verify_runs w @ [(a, args, relatedSources)]\<rparr>))"

text \<open>
  \<open>times\<close> counts down to 0, where the last branch only cleans up; the flag is deleted for the
  last attempt and after an error that says so, and stays deleted.
\<close>

fun runTaskWithRetry :: "address \<Rightarrow> arg list \<Rightarrow> bool \<Rightarrow> nat \<Rightarrow> unit script" where
  "runTaskWithRetry a args relatedSources 0 = cleanup"
| "runTaskWithRetry a args relatedSources (Suc counter) =
     (let relatedSources = (if Suc counter = 1 then False else relatedSources)
      in bindIO (runVerify a args relatedSources) (\<lambda>outcome. case outcome of
           None \<Rightarrow> cleanup
         | Some message \<Rightarrow>
             if isOkError message then returnIO ()
             else if isFatalError message then returnIO ()
             else runTaskWithRetry a args
                    (if str_includes message unableVerifyError then False else relatedSources)
                    counter))"

text \<open>Everything after the two guards is inside a \<open>try\<close> with an empty \<open>catch\<close>.\<close>

definition verifyEtherscanContract :: "address \<Rightarrow> arg list \<Rightarrow> unit script" where
  "verifyEtherscanContract a args =
     bindIO (getsIO (\<lambda>w. (network_name w, env_ETHERSCAN_KEY w))) (\<lambda>(currentNetwork, key).
     thenIO (requireIO (truthy key) (Error ''Missing process.env.ETHERSCAN_KEY.''))
    (thenIO (requireIO (currentNetwork \<in> set SUPPORTED_ETHERSCAN_NETWORKS)
               (Error ''Current network not supported''))
      (detachIO (runTaskWithRetry a args True 4))))"

definition checkVerification :: "unit script" where
  "checkVerification =
     bindIO (getsIO (\<lambda>w. (network_name w, env_ETHERSCAN_KEY w))) (\<lambda>(currentNetwork, key).
     thenIO (requireIO (truthy key) (ProcessExit 3))
       (requireIO (currentNetwork \<in> set SUPPORTED_ETHERSCAN_NETWORKS) (ProcessExit 5)))"

section \<open>Tenderly\<close>

definition usingTenderly :: "world \<Rightarrow> bool" where
  "usingTenderly w \<longleftrightarrow>
     str_includes (network_name w) ''tenderly'' \<or> env_TENDERLY w = Some ''true''"

definition verifyAtTenderly :: "string \<Rightarrow> address \<Rightarrow> unit script" where
  "verifyAtTenderly name a =
     bindIO (getsIO (\<lambda>w. call_rejected w ''tenderlyNetwork'' ''verify'' [Str name, Str a])) (\<lambda>bad.
     thenIO (requireIO (\<not> bad) (Error ''tenderlyNetwork.verify''))
       (modifyIO (\<lambda>w. w\<lparr>tenderly_log := tenderly_log w @ [(name, a)]\<rparr>)))"

section \<open>Defender\<close>

definition usingDefender :: "world \<Rightarrow> bool" where
  "usingDefender w \<longleftrightarrow> env_DEFENDER w = Some ''true''"

definition impersonateAccountsHardhat :: "address list \<Rightarrow> unit script" where
  "impersonateAccountsHardhat accounts =
     bindIO (getsIO env_TENDERLY) (\<lambda>t.
     if t = Some ''true'' then returnIO ()
     else modifyIO (\<lambda>w. w\<lparr>impersonated := impersonated w @ accounts\<rparr>))"

definition defenderAddress :: address where
  "defenderAddress = ''0xDA9dfA130Df4dE4673b89022EE50ff26f6EA73Cf''"

text \<open>Outside a mainnet fork and Tenderly the variable \<open>defenderSigner\<close> stays undefined, and
  printing its balance throws.\<close>

definition getDefenderRelaySigner :: "address script" where
  "getDefenderRelaySigner =
     bindIO (getsIO (\<lambda>w. (env_FORK w = Some ''main'', usingTenderly w))) (\<lambda>(forkMain, tenderly).
     thenIO (if forkMain then impersonateAccountsHardhat [defenderAddress] else returnIO ())
       (if forkMain \<or> tenderly then returnIO defenderAddress
        else throwIO (TypeError ''getBalance of undefined'')))"

section \<open>The retry loop\<close>

text \<open>Number of runs the loop adds, the shape of the attempts and the clean-up.\<close>

lemma runTaskWithRetry_ok: "\<exists>w'. runTaskWithRetry a args rel n w = (Inr (), w')"
  by (induction n arbitrary: rel w)
    (auto simp: io_run cleanup_def runVerify_def Let_def split: option.split)

text \<open>
  What the loop leaves: at most \<open>n\<close> runs were added, nothing else changed, and the parameter
  file was removed, unless the last run ended with an accepted or a fatal error.
\<close>

definition retry_result :: "address \<Rightarrow> arg list \<Rightarrow> nat \<Rightarrow> world \<Rightarrow> world \<Rightarrow> bool" where
  "retry_result a args n w w' \<longleftrightarrow>
     (\<exists>flags c. length flags \<le> n \<and>
        w' = w\<lparr>verify_runs := verify_runs w @ map (\<lambda>f. (a, args, f)) flags, cleanups := c\<rparr> \<and>
        (c = Suc (cleanups w) \<or>
         (c = cleanups w \<and> flags \<noteq> [] \<and>
          (\<exists>m. verify_outcome w (length (verify_runs w) + length flags - 1) = Some m \<and>
               (isOkError m \<or> isFatalError m)))))"

lemma retry_result_stop:
  assumes "c = Suc (cleanups w) \<or> (c = cleanups w \<and>
      (\<exists>m. verify_outcome w (length (verify_runs w)) = Some m \<and> (isOkError m \<or> isFatalError m)))"
  shows "retry_result a args (Suc n) w
      (w\<lparr>verify_runs := verify_runs w @ [(a, args, f)], cleanups := c\<rparr>)"
  unfolding retry_result_def
  by (rule exI [of _ "[f]"], rule exI [of _ c]) (use assms in auto)

lemma retry_result_more:
  assumes "retry_result a args n (w\<lparr>verify_runs := verify_runs w @ [(a, args, f)]\<rparr>) w'"
  shows "retry_result a args (Suc n) w w'"
proof -
  from assms obtain flags c where *: "length flags \<le> n"
    "w' = w\<lparr>verify_runs := (verify_runs w @ [(a, args, f)]) @ map (\<lambda>f. (a, args, f)) flags, cleanups := c\<rparr>"
    "c = Suc (cleanups w) \<or> (c = cleanups w \<and> flags \<noteq> [] \<and>
      (\<exists>m. verify_outcome w (Suc (length (verify_runs w)) + length flags - 1) = Some m \<and>
        (isOkError m \<or> isFatalError m)))"
    by (auto simp: retry_result_def)
  show ?thesis
    unfolding retry_result_def
    by (rule exI [of _ "f # flags"], rule exI [of _ c]) (use * in auto)
qed

lemma runTaskWithRetry_result:
  "runTaskWithRetry a args rel n w = (r, w') \<Longrightarrow> retry_result a args n w w'"
proof (induction n arbitrary: rel w)
  case 0
  then have "w' = w\<lparr>verify_runs := verify_runs w @ map (\<lambda>f. (a, args, f)) [], cleanups := Suc (cleanups w)\<rparr>"
    by (auto simp: cleanup_def io_run)
  then show ?case unfolding retry_result_def by fastforce
next
  case (Suc n)
  define rel' where "rel' = (if Suc n = 1 then False else rel)"
  have run: "runVerify a args rel' w =
      (Inr (verify_outcome w (length (verify_runs w))), w\<lparr>verify_runs := verify_runs w @ [(a, args, rel')]\<rparr>)"
    by (simp add: runVerify_def)
  note loop = Suc.prems [unfolded runTaskWithRetry.simps Let_def, folded rel'_def,
      unfolded bindIO_run run prod.case sum.case]
  show ?case
  proof (cases "verify_outcome w (length (verify_runs w))")
    case None
    with loop have "w' = w\<lparr>verify_runs := verify_runs w @ [(a, args, rel')], cleanups := Suc (cleanups w)\<rparr>"
      by (simp add: cleanup_def io_run)
    then show ?thesis using retry_result_stop by simp
  next
    case (Some msg)
    show ?thesis
    proof (cases "isOkError msg \<or> isFatalError msg")
      case True
      with Some loop have "w' = w\<lparr>verify_runs := verify_runs w @ [(a, args, rel')], cleanups := cleanups w\<rparr>"
        by (auto simp: io_run split: if_splits)
      with True Some show ?thesis
        using retry_result_stop [of "cleanups w" w a args n rel'] by simp
    next
      case False
      with Some loop Suc.IH show ?thesis by (auto intro: retry_result_more)
    qed
  qed
qed

section \<open>Properties\<close>

lemma runTaskWithRetry_grows:
  assumes "runTaskWithRetry a args rel (Suc n) w = (r, w')"
  shows "length (verify_runs w) < length (verify_runs w')"
proof -
  define rel' where "rel' = (if Suc n = 1 then False else rel)"
  let ?w1 = "w\<lparr>verify_runs := verify_runs w @ [(a, args, rel')]\<rparr>"
  have run: "runVerify a args rel' w = (Inr (verify_outcome w (length (verify_runs w))), ?w1)"
    by (simp add: runVerify_def)
  note loop = assms [unfolded runTaskWithRetry.simps Let_def, folded rel'_def,
      unfolded bindIO_run run prod.case sum.case]
  have more: "length (verify_runs w) < length (verify_runs w')"
    if "runTaskWithRetry a args rel2 n ?w1 = (r, w')" for rel2
    using runTaskWithRetry_result [OF that] by (auto simp: retry_result_def)
  show ?thesis
    using loop by (auto simp: cleanup_def io_run dest: more split: option.splits if_splits)
qed

text \<open>C23. With an API key on a supported network, verification never throws into the deployment,
  whatever the service answers: it makes between one and four runs, all for the given
  address and arguments, changes nothing else, and removes the temporary parameter file
  unless the last run ended in an accepted or a fatal error.\<close>

theorem etherscan_verification_bounded:
  assumes "truthy (env_ETHERSCAN_KEY w)" and "network_name w \<in> set SUPPORTED_ETHERSCAN_NETWORKS"
  shows "\<exists>w'. verifyEtherscanContract a args w = (Inr (), w') \<and> retry_result a args 4 w w' \<and>
    length (verify_runs w) < length (verify_runs w')"
proof -
  obtain w' where run: "runTaskWithRetry a args True 4 w = (Inr (), w')"
    using runTaskWithRetry_ok by blast
  have "length (verify_runs w) < length (verify_runs w')"
    using run runTaskWithRetry_grows [of a args True 3 w "Inr ()" w'] by (simp add: eval_nat_numeral)
  with assms run runTaskWithRetry_result [OF run] show ?thesis
    by (simp add: verifyEtherscanContract_def io_run)
qed

theorem etherscan_verification_bounded_witness:
  "\<exists>w'. verifyEtherscanContract ''0xC'' [] ((sampleWorld ''main'')\<lparr>env_ETHERSCAN_KEY := Some ''key''\<rparr>) =
    (Inr (), w')"
  using etherscan_verification_bounded [of "(sampleWorld ''main'')\<lparr>env_ETHERSCAN_KEY := Some ''key''\<rparr>" "''0xC''" "[]"]
  by (auto simp: sampleWorld_def SUPPORTED_ETHERSCAN_NETWORKS_def)

end
