(* ===== verification/MiscUtils.thy ===== *)
theory MiscUtils
  imports World
begin

text \<open>
  \<open>helpers/misc-utils.ts\<close>: the pure utilities the scripts share. \<open>chunk\<close> cuts a batch into
  transactions of bounded size, \<open>filterMapBy\<close> and \<open>omit\<close> select keys of an object,
  \<open>notFalsyOrZeroAddress\<close> decides whether a configured address is usable.
\<close>

section \<open>chunk\<close>

text \<open>
  \<open>arr.slice(i, i + k)\<close>, and the \<open>reduce\<close> over the indices: a slice is appended where the
  index is a multiple of the chunk size. For size 0 the source's \<open>i % 0\<close> is \<open>NaN\<close>, which is
  falsy, so an (empty) slice is appended at every index; \<open>i mod 0 = i\<close> in HOL, hence the
  explicit case.
\<close>

definition slice :: "'a list \<Rightarrow> nat \<Rightarrow> nat \<Rightarrow> 'a list" where
  "slice xs i j = take (j - i) (drop i xs)"

fun chunk_from :: "'a list \<Rightarrow> nat \<Rightarrow> nat list \<Rightarrow> 'a list list \<Rightarrow> 'a list list" where
  "chunk_from arr chunkSize [] prevVal = prevVal"
| "chunk_from arr chunkSize (i # is) prevVal =
     chunk_from arr chunkSize is
       (if chunkSize = 0 \<or> i mod chunkSize = 0
        then prevVal @ [slice arr i (i + chunkSize)] else prevVal)"

definition chunk :: "'a list \<Rightarrow> nat \<Rightarrow> 'a list list" where
  "chunk arr chunkSize = chunk_from arr chunkSize [0..<length arr] []"

text \<open>The reference description: take, then go on with the rest.\<close>

fun blocks :: "nat \<Rightarrow> 'a list \<Rightarrow> 'a list list" where
  "blocks n [] = []"
| "blocks n (x # xs) =
     (if n = 0 then [] else take n (x # xs) # blocks n (drop (n - 1) xs))"

lemma chunk_from_append:
  "chunk_from arr n is pre = pre @ map (\<lambda>i. slice arr i (i + n)) (filter (\<lambda>i. n = 0 \<or> i mod n = 0) is)"
  by (induction "is" arbitrary: pre) auto

lemma chunk_eq_map:
  "0 < n \<Longrightarrow> chunk arr n = map (\<lambda>i. take n (drop i arr)) (filter (\<lambda>i. i mod n = 0) [0..<length arr])"
  by (simp add: chunk_def chunk_from_append slice_def)

lemma filter_mod_upt_shift:
  assumes "n \<le> m" and "0 < n"
  shows "filter (\<lambda>i. i mod n = 0) [0..<m] = 0 # map (\<lambda>i. i + n) (filter (\<lambda>i. i mod n = 0) [0..<m - n])"
proof -
  have split: "[0..<m] = [0..<n] @ [n..<m]"
    using assms(1) by (metis le0 upt_add_eq_append le_add_diff_inverse add.left_neutral)
  have head: "filter (\<lambda>i. i mod n = 0) [0..<n] = [0]"
  proof -
    have "[0..<n] = 0 # [1..<n]" using assms(2) by (simp add: upt_conv_Cons)
    moreover have "filter (\<lambda>i. i mod n = 0) [1..<n] = []" by (auto simp: filter_empty_conv)
    ultimately show ?thesis by simp
  qed
  have tail: "[n..<m] = map (\<lambda>i. i + n) [0..<m - n]"
    using assms(1) by (simp add: map_add_upt)
  show ?thesis
    by (simp add: split head tail filter_map o_def)
qed

lemma chunk_Nil [simp]: "chunk [] n = []"
  by (simp add: chunk_def)

lemma chunk_step:
  assumes "0 < n" and "xs \<noteq> []"
  shows "chunk xs n = take n xs # chunk (drop n xs) n"
proof (cases "n \<le> length xs")
  case True
  then show ?thesis
    using assms(1)
    by (simp add: chunk_eq_map filter_mod_upt_shift o_def add.commute)
next
  case False
  have "[0..<length xs] = 0 # [1..<length xs]"
    using assms(2) by (simp add: upt_conv_Cons)
  moreover have "filter (\<lambda>i. i mod n = 0) [1..<length xs] = []"
    using False by (auto simp: filter_empty_conv)
  ultimately show ?thesis
    using assms(1) False by (simp add: chunk_eq_map)
qed

lemma chunk_blocks: "0 < n \<Longrightarrow> chunk xs n = blocks n xs"
proof (induction n xs rule: blocks.induct)
  case (2 n x xs)
  then show ?case
    by (simp add: chunk_step [of n "x # xs"] drop_Cons')
qed simp

lemma concat_blocks: "0 < n \<Longrightarrow> concat (blocks n xs) = xs"
proof (induction n xs rule: blocks.induct)
  case (2 n x xs)
  then show ?case
    by (simp add: take_Cons')
qed simp

lemma concat_chunk: "0 < n \<Longrightarrow> concat (chunk xs n) = xs"
  by (simp add: chunk_blocks concat_blocks)

lemma blocks_length: "c \<in> set (blocks n xs) \<Longrightarrow> c \<noteq> [] \<and> length c \<le> n"
  by (induction n xs rule: blocks.induct) (auto split: if_splits)

lemma chunk_map: "chunk (map f xs) n = map (map f) (chunk xs n)"
  by (simp add: chunk_def chunk_from_append slice_def drop_map take_map)

lemma length_chunk_map: "length (chunk (map f xs) n) = length (chunk xs n)"
  by (simp add: chunk_map)

section \<open>Objects\<close>

text \<open>
  \<open>Object.keys(raw).filter(fn).reduce(...)\<close>: the selected keys are copied in order.
\<close>

fun copy_keys :: "'v jsobj \<Rightarrow> string list \<Rightarrow> 'v jsobj \<Rightarrow> 'v jsobj" where
  "copy_keys raw [] ob = ob"
| "copy_keys raw (k # ks) ob =
     copy_keys raw ks (case obj_get raw k of None \<Rightarrow> ob | Some v \<Rightarrow> obj_set k v ob)"

definition filterMapBy :: "'v jsobj \<Rightarrow> (string \<Rightarrow> bool) \<Rightarrow> 'v jsobj" where
  "filterMapBy raw fn = copy_keys raw (filter fn (obj_keys raw)) []"

definition omit :: "'v jsobj \<Rightarrow> string list \<Rightarrow> 'v jsobj" where
  "omit ob ks = copy_keys ob (filter (\<lambda>k. k \<notin> set ks) (obj_keys ob)) []"

lemma obj_get_copy_keys:
  "obj_get (copy_keys raw ks ob) k =
     (if k \<in> set ks \<and> obj_get raw k \<noteq> None then obj_get raw k else obj_get ob k)"
  by (induction ks arbitrary: ob) (auto split: option.splits)

lemma obj_get_filterMapBy: "obj_get (filterMapBy raw fn) k = (if fn k then obj_get raw k else None)"
  using obj_get_None_iff [of raw k] by (auto simp: filterMapBy_def obj_get_copy_keys)

lemma obj_get_omit: "obj_get (omit ob ks) k = (if k \<in> set ks then None else obj_get ob k)"
  using obj_get_None_iff [of ob k] by (auto simp: omit_def obj_get_copy_keys)

lemma copy_keys_append:
  assumes "distinct (map fst ob @ ks)" and "set ks \<subseteq> set (obj_keys raw)"
  shows "copy_keys raw ks ob = ob @ map (\<lambda>k. (k, the (obj_get raw k))) ks"
  using assms
proof (induction ks arbitrary: ob)
  case (Cons k ks)
  then obtain v where v: "obj_get raw k = Some v"
    by (metis list.set_intros(1) obj_get_None_iff option.exhaust subsetD)
  from Cons.prems(1) have "k \<notin> fst ` set ob" by auto
  then have set_append: "obj_set k v ob = ob @ [(k, v)]"
    unfolding obj_set_def by (induction ob) auto
  have "copy_keys raw ks (ob @ [(k, v)]) = (ob @ [(k, v)]) @ map (\<lambda>k. (k, the (obj_get raw k))) ks"
    by (rule Cons.IH) (use Cons.prems in auto)
  with v set_append show ?case by simp
qed simp

section \<open>Usable addresses\<close>

text \<open>\<open>isZeroAddress\<close> of ethereumjs-util compares with the zero address.\<close>

definition notFalsyOrZeroAddress :: "world \<Rightarrow> string option \<Rightarrow> bool" where
  "notFalsyOrZeroAddress w a =
     (if \<not> truthy a then False else is_address w (the a) \<and> the a \<noteq> ZERO_ADDRESS)"

section \<open>printContracts\<close>

text \<open>The entries of the registry on the current network, as listed by \<open>printContracts\<close>; the
  file's keys are given by \<open>ids\<close>.\<close>

definition printContracts :: "string list \<Rightarrow> world \<Rightarrow> (string \<times> address) list" where
  "printContracts ids w =
     List.map_filter (\<lambda>i. map_option (\<lambda>e. (i, entry_address e)) (json_db w i (network_name w))) ids"

section \<open>Properties\<close>

lemma blocks_shape:
  "0 < n \<Longrightarrow> (\<forall>c \<in> set (butlast (blocks n xs)). length c = n) \<and>
     length (blocks n xs) = (length xs + n - 1) div n"
proof (induction n xs rule: blocks.induct)
  case (2 n x xs)
  let ?rest = "drop (n - 1) xs"
  have IH: "\<forall>c \<in> set (butlast (blocks n ?rest)). length c = n"
    "length (blocks n ?rest) = (length ?rest + n - 1) div n"
    using 2 by simp_all
  have last: "length (take n (x # xs)) = n" if "blocks n ?rest \<noteq> []"
  proof -
    from that have "?rest \<noteq> []" by auto
    then have "n - 1 < length xs" by (metis drop_eq_Nil not_le)
    then show ?thesis by simp
  qed
  have len: "Suc ((length ?rest + n - 1) div n) = (length (x # xs) + n - 1) div n"
  proof (cases "n \<le> length (x # xs)")
    case True
    with 2(2) have "length (x # xs) + n - 1 = (length ?rest + n - 1) + n"
      unfolding length_drop length_Cons by arith
    with 2(2) show ?thesis by (simp only: div_add_self2 Suc_eq_plus1)
  next
    case False
    then have "length (x # xs) + n - 1 = length xs + n" "length ?rest = 0" "length xs < n" by simp_all
    with 2(2) show ?thesis by (simp only: div_add_self2 Suc_eq_plus1 add_0 div_less diff_less less_one)
  qed
  have step: "blocks n (x # xs) = take n (x # xs) # blocks n ?rest" using 2(2) by simp
  have "\<forall>c \<in> set (butlast (blocks n (x # xs))). length c = n"
    unfolding step using IH(1) last by (simp del: take_Suc_Cons length_take)
  moreover have "length (blocks n (x # xs)) = (length (x # xs) + n - 1) div n"
    unfolding step using IH(2) len by (metis length_Cons)
  ultimately show ?case ..
qed simp

text \<open>Cutting a batch into chunks of a positive size loses, reorders and duplicates nothing:
  the chunks in order are the batch, none is empty, all but the last have exactly the given
  size and the last is not larger, and their number is the rounded-up quotient.\<close>

theorem chunk_partitions:
  assumes "0 < n"
  shows "concat (chunk xs n) = xs \<and> (\<forall>c \<in> set (chunk xs n). c \<noteq> [] \<and> length c \<le> n) \<and>
    (\<forall>c \<in> set (butlast (chunk xs n)). length c = n) \<and>
    length (chunk xs n) = (length xs + n - 1) div n"
  using assms blocks_length [of _ n xs] blocks_shape [OF assms, of xs]
  by (auto simp add: chunk_blocks concat_blocks)

theorem chunk_partitions_witness:
  "concat (chunk [1..<12] 4) = [1..<12] \<and> length (chunk [1..<12] 4) = 3"
  using chunk_partitions [of 4 "[1..<12]"] by simp

text \<open>\<open>filterMapBy\<close> keeps exactly the keys its predicate accepts and \<open>omit\<close> exactly the keys it
  is not told to leave out, with their values and in the order of the object.\<close>

theorem filterMapBy_omit_select:
  "obj_get (filterMapBy raw fn) k = (if fn k then obj_get raw k else None) \<and>
   obj_get (omit raw ks) k = (if k \<in> set ks then None else obj_get raw k) \<and>
   (distinct (obj_keys raw) \<longrightarrow>
      obj_keys (filterMapBy raw fn) = filter fn (obj_keys raw) \<and>
      obj_keys (omit raw ks) = filter (\<lambda>k. k \<notin> set ks) (obj_keys raw))"
proof -
  have keys: "obj_keys (copy_keys raw sel []) = sel" if "distinct sel" "set sel \<subseteq> set (obj_keys raw)" for sel
    using copy_keys_append [of "[]" sel raw] that by (simp add: obj_keys_def comp_def)
  have "obj_keys (copy_keys raw (filter P (obj_keys raw)) []) = filter P (obj_keys raw)"
    if "distinct (obj_keys raw)" for P
    using that by (intro keys) auto
  then show ?thesis
    by (simp add: obj_get_filterMapBy obj_get_omit) (simp add: filterMapBy_def omit_def)
qed

theorem filterMapBy_omit_select_witness:
  "obj_keys (omit [(''DAI'', 1::nat), (''WETH'', 2), (''USDC'', 3)] [''WETH'', ''ETH'']) = [''DAI'', ''USDC'']"
  using filterMapBy_omit_select [of "[(''DAI'', 1::nat), (''WETH'', 2), (''USDC'', 3)]" _ _ "[''WETH'', ''ETH'']"]
  by (simp add: obj_keys_def)

end
