(* ===== verification/ContractsHelpers.thy ===== *)
theory ContractsHelpers
  imports Etherscan MiscUtils
begin

text \<open>
  \<open>helpers/contracts-helpers.ts\<close>: recording addresses in \<open>deployed-contracts.json\<close>, the signers,
  deployment with optional verification, linking of libraries into creation code, and the
  selection of a configuration value for a network or a pool.

  The registry is written through \<open>lowdb\<close> under the path \<open>id.network\<close>; an identifier is one
  path segment (no contract identifier of the repository contains a dot), so the registry is
  a map from identifier and network to an entry.
\<close>

section \<open>The registry\<close>

definition db_put :: "string \<Rightarrow> db_entry \<Rightarrow> world \<Rightarrow> world" where
  "db_put key e w = w\<lparr>json_db := (json_db w)(key := ((json_db w key)(network_name w \<mapsto> e)))\<rparr>"

definition db_get :: "string \<Rightarrow> world \<Rightarrow> db_entry option" where
  "db_get key w = json_db w key (network_name w)"

text \<open>\<open>deployTransaction.from\<close> of a handle that was not returned by \<open>deploy\<close> is a property of
  \<open>undefined\<close>.\<close>

definition registerContractInJsonDb :: "string \<Rightarrow> handle \<Rightarrow> unit script" where
  "registerContractInJsonDb contractId contractInstance =
     (case h_deployer contractInstance of
        None \<Rightarrow> throwIO (TypeError ''deployTransaction is undefined'')
      | Some from \<Rightarrow> modifyIO (db_put contractId
          \<lparr>entry_address = h_address contractInstance, entry_deployer = Some from\<rparr>))"

definition insertContractAddressInDb :: "string \<Rightarrow> address \<Rightarrow> unit script" where
  "insertContractAddressInDb key a =
     modifyIO (db_put key \<lparr>entry_address = a, entry_deployer = None\<rparr>)"

definition rawInsertContractAddressInDb :: "string \<Rightarrow> address \<Rightarrow> unit script" where
  "rawInsertContractAddressInDb key a =
     modifyIO (db_put key \<lparr>entry_address = a, entry_deployer = None\<rparr>)"

section \<open>Signers\<close>

definition getEthersSigners :: "address list script" where
  "getEthersSigners =
     bindIO (getsIO (\<lambda>w. (node_signers w, usingDefender w))) (\<lambda>(ethersSigners, defender).
     if defender then
       bindIO getDefenderRelaySigner (\<lambda>d. returnIO (d # drop 1 ethersSigners))
     else returnIO ethersSigners)"

definition getEthersSignersAddresses :: "address list script" where
  "getEthersSignersAddresses = getEthersSigners"

definition nth_opt :: "'a list \<Rightarrow> nat \<Rightarrow> 'a option" where
  "nth_opt xs i = (if i < length xs then Some (xs ! i) else None)"

definition getFirstSigner :: "address option script" where
  "getFirstSigner = bindIO getEthersSigners (\<lambda>ss. returnIO (nth_opt ss 0))"

section \<open>Deployment\<close>

definition verifyContract :: "string \<Rightarrow> handle \<Rightarrow> arg list \<Rightarrow> handle script" where
  "verifyContract key h args =
     bindIO (getsIO usingTenderly) (\<lambda>tenderly.
     thenIO (if tenderly then verifyAtTenderly key (h_address h) else returnIO ())
    (thenIO (verifyEtherscanContract (h_address h) args)
      (returnIO h)))"

definition waitForDeployTransaction :: "handle \<Rightarrow> unit script" where
  "waitForDeployTransaction h =
     requireIO (h_deployer h \<noteq> None) (TypeError ''deployTransaction is undefined'')"

definition withSaveAndVerify :: "handle \<Rightarrow> string \<Rightarrow> arg list \<Rightarrow> bool \<Rightarrow> handle script" where
  "withSaveAndVerify h key args verify =
     thenIO (waitForDeployTransaction h)
    (thenIO (registerContractInJsonDb key h)
    (thenIO (if verify then bindIO (verifyContract key h args) (\<lambda>_. returnIO ()) else returnIO ())
      (returnIO h)))"

definition deployContract :: "string \<Rightarrow> arg list \<Rightarrow> handle script" where
  "deployContract contractName args =
     bindIO getFirstSigner (\<lambda>signer.
     bindIO (deployNew signer contractName [] args) (\<lambda>h.
     thenIO (waitForDeployTransaction h)
    (thenIO (registerContractInJsonDb contractName h)
      (returnIO h))))"

text \<open>\<open>getContractAt\<close> connects with the node's first signer.\<close>

definition getContract :: "string \<Rightarrow> address \<Rightarrow> handle script" where
  "getContract contractName a =
     bindIO (getsIO node_signers) (\<lambda>ss. returnIO (connectAt contractName a (nth_opt ss 0)))"

section \<open>Linking\<close>

text \<open>\<open>bytecode.substr(0, 2 + start * 2) + addr.substr(2) + bytecode.substr(2 + (start + length) * 2)\<close>\<close>

definition applyFixup :: "address \<Rightarrow> string \<Rightarrow> fixup \<Rightarrow> string" where
  "applyFixup addr bc fx =
     take (2 + fix_start fx * 2) bc @ drop 2 addr @
     drop (2 + (fix_start fx + fix_length fx) * 2) bc"

definition linkLibrary :: "(string \<times> address) list \<Rightarrow> string \<Rightarrow> string \<times> fixup list \<Rightarrow> string" where
  "linkLibrary libs bc = (\<lambda>(libName, fixups).
     case obj_get libs libName of
       None \<Rightarrow> bc
     | Some addr \<Rightarrow> foldl (applyFixup addr) bc fixups)"

definition linkBytecode :: "artifact \<Rightarrow> (string \<times> address) list \<Rightarrow> string" where
  "linkBytecode art libs =
     foldl (\<lambda>bc (fileName, fileReferences). foldl (linkLibrary libs) bc fileReferences)
       (bytecode art) (linkReferences art)"

text \<open>Creation code must be a hexadecimal string of whole bytes; an unresolved placeholder is not.\<close>

definition isHexDigit :: "char \<Rightarrow> bool" where
  "isHexDigit c \<longleftrightarrow> c \<in> set ''0123456789abcdefABCDEF''"

definition isBytecode :: "string \<Rightarrow> bool" where
  "isBytecode s \<longleftrightarrow> take 2 s = ''0x'' \<and> list_all isHexDigit (drop 2 s) \<and> even (length s)"

text \<open>\<open>getContractFactory(abi, bytecode)\<close> and \<open>factory.connect(signer).deploy()\<close>.\<close>

definition deployLinked :: "string \<Rightarrow> (string \<times> address) list \<Rightarrow> handle script" where
  "deployLinked name libs =
     bindIO (getsIO (\<lambda>w. linkBytecode (artifact_of w name) libs)) (\<lambda>linked.
     thenIO (requireIO (isBytecode linked) (InvalidArgument ''bytecode''))
    (bindIO getFirstSigner (\<lambda>signer. deployNew signer name libs [])))"

section \<open>Configuration values\<close>

type_synonym 'a paramsPerNetwork = "'a jsobj"

definition getParamPerNetwork :: "'a paramsPerNetwork \<Rightarrow> string \<Rightarrow> world \<Rightarrow> 'a option" where
  "getParamPerNetwork param network w =
     (if truthy (env_FORK w) then obj_get param (the (env_FORK w))
      else if network = ''coverage'' then obj_get param ''coverage''
      else if network \<in> {''buidlerevm'', ''hardhat'', ''geth'', ''localhost''} then obj_get param ''buidlerevm''
      else if network \<in> {''kovan'', ''ropsten'', ''main'', ''tenderly'', ''goerli'',
                         ''ftm'', ''tenderlyFTM'', ''ftm_test''} then obj_get param network
      else None)"

definition getParamPerPool :: "'a jsobj \<Rightarrow> string \<Rightarrow> 'a option" where
  "getParamPerPool params pool =
     (if pool = ''proto'' then obj_get params ''proto''
      else if pool = ''fantom'' then obj_get params ''fantom''
      else obj_get params ''proto'')"

text \<open>A configured value on the current network, as the scripts read it.\<close>

definition paramHere :: "'a paramsPerNetwork \<Rightarrow> 'a option script" where
  "paramHere param = getsIO (\<lambda>w. getParamPerNetwork param (network_name w) w)"

section \<open>Registry lemmas\<close>

lemma db_get_put [simp]: "db_get k (db_put k' e w) = (if k = k' then Some e else db_get k w)"
  by (simp add: db_get_def db_put_def)

lemma db_put_other_network [simp]:
  "n \<noteq> network_name w \<Longrightarrow> json_db (db_put k e w) k' n = json_db w k' n"
  by (simp add: db_put_def)

lemma db_put_frame [simp]:
  "network_name (db_put k e w) = network_name w"
  "contracts (db_put k e w) = contracts w"
  "providers (db_put k e w) = providers w"
  "creations (db_put k e w) = creations w"
  "create_address (db_put k e w) = create_address w"
  "is_address (db_put k e w) = is_address w"
  by (simp_all add: db_put_def)

section \<open>Linking\<close>

text \<open>The places to fill, with the address that belongs there, in the order they are filled.\<close>

definition fixes_of :: "artifact \<Rightarrow> (string \<times> address) list \<Rightarrow> (address \<times> fixup) list" where
  "fixes_of art libs =
     concat (map (\<lambda>(fileName, fileReferences).
       concat (map (\<lambda>(libName, fixups). case obj_get libs libName of
           None \<Rightarrow> [] | Some addr \<Rightarrow> map (\<lambda>fx. (addr, fx)) fixups) fileReferences)) (linkReferences art))"

lemma foldl_concat_map: "foldl f a (concat (map g xs)) = foldl (\<lambda>a x. foldl f a (g x)) a xs"
  by (induction xs arbitrary: a) simp_all

lemma linkBytecode_fixes:
  "linkBytecode art libs = foldl (\<lambda>bc (addr, fx). applyFixup addr bc fx) (bytecode art) (fixes_of art libs)"
proof -
  have lib: "linkLibrary libs = (\<lambda>bc x. foldl (\<lambda>bc (addr, fx). applyFixup addr bc fx) bc
      (case x of (libName, fixups) \<Rightarrow>
        case obj_get libs libName of None \<Rightarrow> [] | Some addr \<Rightarrow> map (\<lambda>fx. (addr, fx)) fixups))"
    by (auto simp: linkLibrary_def fun_eq_iff foldl_map split: option.split)
  show ?thesis
    unfolding linkBytecode_def fixes_of_def foldl_concat_map lib
    by (simp add: case_prod_unfold foldl_concat_map)
qed

text \<open>A place fits when it lies in the code and the address has its length.\<close>

definition fits :: "nat \<Rightarrow> address \<times> fixup \<Rightarrow> bool" where
  "fits n = (\<lambda>(addr, fx). length addr = 2 + 2 * fix_length fx \<and> 2 + 2 * (fix_start fx + fix_length fx) \<le> n)"

definition covers :: "nat \<Rightarrow> address \<times> fixup \<Rightarrow> bool" where
  "covers i = (\<lambda>(addr, fx). 2 + 2 * fix_start fx \<le> i \<and> i < 2 + 2 * (fix_start fx + fix_length fx))"

lemma applyFixup_nth:
  assumes "fits (length bc) (addr, fx)" and "i < length bc"
  shows "length (applyFixup addr bc fx) = length bc"
    and "applyFixup addr bc fx ! i = (if covers i (addr, fx) then addr ! (i - 2 * fix_start fx) else bc ! i)"
  using assms
  by (auto simp: applyFixup_def fits_def covers_def nth_append algebra_simps)
    (rule arg_cong [where f = "(!) addr"], arith, rule arg_cong [where f = "(!) bc"], arith)

lemma applyFixups_nth:
  "\<forall>p \<in> set ps. fits (length bc) p \<Longrightarrow> i < length bc \<Longrightarrow>
   (let linked = foldl (\<lambda>bc (addr, fx). applyFixup addr bc fx) bc ps in
    length linked = length bc \<and>
    (if \<exists>p \<in> set ps. covers i p
     then \<exists>(addr, fx) \<in> set ps. covers i (addr, fx) \<and> linked ! i = addr ! (i - 2 * fix_start fx)
     else linked ! i = bc ! i))"
proof (induction ps rule: rev_induct)
  case Nil
  then show ?case by simp
next
  case (snoc p ps)
  obtain addr fx where p: "p = (addr, fx)" by fastforce
  let ?l = "foldl (\<lambda>bc (addr, fx). applyFixup addr bc fx) bc ps"
  from snoc have IH: "length ?l = length bc"
    "if \<exists>p \<in> set ps. covers i p
     then \<exists>(addr, fx) \<in> set ps. covers i (addr, fx) \<and> ?l ! i = addr ! (i - 2 * fix_start fx)
     else ?l ! i = bc ! i"
    by (simp_all add: Let_def)
  have "fits (length ?l) (addr, fx)" "i < length ?l" using snoc.prems IH(1) p by simp_all
  note nth = applyFixup_nth [OF this]
  show ?case
  proof (cases "covers i (addr, fx)")
    case True
    then show ?thesis using nth IH(1) by (auto simp: p Let_def)
  next
    case False
    then show ?thesis using nth IH by (auto simp: p Let_def split: if_splits)
  qed
qed

definition sampleArtifact :: artifact where
  "sampleArtifact = \<lparr>bytecode = ''0x60____73'',
     linkReferences = [(''Lib.sol'', [(''Lib'', [\<lparr>fix_start = 1, fix_length = 2\<rparr>])])]\<rparr>"

text \<open>Linking keeps the length of the creation code and every character outside the places of
  the given libraries; every character of such a place is the corresponding one of an address
  given for it. (The places lie inside the code and have the length of the addresses.)\<close>

theorem linkBytecode_links:
  assumes "\<forall>p \<in> set (fixes_of art libs). fits (length (bytecode art)) p" and "i < length (bytecode art)"
  shows "length (linkBytecode art libs) = length (bytecode art) \<and>
    (if \<exists>p \<in> set (fixes_of art libs). covers i p
     then \<exists>(addr, fx) \<in> set (fixes_of art libs). covers i (addr, fx) \<and>
       linkBytecode art libs ! i = addr ! (i - 2 * fix_start fx)
     else linkBytecode art libs ! i = bytecode art ! i)"
  using applyFixups_nth [OF assms] by (simp add: linkBytecode_fixes Let_def)

theorem linkBytecode_links_witness:
  "length (linkBytecode sampleArtifact [(''Lib'', ''0xabcd'')]) = 10"
  using linkBytecode_links [of sampleArtifact "[(''Lib'', ''0xabcd'')]" 0]
  by (simp add: sampleArtifact_def fixes_of_def fits_def)

text \<open>A contract is in the registry before it is verified: when verification is asked for
  without an API key, \<open>withSaveAndVerify\<close> throws, and the world it leaves has the contract
  registered under its key and no verification run.\<close>

theorem save_precedes_verification:
  assumes "h_deployer h = Some d" and "\<not> usingTenderly w" and "\<not> truthy (env_ETHERSCAN_KEY w)"
  shows "withSaveAndVerify h key args True w =
    (Inl (Error ''Missing process.env.ETHERSCAN_KEY.''),
     db_put key \<lparr>entry_address = h_address h, entry_deployer = Some d\<rparr> w)"
  using assms
  by (simp add: withSaveAndVerify_def waitForDeployTransaction_def registerContractInJsonDb_def
      verifyContract_def verifyEtherscanContract_def usingTenderly_def io_run db_put_def)

theorem save_precedes_verification_witness:
  "fst (withSaveAndVerify \<lparr>h_address = ''0xC'', h_factory = ''LendingPool'', h_signer = Some ''0xA1'',
      h_deployer = Some ''0xA1''\<rparr> ''LendingPoolImpl'' [] True (sampleWorld ''main'')) =
    Inl (Error ''Missing process.env.ETHERSCAN_KEY.'')"
  using save_precedes_verification [of "\<lparr>h_address = ''0xC'', h_factory = ''LendingPool'',
      h_signer = Some ''0xA1'', h_deployer = Some ''0xA1''\<rparr>" "''0xA1''" "sampleWorld ''main''" "''LendingPoolImpl''" "[]"]
  by (simp add: usingTenderly_def sampleWorld_def)

end
