(* ===== verification/Getters.thy ===== *)
theory Getters
  imports ContractsHelpers
begin

text \<open>
  \<open>helpers/contracts-getters.ts\<close>: reading deployed contracts back from the registry. Every
  getter connects a contract interface, with the first signer, to the address it is given or,
  when that is \<open>undefined\<close> or empty, to the one registered under its identifier on the
  current network; with neither, reading \<open>address\<close> of \<open>undefined\<close> throws. The interface is
  named by the contract it was generated from (\<open>X__factory\<close>).
\<close>

section \<open>Reading the registry\<close>

text \<open>\<open>(await getDb().get(`key.network`).value()).address\<close>\<close>

definition registeredAddress :: "string \<Rightarrow> address script" where
  "registeredAddress key =
     bindIO (getsIO (db_get key)) (\<lambda>entry. case entry of
       None \<Rightarrow> throwIO (TypeError key)
     | Some e \<Rightarrow> returnIO (entry_address e))"

text \<open>\<open>address || (...).address\<close>, then \<open>connect\<close> with the first signer.\<close>

definition connectOrRegistered :: "string \<Rightarrow> string option \<Rightarrow> string \<Rightarrow> handle script" where
  "connectOrRegistered factory addr key =
     bindIO (if truthy addr then returnIO (the addr) else registeredAddress key) (\<lambda>a.
     bindIO getFirstSigner (\<lambda>signer. returnIO (connectAt factory a signer)))"

text \<open>\<open>db?.address\<close>\<close>

definition registeredAddressOrUndefined :: "string \<Rightarrow> address option script" where
  "registeredAddressOrUndefined key =
     getsIO (\<lambda>w. map_option entry_address (db_get key w))"

section \<open>Protocol contracts\<close>

definition getLendingPoolAddressesProvider :: "string option \<Rightarrow> handle script" where
  "getLendingPoolAddressesProvider addr = connectOrRegistered ''LendingPoolAddressesProvider'' addr ''LendingPoolAddressesProvider''"

definition getLendingPoolConfiguratorProxy :: "string option \<Rightarrow> handle script" where
  "getLendingPoolConfiguratorProxy addr = connectOrRegistered ''LendingPoolConfigurator'' addr ''LendingPoolConfigurator''"

definition getSturdyProtocolDataProvider :: "string option \<Rightarrow> handle script" where
  "getSturdyProtocolDataProvider addr = connectOrRegistered ''SturdyProtocolDataProvider'' addr ''SturdyProtocolDataProvider''"

definition getInterestRateStrategy :: "string option \<Rightarrow> handle script" where
  "getInterestRateStrategy addr = connectOrRegistered ''DefaultReserveInterestRateStrategy'' addr ''DefaultReserveInterestRateStrategy''"

definition getReserveLogic :: "string option \<Rightarrow> handle script" where
  "getReserveLogic addr = connectOrRegistered ''ReserveLogic'' addr ''ReserveLogic''"

definition getStableAndVariableTokensHelper :: "string option \<Rightarrow> handle script" where
  "getStableAndVariableTokensHelper addr = connectOrRegistered ''StableAndVariableTokensHelper'' addr ''StableAndVariableTokensHelper''"

definition getATokensAndRatesHelper :: "string option \<Rightarrow> handle script" where
  "getATokensAndRatesHelper addr = connectOrRegistered ''ATokensAndRatesHelper'' addr ''ATokensAndRatesHelper''"

definition getLendingPoolImpl :: "string option \<Rightarrow> handle script" where
  "getLendingPoolImpl addr = connectOrRegistered ''LendingPool'' addr ''LendingPoolImpl''"

definition getLendingPoolConfiguratorImpl :: "string option \<Rightarrow> handle script" where
  "getLendingPoolConfiguratorImpl addr = connectOrRegistered ''LendingPoolConfigurator'' addr ''LendingPoolConfiguratorImpl''"

definition getLendingPoolCollateralManagerImpl :: "string option \<Rightarrow> handle script" where
  "getLendingPoolCollateralManagerImpl addr = connectOrRegistered ''LendingPoolCollateralManager'' addr ''LendingPoolCollateralManagerImpl''"

definition getLendingPoolCollateralManager :: "string option \<Rightarrow> handle script" where
  "getLendingPoolCollateralManager addr = connectOrRegistered ''LendingPoolCollateralManager'' addr ''LendingPoolCollateralManager''"

definition getLendingPool :: "string option \<Rightarrow> handle script" where
  "getLendingPool addr = connectOrRegistered ''LendingPool'' addr ''LendingPool''"

definition getWalletProvider :: "string option \<Rightarrow> handle script" where
  "getWalletProvider addr = connectOrRegistered ''WalletBalanceProvider'' addr ''WalletBalanceProvider''"

definition getUiPoolDataProvider :: "string option \<Rightarrow> handle script" where
  "getUiPoolDataProvider addr = connectOrRegistered ''UiPoolDataProvider'' addr ''UiPoolDataProvider''"

definition getUiIncentiveDataProvider :: "string option \<Rightarrow> handle script" where
  "getUiIncentiveDataProvider addr = connectOrRegistered ''UiIncentiveDataProvider'' addr ''UiIncentiveDataProvider''"

definition getSturdyIncentivesControllerImpl :: "string option \<Rightarrow> handle script" where
  "getSturdyIncentivesControllerImpl addr = connectOrRegistered ''StakedTokenIncentivesController'' addr ''StakedTokenIncentivesControllerImpl''"

definition getSturdyIncentivesController :: "string option \<Rightarrow> handle script" where
  "getSturdyIncentivesController addr = connectOrRegistered ''StakedTokenIncentivesController'' addr ''StakedTokenIncentivesController''"

definition getSturdyTokenImpl :: "string option \<Rightarrow> handle script" where
  "getSturdyTokenImpl addr = connectOrRegistered ''SturdyToken'' addr ''SturdyTokenImpl''"

definition getSturdyToken :: "string option \<Rightarrow> handle script" where
  "getSturdyToken addr = connectOrRegistered ''SturdyToken'' addr ''SturdyToken''"

definition getStableYieldDistributionImpl :: "string option \<Rightarrow> handle script" where
  "getStableYieldDistributionImpl addr = connectOrRegistered ''StableYieldDistribution'' addr ''StableYieldDistributionImpl''"

definition getLDOStableYieldDistribution :: "string option \<Rightarrow> handle script" where
  "getLDOStableYieldDistribution addr = connectOrRegistered ''StableYieldDistribution'' addr ''LDOStableYieldDistribution''"

definition getVariableYieldDistributionImpl :: "string option \<Rightarrow> handle script" where
  "getVariableYieldDistributionImpl addr = connectOrRegistered ''VariableYieldDistribution'' addr ''VariableYieldDistributionImpl''"

definition getVariableYieldDistribution :: "string option \<Rightarrow> handle script" where
  "getVariableYieldDistribution addr = connectOrRegistered ''VariableYieldDistribution'' addr ''VariableYieldDistribution''"

definition getYieldDistributorAdapter :: "string option \<Rightarrow> handle script" where
  "getYieldDistributorAdapter addr = connectOrRegistered ''YieldDistributorAdapter'' addr ''YieldDistributorAdapter''"

definition getCollateralAdapter :: "string option \<Rightarrow> handle script" where
  "getCollateralAdapter addr = connectOrRegistered ''CollateralAdapter'' addr ''CollateralAdapter''"

definition getFTMLiquidator :: "string option \<Rightarrow> handle script" where
  "getFTMLiquidator addr = connectOrRegistered ''FTMLiquidator'' addr ''FTMLiquidator''"

definition getETHLiquidator :: "string option \<Rightarrow> handle script" where
  "getETHLiquidator addr = connectOrRegistered ''ETHLiquidator'' addr ''ETHLiquidator''"

definition getDeployVaultHelper :: "string option \<Rightarrow> handle script" where
  "getDeployVaultHelper addr = connectOrRegistered ''DeployVaultHelper'' addr ''DeployVaultHelper''"

definition getYieldManager :: "string option \<Rightarrow> handle script" where
  "getYieldManager addr = connectOrRegistered ''YieldManager'' addr ''YieldManager''"

definition getLeverageSwapManager :: "string option \<Rightarrow> handle script" where
  "getLeverageSwapManager addr = connectOrRegistered ''LeverageSwapManager'' addr ''LeverageSwapManager''"

definition getSturdyAPRDataProvider :: "string option \<Rightarrow> handle script" where
  "getSturdyAPRDataProvider addr = connectOrRegistered ''SturdyAPRDataProvider'' addr ''SturdyAPRDataProvider''"

definition getVaultWhitelist :: "string option \<Rightarrow> handle script" where
  "getVaultWhitelist addr = connectOrRegistered ''VaultWhitelist'' addr ''VaultWhitelist''"

definition getERC4626Router :: "string option \<Rightarrow> handle script" where
  "getERC4626Router addr = connectOrRegistered ''ERC4626Router'' addr ''ERC4626Router''"

section \<open>Tokens\<close>

definition getAToken :: "string option \<Rightarrow> handle script" where
  "getAToken addr = connectOrRegistered ''AToken'' addr ''AToken''"

definition getATokenForCollateral :: "string option \<Rightarrow> handle script" where
  "getATokenForCollateral addr = connectOrRegistered ''ATokenForCollateral'' addr ''ATokenForCollateral''"

definition getStableDebtToken :: "string option \<Rightarrow> handle script" where
  "getStableDebtToken addr = connectOrRegistered ''StableDebtToken'' addr ''StableDebtToken''"

definition getVariableDebtToken :: "string option \<Rightarrow> handle script" where
  "getVariableDebtToken addr = connectOrRegistered ''VariableDebtToken'' addr ''VariableDebtToken''"

definition getMintableERC20 :: "address \<Rightarrow> handle script" where
  "getMintableERC20 addr = connectOrRegistered ''MintableERC20'' (Some addr) ''MintableERC20''"

definition getSwapinERC20 :: "address \<Rightarrow> handle script" where
  "getSwapinERC20 addr = connectOrRegistered ''SwapinERC20'' (Some addr) ''SwapinERC20''"

definition getIErc20Detailed :: "address \<Rightarrow> handle script" where
  "getIErc20Detailed addr = connectOrRegistered ''IERC20Detailed'' (Some addr) ''IERC20Detailed''"

definition getGenericATokenImpl :: "string option \<Rightarrow> handle script" where
  "getGenericATokenImpl addr = connectOrRegistered ''AToken'' addr ''AToken''"

definition getCollateralATokenImpl :: "string option \<Rightarrow> handle script" where
  "getCollateralATokenImpl addr = connectOrRegistered ''ATokenForCollateral'' addr ''ATokenForCollateral''"

section \<open>Oracles\<close>

definition getPriceOracle :: "string option \<Rightarrow> handle script" where
  "getPriceOracle addr = connectOrRegistered ''PriceOracle'' addr ''PriceOracle''"

definition getLendingRateOracle :: "string option \<Rightarrow> handle script" where
  "getLendingRateOracle addr = connectOrRegistered ''LendingRateOracle'' addr ''LendingRateOracle''"

definition getSturdyOracle :: "string option \<Rightarrow> handle script" where
  "getSturdyOracle addr = connectOrRegistered ''SturdyOracle'' addr ''SturdyOracle''"

definition getBooOracle :: "string option \<Rightarrow> handle script" where
  "getBooOracle addr = connectOrRegistered ''BooOracle'' addr ''BooOracle''"

definition getTombOracle :: "string option \<Rightarrow> handle script" where
  "getTombOracle addr = connectOrRegistered ''TombOracle'' addr ''TombOracle''"

definition getTombFtmLPOracle :: "string option \<Rightarrow> handle script" where
  "getTombFtmLPOracle addr = connectOrRegistered ''TombFtmLPOracle'' addr ''TombFtmLPOracle''"

definition getTombMiMaticLPOracle :: "string option \<Rightarrow> handle script" where
  "getTombMiMaticLPOracle addr = connectOrRegistered ''TombMiMaticLPOracle'' addr ''TombMiMaticLPOracle''"

definition getBasedOracle :: "string option \<Rightarrow> handle script" where
  "getBasedOracle addr = connectOrRegistered ''BasedOracle'' addr ''BasedOracle''"

definition getBasedMiMaticLPOracle :: "string option \<Rightarrow> handle script" where
  "getBasedMiMaticLPOracle addr = connectOrRegistered ''BasedMiMaticLPOracle'' addr ''BasedMiMaticLPOracle''"

definition getBeetsOracle :: "string option \<Rightarrow> handle script" where
  "getBeetsOracle addr = connectOrRegistered ''BeetsOracle'' addr ''BeetsOracle''"

definition getFBeetsOracle :: "string option \<Rightarrow> handle script" where
  "getFBeetsOracle addr = connectOrRegistered ''FBeetsOracle'' addr ''FBeetsOracle''"

definition getRETHWstETHLPOracle :: "string option \<Rightarrow> handle script" where
  "getRETHWstETHLPOracle addr = connectOrRegistered ''CrvREthWstETHOracle'' addr ''RETHWstETHLPOracle''"

section \<open>Vaults\<close>

definition getLidoVaultImpl :: "string option \<Rightarrow> handle script" where
  "getLidoVaultImpl addr = connectOrRegistered ''LidoVault'' addr ''LidoVaultImpl''"

definition getLidoVault :: "string option \<Rightarrow> handle script" where
  "getLidoVault addr = connectOrRegistered ''LidoVault'' addr ''LidoVault''"

definition getYearnRETHWstETHVaultImpl :: "string option \<Rightarrow> handle script" where
  "getYearnRETHWstETHVaultImpl addr = connectOrRegistered ''YearnRETHWstETHVault'' addr ''YearnRETHWstETHVaultImpl''"

definition getYearnRETHWstETHVault :: "string option \<Rightarrow> handle script" where
  "getYearnRETHWstETHVault addr = connectOrRegistered ''YearnRETHWstETHVault'' addr ''YearnRETHWstETHVault''"

definition getConvexRocketPoolETHVaultImpl :: "string option \<Rightarrow> handle script" where
  "getConvexRocketPoolETHVaultImpl addr = connectOrRegistered ''ConvexCurveLPVault'' addr ''ConvexRocketPoolETHVaulttImpl''"

definition getConvexRocketPoolETHVault :: "string option \<Rightarrow> handle script" where
  "getConvexRocketPoolETHVault addr = connectOrRegistered ''ConvexCurveLPVault'' addr ''ConvexRocketPoolETHVault''"

definition getConvexFRAX3CRVVault :: "string option \<Rightarrow> handle script" where
  "getConvexFRAX3CRVVault addr = connectOrRegistered ''ConvexCurveLPVault'' addr ''ConvexFRAX3CRVVault''"

definition getConvexSTETHVault :: "string option \<Rightarrow> handle script" where
  "getConvexSTETHVault addr = connectOrRegistered ''ConvexCurveLPVault'' addr ''ConvexSTETHVault''"

definition getConvexDOLA3CRVVault :: "string option \<Rightarrow> handle script" where
  "getConvexDOLA3CRVVault addr = connectOrRegistered ''ConvexCurveLPVault'' addr ''ConvexDOLA3CRVVault''"

definition getConvexMIM3CRVVault :: "string option \<Rightarrow> handle script" where
  "getConvexMIM3CRVVault addr = connectOrRegistered ''ConvexCurveLPVault'' addr ''ConvexMIM3CRVVault''"

definition getConvexDAIUSDCUSDTSUSDVault :: "string option \<Rightarrow> handle script" where
  "getConvexDAIUSDCUSDTSUSDVault addr = connectOrRegistered ''ConvexCurveLPVault'' addr ''ConvexDAIUSDCUSDTSUSDVault''"

definition getConvexHBTCWBTCVault :: "string option \<Rightarrow> handle script" where
  "getConvexHBTCWBTCVault addr = connectOrRegistered ''ConvexCurveLPVault'' addr ''ConvexHBTCWBTCVault''"

definition getConvexIronBankVault :: "string option \<Rightarrow> handle script" where
  "getConvexIronBankVault addr = connectOrRegistered ''ConvexCurveLPVault'' addr ''ConvexIronBankVault''"

definition getConvexFRAXUSDCVault :: "string option \<Rightarrow> handle script" where
  "getConvexFRAXUSDCVault addr = connectOrRegistered ''ConvexCurveLPVault'' addr ''ConvexFRAXUSDCVault''"

definition getAuraDAIUSDCUSDTVault :: "string option \<Rightarrow> handle script" where
  "getAuraDAIUSDCUSDTVault addr = connectOrRegistered ''AuraBalancerLPVault'' addr ''AuraDAIUSDCUSDTVault''"

definition getConvexTUSDFRAXBPVault :: "string option \<Rightarrow> handle script" where
  "getConvexTUSDFRAXBPVault addr = connectOrRegistered ''ConvexCurveLPVault2'' addr ''ConvexTUSDFRAXBPVault''"

definition getAuraBBAUSDVault :: "string option \<Rightarrow> handle script" where
  "getAuraBBAUSDVault addr = connectOrRegistered ''AuraBalancerLPVault'' addr ''AuraBBAUSDVault''"

definition getAuraBBA3USDVault :: "string option \<Rightarrow> handle script" where
  "getAuraBBA3USDVault addr = connectOrRegistered ''AuraBalancerLPVault'' addr ''AuraBBA3USDVault''"

definition getYearnVaultImpl :: "string option \<Rightarrow> handle script" where
  "getYearnVaultImpl addr = connectOrRegistered ''YearnVault'' addr ''YearnVaultImpl''"

definition getYearnVault :: "string option \<Rightarrow> handle script" where
  "getYearnVault addr = connectOrRegistered ''YearnVault'' addr ''YearnVault''"

definition getYearnWETHVaultImpl :: "string option \<Rightarrow> handle script" where
  "getYearnWETHVaultImpl addr = connectOrRegistered ''YearnWETHVault'' addr ''YearnWETHVaultImpl''"

definition getYearnWETHVault :: "string option \<Rightarrow> handle script" where
  "getYearnWETHVault addr = connectOrRegistered ''YearnWETHVault'' addr ''YearnWETHVault''"

definition getYearnWBTCVaultImpl :: "string option \<Rightarrow> handle script" where
  "getYearnWBTCVaultImpl addr = connectOrRegistered ''YearnWBTCVault'' addr ''YearnWBTCVaultImpl''"

definition getYearnWBTCVault :: "string option \<Rightarrow> handle script" where
  "getYearnWBTCVault addr = connectOrRegistered ''YearnWBTCVault'' addr ''YearnWBTCVault''"

definition getYearnBOOVaultImpl :: "string option \<Rightarrow> handle script" where
  "getYearnBOOVaultImpl addr = connectOrRegistered ''YearnBOOVault'' addr ''YearnBOOVaultImpl''"

definition getYearnBOOVault :: "string option \<Rightarrow> handle script" where
  "getYearnBOOVault addr = connectOrRegistered ''YearnBOOVault'' addr ''YearnBOOVault''"

definition getTombFtmBeefyVaultImpl :: "string option \<Rightarrow> handle script" where
  "getTombFtmBeefyVaultImpl addr = connectOrRegistered ''TombFtmBeefyVault'' addr ''TombFtmBeefyVaultImpl''"

definition getTombFtmBeefyVault :: "string option \<Rightarrow> handle script" where
  "getTombFtmBeefyVault addr = connectOrRegistered ''TombFtmBeefyVault'' addr ''TombFtmBeefyVault''"

definition getTombMiMaticBeefyVaultImpl :: "string option \<Rightarrow> handle script" where
  "getTombMiMaticBeefyVaultImpl addr = connectOrRegistered ''TombMimaticBeefyVault'' addr ''TombMiMaticBeefyVaultImpl''"

definition getTombMiMaticBeefyVault :: "string option \<Rightarrow> handle script" where
  "getTombMiMaticBeefyVault addr = connectOrRegistered ''TombMimaticBeefyVault'' addr ''TombMiMaticBeefyVault''"

definition getBasedMiMaticBeefyVaultImpl :: "string option \<Rightarrow> handle script" where
  "getBasedMiMaticBeefyVaultImpl addr = connectOrRegistered ''BasedMimaticBeefyVault'' addr ''BasedMiMaticBeefyVaultImpl''"

definition getBasedMiMaticBeefyVault :: "string option \<Rightarrow> handle script" where
  "getBasedMiMaticBeefyVault addr = connectOrRegistered ''BasedMimaticBeefyVault'' addr ''BasedMiMaticBeefyVault''"

definition getBeefyMIM2CRVVaultImpl :: "string option \<Rightarrow> handle script" where
  "getBeefyMIM2CRVVaultImpl addr = connectOrRegistered ''BeefyMIM2CRVVault'' addr ''BeefyMIM2CRVVaultImpl''"

definition getBeefyMIM2CRVVault :: "string option \<Rightarrow> handle script" where
  "getBeefyMIM2CRVVault addr = connectOrRegistered ''BeefyMIM2CRVVault'' addr ''BeefyMIM2CRVVault''"

definition getYearnFBEETSVaultImpl :: "string option \<Rightarrow> handle script" where
  "getYearnFBEETSVaultImpl addr = connectOrRegistered ''YearnFBEETSVault'' addr ''YearnFBEETSVaultImpl''"

definition getYearnFBEETSVault :: "string option \<Rightarrow> handle script" where
  "getYearnFBEETSVault addr = connectOrRegistered ''YearnFBEETSVault'' addr ''YearnFBEETSVault''"

definition getYearnLINKVaultImpl :: "string option \<Rightarrow> handle script" where
  "getYearnLINKVaultImpl addr = connectOrRegistered ''YearnLINKVault'' addr ''YearnLINKVaultImpl''"

definition getYearnLINKVault :: "string option \<Rightarrow> handle script" where
  "getYearnLINKVault addr = connectOrRegistered ''YearnLINKVault'' addr ''YearnLINKVault''"

definition getBeefyETHVault :: "string option \<Rightarrow> handle script" where
  "getBeefyETHVault addr = connectOrRegistered ''BeefyETHVault'' addr ''BeefyETHVault''"

definition getYearnCRVVaultImpl :: "string option \<Rightarrow> handle script" where
  "getYearnCRVVaultImpl addr = connectOrRegistered ''YearnCRVVault'' addr ''YearnCRVVaultImpl''"

definition getYearnCRVVault :: "string option \<Rightarrow> handle script" where
  "getYearnCRVVault addr = connectOrRegistered ''YearnCRVVault'' addr ''YearnCRVVault''"

definition getYearnSPELLVaultImpl :: "string option \<Rightarrow> handle script" where
  "getYearnSPELLVaultImpl addr = connectOrRegistered ''YearnSPELLVault'' addr ''YearnSPELLVaultImpl''"

definition getYearnSPELLVault :: "string option \<Rightarrow> handle script" where
  "getYearnSPELLVault addr = connectOrRegistered ''YearnSPELLVault'' addr ''YearnSPELLVault''"

section \<open>Mocks\<close>

definition getWETHMocked :: "string option \<Rightarrow> handle script" where
  "getWETHMocked addr = connectOrRegistered ''WETH9Mocked'' addr ''WETHMocked''"

definition getMockAToken :: "string option \<Rightarrow> handle script" where
  "getMockAToken addr = connectOrRegistered ''MockAToken'' addr ''MockAToken''"

definition getMockVariableDebtToken :: "string option \<Rightarrow> handle script" where
  "getMockVariableDebtToken addr = connectOrRegistered ''MockVariableDebtToken'' addr ''MockVariableDebtToken''"

definition getMockStableDebtToken :: "string option \<Rightarrow> handle script" where
  "getMockStableDebtToken addr = connectOrRegistered ''MockStableDebtToken'' addr ''MockStableDebtToken''"

definition getMockyvWFTM :: "string option \<Rightarrow> handle script" where
  "getMockyvWFTM addr = connectOrRegistered ''MockyvWFTM'' addr ''MockyvWFTM''"

definition getMockyvWETH :: "string option \<Rightarrow> handle script" where
  "getMockyvWETH addr = connectOrRegistered ''MockyvWETH'' addr ''MockyvWETH''"

definition getMockyvWBTC :: "string option \<Rightarrow> handle script" where
  "getMockyvWBTC addr = connectOrRegistered ''MockyvWBTC'' addr ''MockyvWBTC''"

definition getMockyvBOO :: "string option \<Rightarrow> handle script" where
  "getMockyvBOO addr = connectOrRegistered ''MockyvBOO'' addr ''MockyvBOO''"

definition getMockMooTOMBFTM :: "string option \<Rightarrow> handle script" where
  "getMockMooTOMBFTM addr = connectOrRegistered ''MockMooTOMBFTM'' addr ''MockMooTOMBFTM''"

definition getMockMooTOMBMIMATIC :: "string option \<Rightarrow> handle script" where
  "getMockMooTOMBMIMATIC addr = connectOrRegistered ''MockMooTOMBMIMATIC'' addr ''MockMooTOMBMIMATIC''"

definition getMockMooBASEDMIMATIC :: "string option \<Rightarrow> handle script" where
  "getMockMooBASEDMIMATIC addr = connectOrRegistered ''MockMooBASEDMIMATIC'' addr ''MockMooBASEDMIMATIC''"

definition getMockWBTCForFTM :: "string option \<Rightarrow> handle script" where
  "getMockWBTCForFTM addr = connectOrRegistered ''MockWBTCForFTM'' addr ''MockWBTCForFTM''"

section \<open>Library addresses\<close>

definition getUniswapAdapterAddress :: "address option script" where
  "getUniswapAdapterAddress = registeredAddressOrUndefined ''UniswapAdapter''"

definition getCurveswapAdapterAddress :: "address option script" where
  "getCurveswapAdapterAddress = registeredAddressOrUndefined ''CurveswapAdapter''"

definition getBalancerswapAdapterAddress :: "address option script" where
  "getBalancerswapAdapterAddress = registeredAddressOrUndefined ''BalancerswapAdapter''"

definition getUniswapAdapter2Address :: "address option script" where
  "getUniswapAdapter2Address = registeredAddressOrUndefined ''UniswapAdapter2''"

definition getCurveswapAdapter2Address :: "address option script" where
  "getCurveswapAdapter2Address = registeredAddressOrUndefined ''CurveswapAdapter2''"

definition getBalancerswapAdapter2Address :: "address option script" where
  "getBalancerswapAdapter2Address = registeredAddressOrUndefined ''BalancerswapAdapter2''"

definition getValidationLogic :: "address option script" where
  "getValidationLogic = registeredAddressOrUndefined ''ValidationLogic''"

definition getGenericLogic :: "address option script" where
  "getGenericLogic = registeredAddressOrUndefined ''GenericLogic''"

definition getReserveLogicLibrary :: "address option script" where
  "getReserveLogicLibrary = registeredAddressOrUndefined ''ReserveLogic''"

definition getAddressById :: "string \<Rightarrow> address option script" where
  "getAddressById key =
     bindIO (registeredAddressOrUndefined key) (\<lambda>a. returnIO (if truthy a then a else None))"

section \<open>Getters of another shape\<close>

definition getStaticAToken :: "string \<Rightarrow> string option \<Rightarrow> handle script" where
  "getStaticAToken symbol addr =
     connectOrRegistered ''StaticAToken'' addr (symbol @ ''StaticAToken'')"

definition getERC4626Vault :: "string \<Rightarrow> string option \<Rightarrow> handle script" where
  "getERC4626Vault assetSymbol addr =
     connectOrRegistered ''ERC4626Vault'' addr (''ERC4626Vault'' @ toUpperCase assetSymbol)"

definition getStableStructuredVault :: "string \<Rightarrow> string option \<Rightarrow> handle script" where
  "getStableStructuredVault assetSymbol addr =
     connectOrRegistered ''StableStructuredVault'' addr (toUpperCase assetSymbol @ ''StructuredVault'')"

definition getIWETH :: "address \<Rightarrow> handle script" where
  "getIWETH addr = bindIO getFirstSigner (\<lambda>signer. returnIO (connectAt ''IWETH'' addr signer))"

definition getProxy :: "address \<Rightarrow> handle script" where
  "getProxy addr = bindIO getFirstSigner (\<lambda>signer.
     returnIO (connectAt ''InitializableImmutableAdminUpgradeabilityProxy'' addr signer))"

definition getLendingPoolAddressesProviderRegistry :: "string option \<Rightarrow> handle script" where
  "getLendingPoolAddressesProviderRegistry addr =
     bindIO (getsIO (\<lambda>w. notFalsyOrZeroAddress w addr)) (\<lambda>usable.
     bindIO (if usable then returnIO (the addr)
             else registeredAddress ''LendingPoolAddressesProviderRegistry'') (\<lambda>a.
     bindIO getFirstSigner (\<lambda>signer.
       returnIO (connectAt ''LendingPoolAddressesProviderRegistry'' a signer))))"

section \<open>Mocked tokens\<close>

text \<open>The token symbols of \<open>helpers/types.ts\<close>, in the order of the enumeration.\<close>

definition TokenContractId :: "string list" where
  "TokenContractId =
     [''DAI'', ''WETH'', ''USDC'', ''USDT'', ''stETH'', ''yvRETH_WSTETH'', ''cvxRETH_WSTETH'',
      ''cvxFRAX_3CRV'', ''cvxSTECRV'', ''cvxDOLA_3CRV'', ''cvxMIM_3CRV'',
      ''cvxDAI_USDC_USDT_SUSD'', ''cvxHBTC_WBTC'', ''cvxIRON_BANK'', ''cvxFRAX_USDC'',
      ''auraDAI_USDC_USDT'', ''cvxTUSD_FRAXBP'', ''auraBB_A_USD'', ''auraBB_A3_USD'', ''yvWFTM'',
      ''mooWETH'', ''yvWETH'', ''yvWBTC'', ''yvBOO'', ''mooTOMB_FTM'', ''mooTOMB_MATIC'',
      ''yvfBEETS'', ''yvLINK'', ''yvCRV'', ''yvSPELL'', ''mooBASED_MATIC'', ''mooMIM_2CRV'']"

text \<open>The reduction both functions share: the accumulator is awaited first, so the symbols are
  handled in order and the first missing entry ends it.\<close>

fun mockedTokensOf :: "string list \<Rightarrow> handle jsobj \<Rightarrow> handle jsobj script" where
  "mockedTokensOf [] acc = returnIO acc"
| "mockedTokensOf (tokenSymbol # symbols) acc =
     bindIO (registeredAddress (toUpperCase tokenSymbol)) (\<lambda>addr.
     bindIO (getMintableERC20 addr) (\<lambda>h. mockedTokensOf symbols (obj_set tokenSymbol h acc)))"

text \<open>The argument is the list of keys of \<open>config.ReservesConfig\<close>.\<close>

definition getMockedTokens :: "string list \<Rightarrow> handle jsobj script" where
  "getMockedTokens reserveSymbols = mockedTokensOf reserveSymbols []"

definition getAllMockedTokens :: "handle jsobj script" where
  "getAllMockedTokens = mockedTokensOf TokenContractId []"

section \<open>Price sources\<close>

definition getQuoteCurrencies :: "string \<Rightarrow> string list" where
  "getQuoteCurrencies oracleQuoteCurrency =
     (if oracleQuoteCurrency = ''USD'' then [''USD''] else [''ETH'', ''WETH''])"

text \<open>Destructuring the entry at \<open>-1\<close>, which is \<open>undefined\<close>, throws.\<close>

definition aggregatorOf :: "address jsobj \<Rightarrow> string \<times> address \<Rightarrow> error + (address \<times> address)" where
  "aggregatorOf aggregatorsAddresses = (\<lambda>(tokenSymbol, tokenAddress).
     case findIndex (\<lambda>value. value = tokenSymbol) (obj_keys aggregatorsAddresses) of
       None \<Rightarrow> Inl (TypeError tokenSymbol)
     | Some i \<Rightarrow> Inr (tokenAddress, snd (aggregatorsAddresses ! i)))"

fun map_sum_list :: "('a \<Rightarrow> 'e + 'b) \<Rightarrow> 'a list \<Rightarrow> 'e + 'b list" where
  "map_sum_list f [] = Inr []"
| "map_sum_list f (x # xs) =
     (case f x of Inl e \<Rightarrow> Inl e
      | Inr y \<Rightarrow> (case map_sum_list f xs of Inl e \<Rightarrow> Inl e | Inr ys \<Rightarrow> Inr (y # ys)))"

definition getPairsTokenAggregator ::
  "address jsobj \<Rightarrow> address jsobj \<Rightarrow> string \<Rightarrow> error + (address list \<times> address list)" where
  "getPairsTokenAggregator allAssetsAddresses aggregatorsAddresses oracleQuoteCurrency =
     (let assetsWithoutQuoteCurrency = omit allAssetsAddresses (getQuoteCurrencies oracleQuoteCurrency)
      in case map_sum_list (aggregatorOf aggregatorsAddresses) assetsWithoutQuoteCurrency of
           Inl e \<Rightarrow> Inl e
         | Inr found \<Rightarrow>
             (let pairs = filter (\<lambda>(asset, source). source \<noteq> '''') found
              in Inr (map fst pairs, map snd pairs)))"

end
