(* ===== verification/MarketTypes.thy ===== *)
theory MarketTypes
  imports Prelude
begin

text \<open>
  The configuration interfaces of \<open>helpers/types.ts\<close>. A value per network is an object whose
  keys are network names. Three fields are computed with or typed over \<open>bignumber.js\<close> values
  (\<open>ReservesConfig\<close>, \<open>OracleQuoteUnit\<close> and \<open>Mocks\<close>) and are modelled apart, in \<open>Reserves\<close>.
\<close>

record ILendingRate =
  borrowRate :: string

record IProtocolGlobalConfig =
  TokenDistributorPercentageBase :: string
  MockUsdPriceInWei :: string
  UsdAddress :: string
  NilAddress :: string
  OneAddress :: string
  SturdyReferral :: string

record ICommonConfiguration =
  MarketId :: "string"
  ATokenNamePrefix :: "string"
  StableDebtTokenNamePrefix :: "string"
  VariableDebtTokenNamePrefix :: "string"
  SymbolPrefix :: "string"
  ProviderId :: "nat"
  OracleQuoteCurrency :: "string"
  ProtocolGlobalParams :: "IProtocolGlobalConfig"
  LendingRateOracleRatesCommon :: "ILendingRate jsobj"
  PoolAdmin :: "string option jsobj"
  PoolAdminIndex :: "nat"
  EmergencyAdmin :: "string option jsobj"
  EmergencyAdminIndex :: "nat"
  ProviderRegistry :: "string jsobj"
  ProviderRegistryOwner :: "string jsobj"
  LendingRateOracle :: "string jsobj"
  LendingPoolCollateralManager :: "string jsobj"
  LendingPoolConfigurator :: "string jsobj"
  LendingPool :: "string jsobj"
  TokenDistributor :: "string jsobj"
  SturdyOracle :: "string jsobj"
  FallbackOracle :: "string jsobj"
  ChainlinkAggregator :: "string jsobj jsobj"
  ReserveAssets :: "string jsobj jsobj"
  ATokenDomainSeparator :: "string jsobj"
  WFTM :: "string jsobj"
  WETH :: "string jsobj"
  WBTC :: "string jsobj"
  WrappedNativeToken :: "string jsobj"
  ReserveFactorTreasuryAddress :: "string jsobj"
  IncentivesController :: "string jsobj"

record ISturdyConfiguration = ICommonConfiguration +
  Lido :: "string jsobj"
  WSTETH :: "string jsobj"
  CRV :: "string jsobj"
  CVX :: "string jsobj"
  BAL :: "string jsobj"
  SNX :: "string jsobj"
  TUSD :: "string jsobj"
  SUSD :: "string jsobj"
  AURA :: "string jsobj"
  FRAX :: "string jsobj"
  MIM :: "string jsobj"
  RETH_WSTETH_LP :: "string jsobj"
  FRAX_3CRV_LP :: "string jsobj"
  BAL_DAI_USDC_USDT_LP :: "string jsobj"
  STECRV_LP :: "string jsobj"
  DOLA_3CRV_LP :: "string jsobj"
  MIM_3CRV_LP :: "string jsobj"
  DAI_USDC_USDT_SUSD_LP :: "string jsobj"
  HBTC_WBTC_LP :: "string jsobj"
  IRON_BANK_LP :: "string jsobj"
  FRAX_USDC_LP :: "string jsobj"
  TUSD_FRAXBP_LP :: "string jsobj"
  BAL_BB_A_USD_LP :: "string jsobj"
  BAL_BB_A3_USD_LP :: "string jsobj"
  YearnRETHWstETHVault :: "string jsobj"
  CurveswapLidoPool :: "string jsobj"
  UniswapRouter :: "string jsobj"
  CurveswapAddressProvider :: "string jsobj"
  AavePool :: "string jsobj"

record IFantomConfiguration = ICommonConfiguration +
  BOO :: "string jsobj"
  TOMB :: "string jsobj"
  MIMATIC :: "string jsobj"
  BASED :: "string jsobj"
  TOMB_FTM_LP :: "string jsobj"
  TOMB_MIMATIC_LP :: "string jsobj"
  BASED_MIMATIC_LP :: "string jsobj"
  MIM_2CRV_LP :: "string jsobj"
  fBEETS :: "string jsobj"
  BEETS :: "string jsobj"
  LINK :: "string jsobj"
  CRV :: "string jsobj"
  SPELL :: "string jsobj"
  YearnVaultFTM :: "string jsobj"
  YearnWETHVaultFTM :: "string jsobj"
  YearnWBTCVaultFTM :: "string jsobj"
  YearnBOOVaultFTM :: "string jsobj"
  BeefyVaultTOMB_FTM :: "string jsobj"
  BeefyVaultTOMB_MIMATIC :: "string jsobj"
  BeefyVaultBASED_MIMATIC :: "string jsobj"
  YearnFBEETSVaultFTM :: "string jsobj"
  YearnLINKVaultFTM :: "string jsobj"
  BeefyETHVault :: "string jsobj"
  BeefyMIM2CRVVault :: "string jsobj"
  YearnCRVVaultFTM :: "string jsobj"
  YearnSPELLVaultFTM :: "string jsobj"
  UniswapRouter :: "string jsobj"
  TombSwapRouter :: "string jsobj"
  AavePool :: "string jsobj"

end
