(* ===== verification/MarketSturdy.thy ===== *)
theory MarketSturdy
  imports MarketTypes World
begin

text \<open>
  The configuration of the Ethereum market: \<open>markets/sturdy/commons.ts\<close> and
  \<open>markets/sturdy/index.ts\<close>, one definition per field with a value per network, then the
  configuration objects. The object spread \<open>...CommonsConfig\<close> is the extension of the common
  record by the market's own fields, with the overriding fields updated.
\<close>

section \<open>Common configuration\<close>

definition Commons_ProtocolGlobalParams :: "IProtocolGlobalConfig" where
  "Commons_ProtocolGlobalParams =
    \<lparr>TokenDistributorPercentageBase = ''10000'',
     MockUsdPriceInWei = ''373068412860'',
     UsdAddress = ''0x10F7Fc1F91Ba351f9C629c5947AD69bD03C05b96'',
     NilAddress = ''0x0000000000000000000000000000000000000000'',
     OneAddress = ''0x0000000000000000000000000000000000000001'',
     SturdyReferral = ''0''\<rparr>"

definition Commons_LendingRateOracleRatesCommon :: "ILendingRate jsobj" where
  "Commons_LendingRateOracleRatesCommon =
    [(''DAI'', \<lparr>borrowRate = ''0''\<rparr>),
     (''USDC'', \<lparr>borrowRate = ''0''\<rparr>),
     (''USDT'', \<lparr>borrowRate = ''0''\<rparr>)]"

definition Commons_PoolAdmin :: "string option jsobj" where
  "Commons_PoolAdmin =
    [(''coverage'', None),
     (''buidlerevm'', None),
     (''hardhat'', None),
     (''geth'', None),
     (''localhost'', None),
     (''kovan'', None),
     (''ropsten'', None),
     (''main'', None),
     (''tenderly'', None),
     (''goerli'', None)]"

definition Commons_EmergencyAdmin :: "string option jsobj" where
  "Commons_EmergencyAdmin =
    [(''hardhat'', None),
     (''geth'', None),
     (''localhost'', None),
     (''coverage'', None),
     (''buidlerevm'', None),
     (''kovan'', None),
     (''ropsten'', None),
     (''main'', None),
     (''tenderly'', None),
     (''goerli'', None)]"

definition Commons_ProviderRegistry :: "string jsobj" where
  "Commons_ProviderRegistry =
    [(''kovan'', ''0x1E40B561EC587036f9789aF83236f057D1ed2A90''),
     (''ropsten'', ''''),
     (''main'', ''''),
     (''coverage'', ''''),
     (''hardhat'', ''''),
     (''geth'', ''''),
     (''localhost'', ''''),
     (''buidlerevm'', ''''),
     (''tenderly'', ''''),
     (''goerli'', ''0x5a3aE44704D95CcAffe608c808308c850bDec94d'')]"

definition Commons_ProviderRegistryOwner :: "string jsobj" where
  "Commons_ProviderRegistryOwner =
    [(''kovan'', ''0x85e4A467343c0dc4aDAB74Af84448D9c45D8ae6F''),
     (''ropsten'', ''''),
     (''main'', ''''),
     (''coverage'', ''''),
     (''hardhat'', ''''),
     (''geth'', ''''),
     (''localhost'', ''''),
     (''buidlerevm'', ''''),
     (''tenderly'', ''''),
     (''goerli'', ''0x661fB502E24Deb30e927E39A38Bd2CC44D67339F'')]"

definition Commons_LendingRateOracle :: "string jsobj" where
  "Commons_LendingRateOracle =
    [(''coverage'', ''''),
     (''hardhat'', ''''),
     (''geth'', ''''),
     (''localhost'', ''''),
     (''buidlerevm'', ''''),
     (''kovan'', ''''),
     (''ropsten'', ''0x05dcca805a6562c1bdd0423768754acb6993241b''),
     (''main'', ''''),
     (''tenderly'', ''''),
     (''goerli'', ''0x54f550a7798541F8469636EA94Fd7564ea6e9027'')]"

definition Commons_LendingPoolCollateralManager :: "string jsobj" where
  "Commons_LendingPoolCollateralManager =
    [(''coverage'', ''''),
     (''hardhat'', ''''),
     (''geth'', ''''),
     (''localhost'', ''''),
     (''buidlerevm'', ''''),
     (''kovan'', ''0x9269b6453d0d75370c4c85e5a42977a53efdb72a''),
     (''ropsten'', ''''),
     (''main'', ''''),
     (''tenderly'', ''''),
     (''goerli'', ''0x446E0E48315740B3f5dEFA9a1CcAF1ce193E9655'')]"

definition Commons_LendingPoolConfigurator :: "string jsobj" where
  "Commons_LendingPoolConfigurator =
    [(''coverage'', ''''),
     (''hardhat'', ''''),
     (''geth'', ''''),
     (''localhost'', ''''),
     (''buidlerevm'', ''''),
     (''kovan'', ''''),
     (''ropsten'', ''''),
     (''main'', ''''),
     (''tenderly'', ''''),
     (''goerli'', ''0xFA81C6cfF67D9958A20b2c1D1C93a5936B217cDd'')]"

definition Commons_LendingPool :: "string jsobj" where
  "Commons_LendingPool =
    [(''coverage'', ''''),
     (''hardhat'', ''''),
     (''geth'', ''''),
     (''localhost'', ''''),
     (''buidlerevm'', ''''),
     (''kovan'', ''''),
     (''ropsten'', ''''),
     (''main'', ''''),
     (''tenderly'', ''''),
     (''goerli'', ''0x53f4569958A9487598e2aa9db6c1E9BCaF81ea4c'')]"

definition Commons_TokenDistributor :: "string jsobj" where
  "Commons_TokenDistributor =
    [(''coverage'', ''''),
     (''buidlerevm'', ''''),
     (''hardhat'', ''''),
     (''geth'', ''''),
     (''localhost'', ''''),
     (''kovan'', ''0x971efe90088f21dc6a36f610ffed77fc19710708''),
     (''ropsten'', ''0xeba2ea67942b8250d870b12750b594696d02fc9c''),
     (''main'', ''''),
     (''tenderly'', ''''),
     (''goerli'', '''')]"

definition Commons_SturdyOracle :: "string jsobj" where
  "Commons_SturdyOracle =
    [(''coverage'', ''''),
     (''hardhat'', ''''),
     (''geth'', ''''),
     (''localhost'', ''''),
     (''buidlerevm'', ''''),
     (''kovan'', ''''),
     (''ropsten'', ZERO_ADDRESS),
     (''main'', ''''),
     (''tenderly'', ''''),
     (''goerli'', '''')]"

definition Commons_FallbackOracle :: "string jsobj" where
  "Commons_FallbackOracle =
    [(''coverage'', ''''),
     (''hardhat'', ''''),
     (''geth'', ''''),
     (''localhost'', ''''),
     (''buidlerevm'', ''''),
     (''kovan'', ''0x50913E8E1c650E790F8a1E741FF9B1B1bB251dfe''),
     (''ropsten'', ''0xAD1a978cdbb8175b2eaeC47B01404f8AEC5f4F0d''),
     (''main'', ZERO_ADDRESS),
     (''tenderly'', ZERO_ADDRESS),
     (''goerli'', ''0x1460B491Db8E28A986f5ccb1c3Ee09E0A5757ed6'')]"

definition Commons_ChainlinkAggregator :: "string jsobj jsobj" where
  "Commons_ChainlinkAggregator =
    [(''coverage'', []),
     (''hardhat'', []),
     (''geth'', []),
     (''localhost'', []),
     (''buidlerevm'', []),
     (''kovan'', [(''DAI'', ''0x22B58f1EbEDfCA50feF632bD73368b2FdA96D541''),
         (''USDC'', ''0x64EaC61A2DFda2c3Fa04eED49AA33D021AeC8838''),
         (''USD'', ''0x9326BFA02ADD2366b30bacB125260Af641031331'')]),
     (''ropsten'', [(''DAI'', ''0x64b8e49baded7bfb2fd5a9235b2440c0ee02971b''),
         (''USDC'', ''0xe1480303dde539e2c241bdc527649f37c9cbef7d''),
         (''USD'', ''0x8468b2bDCE073A157E560AA4D9CcF6dB1DB98507'')]),
     (''main'', [(''DAI'', ''0x773616E4d11A78F511299002da57A0a94577F1f4''),
         (''USDC'', ''0x986b5E1e1755e3C2440e960477f25201B0a8bbD4''),
         (''USDT'', ''0xEe9F2375b4bdF6387aa8265dD4FB8F16512A1d46''),
         (''stETH'', ''0x86392dC19c0b719886221c78AB11eb8Cf5c52812''),
         (''cvxFRAX_3CRV'', ''''),
         (''cvxMIM_3CRV'', ''''),
         (''cvxDAI_USDC_USDT_SUSD'', ''''),
         (''cvxFRAX_USDC'', ''''),
         (''auraDAI_USDC_USDT'', ''''),
         (''cvxTUSD_FRAXBP'', ''''),
         (''auraBB_A_USD'', ''''),
         (''auraBB_A3_USD'', ''''),
         (''USD'', ''0x5f4eC3Df9cbd43714FE2740f5E3616155c5b8419''),
         (''CRV'', ''0x8a12Be339B0cD1829b91Adc01977caa5E9ac121e''),
         (''CVX'', ''0xC9CbF687f43176B302F03f5e58470b77D07c61c6''),
         (''BAL'', ''0xC1438AA3823A6Ba0C159CfA8D98dF5A994bA120b''),
         (''SNX'', ''0x79291A9d692Df95334B1a0B3B4AE6bC606782f8c''),
         (''FRAX'', ''0x14d04Fff8D21bd62987a5cE9ce543d2F1edF5D3E''),
         (''TUSD'', ''0x3886BA987236181D98F2401c507Fb8BeA7871dF2''),
         (''SUSD'', ''0x8e0b7e6062272B5eF4524250bFFF8e5Bd3497757''),
         (''AURA'', ''''),
         (''MIM'', '''')]),
     (''tenderly'', [(''DAI'', ''0x773616E4d11A78F511299002da57A0a94577F1f4''),
         (''USDC'', ''0x986b5E1e1755e3C2440e960477f25201B0a8bbD4''),
         (''USDT'', ''0xEe9F2375b4bdF6387aa8265dD4FB8F16512A1d46''),
         (''stETH'', ''0x86392dC19c0b719886221c78AB11eb8Cf5c52812''),
         (''cvxFRAX_3CRV'', ''0xf83e4943D76B9A94DA0aFb06E4F30DF773f78938''),
         (''cvxMIM_3CRV'', ''0x40d174027481Dc17C3A714995fCb7Fb5bc7C5f07''),
         (''cvxDAI_USDC_USDT_SUSD'', ''0xd14A2bd5043F1909A6b20B14E465309FdAc3bf50''),
         (''auraDAI_USDC_USDT'', ''''),
         (''cvxFRAX_USDC'', ''0xfE3b8248f5bFDE88233c87eE17D49143849f9f28''),
         (''cvxTUSD_FRAXBP'', ''0xa5A96C4E5873dBae8e41058f891A05Ad9aE3C71e''),
         (''auraBB_A_USD'', ''''),
         (''auraBB_A3_USD'', ''''),
         (''USD'', ''0x5f4eC3Df9cbd43714FE2740f5E3616155c5b8419''),
         (''CRV'', ''0x8a12Be339B0cD1829b91Adc01977caa5E9ac121e''),
         (''CVX'', ''0xC9CbF687f43176B302F03f5e58470b77D07c61c6''),
         (''BAL'', ''0xC1438AA3823A6Ba0C159CfA8D98dF5A994bA120b''),
         (''SNX'', ''0x79291A9d692Df95334B1a0B3B4AE6bC606782f8c''),
         (''FRAX'', ''0x14d04Fff8D21bd62987a5cE9ce543d2F1edF5D3E''),
         (''TUSD'', ''0x3886BA987236181D98F2401c507Fb8BeA7871dF2''),
         (''SUSD'', ''0x8e0b7e6062272B5eF4524250bFFF8e5Bd3497757''),
         (''AURA'', ''''),
         (''MIM'', '''')]),
     (''goerli'', [(''DAI'', ''''),
         (''USDC'', ''''),
         (''stETH'', ''''),
         (''USD'', '''')])]"

definition Commons_ReserveAssets :: "string jsobj jsobj" where
  "Commons_ReserveAssets =
    [(''coverage'', []),
     (''hardhat'', []),
     (''geth'', []),
     (''localhost'', []),
     (''buidlerevm'', []),
     (''main'', []),
     (''kovan'', []),
     (''ropsten'', []),
     (''tenderly'', []),
     (''goerli'', [])]"

definition Commons_ATokenDomainSeparator :: "string jsobj" where
  "Commons_ATokenDomainSeparator =
    [(''coverage'', ''0x95b73a72c6ecf4ccbbba5178800023260bad8e75cdccdb8e4827a2977a37c820''),
     (''hardhat'', ''0xbae024d959c6a022dc5ed37294cd39c141034b2ae5f02a955cce75c930a81bf5''),
     (''localhost'', ''0xbae024d959c6a022dc5ed37294cd39c141034b2ae5f02a955cce75c930a81bf5''),
     (''geth'', ''0xbae024d959c6a022dc5ed37294cd39c141034b2ae5f02a955cce75c930a81bf5''),
     (''buidlerevm'', ''0xbae024d959c6a022dc5ed37294cd39c141034b2ae5f02a955cce75c930a81bf5''),
     (''kovan'', ''''),
     (''ropsten'', ''''),
     (''main'', ''''),
     (''tenderly'', ''''),
     (''goerli'', '''')]"

definition Commons_WFTM :: "string jsobj" where
  "Commons_WFTM =
    [(''coverage'', ''''),
     (''hardhat'', ''''),
     (''geth'', ''''),
     (''localhost'', ''''),
     (''buidlerevm'', ''''),
     (''kovan'', ''''),
     (''ropsten'', ''''),
     (''main'', ''''),
     (''tenderly'', ''''),
     (''goerli'', '''')]"

definition Commons_WETH :: "string jsobj" where
  "Commons_WETH =
    [(''coverage'', ''''),
     (''hardhat'', ''''),
     (''geth'', ''''),
     (''localhost'', ''''),
     (''buidlerevm'', ''''),
     (''kovan'', ''''),
     (''ropsten'', ''''),
     (''main'', ''0xc02aaa39b223fe8d0a0e5c4f27ead9083c756cc2''),
     (''tenderly'', ''0xc02aaa39b223fe8d0a0e5c4f27ead9083c756cc2''),
     (''goerli'', ''0x0Bb7509324cE409F7bbC4b701f932eAca9736AB7'')]"

definition Commons_WBTC :: "string jsobj" where
  "Commons_WBTC =
    [(''coverage'', ''''),
     (''hardhat'', ''''),
     (''geth'', ''''),
     (''localhost'', ''''),
     (''buidlerevm'', ''''),
     (''kovan'', ''''),
     (''ropsten'', ''''),
     (''main'', ''''),
     (''tenderly'', ''''),
     (''goerli'', '''')]"

definition Commons_WrappedNativeToken :: "string jsobj" where
  "Commons_WrappedNativeToken =
    [(''coverage'', ''''),
     (''hardhat'', ''''),
     (''geth'', ''''),
     (''localhost'', ''''),
     (''buidlerevm'', ''''),
     (''kovan'', ''0xd0a1e359811322d97991e03f863a0c30c2cf029c''),
     (''ropsten'', ''0xc778417e063141139fce010982780140aa0cd5ab''),
     (''main'', ''0xc02aaa39b223fe8d0a0e5c4f27ead9083c756cc2''),
     (''tenderly'', ''0xc02aaa39b223fe8d0a0e5c4f27ead9083c756cc2''),
     (''goerli'', ''0x0Bb7509324cE409F7bbC4b701f932eAca9736AB7'')]"

definition Commons_ReserveFactorTreasuryAddress :: "string jsobj" where
  "Commons_ReserveFactorTreasuryAddress =
    [(''coverage'', ''0xFd1D36995d76c0F75bbe4637C84C06E4A68bBB3a''),
     (''hardhat'', ''0xFd1D36995d76c0F75bbe4637C84C06E4A68bBB3a''),
     (''geth'', ''0xFd1D36995d76c0F75bbe4637C84C06E4A68bBB3a''),
     (''localhost'', ''0xFd1D36995d76c0F75bbe4637C84C06E4A68bBB3a''),
     (''buidlerevm'', ''0xFd1D36995d76c0F75bbe4637C84C06E4A68bBB3a''),
     (''kovan'', ''0xFd1D36995d76c0F75bbe4637C84C06E4A68bBB3a''),
     (''ropsten'', ''0xFd1D36995d76c0F75bbe4637C84C06E4A68bBB3a''),
     (''main'', ''0xFd1D36995d76c0F75bbe4637C84C06E4A68bBB3a''),
     (''tenderly'', ''0xFd1D36995d76c0F75bbe4637C84C06E4A68bBB3a''),
     (''goerli'', ''0xFd1D36995d76c0F75bbe4637C84C06E4A68bBB3a'')]"

definition Commons_IncentivesController :: "string jsobj" where
  "Commons_IncentivesController =
    [(''coverage'', ZERO_ADDRESS),
     (''hardhat'', ZERO_ADDRESS),
     (''geth'', ZERO_ADDRESS),
     (''localhost'', ZERO_ADDRESS),
     (''buidlerevm'', ZERO_ADDRESS),
     (''kovan'', ZERO_ADDRESS),
     (''ropsten'', ZERO_ADDRESS),
     (''main'', ZERO_ADDRESS),
     (''tenderly'', ZERO_ADDRESS),
     (''goerli'', ''0xf1eeA72fF022bE0DC8DFB97b1f398380A5CAFC3E'')]"

definition CommonsConfig :: ICommonConfiguration where
  "CommonsConfig =
    \<lparr>MarketId = ''Commons'',
     ATokenNamePrefix = ''Sturdy interest bearing'',
     StableDebtTokenNamePrefix = ''Sturdy stable debt bearing'',
     VariableDebtTokenNamePrefix = ''Sturdy variable debt bearing'',
     SymbolPrefix = '''',
     ProviderId = 0,
     OracleQuoteCurrency = ''ETH'',
     ProtocolGlobalParams = Commons_ProtocolGlobalParams,
     LendingRateOracleRatesCommon = Commons_LendingRateOracleRatesCommon,
     PoolAdmin = Commons_PoolAdmin,
     PoolAdminIndex = 0,
     EmergencyAdmin = Commons_EmergencyAdmin,
     EmergencyAdminIndex = 1,
     ProviderRegistry = Commons_ProviderRegistry,
     ProviderRegistryOwner = Commons_ProviderRegistryOwner,
     LendingRateOracle = Commons_LendingRateOracle,
     LendingPoolCollateralManager = Commons_LendingPoolCollateralManager,
     LendingPoolConfigurator = Commons_LendingPoolConfigurator,
     LendingPool = Commons_LendingPool,
     TokenDistributor = Commons_TokenDistributor,
     SturdyOracle = Commons_SturdyOracle,
     FallbackOracle = Commons_FallbackOracle,
     ChainlinkAggregator = Commons_ChainlinkAggregator,
     ReserveAssets = Commons_ReserveAssets,
     ATokenDomainSeparator = Commons_ATokenDomainSeparator,
     WFTM = Commons_WFTM,
     WETH = Commons_WETH,
     WBTC = Commons_WBTC,
     WrappedNativeToken = Commons_WrappedNativeToken,
     ReserveFactorTreasuryAddress = Commons_ReserveFactorTreasuryAddress,
     IncentivesController = Commons_IncentivesController\<rparr>"

section \<open>The market\<close>

definition Sturdy_ReserveAssets :: "string jsobj jsobj" where
  "Sturdy_ReserveAssets =
    [(''buidlerevm'', []),
     (''hardhat'', []),
     (''geth'', []),
     (''localhost'', []),
     (''coverage'', []),
     (''kovan'', [(''DAI'', ''0xFf795577d9AC8bD7D90Ee22b6C1703490b6512FD''),
         (''USDC'', ''0xe22da380ee6B445bb8273C81944ADEB6E8450422'')]),
     (''ropsten'', [(''DAI'', ''0xf80A32A835F79D7787E8a8ee5721D0fEaFd78108''),
         (''USDC'', ''0x851dEf71f0e6A903375C1e536Bd9ff1684BAD802'')]),
     (''main'', [(''DAI'', ''0x6B175474E89094C44Da98b954EedeAC495271d0F''),
         (''USDC'', ''0xA0b86991c6218b36c1d19D4a2e9Eb0cE3606eB48''),
         (''USDT'', ''0xdAC17F958D2ee523a2206206994597C13D831ec7''),
         (''stETH'', ''0xae7ab96520DE3A18E5e111B5EaAb095312D7fE84''),
         (''cvxFRAX_3CRV'', ''0x001dfC794bf68c47fEC0A3F031c710E71318FA2a''),
         (''cvxMIM_3CRV'', ''0xd17dF4734cAC425F64e83DeC1AC4622a4e909405''),
         (''cvxDAI_USDC_USDT_SUSD'', ''0xc6DC0Bf66e759d4892AEDA7C9d02eB671F2c3016''),
         (''cvxFRAX_USDC'', ''0x27403B2756E9c2f436FB13e0B188Dd231F1da170''),
         (''auraDAI_USDC_USDT'', ''''),
         (''cvxTUSD_FRAXBP'', ''0xEB74FbFbd9d3b190940384867bc984890b96D202''),
         (''auraBB_A_USD'', ''''),
         (''auraBB_A3_USD'', ''0xC91daaD2208B962BAbB06C576355334d9f5357eA'')]),
     (''tenderly'', [(''DAI'', ''0x6B175474E89094C44Da98b954EedeAC495271d0F''),
         (''USDC'', ''0xA0b86991c6218b36c1d19D4a2e9Eb0cE3606eB48''),
         (''USDT'', ''0xdAC17F958D2ee523a2206206994597C13D831ec7''),
         (''stETH'', ''0xae7ab96520DE3A18E5e111B5EaAb095312D7fE84''),
         (''cvxFRAX_3CRV'', ''0x001dfC794bf68c47fEC0A3F031c710E71318FA2a''),
         (''cvxMIM_3CRV'', ''0xd17dF4734cAC425F64e83DeC1AC4622a4e909405''),
         (''cvxDAI_USDC_USDT_SUSD'', ''0xc6DC0Bf66e759d4892AEDA7C9d02eB671F2c3016''),
         (''cvxFRAX_USDC'', ''0x27403B2756E9c2f436FB13e0B188Dd231F1da170''),
         (''auraDAI_USDC_USDT'', ''''),
         (''cvxTUSD_FRAXBP'', ''0xEB74FbFbd9d3b190940384867bc984890b96D202''),
         (''auraBB_A_USD'', ''''),
         (''auraBB_A3_USD'', ''0xC91daaD2208B962BAbB06C576355334d9f5357eA'')]),
     (''goerli'', [(''DAI'', ''0x3c189008333eeDA351Df6C601cf6Da7C1BC4Df1A''),
         (''USDC'', ''0x07865c6E87B9F70255377e024ace6630C1Eaa37F''),
         (''stETH'', ''0x1643E812aE58766192Cf7D2Cf9567dF2C37e9B7F'')])]"

definition Sturdy_Lido :: "string jsobj" where
  "Sturdy_Lido =
    [(''coverage'', ''''),
     (''hardhat'', ''''),
     (''geth'', ''''),
     (''localhost'', ''''),
     (''buidlerevm'', ''''),
     (''kovan'', ''''),
     (''ropsten'', ''''),
     (''main'', ''0xae7ab96520DE3A18E5e111B5EaAb095312D7fE84''),
     (''tenderly'', ''0xae7ab96520DE3A18E5e111B5EaAb095312D7fE84''),
     (''goerli'', ''0x1643E812aE58766192Cf7D2Cf9567dF2C37e9B7F'')]"

definition Sturdy_WSTETH :: "string jsobj" where
  "Sturdy_WSTETH =
    [(''coverage'', ''''),
     (''hardhat'', ''''),
     (''geth'', ''''),
     (''localhost'', ''''),
     (''buidlerevm'', ''''),
     (''kovan'', ''''),
     (''ropsten'', ''''),
     (''main'', ''0x7f39C581F595B53c5cb19bD0b3f8dA6c935E2Ca0''),
     (''tenderly'', ''0x7f39C581F595B53c5cb19bD0b3f8dA6c935E2Ca0''),
     (''goerli'', '''')]"

definition Sturdy_CRV :: "string jsobj" where
  "Sturdy_CRV =
    [(''coverage'', ''''),
     (''hardhat'', ''''),
     (''geth'', ''''),
     (''localhost'', ''''),
     (''buidlerevm'', ''''),
     (''kovan'', ''''),
     (''ropsten'', ''''),
     (''main'', ''0xD533a949740bb3306d119CC777fa900bA034cd52''),
     (''tenderly'', ''0xD533a949740bb3306d119CC777fa900bA034cd52''),
     (''goerli'', '''')]"

definition Sturdy_CVX :: "string jsobj" where
  "Sturdy_CVX =
    [(''coverage'', ''''),
     (''hardhat'', ''''),
     (''geth'', ''''),
     (''localhost'', ''''),
     (''buidlerevm'', ''''),
     (''kovan'', ''''),
     (''ropsten'', ''''),
     (''main'', ''0x4e3FBD56CD56c3e72c1403e103b45Db9da5B9D2B''),
     (''tenderly'', ''0x4e3FBD56CD56c3e72c1403e103b45Db9da5B9D2B''),
     (''goerli'', '''')]"

definition Sturdy_BAL :: "string jsobj" where
  "Sturdy_BAL =
    [(''coverage'', ''''),
     (''hardhat'', ''''),
     (''geth'', ''''),
     (''localhost'', ''''),
     (''buidlerevm'', ''''),
     (''kovan'', ''''),
     (''ropsten'', ''''),
     (''main'', ''0xba100000625a3754423978a60c9317c58a424e3D''),
     (''tenderly'', ''0xba100000625a3754423978a60c9317c58a424e3D''),
     (''goerli'', '''')]"

definition Sturdy_SNX :: "string jsobj" where
  "Sturdy_SNX =
    [(''coverage'', ''''),
     (''hardhat'', ''''),
     (''geth'', ''''),
     (''localhost'', ''''),
     (''buidlerevm'', ''''),
     (''kovan'', ''''),
     (''ropsten'', ''''),
     (''main'', ''0xC011a73ee8576Fb46F5E1c5751cA3B9Fe0af2a6F''),
     (''tenderly'', ''0xC011a73ee8576Fb46F5E1c5751cA3B9Fe0af2a6F''),
     (''goerli'', '''')]"

definition Sturdy_TUSD :: "string jsobj" where
  "Sturdy_TUSD =
    [(''coverage'', ''''),
     (''hardhat'', ''''),
     (''geth'', ''''),
     (''localhost'', ''''),
     (''buidlerevm'', ''''),
     (''kovan'', ''''),
     (''ropsten'', ''''),
     (''main'', ''0x0000000000085d4780B73119b644AE5ecd22b376''),
     (''tenderly'', ''0x0000000000085d4780B73119b644AE5ecd22b376''),
     (''goerli'', '''')]"

definition Sturdy_SUSD :: "string jsobj" where
  "Sturdy_SUSD =
    [(''coverage'', ''''),
     (''hardhat'', ''''),
     (''geth'', ''''),
     (''localhost'', ''''),
     (''buidlerevm'', ''''),
     (''kovan'', ''''),
     (''ropsten'', ''''),
     (''main'', ''0x57Ab1ec28D129707052df4dF418D58a2D46d5f51''),
     (''tenderly'', ''0x57Ab1ec28D129707052df4dF418D58a2D46d5f51''),
     (''goerli'', '''')]"

definition Sturdy_AURA :: "string jsobj" where
  "Sturdy_AURA =
    [(''coverage'', ''''),
     (''hardhat'', ''''),
     (''geth'', ''''),
     (''localhost'', ''''),
     (''buidlerevm'', ''''),
     (''kovan'', ''''),
     (''ropsten'', ''''),
     (''main'', ''0xC0c293ce456fF0ED870ADd98a0828Dd4d2903DBF''),
     (''tenderly'', ''0xC0c293ce456fF0ED870ADd98a0828Dd4d2903DBF''),
     (''goerli'', '''')]"

definition Sturdy_FRAX :: "string jsobj" where
  "Sturdy_FRAX =
    [(''coverage'', ''''),
     (''hardhat'', ''''),
     (''geth'', ''''),
     (''localhost'', ''''),
     (''buidlerevm'', ''''),
     (''kovan'', ''''),
     (''ropsten'', ''''),
     (''main'', ''0x853d955aCEf822Db058eb8505911ED77F175b99e''),
     (''tenderly'', ''0x853d955aCEf822Db058eb8505911ED77F175b99e''),
     (''goerli'', '''')]"

definition Sturdy_MIM :: "string jsobj" where
  "Sturdy_MIM =
    [(''coverage'', ''''),
     (''hardhat'', ''''),
     (''geth'', ''''),
     (''localhost'', ''''),
     (''buidlerevm'', ''''),
     (''kovan'', ''''),
     (''ropsten'', ''''),
     (''main'', ''0x99D8a9C45b2ecA8864373A26D1459e3Dff1e17F3''),
     (''tenderly'', ''0x99D8a9C45b2ecA8864373A26D1459e3Dff1e17F3''),
     (''goerli'', '''')]"

definition Sturdy_RETH_WSTETH_LP :: "string jsobj" where
  "Sturdy_RETH_WSTETH_LP =
    [(''coverage'', ''''),
     (''hardhat'', ''''),
     (''geth'', ''''),
     (''localhost'', ''''),
     (''buidlerevm'', ''''),
     (''kovan'', ''''),
     (''ropsten'', ''''),
     (''main'', ''0x447Ddd4960d9fdBF6af9a790560d0AF76795CB08''),
     (''tenderly'', ''0x447Ddd4960d9fdBF6af9a790560d0AF76795CB08''),
     (''goerli'', '''')]"

definition Sturdy_FRAX_3CRV_LP :: "string jsobj" where
  "Sturdy_FRAX_3CRV_LP =
    [(''coverage'', ''''),
     (''hardhat'', ''''),
     (''geth'', ''''),
     (''localhost'', ''''),
     (''buidlerevm'', ''''),
     (''kovan'', ''''),
     (''ropsten'', ''''),
     (''main'', ''0xd632f22692FaC7611d2AA1C0D552930D43CAEd3B''),
     (''tenderly'', ''0xd632f22692FaC7611d2AA1C0D552930D43CAEd3B''),
     (''goerli'', '''')]"

definition Sturdy_BAL_DAI_USDC_USDT_LP :: "string jsobj" where
  "Sturdy_BAL_DAI_USDC_USDT_LP =
    [(''coverage'', ''''),
     (''hardhat'', ''''),
     (''geth'', ''''),
     (''localhost'', ''''),
     (''buidlerevm'', ''''),
     (''kovan'', ''''),
     (''ropsten'', ''''),
     (''main'', ''0x06Df3b2bbB68adc8B0e302443692037ED9f91b42''),
     (''tenderly'', ''0x06Df3b2bbB68adc8B0e302443692037ED9f91b42''),
     (''goerli'', '''')]"

definition Sturdy_STECRV_LP :: "string jsobj" where
  "Sturdy_STECRV_LP =
    [(''coverage'', ''''),
     (''hardhat'', ''''),
     (''geth'', ''''),
     (''localhost'', ''''),
     (''buidlerevm'', ''''),
     (''kovan'', ''''),
     (''ropsten'', ''''),
     (''main'', ''0x06325440D014e39736583c165C2963BA99fAf14E''),
     (''tenderly'', ''0x06325440D014e39736583c165C2963BA99fAf14E''),
     (''goerli'', '''')]"

definition Sturdy_DOLA_3CRV_LP :: "string jsobj" where
  "Sturdy_DOLA_3CRV_LP =
    [(''coverage'', ''''),
     (''hardhat'', ''''),
     (''geth'', ''''),
     (''localhost'', ''''),
     (''buidlerevm'', ''''),
     (''kovan'', ''''),
     (''ropsten'', ''''),
     (''main'', ''0xAA5A67c256e27A5d80712c51971408db3370927D''),
     (''tenderly'', ''0xAA5A67c256e27A5d80712c51971408db3370927D''),
     (''goerli'', '''')]"

definition Sturdy_MIM_3CRV_LP :: "string jsobj" where
  "Sturdy_MIM_3CRV_LP =
    [(''coverage'', ''''),
     (''hardhat'', ''''),
     (''geth'', ''''),
     (''localhost'', ''''),
     (''buidlerevm'', ''''),
     (''kovan'', ''''),
     (''ropsten'', ''''),
     (''main'', ''0x5a6A4D54456819380173272A5E8E9B9904BdF41B''),
     (''tenderly'', ''0x5a6A4D54456819380173272A5E8E9B9904BdF41B''),
     (''goerli'', '''')]"

definition Sturdy_DAI_USDC_USDT_SUSD_LP :: "string jsobj" where
  "Sturdy_DAI_USDC_USDT_SUSD_LP =
    [(''coverage'', ''''),
     (''hardhat'', ''''),
     (''geth'', ''''),
     (''localhost'', ''''),
     (''buidlerevm'', ''''),
     (''kovan'', ''''),
     (''ropsten'', ''''),
     (''main'', ''0xC25a3A3b969415c80451098fa907EC722572917F''),
     (''tenderly'', ''0xC25a3A3b969415c80451098fa907EC722572917F''),
     (''goerli'', '''')]"

definition Sturdy_HBTC_WBTC_LP :: "string jsobj" where
  "Sturdy_HBTC_WBTC_LP =
    [(''coverage'', ''''),
     (''hardhat'', ''''),
     (''geth'', ''''),
     (''localhost'', ''''),
     (''buidlerevm'', ''''),
     (''kovan'', ''''),
     (''ropsten'', ''''),
     (''main'', ''0xb19059ebb43466C323583928285a49f558E572Fd''),
     (''tenderly'', ''0xb19059ebb43466C323583928285a49f558E572Fd''),
     (''goerli'', '''')]"

definition Sturdy_IRON_BANK_LP :: "string jsobj" where
  "Sturdy_IRON_BANK_LP =
    [(''coverage'', ''''),
     (''hardhat'', ''''),
     (''geth'', ''''),
     (''localhost'', ''''),
     (''buidlerevm'', ''''),
     (''kovan'', ''''),
     (''ropsten'', ''''),
     (''main'', ''0x5282a4eF67D9C33135340fB3289cc1711c13638C''),
     (''tenderly'', ''0x5282a4eF67D9C33135340fB3289cc1711c13638C''),
     (''goerli'', '''')]"

definition Sturdy_FRAX_USDC_LP :: "string jsobj" where
  "Sturdy_FRAX_USDC_LP =
    [(''coverage'', ''''),
     (''hardhat'', ''''),
     (''geth'', ''''),
     (''localhost'', ''''),
     (''buidlerevm'', ''''),
     (''kovan'', ''''),
     (''ropsten'', ''''),
     (''main'', ''0x3175Df0976dFA876431C2E9eE6Bc45b65d3473CC''),
     (''tenderly'', ''0x3175Df0976dFA876431C2E9eE6Bc45b65d3473CC''),
     (''goerli'', '''')]"

definition Sturdy_TUSD_FRAXBP_LP :: "string jsobj" where
  "Sturdy_TUSD_FRAXBP_LP =
    [(''coverage'', ''''),
     (''hardhat'', ''''),
     (''geth'', ''''),
     (''localhost'', ''''),
     (''buidlerevm'', ''''),
     (''kovan'', ''''),
     (''ropsten'', ''''),
     (''main'', ''0x33baeDa08b8afACc4d3d07cf31d49FC1F1f3E893''),
     (''tenderly'', ''0x3175Df0976dFA876431C2E9eE6Bc45b65d3473CC''),
     (''goerli'', '''')]"

definition Sturdy_BAL_BB_A_USD_LP :: "string jsobj" where
  "Sturdy_BAL_BB_A_USD_LP =
    [(''coverage'', ''''),
     (''hardhat'', ''''),
     (''geth'', ''''),
     (''localhost'', ''''),
     (''buidlerevm'', ''''),
     (''kovan'', ''''),
     (''ropsten'', ''''),
     (''main'', ''0xA13a9247ea42D743238089903570127DdA72fE44''),
     (''tenderly'', ''0xA13a9247ea42D743238089903570127DdA72fE44''),
     (''goerli'', '''')]"

definition Sturdy_BAL_BB_A3_USD_LP :: "string jsobj" where
  "Sturdy_BAL_BB_A3_USD_LP =
    [(''coverage'', ''''),
     (''hardhat'', ''''),
     (''geth'', ''''),
     (''localhost'', ''''),
     (''buidlerevm'', ''''),
     (''kovan'', ''''),
     (''ropsten'', ''''),
     (''main'', ''0xfeBb0bbf162E64fb9D0dfe186E517d84C395f016''),
     (''tenderly'', ''0xfeBb0bbf162E64fb9D0dfe186E517d84C395f016''),
     (''goerli'', '''')]"

definition Sturdy_YearnRETHWstETHVault :: "string jsobj" where
  "Sturdy_YearnRETHWstETHVault =
    [(''coverage'', ''''),
     (''hardhat'', ''''),
     (''geth'', ''''),
     (''localhost'', ''''),
     (''buidlerevm'', ''''),
     (''kovan'', ''''),
     (''ropsten'', ''''),
     (''main'', ''0x5c0A86A32c129538D62C106Eb8115a8b02358d57''),
     (''tenderly'', ''0x5c0A86A32c129538D62C106Eb8115a8b02358d57''),
     (''goerli'', '''')]"

definition Sturdy_CurveswapLidoPool :: "string jsobj" where
  "Sturdy_CurveswapLidoPool =
    [(''coverage'', ''''),
     (''hardhat'', ''''),
     (''geth'', ''''),
     (''localhost'', ''''),
     (''buidlerevm'', ''''),
     (''kovan'', ''''),
     (''ropsten'', ''''),
     (''main'', ''0xDC24316b9AE028F1497c275EB9192a3Ea0f67022''),
     (''tenderly'', ''0xDC24316b9AE028F1497c275EB9192a3Ea0f67022''),
     (''goerli'', ''0xCEB67769c63cfFc6C8a6c68e85aBE1Df396B7aDA'')]"

definition Sturdy_UniswapRouter :: "string jsobj" where
  "Sturdy_UniswapRouter =
    [(''coverage'', ''''),
     (''hardhat'', ''''),
     (''geth'', ''''),
     (''localhost'', ''''),
     (''buidlerevm'', ''''),
     (''kovan'', ''''),
     (''ropsten'', ''''),
     (''main'', ''0xE592427A0AEce92De3Edee1F18E0157C05861564''),
     (''tenderly'', ''0xE592427A0AEce92De3Edee1F18E0157C05861564''),
     (''goerli'', ''0xE592427A0AEce92De3Edee1F18E0157C05861564'')]"

definition Sturdy_CurveswapAddressProvider :: "string jsobj" where
  "Sturdy_CurveswapAddressProvider =
    [(''coverage'', ''''),
     (''hardhat'', ''''),
     (''geth'', ''''),
     (''localhost'', ''''),
     (''buidlerevm'', ''''),
     (''kovan'', ''''),
     (''ropsten'', ''''),
     (''main'', ''0x0000000022D53366457F9d5E68Ec105046FC4383''),
     (''tenderly'', ''0x0000000022D53366457F9d5E68Ec105046FC4383''),
     (''goerli'', ''0x0000000022D53366457F9d5E68Ec105046FC4383'')]"

definition Sturdy_AavePool :: "string jsobj" where
  "Sturdy_AavePool =
    [(''coverage'', ''''),
     (''hardhat'', ''''),
     (''geth'', ''''),
     (''localhost'', ''''),
     (''buidlerevm'', ''''),
     (''kovan'', ''''),
     (''ropsten'', ''''),
     (''main'', ''0x7937D4799803FbBe595ed57278Bc4cA21f3bFfCB''),
     (''tenderly'', ''0x7937D4799803FbBe595ed57278Bc4cA21f3bFfCB''),
     (''goerli'', '''')]"

definition SturdyConfig :: ISturdyConfiguration where
  "SturdyConfig =
    ICommonConfiguration.extend
      (CommonsConfig\<lparr>MarketId := ''Sturdy genesis market'', ProviderId := 1, ReserveAssets := Sturdy_ReserveAssets\<rparr>)
      (ISturdyConfiguration.fields
        Sturdy_Lido
        Sturdy_WSTETH
        Sturdy_CRV
        Sturdy_CVX
        Sturdy_BAL
        Sturdy_SNX
        Sturdy_TUSD
        Sturdy_SUSD
        Sturdy_AURA
        Sturdy_FRAX
        Sturdy_MIM
        Sturdy_RETH_WSTETH_LP
        Sturdy_FRAX_3CRV_LP
        Sturdy_BAL_DAI_USDC_USDT_LP
        Sturdy_STECRV_LP
        Sturdy_DOLA_3CRV_LP
        Sturdy_MIM_3CRV_LP
        Sturdy_DAI_USDC_USDT_SUSD_LP
        Sturdy_HBTC_WBTC_LP
        Sturdy_IRON_BANK_LP
        Sturdy_FRAX_USDC_LP
        Sturdy_TUSD_FRAXBP_LP
        Sturdy_BAL_BB_A_USD_LP
        Sturdy_BAL_BB_A3_USD_LP
        Sturdy_YearnRETHWstETHVault
        Sturdy_CurveswapLidoPool
        Sturdy_UniswapRouter
        Sturdy_CurveswapAddressProvider
        Sturdy_AavePool)"

section \<open>Reading the configuration\<close>

lemma SturdyConfig_fields [simp]:
  "ISturdyConfiguration.Lido SturdyConfig = Sturdy_Lido"
  "ISturdyConfiguration.WSTETH SturdyConfig = Sturdy_WSTETH"
  "ISturdyConfiguration.CRV SturdyConfig = Sturdy_CRV"
  "ISturdyConfiguration.CVX SturdyConfig = Sturdy_CVX"
  "ISturdyConfiguration.BAL SturdyConfig = Sturdy_BAL"
  "ISturdyConfiguration.SNX SturdyConfig = Sturdy_SNX"
  "ISturdyConfiguration.TUSD SturdyConfig = Sturdy_TUSD"
  "ISturdyConfiguration.SUSD SturdyConfig = Sturdy_SUSD"
  "ISturdyConfiguration.AURA SturdyConfig = Sturdy_AURA"
  "ISturdyConfiguration.FRAX SturdyConfig = Sturdy_FRAX"
  "ISturdyConfiguration.MIM SturdyConfig = Sturdy_MIM"
  "ISturdyConfiguration.RETH_WSTETH_LP SturdyConfig = Sturdy_RETH_WSTETH_LP"
  "ISturdyConfiguration.FRAX_3CRV_LP SturdyConfig = Sturdy_FRAX_3CRV_LP"
  "ISturdyConfiguration.BAL_DAI_USDC_USDT_LP SturdyConfig = Sturdy_BAL_DAI_USDC_USDT_LP"
  "ISturdyConfiguration.STECRV_LP SturdyConfig = Sturdy_STECRV_LP"
  "ISturdyConfiguration.DOLA_3CRV_LP SturdyConfig = Sturdy_DOLA_3CRV_LP"
  "ISturdyConfiguration.MIM_3CRV_LP SturdyConfig = Sturdy_MIM_3CRV_LP"
  "ISturdyConfiguration.DAI_USDC_USDT_SUSD_LP SturdyConfig = Sturdy_DAI_USDC_USDT_SUSD_LP"
  "ISturdyConfiguration.HBTC_WBTC_LP SturdyConfig = Sturdy_HBTC_WBTC_LP"
  "ISturdyConfiguration.IRON_BANK_LP SturdyConfig = Sturdy_IRON_BANK_LP"
  "ISturdyConfiguration.FRAX_USDC_LP SturdyConfig = Sturdy_FRAX_USDC_LP"
  "ISturdyConfiguration.TUSD_FRAXBP_LP SturdyConfig = Sturdy_TUSD_FRAXBP_LP"
  "ISturdyConfiguration.BAL_BB_A_USD_LP SturdyConfig = Sturdy_BAL_BB_A_USD_LP"
  "ISturdyConfiguration.BAL_BB_A3_USD_LP SturdyConfig = Sturdy_BAL_BB_A3_USD_LP"
  "ISturdyConfiguration.YearnRETHWstETHVault SturdyConfig = Sturdy_YearnRETHWstETHVault"
  "ISturdyConfiguration.CurveswapLidoPool SturdyConfig = Sturdy_CurveswapLidoPool"
  "ISturdyConfiguration.UniswapRouter SturdyConfig = Sturdy_UniswapRouter"
  "ISturdyConfiguration.CurveswapAddressProvider SturdyConfig = Sturdy_CurveswapAddressProvider"
  "ISturdyConfiguration.AavePool SturdyConfig = Sturdy_AavePool"
  "ProtocolGlobalParams SturdyConfig = Commons_ProtocolGlobalParams"
  "LendingRateOracleRatesCommon SturdyConfig = Commons_LendingRateOracleRatesCommon"
  "PoolAdmin SturdyConfig = Commons_PoolAdmin"
  "EmergencyAdmin SturdyConfig = Commons_EmergencyAdmin"
  "ProviderRegistry SturdyConfig = Commons_ProviderRegistry"
  "ProviderRegistryOwner SturdyConfig = Commons_ProviderRegistryOwner"
  "LendingRateOracle SturdyConfig = Commons_LendingRateOracle"
  "LendingPoolCollateralManager SturdyConfig = Commons_LendingPoolCollateralManager"
  "LendingPoolConfigurator SturdyConfig = Commons_LendingPoolConfigurator"
  "LendingPool SturdyConfig = Commons_LendingPool"
  "TokenDistributor SturdyConfig = Commons_TokenDistributor"
  "SturdyOracle SturdyConfig = Commons_SturdyOracle"
  "FallbackOracle SturdyConfig = Commons_FallbackOracle"
  "ChainlinkAggregator SturdyConfig = Commons_ChainlinkAggregator"
  "ReserveAssets SturdyConfig = Sturdy_ReserveAssets"
  "ATokenDomainSeparator SturdyConfig = Commons_ATokenDomainSeparator"
  "WFTM SturdyConfig = Commons_WFTM"
  "WETH SturdyConfig = Commons_WETH"
  "WBTC SturdyConfig = Commons_WBTC"
  "WrappedNativeToken SturdyConfig = Commons_WrappedNativeToken"
  "ReserveFactorTreasuryAddress SturdyConfig = Commons_ReserveFactorTreasuryAddress"
  "IncentivesController SturdyConfig = Commons_IncentivesController"
  by (simp_all add: SturdyConfig_def CommonsConfig_def ICommonConfiguration.extend_def ISturdyConfiguration.fields_def)

lemma SturdyConfig_truncate:
  "ICommonConfiguration.truncate SturdyConfig =
    CommonsConfig\<lparr>MarketId := MarketId SturdyConfig, ProviderId := ProviderId SturdyConfig, ReserveAssets := Sturdy_ReserveAssets\<rparr>"
  by (simp add: SturdyConfig_def CommonsConfig_def ICommonConfiguration.extend_def ICommonConfiguration.truncate_def
      ISturdyConfiguration.fields_def)

lemmas MarketSturdy_data =
  Commons_ProtocolGlobalParams_def Commons_LendingRateOracleRatesCommon_def
  Commons_PoolAdmin_def Commons_EmergencyAdmin_def Commons_ProviderRegistry_def
  Commons_ProviderRegistryOwner_def Commons_LendingRateOracle_def
  Commons_LendingPoolCollateralManager_def Commons_LendingPoolConfigurator_def
  Commons_LendingPool_def Commons_TokenDistributor_def Commons_SturdyOracle_def
  Commons_FallbackOracle_def Commons_ChainlinkAggregator_def Commons_ReserveAssets_def
  Commons_ATokenDomainSeparator_def Commons_WFTM_def Commons_WETH_def Commons_WBTC_def
  Commons_WrappedNativeToken_def Commons_ReserveFactorTreasuryAddress_def
  Commons_IncentivesController_def Sturdy_ReserveAssets_def Sturdy_Lido_def
  Sturdy_WSTETH_def Sturdy_CRV_def Sturdy_CVX_def Sturdy_BAL_def Sturdy_SNX_def
  Sturdy_TUSD_def Sturdy_SUSD_def Sturdy_AURA_def Sturdy_FRAX_def Sturdy_MIM_def
  Sturdy_RETH_WSTETH_LP_def Sturdy_FRAX_3CRV_LP_def Sturdy_BAL_DAI_USDC_USDT_LP_def
  Sturdy_STECRV_LP_def Sturdy_DOLA_3CRV_LP_def Sturdy_MIM_3CRV_LP_def
  Sturdy_DAI_USDC_USDT_SUSD_LP_def Sturdy_HBTC_WBTC_LP_def Sturdy_IRON_BANK_LP_def
  Sturdy_FRAX_USDC_LP_def Sturdy_TUSD_FRAXBP_LP_def Sturdy_BAL_BB_A_USD_LP_def
  Sturdy_BAL_BB_A3_USD_LP_def Sturdy_YearnRETHWstETHVault_def Sturdy_CurveswapLidoPool_def
  Sturdy_UniswapRouter_def Sturdy_CurveswapAddressProvider_def Sturdy_AavePool_def

end
