(* ===== verification/MarketFtm.thy ===== *)
theory MarketFtm
  imports MarketTypes World
begin

text \<open>
  The configuration of the Fantom market: \<open>markets/ftm/commons.ts\<close> (its \<open>CommonsConfig\<close> is
  \<open>FtmCommonsConfig\<close> here) and \<open>markets/ftm/index.ts\<close>.
\<close>

section \<open>Common configuration\<close>

definition FtmCommons_ProtocolGlobalParams :: "IProtocolGlobalConfig" where
  "FtmCommons_ProtocolGlobalParams =
    \<lparr>TokenDistributorPercentageBase = ''10000'',
     MockUsdPriceInWei = ''373068412860'',
     UsdAddress = ''0x10F7Fc1F91Ba351f9C629c5947AD69bD03C05b96'',
     NilAddress = ''0x0000000000000000000000000000000000000000'',
     OneAddress = ''0x0000000000000000000000000000000000000001'',
     SturdyReferral = ''0''\<rparr>"

definition FtmCommons_LendingRateOracleRatesCommon :: "ILendingRate jsobj" where
  "FtmCommons_LendingRateOracleRatesCommon =
    [(''DAI'', \<lparr>borrowRate = ''0''\<rparr>),
     (''USDC'', \<lparr>borrowRate = ''0''\<rparr>),
     (''fUSDT'', \<lparr>borrowRate = ''0''\<rparr>)]"

definition FtmCommons_PoolAdmin :: "string option jsobj" where
  "FtmCommons_PoolAdmin =
    [(''ftm'', None),
     (''ftm_test'', None),
     (''tenderlyFTM'', None)]"

definition FtmCommons_EmergencyAdmin :: "string option jsobj" where
  "FtmCommons_EmergencyAdmin =
    [(''ftm'', None),
     (''ftm_test'', None),
     (''tenderlyFTM'', None)]"

definition FtmCommons_ProviderRegistry :: "string jsobj" where
  "FtmCommons_ProviderRegistry =
    [(''ftm'', ''''),
     (''ftm_test'', ''0xAD475FfbCB15fbc1D481ffDf16dBe5f6ac209Bca''),
     (''tenderlyFTM'', ''0x23Df30FE1d2a8C6f4602db382D727561097F899E'')]"

definition FtmCommons_ProviderRegistryOwner :: "string jsobj" where
  "FtmCommons_ProviderRegistryOwner =
    [(''ftm'', ''''),
     (''ftm_test'', ''0x661fB502E24Deb30e927E39A38Bd2CC44D67339F''),
     (''tenderlyFTM'', '''')]"

definition FtmCommons_LendingRateOracle :: "string jsobj" where
  "FtmCommons_LendingRateOracle =
    [(''ftm'', ''''),
     (''ftm_test'', ''0x829223FB97E0fB5aecFbfD7167aEAe4ec9e0dc75''),
     (''tenderlyFTM'', ''0x0024a128CB74FF0C93de1261C59E4d04321E9dC0'')]"

definition FtmCommons_LendingPoolCollateralManager :: "string jsobj" where
  "FtmCommons_LendingPoolCollateralManager =
    [(''ftm'', ''''),
     (''ftm_test'', ''0x5a3aE44704D95CcAffe608c808308c850bDec94d''),
     (''tenderlyFTM'', ''0x174110e39F1B67a185C9440B980d799AE5332795'')]"

definition FtmCommons_LendingPoolConfigurator :: "string jsobj" where
  "FtmCommons_LendingPoolConfigurator =
    [(''ftm'', ''''),
     (''ftm_test'', ''0x6719B46ee295208911f5241f429fDD9F5D88df86''),
     (''tenderlyFTM'', ''0x72D2ADBD98e03Cd1eA05C133142DDFec0Aa26A6d'')]"

definition FtmCommons_LendingPool :: "string jsobj" where
  "FtmCommons_LendingPool =
    [(''ftm'', ''''),
     (''ftm_test'', ''0x7b07169cCB3CcEe717498e1Cefe6049De02f588D''),
     (''tenderlyFTM'', ''0x7FF2520Cd7b76e8C49B5DB51505b842d665f3e9A'')]"

definition FtmCommons_TokenDistributor :: "string jsobj" where
  "FtmCommons_TokenDistributor =
    [(''ftm'', ''''),
     (''ftm_test'', ''''),
     (''tenderlyFTM'', '''')]"

definition FtmCommons_SturdyOracle :: "string jsobj" where
  "FtmCommons_SturdyOracle =
    [(''ftm'', ''''),
     (''ftm_test'', ''''),
     (''tenderlyFTM'', ''0xE84fD77E8B7bB52a71087653a26d6CC6448fb77D'')]"

definition FtmCommons_FallbackOracle :: "string jsobj" where
  "FtmCommons_FallbackOracle =
    [(''ftm'', ZERO_ADDRESS),
     (''ftm_test'', ''0x40aF3dF2B582a9055FbFAdD57f504B334218c2CD''),
     (''tenderlyFTM'', ZERO_ADDRESS)]"

definition FtmCommons_ChainlinkAggregator :: "string jsobj jsobj" where
  "FtmCommons_ChainlinkAggregator =
    [(''ftm'', [(''DAI'', ''0x91d5DEFAFfE2854C7D02F50c80FA1fdc8A721e52''),
         (''USDC'', ''0x2553f4eeb82d5A26427b8d1106C51499CBa5D99c''),
         (''fUSDT'', ''0xF64b636c5dFe1d3555A847341cDC449f612307d0''),
         (''yvWFTM'', ''0xf4766552D15AE4d256Ad41B6cf2933482B0680dc''),
         (''yvWETH'', ''0x11ddd3d147e5b83d01cee7070027092397d63658''),
         (''yvWBTC'', ''0x8e94C22142F4A64b99022ccDd994f4e9EC86E4B4''),
         (''yvBOO'', ''0xc8C80c17f05930876Ba7c1DD50D9186213496376''),
         (''TOMB'', ''0xa60811d6398EFaCa83D45F58C733EE7C3C4f0e1e''),
         (''MIMATIC'', ''0x827863222c9C603960dE6FF2c0dD58D457Dcc363''),
         (''BASED'', ''0x6cC542d4cD29Aa9528d1af83A196aBeCfEE61a8b''),
         (''mooTOMB_FTM'', ''0x6dB13c9fcEc2D7AE996bb2220d13aa9274005219''),
         (''mooTOMB_MIMATIC'', ''0xa26a6F2eB4Bc7005aF8eA5a1dd5B7bc1d8973592''),
         (''yvfBEETS'', ''0x7eD6f3f22Fb3F85E1071b5F6e616d5f0E0E32a49''),
         (''BEETS'', ''0x0C073077eB4277d18EA10796188e07ab886032BD''),
         (''yvLINK'', ''0x221C773d8647BC3034e91a0c47062e26D20d97B4''),
         (''yvCRV'', ''0xa141D7E3B44594cc65142AE5F2C7844Abea66D2B''),
         (''yvSPELL'', ''0x02E48946849e0BFDD7bEa5daa80AF77195C7E24c''),
         (''mooBASED_MIMATIC'', ''0x86A42b7A448c1568d21b00C90eaB53B8417eEaDc'')]),
     (''ftm_test'', []),
     (''tenderlyFTM'', [(''DAI'', ''0x91d5DEFAFfE2854C7D02F50c80FA1fdc8A721e52''),
         (''USDC'', ''0x2553f4eeb82d5A26427b8d1106C51499CBa5D99c''),
         (''fUSDT'', ''0xF64b636c5dFe1d3555A847341cDC449f612307d0''),
         (''yvWFTM'', ''0xf4766552D15AE4d256Ad41B6cf2933482B0680dc''),
         (''yvWETH'', ''0x11ddd3d147e5b83d01cee7070027092397d63658''),
         (''yvWBTC'', ''0x8e94C22142F4A64b99022ccDd994f4e9EC86E4B4''),
         (''yvBOO'', ''0xc8C80c17f05930876Ba7c1DD50D9186213496376''),
         (''TOMB'', ''0xa60811d6398EFaCa83D45F58C733EE7C3C4f0e1e''),
         (''MIMATIC'', ''0x827863222c9C603960dE6FF2c0dD58D457Dcc363''),
         (''BASED'', ''0x6cC542d4cD29Aa9528d1af83A196aBeCfEE61a8b''),
         (''mooTOMB_FTM'', ''0x6dB13c9fcEc2D7AE996bb2220d13aa9274005219''),
         (''mooTOMB_MIMATIC'', ''0xa26a6F2eB4Bc7005aF8eA5a1dd5B7bc1d8973592''),
         (''yvfBEETS'', ''0x7eD6f3f22Fb3F85E1071b5F6e616d5f0E0E32a49''),
         (''BEETS'', ''0x0C073077eB4277d18EA10796188e07ab886032BD''),
         (''yvLINK'', ''0x221C773d8647BC3034e91a0c47062e26D20d97B4''),
         (''yvCRV'', ''0xa141D7E3B44594cc65142AE5F2C7844Abea66D2B''),
         (''yvSPELL'', ''0x02E48946849e0BFDD7bEa5daa80AF77195C7E24c''),
         (''mooBASED_MIMATIC'', ''0x86A42b7A448c1568d21b00C90eaB53B8417eEaDc'')])]"

definition FtmCommons_ReserveAssets :: "string jsobj jsobj" where
  "FtmCommons_ReserveAssets =
    [(''ftm'', []),
     (''ftm_test'', []),
     (''tenderlyFTM'', [])]"

definition FtmCommons_ATokenDomainSeparator :: "string jsobj" where
  "FtmCommons_ATokenDomainSeparator =
    [(''ftm'', ''''),
     (''ftm_test'', ''''),
     (''tenderlyFTM'', '''')]"

definition FtmCommons_WFTM :: "string jsobj" where
  "FtmCommons_WFTM =
    [(''ftm'', ''0x21be370D5312f44cB42ce377BC9b8a0cEF1A4C83''),
     (''ftm_test'', ''0xf1277d1ed8ad466beddf92ef448a132661956621''),
     (''tenderlyFTM'', ''0x21be370D5312f44cB42ce377BC9b8a0cEF1A4C83'')]"

definition FtmCommons_WETH :: "string jsobj" where
  "FtmCommons_WETH =
    [(''ftm'', ''0x74b23882a30290451a17c44f4f05243b6b58c76d''),
     (''ftm_test'', ''0x4135c251eE7804A73dB09D36C306AE0214deA28B''),
     (''tenderlyFTM'', ''0x74b23882a30290451a17c44f4f05243b6b58c76d'')]"

definition FtmCommons_WBTC :: "string jsobj" where
  "FtmCommons_WBTC =
    [(''ftm'', ''0x321162Cd933E2Be498Cd2267a90534A804051b11''),
     (''ftm_test'', ''0x0e9Cbd91546F290b0F99cF62DAC637B33D22D9B6''),
     (''tenderlyFTM'', ''0x321162Cd933E2Be498Cd2267a90534A804051b11'')]"

definition FtmCommons_WrappedNativeToken :: "string jsobj" where
  "FtmCommons_WrappedNativeToken =
    [(''ftm'', ''0x21be370D5312f44cB42ce377BC9b8a0cEF1A4C83''),
     (''ftm_test'', ''0xf1277d1ed8ad466beddf92ef448a132661956621''),
     (''tenderlyFTM'', ''0x21be370D5312f44cB42ce377BC9b8a0cEF1A4C83'')]"

definition FtmCommons_ReserveFactorTreasuryAddress :: "string jsobj" where
  "FtmCommons_ReserveFactorTreasuryAddress =
    [(''ftm'', ''0xFd1D36995d76c0F75bbe4637C84C06E4A68bBB3a''),
     (''ftm_test'', ''0xFd1D36995d76c0F75bbe4637C84C06E4A68bBB3a''),
     (''tenderlyFTM'', ''0xFd1D36995d76c0F75bbe4637C84C06E4A68bBB3a'')]"

definition FtmCommons_IncentivesController :: "string jsobj" where
  "FtmCommons_IncentivesController =
    [(''ftm'', ''0xcdA2B5Cd654be0DBA19E4064c583642741712560''),
     (''ftm_test'', ''0xe8257438ea046A3f5f246c862Efd8c96AD82289a''),
     (''tenderlyFTM'', ''0xcdA2B5Cd654be0DBA19E4064c583642741712560'')]"

definition FtmCommonsConfig :: ICommonConfiguration where
  "FtmCommonsConfig =
    \<lparr>MarketId = ''Commons'',
     ATokenNamePrefix = ''Sturdy interest bearing'',
     StableDebtTokenNamePrefix = ''Sturdy stable debt bearing'',
     VariableDebtTokenNamePrefix = ''Sturdy variable debt bearing'',
     SymbolPrefix = '''',
     ProviderId = 0,
     OracleQuoteCurrency = ''USD'',
     ProtocolGlobalParams = FtmCommons_ProtocolGlobalParams,
     LendingRateOracleRatesCommon = FtmCommons_LendingRateOracleRatesCommon,
     PoolAdmin = FtmCommons_PoolAdmin,
     PoolAdminIndex = 0,
     EmergencyAdmin = FtmCommons_EmergencyAdmin,
     EmergencyAdminIndex = 1,
     ProviderRegistry = FtmCommons_ProviderRegistry,
     ProviderRegistryOwner = FtmCommons_ProviderRegistryOwner,
     LendingRateOracle = FtmCommons_LendingRateOracle,
     LendingPoolCollateralManager = FtmCommons_LendingPoolCollateralManager,
     LendingPoolConfigurator = FtmCommons_LendingPoolConfigurator,
     LendingPool = FtmCommons_LendingPool,
     TokenDistributor = FtmCommons_TokenDistributor,
     SturdyOracle = FtmCommons_SturdyOracle,
     FallbackOracle = FtmCommons_FallbackOracle,
     ChainlinkAggregator = FtmCommons_ChainlinkAggregator,
     ReserveAssets = FtmCommons_ReserveAssets,
     ATokenDomainSeparator = FtmCommons_ATokenDomainSeparator,
     WFTM = FtmCommons_WFTM,
     WETH = FtmCommons_WETH,
     WBTC = FtmCommons_WBTC,
     WrappedNativeToken = FtmCommons_WrappedNativeToken,
     ReserveFactorTreasuryAddress = FtmCommons_ReserveFactorTreasuryAddress,
     IncentivesController = FtmCommons_IncentivesController\<rparr>"

section \<open>The market\<close>

definition Fantom_ReserveAssets :: "string jsobj jsobj" where
  "Fantom_ReserveAssets =
    [(''ftm'', [(''DAI'', ''0x8D11eC38a3EB5E956B052f67Da8Bdc9bef8Abf3E''),
         (''USDC'', ''0x04068DA6C83AFCFA0e13ba15A6696662335D5B75''),
         (''fUSDT'', ''0x049d68029688eAbF473097a2fC38ef61633A3C7A''),
         (''yvWFTM'', ''0x0DEC85e74A92c52b7F708c4B10207D9560CEFaf0''),
         (''yvWETH'', ''0xCe2Fc0bDc18BD6a4d9A725791A3DEe33F3a23BB7''),
         (''yvWBTC'', ''0xd817A100AB8A29fE3DBd925c2EB489D67F758DA9''),
         (''yvBOO'', ''0x0fBbf9848D969776a5Eb842EdAfAf29ef4467698''),
         (''mooTOMB_MIMATIC'', ''0xb2be5Cd33DBFf412Bce9587E44b5647a4BdA6a66''),
         (''yvfBEETS'', ''0x1e2fe8074a5ce1Bb7394856B0C618E75D823B93b''),
         (''yvLINK'', ''0xf2d323621785A066E64282d2B407eAc79cC04966''),
         (''yvCRV'', ''0x0446acaB3e0242fCf33Aa526f1c95a88068d5042''),
         (''yvSPELL'', ''0xD3c19eB022CAC706c898D60d756bf1535d605e1d''),
         (''mooBASED_MIMATIC'', ''0x5Ddb9a342672ecEe80a028CE40500F16ba1Bca44'')]),
     (''ftm_test'', [(''DAI'', ''0x9440c3bB6Adb5F0D5b8A460d8a8c010690daC2E8''),
         (''USDC'', ''0x8f785910e0cc96f854450DFb53be6492daff0b15''),
         (''fUSDT'', ''0x211554151F2f00305f33530Fdd3a5d0354927A65''),
         (''yvWFTM'', ''0x5a18d89Ad063C1AEd5B3c30741333c1a1116CFE3''),
         (''mooWETH'', ''0xDD7eEE411FF990561A679646e9d1E08861D6486d''),
         (''yvWETH'', ''0x5F37179e6714D137C6A196eAd40d79005c5e9A61''),
         (''yvWBTC'', ''0xf0074B10f63c7002A2254e8E310c60D72b13Ed91''),
         (''yvBOO'', ''0x62aaa32a0AD45BE19ca418aC9e0CE9dB01d6A272''),
         (''mooTOMB_MIMATIC'', ''0x53F26e11497A3632CC58F88957C1761925f753B0''),
         (''mooMIM_2CRV'', ''''),
         (''yvfBEETS'', ''0xb61fc41e813a0f783aBFaF9B93ba5DC22Ad30B0D''),
         (''yvLINK'', ''0x9170EaE627687feb87Adfa71B43318A6565c440f''),
         (''yvCRV'', ''0x113D668aEB0205aa4EC9e3bAC47c9b4d6b66E674''),
         (''yvSPELL'', ''0x7fc436Eec9b6688A5ba46812C76051e87EB00998''),
         (''mooBASED_MIMATIC'', ''0x316C7c7e783A1d91806A069cF91aA048FD4a86dC'')]),
     (''tenderlyFTM'', [(''DAI'', ''0x8D11eC38a3EB5E956B052f67Da8Bdc9bef8Abf3E''),
         (''USDC'', ''0x04068DA6C83AFCFA0e13ba15A6696662335D5B75''),
         (''yvWFTM'', ''0x0DEC85e74A92c52b7F708c4B10207D9560CEFaf0''),
         (''fUSDT'', ''0x049d68029688eAbF473097a2fC38ef61633A3C7A''),
         (''yvWETH'', ''0xCe2Fc0bDc18BD6a4d9A725791A3DEe33F3a23BB7''),
         (''yvWBTC'', ''0xd817A100AB8A29fE3DBd925c2EB489D67F758DA9''),
         (''yvBOO'', ''0x0fBbf9848D969776a5Eb842EdAfAf29ef4467698''),
         (''mooTOMB_MIMATIC'', ''0xb2be5Cd33DBFf412Bce9587E44b5647a4BdA6a66''),
         (''yvfBEETS'', ''0x1e2fe8074a5ce1Bb7394856B0C618E75D823B93b''),
         (''yvLINK'', ''0xf2d323621785A066E64282d2B407eAc79cC04966''),
         (''yvCRV'', ''0x0446acaB3e0242fCf33Aa526f1c95a88068d5042''),
         (''yvSPELL'', ''0xD3c19eB022CAC706c898D60d756bf1535d605e1d''),
         (''mooBASED_MIMATIC'', ''0x5Ddb9a342672ecEe80a028CE40500F16ba1Bca44'')])]"

definition Fantom_BOO :: "string jsobj" where
  "Fantom_BOO =
    [(''ftm'', ''0x841FAD6EAe12c286d1Fd18d1d525DFfA75C7EFFE''),
     (''ftm_test'', ''0x9dAFB108f0fFd18C1f844C4782F8c7F934f8566E''),
     (''tenderlyFTM'', ''0x841FAD6EAe12c286d1Fd18d1d525DFfA75C7EFFE'')]"

definition Fantom_TOMB :: "string jsobj" where
  "Fantom_TOMB =
    [(''ftm'', ''0x6c021Ae822BEa943b2E66552bDe1D2696a53fbB7''),
     (''ftm_test'', ''0x81b1E83538Adaa4164156ED43b8081aA97eD197D''),
     (''tenderlyFTM'', ''0x6c021Ae822BEa943b2E66552bDe1D2696a53fbB7'')]"

definition Fantom_MIMATIC :: "string jsobj" where
  "Fantom_MIMATIC =
    [(''ftm'', ''0xfB98B335551a418cD0737375a2ea0ded62Ea213b''),
     (''ftm_test'', ''0x3420eFfdc6ADd729325B38122904Cfe7F3dD6762''),
     (''tenderlyFTM'', ''0xfB98B335551a418cD0737375a2ea0ded62Ea213b'')]"

definition Fantom_BASED :: "string jsobj" where
  "Fantom_BASED =
    [(''ftm'', ''0x8D7d3409881b51466B483B11Ea1B8A03cdEd89ae''),
     (''ftm_test'', ''0xD5868d9D96eFD744f4b0579C74Abdb26697E9AB2''),
     (''tenderlyFTM'', ''0x8D7d3409881b51466B483B11Ea1B8A03cdEd89ae'')]"

definition Fantom_TOMB_FTM_LP :: "string jsobj" where
  "Fantom_TOMB_FTM_LP =
    [(''ftm'', ''0x2A651563C9d3Af67aE0388a5c8F89b867038089e''),
     (''ftm_test'', ''0x0906E97beB6f422C239627FeFB9198144904327d''),
     (''tenderlyFTM'', ''0x2A651563C9d3Af67aE0388a5c8F89b867038089e'')]"

definition Fantom_TOMB_MIMATIC_LP :: "string jsobj" where
  "Fantom_TOMB_MIMATIC_LP =
    [(''ftm'', ''0x45f4682B560d4e3B8FF1F1b3A38FDBe775C7177b''),
     (''ftm_test'', ''0x16c8deB0B2a1dfC8Fc44b4b2694ccAfa76dfE6B6''),
     (''tenderlyFTM'', ''0x45f4682B560d4e3B8FF1F1b3A38FDBe775C7177b'')]"

definition Fantom_BASED_MIMATIC_LP :: "string jsobj" where
  "Fantom_BASED_MIMATIC_LP =
    [(''ftm'', ''0x7B5B3751550be4FF87aC6bda89533F7A0c9825B3''),
     (''ftm_test'', ''0x323b65bC4F76b36AB57EAF4cFBD9561cfaAe5d29''),
     (''tenderlyFTM'', ''0x7B5B3751550be4FF87aC6bda89533F7A0c9825B3'')]"

definition Fantom_MIM_2CRV_LP :: "string jsobj" where
  "Fantom_MIM_2CRV_LP =
    [(''ftm'', ''0x2dd7C9371965472E5A5fD28fbE165007c61439E1''),
     (''ftm_test'', ''''),
     (''tenderlyFTM'', ''0x2dd7C9371965472E5A5fD28fbE165007c61439E1'')]"

definition Fantom_fBEETS :: "string jsobj" where
  "Fantom_fBEETS =
    [(''ftm'', ''0xfcef8a994209d6916EB2C86cDD2AFD60Aa6F54b1''),
     (''ftm_test'', ''0xBC412e39D2291DF1B7E5F05Fcdf9da9d5Af08411''),
     (''tenderlyFTM'', ''0xfcef8a994209d6916EB2C86cDD2AFD60Aa6F54b1'')]"

definition Fantom_BEETS :: "string jsobj" where
  "Fantom_BEETS =
    [(''ftm'', ''0xF24Bcf4d1e507740041C9cFd2DddB29585aDCe1e''),
     (''ftm_test'', ''0xEDCB19A71952Ea544dba5F5d0e82D80CC2f79816''),
     (''tenderlyFTM'', ''0xF24Bcf4d1e507740041C9cFd2DddB29585aDCe1e'')]"

definition Fantom_LINK :: "string jsobj" where
  "Fantom_LINK =
    [(''ftm'', ''0xb3654dc3D10Ea7645f8319668E8F54d2574FBdC8''),
     (''ftm_test'', ''0x62d652e4F5E805A1Fb5B6e90B168Ff03a3A6efFF''),
     (''tenderlyFTM'', ''0xb3654dc3D10Ea7645f8319668E8F54d2574FBdC8'')]"

definition Fantom_CRV :: "string jsobj" where
  "Fantom_CRV =
    [(''ftm'', ''0x1E4F97b9f9F913c46F1632781732927B9019C68b''),
     (''ftm_test'', ''0x9e5C734c28B8Df6F45d4b757F3dDFbc241042259''),
     (''tenderlyFTM'', ''0x1E4F97b9f9F913c46F1632781732927B9019C68b'')]"

definition Fantom_SPELL :: "string jsobj" where
  "Fantom_SPELL =
    [(''ftm'', ''0x468003B688943977e6130F4F68F23aad939a1040''),
     (''ftm_test'', ''0x180D7c72DAb76D11Dd8E0ffD4892ABc34D4d1f48''),
     (''tenderlyFTM'', ''0x468003B688943977e6130F4F68F23aad939a1040'')]"

definition Fantom_YearnVaultFTM :: "string jsobj" where
  "Fantom_YearnVaultFTM =
    [(''ftm'', ''0x0DEC85e74A92c52b7F708c4B10207D9560CEFaf0''),
     (''ftm_test'', ''0x5a18d89Ad063C1AEd5B3c30741333c1a1116CFE3''),
     (''tenderlyFTM'', ''0x0DEC85e74A92c52b7F708c4B10207D9560CEFaf0'')]"

definition Fantom_YearnWETHVaultFTM :: "string jsobj" where
  "Fantom_YearnWETHVaultFTM =
    [(''ftm'', ''0xCe2Fc0bDc18BD6a4d9A725791A3DEe33F3a23BB7''),
     (''ftm_test'', ''0x5F37179e6714D137C6A196eAd40d79005c5e9A61''),
     (''tenderlyFTM'', ''0xCe2Fc0bDc18BD6a4d9A725791A3DEe33F3a23BB7'')]"

definition Fantom_YearnWBTCVaultFTM :: "string jsobj" where
  "Fantom_YearnWBTCVaultFTM =
    [(''ftm'', ''0xd817A100AB8A29fE3DBd925c2EB489D67F758DA9''),
     (''ftm_test'', ''0xf0074B10f63c7002A2254e8E310c60D72b13Ed91''),
     (''tenderlyFTM'', ''0xd817A100AB8A29fE3DBd925c2EB489D67F758DA9'')]"

definition Fantom_YearnBOOVaultFTM :: "string jsobj" where
  "Fantom_YearnBOOVaultFTM =
    [(''ftm'', ''0x0fBbf9848D969776a5Eb842EdAfAf29ef4467698''),
     (''ftm_test'', ''0x62aaa32a0AD45BE19ca418aC9e0CE9dB01d6A272''),
     (''tenderlyFTM'', ''0x0fBbf9848D969776a5Eb842EdAfAf29ef4467698'')]"

definition Fantom_BeefyVaultTOMB_FTM :: "string jsobj" where
  "Fantom_BeefyVaultTOMB_FTM =
    [(''ftm'', ''0x27c77411074ba90cA35e6f92A79dAd577c05A746''),
     (''ftm_test'', ''0x6Ea737e951c0079A0F4a38DFebe8B9Db7f29d17d''),
     (''tenderlyFTM'', ''0x27c77411074ba90cA35e6f92A79dAd577c05A746'')]"

definition Fantom_BeefyVaultTOMB_MIMATIC :: "string jsobj" where
  "Fantom_BeefyVaultTOMB_MIMATIC =
    [(''ftm'', ''0xb2be5Cd33DBFf412Bce9587E44b5647a4BdA6a66''),
     (''ftm_test'', ''0x53F26e11497A3632CC58F88957C1761925f753B0''),
     (''tenderlyFTM'', ''0xb2be5Cd33DBFf412Bce9587E44b5647a4BdA6a66'')]"

definition Fantom_BeefyVaultBASED_MIMATIC :: "string jsobj" where
  "Fantom_BeefyVaultBASED_MIMATIC =
    [(''ftm'', ''0x5Ddb9a342672ecEe80a028CE40500F16ba1Bca44''),
     (''ftm_test'', ''0x316C7c7e783A1d91806A069cF91aA048FD4a86dC''),
     (''tenderlyFTM'', ''0x5Ddb9a342672ecEe80a028CE40500F16ba1Bca44'')]"

definition Fantom_YearnFBEETSVaultFTM :: "string jsobj" where
  "Fantom_YearnFBEETSVaultFTM =
    [(''ftm'', ''0x1e2fe8074a5ce1Bb7394856B0C618E75D823B93b''),
     (''ftm_test'', ''0xb61fc41e813a0f783aBFaF9B93ba5DC22Ad30B0D''),
     (''tenderlyFTM'', ''0x1e2fe8074a5ce1Bb7394856B0C618E75D823B93b'')]"

definition Fantom_YearnLINKVaultFTM :: "string jsobj" where
  "Fantom_YearnLINKVaultFTM =
    [(''ftm'', ''0xf2d323621785A066E64282d2B407eAc79cC04966''),
     (''ftm_test'', ''0x9170EaE627687feb87Adfa71B43318A6565c440f''),
     (''tenderlyFTM'', ''0xf2d323621785A066E64282d2B407eAc79cC04966'')]"

definition Fantom_BeefyETHVault :: "string jsobj" where
  "Fantom_BeefyETHVault =
    [(''ftm'', ''0x0a03D2C1cFcA48075992d810cc69Bd9FE026384a''),
     (''ftm_test'', ''0xDD7eEE411FF990561A679646e9d1E08861D6486d''),
     (''tenderlyFTM'', ''0x0a03D2C1cFcA48075992d810cc69Bd9FE026384a'')]"

definition Fantom_BeefyMIM2CRVVault :: "string jsobj" where
  "Fantom_BeefyMIM2CRVVault =
    [(''ftm'', ''0x837BEe8567297dd628fb82FFBA193A57A9F6B655''),
     (''ftm_test'', ''''),
     (''tenderlyFTM'', ''0x837BEe8567297dd628fb82FFBA193A57A9F6B655'')]"

definition Fantom_YearnCRVVaultFTM :: "string jsobj" where
  "Fantom_YearnCRVVaultFTM =
    [(''ftm'', ''0x0446acaB3e0242fCf33Aa526f1c95a88068d5042''),
     (''ftm_test'', ''0x113D668aEB0205aa4EC9e3bAC47c9b4d6b66E674''),
     (''tenderlyFTM'', ''0x0446acaB3e0242fCf33Aa526f1c95a88068d5042'')]"

definition Fantom_YearnSPELLVaultFTM :: "string jsobj" where
  "Fantom_YearnSPELLVaultFTM =
    [(''ftm'', ''0xD3c19eB022CAC706c898D60d756bf1535d605e1d''),
     (''ftm_test'', ''0x7fc436Eec9b6688A5ba46812C76051e87EB00998''),
     (''tenderlyFTM'', ''0xD3c19eB022CAC706c898D60d756bf1535d605e1d'')]"

definition Fantom_UniswapRouter :: "string jsobj" where
  "Fantom_UniswapRouter =
    [(''ftm'', ''0xF491e7B69E4244ad4002BC14e878a34207E38c29''),
     (''ftm_test'', ''0xcCAFCf876caB8f9542d6972f87B5D62e1182767d''),
     (''tenderlyFTM'', ''0xF491e7B69E4244ad4002BC14e878a34207E38c29'')]"

definition Fantom_TombSwapRouter :: "string jsobj" where
  "Fantom_TombSwapRouter =
    [(''ftm'', ''0x6D0176C5ea1e44b08D3dd001b0784cE42F47a3A7''),
     (''ftm_test'', ''''),
     (''tenderlyFTM'', ''0x6D0176C5ea1e44b08D3dd001b0784cE42F47a3A7'')]"

definition Fantom_AavePool :: "string jsobj" where
  "Fantom_AavePool =
    [(''ftm'', ''0x794a61358D6845594F94dc1DB02A252b5b4814aD''),
     (''ftm_test'', ''''),
     (''tenderlyFTM'', ''0x794a61358D6845594F94dc1DB02A252b5b4814aD'')]"

definition FantomConfig :: IFantomConfiguration where
  "FantomConfig =
    ICommonConfiguration.extend
      (FtmCommonsConfig\<lparr>MarketId := ''Fantom market'', ProviderId := 2, ReserveAssets := Fantom_ReserveAssets\<rparr>)
      (IFantomConfiguration.fields
        Fantom_BOO
        Fantom_TOMB
        Fantom_MIMATIC
        Fantom_BASED
        Fantom_TOMB_FTM_LP
        Fantom_TOMB_MIMATIC_LP
        Fantom_BASED_MIMATIC_LP
        Fantom_MIM_2CRV_LP
        Fantom_fBEETS
        Fantom_BEETS
        Fantom_LINK
        Fantom_CRV
        Fantom_SPELL
        Fantom_YearnVaultFTM
        Fantom_YearnWETHVaultFTM
        Fantom_YearnWBTCVaultFTM
        Fantom_YearnBOOVaultFTM
        Fantom_BeefyVaultTOMB_FTM
        Fantom_BeefyVaultTOMB_MIMATIC
        Fantom_BeefyVaultBASED_MIMATIC
        Fantom_YearnFBEETSVaultFTM
        Fantom_YearnLINKVaultFTM
        Fantom_BeefyETHVault
        Fantom_BeefyMIM2CRVVault
        Fantom_YearnCRVVaultFTM
        Fantom_YearnSPELLVaultFTM
        Fantom_UniswapRouter
        Fantom_TombSwapRouter
        Fantom_AavePool)"

section \<open>Reading the configuration\<close>

lemma FantomConfig_fields [simp]:
  "IFantomConfiguration.BOO FantomConfig = Fantom_BOO"
  "IFantomConfiguration.TOMB FantomConfig = Fantom_TOMB"
  "IFantomConfiguration.MIMATIC FantomConfig = Fantom_MIMATIC"
  "IFantomConfiguration.BASED FantomConfig = Fantom_BASED"
  "IFantomConfiguration.TOMB_FTM_LP FantomConfig = Fantom_TOMB_FTM_LP"
  "IFantomConfiguration.TOMB_MIMATIC_LP FantomConfig = Fantom_TOMB_MIMATIC_LP"
  "IFantomConfiguration.BASED_MIMATIC_LP FantomConfig = Fantom_BASED_MIMATIC_LP"
  "IFantomConfiguration.MIM_2CRV_LP FantomConfig = Fantom_MIM_2CRV_LP"
  "IFantomConfiguration.fBEETS FantomConfig = Fantom_fBEETS"
  "IFantomConfiguration.BEETS FantomConfig = Fantom_BEETS"
  "IFantomConfiguration.LINK FantomConfig = Fantom_LINK"
  "IFantomConfiguration.CRV FantomConfig = Fantom_CRV"
  "IFantomConfiguration.SPELL FantomConfig = Fantom_SPELL"
  "IFantomConfiguration.YearnVaultFTM FantomConfig = Fantom_YearnVaultFTM"
  "IFantomConfiguration.YearnWETHVaultFTM FantomConfig = Fantom_YearnWETHVaultFTM"
  "IFantomConfiguration.YearnWBTCVaultFTM FantomConfig = Fantom_YearnWBTCVaultFTM"
  "IFantomConfiguration.YearnBOOVaultFTM FantomConfig = Fantom_YearnBOOVaultFTM"
  "IFantomConfiguration.BeefyVaultTOMB_FTM FantomConfig = Fantom_BeefyVaultTOMB_FTM"
  "IFantomConfiguration.BeefyVaultTOMB_MIMATIC FantomConfig = Fantom_BeefyVaultTOMB_MIMATIC"
  "IFantomConfiguration.BeefyVaultBASED_MIMATIC FantomConfig = Fantom_BeefyVaultBASED_MIMATIC"
  "IFantomConfiguration.YearnFBEETSVaultFTM FantomConfig = Fantom_YearnFBEETSVaultFTM"
  "IFantomConfiguration.YearnLINKVaultFTM FantomConfig = Fantom_YearnLINKVaultFTM"
  "IFantomConfiguration.BeefyETHVault FantomConfig = Fantom_BeefyETHVault"
  "IFantomConfiguration.BeefyMIM2CRVVault FantomConfig = Fantom_BeefyMIM2CRVVault"
  "IFantomConfiguration.YearnCRVVaultFTM FantomConfig = Fantom_YearnCRVVaultFTM"
  "IFantomConfiguration.YearnSPELLVaultFTM FantomConfig = Fantom_YearnSPELLVaultFTM"
  "IFantomConfiguration.UniswapRouter FantomConfig = Fantom_UniswapRouter"
  "IFantomConfiguration.TombSwapRouter FantomConfig = Fantom_TombSwapRouter"
  "IFantomConfiguration.AavePool FantomConfig = Fantom_AavePool"
  "ProtocolGlobalParams FantomConfig = FtmCommons_ProtocolGlobalParams"
  "LendingRateOracleRatesCommon FantomConfig = FtmCommons_LendingRateOracleRatesCommon"
  "PoolAdmin FantomConfig = FtmCommons_PoolAdmin"
  "EmergencyAdmin FantomConfig = FtmCommons_EmergencyAdmin"
  "ProviderRegistry FantomConfig = FtmCommons_ProviderRegistry"
  "ProviderRegistryOwner FantomConfig = FtmCommons_ProviderRegistryOwner"
  "LendingRateOracle FantomConfig = FtmCommons_LendingRateOracle"
  "LendingPoolCollateralManager FantomConfig = FtmCommons_LendingPoolCollateralManager"
  "LendingPoolConfigurator FantomConfig = FtmCommons_LendingPoolConfigurator"
  "LendingPool FantomConfig = FtmCommons_LendingPool"
  "TokenDistributor FantomConfig = FtmCommons_TokenDistributor"
  "SturdyOracle FantomConfig = FtmCommons_SturdyOracle"
  "FallbackOracle FantomConfig = FtmCommons_FallbackOracle"
  "ChainlinkAggregator FantomConfig = FtmCommons_ChainlinkAggregator"
  "ReserveAssets FantomConfig = Fantom_ReserveAssets"
  "ATokenDomainSeparator FantomConfig = FtmCommons_ATokenDomainSeparator"
  "WFTM FantomConfig = FtmCommons_WFTM"
  "WETH FantomConfig = FtmCommons_WETH"
  "WBTC FantomConfig = FtmCommons_WBTC"
  "WrappedNativeToken FantomConfig = FtmCommons_WrappedNativeToken"
  "ReserveFactorTreasuryAddress FantomConfig = FtmCommons_ReserveFactorTreasuryAddress"
  "IncentivesController FantomConfig = FtmCommons_IncentivesController"
  by (simp_all add: FantomConfig_def FtmCommonsConfig_def ICommonConfiguration.extend_def IFantomConfiguration.fields_def)

lemma FantomConfig_truncate:
  "ICommonConfiguration.truncate FantomConfig =
    FtmCommonsConfig\<lparr>MarketId := MarketId FantomConfig, ProviderId := ProviderId FantomConfig, ReserveAssets := Fantom_ReserveAssets\<rparr>"
  by (simp add: FantomConfig_def FtmCommonsConfig_def ICommonConfiguration.extend_def ICommonConfiguration.truncate_def
      IFantomConfiguration.fields_def)

lemmas MarketFtm_data =
  FtmCommons_ProtocolGlobalParams_def FtmCommons_LendingRateOracleRatesCommon_def
  FtmCommons_PoolAdmin_def FtmCommons_EmergencyAdmin_def FtmCommons_ProviderRegistry_def
  FtmCommons_ProviderRegistryOwner_def FtmCommons_LendingRateOracle_def
  FtmCommons_LendingPoolCollateralManager_def FtmCommons_LendingPoolConfigurator_def
  FtmCommons_LendingPool_def FtmCommons_TokenDistributor_def FtmCommons_SturdyOracle_def
  FtmCommons_FallbackOracle_def FtmCommons_ChainlinkAggregator_def
  FtmCommons_ReserveAssets_def FtmCommons_ATokenDomainSeparator_def FtmCommons_WFTM_def
  FtmCommons_WETH_def FtmCommons_WBTC_def FtmCommons_WrappedNativeToken_def
  FtmCommons_ReserveFactorTreasuryAddress_def FtmCommons_IncentivesController_def
  Fantom_ReserveAssets_def Fantom_BOO_def Fantom_TOMB_def Fantom_MIMATIC_def
  Fantom_BASED_def Fantom_TOMB_FTM_LP_def Fantom_TOMB_MIMATIC_LP_def
  Fantom_BASED_MIMATIC_LP_def Fantom_MIM_2CRV_LP_def Fantom_fBEETS_def Fantom_BEETS_def
  Fantom_LINK_def Fantom_CRV_def Fantom_SPELL_def Fantom_YearnVaultFTM_def
  Fantom_YearnWETHVaultFTM_def Fantom_YearnWBTCVaultFTM_def Fantom_YearnBOOVaultFTM_def
  Fantom_BeefyVaultTOMB_FTM_def Fantom_BeefyVaultTOMB_MIMATIC_def
  Fantom_BeefyVaultBASED_MIMATIC_def Fantom_YearnFBEETSVaultFTM_def
  Fantom_YearnLINKVaultFTM_def Fantom_BeefyETHVault_def Fantom_BeefyMIM2CRVVault_def
  Fantom_YearnCRVVaultFTM_def Fantom_YearnSPELLVaultFTM_def Fantom_UniswapRouter_def
  Fantom_TombSwapRouter_def Fantom_AavePool_def

end
