(* ===== verification/Reserves.thy ===== *)
theory Reserves
  imports Prelude
begin

text \<open>
  The reserve parameters of the two markets: \<open>markets/*/rateStrategies.ts\<close>,
  \<open>markets/*/reservesConfigs.ts\<close>, the fields \<open>ReservesConfig\<close> of \<open>markets/*/index.ts\<close> and the
  mock prices of \<open>helpers/constants.ts\<close>. Their numbers are computed with \<open>bignumber.js\<close>, which
  the repository only imports: the library is the argument \<open>bn\<close>, whose fields are the
  constructor and the methods the sources call. A number passed to the constructor is written
  as the string JavaScript prints for it.
\<close>

record 'n bignumber_js =
  bn_new :: "string \<Rightarrow> 'n"
  bn_multipliedBy :: "'n \<Rightarrow> 'n \<Rightarrow> 'n"
  bn_toFixed :: "'n \<Rightarrow> string"
  bn_toString :: "'n \<Rightarrow> string"

definition oneEther :: "'n bignumber_js \<Rightarrow> 'n" where
  "oneEther bn = bn_new bn ''1000000000000000000''"

definition oneUsd :: "'n bignumber_js \<Rightarrow> 'n" where
  "oneUsd bn = bn_new bn ''100000000''"

definition oneRay :: "'n bignumber_js \<Rightarrow> 'n" where
  "oneRay bn = bn_new bn ''1e+27''"

text \<open>The field \<open>OracleQuoteUnit\<close> of the two \<open>CommonsConfig\<close> objects.\<close>

definition Commons_OracleQuoteUnit :: "'n bignumber_js \<Rightarrow> string" where
  "Commons_OracleQuoteUnit bn = bn_toString bn (oneEther bn)"

definition FtmCommons_OracleQuoteUnit :: "'n bignumber_js \<Rightarrow> string" where
  "FtmCommons_OracleQuoteUnit bn = bn_toString bn (oneUsd bn)"

section \<open>Parameters\<close>

record IInterestRateStrategyParams =
  strategy_name :: string
  optimalUtilizationRate :: string
  baseVariableBorrowRate :: string
  variableRateSlope1 :: string
  variableRateSlope2 :: string
  stableRateSlope1 :: string
  stableRateSlope2 :: string
  capacity :: string

record IReserveParams =
  strategy :: IInterestRateStrategyParams
  baseLTVAsCollateral :: string
  liquidationThreshold :: string
  liquidationBonus :: string
  borrowingEnabled :: bool
  stableBorrowRateEnabled :: bool
  reserveDecimals :: string
  aTokenImpl :: string
  reserveFactor :: string
  collateralEnabled :: bool
  emissionPerSecond :: string

section \<open>Mock prices\<close>

definition MOCK_CHAINLINK_AGGREGATORS_PRICES :: "'n bignumber_js \<Rightarrow> string jsobj" where
  "MOCK_CHAINLINK_AGGREGATORS_PRICES bn =
    (let price = (\<lambda>p. bn_toFixed bn (bn_multipliedBy bn (oneEther bn) (bn_new bn p))) in
    [(''DAI'', price ''0.000268047349837''),
     (''USDC'', price ''0.000267347358572''),
     (''fUSDT'', price ''0.000267347358572''),
     (''USDT'', price ''0.000267347358572''),
     (''stETH'', bn_toFixed bn (oneEther bn)),
     (''WETH'', bn_toFixed bn (oneEther bn)),
     (''mooWETH'', bn_toFixed bn (oneEther bn)),
     (''yvWFTM'', price ''0.00075589352654034''),
     (''yvWETH'', bn_toFixed bn (oneEther bn)),
     (''yvWBTC'', price ''10.721894060489825''),
     (''yvBOO'', price ''0.0061784914523573''),
     (''TOMB'', price ''0.0003002130336937''),
     (''BASED'', price ''0.0004020710272683''),
     (''MIMATIC'', price ''0.0002980533126406''),
     (''mooTOMB_FTM'', price ''0.0009231134739412''),
     (''mooTOMB_MIMATIC'', price ''0.0006223868749347''),
     (''mooBASED_MIMATIC'', price ''0.0006942426404167''),
     (''mooMIM_2CRV'', price ''0.0008659606685''),
     (''yvLINK'', price ''0.005101''),
     (''USD'', ''373068412860''),
     (''BEETS'', price ''0.0002285''),
     (''yvfBEETS'', price ''0.0002205''),
     (''yvCRV'', price ''0.000081''),
     (''yvSPELL'', price ''0.000001508''),
     (''yvRETH_WSTETH'', price ''1.0000826607431204''),
     (''cvxRETH_WSTETH'', price ''1.0000826607431204''),
     (''cvxFRAX_3CRV'', price ''0.0003453649''),
     (''cvxSTECRV'', price ''0.9999224237''),
     (''cvxDOLA_3CRV'', price ''0.0003453649''),
     (''cvxMIM_3CRV'', price ''0.0003453649''),
     (''cvxDAI_USDC_USDT_SUSD'', price ''0.0003453649''),
     (''cvxHBTC_WBTC'', price ''18.5478562''),
     (''cvxIRON_BANK'', price ''18.5478562''),
     (''cvxFRAX_USDC'', price ''18.5478562''),
     (''auraDAI_USDC_USDT'', price ''18.5478562''),
     (''cvxTUSD_FRAXBP'', price ''18.5478562''),
     (''auraBB_A_USD'', price ''18.5478562''),
     (''auraBB_A3_USD'', price ''18.5478562'')])"

section \<open>Interest rate strategies of the Ethereum market\<close>

definition rateStrategyStableTwo :: "'n bignumber_js \<Rightarrow> IInterestRateStrategyParams" where
  "rateStrategyStableTwo bn =
    \<lparr>strategy_name = ''rateStrategyStableTwo'',
     optimalUtilizationRate = bn_toFixed bn (bn_multipliedBy bn (bn_new bn ''0.8'') (oneRay bn)),
     baseVariableBorrowRate = ''0'',
     variableRateSlope1 = ''0'',
     variableRateSlope2 = bn_toFixed bn (bn_multipliedBy bn (bn_new bn ''0.6'') (oneRay bn)),
     stableRateSlope1 = ''0'',
     stableRateSlope2 = ''0'',
     capacity = ''0''\<rparr>"

definition rateStrategySTETH :: "'n bignumber_js \<Rightarrow> IInterestRateStrategyParams" where
  "rateStrategySTETH bn =
    \<lparr>strategy_name = ''rateStrategySTETH'',
     optimalUtilizationRate = bn_toFixed bn (bn_multipliedBy bn (bn_new bn ''0.45'') (oneRay bn)),
     baseVariableBorrowRate = ''0'',
     variableRateSlope1 = ''0'',
     variableRateSlope2 = ''0'',
     stableRateSlope1 = ''0'',
     stableRateSlope2 = ''0'',
     capacity = ''0''\<rparr>"

definition rateStrategyYVRETH_WSTETH :: "'n bignumber_js \<Rightarrow> IInterestRateStrategyParams" where
  "rateStrategyYVRETH_WSTETH bn =
    \<lparr>strategy_name = ''rateStrategyYVRETH_WSTETH'',
     optimalUtilizationRate = bn_toFixed bn (bn_multipliedBy bn (bn_new bn ''0.45'') (oneRay bn)),
     baseVariableBorrowRate = ''0'',
     variableRateSlope1 = ''0'',
     variableRateSlope2 = ''0'',
     stableRateSlope1 = ''0'',
     stableRateSlope2 = ''0'',
     capacity = ''0''\<rparr>"

definition rateStrategyCVXRETH_WSTETH :: "'n bignumber_js \<Rightarrow> IInterestRateStrategyParams" where
  "rateStrategyCVXRETH_WSTETH bn =
    \<lparr>strategy_name = ''rateStrategyCVXRETH_WSTETH'',
     optimalUtilizationRate = bn_toFixed bn (bn_multipliedBy bn (bn_new bn ''0.45'') (oneRay bn)),
     baseVariableBorrowRate = ''0'',
     variableRateSlope1 = ''0'',
     variableRateSlope2 = ''0'',
     stableRateSlope1 = ''0'',
     stableRateSlope2 = ''0'',
     capacity = ''0''\<rparr>"

definition rateStrategyCVXFRAX_3CRV :: "'n bignumber_js \<Rightarrow> IInterestRateStrategyParams" where
  "rateStrategyCVXFRAX_3CRV bn =
    \<lparr>strategy_name = ''rateStrategyCVXFRAX_3CRV'',
     optimalUtilizationRate = bn_toFixed bn (bn_multipliedBy bn (bn_new bn ''0.45'') (oneRay bn)),
     baseVariableBorrowRate = ''0'',
     variableRateSlope1 = ''0'',
     variableRateSlope2 = ''0'',
     stableRateSlope1 = ''0'',
     stableRateSlope2 = ''0'',
     capacity = ''0''\<rparr>"

definition rateStrategyCVXSTECRV :: "'n bignumber_js \<Rightarrow> IInterestRateStrategyParams" where
  "rateStrategyCVXSTECRV bn =
    \<lparr>strategy_name = ''rateStrategyCVXSTECRV'',
     optimalUtilizationRate = bn_toFixed bn (bn_multipliedBy bn (bn_new bn ''0.45'') (oneRay bn)),
     baseVariableBorrowRate = ''0'',
     variableRateSlope1 = ''0'',
     variableRateSlope2 = ''0'',
     stableRateSlope1 = ''0'',
     stableRateSlope2 = ''0'',
     capacity = ''0''\<rparr>"

definition rateStrategyCVXDOLA_3CRV :: "'n bignumber_js \<Rightarrow> IInterestRateStrategyParams" where
  "rateStrategyCVXDOLA_3CRV bn =
    \<lparr>strategy_name = ''rateStrategyCVXDOLA_3CRV'',
     optimalUtilizationRate = bn_toFixed bn (bn_multipliedBy bn (bn_new bn ''0.45'') (oneRay bn)),
     baseVariableBorrowRate = ''0'',
     variableRateSlope1 = ''0'',
     variableRateSlope2 = ''0'',
     stableRateSlope1 = ''0'',
     stableRateSlope2 = ''0'',
     capacity = ''0''\<rparr>"

definition rateStrategyCVXMIM_3CRV :: "'n bignumber_js \<Rightarrow> IInterestRateStrategyParams" where
  "rateStrategyCVXMIM_3CRV bn =
    \<lparr>strategy_name = ''rateStrategyCVXMIM_3CRV'',
     optimalUtilizationRate = bn_toFixed bn (bn_multipliedBy bn (bn_new bn ''0.45'') (oneRay bn)),
     baseVariableBorrowRate = ''0'',
     variableRateSlope1 = ''0'',
     variableRateSlope2 = ''0'',
     stableRateSlope1 = ''0'',
     stableRateSlope2 = ''0'',
     capacity = ''0''\<rparr>"

definition rateStrategyCVXDAI_USDC_USDT_SUSD :: "'n bignumber_js \<Rightarrow> IInterestRateStrategyParams" where
  "rateStrategyCVXDAI_USDC_USDT_SUSD bn =
    \<lparr>strategy_name = ''rateStrategyCVXDAI_USDC_USDT_SUSD'',
     optimalUtilizationRate = bn_toFixed bn (bn_multipliedBy bn (bn_new bn ''0.45'') (oneRay bn)),
     baseVariableBorrowRate = ''0'',
     variableRateSlope1 = ''0'',
     variableRateSlope2 = ''0'',
     stableRateSlope1 = ''0'',
     stableRateSlope2 = ''0'',
     capacity = ''0''\<rparr>"

definition rateStrategyCVXHBTC_WBTC :: "'n bignumber_js \<Rightarrow> IInterestRateStrategyParams" where
  "rateStrategyCVXHBTC_WBTC bn =
    \<lparr>strategy_name = ''rateStrategyCVXHBTC_WBTC'',
     optimalUtilizationRate = bn_toFixed bn (bn_multipliedBy bn (bn_new bn ''0.45'') (oneRay bn)),
     baseVariableBorrowRate = ''0'',
     variableRateSlope1 = ''0'',
     variableRateSlope2 = ''0'',
     stableRateSlope1 = ''0'',
     stableRateSlope2 = ''0'',
     capacity = ''0''\<rparr>"

definition rateStrategyCVXIRON_BANK :: "'n bignumber_js \<Rightarrow> IInterestRateStrategyParams" where
  "rateStrategyCVXIRON_BANK bn =
    \<lparr>strategy_name = ''rateStrategyCVXIRON_BANK'',
     optimalUtilizationRate = bn_toFixed bn (bn_multipliedBy bn (bn_new bn ''0.45'') (oneRay bn)),
     baseVariableBorrowRate = ''0'',
     variableRateSlope1 = ''0'',
     variableRateSlope2 = ''0'',
     stableRateSlope1 = ''0'',
     stableRateSlope2 = ''0'',
     capacity = ''0''\<rparr>"

definition rateStrategyCVXFRAX_USDC :: "'n bignumber_js \<Rightarrow> IInterestRateStrategyParams" where
  "rateStrategyCVXFRAX_USDC bn =
    \<lparr>strategy_name = ''rateStrategyCVXFRAX_USDC'',
     optimalUtilizationRate = bn_toFixed bn (bn_multipliedBy bn (bn_new bn ''0.45'') (oneRay bn)),
     baseVariableBorrowRate = ''0'',
     variableRateSlope1 = ''0'',
     variableRateSlope2 = ''0'',
     stableRateSlope1 = ''0'',
     stableRateSlope2 = ''0'',
     capacity = ''0''\<rparr>"

definition rateStrategyAURADAI_USDC_USDT :: "'n bignumber_js \<Rightarrow> IInterestRateStrategyParams" where
  "rateStrategyAURADAI_USDC_USDT bn =
    \<lparr>strategy_name = ''rateStrategyAURADAI_USDC_USDT'',
     optimalUtilizationRate = bn_toFixed bn (bn_multipliedBy bn (bn_new bn ''0.45'') (oneRay bn)),
     baseVariableBorrowRate = ''0'',
     variableRateSlope1 = ''0'',
     variableRateSlope2 = ''0'',
     stableRateSlope1 = ''0'',
     stableRateSlope2 = ''0'',
     capacity = ''0''\<rparr>"

definition rateStrategyCVXTUSD_FRAXBP :: "'n bignumber_js \<Rightarrow> IInterestRateStrategyParams" where
  "rateStrategyCVXTUSD_FRAXBP bn =
    \<lparr>strategy_name = ''rateStrategyCVXTUSD_FRAXBP'',
     optimalUtilizationRate = bn_toFixed bn (bn_multipliedBy bn (bn_new bn ''0.45'') (oneRay bn)),
     baseVariableBorrowRate = ''0'',
     variableRateSlope1 = ''0'',
     variableRateSlope2 = ''0'',
     stableRateSlope1 = ''0'',
     stableRateSlope2 = ''0'',
     capacity = ''0''\<rparr>"

definition rateStrategyAURABB_A_USD :: "'n bignumber_js \<Rightarrow> IInterestRateStrategyParams" where
  "rateStrategyAURABB_A_USD bn =
    \<lparr>strategy_name = ''rateStrategyAURABB_A_USD'',
     optimalUtilizationRate = bn_toFixed bn (bn_multipliedBy bn (bn_new bn ''0.45'') (oneRay bn)),
     baseVariableBorrowRate = ''0'',
     variableRateSlope1 = ''0'',
     variableRateSlope2 = ''0'',
     stableRateSlope1 = ''0'',
     stableRateSlope2 = ''0'',
     capacity = ''0''\<rparr>"

definition rateStrategyAURABB_A3_USD :: "'n bignumber_js \<Rightarrow> IInterestRateStrategyParams" where
  "rateStrategyAURABB_A3_USD bn =
    \<lparr>strategy_name = ''rateStrategyAURABB_A3_USD'',
     optimalUtilizationRate = bn_toFixed bn (bn_multipliedBy bn (bn_new bn ''0.45'') (oneRay bn)),
     baseVariableBorrowRate = ''0'',
     variableRateSlope1 = ''0'',
     variableRateSlope2 = ''0'',
     stableRateSlope1 = ''0'',
     stableRateSlope2 = ''0'',
     capacity = ''0''\<rparr>"

section \<open>Interest rate strategies of the Fantom market\<close>

definition ftm_rateStrategyStableTwo :: "'n bignumber_js \<Rightarrow> IInterestRateStrategyParams" where
  "ftm_rateStrategyStableTwo bn =
    \<lparr>strategy_name = ''rateStrategyStableTwo'',
     optimalUtilizationRate = bn_toFixed bn (bn_multipliedBy bn (bn_new bn ''0.9'') (oneRay bn)),
     baseVariableBorrowRate = ''0'',
     variableRateSlope1 = ''0'',
     variableRateSlope2 = bn_toFixed bn (bn_multipliedBy bn (bn_new bn ''0.2'') (oneRay bn)),
     stableRateSlope1 = ''0'',
     stableRateSlope2 = ''0'',
     capacity = ''0''\<rparr>"

definition ftm_rateStrategyStableThree :: "'n bignumber_js \<Rightarrow> IInterestRateStrategyParams" where
  "ftm_rateStrategyStableThree bn =
    \<lparr>strategy_name = ''rateStrategyStableThree'',
     optimalUtilizationRate = bn_toFixed bn (bn_multipliedBy bn (bn_new bn ''0.9'') (oneRay bn)),
     baseVariableBorrowRate = ''0'',
     variableRateSlope1 = ''0'',
     variableRateSlope2 = bn_toFixed bn (bn_multipliedBy bn (bn_new bn ''0.2'') (oneRay bn)),
     stableRateSlope1 = ''0'',
     stableRateSlope2 = ''0'',
     capacity = ''0''\<rparr>"

definition ftm_rateStrategyYVWFTM :: "'n bignumber_js \<Rightarrow> IInterestRateStrategyParams" where
  "ftm_rateStrategyYVWFTM bn =
    \<lparr>strategy_name = ''rateStrategyYVWFTM'',
     optimalUtilizationRate = bn_toFixed bn (bn_multipliedBy bn (bn_new bn ''0.45'') (oneRay bn)),
     baseVariableBorrowRate = ''0'',
     variableRateSlope1 = ''0'',
     variableRateSlope2 = ''0'',
     stableRateSlope1 = ''0'',
     stableRateSlope2 = ''0'',
     capacity = bn_toFixed bn (bn_multipliedBy bn (bn_new bn ''20000000'') (oneEther bn))\<rparr>"

definition ftm_rateStrategyMOOWETH :: "'n bignumber_js \<Rightarrow> IInterestRateStrategyParams" where
  "ftm_rateStrategyMOOWETH bn =
    \<lparr>strategy_name = ''rateStrategyMOOWETH'',
     optimalUtilizationRate = bn_toFixed bn (bn_multipliedBy bn (bn_new bn ''0.45'') (oneRay bn)),
     baseVariableBorrowRate = ''0'',
     variableRateSlope1 = ''0'',
     variableRateSlope2 = ''0'',
     stableRateSlope1 = ''0'',
     stableRateSlope2 = ''0'',
     capacity = ''0''\<rparr>"

definition ftm_rateStrategyYVWETH :: "'n bignumber_js \<Rightarrow> IInterestRateStrategyParams" where
  "ftm_rateStrategyYVWETH bn =
    \<lparr>strategy_name = ''rateStrategyYVWETH'',
     optimalUtilizationRate = bn_toFixed bn (bn_multipliedBy bn (bn_new bn ''0.45'') (oneRay bn)),
     baseVariableBorrowRate = ''0'',
     variableRateSlope1 = ''0'',
     variableRateSlope2 = ''0'',
     stableRateSlope1 = ''0'',
     stableRateSlope2 = ''0'',
     capacity = ''0''\<rparr>"

definition ftm_rateStrategyYVWBTC :: "'n bignumber_js \<Rightarrow> IInterestRateStrategyParams" where
  "ftm_rateStrategyYVWBTC bn =
    \<lparr>strategy_name = ''rateStrategyYVWBTC'',
     optimalUtilizationRate = bn_toFixed bn (bn_multipliedBy bn (bn_new bn ''0.45'') (oneRay bn)),
     baseVariableBorrowRate = ''0'',
     variableRateSlope1 = ''0'',
     variableRateSlope2 = ''0'',
     stableRateSlope1 = ''0'',
     stableRateSlope2 = ''0'',
     capacity = ''0''\<rparr>"

definition ftm_rateStrategyYVBOO :: "'n bignumber_js \<Rightarrow> IInterestRateStrategyParams" where
  "ftm_rateStrategyYVBOO bn =
    \<lparr>strategy_name = ''rateStrategyYVBOO'',
     optimalUtilizationRate = bn_toFixed bn (bn_multipliedBy bn (bn_new bn ''0.45'') (oneRay bn)),
     baseVariableBorrowRate = ''0'',
     variableRateSlope1 = ''0'',
     variableRateSlope2 = ''0'',
     stableRateSlope1 = ''0'',
     stableRateSlope2 = ''0'',
     capacity = ''0''\<rparr>"

definition ftm_rateStrategyMOOTOMB_FTM :: "'n bignumber_js \<Rightarrow> IInterestRateStrategyParams" where
  "ftm_rateStrategyMOOTOMB_FTM bn =
    \<lparr>strategy_name = ''rateStrategyMOOTOMB_FTM'',
     optimalUtilizationRate = bn_toFixed bn (bn_multipliedBy bn (bn_new bn ''0.45'') (oneRay bn)),
     baseVariableBorrowRate = ''0'',
     variableRateSlope1 = ''0'',
     variableRateSlope2 = ''0'',
     stableRateSlope1 = ''0'',
     stableRateSlope2 = ''0'',
     capacity = ''0''\<rparr>"

definition ftm_rateStrategyMOOTOMB_MIMATIC :: "'n bignumber_js \<Rightarrow> IInterestRateStrategyParams" where
  "ftm_rateStrategyMOOTOMB_MIMATIC bn =
    \<lparr>strategy_name = ''rateStrategyMOOTOMB_MIMATIC'',
     optimalUtilizationRate = bn_toFixed bn (bn_multipliedBy bn (bn_new bn ''0.45'') (oneRay bn)),
     baseVariableBorrowRate = ''0'',
     variableRateSlope1 = ''0'',
     variableRateSlope2 = ''0'',
     stableRateSlope1 = ''0'',
     stableRateSlope2 = ''0'',
     capacity = ''0''\<rparr>"

definition ftm_rateStrategyMOOMIM_2CRV :: "'n bignumber_js \<Rightarrow> IInterestRateStrategyParams" where
  "ftm_rateStrategyMOOMIM_2CRV bn =
    \<lparr>strategy_name = ''rateStrategyMOOMIM_2CRV'',
     optimalUtilizationRate = bn_toFixed bn (bn_multipliedBy bn (bn_new bn ''0.45'') (oneRay bn)),
     baseVariableBorrowRate = ''0'',
     variableRateSlope1 = ''0'',
     variableRateSlope2 = ''0'',
     stableRateSlope1 = ''0'',
     stableRateSlope2 = ''0'',
     capacity = ''0''\<rparr>"

definition ftm_rateStrategyYVFBEETS :: "'n bignumber_js \<Rightarrow> IInterestRateStrategyParams" where
  "ftm_rateStrategyYVFBEETS bn =
    \<lparr>strategy_name = ''rateStrategyYVFBEETS'',
     optimalUtilizationRate = bn_toFixed bn (bn_multipliedBy bn (bn_new bn ''0.45'') (oneRay bn)),
     baseVariableBorrowRate = ''0'',
     variableRateSlope1 = ''0'',
     variableRateSlope2 = ''0'',
     stableRateSlope1 = ''0'',
     stableRateSlope2 = ''0'',
     capacity = bn_toFixed bn (bn_multipliedBy bn (bn_new bn ''8000000'') (oneEther bn))\<rparr>"

definition ftm_rateStrategyYVLINK :: "'n bignumber_js \<Rightarrow> IInterestRateStrategyParams" where
  "ftm_rateStrategyYVLINK bn =
    \<lparr>strategy_name = ''rateStrategyYVLINK'',
     optimalUtilizationRate = bn_toFixed bn (bn_multipliedBy bn (bn_new bn ''0.45'') (oneRay bn)),
     baseVariableBorrowRate = ''0'',
     variableRateSlope1 = ''0'',
     variableRateSlope2 = ''0'',
     stableRateSlope1 = ''0'',
     stableRateSlope2 = ''0'',
     capacity = ''0''\<rparr>"

definition ftm_rateStrategyYVCRV :: "'n bignumber_js \<Rightarrow> IInterestRateStrategyParams" where
  "ftm_rateStrategyYVCRV bn =
    \<lparr>strategy_name = ''rateStrategyYVCRV'',
     optimalUtilizationRate = bn_toFixed bn (bn_multipliedBy bn (bn_new bn ''0.45'') (oneRay bn)),
     baseVariableBorrowRate = ''0'',
     variableRateSlope1 = ''0'',
     variableRateSlope2 = ''0'',
     stableRateSlope1 = ''0'',
     stableRateSlope2 = ''0'',
     capacity = ''0''\<rparr>"

definition ftm_rateStrategyYVSPELL :: "'n bignumber_js \<Rightarrow> IInterestRateStrategyParams" where
  "ftm_rateStrategyYVSPELL bn =
    \<lparr>strategy_name = ''rateStrategyYVSPELL'',
     optimalUtilizationRate = bn_toFixed bn (bn_multipliedBy bn (bn_new bn ''0.45'') (oneRay bn)),
     baseVariableBorrowRate = ''0'',
     variableRateSlope1 = ''0'',
     variableRateSlope2 = ''0'',
     stableRateSlope1 = ''0'',
     stableRateSlope2 = ''0'',
     capacity = ''0''\<rparr>"

definition ftm_rateStrategyMOOBASED_MIMATIC :: "'n bignumber_js \<Rightarrow> IInterestRateStrategyParams" where
  "ftm_rateStrategyMOOBASED_MIMATIC bn =
    \<lparr>strategy_name = ''rateStrategyMOOBASED_MIMATIC'',
     optimalUtilizationRate = bn_toFixed bn (bn_multipliedBy bn (bn_new bn ''0.45'') (oneRay bn)),
     baseVariableBorrowRate = ''0'',
     variableRateSlope1 = ''0'',
     variableRateSlope2 = ''0'',
     stableRateSlope1 = ''0'',
     stableRateSlope2 = ''0'',
     capacity = ''0''\<rparr>"

section \<open>Reserves of the Ethereum market\<close>

definition strategyDAI :: "'n bignumber_js \<Rightarrow> IReserveParams" where
  "strategyDAI bn =
    \<lparr>strategy = rateStrategyStableTwo bn,
     baseLTVAsCollateral = ''0'',
     liquidationThreshold = ''0'',
     liquidationBonus = ''0'',
     borrowingEnabled = True,
     stableBorrowRateEnabled = False,
     reserveDecimals = ''18'',
     aTokenImpl = ''AToken'',
     reserveFactor = ''1000'',
     collateralEnabled = False,
     emissionPerSecond = ''10''\<rparr>"

definition strategyUSDC :: "'n bignumber_js \<Rightarrow> IReserveParams" where
  "strategyUSDC bn =
    \<lparr>strategy = rateStrategyStableTwo bn,
     baseLTVAsCollateral = ''0'',
     liquidationThreshold = ''0'',
     liquidationBonus = ''0'',
     borrowingEnabled = True,
     stableBorrowRateEnabled = False,
     reserveDecimals = ''6'',
     aTokenImpl = ''AToken'',
     reserveFactor = ''1000'',
     collateralEnabled = False,
     emissionPerSecond = ''10''\<rparr>"

definition strategyUSDT :: "'n bignumber_js \<Rightarrow> IReserveParams" where
  "strategyUSDT bn =
    \<lparr>strategy = rateStrategyStableTwo bn,
     baseLTVAsCollateral = ''0'',
     liquidationThreshold = ''0'',
     liquidationBonus = ''0'',
     borrowingEnabled = True,
     stableBorrowRateEnabled = False,
     reserveDecimals = ''6'',
     aTokenImpl = ''AToken'',
     reserveFactor = ''1000'',
     collateralEnabled = False,
     emissionPerSecond = ''10''\<rparr>"

definition strategySTETH :: "'n bignumber_js \<Rightarrow> IReserveParams" where
  "strategySTETH bn =
    \<lparr>strategy = rateStrategySTETH bn,
     baseLTVAsCollateral = ''7000'',
     liquidationThreshold = ''7500'',
     liquidationBonus = ''10750'',
     borrowingEnabled = False,
     stableBorrowRateEnabled = False,
     reserveDecimals = ''18'',
     aTokenImpl = ''ATokenForCollateral'',
     reserveFactor = ''0'',
     collateralEnabled = True,
     emissionPerSecond = ''0''\<rparr>"

definition strategyYVRETH_WSTETH :: "'n bignumber_js \<Rightarrow> IReserveParams" where
  "strategyYVRETH_WSTETH bn =
    \<lparr>strategy = rateStrategyYVRETH_WSTETH bn,
     baseLTVAsCollateral = ''7000'',
     liquidationThreshold = ''7500'',
     liquidationBonus = ''10750'',
     borrowingEnabled = False,
     stableBorrowRateEnabled = False,
     reserveDecimals = ''18'',
     aTokenImpl = ''ATokenForCollateral'',
     reserveFactor = ''0'',
     collateralEnabled = True,
     emissionPerSecond = ''0''\<rparr>"

definition strategyCVXRETH_WSTETH :: "'n bignumber_js \<Rightarrow> IReserveParams" where
  "strategyCVXRETH_WSTETH bn =
    \<lparr>strategy = rateStrategyCVXRETH_WSTETH bn,
     baseLTVAsCollateral = ''9000'',
     liquidationThreshold = ''9300'',
     liquidationBonus = ''10200'',
     borrowingEnabled = False,
     stableBorrowRateEnabled = False,
     reserveDecimals = ''18'',
     aTokenImpl = ''ATokenForCollateral'',
     reserveFactor = ''0'',
     collateralEnabled = True,
     emissionPerSecond = ''0''\<rparr>"

definition strategyCVXFRAX_3CRV :: "'n bignumber_js \<Rightarrow> IReserveParams" where
  "strategyCVXFRAX_3CRV bn =
    \<lparr>strategy = rateStrategyCVXFRAX_3CRV bn,
     baseLTVAsCollateral = ''9000'',
     liquidationThreshold = ''9300'',
     liquidationBonus = ''10200'',
     borrowingEnabled = False,
     stableBorrowRateEnabled = False,
     reserveDecimals = ''18'',
     aTokenImpl = ''ATokenForCollateral'',
     reserveFactor = ''0'',
     collateralEnabled = True,
     emissionPerSecond = ''0''\<rparr>"

definition strategyCVXSTECRV :: "'n bignumber_js \<Rightarrow> IReserveParams" where
  "strategyCVXSTECRV bn =
    \<lparr>strategy = rateStrategyCVXSTECRV bn,
     baseLTVAsCollateral = ''9000'',
     liquidationThreshold = ''9300'',
     liquidationBonus = ''10200'',
     borrowingEnabled = False,
     stableBorrowRateEnabled = False,
     reserveDecimals = ''18'',
     aTokenImpl = ''ATokenForCollateral'',
     reserveFactor = ''0'',
     collateralEnabled = True,
     emissionPerSecond = ''0''\<rparr>"

definition strategyCVXDOLA_3CRV :: "'n bignumber_js \<Rightarrow> IReserveParams" where
  "strategyCVXDOLA_3CRV bn =
    \<lparr>strategy = rateStrategyCVXDOLA_3CRV bn,
     baseLTVAsCollateral = ''9000'',
     liquidationThreshold = ''9300'',
     liquidationBonus = ''10200'',
     borrowingEnabled = False,
     stableBorrowRateEnabled = False,
     reserveDecimals = ''18'',
     aTokenImpl = ''ATokenForCollateral'',
     reserveFactor = ''0'',
     collateralEnabled = True,
     emissionPerSecond = ''0''\<rparr>"

definition strategyCVXMIM_3CRV :: "'n bignumber_js \<Rightarrow> IReserveParams" where
  "strategyCVXMIM_3CRV bn =
    \<lparr>strategy = rateStrategyCVXMIM_3CRV bn,
     baseLTVAsCollateral = ''8300'',
     liquidationThreshold = ''8500'',
     liquidationBonus = ''10600'',
     borrowingEnabled = False,
     stableBorrowRateEnabled = False,
     reserveDecimals = ''18'',
     aTokenImpl = ''ATokenForCollateral'',
     reserveFactor = ''0'',
     collateralEnabled = True,
     emissionPerSecond = ''0''\<rparr>"

definition strategyCVXDAI_USDC_USDT_SUSD :: "'n bignumber_js \<Rightarrow> IReserveParams" where
  "strategyCVXDAI_USDC_USDT_SUSD bn =
    \<lparr>strategy = rateStrategyCVXDAI_USDC_USDT_SUSD bn,
     baseLTVAsCollateral = ''9000'',
     liquidationThreshold = ''9300'',
     liquidationBonus = ''10200'',
     borrowingEnabled = False,
     stableBorrowRateEnabled = False,
     reserveDecimals = ''18'',
     aTokenImpl = ''ATokenForCollateral'',
     reserveFactor = ''0'',
     collateralEnabled = True,
     emissionPerSecond = ''0''\<rparr>"

definition strategyCVXHBTC_WBTC :: "'n bignumber_js \<Rightarrow> IReserveParams" where
  "strategyCVXHBTC_WBTC bn =
    \<lparr>strategy = rateStrategyCVXHBTC_WBTC bn,
     baseLTVAsCollateral = ''9000'',
     liquidationThreshold = ''9300'',
     liquidationBonus = ''10200'',
     borrowingEnabled = False,
     stableBorrowRateEnabled = False,
     reserveDecimals = ''18'',
     aTokenImpl = ''ATokenForCollateral'',
     reserveFactor = ''0'',
     collateralEnabled = True,
     emissionPerSecond = ''0''\<rparr>"

definition strategyCVXIRON_BANK :: "'n bignumber_js \<Rightarrow> IReserveParams" where
  "strategyCVXIRON_BANK bn =
    \<lparr>strategy = rateStrategyCVXIRON_BANK bn,
     baseLTVAsCollateral = ''9000'',
     liquidationThreshold = ''9300'',
     liquidationBonus = ''10200'',
     borrowingEnabled = False,
     stableBorrowRateEnabled = False,
     reserveDecimals = ''18'',
     aTokenImpl = ''ATokenForCollateral'',
     reserveFactor = ''0'',
     collateralEnabled = True,
     emissionPerSecond = ''0''\<rparr>"

definition strategyCVXFRAX_USDC :: "'n bignumber_js \<Rightarrow> IReserveParams" where
  "strategyCVXFRAX_USDC bn =
    \<lparr>strategy = rateStrategyCVXFRAX_USDC bn,
     baseLTVAsCollateral = ''9000'',
     liquidationThreshold = ''9300'',
     liquidationBonus = ''10200'',
     borrowingEnabled = False,
     stableBorrowRateEnabled = False,
     reserveDecimals = ''18'',
     aTokenImpl = ''ATokenForCollateral'',
     reserveFactor = ''0'',
     collateralEnabled = True,
     emissionPerSecond = ''0''\<rparr>"

definition strategyAURADAI_USDC_USDT :: "'n bignumber_js \<Rightarrow> IReserveParams" where
  "strategyAURADAI_USDC_USDT bn =
    \<lparr>strategy = rateStrategyAURADAI_USDC_USDT bn,
     baseLTVAsCollateral = ''9000'',
     liquidationThreshold = ''9300'',
     liquidationBonus = ''10200'',
     borrowingEnabled = False,
     stableBorrowRateEnabled = False,
     reserveDecimals = ''18'',
     aTokenImpl = ''ATokenForCollateral'',
     reserveFactor = ''0'',
     collateralEnabled = True,
     emissionPerSecond = ''0''\<rparr>"

definition strategyCVXTUSD_FRAXBP :: "'n bignumber_js \<Rightarrow> IReserveParams" where
  "strategyCVXTUSD_FRAXBP bn =
    \<lparr>strategy = rateStrategyCVXTUSD_FRAXBP bn,
     baseLTVAsCollateral = ''9000'',
     liquidationThreshold = ''9300'',
     liquidationBonus = ''10200'',
     borrowingEnabled = False,
     stableBorrowRateEnabled = False,
     reserveDecimals = ''18'',
     aTokenImpl = ''ATokenForCollateral'',
     reserveFactor = ''0'',
     collateralEnabled = True,
     emissionPerSecond = ''0''\<rparr>"

definition strategyAURABB_A_USD :: "'n bignumber_js \<Rightarrow> IReserveParams" where
  "strategyAURABB_A_USD bn =
    \<lparr>strategy = rateStrategyAURABB_A_USD bn,
     baseLTVAsCollateral = ''9000'',
     liquidationThreshold = ''9300'',
     liquidationBonus = ''10200'',
     borrowingEnabled = False,
     stableBorrowRateEnabled = False,
     reserveDecimals = ''18'',
     aTokenImpl = ''ATokenForCollateral'',
     reserveFactor = ''0'',
     collateralEnabled = True,
     emissionPerSecond = ''0''\<rparr>"

definition strategyAURABB_A3_USD :: "'n bignumber_js \<Rightarrow> IReserveParams" where
  "strategyAURABB_A3_USD bn =
    \<lparr>strategy = rateStrategyAURABB_A3_USD bn,
     baseLTVAsCollateral = ''9000'',
     liquidationThreshold = ''9300'',
     liquidationBonus = ''10200'',
     borrowingEnabled = False,
     stableBorrowRateEnabled = False,
     reserveDecimals = ''18'',
     aTokenImpl = ''ATokenForCollateral'',
     reserveFactor = ''0'',
     collateralEnabled = True,
     emissionPerSecond = ''0''\<rparr>"

definition SturdyReservesConfig :: "'n bignumber_js \<Rightarrow> IReserveParams jsobj" where
  "SturdyReservesConfig bn =
    [(''DAI'', strategyDAI bn),
     (''USDC'', strategyUSDC bn),
     (''USDT'', strategyUSDT bn),
     (''stETH'', strategySTETH bn),
     (''yvRETH_WSTETH'', strategyYVRETH_WSTETH bn),
     (''cvxRETH_WSTETH'', strategyCVXRETH_WSTETH bn),
     (''cvxFRAX_3CRV'', strategyCVXFRAX_3CRV bn),
     (''cvxSTECRV'', strategyCVXSTECRV bn),
     (''cvxDOLA_3CRV'', strategyCVXDOLA_3CRV bn),
     (''cvxMIM_3CRV'', strategyCVXMIM_3CRV bn),
     (''cvxDAI_USDC_USDT_SUSD'', strategyCVXDAI_USDC_USDT_SUSD bn),
     (''cvxHBTC_WBTC'', strategyCVXHBTC_WBTC bn),
     (''cvxIRON_BANK'', strategyCVXIRON_BANK bn),
     (''cvxFRAX_USDC'', strategyCVXFRAX_USDC bn),
     (''auraDAI_USDC_USDT'', strategyAURADAI_USDC_USDT bn),
     (''cvxTUSD_FRAXBP'', strategyCVXTUSD_FRAXBP bn),
     (''auraBB_A_USD'', strategyAURABB_A_USD bn),
     (''auraBB_A3_USD'', strategyAURABB_A3_USD bn)]"

section \<open>Reserves of the Fantom market\<close>

definition ftm_strategyDAI :: "'n bignumber_js \<Rightarrow> IReserveParams" where
  "ftm_strategyDAI bn =
    \<lparr>strategy = ftm_rateStrategyStableTwo bn,
     baseLTVAsCollateral = ''0'',
     liquidationThreshold = ''0'',
     liquidationBonus = ''0'',
     borrowingEnabled = True,
     stableBorrowRateEnabled = False,
     reserveDecimals = ''18'',
     aTokenImpl = ''AToken'',
     reserveFactor = ''1000'',
     collateralEnabled = False,
     emissionPerSecond = ''10''\<rparr>"

definition ftm_strategyUSDC :: "'n bignumber_js \<Rightarrow> IReserveParams" where
  "ftm_strategyUSDC bn =
    \<lparr>strategy = ftm_rateStrategyStableThree bn,
     baseLTVAsCollateral = ''0'',
     liquidationThreshold = ''0'',
     liquidationBonus = ''0'',
     borrowingEnabled = True,
     stableBorrowRateEnabled = False,
     reserveDecimals = ''6'',
     aTokenImpl = ''AToken'',
     reserveFactor = ''1000'',
     collateralEnabled = False,
     emissionPerSecond = ''10''\<rparr>"

definition ftm_strategyUSDT :: "'n bignumber_js \<Rightarrow> IReserveParams" where
  "ftm_strategyUSDT bn =
    \<lparr>strategy = ftm_rateStrategyStableThree bn,
     baseLTVAsCollateral = ''0'',
     liquidationThreshold = ''0'',
     liquidationBonus = ''0'',
     borrowingEnabled = True,
     stableBorrowRateEnabled = False,
     reserveDecimals = ''6'',
     aTokenImpl = ''AToken'',
     reserveFactor = ''1000'',
     collateralEnabled = False,
     emissionPerSecond = ''10''\<rparr>"

definition ftm_strategyYVWFTM :: "'n bignumber_js \<Rightarrow> IReserveParams" where
  "ftm_strategyYVWFTM bn =
    \<lparr>strategy = ftm_rateStrategyYVWFTM bn,
     baseLTVAsCollateral = ''7000'',
     liquidationThreshold = ''7500'',
     liquidationBonus = ''10750'',
     borrowingEnabled = False,
     stableBorrowRateEnabled = False,
     reserveDecimals = ''18'',
     aTokenImpl = ''ATokenForCollateral'',
     reserveFactor = ''0'',
     collateralEnabled = True,
     emissionPerSecond = ''0''\<rparr>"

definition ftm_strategyMOOWETH :: "'n bignumber_js \<Rightarrow> IReserveParams" where
  "ftm_strategyMOOWETH bn =
    \<lparr>strategy = ftm_rateStrategyMOOWETH bn,
     baseLTVAsCollateral = ''7000'',
     liquidationThreshold = ''7500'',
     liquidationBonus = ''10750'',
     borrowingEnabled = False,
     stableBorrowRateEnabled = False,
     reserveDecimals = ''18'',
     aTokenImpl = ''ATokenForCollateral'',
     reserveFactor = ''0'',
     collateralEnabled = True,
     emissionPerSecond = ''0''\<rparr>"

definition ftm_strategyYVWETH :: "'n bignumber_js \<Rightarrow> IReserveParams" where
  "ftm_strategyYVWETH bn =
    \<lparr>strategy = ftm_rateStrategyYVWETH bn,
     baseLTVAsCollateral = ''0'',
     liquidationThreshold = ''7500'',
     liquidationBonus = ''10750'',
     borrowingEnabled = False,
     stableBorrowRateEnabled = False,
     reserveDecimals = ''18'',
     aTokenImpl = ''ATokenForCollateral'',
     reserveFactor = ''0'',
     collateralEnabled = True,
     emissionPerSecond = ''0''\<rparr>"

definition ftm_strategyYVWBTC :: "'n bignumber_js \<Rightarrow> IReserveParams" where
  "ftm_strategyYVWBTC bn =
    \<lparr>strategy = ftm_rateStrategyYVWBTC bn,
     baseLTVAsCollateral = ''0'',
     liquidationThreshold = ''7500'',
     liquidationBonus = ''10750'',
     borrowingEnabled = False,
     stableBorrowRateEnabled = False,
     reserveDecimals = ''8'',
     aTokenImpl = ''ATokenForCollateral'',
     reserveFactor = ''0'',
     collateralEnabled = True,
     emissionPerSecond = ''0''\<rparr>"

definition ftm_strategyYVBOO :: "'n bignumber_js \<Rightarrow> IReserveParams" where
  "ftm_strategyYVBOO bn =
    \<lparr>strategy = ftm_rateStrategyYVBOO bn,
     baseLTVAsCollateral = ''6000'',
     liquidationThreshold = ''7000'',
     liquidationBonus = ''11000'',
     borrowingEnabled = False,
     stableBorrowRateEnabled = False,
     reserveDecimals = ''18'',
     aTokenImpl = ''ATokenForCollateral'',
     reserveFactor = ''0'',
     collateralEnabled = True,
     emissionPerSecond = ''0''\<rparr>"

definition ftm_strategyMOOTOMB_FTM :: "'n bignumber_js \<Rightarrow> IReserveParams" where
  "ftm_strategyMOOTOMB_FTM bn =
    \<lparr>strategy = ftm_rateStrategyMOOTOMB_FTM bn,
     baseLTVAsCollateral = ''7000'',
     liquidationThreshold = ''7500'',
     liquidationBonus = ''10750'',
     borrowingEnabled = False,
     stableBorrowRateEnabled = False,
     reserveDecimals = ''18'',
     aTokenImpl = ''ATokenForCollateral'',
     reserveFactor = ''0'',
     collateralEnabled = True,
     emissionPerSecond = ''0''\<rparr>"

definition ftm_strategyMOOTOMB_MIMATIC :: "'n bignumber_js \<Rightarrow> IReserveParams" where
  "ftm_strategyMOOTOMB_MIMATIC bn =
    \<lparr>strategy = ftm_rateStrategyMOOTOMB_MIMATIC bn,
     baseLTVAsCollateral = ''0'',
     liquidationThreshold = ''7500'',
     liquidationBonus = ''10750'',
     borrowingEnabled = False,
     stableBorrowRateEnabled = False,
     reserveDecimals = ''18'',
     aTokenImpl = ''ATokenForCollateral'',
     reserveFactor = ''0'',
     collateralEnabled = True,
     emissionPerSecond = ''0''\<rparr>"

definition ftm_strategyMOOMIM_2CRV :: "'n bignumber_js \<Rightarrow> IReserveParams" where
  "ftm_strategyMOOMIM_2CRV bn =
    \<lparr>strategy = ftm_rateStrategyMOOMIM_2CRV bn,
     baseLTVAsCollateral = ''0'',
     liquidationThreshold = ''7500'',
     liquidationBonus = ''10750'',
     borrowingEnabled = False,
     stableBorrowRateEnabled = False,
     reserveDecimals = ''18'',
     aTokenImpl = ''ATokenForCollateral'',
     reserveFactor = ''0'',
     collateralEnabled = True,
     emissionPerSecond = ''0''\<rparr>"

definition ftm_strategyYVFBEETS :: "'n bignumber_js \<Rightarrow> IReserveParams" where
  "ftm_strategyYVFBEETS bn =
    \<lparr>strategy = ftm_rateStrategyYVFBEETS bn,
     baseLTVAsCollateral = ''0'',
     liquidationThreshold = ''7000'',
     liquidationBonus = ''11000'',
     borrowingEnabled = False,
     stableBorrowRateEnabled = False,
     reserveDecimals = ''18'',
     aTokenImpl = ''ATokenForCollateral'',
     reserveFactor = ''0'',
     collateralEnabled = True,
     emissionPerSecond = ''0''\<rparr>"

definition ftm_strategyYVLINK :: "'n bignumber_js \<Rightarrow> IReserveParams" where
  "ftm_strategyYVLINK bn =
    \<lparr>strategy = ftm_rateStrategyYVLINK bn,
     baseLTVAsCollateral = ''0'',
     liquidationThreshold = ''7500'',
     liquidationBonus = ''10700'',
     borrowingEnabled = False,
     stableBorrowRateEnabled = False,
     reserveDecimals = ''18'',
     aTokenImpl = ''ATokenForCollateral'',
     reserveFactor = ''0'',
     collateralEnabled = True,
     emissionPerSecond = ''0''\<rparr>"

definition ftm_strategyYVCRV :: "'n bignumber_js \<Rightarrow> IReserveParams" where
  "ftm_strategyYVCRV bn =
    \<lparr>strategy = ftm_rateStrategyYVCRV bn,
     baseLTVAsCollateral = ''6000'',
     liquidationThreshold = ''7000'',
     liquidationBonus = ''11000'',
     borrowingEnabled = False,
     stableBorrowRateEnabled = False,
     reserveDecimals = ''18'',
     aTokenImpl = ''ATokenForCollateral'',
     reserveFactor = ''0'',
     collateralEnabled = True,
     emissionPerSecond = ''0''\<rparr>"

definition ftm_strategyYVSPELL :: "'n bignumber_js \<Rightarrow> IReserveParams" where
  "ftm_strategyYVSPELL bn =
    \<lparr>strategy = ftm_rateStrategyYVSPELL bn,
     baseLTVAsCollateral = ''6000'',
     liquidationThreshold = ''7000'',
     liquidationBonus = ''11000'',
     borrowingEnabled = False,
     stableBorrowRateEnabled = False,
     reserveDecimals = ''18'',
     aTokenImpl = ''ATokenForCollateral'',
     reserveFactor = ''0'',
     collateralEnabled = True,
     emissionPerSecond = ''0''\<rparr>"

definition ftm_strategyMOOBASED_MIMATIC :: "'n bignumber_js \<Rightarrow> IReserveParams" where
  "ftm_strategyMOOBASED_MIMATIC bn =
    \<lparr>strategy = ftm_rateStrategyMOOBASED_MIMATIC bn,
     baseLTVAsCollateral = ''0'',
     liquidationThreshold = ''7500'',
     liquidationBonus = ''10750'',
     borrowingEnabled = False,
     stableBorrowRateEnabled = False,
     reserveDecimals = ''18'',
     aTokenImpl = ''ATokenForCollateral'',
     reserveFactor = ''0'',
     collateralEnabled = True,
     emissionPerSecond = ''0''\<rparr>"

definition FantomReservesConfig :: "'n bignumber_js \<Rightarrow> IReserveParams jsobj" where
  "FantomReservesConfig bn =
    [(''DAI'', ftm_strategyDAI bn),
     (''USDC'', ftm_strategyUSDC bn),
     (''fUSDT'', ftm_strategyUSDT bn),
     (''yvWFTM'', ftm_strategyYVWFTM bn),
     (''mooWETH'', ftm_strategyMOOWETH bn),
     (''yvWETH'', ftm_strategyYVWETH bn),
     (''yvWBTC'', ftm_strategyYVWBTC bn),
     (''yvBOO'', ftm_strategyYVBOO bn),
     (''mooTOMB_FTM'', ftm_strategyMOOTOMB_FTM bn),
     (''mooTOMB_MIMATIC'', ftm_strategyMOOTOMB_MIMATIC bn),
     (''mooBASED_MIMATIC'', ftm_strategyMOOBASED_MIMATIC bn),
     (''mooMIM_2CRV'', ftm_strategyMOOMIM_2CRV bn),
     (''yvfBEETS'', ftm_strategyYVFBEETS bn),
     (''yvLINK'', ftm_strategyYVLINK bn),
     (''yvCRV'', ftm_strategyYVCRV bn),
     (''yvSPELL'', ftm_strategyYVSPELL bn)]"

end
