(* ===== verification/Configuration.thy ===== *)
theory Configuration
  imports ContractsHelpers MarketSturdy MarketFtm Reserves
begin

text \<open>
  \<open>helpers/configuration.ts\<close>: which configuration a pool name selects, and the values the
  scripts read from it on the current network. \<open>getWrappedNativeTokenAddress\<close> and
  \<open>getQuoteCurrency\<close>, which may deploy a mocked token, are in \<open>Deployments\<close>.
\<close>

section \<open>Pool configurations\<close>

datatype PoolConfiguration =
    CommonsPool ICommonConfiguration
  | SturdyPool ISturdyConfiguration
  | FantomPool IFantomConfiguration

definition loadPoolConfig :: "string \<Rightarrow> error + PoolConfiguration" where
  "loadPoolConfig configName =
     (if configName = ''Sturdy'' then Inr (SturdyPool SturdyConfig)
      else if configName = ''Fantom'' then Inr (FantomPool FantomConfig)
      else if configName = ''Commons'' then Inr (CommonsPool CommonsConfig)
      else Inl (Error ''Unsupported pool configuration: Commons,Sturdy,Fantom''))"

text \<open>The fields every pool configuration has.\<close>

fun commonConfiguration :: "PoolConfiguration \<Rightarrow> ICommonConfiguration" where
  "commonConfiguration (CommonsPool c) = c"
| "commonConfiguration (SturdyPool c) = ICommonConfiguration.truncate c"
| "commonConfiguration (FantomPool c) = ICommonConfiguration.truncate c"

text \<open>
  The vault tasks write into a loaded configuration, \<open>ReserveAssets[network].SYMBOL = address\<close>. The
  object lives as long as the process, so a later load sees the writes made so far.
\<close>

definition writtenAssets ::
  "(string \<times> string \<times> string \<times> address) list \<Rightarrow> string \<Rightarrow> string jsobj jsobj \<Rightarrow> string jsobj jsobj" where
  "writtenAssets writes pool assets =
     foldl (\<lambda>known (p, network, symbol, a).
       if p \<noteq> pool then known
       else case obj_get known network of
              None \<Rightarrow> known
            | Some here \<Rightarrow> obj_set network (obj_set symbol a here) known) assets writes"

fun withReserveAssets ::
  "(string jsobj jsobj \<Rightarrow> string jsobj jsobj) \<Rightarrow> PoolConfiguration \<Rightarrow> PoolConfiguration" where
  "withReserveAssets f (CommonsPool c) = CommonsPool (c\<lparr>ReserveAssets := f (ReserveAssets c)\<rparr>)"
| "withReserveAssets f (SturdyPool c) = SturdyPool (c\<lparr>ReserveAssets := f (ReserveAssets c)\<rparr>)"
| "withReserveAssets f (FantomPool c) = FantomPool (c\<lparr>ReserveAssets := f (ReserveAssets c)\<rparr>)"

definition currentPoolConfig :: "string \<Rightarrow> PoolConfiguration script" where
  "currentPoolConfig pool =
     bindIO (liftSum (loadPoolConfig pool)) (\<lambda>poolConfig.
     getsIO (\<lambda>w. withReserveAssets (writtenAssets (asset_writes w) pool) poolConfig))"

definition getReservesConfigByPool :: "'n bignumber_js \<Rightarrow> string \<Rightarrow> IReserveParams jsobj option" where
  "getReservesConfigByPool bn pool =
     getParamPerPool [(''proto'', SturdyReservesConfig bn), (''fantom'', FantomReservesConfig bn)] pool"

section \<open>Values on the current network\<close>

text \<open>\<open>process.env.FORK ? process.env.FORK : DRE.network.name\<close>\<close>

definition currentNetwork :: "world \<Rightarrow> string" where
  "currentNetwork w = (if truthy (env_FORK w) then the (env_FORK w) else network_name w)"

text \<open>A configured address wins; otherwise the signer at the configured index, which is
  \<open>undefined\<close> when there are fewer signers.\<close>

definition adminOrSigner :: "string option jsobj \<Rightarrow> nat \<Rightarrow> address option script" where
  "adminOrSigner param index =
     bindIO (getsIO (\<lambda>w. getParamPerNetwork param (currentNetwork w) w)) (\<lambda>v.
     let targetAddress = Option.bind v (\<lambda>a. a) in
     if truthy targetAddress then returnIO targetAddress
     else bindIO getEthersSignersAddresses (\<lambda>addressList. returnIO (nth_opt addressList index)))"

definition getGenesisPoolAdmin :: "ICommonConfiguration \<Rightarrow> address option script" where
  "getGenesisPoolAdmin config = adminOrSigner (PoolAdmin config) (PoolAdminIndex config)"

definition getEmergencyAdmin :: "ICommonConfiguration \<Rightarrow> address option script" where
  "getEmergencyAdmin config = adminOrSigner (EmergencyAdmin config) (EmergencyAdminIndex config)"

definition getTreasuryAddress :: "ICommonConfiguration \<Rightarrow> address option script" where
  "getTreasuryAddress config =
     getsIO (\<lambda>w. getParamPerNetwork (ReserveFactorTreasuryAddress config) (currentNetwork w) w)"

definition getATokenDomainSeparatorPerNetwork :: "string \<Rightarrow> ICommonConfiguration \<Rightarrow> world \<Rightarrow> string option" where
  "getATokenDomainSeparatorPerNetwork network config w =
     getParamPerNetwork (ATokenDomainSeparator config) network w"

text \<open>\<open>Object.keys(ReserveAssets[network])\<close> throws on a network the object does not have.\<close>

definition getLendingRateOracles :: "ICommonConfiguration \<Rightarrow> world \<Rightarrow> error + ILendingRate jsobj" where
  "getLendingRateOracles poolConfig w =
     (let rates = LendingRateOracleRatesCommon poolConfig
      in case obj_get (ReserveAssets poolConfig) (currentNetwork w) of
           None \<Rightarrow> if rates = [] then Inr [] else Inl (TypeError ''ReserveAssets'')
         | Some assets \<Rightarrow> Inr (filterMapBy rates (\<lambda>key. key \<in> set (obj_keys assets))))"

end
