(* ===== verification/Deployments.thy ===== *)
theory Deployments
  imports Getters Configuration
begin

text \<open>
  \<open>helpers/contracts-deployments.ts\<close>, first part: contracts deployed on their own, the linked
  libraries, tokens and mocks. Every function deploys with the first signer, records the
  address under an identifier of \<open>eContractid\<close> and verifies when asked to. Constructor
  arguments typed as a tuple in the source are a list here. \<open>waitForTx\<close> waits for a receipt and
  leaves no trace.
\<close>

section \<open>Shared steps\<close>

text \<open>\<open>await new X__factory(libraries, await getFirstSigner()).deploy(...args)\<close>\<close>

definition deployFresh :: "string \<Rightarrow> (string \<times> address) list \<Rightarrow> arg list \<Rightarrow> handle script" where
  "deployFresh factory libs args =
     bindIO getFirstSigner (\<lambda>signer. deployNew signer factory libs args)"

text \<open>\<open>withSaveAndVerify(await new X__factory(...).deploy(...args), id, args, verify)\<close>\<close>

definition deployAndSave ::
  "string \<Rightarrow> (string \<times> address) list \<Rightarrow> string \<Rightarrow> arg list \<Rightarrow> bool \<Rightarrow> handle script" where
  "deployAndSave factory libs key args verify =
     bindIO (deployFresh factory libs args) (\<lambda>h. withSaveAndVerify h key args verify)"

text \<open>\<open>addressesProvider.setAddress(formatBytes32String(id), getParamPerNetwork(config.X, network))\<close>\<close>

definition setConfiguredAddress :: "handle \<Rightarrow> string \<Rightarrow> string jsobj \<Rightarrow> unit script" where
  "setConfiguredAddress h aid param = bindIO (paramHere param) (\<lambda>v. setAddress h aid v)"

text \<open>The same with \<open>getParamPerNetwork(config.ReserveAssets, network).SYMBOL\<close>.\<close>

definition setReserveAssetAddress :: "handle \<Rightarrow> string \<Rightarrow> string jsobj jsobj \<Rightarrow> string \<Rightarrow> unit script" where
  "setReserveAssetAddress h aid param symbol =
     bindIO (paramHere param) (\<lambda>v. case v of
       None \<Rightarrow> throwIO (TypeError symbol)
     | Some assets \<Rightarrow> setAddress h aid (obj_get assets symbol))"

section \<open>Protocol contracts\<close>

definition deployLendingPoolAddressesProvider :: "string \<Rightarrow> bool \<Rightarrow> handle script" where
  "deployLendingPoolAddressesProvider market verify =
     deployAndSave ''LendingPoolAddressesProvider'' [] ''LendingPoolAddressesProvider'' [Str market] verify"

definition deployLendingPoolAddressesProviderRegistry :: "bool \<Rightarrow> handle script" where
  "deployLendingPoolAddressesProviderRegistry verify =
     deployAndSave ''LendingPoolAddressesProviderRegistry'' [] ''LendingPoolAddressesProviderRegistry'' [] verify"

definition deployLendingPoolConfiguratorImpl :: "bool \<Rightarrow> handle script" where
  "deployLendingPoolConfiguratorImpl verify =
     deployAndSave ''LendingPoolConfigurator'' [] ''LendingPoolConfiguratorImpl'' [] verify"

definition deployLendingPoolCollateralManagerImpl :: "bool \<Rightarrow> handle script" where
  "deployLendingPoolCollateralManagerImpl verify =
     deployAndSave ''LendingPoolCollateralManager'' [] ''LendingPoolCollateralManagerImpl'' [] verify"

definition deploySturdyProtocolDataProvider :: "string \<Rightarrow> bool \<Rightarrow> handle script" where
  "deploySturdyProtocolDataProvider addressesProvider verify =
     deployAndSave ''SturdyProtocolDataProvider'' [] ''SturdyProtocolDataProvider'' [Str addressesProvider] verify"

definition deployDefaultReserveInterestRateStrategy :: "arg list \<Rightarrow> bool \<Rightarrow> handle script" where
  "deployDefaultReserveInterestRateStrategy args verify =
     deployAndSave ''DefaultReserveInterestRateStrategy'' [] ''DefaultReserveInterestRateStrategy'' args verify"

definition deployWalletBalancerProvider :: "bool \<Rightarrow> handle script" where
  "deployWalletBalancerProvider verify =
     deployAndSave ''WalletBalanceProvider'' [] ''WalletBalanceProvider'' [] verify"

definition deployUiIncentiveDataProvider :: "bool \<Rightarrow> handle script" where
  "deployUiIncentiveDataProvider verify =
     deployAndSave ''UiIncentiveDataProvider'' [] ''UiIncentiveDataProvider'' [] verify"

definition deployVaultHelper :: "arg list \<Rightarrow> bool \<Rightarrow> handle script" where
  "deployVaultHelper args verify =
     deployAndSave ''DeployVaultHelper'' [] ''DeployVaultHelper'' args verify"

definition deploySturdyAPRDataProvider :: "arg list \<Rightarrow> bool \<Rightarrow> handle script" where
  "deploySturdyAPRDataProvider args verify =
     deployAndSave ''SturdyAPRDataProvider'' [] ''SturdyAPRDataProvider'' args verify"

definition deployVaultWhitelist :: "bool \<Rightarrow> handle script" where
  "deployVaultWhitelist verify = deployAndSave ''VaultWhitelist'' [] ''VaultWhitelist'' [] verify"

definition deployInitializableAdminUpgradeabilityProxy :: "bool \<Rightarrow> handle script" where
  "deployInitializableAdminUpgradeabilityProxy verify =
     deployAndSave ''InitializableAdminUpgradeabilityProxy'' [] ''InitializableAdminUpgradeabilityProxy'' [] verify"

definition deployERC4626Router :: "bool \<Rightarrow> handle script" where
  "deployERC4626Router verify = deployAndSave ''ERC4626Router'' [] ''ERC4626Router'' [] verify"

definition deployLendingPoolConfigurator :: "bool \<Rightarrow> handle script" where
  "deployLendingPoolConfigurator verify =
     bindIO (deployFresh ''LendingPoolConfigurator'' [] []) (\<lambda>lendingPoolConfiguratorImpl.
     withSaveAndVerify lendingPoolConfiguratorImpl ''LendingPoolConfiguratorImpl'' [] verify)"

definition deployLendingPoolCollateralManager :: "bool \<Rightarrow> handle script" where
  "deployLendingPoolCollateralManager verify =
     bindIO (deployFresh ''LendingPoolCollateralManager'' [] []) (\<lambda>collateralManagerImpl.
     thenIO (insertContractAddressInDb ''LendingPoolCollateralManagerImpl''
               (h_address collateralManagerImpl)) (
     withSaveAndVerify collateralManagerImpl ''LendingPoolCollateralManager'' [] verify))"

definition deployUiPoolDataProvider :: "string \<times> string \<Rightarrow> bool \<Rightarrow> handle script" where
  "deployUiPoolDataProvider = (\<lambda>(incentivesController, sturdyOracle) verify.
     let args = [Str incentivesController, Str sturdyOracle] in
     bindIO (deployContract ''UiPoolDataProvider'' args) (\<lambda>h.
     thenIO (if verify then bindIO (verifyContract ''UiPoolDataProvider'' h args) (\<lambda>_. returnIO ())
             else returnIO ())
       (returnIO h)))"

definition deployERC4626Vault :: "arg list \<Rightarrow> string \<Rightarrow> bool \<Rightarrow> handle script" where
  "deployERC4626Vault args assetSymbol verify =
     deployAndSave ''ERC4626Vault'' [] (''ERC4626Vault'' @ toUpperCase assetSymbol) args verify"

section \<open>Oracles\<close>

definition deployPriceOracle :: "bool \<Rightarrow> handle script" where
  "deployPriceOracle verify = deployAndSave ''PriceOracle'' [] ''PriceOracle'' [] verify"

definition deployLendingRateOracle :: "bool \<Rightarrow> handle script" where
  "deployLendingRateOracle verify =
     deployAndSave ''LendingRateOracle'' [] ''LendingRateOracle'' [] verify"

definition deploySturdyOracle :: "arg list \<Rightarrow> bool \<Rightarrow> handle script" where
  "deploySturdyOracle args verify = deployAndSave ''SturdyOracle'' [] ''SturdyOracle'' args verify"

definition deployBooOracle :: "bool \<Rightarrow> handle script" where
  "deployBooOracle verify = deployAndSave ''BooOracle'' [] ''BooOracle'' [] verify"

definition deployTombOracle :: "bool \<Rightarrow> handle script" where
  "deployTombOracle verify = deployAndSave ''TombOracle'' [] ''TombOracle'' [] verify"

definition deployTombFtmLPOracle :: "bool \<Rightarrow> handle script" where
  "deployTombFtmLPOracle verify = deployAndSave ''TombFtmLPOracle'' [] ''TombFtmLPOracle'' [] verify"

definition deployTombMiMaticLPOracle :: "bool \<Rightarrow> handle script" where
  "deployTombMiMaticLPOracle verify =
     deployAndSave ''TombMiMaticLPOracle'' [] ''TombMiMaticLPOracle'' [] verify"

definition deployFBeetsOracle :: "bool \<Rightarrow> handle script" where
  "deployFBeetsOracle verify = deployAndSave ''FBeetsOracle'' [] ''FBeetsOracle'' [] verify"

definition deployBeetsOracle :: "bool \<Rightarrow> handle script" where
  "deployBeetsOracle verify = deployAndSave ''BeetsOracle'' [] ''BeetsOracle'' [] verify"

definition deployBasedOracle :: "bool \<Rightarrow> handle script" where
  "deployBasedOracle verify = deployAndSave ''BasedOracle'' [] ''BasedOracle'' [] verify"

definition deployBasedMiMaticLPOracle :: "bool \<Rightarrow> handle script" where
  "deployBasedMiMaticLPOracle verify =
     deployAndSave ''BasedMiMaticLPOracle'' [] ''BasedMiMaticLPOracle'' [] verify"

definition deployMIM2CRVLPOracle :: "bool \<Rightarrow> handle script" where
  "deployMIM2CRVLPOracle verify = deployAndSave ''MIM2CRVOracle'' [] ''MIM2CRVOracle'' [] verify"

definition deployRETHWstETHLPOracle :: "bool \<Rightarrow> handle script" where
  "deployRETHWstETHLPOracle verify =
     deployAndSave ''CrvREthWstETHOracle'' [] ''RETHWstETHLPOracle'' [] verify"

definition deployFRAX3CRVPOracle :: "bool \<Rightarrow> handle script" where
  "deployFRAX3CRVPOracle verify = deployAndSave ''FRAX3CRVOracle'' [] ''FRAX3CRVOracle'' [] verify"

definition deploySTECRVOracle :: "bool \<Rightarrow> handle script" where
  "deploySTECRVOracle verify = deployAndSave ''STECRVOracle'' [] ''STECRVOracle'' [] verify"

definition deployDOLA3CRVOracle :: "bool \<Rightarrow> handle script" where
  "deployDOLA3CRVOracle verify = deployAndSave ''DOLA3CRVOracle'' [] ''DOLA3CRVOracle'' [] verify"

definition deployMIMOracle :: "bool \<Rightarrow> handle script" where
  "deployMIMOracle verify = deployAndSave ''MIMOracle'' [] ''MIMOracle'' [] verify"

definition deployMIM3CRVOracle :: "bool \<Rightarrow> handle script" where
  "deployMIM3CRVOracle verify = deployAndSave ''MIM3CRVOracle'' [] ''MIM3CRVOracle'' [] verify"

definition deployDAIUSDCUSDTSUSDOracle :: "bool \<Rightarrow> handle script" where
  "deployDAIUSDCUSDTSUSDOracle verify =
     deployAndSave ''DAIUSDCUSDTSUSDOracle'' [] ''DAIUSDCUSDTSUSDOracle'' [] verify"

definition deployHBTCWBTCOracle :: "bool \<Rightarrow> handle script" where
  "deployHBTCWBTCOracle verify = deployAndSave ''HBTCWBTCOracle'' [] ''HBTCWBTCOracle'' [] verify"

definition deployIronBankOracle :: "bool \<Rightarrow> handle script" where
  "deployIronBankOracle verify = deployAndSave ''IronBankOracle'' [] ''IronBankOracle'' [] verify"

definition deployFRAXUSDCOracle :: "bool \<Rightarrow> handle script" where
  "deployFRAXUSDCOracle verify = deployAndSave ''FRAXUSDCOracle'' [] ''FRAXUSDCOracle'' [] verify"

definition deployBALDAIUSDCUSDTOracle :: "bool \<Rightarrow> handle script" where
  "deployBALDAIUSDCUSDTOracle verify =
     deployAndSave ''BALDAIUSDCUSDTOracle'' [] ''BALDAIUSDCUSDTOracle'' [] verify"

definition deployTUSDFRAXBPCOracle :: "bool \<Rightarrow> handle script" where
  "deployTUSDFRAXBPCOracle verify =
     deployAndSave ''TUSDFRAXBPOracle'' [] ''TUSDFRAXBPOracle'' [] verify"

definition deployBALBBAUSDOracle :: "bool \<Rightarrow> handle script" where
  "deployBALBBAUSDOracle verify = deployAndSave ''BALBBAUSDOracle'' [] ''BALBBAUSDOracle'' [] verify"

definition deployBALBBA3USDOracle :: "bool \<Rightarrow> handle script" where
  "deployBALBBA3USDOracle verify =
     deployAndSave ''BALBBA3USDOracle'' [] ''BALBBA3USDOracle'' [] verify"

definition deployAURAOracle :: "bool \<Rightarrow> handle script" where
  "deployAURAOracle verify = deployAndSave ''AURAOracle'' [] ''AURAOracle'' [] verify"

section \<open>Libraries\<close>

text \<open>A library that is already registered is reused; a handle to it has no deployment
  transaction.\<close>

definition deployReserveLogicLibrary :: "bool \<Rightarrow> handle script" where
  "deployReserveLogicLibrary verify =
     bindIO getReserveLogicLibrary (\<lambda>contractAddress.
     if truthy contractAddress then getContract ''ReserveLogic'' (the contractAddress)
     else deployAndSave ''ReserveLogic'' [] ''ReserveLogic'' [] verify)"

definition deployGenericLogic :: "handle \<Rightarrow> bool \<Rightarrow> handle script" where
  "deployGenericLogic reserveLogic verify =
     bindIO getGenericLogic (\<lambda>contractAddress.
     if truthy contractAddress then getContract ''GenericLogic'' (the contractAddress)
     else bindIO (deployLinked ''GenericLogic'' [(''ReserveLogic'', h_address reserveLogic)])
            (\<lambda>genericLogic. withSaveAndVerify genericLogic ''GenericLogic'' [] verify))"

definition deployValidationLogic :: "handle \<Rightarrow> handle \<Rightarrow> bool \<Rightarrow> handle script" where
  "deployValidationLogic reserveLogic genericLogic verify =
     bindIO getValidationLogic (\<lambda>contractAddress.
     if truthy contractAddress then getContract ''ValidationLogic'' (the contractAddress)
     else bindIO (deployLinked ''ValidationLogic''
                    [(''ReserveLogic'', h_address reserveLogic),
                     (''GenericLogic'', h_address genericLogic)])
            (\<lambda>validationLogic. withSaveAndVerify validationLogic ''ValidationLogic'' [] verify))"

definition deploySturdyLibraries :: "bool \<Rightarrow> (string \<times> address) list script" where
  "deploySturdyLibraries verify =
     bindIO (deployReserveLogicLibrary verify) (\<lambda>reserveLogic.
     bindIO (deployGenericLogic reserveLogic verify) (\<lambda>genericLogic.
     bindIO (deployValidationLogic reserveLogic genericLogic verify) (\<lambda>validationLogic.
     returnIO
       [(''contracts/protocol/libraries/logic/ValidationLogic.sol:ValidationLogic'',
         h_address validationLogic),
        (''contracts/protocol/libraries/logic/ReserveLogic.sol:ReserveLogic'',
         h_address reserveLogic)])))"

definition deployUniswapAdapterLibrary :: "bool \<Rightarrow> handle script" where
  "deployUniswapAdapterLibrary verify =
     bindIO getUniswapAdapterAddress (\<lambda>contractAddress.
     if truthy contractAddress then getContract ''UniswapAdapter'' (the contractAddress)
     else bindIO (deployLinked ''UniswapAdapter'' [])
            (\<lambda>uniswapAdapter. withSaveAndVerify uniswapAdapter ''UniswapAdapter'' [] verify))"

text \<open>The curve adapter also sets the address it reads from the provider.\<close>

definition deployCurveswapAdapterLibrary :: "bool \<Rightarrow> handle script" where
  "deployCurveswapAdapterLibrary verify =
     bindIO getCurveswapAdapterAddress (\<lambda>contractAddress.
     if truthy contractAddress then getContract ''CurveswapAdapter'' (the contractAddress)
     else
       bindIO (getLendingPoolAddressesProvider None) (\<lambda>addressesProvider.
       thenIO (setConfiguredAddress addressesProvider
                 ''CURVE_ADDRESS_PROVIDER'' (CurveswapAddressProvider SturdyConfig))
         (bindIO (deployLinked ''CurveswapAdapter'' [])
            (\<lambda>curveswapAdapter. withSaveAndVerify curveswapAdapter ''CurveswapAdapter'' [] verify))))"

definition deployBalancerswapAdapterLibrary :: "bool \<Rightarrow> handle script" where
  "deployBalancerswapAdapterLibrary verify =
     bindIO getBalancerswapAdapterAddress (\<lambda>contractAddress.
     if truthy contractAddress then getContract ''BalancerswapAdapter'' (the contractAddress)
     else bindIO (deployLinked ''BalancerswapAdapter'' [])
            (\<lambda>balancerswapAdapter. withSaveAndVerify balancerswapAdapter ''BalancerswapAdapter'' [] verify))"

definition deployUniswapAdapter2Library :: "bool \<Rightarrow> handle script" where
  "deployUniswapAdapter2Library verify =
     bindIO getUniswapAdapter2Address (\<lambda>contractAddress.
     if truthy contractAddress then getContract ''UniswapAdapter2'' (the contractAddress)
     else bindIO (deployLinked ''UniswapAdapter2'' [])
            (\<lambda>uniswapAdapter. withSaveAndVerify uniswapAdapter ''UniswapAdapter2'' [] verify))"

definition deployCurveswapAdapter2Library :: "bool \<Rightarrow> handle script" where
  "deployCurveswapAdapter2Library verify =
     bindIO getCurveswapAdapter2Address (\<lambda>contractAddress.
     if truthy contractAddress then getContract ''CurveswapAdapter2'' (the contractAddress)
     else bindIO (deployLinked ''CurveswapAdapter2'' [])
            (\<lambda>curveswapAdapter. withSaveAndVerify curveswapAdapter ''CurveswapAdapter2'' [] verify))"

definition deployBalancerswapAdapter2Library :: "bool \<Rightarrow> handle script" where
  "deployBalancerswapAdapter2Library verify =
     bindIO getBalancerswapAdapter2Address (\<lambda>contractAddress.
     if truthy contractAddress then getContract ''BalancerswapAdapter2'' (the contractAddress)
     else bindIO (deployLinked ''BalancerswapAdapter2'' [])
            (\<lambda>balancerswapAdapter. withSaveAndVerify balancerswapAdapter ''BalancerswapAdapter2'' [] verify))"

definition deploySwapAdapterLibraries :: "bool \<Rightarrow> (string \<times> address) list script" where
  "deploySwapAdapterLibraries verify =
     bindIO (deployUniswapAdapterLibrary verify) (\<lambda>uniswapAdapter.
     bindIO (deployCurveswapAdapterLibrary verify) (\<lambda>curveswapAdapter.
     bindIO (deployBalancerswapAdapterLibrary verify) (\<lambda>balancerswapAdapter.
     returnIO
       [(''contracts/protocol/libraries/swap/BalancerswapAdapter.sol:BalancerswapAdapter'',
         h_address balancerswapAdapter),
        (''contracts/protocol/libraries/swap/UniswapAdapter.sol:UniswapAdapter'',
         h_address uniswapAdapter),
        (''contracts/protocol/libraries/swap/CurveswapAdapter.sol:CurveswapAdapter'',
         h_address curveswapAdapter)])))"

definition deploySwapAdapter2Libraries :: "bool \<Rightarrow> (string \<times> address) list script" where
  "deploySwapAdapter2Libraries verify =
     bindIO (deployUniswapAdapter2Library verify) (\<lambda>uniswapAdapter2.
     bindIO (deployCurveswapAdapter2Library verify) (\<lambda>curveswapAdapter2.
     bindIO (deployBalancerswapAdapter2Library verify) (\<lambda>balancerswapAdapter2.
     returnIO
       [(''contracts/protocol/libraries/swap/BalancerswapAdapter2.sol:BalancerswapAdapter2'',
         h_address balancerswapAdapter2),
        (''contracts/protocol/libraries/swap/UniswapAdapter2.sol:UniswapAdapter2'',
         h_address uniswapAdapter2),
        (''contracts/protocol/libraries/swap/CurveswapAdapter2.sol:CurveswapAdapter2'',
         h_address curveswapAdapter2)])))"

definition deployLidoVaultLibraries :: "bool \<Rightarrow> (string \<times> address) list script" where
  "deployLidoVaultLibraries verify =
     bindIO (deployCurveswapAdapterLibrary verify) (\<lambda>curveswapAdapter.
     returnIO
       [(''contracts/protocol/libraries/swap/CurveswapAdapter.sol:CurveswapAdapter'',
         h_address curveswapAdapter)])"

definition deployYearnRETHWstETHVaultLibraries :: "bool \<Rightarrow> (string \<times> address) list script" where
  "deployYearnRETHWstETHVaultLibraries verify =
     bindIO (deployCurveswapAdapterLibrary verify) (\<lambda>curveswapAdapter.
     returnIO
       [(''contracts/protocol/libraries/swap/CurveswapAdapter.sol:CurveswapAdapter'',
         h_address curveswapAdapter)])"

section \<open>Contracts linked with libraries\<close>

definition deployLendingPoolImpl :: "bool \<Rightarrow> handle script" where
  "deployLendingPoolImpl verify =
     bindIO (deploySturdyLibraries verify) (\<lambda>libs.
     bindIO (deployFresh ''LendingPool'' libs []) (\<lambda>lendingPoolImpl.
     thenIO (insertContractAddressInDb ''LendingPoolImpl'' (h_address lendingPoolImpl)) (
     returnIO lendingPoolImpl)))"

definition deployLendingPool :: "bool \<Rightarrow> handle script" where
  "deployLendingPool verify =
     bindIO (deploySturdyLibraries verify) (\<lambda>libs.
     bindIO (deployFresh ''LendingPool'' libs []) (\<lambda>lendingPoolImpl.
     thenIO (insertContractAddressInDb ''LendingPoolImpl'' (h_address lendingPoolImpl)) (
     withSaveAndVerify lendingPoolImpl ''LendingPoolImpl'' [] verify)))"

definition deployFTMLiquidator :: "arg list \<Rightarrow> bool \<Rightarrow> handle script" where
  "deployFTMLiquidator args verify =
     bindIO (deployAndSave ''FTMLiquidator'' [] ''FTMLiquidator'' args verify) (\<lambda>liquidator.
     bindIO (getLendingPoolAddressesProvider None) (\<lambda>addressesProvider.
     thenIO (setConfiguredAddress addressesProvider
               ''AAVE_LENDING_POOL'' (IFantomConfiguration.AavePool FantomConfig)) (
     returnIO liquidator)))"

definition deployETHLiquidator :: "arg list \<Rightarrow> bool \<Rightarrow> handle script" where
  "deployETHLiquidator args verify =
     bindIO (deploySwapAdapterLibraries verify) (\<lambda>libs.
     bindIO (deployAndSave ''ETHLiquidator'' libs ''ETHLiquidator'' args verify) (\<lambda>liquidator.
     returnIO liquidator))"

definition deployFRAX3CRVLevSwap :: "arg list \<Rightarrow> bool \<Rightarrow> handle script" where
  "deployFRAX3CRVLevSwap args verify =
     bindIO (deploySwapAdapter2Libraries verify) (\<lambda>libs.
     bindIO (deployAndSave ''FRAX3CRVLevSwap'' libs ''FRAX3CRVLevSwap'' args verify) (\<lambda>levSwap.
     returnIO levSwap))"

definition deployDAIUSDCUSDTSUSDLevSwap :: "arg list \<Rightarrow> bool \<Rightarrow> handle script" where
  "deployDAIUSDCUSDTSUSDLevSwap args verify =
     bindIO (deploySwapAdapter2Libraries verify) (\<lambda>libs.
     bindIO (deployAndSave ''DAIUSDCUSDTSUSDLevSwap'' libs ''DAIUSDCUSDTSUSDLevSwap'' args verify)
       (\<lambda>levSwap.
     returnIO levSwap))"

definition deployMIM3CRVLevSwap :: "arg list \<Rightarrow> bool \<Rightarrow> handle script" where
  "deployMIM3CRVLevSwap args verify =
     bindIO (deploySwapAdapter2Libraries verify) (\<lambda>libs.
     bindIO (deployAndSave ''MIM3CRVLevSwap'' libs ''MIM3CRVLevSwap'' args verify) (\<lambda>levSwap.
     returnIO levSwap))"

definition deployFRAXUSDCLevSwap :: "arg list \<Rightarrow> bool \<Rightarrow> handle script" where
  "deployFRAXUSDCLevSwap args verify =
     bindIO (deploySwapAdapter2Libraries verify) (\<lambda>libs.
     bindIO (deployAndSave ''FRAXUSDCLevSwap'' libs ''FRAXUSDCLevSwap'' args verify) (\<lambda>levSwap.
     returnIO levSwap))"

definition deployTUSDFRAXBPLevSwap :: "arg list \<Rightarrow> bool \<Rightarrow> handle script" where
  "deployTUSDFRAXBPLevSwap args verify =
     bindIO (deploySwapAdapter2Libraries verify) (\<lambda>libs.
     bindIO (deployAndSave ''TUSDFRAXBPLevSwap'' libs ''TUSDFRAXBPLevSwap'' args verify)
       (\<lambda>levSwap.
     returnIO levSwap))"

definition deployAURABBAUSDLevSwap :: "arg list \<Rightarrow> bool \<Rightarrow> handle script" where
  "deployAURABBAUSDLevSwap args verify =
     bindIO (deploySwapAdapter2Libraries verify) (\<lambda>libs.
     bindIO (deployAndSave ''AURABBAUSDLevSwap'' libs ''AURABBAUSDLevSwap'' args verify)
       (\<lambda>levSwap.
     returnIO levSwap))"

definition deployAURABBA3USDLevSwap :: "arg list \<Rightarrow> bool \<Rightarrow> handle script" where
  "deployAURABBA3USDLevSwap args verify =
     bindIO (deploySwapAdapter2Libraries verify) (\<lambda>libs.
     bindIO (deployAndSave ''AURABBA3USDLevSwap'' libs ''AURABBA3USDLevSwap'' args verify)
       (\<lambda>levSwap.
     returnIO levSwap))"

section \<open>Tokens\<close>

definition deployMintableERC20 :: "arg list \<Rightarrow> bool \<Rightarrow> handle script" where
  "deployMintableERC20 args verify =
     deployAndSave ''MintableERC20'' [] ''MintableERC20'' args verify"

definition deployMintableDelegationERC20 :: "arg list \<Rightarrow> bool \<Rightarrow> handle script" where
  "deployMintableDelegationERC20 args verify =
     deployAndSave ''MintableDelegationERC20'' [] ''MintableDelegationERC20'' args verify"

definition deployGenericStableDebtToken :: "handle script" where
  "deployGenericStableDebtToken = deployAndSave ''StableDebtToken'' [] ''StableDebtToken'' [] False"

definition deployGenericVariableDebtToken :: "handle script" where
  "deployGenericVariableDebtToken =
     deployAndSave ''VariableDebtToken'' [] ''VariableDebtToken'' [] False"

definition deployGenericATokenImpl :: "bool \<Rightarrow> handle script" where
  "deployGenericATokenImpl verify = deployAndSave ''AToken'' [] ''AToken'' [] verify"

definition deployCollateralATokenImpl :: "bool \<Rightarrow> handle script" where
  "deployCollateralATokenImpl verify =
     deployAndSave ''ATokenForCollateral'' [] ''ATokenForCollateral'' [] verify"

definition deployStableAndVariableTokensHelper :: "arg list \<Rightarrow> bool \<Rightarrow> handle script" where
  "deployStableAndVariableTokensHelper args verify =
     deployAndSave ''StableAndVariableTokensHelper'' [] ''StableAndVariableTokensHelper'' args verify"

definition deployATokensAndRatesHelper :: "arg list \<Rightarrow> bool \<Rightarrow> handle script" where
  "deployATokensAndRatesHelper args verify =
     deployAndSave ''ATokensAndRatesHelper'' [] ''ATokensAndRatesHelper'' args verify"

text \<open>Debt tokens and aTokens are initialized by the script; the calls are to contracts outside
  the model.\<close>

definition deployStableDebtToken ::
  "string \<times> string \<times> string \<times> string \<times> string \<times> string \<Rightarrow> bool \<Rightarrow> handle script" where
  "deployStableDebtToken = (\<lambda>(a0, a1, a2, a3, a4, a5) verify.
     bindIO (deployAndSave ''StableDebtToken'' [] ''StableDebtToken'' [] verify) (\<lambda>h.
     thenIO (callContract h ''initialize''
               [Str a0, Str a1, Str a2, Str a5, Str a3, Str a4, Str ''0x10''])
       (returnIO h)))"

definition deployVariableDebtToken ::
  "string \<times> string \<times> string \<times> string \<times> string \<times> string \<Rightarrow> bool \<Rightarrow> handle script" where
  "deployVariableDebtToken = (\<lambda>(a0, a1, a2, a3, a4, a5) verify.
     bindIO (deployAndSave ''VariableDebtToken'' [] ''VariableDebtToken'' [] verify) (\<lambda>h.
     thenIO (callContract h ''initialize''
               [Str a0, Str a1, Str a2, Str a5, Str a3, Str a4, Str ''0x10''])
       (returnIO h)))"

definition deployGenericAToken ::
  "string \<times> string \<times> string \<times> string \<times> string \<times> string \<times> string \<Rightarrow> bool \<Rightarrow> handle script" where
  "deployGenericAToken =
     (\<lambda>(poolAddress, underlyingAssetAddress, treasuryAddress, incentivesController, name, symbol, decimal) verify.
     bindIO (deployAndSave ''AToken'' [] ''AToken'' [] verify) (\<lambda>h.
     thenIO (callContract h ''initialize''
               [Str poolAddress, Str treasuryAddress, Str underlyingAssetAddress,
                Str incentivesController, Str decimal, Str name, Str symbol, Str ''0x10''])
       (returnIO h)))"

definition deployCollateralAToken ::
  "string \<times> string \<times> string \<times> string \<times> string \<times> string \<times> string \<Rightarrow> bool \<Rightarrow> handle script" where
  "deployCollateralAToken =
     (\<lambda>(poolAddress, underlyingAssetAddress, treasuryAddress, incentivesController, name, symbol, decimal) verify.
     bindIO (deployAndSave ''ATokenForCollateral'' [] ''ATokenForCollateral'' [] verify) (\<lambda>h.
     thenIO (callContract h ''initialize''
               [Str poolAddress, Str treasuryAddress, Str underlyingAssetAddress,
                Str incentivesController, Str decimal, Str name, Str symbol, Str ''0x10''])
       (returnIO h)))"

text \<open>The wrapper token: implementation and proxy, both initialized. The encoded call handed to
  the proxy is written as the call it encodes.\<close>

definition deployStaticAToken ::
  "string \<times> string \<times> string \<times> string \<Rightarrow> bool \<Rightarrow> (address \<times> address) script" where
  "deployStaticAToken = (\<lambda>(pool, aTokenAddress, symbol, proxyAdmin) verify.
     let args = [pool, aTokenAddress, ''Wrapped '' @ symbol, symbol] in
     bindIO (deployAndSave ''StaticAToken'' [] (symbol @ ''StaticATokenImpl'') [] verify)
       (\<lambda>staticATokenImplementation.
     bindIO (deployInitializableAdminUpgradeabilityProxy verify) (\<lambda>proxy.
     thenIO (registerContractInJsonDb (symbol @ ''StaticAToken'') proxy) (
     thenIO (callContract staticATokenImplementation ''initialize'' (map Str args)) (
     thenIO (callContract proxy ''initialize(address,address,bytes)''
               [Str (h_address staticATokenImplementation), Str proxyAdmin, Strs (''initialize'' # args)]) (
     returnIO (h_address proxy, h_address staticATokenImplementation)))))))"

section \<open>Mocks\<close>

definition deployMockAggregator :: "string \<Rightarrow> bool \<Rightarrow> handle script" where
  "deployMockAggregator price verify =
     deployAndSave ''MockAggregator'' [] ''MockAggregator'' [Str price] verify"

definition deployWETHMocked :: "bool \<Rightarrow> handle script" where
  "deployWETHMocked verify = deployAndSave ''WETH9Mocked'' [] ''WETHMocked'' [] verify"

definition deployMockDai :: "arg \<Rightarrow> bool \<Rightarrow> handle script" where
  "deployMockDai chainId verify = deployAndSave ''Dai'' [] ''DAIToken'' [chainId] verify"

definition deployMockUSDC :: "arg list \<Rightarrow> bool \<Rightarrow> handle script" where
  "deployMockUSDC args verify = deployAndSave ''Usdc'' [] ''USDCToken'' args verify"

definition deployMockUSDT :: "arg list \<Rightarrow> bool \<Rightarrow> handle script" where
  "deployMockUSDT args verify = deployAndSave ''Usdt'' [] ''USDTToken'' args verify"

definition deployMockyvWFTM :: "arg list \<Rightarrow> bool \<Rightarrow> handle script" where
  "deployMockyvWFTM args verify = deployAndSave ''MockyvWFTM'' [] ''MockyvWFTM'' args verify"

definition deployMockyvWETH :: "arg list \<Rightarrow> bool \<Rightarrow> handle script" where
  "deployMockyvWETH args verify = deployAndSave ''MockyvWETH'' [] ''MockyvWETH'' args verify"

definition deployMockyvWBTC :: "arg list \<Rightarrow> bool \<Rightarrow> handle script" where
  "deployMockyvWBTC args verify = deployAndSave ''MockyvWBTC'' [] ''MockyvWBTC'' args verify"

definition deployMockyvBOO :: "arg list \<Rightarrow> bool \<Rightarrow> handle script" where
  "deployMockyvBOO args verify = deployAndSave ''MockyvBOO'' [] ''MockyvBOO'' args verify"

definition deployMockWETHForFTM :: "arg list \<Rightarrow> bool \<Rightarrow> handle script" where
  "deployMockWETHForFTM args verify =
     deployAndSave ''MockWETHForFTM'' [] ''MockWETHForFTM'' args verify"

definition deployMockWBTCForFTM :: "arg list \<Rightarrow> bool \<Rightarrow> handle script" where
  "deployMockWBTCForFTM args verify =
     deployAndSave ''MockWBTCForFTM'' [] ''MockWBTCForFTM'' args verify"

definition deployMockBOOForFTM :: "arg list \<Rightarrow> bool \<Rightarrow> handle script" where
  "deployMockBOOForFTM args verify =
     deployAndSave ''MockBOOForFTM'' [] ''MockBOOForFTM'' args verify"

definition deployMockMooTOMBFTM :: "arg list \<Rightarrow> bool \<Rightarrow> handle script" where
  "deployMockMooTOMBFTM args verify =
     deployAndSave ''MockMooTOMBFTM'' [] ''MockMooTOMBFTM'' args verify"

definition deployMockMooTOMBMIMATIC :: "arg list \<Rightarrow> bool \<Rightarrow> handle script" where
  "deployMockMooTOMBMIMATIC args verify =
     deployAndSave ''MockMooTOMBMIMATIC'' [] ''MockMooTOMBMIMATIC'' args verify"

definition deployMockMooBASEDMIMATIC :: "arg list \<Rightarrow> bool \<Rightarrow> handle script" where
  "deployMockMooBASEDMIMATIC args verify =
     deployAndSave ''MockMooBASEDMIMATIC'' [] ''MockMooBASEDMIMATIC'' args verify"

definition deployMockYearnVault :: "string \<Rightarrow> arg list \<Rightarrow> bool \<Rightarrow> handle script" where
  "deployMockYearnVault key args verify = deployAndSave ''MockYearnVault'' [] key args verify"

definition deployMockBeefyVault :: "string \<Rightarrow> arg list \<Rightarrow> bool \<Rightarrow> handle script" where
  "deployMockBeefyVault key args verify = deployAndSave ''MockBeefyVault'' [] key args verify"

definition deployMockStableDebtToken ::
  "string \<times> string \<times> string \<times> string \<times> string \<times> string \<Rightarrow> bool \<Rightarrow> handle script" where
  "deployMockStableDebtToken = (\<lambda>(a0, a1, a2, a3, a4, a5) verify.
     bindIO (deployAndSave ''MockStableDebtToken'' [] ''MockStableDebtToken'' [] verify) (\<lambda>h.
     thenIO (callContract h ''initialize''
               [Str a0, Str a1, Str a2, Str ''18'', Str a3, Str a4, Str a5])
       (returnIO h)))"

definition deployMockVariableDebtToken ::
  "string \<times> string \<times> string \<times> string \<times> string \<times> string \<Rightarrow> bool \<Rightarrow> handle script" where
  "deployMockVariableDebtToken = (\<lambda>(a0, a1, a2, a3, a4, a5) verify.
     bindIO (deployAndSave ''MockVariableDebtToken'' [] ''MockVariableDebtToken'' [] verify) (\<lambda>h.
     thenIO (callContract h ''initialize''
               [Str a0, Str a1, Str a2, Str ''18'', Str a3, Str a4, Str a5])
       (returnIO h)))"

definition deployMockAToken ::
  "string \<times> string \<times> string \<times> string \<times> string \<times> string \<times> string \<Rightarrow> bool \<Rightarrow> handle script" where
  "deployMockAToken = (\<lambda>(a0, a1, a2, a3, a4, a5, a6) verify.
     bindIO (deployAndSave ''MockAToken'' [] ''MockAToken'' [] verify) (\<lambda>h.
     thenIO (callContract h ''initialize''
               [Str a0, Str a2, Str a1, Str a3, Str ''18'', Str a4, Str a5, Str a6])
       (returnIO h)))"

text \<open>The loop of the two functions that deploy one mintable token per symbol. Each token is
  recorded twice: under \<open>MintableERC20\<close>, where the next one replaces it, and under its symbol.\<close>

fun deployTokenPerSymbol ::
  "(string \<Rightarrow> string) \<Rightarrow> bool \<Rightarrow> string list \<Rightarrow> handle jsobj \<Rightarrow> handle jsobj script" where
  "deployTokenPerSymbol decimalsOf verify [] tokens = returnIO tokens"
| "deployTokenPerSymbol decimalsOf verify (tokenSymbol # symbols) tokens =
     bindIO (deployMintableERC20 [Str tokenSymbol, Str tokenSymbol, Str (decimalsOf tokenSymbol)] verify)
       (\<lambda>token.
     thenIO (registerContractInJsonDb (toUpperCase tokenSymbol) token)
       (deployTokenPerSymbol decimalsOf verify symbols (obj_set tokenSymbol token tokens)))"

definition deployAllMockTokens :: "'n bignumber_js \<Rightarrow> bool \<Rightarrow> handle jsobj script" where
  "deployAllMockTokens bn verify =
     (let protoConfigData = (case getReservesConfigByPool bn ''proto'' of None \<Rightarrow> [] | Some c \<Rightarrow> c)
      in deployTokenPerSymbol
           (\<lambda>tokenSymbol. case obj_get protoConfigData tokenSymbol of
              None \<Rightarrow> ''18'' | Some configData \<Rightarrow> reserveDecimals configData)
           verify TokenContractId [])"

text \<open>The argument is \<open>config.ReservesConfig\<close>, the only field the function reads.\<close>

definition deployMockTokens :: "IReserveParams jsobj \<Rightarrow> bool \<Rightarrow> handle jsobj script" where
  "deployMockTokens configData verify =
     deployTokenPerSymbol
       (\<lambda>tokenSymbol. case obj_get configData tokenSymbol of
          None \<Rightarrow> ''18''
        | Some c \<Rightarrow> if reserveDecimals c \<noteq> '''' then reserveDecimals c else ''18'')
       verify (obj_keys configData) []"

section \<open>Configuration values that may deploy\<close>

definition getWrappedNativeTokenAddress :: "ICommonConfiguration \<Rightarrow> address script" where
  "getWrappedNativeTokenAddress config =
     bindIO (getsIO (\<lambda>w. (currentNetwork w,
              getParamPerNetwork (WrappedNativeToken config) (currentNetwork w) w)))
       (\<lambda>(network, wethAddress).
     if truthy wethAddress then returnIO (the wethAddress)
     else thenIO (requireIO (\<not> str_includes network ''main'')
                   (Error ''WETH not set at mainnet configuration.''))
            (bindIO (deployWETHMocked False) (\<lambda>weth. returnIO (h_address weth))))"

definition getQuoteCurrency :: "ICommonConfiguration \<Rightarrow> address script" where
  "getQuoteCurrency config =
     (if OracleQuoteCurrency config \<in> {''ETH'', ''WETH''} then getWrappedNativeTokenAddress config
      else if OracleQuoteCurrency config = ''USD'' then
        returnIO (UsdAddress (ProtocolGlobalParams config))
      else throwIO (Thrown (''Quote '' @ OracleQuoteCurrency config @
             '' currency not set. Add a new case to getQuoteCurrency switch'')))"

end
