(* ===== verification/Vaults.thy ===== *)
theory Vaults
  imports Deployments
begin

text \<open>
  \<open>helpers/contracts-deployments.ts\<close>, second part: contracts behind an upgradeability proxy of
  the addresses provider. Each function deploys an implementation, points the provider's
  proxy for its identifier at it, sets the addresses the implementation reads from the
  provider and records the proxy.
\<close>

section \<open>Vaults of the Ethereum market\<close>

definition deployLidoVaultImpl :: "bool \<Rightarrow> handle script" where
  "deployLidoVaultImpl verify =
     bindIO (deployLidoVaultLibraries verify) (\<lambda>libs.
     deployAndSave ''LidoVault'' libs ''LidoVaultImpl'' [] verify)"

definition deployLidoVault :: "bool \<Rightarrow> handle script" where
  "deployLidoVault verify =
     bindIO (deployLidoVaultLibraries verify) (\<lambda>libs.
     bindIO (deployAndSave ''LidoVault'' libs ''LidoVaultImpl'' [] verify) (\<lambda>lidoVaultImpl.
     bindIO (getLendingPoolAddressesProvider None) (\<lambda>addressesProvider.
     thenIO (initialize lidoVaultImpl (h_address addressesProvider)) (
     thenIO (setAddressAsProxy addressesProvider ''LIDO_VAULT'' (h_address lidoVaultImpl)) (
     thenIO (setConfiguredAddress addressesProvider ''LIDO'' (Lido SturdyConfig)) (
     thenIO (setConfiguredAddress addressesProvider
               ''STETH_ETH_POOL'' (CurveswapLidoPool SturdyConfig)) (
     thenIO (setConfiguredAddress addressesProvider
               ''uniswapRouter'' (ISturdyConfiguration.UniswapRouter SturdyConfig)) (
     thenIO (setConfiguredAddress addressesProvider ''WETH'' (WETH SturdyConfig)) (
     bindIO (getAddress addressesProvider ''LIDO_VAULT'') (\<lambda>lidoVaultProxyAddress.
     thenIO (insertContractAddressInDb ''LidoVault'' lidoVaultProxyAddress) (
     getLidoVault None)))))))))))"

definition deployYearnRETHWstETHVaultImpl :: "bool \<Rightarrow> unit script" where
  "deployYearnRETHWstETHVaultImpl verify =
     bindIO (deployYearnRETHWstETHVaultLibraries verify) (\<lambda>libs.
     bindIO (deployFresh ''YearnRETHWstETHVault'' libs []) (\<lambda>deployed.
     detachIO (withSaveAndVerify deployed ''YearnRETHWstETHVaultImpl'' [] verify)))"

definition deployYearnRETHWstETHVaultVault :: "bool \<Rightarrow> handle script" where
  "deployYearnRETHWstETHVaultVault verify =
     bindIO (deployYearnRETHWstETHVaultLibraries verify) (\<lambda>libs.
     bindIO (deployAndSave ''YearnRETHWstETHVault'' libs ''YearnRETHWstETHVaultImpl'' [] verify)
       (\<lambda>vaultImpl.
     bindIO (getLendingPoolAddressesProvider None) (\<lambda>addressesProvider.
     thenIO (initialize vaultImpl (h_address addressesProvider)) (
     thenIO (setAddressAsProxy addressesProvider
               ''YEARN_RETH_WSTETH_VAULT'' (h_address vaultImpl)) (
     thenIO (setConfiguredAddress addressesProvider
               ''YVRETH_WSTETH'' (YearnRETHWstETHVault SturdyConfig)) (
     thenIO (setConfiguredAddress addressesProvider
               ''RETH_WSTETH'' (RETH_WSTETH_LP SturdyConfig)) (
     thenIO (setConfiguredAddress addressesProvider ''WSTETH'' (WSTETH SturdyConfig)) (
     bindIO (getAddress addressesProvider ''YEARN_RETH_WSTETH_VAULT'') (\<lambda>proxyAddress.
     thenIO (insertContractAddressInDb ''YearnRETHWstETHVault'' proxyAddress) (
     getYearnRETHWstETHVault None))))))))))"

definition deployConvexRocketPoolETHVaultImpl :: "bool \<Rightarrow> handle script" where
  "deployConvexRocketPoolETHVaultImpl verify =
     deployAndSave ''ConvexCurveLPVault'' [] ''ConvexRocketPoolETHVaulttImpl'' [] verify"

definition deployConvexRocketPoolETHVault :: "bool \<Rightarrow> handle script" where
  "deployConvexRocketPoolETHVault verify =
     bindIO (deployAndSave ''ConvexCurveLPVault'' [] ''ConvexRocketPoolETHVaulttImpl'' [] verify)
       (\<lambda>vaultImpl.
     bindIO (getLendingPoolAddressesProvider None) (\<lambda>addressesProvider.
     thenIO (initialize vaultImpl (h_address addressesProvider)) (
     thenIO (setAddressAsProxy addressesProvider
               ''CONVEX_ROCKET_POOL_ETH_VAULT'' (h_address vaultImpl)) (
     thenIO (setConfiguredAddress addressesProvider
               ''RETH_WSTETH'' (RETH_WSTETH_LP SturdyConfig)) (
     thenIO (setConfiguredAddress addressesProvider ''WSTETH'' (WSTETH SturdyConfig)) (
     thenIO (setConfiguredAddress addressesProvider
               ''CRV'' (ISturdyConfiguration.CRV SturdyConfig)) (
     thenIO (setConfiguredAddress addressesProvider ''CVX'' (CVX SturdyConfig)) (
     bindIO (getAddress addressesProvider ''CONVEX_ROCKET_POOL_ETH_VAULT'') (\<lambda>proxyAddress.
     thenIO (insertContractAddressInDb ''ConvexRocketPoolETHVault'' proxyAddress) (
     getConvexRocketPoolETHVault None))))))))))"

definition deployConvexFRAX3CRVVaultImpl :: "bool \<Rightarrow> handle script" where
  "deployConvexFRAX3CRVVaultImpl verify =
     deployAndSave ''ConvexCurveLPVault'' [] ''ConvexFRAX3CRVVaultImpl'' [] verify"

definition deployConvexFRAX3CRVVault :: "bool \<Rightarrow> handle script" where
  "deployConvexFRAX3CRVVault verify =
     bindIO (deployAndSave ''ConvexCurveLPVault'' [] ''ConvexFRAX3CRVVaultImpl'' [] verify)
       (\<lambda>vaultImpl.
     bindIO (getLendingPoolAddressesProvider None) (\<lambda>addressesProvider.
     thenIO (initialize vaultImpl (h_address addressesProvider)) (
     thenIO (setAddressAsProxy addressesProvider
               ''CONVEX_FRAX_3CRV_VAULT'' (h_address vaultImpl)) (
     thenIO (setConfiguredAddress addressesProvider
               ''CRV'' (ISturdyConfiguration.CRV SturdyConfig)) (
     thenIO (setConfiguredAddress addressesProvider ''CVX'' (CVX SturdyConfig)) (
     bindIO (getAddress addressesProvider ''CONVEX_FRAX_3CRV_VAULT'') (\<lambda>proxyAddress.
     thenIO (insertContractAddressInDb ''ConvexFRAX3CRVVault'' proxyAddress) (
     getConvexFRAX3CRVVault None))))))))"

definition deployConvexSTETHVaultImpl :: "bool \<Rightarrow> handle script" where
  "deployConvexSTETHVaultImpl verify =
     deployAndSave ''ConvexCurveLPVault'' [] ''ConvexSTETHVaultImpl'' [] verify"

definition deployConvexSTETHVault :: "bool \<Rightarrow> handle script" where
  "deployConvexSTETHVault verify =
     bindIO (deployAndSave ''ConvexCurveLPVault'' [] ''ConvexSTETHVaultImpl'' [] verify)
       (\<lambda>vaultImpl.
     bindIO (getLendingPoolAddressesProvider None) (\<lambda>addressesProvider.
     thenIO (initialize vaultImpl (h_address addressesProvider)) (
     thenIO (setAddressAsProxy addressesProvider ''CONVEX_STETH_VAULT'' (h_address vaultImpl)) (
     bindIO (getAddress addressesProvider ''CONVEX_STETH_VAULT'') (\<lambda>proxyAddress.
     thenIO (insertContractAddressInDb ''ConvexSTETHVault'' proxyAddress) (
     getConvexSTETHVault None))))))"

definition deployConvexDOLA3CRVVaultImpl :: "bool \<Rightarrow> handle script" where
  "deployConvexDOLA3CRVVaultImpl verify =
     deployAndSave ''ConvexCurveLPVault'' [] ''ConvexDOLA3CRVVaultImpl'' [] verify"

definition deployConvexDOLA3CRVVault :: "bool \<Rightarrow> handle script" where
  "deployConvexDOLA3CRVVault verify =
     bindIO (deployAndSave ''ConvexCurveLPVault'' [] ''ConvexDOLA3CRVVaultImpl'' [] verify)
       (\<lambda>vaultImpl.
     bindIO (getLendingPoolAddressesProvider None) (\<lambda>addressesProvider.
     thenIO (initialize vaultImpl (h_address addressesProvider)) (
     thenIO (setAddressAsProxy addressesProvider
               ''CONVEX_DOLA_3CRV_VAULT'' (h_address vaultImpl)) (
     bindIO (getAddress addressesProvider ''CONVEX_DOLA_3CRV_VAULT'') (\<lambda>proxyAddress.
     thenIO (insertContractAddressInDb ''ConvexDOLA3CRVVault'' proxyAddress) (
     getConvexDOLA3CRVVault None))))))"

definition deployConvexMIM3CRVVaultImpl :: "bool \<Rightarrow> handle script" where
  "deployConvexMIM3CRVVaultImpl verify =
     deployAndSave ''ConvexCurveLPVault'' [] ''ConvexMIM3CRVVaultImpl'' [] verify"

definition deployConvexMIM3CRVVault :: "bool \<Rightarrow> handle script" where
  "deployConvexMIM3CRVVault verify =
     bindIO (deployAndSave ''ConvexCurveLPVault'' [] ''ConvexMIM3CRVVaultImpl'' [] verify)
       (\<lambda>vaultImpl.
     bindIO (getLendingPoolAddressesProvider None) (\<lambda>addressesProvider.
     thenIO (initialize vaultImpl (h_address addressesProvider)) (
     thenIO (setAddressAsProxy addressesProvider ''CONVEX_MIM_3CRV_VAULT'' (h_address vaultImpl)) (
     bindIO (getAddress addressesProvider ''CONVEX_MIM_3CRV_VAULT'') (\<lambda>proxyAddress.
     thenIO (insertContractAddressInDb ''ConvexMIM3CRVVault'' proxyAddress) (
     getConvexMIM3CRVVault None))))))"

definition deployConvexDAIUSDCUSDTSUSDVaultImpl :: "bool \<Rightarrow> handle script" where
  "deployConvexDAIUSDCUSDTSUSDVaultImpl verify =
     deployAndSave ''ConvexCurveLPVault'' [] ''ConvexDAIUSDCUSDTSUSDVaultImpl'' [] verify"

definition deployConvexDAIUSDCUSDTSUSDVault :: "bool \<Rightarrow> handle script" where
  "deployConvexDAIUSDCUSDTSUSDVault verify =
     bindIO (deployAndSave ''ConvexCurveLPVault'' [] ''ConvexDAIUSDCUSDTSUSDVaultImpl'' [] verify)
       (\<lambda>vaultImpl.
     bindIO (getLendingPoolAddressesProvider None) (\<lambda>addressesProvider.
     thenIO (initialize vaultImpl (h_address addressesProvider)) (
     thenIO (setAddressAsProxy addressesProvider
               ''CONVEX_DAI_USDC_USDT_SUSD_VAULT'' (h_address vaultImpl)) (
     bindIO (getAddress addressesProvider ''CONVEX_DAI_USDC_USDT_SUSD_VAULT'') (\<lambda>proxyAddress.
     thenIO (insertContractAddressInDb ''ConvexDAIUSDCUSDTSUSDVault'' proxyAddress) (
     getConvexDAIUSDCUSDTSUSDVault None))))))"

definition deployConvexHBTCWBTCVaultImpl :: "bool \<Rightarrow> handle script" where
  "deployConvexHBTCWBTCVaultImpl verify =
     deployAndSave ''ConvexCurveLPVault'' [] ''ConvexHBTCWBTCVaultImpl'' [] verify"

definition deployConvexHBTCWBTCVault :: "bool \<Rightarrow> handle script" where
  "deployConvexHBTCWBTCVault verify =
     bindIO (deployAndSave ''ConvexCurveLPVault'' [] ''ConvexHBTCWBTCVaultImpl'' [] verify)
       (\<lambda>vaultImpl.
     bindIO (getLendingPoolAddressesProvider None) (\<lambda>addressesProvider.
     thenIO (initialize vaultImpl (h_address addressesProvider)) (
     thenIO (setAddressAsProxy addressesProvider
               ''CONVEX_HBTC_WBTC_VAULT'' (h_address vaultImpl)) (
     bindIO (getAddress addressesProvider ''CONVEX_HBTC_WBTC_VAULT'') (\<lambda>proxyAddress.
     thenIO (insertContractAddressInDb ''ConvexHBTCWBTCVault'' proxyAddress) (
     getConvexHBTCWBTCVault None))))))"

definition deployConvexIronBankVaultImpl :: "bool \<Rightarrow> handle script" where
  "deployConvexIronBankVaultImpl verify =
     deployAndSave ''ConvexCurveLPVault'' [] ''ConvexIronBankVaultImpl'' [] verify"

definition deployConvexIronBankVault :: "bool \<Rightarrow> handle script" where
  "deployConvexIronBankVault verify =
     bindIO (deployAndSave ''ConvexCurveLPVault'' [] ''ConvexIronBankVaultImpl'' [] verify)
       (\<lambda>vaultImpl.
     bindIO (getLendingPoolAddressesProvider None) (\<lambda>addressesProvider.
     thenIO (initialize vaultImpl (h_address addressesProvider)) (
     thenIO (setAddressAsProxy addressesProvider
               ''CONVEX_IRON_BANK_VAULT'' (h_address vaultImpl)) (
     bindIO (getAddress addressesProvider ''CONVEX_IRON_BANK_VAULT'') (\<lambda>proxyAddress.
     thenIO (insertContractAddressInDb ''ConvexIronBankVault'' proxyAddress) (
     getConvexIronBankVault None))))))"

definition deployConvexFRAXUSDCVaultImpl :: "bool \<Rightarrow> handle script" where
  "deployConvexFRAXUSDCVaultImpl verify =
     deployAndSave ''ConvexCurveLPVault'' [] ''ConvexFRAXUSDCVaultImpl'' [] verify"

definition deployConvexFRAXUSDCVault :: "bool \<Rightarrow> handle script" where
  "deployConvexFRAXUSDCVault verify =
     bindIO (deployAndSave ''ConvexCurveLPVault'' [] ''ConvexFRAXUSDCVaultImpl'' [] verify)
       (\<lambda>vaultImpl.
     bindIO (getLendingPoolAddressesProvider None) (\<lambda>addressesProvider.
     thenIO (initialize vaultImpl (h_address addressesProvider)) (
     thenIO (setAddressAsProxy addressesProvider
               ''CONVEX_FRAX_USDC_VAULT'' (h_address vaultImpl)) (
     bindIO (getAddress addressesProvider ''CONVEX_FRAX_USDC_VAULT'') (\<lambda>proxyAddress.
     thenIO (insertContractAddressInDb ''ConvexFRAXUSDCVault'' proxyAddress) (
     getConvexFRAXUSDCVault None))))))"

definition deployAuraDAIUSDCUSDTVault :: "bool \<Rightarrow> handle script" where
  "deployAuraDAIUSDCUSDTVault verify =
     bindIO (deployAndSave ''AuraBalancerLPVault'' [] ''AuraDAIUSDCUSDTVaultImpl'' [] verify)
       (\<lambda>vaultImpl.
     bindIO (getLendingPoolAddressesProvider None) (\<lambda>addressesProvider.
     thenIO (initialize vaultImpl (h_address addressesProvider)) (
     thenIO (setAddressAsProxy addressesProvider
               ''AURA_DAI_USDC_USDT_VAULT'' (h_address vaultImpl)) (
     bindIO (getAddress addressesProvider ''AURA_DAI_USDC_USDT_VAULT'') (\<lambda>proxyAddress.
     thenIO (insertContractAddressInDb ''AuraDAIUSDCUSDTVault'' proxyAddress) (
     getAuraDAIUSDCUSDTVault None))))))"

definition deployConvexTUSDFRAXBPVaultImpl :: "bool \<Rightarrow> handle script" where
  "deployConvexTUSDFRAXBPVaultImpl verify =
     deployAndSave ''ConvexCurveLPVault2'' [] ''ConvexTUSDFRAXBPVaultImpl'' [] verify"

definition deployConvexTUSDFRAXBPVault :: "bool \<Rightarrow> handle script" where
  "deployConvexTUSDFRAXBPVault verify =
     bindIO (deployAndSave ''ConvexCurveLPVault2'' [] ''ConvexTUSDFRAXBPVaultImpl'' [] verify)
       (\<lambda>vaultImpl.
     bindIO (getLendingPoolAddressesProvider None) (\<lambda>addressesProvider.
     thenIO (initialize vaultImpl (h_address addressesProvider)) (
     thenIO (setAddressAsProxy addressesProvider
               ''CONVEX_TUSD_FRAXBP_VAULT'' (h_address vaultImpl)) (
     bindIO (getAddress addressesProvider ''CONVEX_TUSD_FRAXBP_VAULT'') (\<lambda>proxyAddress.
     thenIO (insertContractAddressInDb ''ConvexTUSDFRAXBPVault'' proxyAddress) (
     getConvexTUSDFRAXBPVault None))))))"

definition deployAuraBBAUSDVault :: "bool \<Rightarrow> handle script" where
  "deployAuraBBAUSDVault verify =
     bindIO (deployAndSave ''AuraBalancerLPVault'' [] ''AuraBBAUSDVaultImpl'' [] verify)
       (\<lambda>vaultImpl.
     bindIO (getLendingPoolAddressesProvider None) (\<lambda>addressesProvider.
     thenIO (initialize vaultImpl (h_address addressesProvider)) (
     thenIO (setAddressAsProxy addressesProvider ''AURA_BB_A_USD_VAULT'' (h_address vaultImpl)) (
     bindIO (getAddress addressesProvider ''AURA_BB_A_USD_VAULT'') (\<lambda>proxyAddress.
     thenIO (insertContractAddressInDb ''AuraBBAUSDVault'' proxyAddress) (
     getAuraBBAUSDVault None))))))"

definition deployAuraBBA3USDVaultImpl :: "bool \<Rightarrow> handle script" where
  "deployAuraBBA3USDVaultImpl verify =
     deployAndSave ''AuraBalancerLPVault'' [] ''AuraBBA3USDVaultImpl'' [] verify"

definition deployAuraBBA3USDVault :: "bool \<Rightarrow> handle script" where
  "deployAuraBBA3USDVault verify =
     bindIO (deployAndSave ''AuraBalancerLPVault'' [] ''AuraBBA3USDVaultImpl'' [] verify)
       (\<lambda>vaultImpl.
     bindIO (getLendingPoolAddressesProvider None) (\<lambda>addressesProvider.
     thenIO (initialize vaultImpl (h_address addressesProvider)) (
     thenIO (setAddressAsProxy addressesProvider ''AURA_BB_A3_USD_VAULT'' (h_address vaultImpl)) (
     bindIO (getAddress addressesProvider ''AURA_BB_A3_USD_VAULT'') (\<lambda>proxyAddress.
     thenIO (insertContractAddressInDb ''AuraBBA3USDVault'' proxyAddress) (
     getAuraBBA3USDVault None))))))"

definition deployYearnVaultImpl :: "bool \<Rightarrow> handle script" where
  "deployYearnVaultImpl verify = deployAndSave ''YearnVault'' [] ''YearnVaultImpl'' [] verify"

section \<open>Vaults of the Fantom market\<close>

definition deployYearnVault :: "bool \<Rightarrow> handle script" where
  "deployYearnVault verify =
     bindIO (deployAndSave ''YearnVault'' [] ''YearnVaultImpl'' [] verify) (\<lambda>yearnVaultImpl.
     bindIO (getLendingPoolAddressesProvider None) (\<lambda>addressesProvider.
     thenIO (setAddressAsProxy addressesProvider ''YEARN_VAULT'' (h_address yearnVaultImpl)) (
     thenIO (setConfiguredAddress addressesProvider ''YVWFTM'' (YearnVaultFTM FantomConfig)) (
     thenIO (setConfiguredAddress addressesProvider
               ''uniswapRouter'' (IFantomConfiguration.UniswapRouter FantomConfig)) (
     thenIO (setConfiguredAddress addressesProvider ''WFTM'' (WFTM FantomConfig)) (
     bindIO (getAddress addressesProvider ''YEARN_VAULT'') (\<lambda>yearnVaultProxyAddress.
     thenIO (insertContractAddressInDb ''YearnVault'' yearnVaultProxyAddress) (
     getYearnVault None))))))))"

definition deployYearnWETHVaultImpl :: "bool \<Rightarrow> handle script" where
  "deployYearnWETHVaultImpl verify =
     deployAndSave ''YearnWETHVault'' [] ''YearnWETHVaultImpl'' [] verify"

definition deployYearnWETHVault :: "bool \<Rightarrow> handle script" where
  "deployYearnWETHVault verify =
     bindIO (deployAndSave ''YearnWETHVault'' [] ''YearnWETHVaultImpl'' [] verify)
       (\<lambda>yearnWETHVaultImpl.
     bindIO (getLendingPoolAddressesProvider None) (\<lambda>addressesProvider.
     thenIO (setAddressAsProxy addressesProvider
               ''YEARN_WETH_VAULT'' (h_address yearnWETHVaultImpl)) (
     thenIO (setConfiguredAddress addressesProvider ''YVWETH'' (YearnWETHVaultFTM FantomConfig)) (
     thenIO (setConfiguredAddress addressesProvider ''WETH'' (WETH FantomConfig)) (
     bindIO (getAddress addressesProvider ''YEARN_WETH_VAULT'') (\<lambda>yearnWETHVaultProxyAddress.
     thenIO (insertContractAddressInDb ''YearnWETHVault'' yearnWETHVaultProxyAddress) (
     getYearnWETHVault None)))))))"

definition deployYearnWBTCVaultImpl :: "bool \<Rightarrow> handle script" where
  "deployYearnWBTCVaultImpl verify =
     deployAndSave ''YearnWBTCVault'' [] ''YearnWBTCVaultImpl'' [] verify"

definition deployYearnWBTCVault :: "bool \<Rightarrow> handle script" where
  "deployYearnWBTCVault verify =
     bindIO (deployAndSave ''YearnWBTCVault'' [] ''YearnWBTCVaultImpl'' [] verify)
       (\<lambda>yearnWBTCVaultImpl.
     bindIO (getLendingPoolAddressesProvider None) (\<lambda>addressesProvider.
     thenIO (setAddressAsProxy addressesProvider
               ''YEARN_WBTC_VAULT'' (h_address yearnWBTCVaultImpl)) (
     thenIO (setConfiguredAddress addressesProvider ''YVWBTC'' (YearnWBTCVaultFTM FantomConfig)) (
     thenIO (setConfiguredAddress addressesProvider ''WBTC'' (WBTC FantomConfig)) (
     bindIO (getAddress addressesProvider ''YEARN_WBTC_VAULT'') (\<lambda>yearnWBTCVaultProxyAddress.
     thenIO (insertContractAddressInDb ''YearnWBTCVault'' yearnWBTCVaultProxyAddress) (
     getYearnWBTCVault None)))))))"

definition deployYearnBOOVaultImpl :: "bool \<Rightarrow> handle script" where
  "deployYearnBOOVaultImpl verify =
     deployAndSave ''YearnBOOVault'' [] ''YearnBOOVaultImpl'' [] verify"

definition deployYearnBOOVault :: "bool \<Rightarrow> handle script" where
  "deployYearnBOOVault verify =
     bindIO (deployAndSave ''YearnBOOVault'' [] ''YearnBOOVaultImpl'' [] verify)
       (\<lambda>yearnBOOVaultImpl.
     bindIO (getLendingPoolAddressesProvider None) (\<lambda>addressesProvider.
     thenIO (setAddressAsProxy addressesProvider
               ''YEARN_BOO_VAULT'' (h_address yearnBOOVaultImpl)) (
     thenIO (setConfiguredAddress addressesProvider ''YVBOO'' (YearnBOOVaultFTM FantomConfig)) (
     thenIO (setConfiguredAddress addressesProvider ''BOO'' (BOO FantomConfig)) (
     bindIO (getAddress addressesProvider ''YEARN_BOO_VAULT'') (\<lambda>yearnBOOVaultProxyAddress.
     thenIO (insertContractAddressInDb ''YearnBOOVault'' yearnBOOVaultProxyAddress) (
     getYearnBOOVault None)))))))"

definition deployTombFTMBeefyVaultImpl :: "bool \<Rightarrow> handle script" where
  "deployTombFTMBeefyVaultImpl verify =
     deployAndSave ''TombFtmBeefyVault'' [] ''TombFtmBeefyVaultImpl'' [] verify"

definition deployTombFTMBeefyVault :: "bool \<Rightarrow> handle script" where
  "deployTombFTMBeefyVault verify =
     bindIO (deployAndSave ''TombFtmBeefyVault'' [] ''TombFtmBeefyVaultImpl'' [] verify)
       (\<lambda>tombFtmBeefyVaultImpl.
     bindIO (getLendingPoolAddressesProvider None) (\<lambda>addressesProvider.
     thenIO (setAddressAsProxy addressesProvider
               ''BEEFY_TOMB_FTM_VAULT'' (h_address tombFtmBeefyVaultImpl)) (
     thenIO (setConfiguredAddress addressesProvider
               ''mooTombTOMB-FTM'' (BeefyVaultTOMB_FTM FantomConfig)) (
     thenIO (setConfiguredAddress addressesProvider ''TOMB_FTM_LP'' (TOMB_FTM_LP FantomConfig)) (
     thenIO (setConfiguredAddress addressesProvider ''TOMB'' (TOMB FantomConfig)) (
     bindIO (getAddress addressesProvider ''BEEFY_TOMB_FTM_VAULT'')
       (\<lambda>tombFtmBeefyVaultProxyAddress.
     thenIO (insertContractAddressInDb ''TombFtmBeefyVault'' tombFtmBeefyVaultProxyAddress) (
     getTombFtmBeefyVault None))))))))"

definition deployTombMiMaticBeefyVaultImpl :: "bool \<Rightarrow> handle script" where
  "deployTombMiMaticBeefyVaultImpl verify =
     deployAndSave ''TombMimaticBeefyVault'' [] ''TombMiMaticBeefyVaultImpl'' [] verify"

definition deployTombMiMaticBeefyVault :: "bool \<Rightarrow> handle script" where
  "deployTombMiMaticBeefyVault verify =
     bindIO (deployAndSave ''TombMimaticBeefyVault'' [] ''TombMiMaticBeefyVaultImpl'' [] verify)
       (\<lambda>tombMiMaticBeefyVaultImpl.
     bindIO (getLendingPoolAddressesProvider None) (\<lambda>addressesProvider.
     thenIO (setAddressAsProxy addressesProvider
               ''BEEFY_TOMB_MIMATIC_VAULT'' (h_address tombMiMaticBeefyVaultImpl)) (
     thenIO (setConfiguredAddress addressesProvider
               ''mooTombTOMB-MIMATIC'' (BeefyVaultTOMB_MIMATIC FantomConfig)) (
     thenIO (setConfiguredAddress addressesProvider
               ''TOMB_MIMATIC_LP'' (TOMB_MIMATIC_LP FantomConfig)) (
     thenIO (setConfiguredAddress addressesProvider ''MIMATIC'' (MIMATIC FantomConfig)) (
     thenIO (setReserveAssetAddress addressesProvider
               ''USDC'' (ReserveAssets FantomConfig) ''USDC'') (
     thenIO (setConfiguredAddress addressesProvider
               ''tombSwapRouter'' (TombSwapRouter FantomConfig)) (
     bindIO (getAddress addressesProvider ''BEEFY_TOMB_MIMATIC_VAULT'')
       (\<lambda>tombMiMaticBeefyVaultProxyAddress.
     thenIO (insertContractAddressInDb ''TombMiMaticBeefyVault''
               tombMiMaticBeefyVaultProxyAddress) (
     getTombMiMaticBeefyVault None))))))))))"

definition deployBasedMiMaticBeefyVaultImpl :: "bool \<Rightarrow> handle script" where
  "deployBasedMiMaticBeefyVaultImpl verify =
     deployAndSave ''BasedMimaticBeefyVault'' [] ''BasedMiMaticBeefyVaultImpl'' [] verify"

definition deployBasedMiMaticBeefyVault :: "bool \<Rightarrow> handle script" where
  "deployBasedMiMaticBeefyVault verify =
     bindIO (deployAndSave ''BasedMimaticBeefyVault'' [] ''BasedMiMaticBeefyVaultImpl'' [] verify)
       (\<lambda>basedMiMaticBeefyVaultImpl.
     bindIO (getLendingPoolAddressesProvider None) (\<lambda>addressesProvider.
     thenIO (setAddressAsProxy addressesProvider
               ''BEEFY_BASED_MIMATIC_VAULT'' (h_address basedMiMaticBeefyVaultImpl)) (
     thenIO (setConfiguredAddress addressesProvider
               ''mooTombBASED-MIMATIC'' (BeefyVaultBASED_MIMATIC FantomConfig)) (
     thenIO (setConfiguredAddress addressesProvider
               ''BASED_MIMATIC_LP'' (BASED_MIMATIC_LP FantomConfig)) (
     thenIO (setConfiguredAddress addressesProvider ''BASED'' (BASED FantomConfig)) (
     bindIO (getAddress addressesProvider ''BEEFY_BASED_MIMATIC_VAULT'')
       (\<lambda>basedMiMaticBeefyVaultProxyAddress.
     thenIO (insertContractAddressInDb ''BasedMiMaticBeefyVault''
               basedMiMaticBeefyVaultProxyAddress) (
     getBasedMiMaticBeefyVault None))))))))"

definition deployBeefyMIM2CRVVaultImpl :: "bool \<Rightarrow> handle script" where
  "deployBeefyMIM2CRVVaultImpl verify =
     deployAndSave ''BeefyMIM2CRVVault'' [] ''BeefyMIM2CRVVaultImpl'' [] verify"

definition deployBeefyMIM2CRVVault :: "bool \<Rightarrow> handle script" where
  "deployBeefyMIM2CRVVault verify =
     bindIO (deployAndSave ''BeefyMIM2CRVVault'' [] ''BeefyMIM2CRVVaultImpl'' [] verify)
       (\<lambda>beefyMIM2CRVVaultImpl.
     bindIO (getLendingPoolAddressesProvider None) (\<lambda>addressesProvider.
     thenIO (setAddressAsProxy addressesProvider
               ''BEEFY_MIM2CRV_VAULT'' (h_address beefyMIM2CRVVaultImpl)) (
     thenIO (setConfiguredAddress addressesProvider
               ''MOOMIM2CRV'' (BeefyMIM2CRVVault FantomConfig)) (
     thenIO (setConfiguredAddress addressesProvider ''MIM_2CRV_LP'' (MIM_2CRV_LP FantomConfig)) (
     bindIO (getAddress addressesProvider ''BEEFY_MIM2CRV_VAULT'')
       (\<lambda>beefyMIM2CRVVaultProxyAddress.
     thenIO (insertContractAddressInDb ''BeefyMIM2CRVVault'' beefyMIM2CRVVaultProxyAddress) (
     getBeefyMIM2CRVVault None)))))))"

definition deployYearnFBeetsVaultImpl :: "bool \<Rightarrow> handle script" where
  "deployYearnFBeetsVaultImpl verify =
     deployAndSave ''YearnFBEETSVault'' [] ''YearnFBEETSVaultImpl'' [] verify"

definition deployYearnFBeetsVault :: "bool \<Rightarrow> handle script" where
  "deployYearnFBeetsVault verify =
     bindIO (deployAndSave ''YearnFBEETSVault'' [] ''YearnFBEETSVaultImpl'' [] verify)
       (\<lambda>yearnFBEETSVaultImpl.
     bindIO (getLendingPoolAddressesProvider None) (\<lambda>addressesProvider.
     thenIO (setAddressAsProxy addressesProvider
               ''YEARN_FBEETS_VAULT'' (h_address yearnFBEETSVaultImpl)) (
     thenIO (setConfiguredAddress addressesProvider
               ''YVFBEETS'' (YearnFBEETSVaultFTM FantomConfig)) (
     thenIO (setConfiguredAddress addressesProvider ''fBEETS'' (fBEETS FantomConfig)) (
     thenIO (setConfiguredAddress addressesProvider ''BEETS'' (BEETS FantomConfig)) (
     bindIO (getAddress addressesProvider ''YEARN_FBEETS_VAULT'')
       (\<lambda>yearnFBEETSVaultProxyAddress.
     thenIO (insertContractAddressInDb ''YearnFBEETSVault'' yearnFBEETSVaultProxyAddress) (
     getYearnFBEETSVault None))))))))"

definition deployYearnLINKVaultImpl :: "bool \<Rightarrow> handle script" where
  "deployYearnLINKVaultImpl verify =
     deployAndSave ''YearnLINKVault'' [] ''YearnLINKVaultImpl'' [] verify"

definition deployYearnLINKVault :: "bool \<Rightarrow> handle script" where
  "deployYearnLINKVault verify =
     bindIO (deployAndSave ''YearnLINKVault'' [] ''YearnLINKVaultImpl'' [] verify)
       (\<lambda>yearnLINKVaultImpl.
     bindIO (getLendingPoolAddressesProvider None) (\<lambda>addressesProvider.
     thenIO (setAddressAsProxy addressesProvider
               ''YEARN_LINK_VAULT'' (h_address yearnLINKVaultImpl)) (
     thenIO (setConfiguredAddress addressesProvider ''YVLINK'' (YearnLINKVaultFTM FantomConfig)) (
     thenIO (setConfiguredAddress addressesProvider ''LINK'' (LINK FantomConfig)) (
     bindIO (getAddress addressesProvider ''YEARN_LINK_VAULT'') (\<lambda>yearnLINKVaultProxyAddress.
     thenIO (insertContractAddressInDb ''YearnLINKVault'' yearnLINKVaultProxyAddress) (
     getYearnLINKVault None)))))))"

definition deployBeefyETHVault :: "bool \<Rightarrow> handle script" where
  "deployBeefyETHVault verify =
     bindIO (deployAndSave ''BeefyETHVault'' [] ''BeefyETHVaultImpl'' [] verify)
       (\<lambda>beefyETHVault.
     bindIO (getLendingPoolAddressesProvider None) (\<lambda>addressesProvider.
     thenIO (setAddressAsProxy addressesProvider ''BEEFY_ETH_VAULT'' (h_address beefyETHVault)) (
     thenIO (setConfiguredAddress addressesProvider ''MOOWETH'' (BeefyETHVault FantomConfig)) (
     thenIO (setConfiguredAddress addressesProvider ''WETH'' (WETH FantomConfig)) (
     bindIO (getAddress addressesProvider ''BEEFY_ETH_VAULT'') (\<lambda>beefyVaultProxyAddress.
     thenIO (insertContractAddressInDb ''BeefyETHVault'' beefyVaultProxyAddress) (
     getBeefyETHVault None)))))))"

definition deployYearnCRVVaultImpl :: "bool \<Rightarrow> handle script" where
  "deployYearnCRVVaultImpl verify =
     deployAndSave ''YearnCRVVault'' [] ''YearnCRVVaultImpl'' [] verify"

definition deployYearnCRVVault :: "bool \<Rightarrow> handle script" where
  "deployYearnCRVVault verify =
     bindIO (deployAndSave ''YearnCRVVault'' [] ''YearnCRVVaultImpl'' [] verify)
       (\<lambda>yearnCRVVaultImpl.
     bindIO (getLendingPoolAddressesProvider None) (\<lambda>addressesProvider.
     thenIO (setAddressAsProxy addressesProvider
               ''YEARN_CRV_VAULT'' (h_address yearnCRVVaultImpl)) (
     thenIO (setConfiguredAddress addressesProvider ''YVCRV'' (YearnCRVVaultFTM FantomConfig)) (
     thenIO (setConfiguredAddress addressesProvider
               ''CRV'' (IFantomConfiguration.CRV FantomConfig)) (
     bindIO (getAddress addressesProvider ''YEARN_CRV_VAULT'') (\<lambda>yearnCRVVaultProxyAddress.
     thenIO (insertContractAddressInDb ''YearnCRVVault'' yearnCRVVaultProxyAddress) (
     getYearnCRVVault None)))))))"

definition deployYearnSPELLVaultImpl :: "bool \<Rightarrow> handle script" where
  "deployYearnSPELLVaultImpl verify =
     deployAndSave ''YearnSPELLVault'' [] ''YearnSPELLVaultImpl'' [] verify"

definition deployYearnSPELLVault :: "bool \<Rightarrow> handle script" where
  "deployYearnSPELLVault verify =
     bindIO (deployAndSave ''YearnSPELLVault'' [] ''YearnSPELLVaultImpl'' [] verify)
       (\<lambda>yearnSPELLVaultImpl.
     bindIO (getLendingPoolAddressesProvider None) (\<lambda>addressesProvider.
     thenIO (setAddressAsProxy addressesProvider
               ''YEARN_SPELL_VAULT'' (h_address yearnSPELLVaultImpl)) (
     thenIO (setConfiguredAddress addressesProvider
               ''YVSPELL'' (YearnSPELLVaultFTM FantomConfig)) (
     thenIO (setConfiguredAddress addressesProvider ''SPELL'' (SPELL FantomConfig)) (
     bindIO (getAddress addressesProvider ''YEARN_SPELL_VAULT'') (\<lambda>yearnSPELLVaultProxyAddress.
     thenIO (insertContractAddressInDb ''YearnSPELLVault'' yearnSPELLVaultProxyAddress) (
     getYearnSPELLVault None)))))))"

section \<open>Incentives and yield distribution\<close>

definition deploySturdyIncentivesControllerImpl :: "arg list \<Rightarrow> bool \<Rightarrow> handle script" where
  "deploySturdyIncentivesControllerImpl args verify =
     deployAndSave ''StakedTokenIncentivesController'' [] ''StakedTokenIncentivesControllerImpl'' args verify"

definition deploySturdyTokenImpl :: "bool \<Rightarrow> handle script" where
  "deploySturdyTokenImpl verify = deployAndSave ''SturdyToken'' [] ''SturdyTokenImpl'' [] verify"

definition deploySturdyIncentivesController :: "arg list \<Rightarrow> bool \<Rightarrow> handle script" where
  "deploySturdyIncentivesController args verify =
     bindIO (deployAndSave ''StakedTokenIncentivesController'' [] ''StakedTokenIncentivesControllerImpl'' args verify)
       (\<lambda>incentiveControllerImpl.
     bindIO (getLendingPoolAddressesProvider None) (\<lambda>addressesProvider.
     thenIO (initialize incentiveControllerImpl (h_address addressesProvider)) (
     thenIO (setIncentiveControllerImpl addressesProvider (h_address incentiveControllerImpl)) (
     bindIO (getIncentiveController addressesProvider) (\<lambda>incentiveControllerProxyAddress.
     thenIO (insertContractAddressInDb ''StakedTokenIncentivesController''
               incentiveControllerProxyAddress) (
     getSturdyIncentivesController None))))))"

definition deploySturdyToken :: "bool \<Rightarrow> handle script" where
  "deploySturdyToken verify =
     bindIO (deployAndSave ''SturdyToken'' [] ''SturdyTokenImpl'' [] verify)
       (\<lambda>incentiveTokenImpl.
     bindIO (getLendingPoolAddressesProvider None) (\<lambda>addressesProvider.
     thenIO (setIncentiveTokenImpl addressesProvider (h_address incentiveTokenImpl)) (
     bindIO (getIncentiveToken addressesProvider) (\<lambda>incentiveTokenProxyAddress.
     thenIO (insertContractAddressInDb ''SturdyToken'' incentiveTokenProxyAddress) (
     getSturdyToken None)))))"

definition deployStableYieldDistributionImpl :: "arg list \<Rightarrow> bool \<Rightarrow> handle script" where
  "deployStableYieldDistributionImpl args verify =
     bindIO (deployAndSave ''StableYieldDistribution'' [] ''StableYieldDistributionImpl'' args verify)
       (\<lambda>impl.
     bindIO (getLendingPoolAddressesProvider None) (\<lambda>addressesProvider.
     thenIO (initialize impl (h_address addressesProvider)) (
     returnIO impl)))"

definition deployLDOStableYieldDistribution :: "handle script" where
  "deployLDOStableYieldDistribution =
     bindIO (getStableYieldDistributionImpl None) (\<lambda>stableYieldDistributionImpl.
     bindIO (getLendingPoolAddressesProvider None) (\<lambda>addressesProvider.
     thenIO (setAddressAsProxy addressesProvider
               ''LDO_STABLE_YIELD_DISTRIBUTOR'' (h_address stableYieldDistributionImpl)) (
     bindIO (getAddress addressesProvider ''LDO_STABLE_YIELD_DISTRIBUTOR'') (\<lambda>proxyAddress.
     thenIO (insertContractAddressInDb ''LDOStableYieldDistribution'' proxyAddress) (
     getLDOStableYieldDistribution None)))))"

definition deployYieldDistributorAdapter :: "arg list \<Rightarrow> bool \<Rightarrow> handle script" where
  "deployYieldDistributorAdapter args verify =
     bindIO (deployAndSave ''YieldDistributorAdapter'' [] ''YieldDistributorAdapter'' args verify)
       (\<lambda>impl.
     bindIO (getLendingPoolAddressesProvider None) (\<lambda>addressesProvider.
     thenIO (setAddress addressesProvider ''YIELD_DISTRIBUTOR_ADAPTER'' (Some (h_address impl))) (
     returnIO impl)))"

definition deployVariableYieldDistributionImpl :: "arg list \<Rightarrow> bool \<Rightarrow> handle script" where
  "deployVariableYieldDistributionImpl args verify =
     bindIO (deployAndSave ''VariableYieldDistribution'' [] ''VariableYieldDistributionImpl'' args verify)
       (\<lambda>impl.
     bindIO (getLendingPoolAddressesProvider None) (\<lambda>addressesProvider.
     thenIO (initialize impl (h_address addressesProvider)) (
     returnIO impl)))"

definition deployVariableYieldDistribution :: "handle script" where
  "deployVariableYieldDistribution =
     bindIO (getVariableYieldDistributionImpl None) (\<lambda>variableYieldDistributionImpl.
     bindIO (getLendingPoolAddressesProvider None) (\<lambda>addressesProvider.
     thenIO (setAddressAsProxy addressesProvider
               ''VR_YIELD_DISTRIBUTOR'' (h_address variableYieldDistributionImpl)) (
     bindIO (getAddress addressesProvider ''VR_YIELD_DISTRIBUTOR'') (\<lambda>proxyAddress.
     thenIO (insertContractAddressInDb ''VariableYieldDistribution'' proxyAddress) (
     getVariableYieldDistribution None)))))"

section \<open>Adapters and managers\<close>

definition deployCollateralAdapter :: "bool \<Rightarrow> handle script" where
  "deployCollateralAdapter verify =
     bindIO (deployAndSave ''CollateralAdapter'' [] ''CollateralAdapterImpl'' [] verify)
       (\<lambda>collateralAdapterImpl.
     bindIO (getLendingPoolAddressesProvider None) (\<lambda>addressesProvider.
     thenIO (initialize collateralAdapterImpl (h_address addressesProvider)) (
     thenIO (setAddressAsProxy addressesProvider
               ''COLLATERAL_ADAPTER'' (h_address collateralAdapterImpl)) (
     bindIO (getAddress addressesProvider ''COLLATERAL_ADAPTER'')
       (\<lambda>collateralAdapterProxyAddress.
     thenIO (insertContractAddressInDb ''CollateralAdapter'' collateralAdapterProxyAddress) (
     getCollateralAdapter None))))))"

definition deployYieldManagerImpl :: "bool \<Rightarrow> unit script" where
  "deployYieldManagerImpl verify =
     bindIO (deploySwapAdapterLibraries verify) (\<lambda>libs.
     bindIO (deployFresh ''YieldManager'' libs []) (\<lambda>deployed.
     detachIO (withSaveAndVerify deployed ''YieldManagerImpl'' [] verify)))"

definition deployYieldManager :: "bool \<Rightarrow> handle script" where
  "deployYieldManager verify =
     bindIO (deploySwapAdapterLibraries verify) (\<lambda>libs.
     bindIO (deployAndSave ''YieldManager'' libs ''YieldManagerImpl'' [] verify)
       (\<lambda>yieldManagerImpl.
     bindIO (getLendingPoolAddressesProvider None) (\<lambda>addressesProvider.
     thenIO (initialize yieldManagerImpl (h_address addressesProvider)) (
     thenIO (setAddressAsProxy addressesProvider ''YIELD_MANAGER'' (h_address yieldManagerImpl)) (
     bindIO (getAddress addressesProvider ''YIELD_MANAGER'') (\<lambda>proxyAddress.
     thenIO (insertContractAddressInDb ''YieldManager'' proxyAddress) (
     getYieldManager None)))))))"

definition deployLeverageSwapManagerImpl :: "bool \<Rightarrow> unit script" where
  "deployLeverageSwapManagerImpl verify =
     bindIO (deployFresh ''LeverageSwapManager'' [] []) (\<lambda>deployed.
     detachIO (withSaveAndVerify deployed ''LeverageSwapManagerImpl'' [] verify))"

definition deployLeverageSwapManager :: "bool \<Rightarrow> handle script" where
  "deployLeverageSwapManager verify =
     bindIO (deployAndSave ''LeverageSwapManager'' [] ''LeverageSwapManagerImpl'' [] verify)
       (\<lambda>leverageManagerImpl.
     bindIO (getLendingPoolAddressesProvider None) (\<lambda>addressesProvider.
     thenIO (initialize leverageManagerImpl (h_address addressesProvider)) (
     thenIO (setAddressAsProxy addressesProvider
               ''LEVERAGE_SWAP_MANAGER'' (h_address leverageManagerImpl)) (
     bindIO (getAddress addressesProvider ''LEVERAGE_SWAP_MANAGER'') (\<lambda>proxyAddress.
     thenIO (insertContractAddressInDb ''LeverageSwapManager'' proxyAddress) (
     getLeverageSwapManager None))))))"

definition deployStableStructuredVault :: "string \<Rightarrow> bool \<Rightarrow> handle script" where
  "deployStableStructuredVault assetSymbol verify =
     bindIO (deploySwapAdapter2Libraries verify) (\<lambda>libs.
     bindIO (deployAndSave ''StableStructuredVault'' libs
               (toUpperCase assetSymbol @ ''StructuredVaultImpl'') [] verify) (\<lambda>impl.
     bindIO (getLendingPoolAddressesProvider None) (\<lambda>addressesProvider.
     thenIO (initialize impl (h_address addressesProvider)) (
     thenIO (setAddressAsProxy addressesProvider
               (toUpperCase assetSymbol @ ''_STRUCTURED_VAULT'') (h_address impl)) (
     bindIO (getAddress addressesProvider (toUpperCase assetSymbol @ ''_STRUCTURED_VAULT''))
       (\<lambda>proxyAddress.
     thenIO (rawInsertContractAddressInDb (toUpperCase assetSymbol @ ''StructuredVault'') proxyAddress) (
     getStableStructuredVault assetSymbol None)))))))"

end
