(* ===== verification/OraclesHelpers.thy ===== *)
theory OraclesHelpers
  imports Vaults
begin

text \<open>
  \<open>helpers/oracles-helpers.ts\<close> and \<open>helpers/mock-helpers.ts\<close>: setting initial rates and prices
  in bounded batches, and deploying mock aggregators.
\<close>

section \<open>Entries by symbol\<close>

text \<open>
  \<open>Object.entries(o)[Object.keys(o).findIndex(k => k === symbol)]\<close>, destructured: a missing symbol
  throws.
\<close>

definition entryOf :: "'v jsobj \<Rightarrow> string \<Rightarrow> error + 'v" where
  "entryOf ob symbol =
     (case findIndex (\<lambda>value. value = symbol) (obj_keys ob) of
        None \<Rightarrow> Inl (TypeError symbol)
      | Some i \<Rightarrow> Inr (snd (ob ! i)))"

section \<open>Market rates\<close>

definition setInitialMarketRatesInRatesOracleByHelper ::
  "ILendingRate jsobj \<Rightarrow> address jsobj \<Rightarrow> handle \<Rightarrow> address option \<Rightarrow> unit script" where
  "setInitialMarketRatesInRatesOracleByHelper marketRates assetsAddresses lendingRateOracleInstance admin =
     bindIO (getStableAndVariableTokensHelper None) (\<lambda>stableAndVariableTokenHelper.
     bindIO (liftSum (map_sum_list (\<lambda>(assetSymbol, rate). entryOf assetsAddresses assetSymbol) marketRates))
       (\<lambda>assetAddresses.
     let borrowRates = map (\<lambda>(assetSymbol, rate). borrowRate rate) marketRates;
         chunkedTokens = chunk assetAddresses 20;
         chunkedRates = chunk borrowRates 20 in
     thenIO (callContract lendingRateOracleInstance ''transferOwnership''
               [Str (h_address stableAndVariableTokenHelper)]) (
     thenIO (forIO [0..<length chunkedTokens] (\<lambda>chunkIndex.
               callContract stableAndVariableTokenHelper ''setOracleBorrowRates''
                 [Strs (chunkedTokens ! chunkIndex), Strs (chunkedRates ! chunkIndex),
                  Str (h_address lendingRateOracleInstance)])) (
     bindIO (addressArg admin) (\<lambda>a.
       callContract stableAndVariableTokenHelper ''setOracleOwnership''
         [Str (h_address lendingRateOracleInstance), Str a])))))"

section \<open>Prices\<close>

text \<open>The address of a present symbol may be \<open>undefined\<close>; ethers rejects it, and anything that is not an
  address, where it is not skipped.\<close>

definition setInitialAssetPricesInOracle ::
  "string jsobj \<Rightarrow> address option jsobj \<Rightarrow> handle \<Rightarrow> unit list script" where
  "setInitialAssetPricesInOracle prices assetsAddresses priceOracleInstance =
     forIO prices (\<lambda>(assetSymbol, price).
       bindIO (liftSum (entryOf assetsAddresses assetSymbol)) (\<lambda>assetAddress.
       if \<not> truthy assetAddress then returnIO ()
       else bindIO (addressArg assetAddress) (\<lambda>a.
            callContract priceOracleInstance ''setAssetPrice'' [Str a, Str price])))"

definition setAssetPricesInOracle ::
  "string jsobj \<Rightarrow> address option jsobj \<Rightarrow> handle \<Rightarrow> unit list script" where
  "setAssetPricesInOracle prices assetsAddresses priceOracleInstance =
     forIO prices (\<lambda>(assetSymbol, price).
       bindIO (liftSum (entryOf assetsAddresses assetSymbol)) (\<lambda>assetAddress.
       bindIO (addressArg assetAddress) (\<lambda>a.
       callContract priceOracleInstance ''setAssetPrice'' [Str a, Str price])))"

section \<open>Mock aggregators\<close>

fun deployAggregatorPerKey ::
  "string jsobj \<Rightarrow> bool \<Rightarrow> string list \<Rightarrow> handle jsobj \<Rightarrow> handle jsobj script" where
  "deployAggregatorPerKey initialPrices verify [] aggregators = returnIO aggregators"
| "deployAggregatorPerKey initialPrices verify (tokenContractName # names) aggregators =
     (if tokenContractName \<noteq> ''ETH'' then
        bindIO (liftSum (entryOf initialPrices tokenContractName)) (\<lambda>price.
        bindIO (deployMockAggregator price verify) (\<lambda>aggregator.
        deployAggregatorPerKey initialPrices verify names
          (obj_set tokenContractName aggregator aggregators)))
      else deployAggregatorPerKey initialPrices verify names aggregators)"

definition deployMockAggregators :: "string jsobj \<Rightarrow> bool \<Rightarrow> handle jsobj script" where
  "deployMockAggregators initialPrices verify =
     deployAggregatorPerKey initialPrices verify (obj_keys initialPrices) []"

definition deployAllMockAggregators :: "string jsobj \<Rightarrow> bool \<Rightarrow> handle jsobj script" where
  "deployAllMockAggregators initialPrices verify =
     deployAggregatorPerKey initialPrices verify (obj_keys initialPrices) []"

section \<open>Addresses of handles\<close>

definition getAllTokenAddresses :: "handle jsobj \<Rightarrow> address jsobj" where
  "getAllTokenAddresses mockTokens =
     foldl (\<lambda>accum (tokenSymbol, tokenContract). obj_set tokenSymbol (h_address tokenContract) accum)
       [] mockTokens"

definition getAllAggregatorsAddresses :: "handle jsobj \<Rightarrow> address jsobj" where
  "getAllAggregatorsAddresses mockAggregators =
     foldl (\<lambda>accum (tokenSymbol, aggregator). obj_set tokenSymbol (h_address aggregator) accum)
       [] mockAggregators"

end
