(* ===== verification/InitHelpers.thy ===== *)
theory InitHelpers
  imports OraclesHelpers
begin

text \<open>
  \<open>helpers/init-helpers.ts\<close>: initializing and configuring the reserves of a market in bounded
  batches. \<open>initReservesByHelper\<close> deploys one interest rate strategy per strategy name, however
  many reserves share it.
\<close>

section \<open>Selection\<close>

definition chooseATokenDeployment ::
  "string \<Rightarrow> error + (string \<times> string \<times> string \<times> string \<times> string \<times> string \<times> string \<Rightarrow> bool \<Rightarrow> handle script)" where
  "chooseATokenDeployment i =
     (if i = ''AToken'' then Inr deployGenericAToken
      else if i = ''ATokenForCollateral'' then Inr deployCollateralAToken
      else Inl (Error (''Missing aToken deployment script for: '' @ i)))"

text \<open>The deprecated pairing of \<open>init-helpers.ts\<close>, without the filter on empty aggregators.\<close>

definition getPairsTokenAggregator_init ::
  "address jsobj \<Rightarrow> address jsobj \<Rightarrow> error + (address list \<times> address list)" where
  "getPairsTokenAggregator_init allAssetsAddresses aggregatorsAddresses =
     (case map_sum_list (aggregatorOf aggregatorsAddresses)
             (filter (\<lambda>(k, v). k \<notin> {''ETH'', ''USD'', ''WETH''}) allAssetsAddresses) of
        Inl e \<Rightarrow> Inl e
      | Inr pairs \<Rightarrow> Inr (map fst pairs, map snd pairs))"

definition getAddressById_network :: "string \<Rightarrow> string \<Rightarrow> address option script" where
  "getAddressById_network key network =
     getsIO (\<lambda>w. let a = map_option entry_address (json_db w key network)
                 in if truthy a then a else None)"

section \<open>Initialization of the reserves\<close>

text \<open>The variables the first loop fills.\<close>

record init_state =
  strategyAddresses :: "address jsobj"
  strategyAddressPerAsset :: "address jsobj"
  aTokenType :: "string jsobj"
  reserveInitDecimals :: "string list"
  reserveTokens :: "string list"
  reserveSymbols :: "string list"
  emissionPerSeconds :: "string list"

definition init_state0 :: init_state where
  "init_state0 =
     \<lparr>strategyAddresses = [], strategyAddressPerAsset = [], aTokenType = [],
      reserveInitDecimals = [], reserveTokens = [], reserveSymbols = [], emissionPerSeconds = []\<rparr>"

text \<open>\<open>if (!strategyAddresses[strategy.name]) { ... }\<close>: deploy the strategy and record its address
  under the strategy's name too.\<close>

definition ensureStrategy ::
  "address \<Rightarrow> bool \<Rightarrow> IInterestRateStrategyParams \<Rightarrow> init_state \<Rightarrow> init_state script" where
  "ensureStrategy provider verify strat st =
     (if truthy (obj_get (strategyAddresses st) (strategy_name strat)) then returnIO st
      else
        bindIO (deployDefaultReserveInterestRateStrategy
                  [Str provider, Str (optimalUtilizationRate strat),
                   Str (baseVariableBorrowRate strat), Str (variableRateSlope1 strat),
                   Str (variableRateSlope2 strat), Str (stableRateSlope1 strat),
                   Str (stableRateSlope2 strat), Str (capacity strat)] verify) (\<lambda>h.
        thenIO (rawInsertContractAddressInDb (strategy_name strat) (h_address h))
          (returnIO (st\<lparr>strategyAddresses :=
             obj_set (strategy_name strat) (h_address h) (strategyAddresses st)\<rparr>))))"

text \<open>The rest of one round, for a reserve whose token address is set.\<close>

definition recordReserve :: "string \<Rightarrow> IReserveParams \<Rightarrow> string \<Rightarrow> init_state \<Rightarrow> init_state" where
  "recordReserve symbol params tokenAddress st =
     st\<lparr>strategyAddressPerAsset :=
          (case obj_get (strategyAddresses st) (strategy_name (strategy params)) of
             None \<Rightarrow> strategyAddressPerAsset st
           | Some a \<Rightarrow> obj_set symbol a (strategyAddressPerAsset st)),
        aTokenType :=
          (if aTokenImpl params = ''AToken'' then obj_set symbol ''generic'' (aTokenType st)
           else if aTokenImpl params = ''ATokenForCollateral''
           then obj_set symbol ''collateral'' (aTokenType st)
           else aTokenType st),
        reserveInitDecimals := reserveInitDecimals st @ [reserveDecimals params],
        reserveTokens := reserveTokens st @ [tokenAddress],
        reserveSymbols := reserveSymbols st @ [symbol],
        emissionPerSeconds := emissionPerSeconds st @ [emissionPerSecond params]\<rparr>"

fun collectReserves ::
  "address \<Rightarrow> address jsobj \<Rightarrow> bool \<Rightarrow> IReserveParams jsobj \<Rightarrow> init_state \<Rightarrow> init_state script" where
  "collectReserves provider tokenAddresses verify [] st = returnIO st"
| "collectReserves provider tokenAddresses verify ((symbol, params) # reserves) st =
     (if \<not> truthy (obj_get tokenAddresses symbol)
      then collectReserves provider tokenAddresses verify reserves st
      else
        bindIO (ensureStrategy provider verify (strategy params) st) (\<lambda>st'.
        collectReserves provider tokenAddresses verify reserves
          (recordReserve symbol params (the (obj_get tokenAddresses symbol)) st')))"

text \<open>The structure built for the \<open>i\<close>th reserve; a strategy address is always present.\<close>

definition initInput ::
  "init_state \<Rightarrow> address \<times> address \<times> address \<times> address \<Rightarrow> address \<Rightarrow> address \<Rightarrow>
   string \<times> string \<times> string \<times> string \<Rightarrow> address jsobj \<Rightarrow> nat \<Rightarrow> (string \<times> arg) list" where
  "initInput st impls treasuryAddress incentives prefixes yieldAddresses i =
     (let (aTokenImplementation, collateralImplementation, stableImplementation,
           variableImplementation) = impls;
          (aTokenNamePrefix, stableDebtTokenNamePrefix, variableDebtTokenNamePrefix,
           symbolPrefix) = prefixes;
          symbol = reserveSymbols st ! i in
      [(''aTokenImpl'', Str (if obj_get (aTokenType st) symbol = Some ''generic''
                             then aTokenImplementation else collateralImplementation)),
       (''stableDebtTokenImpl'', Str stableImplementation),
       (''variableDebtTokenImpl'', Str variableImplementation),
       (''underlyingAssetDecimals'', Str (reserveInitDecimals st ! i)),
       (''interestRateStrategyAddress'',
        Str (case obj_get (strategyAddressPerAsset st) symbol of None \<Rightarrow> '''' | Some a \<Rightarrow> a)),
       (''yieldAddress'', Str (if truthy (obj_get yieldAddresses symbol)
                               then the (obj_get yieldAddresses symbol) else ZERO_ADDRESS)),
       (''underlyingAsset'', Str (reserveTokens st ! i)),
       (''treasury'', Str treasuryAddress),
       (''incentivesController'', Str incentives),
       (''underlyingAssetName'', Str symbol),
       (''aTokenName'', Str (aTokenNamePrefix @ '' '' @ symbol)),
       (''aTokenSymbol'', Str (''s'' @ symbolPrefix @ symbol)),
       (''variableDebtTokenName'', Str (variableDebtTokenNamePrefix @ '' '' @ symbolPrefix @ symbol)),
       (''variableDebtTokenSymbol'', Str (''variableDebt'' @ symbolPrefix @ symbol)),
       (''stableDebtTokenName'', Str (stableDebtTokenNamePrefix @ '' '' @ symbol)),
       (''stableDebtTokenSymbol'', Str (''stableDebt'' @ symbolPrefix @ symbol)),
       (''params'', Str ''0x10'')])"

text \<open>One batch: the call, then the aToken and the emission of each of its reserves.\<close>

definition underlyingAssetOf :: "(string \<times> arg) list \<Rightarrow> string" where
  "underlyingAssetOf input = (case obj_get input ''underlyingAsset'' of Some (Str a) \<Rightarrow> a | _ \<Rightarrow> '''')"

definition initChunk ::
  "handle \<Rightarrow> handle \<Rightarrow> string list \<Rightarrow> nat \<Rightarrow> nat \<Rightarrow> (string \<times> arg) list list \<Rightarrow>
   (string \<times> string) list script" where
  "initChunk configurator pool emissions initChunks chunkIndex inputs =
     thenIO (callContract configurator ''batchInitReserve'' [Structs (map Struct inputs)])
       (forIO [0..<length inputs] (\<lambda>tokenIndex.
          bindIO (viewContract pool ''getReserveData.aTokenAddress'' (underlyingAssetOf (inputs ! tokenIndex)))
            (\<lambda>aToken. returnIO (aToken, emissions ! (chunkIndex * initChunks + tokenIndex)))))"

text \<open>The variable yield distributor of one asset.\<close>

definition registerVariableYield ::
  "handle \<Rightarrow> handle \<Rightarrow> address jsobj \<Rightarrow> address jsobj \<Rightarrow> string \<Rightarrow> unit script" where
  "registerVariableYield pool yieldDistributorAdapter tokenAddresses yieldAddresses symbol =
     (if truthy (obj_get tokenAddresses symbol) then
        let asset = the (obj_get tokenAddresses symbol) in
        bindIO (viewContract pool ''getReserveData.aTokenAddress'' asset) (\<lambda>aToken.
        bindIO (getVariableYieldDistribution None) (\<lambda>distributor.
        bindIO (addressArg (obj_get yieldAddresses symbol)) (\<lambda>yieldAddress.
        thenIO (callContract distributor ''registerAsset'' [Str aToken, Str yieldAddress])
          (callContract yieldDistributorAdapter ''setVariableYieldDistributor''
             [Str asset, Str (h_address distributor)]))))
      else returnIO ())"

definition configureLDO ::
  "handle \<Rightarrow> handle \<Rightarrow> address jsobj \<Rightarrow> unit script" where
  "configureLDO pool yieldDistributorAdapter tokenAddresses =
     (if truthy (obj_get tokenAddresses ''cvxFRAX_3CRV'') then
        let asset = the (obj_get tokenAddresses ''cvxFRAX_3CRV'') in
        bindIO (viewContract pool ''getReserveData.aTokenAddress'' asset) (\<lambda>aToken.
        bindIO (getLDOStableYieldDistribution None) (\<lambda>distributor.
        thenIO (callContract distributor ''configureAssets'' [Strs [aToken], Strs [''10'']])
          (callContract yieldDistributorAdapter ''addStableYieldDistributor''
             [Str asset, Str (h_address distributor)])))
      else returnIO ())"

text \<open>\<open>yieldAddresses[symbol]\<close> throws when a caller passed \<open>undefined\<close> for \<open>yieldAddresses\<close>; the first
  read is for the first collected reserve.\<close>

definition readableYields :: "address jsobj option \<Rightarrow> init_state \<Rightarrow> address jsobj script" where
  "readableYields yieldAddresses st = (case yieldAddresses of
     Some ys \<Rightarrow> returnIO ys
   | None \<Rightarrow> if reserveSymbols st = [] then returnIO [] else throwIO (TypeError (hd (reserveSymbols st))))"

definition initReservesByHelper ::
  "IReserveParams jsobj \<Rightarrow> address jsobj \<Rightarrow> string \<Rightarrow> string \<Rightarrow> string \<Rightarrow> string \<Rightarrow> address option \<Rightarrow>
   address jsobj option \<Rightarrow> bool \<Rightarrow> nat script" where
  "initReservesByHelper reservesParams tokenAddresses aTokenNamePrefix stableDebtTokenNamePrefix
     variableDebtTokenNamePrefix symbolPrefix treasuryAddress givenYieldAddresses verify =
     bindIO (getStableAndVariableTokensHelper None) (\<lambda>stableAndVariableDeployer.
     bindIO (getLendingPoolAddressesProvider None) (\<lambda>addressProvider.
     bindIO deployGenericStableDebtToken (\<lambda>stableDebtToken.
     bindIO deployGenericVariableDebtToken (\<lambda>variableDebtToken.
     bindIO (getSturdyIncentivesController None) (\<lambda>incentives.
     bindIO (deployGenericATokenImpl verify) (\<lambda>aTokenImplementation.
     thenIO (rawInsertContractAddressInDb ''aTokenImpl'' (h_address aTokenImplementation)) (
     bindIO (deployCollateralATokenImpl verify) (\<lambda>collateralATokenImplementation.
     thenIO (rawInsertContractAddressInDb ''aTokenForCollateralImpl''
               (h_address collateralATokenImplementation)) (
     let reserves = filter (\<lambda>(symbol, params).
           aTokenImpl params = ''AToken'' \<or> aTokenImpl params = ''ATokenForCollateral'') reservesParams in
     bindIO (collectReserves (h_address addressProvider) tokenAddresses verify reserves init_state0) (\<lambda>st.
     bindIO (readableYields givenYieldAddresses st) (\<lambda>yieldAddresses.
     let initChunks = 4;
         initInputParams = map (initInput st
           (h_address aTokenImplementation, h_address collateralATokenImplementation,
            h_address stableDebtToken, h_address variableDebtToken)
           (case treasuryAddress of None \<Rightarrow> '''' | Some treasury \<Rightarrow> treasury) (h_address incentives)
           (aTokenNamePrefix, stableDebtTokenNamePrefix, variableDebtTokenNamePrefix, symbolPrefix)
           yieldAddresses) [0..<length (reserveSymbols st)];
         chunkedInitInputParams = chunk initInputParams initChunks in
     bindIO (getLendingPoolConfiguratorProxy None) (\<lambda>configurator.
     bindIO (getLendingPool None) (\<lambda>pool.
     bindIO (forIO [0..<length chunkedInitInputParams] (\<lambda>chunkIndex.
               thenIO (addressArg treasuryAddress)
                 (initChunk configurator pool (emissionPerSeconds st) initChunks chunkIndex
                    (chunkedInitInputParams ! chunkIndex)))) (\<lambda>results.
     thenIO (callContract incentives ''configureAssets''
               [Strs (map fst (concat results)), Strs (map snd (concat results))]) (
     bindIO (getYieldDistributorAdapter None) (\<lambda>yieldDistributorAdapter.
     thenIO (configureLDO pool yieldDistributorAdapter tokenAddresses) (
     thenIO (forIO [''cvxFRAX_3CRV'', ''cvxFRAX_USDC'', ''cvxMIM_3CRV'', ''cvxDAI_USDC_USDT_SUSD'',
                    ''auraDAI_USDC_USDT'', ''cvxTUSD_FRAXBP'', ''auraBB_A_USD'', ''auraBB_A3_USD'']
               (registerVariableYield pool yieldDistributorAdapter tokenAddresses yieldAddresses)) (
     returnIO 0))))))))))))))))))"

section \<open>Configuration of the reserves\<close>

text \<open>
  The loop of \<open>configureReservesByHelper\<close>: a reserve without a token address, with a base LTV of
  \<open>-1\<close>, or already enabled as collateral is skipped.
\<close>

definition configureInput :: "string \<Rightarrow> IReserveParams \<Rightarrow> (string \<times> arg) list" where
  "configureInput tokenAddress params =
     [(''asset'', Str tokenAddress),
      (''baseLTV'', Str (baseLTVAsCollateral params)),
      (''liquidationThreshold'', Str (liquidationThreshold params)),
      (''liquidationBonus'', Str (liquidationBonus params)),
      (''reserveFactor'', Str (reserveFactor params)),
      (''stableBorrowingEnabled'', Flag (stableBorrowRateEnabled params)),
      (''borrowingEnabled'', Flag (borrowingEnabled params)),
      (''collateralEnabled'', Flag (collateralEnabled params))]"

fun collectConfigurations ::
  "handle \<Rightarrow> address jsobj \<Rightarrow> IReserveParams jsobj \<Rightarrow> (string \<times> arg) list list \<Rightarrow>
   (string \<times> arg) list list script" where
  "collectConfigurations helpers tokenAddresses [] inputs = returnIO inputs"
| "collectConfigurations helpers tokenAddresses ((assetSymbol, params) # reserves) inputs =
     (if \<not> truthy (obj_get tokenAddresses assetSymbol) \<or> baseLTVAsCollateral params = ''-1''
      then collectConfigurations helpers tokenAddresses reserves inputs
      else
        bindIO (liftSum (entryOf tokenAddresses assetSymbol)) (\<lambda>tokenAddress.
        bindIO (viewContract helpers ''getReserveConfigurationData.usageAsCollateralEnabled'' tokenAddress)
          (\<lambda>alreadyEnabled.
        if alreadyEnabled = ''true''
        then collectConfigurations helpers tokenAddresses reserves inputs
        else collectConfigurations helpers tokenAddresses reserves
               (inputs @ [configureInput tokenAddress params]))))"

definition configureReservesByHelper ::
  "IReserveParams jsobj \<Rightarrow> address jsobj \<Rightarrow> handle \<Rightarrow> address option \<Rightarrow> unit script" where
  "configureReservesByHelper reservesParams tokenAddresses helpers admin =
     bindIO (getLendingPoolAddressesProvider None) (\<lambda>addressProvider.
     bindIO (getATokensAndRatesHelper None) (\<lambda>atokenAndRatesDeployer.
     bindIO (collectConfigurations helpers tokenAddresses reservesParams []) (\<lambda>inputParams.
     if inputParams = [] then returnIO ()
     else
       thenIO (setPoolAdmin addressProvider (Some (h_address atokenAndRatesDeployer))) (
       thenIO (forIO (chunk inputParams 20) (\<lambda>inputs.
                 callContract atokenAndRatesDeployer ''configureReserves'' [Structs (map Struct inputs)])) (
       setPoolAdmin addressProvider admin)))))"

end
