(* ===== verification/FullDeployment.thy ===== *)
theory FullDeployment
  imports InitHelpers
begin

text \<open>
  The first stages of the full deployment: the Hardhat tasks \<open>tasks/full/0_*\<close> to
  \<open>tasks/full/5-2_*\<close> and \<open>tasks/deployments/add-market-to-registry.ts\<close>, each as one script of its
  command line parameters. Console output is left out; \<open>set-DRE\<close> only makes the runtime
  environment available, which the model has in the state from the start.
\<close>

section \<open>Exit on error\<close>

text \<open>\<open>catch (err) { console.error(err); exit(1); }\<close>\<close>

definition exitOnError :: "'a script \<Rightarrow> 'a script" where
  "exitOnError m = catchIO m (\<lambda>_. throwIO (ProcessExit 1))"

definition theFirstSigner :: "address script" where
  "theFirstSigner = bindIO getFirstSigner (\<lambda>signer. case signer of
     None \<Rightarrow> throwIO (TypeError ''getAddress of undefined'') | Some a \<Rightarrow> returnIO a)"

text \<open>\<open>if (!localBRE.network.config.chainId) throw new Error('INVALID_CHAIN_ID')\<close>\<close>

definition requireChainId :: "unit script" where
  "requireChainId =
     bindIO (getsIO network_chainId) (\<lambda>c.
       requireIO (c \<noteq> None \<and> c \<noteq> Some 0) (Error ''INVALID_CHAIN_ID''))"

section \<open>The addresses provider and its registry\<close>

definition full_deploy_address_provider_registry :: "string \<Rightarrow> bool \<Rightarrow> unit script" where
  "full_deploy_address_provider_registry pool verify =
     bindIO (currentPoolConfig pool) (\<lambda>poolConfig.
     bindIO theFirstSigner (\<lambda>signer.
     bindIO (paramHere (ProviderRegistry (commonConfiguration poolConfig))) (\<lambda>providerRegistryAddress.
     bindIO (getsIO (\<lambda>w. notFalsyOrZeroAddress w providerRegistryAddress)) (\<lambda>usable.
     if usable then returnIO ()
     else bindIO (deployLendingPoolAddressesProviderRegistry verify) (\<lambda>_. returnIO ())))))"

text \<open>
  \<open>add-market-to-registry\<close>: the registry is deployed when asked for or not configured; its owner
  must be known; on a fork the owner is impersonated, otherwise it must be the signer (letter
  case aside) unless the registry is new. The registry contract itself is outside the model.
\<close>

definition add_market_to_registry ::
  "string \<Rightarrow> address option \<Rightarrow> bool \<Rightarrow> bool \<Rightarrow> unit script" where
  "add_market_to_registry pool addressesProvider verify deployRegistry =
     bindIO (currentPoolConfig pool) (\<lambda>poolConfig.
     let config = commonConfiguration poolConfig in
     bindIO (paramHere (ProviderRegistry config)) (\<lambda>configuredRegistry.
     bindIO (paramHere (ProviderRegistryOwner config)) (\<lambda>configuredOwner.
     bindIO theFirstSigner (\<lambda>currentSigner.
     bindIO (getsIO (\<lambda>w. notFalsyOrZeroAddress w configuredRegistry)) (\<lambda>usable.
     bindIO (if deployRegistry \<or> \<not> usable then
               thenIO (full_deploy_address_provider_registry pool verify)
                 (bindIO (getLendingPoolAddressesProviderRegistry None) (\<lambda>registry.
                  bindIO theFirstSigner (\<lambda>registryOwner.
                    returnIO (Some (h_address registry), Some registryOwner, True))))
             else returnIO (configuredRegistry, configuredOwner, False))
       (\<lambda>(providerRegistryAddress, providerRegistryOwner, deployed).
     bindIO (getsIO (\<lambda>w. (notFalsyOrZeroAddress w providerRegistryOwner, truthy (env_FORK w))))
       (\<lambda>(ownerKnown, fork).
     thenIO (requireIO ownerKnown
               (Error ''config.ProviderRegistryOwner is missing or is not an address.'')) (
     thenIO (if fork then
               thenIO (modifyIO (\<lambda>w. w\<lparr>impersonated := impersonated w @ [the providerRegistryOwner]\<rparr>))
                 (bindIO getFirstSigner (\<lambda>_. returnIO ()))
             else requireIO (deployed \<or> toLowerCase (the providerRegistryOwner) = toLowerCase currentSigner)
                    (ProcessExit 2)) (
     bindIO (getLendingPoolAddressesProviderRegistry providerRegistryAddress) (\<lambda>registry.
     bindIO (getLendingPoolAddressesProvider addressesProvider) (\<lambda>provider.
     callContract (registry\<lparr>h_signer := providerRegistryOwner\<rparr>) ''registerAddressesProvider''
       [Str (h_address provider), Str (showNat (ProviderId config))])))))))))))"

definition full_deploy_address_provider :: "string \<Rightarrow> bool \<Rightarrow> bool \<Rightarrow> unit script" where
  "full_deploy_address_provider pool verify skipRegistry =
     bindIO (currentPoolConfig pool) (\<lambda>poolConfig.
     let config = commonConfiguration poolConfig in
     bindIO (deployLendingPoolAddressesProvider (MarketId config) verify) (\<lambda>addressesProvider.
     thenIO (if skipRegistry then returnIO ()
             else bindIO (paramHere (ProviderRegistry config)) (\<lambda>providerRegistryAddress.
                  bindIO (getsIO (\<lambda>w. notFalsyOrZeroAddress w providerRegistryAddress)) (\<lambda>usable.
                  add_market_to_registry pool (Some (h_address addressesProvider)) False (\<not> usable)))) (
     bindIO (getGenesisPoolAdmin config) (\<lambda>poolAdmin.
     thenIO (setPoolAdmin addressesProvider poolAdmin) (
     bindIO (getEmergencyAdmin config) (\<lambda>emergencyAdmin.
     thenIO (setEmergencyAdmin addressesProvider emergencyAdmin) (
     bindIO (getPoolAdmin addressesProvider) (\<lambda>_.
     bindIO (getEmergencyAdmin_addr addressesProvider) (\<lambda>_. returnIO ())))))))))"

section \<open>The lending pool\<close>

text \<open>\<open>!notFalsyOrZeroAddress(configured)\<close>: deploy and initialize an implementation, otherwise use
  the configured one.\<close>

definition implementationOr ::
  "string jsobj \<Rightarrow> (bool \<Rightarrow> handle script) \<Rightarrow> handle \<Rightarrow> bool \<Rightarrow> address option script" where
  "implementationOr param deployImplementation addressesProvider verify =
     bindIO (paramHere param) (\<lambda>configured.
     bindIO (getsIO (\<lambda>w. notFalsyOrZeroAddress w configured)) (\<lambda>usable.
     if usable then returnIO configured
     else bindIO (deployImplementation verify) (\<lambda>impl.
          thenIO (initialize impl (h_address addressesProvider))
            (returnIO (Some (h_address impl))))))"

definition full_deploy_lending_pool :: "string \<Rightarrow> bool \<Rightarrow> unit script" where
  "full_deploy_lending_pool pool verify =
     bindIO (currentPoolConfig pool) (\<lambda>poolConfig.
     let config = commonConfiguration poolConfig in
     bindIO (getLendingPoolAddressesProvider None) (\<lambda>addressesProvider.
     bindIO (implementationOr (LendingPool config) deployLendingPool addressesProvider verify)
       (\<lambda>lendingPoolImplAddress.
     thenIO (setLendingPoolImpl addressesProvider lendingPoolImplAddress) (
     bindIO (getLendingPool_addr addressesProvider) (\<lambda>a.
     bindIO (getLendingPool (Some a)) (\<lambda>lendingPoolProxy.
     thenIO (insertContractAddressInDb ''LendingPool'' (h_address lendingPoolProxy)) (
     bindIO (implementationOr (LendingPoolConfigurator config) deployLendingPoolConfigurator
               addressesProvider verify) (\<lambda>lendingPoolConfiguratorImplAddress.
     thenIO (setLendingPoolConfiguratorImpl addressesProvider lendingPoolConfiguratorImplAddress) (
     bindIO (getLendingPoolConfigurator_addr addressesProvider) (\<lambda>b.
     bindIO (getLendingPoolConfiguratorProxy (Some b)) (\<lambda>lendingPoolConfiguratorProxy.
     thenIO (insertContractAddressInDb ''LendingPoolConfigurator''
               (h_address lendingPoolConfiguratorProxy)) (
     bindIO (deployStableAndVariableTokensHelper [] verify) (\<lambda>_.
     bindIO (deployATokensAndRatesHelper [Str (h_address lendingPoolConfiguratorProxy)] verify)
       (\<lambda>_. returnIO ()))))))))))))))"

section \<open>Oracles\<close>

text \<open>The field \<open>OracleQuoteUnit\<close> of a configuration.\<close>

fun oracleQuoteUnit :: "'n bignumber_js \<Rightarrow> PoolConfiguration \<Rightarrow> string" where
  "oracleQuoteUnit bn (CommonsPool c) = Commons_OracleQuoteUnit bn"
| "oracleQuoteUnit bn (SturdyPool c) = Commons_OracleQuoteUnit bn"
| "oracleQuoteUnit bn (FantomPool c) = FtmCommons_OracleQuoteUnit bn"

text \<open>\<open>{ ...reserveAssets, USD: UsdAddress }\<close>, and the pairing with the configured aggregators.\<close>

definition tokensToWatchOf :: "ICommonConfiguration \<Rightarrow> world \<Rightarrow> address jsobj" where
  "tokensToWatchOf config w =
     obj_set ''USD'' (UsdAddress (ProtocolGlobalParams config))
       (case getParamPerNetwork (ReserveAssets config) (currentNetwork w) w of
          None \<Rightarrow> [] | Some assets \<Rightarrow> assets)"

definition configuredPairs :: "ICommonConfiguration \<Rightarrow> world \<Rightarrow> error + (address list \<times> address list)" where
  "configuredPairs config w =
     (case getParamPerNetwork (ChainlinkAggregator config) (currentNetwork w) w of
        Some aggregators \<Rightarrow>
          getPairsTokenAggregator (tokensToWatchOf config w) aggregators (OracleQuoteCurrency config)
      | None \<Rightarrow>
          if omit (tokensToWatchOf config w) (getQuoteCurrencies (OracleQuoteCurrency config)) = []
          then Inr ([], []) else Inl (TypeError ''ChainlinkAggregator''))"

definition full_deploy_oracles :: "'n bignumber_js \<Rightarrow> string \<Rightarrow> bool \<Rightarrow> unit script" where
  "full_deploy_oracles bn pool verify =
     bindIO (currentPoolConfig pool) (\<lambda>poolConfig.
     let config = commonConfiguration poolConfig in
     bindIO (bindIO (getsIO (getLendingRateOracles config)) liftSum) (\<lambda>lendingRateOracles.
     bindIO (getLendingPoolAddressesProvider None) (\<lambda>addressesProvider.
     bindIO (getGenesisPoolAdmin config) (\<lambda>admin.
     bindIO (getsIO (\<lambda>w. (getParamPerNetwork (SturdyOracle config) (currentNetwork w) w,
                          getParamPerNetwork (LendingRateOracle config) (currentNetwork w) w,
                          getParamPerNetwork (FallbackOracle config) (currentNetwork w) w)))
       (\<lambda>(sturdyOracleAddress, lendingRateOracleAddress, fallbackOracleAddress).
     bindIO (getsIO (tokensToWatchOf config)) (\<lambda>tokensToWatch.
     bindIO (bindIO (getsIO (configuredPairs config)) liftSum) (\<lambda>(tokens, aggregators).
     bindIO (getsIO (\<lambda>w. (notFalsyOrZeroAddress w sturdyOracleAddress,
                          notFalsyOrZeroAddress w lendingRateOracleAddress)))
       (\<lambda>(oracleKnown, rateOracleKnown).
     bindIO (if oracleKnown then getSturdyOracle sturdyOracleAddress
             else bindIO (getQuoteCurrency config) (\<lambda>quote.
                  bindIO (addressArg fallbackOracleAddress) (\<lambda>fallback.
                  deploySturdyOracle
                    [Strs tokens, Strs aggregators, Bools (replicate (length tokens) False),
                     Str fallback, Str quote, Str (oracleQuoteUnit bn poolConfig)] verify)))
       (\<lambda>sturdyOracle.
     bindIO (if rateOracleKnown then getLendingRateOracle lendingRateOracleAddress
             else bindIO (deployLendingRateOracle verify) (\<lambda>lendingRateOracle.
                  thenIO (setInitialMarketRatesInRatesOracleByHelper lendingRateOracles
                            (omit tokensToWatch [''USD'']) lendingRateOracle admin)
                    (returnIO lendingRateOracle)))
       (\<lambda>lendingRateOracle.
     thenIO (setPriceOracle addressesProvider (Some (h_address sturdyOracle)))
       (setLendingRateOracle addressesProvider (Some (h_address lendingRateOracle)))))))))))))"

section \<open>Data provider and incentives\<close>

definition full_data_provider :: "bool \<Rightarrow> unit script" where
  "full_data_provider verify = exitOnError
     (bindIO (getLendingPoolAddressesProvider None) (\<lambda>addressesProvider.
      bindIO (deploySturdyProtocolDataProvider (h_address addressesProvider) verify)
        (\<lambda>_. returnIO ())))"

definition full_deploy_incentives_impl :: "bool \<Rightarrow> unit script" where
  "full_deploy_incentives_impl verify = exitOnError
     (bindIO theFirstSigner (\<lambda>EMISSION_EXECUTOR.
      bindIO (deploySturdyIncentivesController [Str EMISSION_EXECUTOR] verify) (\<lambda>incentives.
      bindIO (deploySturdyToken verify) (\<lambda>sturdyToken.
      bindIO (deployStableYieldDistributionImpl [Str EMISSION_EXECUTOR] verify) (\<lambda>stableImpl.
      bindIO (deployVariableYieldDistributionImpl [Str EMISSION_EXECUTOR] verify) (\<lambda>variableImpl.
      bindIO (deployYieldDistributorAdapter [Str EMISSION_EXECUTOR] verify) (\<lambda>adapter.
      returnIO ())))))))"

definition full_deploy_LDO_stable_yield_distributor :: "unit script" where
  "full_deploy_LDO_stable_yield_distributor = exitOnError
     (bindIO deployLDOStableYieldDistribution (\<lambda>LDOStableYieldDistributor.
      callContract LDOStableYieldDistributor ''setRewardInfo''
        [Str ''0x5A98FcBEA516Cf06857215779Fd812CA3beF1B32'']))"

definition full_deploy_variable_yield_distributor :: "unit script" where
  "full_deploy_variable_yield_distributor = exitOnError
     (bindIO deployVariableYieldDistribution (\<lambda>VariableYieldDistributor. returnIO ()))"

section \<open>Implementations alone\<close>

text \<open>\<open>tasks/migrations/sturdy.*Impl.ts\<close>\<close>

definition sturdy_lendingPoolImpl :: "bool \<Rightarrow> unit script" where
  "sturdy_lendingPoolImpl verify = bindIO (deployLendingPoolImpl verify) (\<lambda>_. returnIO ())"

definition full_deploy_liquidator :: "bool \<Rightarrow> unit script" where
  "full_deploy_liquidator verify =
     thenIO requireChainId
    (bindIO (getsIO currentNetwork) (\<lambda>network.
     bindIO (getLendingPoolAddressesProvider None) (\<lambda>addressesProvider.
     bindIO (if network = ''ftm'' then deployFTMLiquidator [Str (h_address addressesProvider)] verify
             else deployETHLiquidator [Str (h_address addressesProvider)] verify)
       (\<lambda>liquidator. returnIO ()))))"

definition full_deploy_vault_helper :: "bool \<Rightarrow> unit script" where
  "full_deploy_vault_helper verify =
     thenIO requireChainId
    (bindIO (getLendingPoolAddressesProvider None) (\<lambda>addressesProvider.
     bindIO (deployVaultHelper [Str (h_address addressesProvider)] verify) (\<lambda>vaultHelper.
     bindIO (deployVaultWhitelist False) (\<lambda>_. returnIO ()))))"

end
