(* ===== verification/PriceOracle.thy ===== *)
theory PriceOracle
  imports Deployments
begin

text \<open>
  The storage of \<open>contracts/misc/SturdyOracle.sol\<close>: the price source of each asset and whether the
  source is validated. What an oracle holds is read off its constructor arguments and the calls
  made since. The prices themselves come from the sources, which are outside the model.
\<close>

section \<open>Storage\<close>

record oracle_storage =
  assetsSources :: "address \<Rightarrow> address"
  assetsValidatesAvail :: "address \<Rightarrow> bool"

definition oracle_storage0 :: oracle_storage where
  "oracle_storage0 = \<lparr>assetsSources = (\<lambda>_. ZERO_ADDRESS), assetsValidatesAvail = (\<lambda>_. False)\<rparr>"

text \<open>The loop of \<open>_setAssetsSources\<close>, one asset per round.\<close>

fun assignSources :: "(address \<times> address \<times> bool) list \<Rightarrow> oracle_storage \<Rightarrow> oracle_storage" where
  "assignSources [] st = st"
| "assignSources ((asset, source, validate) # rows) st =
     assignSources rows
       (st\<lparr>assetsSources := (assetsSources st)(asset := source),
           assetsValidatesAvail := (assetsValidatesAvail st)(asset := validate)\<rparr>)"

definition sol_setAssetsSources ::
  "address list \<Rightarrow> address list \<Rightarrow> bool list \<Rightarrow> oracle_storage \<Rightarrow> error + oracle_storage" where
  "sol_setAssetsSources assets sources validateAvails st =
     (if length assets \<noteq> length sources \<or> length assets \<noteq> length validateAvails
      then Inl (Revert ''INCONSISTENT_PARAMS_LENGTH'')
      else Inr (assignSources (zip assets (zip sources validateAvails)) st))"

text \<open>\<open>constructor\<close>, as far as the sources are concerned.\<close>

fun constructOracle :: "arg list \<Rightarrow> oracle_storage" where
  "constructOracle (Strs assets # Strs sources # Bools validateAvails # rest) =
     (case sol_setAssetsSources assets sources validateAvails oracle_storage0 of
        Inl e \<Rightarrow> oracle_storage0 | Inr st \<Rightarrow> st)"
| "constructOracle args = oracle_storage0"

text \<open>A recorded call that did not revert, on the oracle at \<open>self\<close>.\<close>

fun oracleCall :: "address \<Rightarrow> oracle_storage \<Rightarrow> address \<times> string \<times> arg list \<Rightarrow> oracle_storage" where
  "oracleCall self st (a, method, [Strs assets, Strs sources, Bools validateAvails]) =
     (if a = self \<and> method = ''setAssetSources''
      then case sol_setAssetsSources assets sources validateAvails st of
             Inl e \<Rightarrow> st | Inr st' \<Rightarrow> st'
      else st)"
| "oracleCall self st call = st"

text \<open>
  The storage of the oracle at \<open>self\<close>. Of an oracle deployed before, the environment says what its
  sources were.
\<close>

definition oracleAt :: "address \<Rightarrow> world \<Rightarrow> oracle_storage" where
  "oracleAt self w =
     foldl (oracleCall self)
       (case contracts w self of
          Some c \<Rightarrow> constructOracle (ctor_args c)
        | None \<Rightarrow> \<lparr>assetsSources = view_result w [] self ''getSourceOfAsset.0'',
                    assetsValidatesAvail =
                      (\<lambda>asset. view_result w [] self ''getSourceOfAsset.1'' asset = ''true'')\<rparr>)
       (call_log w)"

section \<open>Calls\<close>

text \<open>\<open>setAssetSources(assets, sources, validateAvails)\<close>: ethers checks the addresses, the contract
  checks the owner and the lengths.\<close>

definition setAssetSources ::
  "handle \<Rightarrow> string option list \<Rightarrow> string option list \<Rightarrow> bool list \<Rightarrow> unit script" where
  "setAssetSources oracle assets sources validateAvails =
     bindIO (forIO assets addressArg) (\<lambda>as.
     bindIO (forIO sources addressArg) (\<lambda>ss.
     bindIO (senderOf oracle) (\<lambda>_.
     if length as \<noteq> length ss \<or> length as \<noteq> length validateAvails
     then revert ''INCONSISTENT_PARAMS_LENGTH''
     else callContract oracle ''setAssetSources'' [Strs as, Strs ss, Bools validateAvails])))"

definition getSourceOfAsset :: "handle \<Rightarrow> string option \<Rightarrow> (address \<times> bool) script" where
  "getSourceOfAsset oracle asset =
     bindIO (addressArg asset) (\<lambda>a.
     getsIO (\<lambda>w. let st = oracleAt (h_address oracle) w
                 in (assetsSources st a, assetsValidatesAvail st a)))"

text \<open>\<open>console.log((await sturdyOracle.getAssetPrice(asset)).toString())\<close>\<close>

definition logAssetPrice :: "handle \<Rightarrow> string option \<Rightarrow> unit script" where
  "logAssetPrice oracle asset =
     bindIO (addressArg asset) (\<lambda>a.
     bindIO (viewContract oracle ''getAssetPrice'' a) (\<lambda>_. returnIO ()))"

end
