(* ===== verification/VaultTasks.thy ===== *)
theory VaultTasks
  imports FullDeployment PriceOracle
begin

text \<open>
  Stages 6 and 7 of the full deployment, \<open>tasks/full/6-*\<close> and \<open>tasks/full/7-*\<close>: one task per vault.
  Each deploys its vault, registers it at the configurator, sets the treasury, and registers the
  price source of the vault's asset. The tasks of the Convex and Aura vaults also write the
  vault's internal token into the loaded configuration, where later stages find it.
\<close>

section \<open>Reading the configuration\<close>

text \<open>\<open>poolConfig as ISturdyConfiguration\<close> changes nothing at run time: a field that only another
  market has is \<open>undefined\<close>.\<close>

fun sturdyField :: "(ISturdyConfiguration \<Rightarrow> string jsobj) \<Rightarrow> PoolConfiguration \<Rightarrow> string jsobj option" where
  "sturdyField field (SturdyPool c) = Some (field c)"
| "sturdyField field poolConfig = None"

fun fantomField :: "(IFantomConfiguration \<Rightarrow> string jsobj) \<Rightarrow> PoolConfiguration \<Rightarrow> string jsobj option" where
  "fantomField field (FantomPool c) = Some (field c)"
| "fantomField field poolConfig = None"

text \<open>Both markets have the field \<open>CRV\<close>.\<close>

fun CRV_field :: "PoolConfiguration \<Rightarrow> string jsobj option" where
  "CRV_field (CommonsPool c) = None"
| "CRV_field (SturdyPool c) = Some (ISturdyConfiguration.CRV c)"
| "CRV_field (FantomPool c) = Some (IFantomConfiguration.CRV c)"

text \<open>\<open>getParamPerNetwork(FIELD, network)\<close> destructures its first argument.\<close>

definition configuredParam :: "string jsobj option \<Rightarrow> string option script" where
  "configuredParam field = (case field of
     None \<Rightarrow> throwIO (TypeError ''undefined'')
   | Some param \<Rightarrow> getsIO (\<lambda>w. getParamPerNetwork param (currentNetwork w) w))"

text \<open>\<open>getParamPerNetwork(ReserveAssets, network).SYMBOL\<close>, and the same of \<open>ChainlinkAggregator\<close>.\<close>

definition entryHere :: "string jsobj jsobj \<Rightarrow> string \<Rightarrow> string option script" where
  "entryHere param symbol =
     bindIO (getsIO (\<lambda>w. getParamPerNetwork param (currentNetwork w) w)) (\<lambda>v. case v of
       None \<Rightarrow> throwIO (TypeError symbol)
     | Some entries \<Rightarrow> returnIO (obj_get entries symbol))"

section \<open>Common steps\<close>

text \<open>The first lines of every vault task.\<close>

definition deployRegisteredVault :: "ICommonConfiguration \<Rightarrow> handle script \<Rightarrow> handle script" where
  "deployRegisteredVault config deployVault =
     bindIO (configuredParam (Some (ReserveFactorTreasuryAddress config))) (\<lambda>treasuryAddress.
     bindIO deployVault (\<lambda>vault.
     bindIO (getLendingPoolConfiguratorProxy None) (\<lambda>configurator.
     thenIO (callContract configurator ''registerVault'' [Str (h_address vault)]) (
     bindIO (addressArg treasuryAddress) (\<lambda>treasury.
     thenIO (callContract vault ''setTreasuryInfo'' [Str treasury, Str ''1000''])
       (returnIO vault))))))"

text \<open>\<open>vault.setConfiguration(getParamPerNetwork(LP, network), poolId)\<close>\<close>

definition setVaultConfiguration :: "handle \<Rightarrow> string jsobj option \<Rightarrow> nat \<Rightarrow> unit script" where
  "setVaultConfiguration vault lp poolId =
     bindIO (configuredParam lp) (\<lambda>v.
     bindIO (addressArg v) (\<lambda>lpToken.
     callContract vault ''setConfiguration'' [Str lpToken, Str (showNat poolId)]))"

text \<open>\<open>ReserveAssets[network].SYMBOL = address\<close> throws when the network has no object.\<close>

definition writeReserveAsset :: "string \<Rightarrow> ICommonConfiguration \<Rightarrow> string \<Rightarrow> address \<Rightarrow> unit script" where
  "writeReserveAsset pool config symbol a =
     bindIO (getsIO currentNetwork) (\<lambda>network. case obj_get (ReserveAssets config) network of
       None \<Rightarrow> throwIO (TypeError symbol)
     | Some assets \<Rightarrow> modifyIO (\<lambda>w. w\<lparr>asset_writes := asset_writes w @ [(pool, network, symbol, a)]\<rparr>))"

definition recordInternalAsset ::
  "string \<Rightarrow> ICommonConfiguration \<Rightarrow> string \<Rightarrow> handle \<Rightarrow> address script" where
  "recordInternalAsset pool config symbol vault =
     bindIO (viewContract vault ''getInternalAsset'' '''') (\<lambda>internalAssetAddress.
     thenIO (writeReserveAsset pool config symbol internalAssetAddress)
       (returnIO internalAssetAddress))"

text \<open>\<open>let o = getParamPerNetwork(ChainlinkAggregator, network).SYMBOL; if (!o) o = (await deploy()).address\<close>\<close>

definition aggregatorOr :: "ICommonConfiguration \<Rightarrow> string \<Rightarrow> handle script \<Rightarrow> string option script" where
  "aggregatorOr config symbol deployOracle =
     bindIO (entryHere (ChainlinkAggregator config) symbol) (\<lambda>configured.
     if truthy configured then returnIO configured
     else bindIO deployOracle (\<lambda>oracle. returnIO (Some (h_address oracle))))"

section \<open>Vaults of the Ethereum market\<close>

definition full_deploy_lido_vault :: "string \<Rightarrow> bool \<Rightarrow> unit script" where
  "full_deploy_lido_vault pool verify =
     thenIO requireChainId (
     bindIO (currentPoolConfig pool) (\<lambda>poolConfig.
     let config = commonConfiguration poolConfig in
     bindIO (deployRegisteredVault config (deployLidoVault verify)) (\<lambda>vault.
     callContract vault ''setSlippage'' [Str ''200''])))"

definition full_deploy_yearn_reth_wsteth_vault :: "string \<Rightarrow> bool \<Rightarrow> unit script" where
  "full_deploy_yearn_reth_wsteth_vault pool verify =
     thenIO requireChainId (
     bindIO (currentPoolConfig pool) (\<lambda>poolConfig.
     let config = commonConfiguration poolConfig in
     bindIO (deployRegisteredVault config (deployYearnRETHWstETHVaultVault verify)) (\<lambda>vault.
     bindIO (aggregatorOr config ''yvRETH_WSTETH'' (deployRETHWstETHLPOracle verify)) (\<lambda>rETHWstETHOracleAddress.
     bindIO (getSturdyOracle None) (\<lambda>sturdyOracle.
     bindIO (entryHere (ReserveAssets config) ''yvRETH_WSTETH'') (\<lambda>asset1.
     thenIO (setAssetSources sturdyOracle [asset1] [rETHWstETHOracleAddress] [False, False]) (
     bindIO (entryHere (ReserveAssets config) ''yvRETH_WSTETH'') (logAssetPrice sturdyOracle))))))))"

definition full_deploy_convex_rocket_pool_eth_vault :: "string \<Rightarrow> bool \<Rightarrow> unit script" where
  "full_deploy_convex_rocket_pool_eth_vault pool verify =
     thenIO requireChainId (
     bindIO (currentPoolConfig pool) (\<lambda>poolConfig.
     let config = commonConfiguration poolConfig in
     bindIO (deployRegisteredVault config (deployConvexRocketPoolETHVault verify)) (\<lambda>vault.
     thenIO (setVaultConfiguration vault (sturdyField RETH_WSTETH_LP poolConfig) 73) (
     bindIO (recordInternalAsset pool config ''cvxRETH_WSTETH'' vault) (\<lambda>internalAssetAddress.
     bindIO (aggregatorOr config ''cvxRETH_WSTETH'' (deployRETHWstETHLPOracle verify)) (\<lambda>rETHWstETHOracleAddress.
     bindIO (getSturdyOracle None) (\<lambda>sturdyOracle.
     thenIO (setAssetSources sturdyOracle
               [Some internalAssetAddress]
               [rETHWstETHOracleAddress] [False]) (
     logAssetPrice sturdyOracle (Some internalAssetAddress)))))))))"

definition full_deploy_convex_frax_3crv_vault :: "string \<Rightarrow> bool \<Rightarrow> unit script" where
  "full_deploy_convex_frax_3crv_vault pool verify =
     thenIO requireChainId (
     bindIO (currentPoolConfig pool) (\<lambda>poolConfig.
     let config = commonConfiguration poolConfig in
     bindIO (deployRegisteredVault config (deployConvexFRAX3CRVVault verify)) (\<lambda>vault.
     thenIO (setVaultConfiguration vault (sturdyField FRAX_3CRV_LP poolConfig) 32) (
     thenIO (callContract vault ''setIncentiveRatio'' [Str ''4000'']) (
     bindIO (recordInternalAsset pool config ''cvxFRAX_3CRV'' vault) (\<lambda>internalAssetAddress.
     bindIO (aggregatorOr config ''cvxFRAX_3CRV'' (deployFRAX3CRVPOracle verify)) (\<lambda>FRAX3CRVOracleAddress.
     bindIO (getSturdyOracle None) (\<lambda>sturdyOracle.
     bindIO (configuredParam (sturdyField FRAX_3CRV_LP poolConfig)) (\<lambda>asset1.
     bindIO (configuredParam (CRV_field poolConfig)) (\<lambda>asset2.
     bindIO (configuredParam (sturdyField CVX poolConfig)) (\<lambda>asset3.
     bindIO (entryHere (ChainlinkAggregator config) ''CRV'') (\<lambda>source1.
     bindIO (entryHere (ChainlinkAggregator config) ''CVX'') (\<lambda>source2.
     thenIO (setAssetSources sturdyOracle
               [Some internalAssetAddress, asset1, asset2, asset3]
               [FRAX3CRVOracleAddress, FRAX3CRVOracleAddress, source1, source2] [False, False, False, False]) (
     thenIO (logAssetPrice sturdyOracle (Some internalAssetAddress)) (
     thenIO (bindIO (configuredParam (CRV_field poolConfig)) (logAssetPrice sturdyOracle)) (
     bindIO (configuredParam (sturdyField CVX poolConfig)) (logAssetPrice sturdyOracle)))))))))))))))))"

definition full_deploy_convex_steth_vault :: "string \<Rightarrow> bool \<Rightarrow> unit script" where
  "full_deploy_convex_steth_vault pool verify =
     thenIO requireChainId (
     bindIO (currentPoolConfig pool) (\<lambda>poolConfig.
     let config = commonConfiguration poolConfig in
     bindIO (deployRegisteredVault config (deployConvexSTETHVault verify)) (\<lambda>vault.
     thenIO (setVaultConfiguration vault (sturdyField STECRV_LP poolConfig) 25) (
     bindIO (recordInternalAsset pool config ''cvxSTECRV'' vault) (\<lambda>internalAssetAddress.
     bindIO (aggregatorOr config ''cvxSTECRV'' (deploySTECRVOracle verify)) (\<lambda>steCRVOracleAddress.
     bindIO (getSturdyOracle None) (\<lambda>sturdyOracle.
     bindIO (configuredParam (sturdyField STECRV_LP poolConfig)) (\<lambda>asset1.
     thenIO (setAssetSources sturdyOracle
               [Some internalAssetAddress, asset1]
               [steCRVOracleAddress, steCRVOracleAddress] [False, False]) (
     logAssetPrice sturdyOracle (Some internalAssetAddress))))))))))"

definition full_deploy_convex_dola_3crv_vault :: "string \<Rightarrow> bool \<Rightarrow> unit script" where
  "full_deploy_convex_dola_3crv_vault pool verify =
     thenIO requireChainId (
     bindIO (currentPoolConfig pool) (\<lambda>poolConfig.
     let config = commonConfiguration poolConfig in
     bindIO (deployRegisteredVault config (deployConvexDOLA3CRVVault verify)) (\<lambda>vault.
     thenIO (setVaultConfiguration vault (sturdyField DOLA_3CRV_LP poolConfig) 62) (
     bindIO (recordInternalAsset pool config ''cvxDOLA_3CRV'' vault) (\<lambda>internalAssetAddress.
     bindIO (aggregatorOr config ''cvxDOLA_3CRV'' (deployDOLA3CRVOracle verify)) (\<lambda>DOLA3CRVOracleAddress.
     bindIO (getSturdyOracle None) (\<lambda>sturdyOracle.
     bindIO (configuredParam (sturdyField DOLA_3CRV_LP poolConfig)) (\<lambda>asset1.
     thenIO (setAssetSources sturdyOracle
               [Some internalAssetAddress, asset1]
               [DOLA3CRVOracleAddress, DOLA3CRVOracleAddress] [False, False]) (
     logAssetPrice sturdyOracle (Some internalAssetAddress))))))))))"

definition full_deploy_convex_mim_3crv_vault :: "string \<Rightarrow> bool \<Rightarrow> unit script" where
  "full_deploy_convex_mim_3crv_vault pool verify =
     thenIO requireChainId (
     bindIO (currentPoolConfig pool) (\<lambda>poolConfig.
     let config = commonConfiguration poolConfig in
     bindIO (deployRegisteredVault config (deployConvexMIM3CRVVault verify)) (\<lambda>vault.
     thenIO (setVaultConfiguration vault (sturdyField MIM_3CRV_LP poolConfig) 40) (
     thenIO (callContract vault ''setIncentiveRatio'' [Str ''7500'']) (
     bindIO (recordInternalAsset pool config ''cvxMIM_3CRV'' vault) (\<lambda>internalAssetAddress.
     bindIO (aggregatorOr config ''cvxMIM_3CRV'' (deployMIM3CRVOracle verify)) (\<lambda>MIM3CRVOracleAddress.
     bindIO (aggregatorOr config ''MIM'' (deployMIMOracle verify)) (\<lambda>MIMOracleAddress.
     bindIO (getSturdyOracle None) (\<lambda>sturdyOracle.
     bindIO (configuredParam (sturdyField MIM_3CRV_LP poolConfig)) (\<lambda>asset1.
     bindIO (configuredParam (sturdyField MIM poolConfig)) (\<lambda>asset2.
     thenIO (setAssetSources sturdyOracle
               [Some internalAssetAddress, asset1, asset2]
               [MIM3CRVOracleAddress, MIM3CRVOracleAddress, MIMOracleAddress] [False, False, False]) (
     thenIO (logAssetPrice sturdyOracle (Some internalAssetAddress)) (
     bindIO (configuredParam (sturdyField MIM poolConfig)) (logAssetPrice sturdyOracle))))))))))))))"

definition full_deploy_convex_dai_usdc_usdt_susd_vault :: "string \<Rightarrow> bool \<Rightarrow> unit script" where
  "full_deploy_convex_dai_usdc_usdt_susd_vault pool verify =
     thenIO requireChainId (
     bindIO (currentPoolConfig pool) (\<lambda>poolConfig.
     let config = commonConfiguration poolConfig in
     bindIO (deployRegisteredVault config (deployConvexDAIUSDCUSDTSUSDVault verify)) (\<lambda>vault.
     thenIO (setVaultConfiguration vault (sturdyField DAI_USDC_USDT_SUSD_LP poolConfig) 4) (
     thenIO (callContract vault ''setIncentiveRatio'' [Str ''7500'']) (
     bindIO (recordInternalAsset pool config ''cvxDAI_USDC_USDT_SUSD'' vault) (\<lambda>internalAssetAddress.
     bindIO (aggregatorOr config ''cvxDAI_USDC_USDT_SUSD'' (deployDAIUSDCUSDTSUSDOracle verify)) (\<lambda>DAIUSDCUSDTSUSDOracleAddress.
     bindIO (getSturdyOracle None) (\<lambda>sturdyOracle.
     bindIO (configuredParam (sturdyField DAI_USDC_USDT_SUSD_LP poolConfig)) (\<lambda>asset1.
     bindIO (configuredParam (sturdyField SUSD poolConfig)) (\<lambda>asset2.
     bindIO (entryHere (ChainlinkAggregator config) ''SUSD'') (\<lambda>source1.
     thenIO (setAssetSources sturdyOracle
               [Some internalAssetAddress, asset1, asset2]
               [DAIUSDCUSDTSUSDOracleAddress, DAIUSDCUSDTSUSDOracleAddress, source1] [False, False, False]) (
     logAssetPrice sturdyOracle (Some internalAssetAddress)))))))))))))"

definition full_deploy_convex_hbtc_wbtc_vault :: "string \<Rightarrow> bool \<Rightarrow> unit script" where
  "full_deploy_convex_hbtc_wbtc_vault pool verify =
     thenIO requireChainId (
     bindIO (currentPoolConfig pool) (\<lambda>poolConfig.
     let config = commonConfiguration poolConfig in
     bindIO (deployRegisteredVault config (deployConvexHBTCWBTCVault verify)) (\<lambda>vault.
     thenIO (setVaultConfiguration vault (sturdyField HBTC_WBTC_LP poolConfig) 8) (
     bindIO (recordInternalAsset pool config ''cvxHBTC_WBTC'' vault) (\<lambda>internalAssetAddress.
     bindIO (aggregatorOr config ''cvxHBTC_WBTC'' (deployHBTCWBTCOracle verify)) (\<lambda>HBTCWBTCOracleAddress.
     bindIO (getSturdyOracle None) (\<lambda>sturdyOracle.
     bindIO (configuredParam (sturdyField HBTC_WBTC_LP poolConfig)) (\<lambda>asset1.
     thenIO (setAssetSources sturdyOracle
               [Some internalAssetAddress, asset1]
               [HBTCWBTCOracleAddress, HBTCWBTCOracleAddress] [False, False]) (
     logAssetPrice sturdyOracle (Some internalAssetAddress))))))))))"

definition full_deploy_convex_iron_bank_vault :: "string \<Rightarrow> bool \<Rightarrow> unit script" where
  "full_deploy_convex_iron_bank_vault pool verify =
     thenIO requireChainId (
     bindIO (currentPoolConfig pool) (\<lambda>poolConfig.
     let config = commonConfiguration poolConfig in
     bindIO (deployRegisteredVault config (deployConvexIronBankVault verify)) (\<lambda>vault.
     thenIO (setVaultConfiguration vault (sturdyField IRON_BANK_LP poolConfig) 29) (
     thenIO (callContract vault ''setIncentiveRatio'' [Str ''7500'']) (
     bindIO (recordInternalAsset pool config ''cvxIRON_BANK'' vault) (\<lambda>internalAssetAddress.
     bindIO (aggregatorOr config ''cvxIRON_BANK'' (deployIronBankOracle verify)) (\<lambda>IronBankOracleAddress.
     bindIO (getSturdyOracle None) (\<lambda>sturdyOracle.
     bindIO (configuredParam (sturdyField IRON_BANK_LP poolConfig)) (\<lambda>asset1.
     thenIO (setAssetSources sturdyOracle
               [Some internalAssetAddress, asset1]
               [IronBankOracleAddress, IronBankOracleAddress] [False, False]) (
     logAssetPrice sturdyOracle (Some internalAssetAddress)))))))))))"

definition full_deploy_convex_frax_usdc_vault :: "string \<Rightarrow> bool \<Rightarrow> unit script" where
  "full_deploy_convex_frax_usdc_vault pool verify =
     thenIO requireChainId (
     bindIO (currentPoolConfig pool) (\<lambda>poolConfig.
     let config = commonConfiguration poolConfig in
     bindIO (deployRegisteredVault config (deployConvexFRAXUSDCVault verify)) (\<lambda>vault.
     thenIO (setVaultConfiguration vault (sturdyField FRAX_USDC_LP poolConfig) 100) (
     thenIO (callContract vault ''setIncentiveRatio'' [Str ''7500'']) (
     bindIO (recordInternalAsset pool config ''cvxFRAX_USDC'' vault) (\<lambda>internalAssetAddress.
     bindIO (aggregatorOr config ''cvxFRAX_USDC'' (deployFRAXUSDCOracle verify)) (\<lambda>FRAXUSDCOracleAddress.
     bindIO (getSturdyOracle None) (\<lambda>sturdyOracle.
     bindIO (configuredParam (sturdyField FRAX_USDC_LP poolConfig)) (\<lambda>asset1.
     bindIO (configuredParam (sturdyField FRAX poolConfig)) (\<lambda>asset2.
     bindIO (entryHere (ChainlinkAggregator config) ''FRAX'') (\<lambda>source1.
     thenIO (setAssetSources sturdyOracle
               [Some internalAssetAddress, asset1, asset2]
               [FRAXUSDCOracleAddress, FRAXUSDCOracleAddress, source1] [False, False, False]) (
     logAssetPrice sturdyOracle (Some internalAssetAddress)))))))))))))"

definition full_deploy_aura_dai_usdc_usdt_vault :: "string \<Rightarrow> bool \<Rightarrow> unit script" where
  "full_deploy_aura_dai_usdc_usdt_vault pool verify =
     thenIO requireChainId (
     bindIO (currentPoolConfig pool) (\<lambda>poolConfig.
     let config = commonConfiguration poolConfig in
     bindIO (deployRegisteredVault config (deployAuraDAIUSDCUSDTVault verify)) (\<lambda>vault.
     thenIO (setVaultConfiguration vault (sturdyField BAL_DAI_USDC_USDT_LP poolConfig) 0) (
     thenIO (callContract vault ''setIncentiveRatio'' [Str ''7500'']) (
     bindIO (recordInternalAsset pool config ''auraDAI_USDC_USDT'' vault) (\<lambda>internalAssetAddress.
     bindIO (aggregatorOr config ''auraDAI_USDC_USDT'' (deployBALDAIUSDCUSDTOracle verify)) (\<lambda>BALDAIUSDCUSDTOracleAddress.
     bindIO (getSturdyOracle None) (\<lambda>sturdyOracle.
     bindIO (configuredParam (sturdyField BAL_DAI_USDC_USDT_LP poolConfig)) (\<lambda>asset1.
     bindIO (configuredParam (sturdyField BAL poolConfig)) (\<lambda>asset2.
     bindIO (entryHere (ChainlinkAggregator config) ''BAL'') (\<lambda>source1.
     thenIO (setAssetSources sturdyOracle
               [Some internalAssetAddress, asset1, asset2]
               [BALDAIUSDCUSDTOracleAddress, BALDAIUSDCUSDTOracleAddress, source1] [False, False, False]) (
     logAssetPrice sturdyOracle (Some internalAssetAddress)))))))))))))"

definition full_deploy_convex_tusd_fraxbp_vault :: "string \<Rightarrow> bool \<Rightarrow> unit script" where
  "full_deploy_convex_tusd_fraxbp_vault pool verify =
     thenIO requireChainId (
     bindIO (currentPoolConfig pool) (\<lambda>poolConfig.
     let config = commonConfiguration poolConfig in
     bindIO (deployRegisteredVault config (deployConvexTUSDFRAXBPVault verify)) (\<lambda>vault.
     thenIO (setVaultConfiguration vault (sturdyField TUSD_FRAXBP_LP poolConfig) 108) (
     thenIO (callContract vault ''setIncentiveRatio'' [Str ''7500'']) (
     bindIO (recordInternalAsset pool config ''cvxTUSD_FRAXBP'' vault) (\<lambda>internalAssetAddress.
     bindIO (aggregatorOr config ''cvxTUSD_FRAXBP'' (deployTUSDFRAXBPCOracle verify)) (\<lambda>TUSDFRAXBPOracleAddress.
     bindIO (getSturdyOracle None) (\<lambda>sturdyOracle.
     bindIO (configuredParam (sturdyField TUSD_FRAXBP_LP poolConfig)) (\<lambda>asset1.
     bindIO (configuredParam (sturdyField TUSD poolConfig)) (\<lambda>asset2.
     bindIO (entryHere (ChainlinkAggregator config) ''TUSD'') (\<lambda>source1.
     thenIO (setAssetSources sturdyOracle
               [Some internalAssetAddress, asset1, asset2]
               [TUSDFRAXBPOracleAddress, TUSDFRAXBPOracleAddress, source1] [False, False, False]) (
     logAssetPrice sturdyOracle (Some internalAssetAddress)))))))))))))"

definition full_deploy_aura_bb_a_usd_vault :: "string \<Rightarrow> bool \<Rightarrow> unit script" where
  "full_deploy_aura_bb_a_usd_vault pool verify =
     thenIO requireChainId (
     bindIO (currentPoolConfig pool) (\<lambda>poolConfig.
     let config = commonConfiguration poolConfig in
     bindIO (deployRegisteredVault config (deployAuraBBAUSDVault verify)) (\<lambda>vault.
     thenIO (setVaultConfiguration vault (sturdyField BAL_BB_A_USD_LP poolConfig) 2) (
     thenIO (callContract vault ''setIncentiveRatio'' [Str ''7500'']) (
     bindIO (recordInternalAsset pool config ''auraBB_A_USD'' vault) (\<lambda>internalAssetAddress.
     bindIO (aggregatorOr config ''auraBB_A_USD'' (deployBALBBAUSDOracle verify)) (\<lambda>BALBBAUSDOracleAddress.
     bindIO (aggregatorOr config ''AURA'' (deployAURAOracle verify)) (\<lambda>AURAOracleAddress.
     bindIO (getSturdyOracle None) (\<lambda>sturdyOracle.
     bindIO (configuredParam (sturdyField BAL_BB_A_USD_LP poolConfig)) (\<lambda>asset1.
     bindIO (configuredParam (sturdyField BAL poolConfig)) (\<lambda>asset2.
     bindIO (configuredParam (sturdyField AURA poolConfig)) (\<lambda>asset3.
     bindIO (entryHere (ChainlinkAggregator config) ''BAL'') (\<lambda>source1.
     thenIO (setAssetSources sturdyOracle
               [Some internalAssetAddress, asset1, asset2, asset3]
               [BALBBAUSDOracleAddress, BALBBAUSDOracleAddress, source1, AURAOracleAddress] [False, False, False, False]) (
     logAssetPrice sturdyOracle (Some internalAssetAddress)))))))))))))))"

definition full_deploy_aura_bb_a3_usd_vault :: "string \<Rightarrow> bool \<Rightarrow> unit script" where
  "full_deploy_aura_bb_a3_usd_vault pool verify =
     thenIO requireChainId (
     bindIO (currentPoolConfig pool) (\<lambda>poolConfig.
     let config = commonConfiguration poolConfig in
     bindIO (deployRegisteredVault config (deployAuraBBA3USDVault verify)) (\<lambda>vault.
     thenIO (setVaultConfiguration vault (sturdyField BAL_BB_A3_USD_LP poolConfig) 81) (
     thenIO (callContract vault ''setIncentiveRatio'' [Str ''7500'']) (
     bindIO (recordInternalAsset pool config ''auraBB_A3_USD'' vault) (\<lambda>internalAssetAddress.
     bindIO (aggregatorOr config ''auraBB_A3_USD'' (deployBALBBA3USDOracle verify)) (\<lambda>BALBBA3USDOracleAddress.
     bindIO (aggregatorOr config ''AURA'' (deployAURAOracle verify)) (\<lambda>AURAOracleAddress.
     bindIO (getSturdyOracle None) (\<lambda>sturdyOracle.
     bindIO (configuredParam (sturdyField BAL_BB_A3_USD_LP poolConfig)) (\<lambda>asset1.
     bindIO (configuredParam (sturdyField BAL poolConfig)) (\<lambda>asset2.
     bindIO (configuredParam (sturdyField AURA poolConfig)) (\<lambda>asset3.
     bindIO (entryHere (ChainlinkAggregator config) ''BAL'') (\<lambda>source1.
     thenIO (setAssetSources sturdyOracle
               [Some internalAssetAddress, asset1, asset2, asset3]
               [BALBBA3USDOracleAddress, BALBBA3USDOracleAddress, source1, AURAOracleAddress] [False, False, False, False]) (
     logAssetPrice sturdyOracle (Some internalAssetAddress)))))))))))))))"

section \<open>Vaults of the Fantom market\<close>

definition full_deploy_yearn_vault :: "string \<Rightarrow> bool \<Rightarrow> unit script" where
  "full_deploy_yearn_vault pool verify =
     thenIO requireChainId (
     bindIO (currentPoolConfig pool) (\<lambda>poolConfig.
     let config = commonConfiguration poolConfig in
     bindIO (deployRegisteredVault config (deployYearnVault verify)) (\<lambda>vault. returnIO ())))"

definition full_deploy_beefy_eth_vault :: "string \<Rightarrow> bool \<Rightarrow> unit script" where
  "full_deploy_beefy_eth_vault pool verify =
     thenIO requireChainId (
     bindIO (currentPoolConfig pool) (\<lambda>poolConfig.
     let config = commonConfiguration poolConfig in
     bindIO (deployRegisteredVault config (deployBeefyETHVault verify)) (\<lambda>vault.
     bindIO (entryHere (ChainlinkAggregator config) ''mooWETH'') (\<lambda>mooWETHOracleAddress.
     bindIO (getSturdyOracle None) (\<lambda>sturdyOracle.
     bindIO (entryHere (ReserveAssets config) ''mooWETH'') (\<lambda>asset1.
     thenIO (setAssetSources sturdyOracle [asset1] [mooWETHOracleAddress] [False]) (
     bindIO (entryHere (ReserveAssets config) ''mooWETH'') (logAssetPrice sturdyOracle))))))))"

definition full_deploy_yearn_weth_vault :: "string \<Rightarrow> bool \<Rightarrow> unit script" where
  "full_deploy_yearn_weth_vault pool verify =
     thenIO requireChainId (
     bindIO (currentPoolConfig pool) (\<lambda>poolConfig.
     let config = commonConfiguration poolConfig in
     bindIO (deployRegisteredVault config (deployYearnWETHVault verify)) (\<lambda>vault. returnIO ())))"

definition full_deploy_yearn_wbtc_vault :: "string \<Rightarrow> bool \<Rightarrow> unit script" where
  "full_deploy_yearn_wbtc_vault pool verify =
     thenIO requireChainId (
     bindIO (currentPoolConfig pool) (\<lambda>poolConfig.
     let config = commonConfiguration poolConfig in
     bindIO (deployRegisteredVault config (deployYearnWBTCVault verify)) (\<lambda>vault. returnIO ())))"

definition full_deploy_yearn_boo_vault :: "string \<Rightarrow> bool \<Rightarrow> unit script" where
  "full_deploy_yearn_boo_vault pool verify =
     thenIO requireChainId (
     bindIO (currentPoolConfig pool) (\<lambda>poolConfig.
     let config = commonConfiguration poolConfig in
     bindIO (deployRegisteredVault config (deployYearnBOOVault verify)) (\<lambda>vault. returnIO ())))"

definition full_deploy_tomb_ftm_beefy_vault :: "string \<Rightarrow> bool \<Rightarrow> unit script" where
  "full_deploy_tomb_ftm_beefy_vault pool verify =
     thenIO requireChainId (
     bindIO (currentPoolConfig pool) (\<lambda>poolConfig.
     let config = commonConfiguration poolConfig in
     bindIO (deployRegisteredVault config (deployTombFTMBeefyVault verify)) (\<lambda>vault.
     bindIO (aggregatorOr config ''TOMB'' (deployTombOracle False)) (\<lambda>tombOracleAddress.
     bindIO (aggregatorOr config ''mooTOMB_FTM'' (deployTombFtmLPOracle False)) (\<lambda>mooTombFtmOracleAddress.
     bindIO (getSturdyOracle None) (\<lambda>sturdyOracle.
     bindIO (configuredParam (fantomField TOMB poolConfig)) (\<lambda>asset1.
     bindIO (entryHere (ReserveAssets config) ''mooTOMB_FTM'') (\<lambda>asset2.
     thenIO (setAssetSources sturdyOracle
               [asset1, asset2]
               [tombOracleAddress, mooTombFtmOracleAddress] [False, False]) (
     thenIO (bindIO (configuredParam (fantomField TOMB poolConfig)) (logAssetPrice sturdyOracle)) (
     bindIO (entryHere (ReserveAssets config) ''mooTOMB_FTM'') (logAssetPrice sturdyOracle)))))))))))"

definition full_deploy_tomb_mimatic_beefy_vault :: "string \<Rightarrow> bool \<Rightarrow> unit script" where
  "full_deploy_tomb_mimatic_beefy_vault pool verify =
     thenIO requireChainId (
     bindIO (currentPoolConfig pool) (\<lambda>poolConfig.
     let config = commonConfiguration poolConfig in
     bindIO (deployRegisteredVault config (deployTombMiMaticBeefyVault verify)) (\<lambda>vault.
     bindIO (aggregatorOr config ''mooTOMB_MIMATIC'' (deployTombMiMaticLPOracle False)) (\<lambda>mooTombMiMaticOracleAddress.
     bindIO (getSturdyOracle None) (\<lambda>sturdyOracle.
     bindIO (configuredParam (fantomField MIMATIC poolConfig)) (\<lambda>asset1.
     bindIO (entryHere (ReserveAssets config) ''mooTOMB_MIMATIC'') (\<lambda>asset2.
     bindIO (entryHere (ChainlinkAggregator config) ''MIMATIC'') (\<lambda>source1.
     thenIO (setAssetSources sturdyOracle
               [asset1, asset2]
               [source1, mooTombMiMaticOracleAddress] [False, False]) (
     thenIO (bindIO (configuredParam (fantomField MIMATIC poolConfig)) (logAssetPrice sturdyOracle)) (
     bindIO (entryHere (ReserveAssets config) ''mooTOMB_MIMATIC'') (logAssetPrice sturdyOracle)))))))))))"

definition full_deploy_yearn_fbeets_vault :: "string \<Rightarrow> bool \<Rightarrow> unit script" where
  "full_deploy_yearn_fbeets_vault pool verify =
     thenIO requireChainId (
     bindIO (currentPoolConfig pool) (\<lambda>poolConfig.
     let config = commonConfiguration poolConfig in
     bindIO (deployRegisteredVault config (deployYearnFBeetsVault verify)) (\<lambda>vault.
     thenIO (callContract vault ''setBeethovenVaultAddress''
               [Str ''0x20dd72Ed959b6147912C2e529F0a0C651c33c9ce'']) (
     thenIO (callContract vault ''setBeethovenLiquidityPoolId''
               [Str ''0xcde5a11a4acb4ee4c805352cec57e236bdbc3837000200000000000000000019'']) (
     thenIO (callContract vault ''setBeethovenSwapPoolId''
               [Str ''0xcde5a11a4acb4ee4c805352cec57e236bdbc3837000200000000000000000019'']) (
     bindIO (aggregatorOr config ''yvfBEETS'' (deployFBeetsOracle False)) (\<lambda>fbeetsOracleAddress.
     bindIO (aggregatorOr config ''BEETS'' (deployBeetsOracle False)) (\<lambda>beetsOracleAddress.
     bindIO (getSturdyOracle None) (\<lambda>sturdyOracle.
     bindIO (entryHere (ReserveAssets config) ''yvfBEETS'') (\<lambda>asset1.
     bindIO (configuredParam (fantomField BEETS poolConfig)) (\<lambda>asset2.
     thenIO (setAssetSources sturdyOracle
               [asset1, asset2]
               [fbeetsOracleAddress, beetsOracleAddress] [False, False]) (
     thenIO (bindIO (entryHere (ReserveAssets config) ''yvfBEETS'') (logAssetPrice sturdyOracle)) (
     bindIO (configuredParam (fantomField BEETS poolConfig)) (logAssetPrice sturdyOracle))))))))))))))"

definition full_deploy_yearn_link_vault :: "string \<Rightarrow> bool \<Rightarrow> unit script" where
  "full_deploy_yearn_link_vault pool verify =
     thenIO requireChainId (
     bindIO (currentPoolConfig pool) (\<lambda>poolConfig.
     let config = commonConfiguration poolConfig in
     bindIO (deployRegisteredVault config (deployYearnLINKVault verify)) (\<lambda>vault.
     bindIO (getSturdyOracle None) (\<lambda>sturdyOracle.
     bindIO (entryHere (ReserveAssets config) ''yvLINK'') (\<lambda>asset1.
     bindIO (entryHere (ChainlinkAggregator config) ''yvLINK'') (\<lambda>source1.
     thenIO (setAssetSources sturdyOracle [asset1] [source1] [False]) (
     bindIO (entryHere (ReserveAssets config) ''yvLINK'') (logAssetPrice sturdyOracle))))))))"

definition full_deploy_yearn_crv_vault :: "string \<Rightarrow> bool \<Rightarrow> unit script" where
  "full_deploy_yearn_crv_vault pool verify =
     thenIO requireChainId (
     bindIO (currentPoolConfig pool) (\<lambda>poolConfig.
     let config = commonConfiguration poolConfig in
     bindIO (deployRegisteredVault config (deployYearnCRVVault verify)) (\<lambda>vault.
     bindIO (getSturdyOracle None) (\<lambda>sturdyOracle.
     bindIO (entryHere (ReserveAssets config) ''yvCRV'') (\<lambda>asset1.
     bindIO (entryHere (ChainlinkAggregator config) ''yvCRV'') (\<lambda>source1.
     thenIO (setAssetSources sturdyOracle [asset1] [source1] [False]) (
     bindIO (entryHere (ReserveAssets config) ''yvCRV'') (logAssetPrice sturdyOracle))))))))"

definition full_deploy_yearn_spell_vault :: "string \<Rightarrow> bool \<Rightarrow> unit script" where
  "full_deploy_yearn_spell_vault pool verify =
     thenIO requireChainId (
     bindIO (currentPoolConfig pool) (\<lambda>poolConfig.
     let config = commonConfiguration poolConfig in
     bindIO (deployRegisteredVault config (deployYearnSPELLVault verify)) (\<lambda>vault.
     bindIO (getSturdyOracle None) (\<lambda>sturdyOracle.
     bindIO (entryHere (ReserveAssets config) ''yvSPELL'') (\<lambda>asset1.
     bindIO (entryHere (ChainlinkAggregator config) ''yvSPELL'') (\<lambda>source1.
     thenIO (setAssetSources sturdyOracle [asset1] [source1] [False]) (
     bindIO (entryHere (ReserveAssets config) ''yvSPELL'') (logAssetPrice sturdyOracle))))))))"

definition full_deploy_based_mimatic_beefy_vault :: "string \<Rightarrow> bool \<Rightarrow> unit script" where
  "full_deploy_based_mimatic_beefy_vault pool verify =
     thenIO requireChainId (
     bindIO (currentPoolConfig pool) (\<lambda>poolConfig.
     let config = commonConfiguration poolConfig in
     bindIO (deployRegisteredVault config (deployBasedMiMaticBeefyVault verify)) (\<lambda>vault.
     bindIO (aggregatorOr config ''BASED'' (deployBasedOracle False)) (\<lambda>basedOracleAddress.
     bindIO (aggregatorOr config ''mooBASED_MIMATIC'' (deployBasedMiMaticLPOracle False)) (\<lambda>mooBasedMiMaticOracleAddress.
     bindIO (getSturdyOracle None) (\<lambda>sturdyOracle.
     bindIO (configuredParam (fantomField BASED poolConfig)) (\<lambda>asset1.
     bindIO (entryHere (ReserveAssets config) ''mooBASED_MIMATIC'') (\<lambda>asset2.
     thenIO (setAssetSources sturdyOracle
               [asset1, asset2]
               [basedOracleAddress, mooBasedMiMaticOracleAddress] [False, False]) (
     thenIO (bindIO (configuredParam (fantomField BASED poolConfig)) (logAssetPrice sturdyOracle)) (
     bindIO (entryHere (ReserveAssets config) ''mooBASED_MIMATIC'') (logAssetPrice sturdyOracle)))))))))))"

definition full_deploy_beefy_mim2crv_vault :: "string \<Rightarrow> bool \<Rightarrow> unit script" where
  "full_deploy_beefy_mim2crv_vault pool verify =
     thenIO requireChainId (
     bindIO (currentPoolConfig pool) (\<lambda>poolConfig.
     let config = commonConfiguration poolConfig in
     bindIO (deployRegisteredVault config (deployBeefyMIM2CRVVault verify)) (\<lambda>vault.
     bindIO (aggregatorOr config ''mooMIM_2CRV'' (deployMIM2CRVLPOracle False)) (\<lambda>mooMIM2CRVOracleAddress.
     bindIO (getSturdyOracle None) (\<lambda>sturdyOracle.
     bindIO (entryHere (ReserveAssets config) ''mooMIM_2CRV'') (\<lambda>asset1.
     thenIO (setAssetSources sturdyOracle [asset1] [mooMIM2CRVOracleAddress] [False]) (
     bindIO (entryHere (ReserveAssets config) ''mooMIM_2CRV'') (logAssetPrice sturdyOracle))))))))"

end
