(* ===== verification/MarketInit.thy ===== *)
theory MarketInit
  imports VaultTasks
begin

text \<open>
  Stage 8 of the full deployment, \<open>tasks/full/8-*\<close>: initialization of the lending pool's reserves,
  the collateral adapter, the yield manager, the leverage swap manager and the APR data provider.
  The liquidator and the vault helper are in \<open>FullDeployment\<close>.
\<close>

section \<open>Initialization of the lending pool\<close>

text \<open>The field \<open>ReservesConfig\<close> of a configuration.\<close>

fun reservesConfigOf :: "'n bignumber_js \<Rightarrow> PoolConfiguration \<Rightarrow> IReserveParams jsobj" where
  "reservesConfigOf bn (CommonsPool c) = []"
| "reservesConfigOf bn (SturdyPool c) = SturdyReservesConfig bn"
| "reservesConfigOf bn (FantomPool c) = FantomReservesConfig bn"

text \<open>\<open>{ SYMBOL: (await getter()).address, ... }\<close>\<close>

definition vaultAddresses :: "(string \<times> (string option \<Rightarrow> handle script)) list \<Rightarrow> address jsobj script" where
  "vaultAddresses getters =
     forIO getters (\<lambda>(symbol, getter).
       bindIO (getter None) (\<lambda>vault. returnIO (symbol, h_address vault)))"

definition yieldAddressesOf :: "string \<Rightarrow> address jsobj script" where
  "yieldAddressesOf pool =
     vaultAddresses
       (if pool = ''Sturdy'' then
          [(''cvxFRAX_3CRV'', getConvexFRAX3CRVVault),
           (''cvxMIM_3CRV'', getConvexMIM3CRVVault),
           (''cvxDAI_USDC_USDT_SUSD'', getConvexDAIUSDCUSDTSUSDVault),
           (''cvxFRAX_USDC'', getConvexFRAXUSDCVault),
           (''cvxTUSD_FRAXBP'', getConvexTUSDFRAXBPVault),
           (''auraBB_A3_USD'', getAuraBBA3USDVault)]
        else
          [(''yvWFTM'', getYearnVault),
           (''yvWETH'', getYearnWETHVault),
           (''yvWBTC'', getYearnWBTCVault),
           (''yvBOO'', getYearnBOOVault),
           (''mooTOMB_MIMATIC'', getTombMiMaticBeefyVault),
           (''mooBASED_MIMATIC'', getBasedMiMaticBeefyVault),
           (''yvfBEETS'', getYearnFBEETSVault),
           (''yvLINK'', getYearnLINKVault),
           (''yvCRV'', getYearnCRVVault),
           (''yvSPELL'', getYearnSPELLVault)])"

text \<open>\<open>setAddress\<close> with an identifier that is already 32 bytes in hexadecimal.\<close>

definition setAddressBytes32 :: "handle \<Rightarrow> string \<Rightarrow> string option \<Rightarrow> unit script" where
  "setAddressBytes32 h i newAddress =
     bindIO (addressArg newAddress) (\<lambda>a.
     providerTx h (\<lambda>self sender. sol_setAddress self sender i a))"

definition full_initialize_lending_pool :: "'n bignumber_js \<Rightarrow> string \<Rightarrow> bool \<Rightarrow> unit script" where
  "full_initialize_lending_pool bn pool verify = exitOnError (
     bindIO (currentPoolConfig pool) (\<lambda>poolConfig.
     let config = commonConfiguration poolConfig in
     bindIO (paramHere (ReserveAssets config)) (\<lambda>reserveAssets.
     bindIO (getSturdyIncentivesController None) (\<lambda>incentivesController.
     bindIO (getLendingPoolAddressesProvider None) (\<lambda>addressesProvider.
     bindIO (getSturdyProtocolDataProvider None) (\<lambda>testHelpers.
     bindIO (getPoolAdmin addressesProvider) (\<lambda>admin.
     bindIO (getPriceOracle_addr addressesProvider) (\<lambda>oracle.
     case reserveAssets of
       None \<Rightarrow> throwIO (Thrown ''Reserve assets is undefined. Check ReserveAssets configuration at config directory'')
     | Some assets \<Rightarrow>
     bindIO (getTreasuryAddress config) (\<lambda>treasuryAddress.
     bindIO (yieldAddressesOf pool) (\<lambda>yieldAddresses.
     thenIO (initReservesByHelper (reservesConfigOf bn poolConfig) assets
               (ATokenNamePrefix config) (StableDebtTokenNamePrefix config)
               (VariableDebtTokenNamePrefix config) (SymbolPrefix config)
               treasuryAddress (Some yieldAddresses) verify) (
     thenIO (configureReservesByHelper (reservesConfigOf bn poolConfig) assets testHelpers (Some admin)) (
     bindIO (paramHere (LendingPoolCollateralManager config)) (\<lambda>configuredManager.
     bindIO (getsIO (\<lambda>w. notFalsyOrZeroAddress w configuredManager)) (\<lambda>usable.
     bindIO (if usable then returnIO configuredManager
             else bindIO (deployLendingPoolCollateralManager verify) (\<lambda>collateralManager.
                  returnIO (Some (h_address collateralManager)))) (\<lambda>collateralManagerAddress.
     thenIO (setLendingPoolCollateralManager addressesProvider collateralManagerAddress) (
     bindIO (getSturdyProtocolDataProvider None) (\<lambda>sturdyProtocolDataProvider.
     thenIO (setAddressBytes32 addressesProvider
               ''0x0100000000000000000000000000000000000000000000000000000000000000''
               (Some (h_address sturdyProtocolDataProvider))) (
     bindIO (deployWalletBalancerProvider verify) (\<lambda>_.
     bindIO (deployUiPoolDataProvider (h_address incentivesController, oracle) verify)
       (\<lambda>uiPoolDataProvider.
     bindIO (deployUiIncentiveDataProvider verify) (\<lambda>uiIncentiveDataProvider.
     returnIO ())))))))))))))))))))))"

section \<open>The collateral adapter\<close>

text \<open>\<open>{ SYMBOL: getParamPerNetwork(poolConfig.FIELD, network), ... }\<close>: the value of a key may be
  \<open>undefined\<close>.\<close>

definition externalAssets ::
  "(string \<times> string jsobj option) list \<Rightarrow> string option jsobj script" where
  "externalAssets params =
     forIO params (\<lambda>(symbol, field).
       bindIO (configuredParam field) (\<lambda>v. returnIO (symbol, v)))"

definition reserveExternalAssetsOf :: "string \<Rightarrow> PoolConfiguration \<Rightarrow> string option jsobj script" where
  "reserveExternalAssetsOf pool poolConfig =
     (let config = commonConfiguration poolConfig in
      externalAssets
        (if pool = ''Sturdy'' then
           [(''stETH'', sturdyField Lido poolConfig),
            (''cvxFRAX_3CRV'', sturdyField FRAX_3CRV_LP poolConfig),
            (''cvxMIM_3CRV'', sturdyField MIM_3CRV_LP poolConfig),
            (''cvxDAI_USDC_USDT_SUSD'', sturdyField DAI_USDC_USDT_SUSD_LP poolConfig),
            (''cvxFRAX_USDC'', sturdyField FRAX_USDC_LP poolConfig),
            (''cvxTUSD_FRAXBP'', sturdyField TUSD_FRAXBP_LP poolConfig),
            (''auraBB_A3_USD'', sturdyField BAL_BB_A3_USD_LP poolConfig)]
         else
           [(''yvWFTM'', Some (WFTM config)),
            (''yvWETH'', Some (WETH config)),
            (''yvWBTC'', Some (WBTC config)),
            (''yvBOO'', fantomField BOO poolConfig),
            (''mooTOMB_MIMATIC'', fantomField TOMB_MIMATIC_LP poolConfig),
            (''mooBASED_MIMATIC'', fantomField BASED_MIMATIC_LP poolConfig),
            (''yvfBEETS'', fantomField fBEETS poolConfig),
            (''yvLINK'', fantomField LINK poolConfig),
            (''yvCRV'', CRV_field poolConfig),
            (''yvSPELL'', fantomField SPELL poolConfig)]))"

definition acceptableVaultsOf :: "string \<Rightarrow> address jsobj script" where
  "acceptableVaultsOf pool =
     vaultAddresses
       (if pool = ''Sturdy'' then
          [(''stETH'', getLidoVault),
           (''cvxFRAX_3CRV'', getConvexFRAX3CRVVault),
           (''cvxMIM_3CRV'', getConvexMIM3CRVVault),
           (''cvxDAI_USDC_USDT_SUSD'', getConvexDAIUSDCUSDTSUSDVault),
           (''cvxFRAX_USDC'', getConvexFRAXUSDCVault),
           (''cvxTUSD_FRAXBP'', getConvexTUSDFRAXBPVault),
           (''auraBB_A3_USD'', getAuraBBA3USDVault)]
        else
          [(''yvWFTM'', getYearnVault),
           (''yvWETH'', getYearnWETHVault),
           (''yvWBTC'', getYearnWBTCVault),
           (''yvBOO'', getYearnBOOVault),
           (''mooTOMB_MIMATIC'', getTombMiMaticBeefyVault),
           (''mooBASED_MIMATIC'', getBasedMiMaticBeefyVault),
           (''yvfBEETS'', getYearnFBEETSVault),
           (''yvLINK'', getYearnLINKVault),
           (''yvCRV'', getYearnCRVVault),
           (''yvSPELL'', getYearnSPELLVault)])"

text \<open>One round of the loop over the collateral reserves; \<open>reserveAssets\<close> may be \<open>undefined\<close>.\<close>

definition addCollateralAsset ::
  "handle \<Rightarrow> string option jsobj \<Rightarrow> address jsobj \<Rightarrow> string jsobj option \<Rightarrow> string \<Rightarrow> unit script" where
  "addCollateralAsset collateralAdapter externals vaults reserveAssets symbol = (case reserveAssets of
     None \<Rightarrow> throwIO (TypeError symbol)
   | Some assets \<Rightarrow>
       if \<not> truthy (obj_get assets symbol) then returnIO ()
       else bindIO (addressArg (Option.bind (obj_get externals symbol) (\<lambda>v. v))) (\<lambda>external.
            bindIO (addressArg (obj_get assets symbol)) (\<lambda>internal.
            bindIO (addressArg (obj_get vaults symbol)) (\<lambda>vault.
            callContract collateralAdapter ''addCollateralAsset''
              [Str external, Str internal, Str vault]))))"

definition collateralSymbols :: "IReserveParams jsobj \<Rightarrow> string list" where
  "collateralSymbols reserves =
     map fst (filter (\<lambda>(symbol, params). aTokenImpl params = ''ATokenForCollateral'') reserves)"

definition full_deploy_collateral_adapter :: "'n bignumber_js \<Rightarrow> string \<Rightarrow> bool \<Rightarrow> unit script" where
  "full_deploy_collateral_adapter bn pool verify =
     thenIO requireChainId (
     bindIO (deployCollateralAdapter verify) (\<lambda>collateralAdapter.
     bindIO (currentPoolConfig pool) (\<lambda>poolConfig.
     bindIO (paramHere (ReserveAssets (commonConfiguration poolConfig))) (\<lambda>reserveAssets.
     bindIO (reserveExternalAssetsOf pool poolConfig) (\<lambda>reserveExternalAssets.
     bindIO (acceptableVaultsOf pool) (\<lambda>acceptableVaults.
     bindIO (forIO (collateralSymbols (reservesConfigOf bn poolConfig))
               (addCollateralAsset collateralAdapter reserveExternalAssets acceptableVaults reserveAssets))
       (\<lambda>_. returnIO ())))))))"

section \<open>Managers\<close>

text \<open>A call whose arguments are addresses read from the configuration, and constants.\<close>

definition registerReward :: "handle \<Rightarrow> string jsobj option \<Rightarrow> nat \<Rightarrow> unit script" where
  "registerReward yieldManager field kind =
     bindIO (configuredParam field) (\<lambda>v.
     bindIO (addressArg v) (\<lambda>a.
     callContract yieldManager ''registerAsset'' [Str a, Str (showNat kind)]))"

definition setCurvePool :: "handle \<Rightarrow> ICommonConfiguration \<Rightarrow> string \<Rightarrow> address \<Rightarrow> unit script" where
  "setCurvePool yieldManager config symbol curvePool =
     bindIO (entryHere (ReserveAssets config) ''USDC'') (\<lambda>tokenIn.
     bindIO (entryHere (ReserveAssets config) symbol) (\<lambda>tokenOut.
     bindIO (addressArg tokenIn) (\<lambda>inAddress.
     bindIO (addressArg tokenOut) (\<lambda>outAddress.
     callContract yieldManager ''setCurvePool'' [Str inAddress, Str outAddress, Str curvePool]))))"

definition full_deploy_yield_manager :: "string \<Rightarrow> bool \<Rightarrow> unit script" where
  "full_deploy_yield_manager pool verify =
     thenIO requireChainId (
     bindIO (currentPoolConfig pool) (\<lambda>poolConfig.
     let config = commonConfiguration poolConfig;
         curve3Pool = ''0xbEbc44782C7dB0a1A60Cb6fe97d0b483032FF1C7'' in
     bindIO (deployYieldManager verify) (\<lambda>yieldManager.
     bindIO (getLendingPoolConfiguratorProxy None) (\<lambda>configurator.
     thenIO (callContract configurator ''registerVault'' [Str (h_address yieldManager)]) (
     bindIO (entryHere (ReserveAssets config) ''USDC'') (\<lambda>usdc.
     bindIO (addressArg usdc) (\<lambda>exchangeToken.
     thenIO (callContract yieldManager ''setExchangeToken'' [Str exchangeToken]) (
     thenIO (registerReward yieldManager (CRV_field poolConfig) 0) (
     thenIO (registerReward yieldManager (sturdyField CVX poolConfig) 0) (
     thenIO (registerReward yieldManager (Some (WETH config)) 0) (
     thenIO (registerReward yieldManager (sturdyField BAL poolConfig) 1) (
     thenIO (setCurvePool yieldManager config ''DAI'' curve3Pool) (
     thenIO (setCurvePool yieldManager config ''USDT'' curve3Pool) (
     bindIO (getLendingPoolAddressesProvider None) (\<lambda>addressProvider.
     bindIO theFirstSigner (\<lambda>processor.
     setAddress addressProvider ''YIELD_PROCESSOR'' (Some processor)))))))))))))))))"

text \<open>\<open>leverageManager.registerLevSwapper(getParamPerNetwork(ReserveAssets, network).SYMBOL, levSwap)\<close>\<close>

definition registerLevSwapper :: "handle \<Rightarrow> ICommonConfiguration \<Rightarrow> string \<Rightarrow> handle \<Rightarrow> unit script" where
  "registerLevSwapper leverageManager config symbol levSwap =
     bindIO (entryHere (ReserveAssets config) symbol) (\<lambda>v.
     bindIO (addressArg v) (\<lambda>a.
     callContract leverageManager ''registerLevSwapper'' [Str a, Str (h_address levSwap)]))"

text \<open>The vault, its leverage swapper with the liquidity token, the vault and the provider. A missing
  liquidity token is rejected with the arguments, before the swapper's libraries are deployed.\<close>

definition deployLevSwapFor ::
  "(string option \<Rightarrow> handle script) \<Rightarrow> (arg list \<Rightarrow> bool \<Rightarrow> handle script) \<Rightarrow> string jsobj option \<Rightarrow>
   handle \<Rightarrow> bool \<Rightarrow> handle script" where
  "deployLevSwapFor getVault deployLevSwap lp addressProvider verify =
     bindIO (getVault None) (\<lambda>vault.
     bindIO (configuredParam lp) (\<lambda>v.
     bindIO (addressArg v) (\<lambda>lpToken.
     deployLevSwap [Str lpToken, Str (h_address vault), Str (h_address addressProvider)] verify)))"

text \<open>The liquidity token gets the price source of the vault's internal token.\<close>

definition copyAssetSource ::
  "handle \<Rightarrow> ICommonConfiguration \<Rightarrow> string \<Rightarrow> string jsobj option \<Rightarrow> unit script" where
  "copyAssetSource sturdyOracle config symbol lp =
     bindIO (entryHere (ReserveAssets config) symbol) (\<lambda>internal.
     bindIO (getSourceOfAsset sturdyOracle internal) (\<lambda>(oracleAddress, validate).
     bindIO (configuredParam lp) (\<lambda>lpToken.
     setAssetSources sturdyOracle [lpToken] [Some oracleAddress] [False])))"

definition full_deploy_leverage_swap_manager :: "string \<Rightarrow> bool \<Rightarrow> unit script" where
  "full_deploy_leverage_swap_manager pool verify =
     thenIO requireChainId (
     bindIO (currentPoolConfig pool) (\<lambda>poolConfig.
     let config = commonConfiguration poolConfig;
         frax3crv = sturdyField FRAX_3CRV_LP poolConfig;
         susd = sturdyField DAI_USDC_USDT_SUSD_LP poolConfig;
         fraxusdc = sturdyField FRAX_USDC_LP poolConfig;
         mim3crv = sturdyField MIM_3CRV_LP poolConfig;
         tusdfraxbp = sturdyField TUSD_FRAXBP_LP poolConfig;
         aurabba3usd = sturdyField BAL_BB_A3_USD_LP poolConfig in
     bindIO (getSturdyOracle None) (\<lambda>sturdyOracle.
     bindIO (getLendingPoolAddressesProvider None) (\<lambda>addressProvider.
     bindIO (deployLeverageSwapManager verify) (\<lambda>leverageManager.
     bindIO (deployLevSwapFor getConvexFRAX3CRVVault deployFRAX3CRVLevSwap frax3crv
               addressProvider verify) (\<lambda>fraxLevSwap.
     thenIO (registerLevSwapper leverageManager config ''cvxFRAX_3CRV'' fraxLevSwap) (
     bindIO (deployLevSwapFor getConvexDAIUSDCUSDTSUSDVault deployDAIUSDCUSDTSUSDLevSwap susd
               addressProvider verify) (\<lambda>susdLevSwap.
     thenIO (registerLevSwapper leverageManager config ''cvxDAI_USDC_USDT_SUSD'' susdLevSwap) (
     bindIO (deployLevSwapFor getConvexFRAXUSDCVault deployFRAXUSDCLevSwap fraxusdc
               addressProvider verify) (\<lambda>fraxusdcLevSwap.
     thenIO (copyAssetSource sturdyOracle config ''cvxFRAX_USDC'' fraxusdc) (
     thenIO (registerLevSwapper leverageManager config ''cvxFRAX_USDC'' fraxusdcLevSwap) (
     bindIO (deployLevSwapFor getConvexMIM3CRVVault deployMIM3CRVLevSwap mim3crv
               addressProvider verify) (\<lambda>mim3crvLevSwap.
     thenIO (copyAssetSource sturdyOracle config ''cvxMIM_3CRV'' mim3crv) (
     thenIO (registerLevSwapper leverageManager config ''cvxMIM_3CRV'' mim3crvLevSwap) (
     bindIO (deployLevSwapFor getConvexTUSDFRAXBPVault deployTUSDFRAXBPLevSwap tusdfraxbp
               addressProvider verify) (\<lambda>tusdfraxbpLevSwap.
     thenIO (copyAssetSource sturdyOracle config ''cvxTUSD_FRAXBP'' tusdfraxbp) (
     thenIO (registerLevSwapper leverageManager config ''cvxTUSD_FRAXBP'' tusdfraxbpLevSwap) (
     bindIO (deployLevSwapFor getAuraBBA3USDVault deployAURABBA3USDLevSwap aurabba3usd
               addressProvider verify) (\<lambda>aurabba3usdLevSwap.
     registerLevSwapper leverageManager config ''auraBB_A3_USD'' aurabba3usdLevSwap)))))))))))))))))))"

text \<open>\<open>aprProvider.registerConvexReserve(getParamPerNetwork(ReserveAssets, network).SYMBOL, id, pool)\<close>\<close>

definition registerConvexReserve ::
  "handle \<Rightarrow> ICommonConfiguration \<Rightarrow> string \<Rightarrow> nat \<Rightarrow> address \<Rightarrow> unit script" where
  "registerConvexReserve aprProvider config symbol poolId lpPool =
     bindIO (entryHere (ReserveAssets config) symbol) (\<lambda>v.
     bindIO (addressArg v) (\<lambda>a.
     callContract aprProvider ''registerConvexReserve'' [Str a, Str (showNat poolId), Str lpPool]))"

definition full_deploy_sturdy_apr_data_provider :: "string \<Rightarrow> bool \<Rightarrow> unit script" where
  "full_deploy_sturdy_apr_data_provider pool verify =
     thenIO requireChainId (
     bindIO (currentPoolConfig pool) (\<lambda>poolConfig.
     let config = commonConfiguration poolConfig in
     bindIO (getLendingPoolAddressesProvider None) (\<lambda>addressesProvider.
     bindIO (getSturdyProtocolDataProvider None) (\<lambda>dataProvider.
     bindIO (deploySturdyAPRDataProvider [Str (h_address dataProvider)] verify) (\<lambda>aprProvider.
     thenIO (setAddress addressesProvider ''APR_PROVIDER'' (Some (h_address aprProvider))) (
     thenIO (registerConvexReserve aprProvider config ''cvxFRAX_3CRV'' 32
               ''0xd632f22692FaC7611d2AA1C0D552930D43CAEd3B'') (
     thenIO (registerConvexReserve aprProvider config ''cvxMIM_3CRV'' 40
               ''0x5a6A4D54456819380173272A5E8E9B9904BdF41B'') (
     thenIO (registerConvexReserve aprProvider config ''cvxDAI_USDC_USDT_SUSD'' 4
               ''0xA5407eAE9Ba41422680e2e00537571bcC53efBfD'') (
     registerConvexReserve aprProvider config ''cvxFRAX_USDC'' 100
       ''0xDcEF968d416a41Cdac0ED8702fAC8128A64241A2'')))))))))"

end
