(* ===== verification/VerifyTasks.thy ===== *)
theory VerifyTasks
  imports MarketInit
begin

text \<open>
  The verification tasks, \<open>tasks/verifications/1_general.ts\<close> and \<open>2_tokens.ts\<close>: each deployed contract
  is verified at Etherscan with the constructor arguments the task states.
\<close>

section \<open>verify:general\<close>

definition verifyOnly :: "string \<Rightarrow> handle \<Rightarrow> arg list \<Rightarrow> unit script" where
  "verifyOnly key h args = bindIO (verifyContract key h args) (\<lambda>_. returnIO ())"

text \<open>An upgradeability proxy, whose constructor argument is the addresses provider.\<close>

definition verifyProxy :: "address \<Rightarrow> handle \<Rightarrow> unit script" where
  "verifyProxy admin proxy =
     verifyOnly ''InitializableImmutableAdminUpgradeabilityProxy'' proxy [Str admin]"

definition getLendingPoolCollateralManager_addr :: "handle \<Rightarrow> address script" where
  "getLendingPoolCollateralManager_addr h = getAddress h ''COLLATERAL_MANAGER''"

text \<open>\<open>notFalsyOrZeroAddress(a) ? await getter(a) : await getter()\<close>\<close>

definition configuredOrRegistered ::
  "string jsobj \<Rightarrow> (string option \<Rightarrow> handle script) \<Rightarrow> handle script" where
  "configuredOrRegistered param getter =
     bindIO (paramHere param) (\<lambda>a.
     bindIO (getsIO (\<lambda>w. notFalsyOrZeroAddress w a)) (\<lambda>usable.
     if usable then getter a else getter None))"

text \<open>The constructor arguments stated for the oracle on a main network.\<close>

definition oracleVerificationArgs ::
  "'n bignumber_js \<Rightarrow> PoolConfiguration \<Rightarrow> arg list script" where
  "oracleVerificationArgs bn poolConfig =
     (let config = commonConfiguration poolConfig in
      bindIO (paramHere (FallbackOracle config)) (\<lambda>fallbackOracleAddress.
      bindIO (bindIO (getsIO (configuredPairs config)) liftSum) (\<lambda>(tokens, aggregators).
      bindIO (getQuoteCurrency config) (\<lambda>quote.
      returnIO [Strs tokens, Strs aggregators,
                Str (case fallbackOracleAddress of None \<Rightarrow> '''' | Some a \<Rightarrow> a), Str quote,
                Str (oracleQuoteUnit bn poolConfig)]))))"

text \<open>The part under the flag \<open>all\<close>.\<close>

definition verifyImplementations ::
  "'n bignumber_js \<Rightarrow> PoolConfiguration \<Rightarrow> address \<Rightarrow> handle \<Rightarrow> handle \<Rightarrow> handle \<Rightarrow> address \<Rightarrow> address \<Rightarrow>
   unit script" where
  "verifyImplementations bn poolConfig EMISSION_EXECUTOR addressesProvider addressesProviderRegistry
     oracle incentiveControllerAddress oracleAddress =
     (let config = commonConfiguration poolConfig in
      bindIO (getLendingPoolImpl None) (\<lambda>lendingPoolImpl.
      bindIO (getSturdyIncentivesControllerImpl None) (\<lambda>incentiveControllerImpl.
      bindIO (getSturdyTokenImpl None) (\<lambda>incentiveTokenImpl.
      bindIO (getWalletProvider None) (\<lambda>walletBalanceProvider.
      bindIO (getUiPoolDataProvider None) (\<lambda>uiPoolDataProvider.
      bindIO (getUiIncentiveDataProvider None) (\<lambda>uiIncentiveDataProvider.
      bindIO (configuredOrRegistered (LendingPoolConfigurator config) getLendingPoolConfiguratorImpl)
        (\<lambda>lendingPoolConfiguratorImpl.
      bindIO (configuredOrRegistered (LendingPoolCollateralManager config)
                getLendingPoolCollateralManagerImpl) (\<lambda>lendingPoolCollateralManagerImpl.
      bindIO (getSturdyProtocolDataProvider None) (\<lambda>dataProvider.
      thenIO (verifyOnly ''LendingPoolAddressesProvider'' addressesProvider [Str (MarketId config)]) (
      bindIO (getsIO network_name) (\<lambda>network.
      thenIO (if network \<noteq> ''main'' \<and> network \<noteq> ''ftm'' then verifyOnly ''PriceOracle'' oracle []
              else bindIO (oracleVerificationArgs bn poolConfig) (verifyOnly ''SturdyOracle'' oracle)) (
      thenIO (verifyOnly ''LendingPoolAddressesProviderRegistry'' addressesProviderRegistry []) (
      thenIO (verifyOnly ''LendingPool'' lendingPoolImpl []) (
      thenIO (verifyOnly ''LendingPoolConfigurator'' lendingPoolConfiguratorImpl []) (
      thenIO (verifyOnly ''LendingPoolCollateralManager'' lendingPoolCollateralManagerImpl []) (
      thenIO (verifyOnly ''StakedTokenIncentivesController'' incentiveControllerImpl
                [Str EMISSION_EXECUTOR]) (
      thenIO (verifyOnly ''SturdyToken'' incentiveTokenImpl []) (
      thenIO (verifyOnly ''SturdyProtocolDataProvider'' dataProvider
                [Str (h_address addressesProvider)]) (
      thenIO (verifyOnly ''WalletBalanceProvider'' walletBalanceProvider []) (
      thenIO (verifyOnly ''UiPoolDataProvider'' uiPoolDataProvider
                [Str incentiveControllerAddress, Str oracleAddress]) (
      verifyOnly ''UiIncentiveDataProvider'' uiIncentiveDataProvider []))))))))))))))))))))))"

text \<open>The vaults of the market.\<close>

definition verifyVaults :: "string \<Rightarrow> bool \<Rightarrow> handle \<Rightarrow> unit script" where
  "verifyVaults pool all addressesProvider =
     (if pool = ''Sturdy'' then
        bindIO (getAddress addressesProvider ''LIDO_VAULT'') (\<lambda>lidoVaultAddress.
        bindIO (getProxy lidoVaultAddress) (\<lambda>lidoVaultProxy.
        thenIO (if all then bindIO (getLidoVaultImpl None) (\<lambda>impl. verifyOnly ''LidoVault'' impl [])
                else returnIO ()) (
        verifyProxy (h_address addressesProvider) lidoVaultProxy)))
      else if pool = ''Fantom'' then
        bindIO (getAddress addressesProvider ''YEARN_VAULT'') (\<lambda>yearnVaultAddress.
        bindIO (getAddress addressesProvider ''YEARN_WETH_VAULT'') (\<lambda>yearnWETHVaultAddress.
        bindIO (getAddress addressesProvider ''YEARN_WBTC_VAULT'') (\<lambda>yearnWBTCVaultAddress.
        bindIO (getProxy yearnVaultAddress) (\<lambda>yearnVaultProxy.
        bindIO (getProxy yearnWETHVaultAddress) (\<lambda>yearnWETHVaultProxy.
        bindIO (getProxy yearnWBTCVaultAddress) (\<lambda>yearnWBTCVaultProxy.
        thenIO (if all then
                  bindIO (getYearnVaultImpl None) (\<lambda>yearnVaultImpl.
                  thenIO (verifyOnly ''YearnVault'' yearnVaultImpl []) (
                  bindIO (getYearnWETHVaultImpl None) (\<lambda>yearnWETHVaultImpl.
                  thenIO (verifyOnly ''YearnWETHVault'' yearnWETHVaultImpl []) (
                  bindIO (getYearnWBTCVaultImpl None) (\<lambda>yearnWBTCVaultImpl.
                  verifyOnly ''YearnWBTCVault'' yearnWBTCVaultImpl [])))))
                else returnIO ()) (
        thenIO (verifyProxy (h_address addressesProvider) yearnVaultProxy) (
        thenIO (verifyProxy (h_address addressesProvider) yearnWETHVaultProxy) (
        verifyProxy (h_address addressesProvider) yearnWBTCVaultProxy)))))))))
      else returnIO ())"

definition verify_general :: "'n bignumber_js \<Rightarrow> bool \<Rightarrow> string \<Rightarrow> unit script" where
  "verify_general bn all pool =
     bindIO (currentPoolConfig pool) (\<lambda>poolConfig.
     let config = commonConfiguration poolConfig in
     bindIO theFirstSigner (\<lambda>EMISSION_EXECUTOR.
     bindIO (getLendingPoolAddressesProvider None) (\<lambda>addressesProvider.
     bindIO (configuredOrRegistered (ProviderRegistry config) getLendingPoolAddressesProviderRegistry)
       (\<lambda>addressesProviderRegistry.
     bindIO (getLendingPool_addr addressesProvider) (\<lambda>lendingPoolAddress.
     bindIO (getLendingPoolConfigurator_addr addressesProvider) (\<lambda>lendingPoolConfiguratorAddress.
     bindIO (getLendingPoolCollateralManager_addr addressesProvider) (\<lambda>_.
     bindIO (getIncentiveController addressesProvider) (\<lambda>incentiveControllerAddress.
     bindIO (getIncentiveToken addressesProvider) (\<lambda>incentiveTokenAddress.
     bindIO (getPriceOracle_addr addressesProvider) (\<lambda>oracleAddress.
     bindIO (getSturdyOracle None) (\<lambda>oracle.
     bindIO (getProxy lendingPoolAddress) (\<lambda>lendingPoolProxy.
     bindIO (getProxy lendingPoolConfiguratorAddress) (\<lambda>lendingPoolConfiguratorProxy.
     bindIO (getProxy incentiveControllerAddress) (\<lambda>incentiveControllerProxy.
     bindIO (getProxy incentiveTokenAddress) (\<lambda>incentiveTokenProxy.
     thenIO (if all then
               verifyImplementations bn poolConfig EMISSION_EXECUTOR addressesProvider
                 addressesProviderRegistry oracle incentiveControllerAddress oracleAddress
             else returnIO ()) (
     thenIO (verifyProxy (h_address addressesProvider) lendingPoolProxy) (
     thenIO (verifyProxy (h_address addressesProvider) lendingPoolConfiguratorProxy) (
     thenIO (verifyProxy (h_address addressesProvider) incentiveControllerProxy) (
     thenIO (verifyProxy (h_address addressesProvider) incentiveTokenProxy) (
     verifyVaults pool all addressesProvider))))))))))))))))))))"

section \<open>verify:tokens\<close>

text \<open>The constructor arguments stated for an interest rate strategy.\<close>

definition strategyVerificationArgs :: "address \<Rightarrow> IInterestRateStrategyParams \<Rightarrow> arg list" where
  "strategyVerificationArgs provider strat =
     [Str provider, Str (optimalUtilizationRate strat), Str (baseVariableBorrowRate strat),
      Str (variableRateSlope1 strat), Str (variableRateSlope2 strat), Str (stableRateSlope1 strat),
      Str (stableRateSlope2 strat)]"

text \<open>One round of the loop over the assets of the network.\<close>

definition verifyToken ::
  "IReserveParams jsobj \<Rightarrow> handle \<Rightarrow> handle \<Rightarrow> handle \<Rightarrow> string \<times> address \<Rightarrow> unit script" where
  "verifyToken reservesConfig addressesProvider pool configurator = (\<lambda>(token, tokenAddress).
     bindIO (viewContract pool ''getReserveData.stableDebtTokenAddress'' tokenAddress) (\<lambda>stableDebtTokenAddress.
     bindIO (viewContract pool ''getReserveData.variableDebtTokenAddress'' tokenAddress) (\<lambda>variableDebtTokenAddress.
     bindIO (viewContract pool ''getReserveData.aTokenAddress'' tokenAddress) (\<lambda>aTokenAddress.
     bindIO (viewContract pool ''getReserveData.interestRateStrategyAddress'' tokenAddress)
       (\<lambda>interestRateStrategyAddress.
     case obj_get reservesConfig token of
       None \<Rightarrow> throwIO (Thrown (''ReservesConfig not found for '' @ token @ '' token''))
     | Some params \<Rightarrow>
     bindIO (getProxy stableDebtTokenAddress) (\<lambda>stableDebtProxy.
     thenIO (verifyProxy (h_address configurator) stableDebtProxy) (
     bindIO (getProxy variableDebtTokenAddress) (\<lambda>variableDebtProxy.
     thenIO (verifyProxy (h_address configurator) variableDebtProxy) (
     bindIO (getProxy aTokenAddress) (\<lambda>aTokenProxy.
     thenIO (verifyProxy (h_address configurator) aTokenProxy) (
     bindIO (getInterestRateStrategy (Some interestRateStrategyAddress)) (\<lambda>rateStrategy.
     thenIO (verifyOnly ''DefaultReserveInterestRateStrategy'' rateStrategy
               (strategyVerificationArgs (h_address addressesProvider) (strategy params))) (
     bindIO (getAddressById ''AToken'') (\<lambda>aToken.
     bindIO (getAddressById ''ATokenForCollateral'') (\<lambda>aTokenForCollateral.
     bindIO (getAToken aToken) (\<lambda>h1.
     thenIO (verifyOnly ''AToken'' h1 []) (
     bindIO (getAToken aTokenForCollateral) (\<lambda>h2.
     thenIO (verifyOnly ''ATokenForCollateral'' h2 []) (
     bindIO (getStableDebtToken aToken) (\<lambda>h3.
     thenIO (verifyOnly ''StableDebtToken'' h3 []) (
     bindIO (getVariableDebtToken aToken) (\<lambda>h4.
     verifyOnly ''VariableDebtToken'' h4 []))))))))))))))))))))))"

definition verify_tokens :: "'n bignumber_js \<Rightarrow> string \<Rightarrow> unit script" where
  "verify_tokens bn pool =
     bindIO (currentPoolConfig pool) (\<lambda>poolConfig.
     let config = commonConfiguration poolConfig in
     bindIO (getTreasuryAddress config) (\<lambda>treasuryAddress.
     bindIO (getLendingPoolAddressesProvider None) (\<lambda>addressesProvider.
     bindIO (getLendingPool_addr addressesProvider) (\<lambda>poolAddress.
     bindIO getFirstSigner (\<lambda>signer1.
     bindIO (getLendingPoolConfigurator_addr addressesProvider) (\<lambda>configuratorAddress.
     bindIO getFirstSigner (\<lambda>signer2.
     bindIO (paramHere (ReserveAssets config)) (\<lambda>v. case v of
       None \<Rightarrow> throwIO (TypeError ''ReserveAssets'')
     | Some assets \<Rightarrow>
         bindIO (forIO assets (verifyToken (reservesConfigOf bn poolConfig) addressesProvider
                   (connectAt ''LendingPool'' poolAddress signer1)
                   (connectAt ''LendingPoolConfigurator'' configuratorAddress signer2)))
           (\<lambda>_. returnIO ())))))))))"

end
