(* ===== verification/Migrations.thy ===== *)
theory Migrations
  imports VerifyTasks
begin

text \<open>
  The migrations \<open>tasks/migrations/sturdy.mainnet.ts\<close> and \<open>sturdy.ftm.ts\<close>: the tasks of the full
  deployment in order, the first error ending the run. Console output is left out. The tasks that
  deploy one implementation alone, \<open>tasks/migrations/sturdy.*Impl.ts\<close>, come first.
\<close>

section \<open>Implementations alone\<close>

definition sturdy_lendingPoolConfigImpl :: "bool \<Rightarrow> unit script" where
  "sturdy_lendingPoolConfigImpl verify = bindIO (deployLendingPoolConfiguratorImpl verify) (\<lambda>_. returnIO ())"

definition sturdy_lendingPoolCollateralImpl :: "bool \<Rightarrow> unit script" where
  "sturdy_lendingPoolCollateralImpl verify =
     bindIO (deployLendingPoolCollateralManagerImpl verify) (\<lambda>_. returnIO ())"

definition sturdy_incentiveControllerImpl :: "bool \<Rightarrow> unit script" where
  "sturdy_incentiveControllerImpl verify =
     bindIO theFirstSigner (\<lambda>EMISSION_EXECUTOR.
     bindIO (deploySturdyIncentivesControllerImpl [Str EMISSION_EXECUTOR] verify) (\<lambda>_. returnIO ()))"

definition sturdy_incentiveTokenImpl :: "bool \<Rightarrow> unit script" where
  "sturdy_incentiveTokenImpl verify = bindIO (deploySturdyTokenImpl verify) (\<lambda>_. returnIO ())"

definition sturdy_lidoVaultImpl :: "bool \<Rightarrow> unit script" where
  "sturdy_lidoVaultImpl verify = bindIO (deployLidoVaultImpl verify) (\<lambda>_. returnIO ())"

section \<open>Migrations\<close>

definition requireVerification :: "bool \<Rightarrow> unit script" where
  "requireVerification verify = (if verify then checkVerification else returnIO ())"

definition sturdy_mainnet :: "'n bignumber_js \<Rightarrow> bool \<Rightarrow> bool \<Rightarrow> unit script" where
  "sturdy_mainnet bn verify skipRegistry =
     (let POOL_NAME = ''Sturdy'' in
      thenIO (requireVerification verify) (
      thenIO (full_deploy_address_provider POOL_NAME verify skipRegistry) (
      thenIO (full_deploy_lending_pool POOL_NAME verify) (
      thenIO (full_deploy_oracles bn POOL_NAME verify) (
      thenIO (full_data_provider verify) (
      thenIO (full_deploy_incentives_impl verify) (
      thenIO full_deploy_LDO_stable_yield_distributor (
      thenIO full_deploy_variable_yield_distributor (
      thenIO (full_deploy_lido_vault POOL_NAME verify) (
      thenIO (full_deploy_convex_frax_3crv_vault POOL_NAME verify) (
      thenIO (full_deploy_convex_mim_3crv_vault POOL_NAME verify) (
      thenIO (full_deploy_convex_dai_usdc_usdt_susd_vault POOL_NAME verify) (
      thenIO (full_deploy_convex_frax_usdc_vault POOL_NAME verify) (
      thenIO (full_deploy_convex_tusd_fraxbp_vault POOL_NAME verify) (
      thenIO (full_deploy_aura_bb_a3_usd_vault POOL_NAME verify) (
      thenIO (full_initialize_lending_pool bn POOL_NAME verify) (
      thenIO (full_deploy_collateral_adapter bn POOL_NAME verify) (
      thenIO (full_deploy_vault_helper verify) (
      thenIO (full_deploy_yield_manager POOL_NAME verify) (
      thenIO (full_deploy_leverage_swap_manager POOL_NAME verify) (
      full_deploy_sturdy_apr_data_provider POOL_NAME verify)))))))))))))))))))))"

definition sturdy_ftm :: "'n bignumber_js \<Rightarrow> bool \<Rightarrow> bool \<Rightarrow> unit script" where
  "sturdy_ftm bn verify skipRegistry =
     (let POOL_NAME = ''Fantom'' in
      thenIO (requireVerification verify) (
      thenIO (full_deploy_address_provider POOL_NAME False skipRegistry) (
      thenIO (full_deploy_lending_pool POOL_NAME False) (
      thenIO (full_deploy_oracles bn POOL_NAME False) (
      thenIO (full_data_provider False) (
      thenIO (full_deploy_incentives_impl False) (
      thenIO (full_deploy_yearn_vault POOL_NAME False) (
      thenIO (full_deploy_beefy_eth_vault POOL_NAME False) (
      thenIO (full_deploy_yearn_weth_vault POOL_NAME False) (
      thenIO (full_deploy_yearn_wbtc_vault POOL_NAME False) (
      thenIO (full_deploy_yearn_boo_vault POOL_NAME False) (
      thenIO (full_deploy_tomb_ftm_beefy_vault POOL_NAME False) (
      thenIO (full_deploy_tomb_mimatic_beefy_vault POOL_NAME False) (
      thenIO (full_deploy_yearn_fbeets_vault POOL_NAME False) (
      thenIO (full_deploy_yearn_link_vault POOL_NAME False) (
      thenIO (full_deploy_yearn_crv_vault POOL_NAME False) (
      thenIO (full_deploy_yearn_spell_vault POOL_NAME False) (
      thenIO (full_deploy_based_mimatic_beefy_vault POOL_NAME False) (
      thenIO (full_deploy_beefy_mim2crv_vault POOL_NAME False) (
      thenIO (full_initialize_lending_pool bn POOL_NAME False) (
      thenIO (full_deploy_collateral_adapter bn POOL_NAME False) (
      thenIO (full_deploy_liquidator False) (
      thenIO (full_deploy_vault_helper False) (
      if verify then thenIO (verify_general bn True POOL_NAME) (verify_tokens bn POOL_NAME)
      else returnIO ()))))))))))))))))))))))))"

end
