(* ===== verification/TestnetTasks.thy ===== *)
theory TestnetTasks
  imports Migrations
begin

text \<open>
  The deployment of a test network: \<open>tasks/testnet/*\<close> and the migrations \<open>sturdy.testnet.ts\<close>,
  \<open>sturdy.ftm.testnet.ts\<close> and \<open>sturdy.testnet.{dai,usdc,usdt}.ts\<close>. The stages follow the full
  deployment, with the mock price oracle in place of \<open>SturdyOracle\<close> and without treasuries. The
  stages 0, 1 and 4 have the bodies of the full ones.
\<close>

section \<open>Reading the configuration\<close>

text \<open>\<open>poolConfig.FIELD[network]\<close> and \<open>poolConfig.ReserveAssets[network]['SYMBOL']\<close>, with \<open>network\<close> the
  forked network if there is one: no alias for local networks.\<close>

definition rawParam :: "string jsobj option \<Rightarrow> string option script" where
  "rawParam field = (case field of
     None \<Rightarrow> throwIO (TypeError ''undefined'')
   | Some param \<Rightarrow> getsIO (\<lambda>w. obj_get param (currentNetwork w)))"

definition rawEntry :: "string jsobj jsobj \<Rightarrow> string \<Rightarrow> string option script" where
  "rawEntry param symbol =
     bindIO (getsIO (\<lambda>w. obj_get param (currentNetwork w))) (\<lambda>v. case v of
       None \<Rightarrow> throwIO (TypeError symbol)
     | Some entries \<Rightarrow> returnIO (obj_get entries symbol))"

text \<open>\<open>poolConfig.Mocks.AllAssetsInitialPrices['SYMBOL']\<close>: every pool spreads the same object.\<close>

definition mockPrice :: "'n bignumber_js \<Rightarrow> string \<Rightarrow> string option" where
  "mockPrice bn symbol = obj_get (MOCK_CHAINLINK_AGGREGATORS_PRICES bn) symbol"

section \<open>The mock price oracle\<close>

text \<open>
  \<open>contracts/mocks/oracle/PriceOracle.sol\<close> keeps one price per asset, zero when never set; anybody
  may set it. Its storage is read off the calls made to an oracle of this run.
\<close>

fun priceCall :: "address \<Rightarrow> (address \<Rightarrow> string) \<Rightarrow> address \<times> string \<times> arg list \<Rightarrow> (address \<Rightarrow> string)" where
  "priceCall self prices (a, method, [Str asset, Str price]) =
     (if a = self \<and> method = ''setAssetPrice'' then prices(asset := price) else prices)"
| "priceCall self prices call = prices"

definition mockPricesAt :: "address \<Rightarrow> world \<Rightarrow> address \<Rightarrow> string" where
  "mockPricesAt self w = foldl (priceCall self) (\<lambda>_. ''0'') (call_log w)"

text \<open>\<open>priceOracle.setAssetPrice(asset, price)\<close>: ethers rejects an undefined price.\<close>

definition setAssetPrice :: "handle \<Rightarrow> string option \<Rightarrow> string option \<Rightarrow> unit script" where
  "setAssetPrice oracle asset price =
     bindIO (addressArg asset) (\<lambda>a. case price of
       None \<Rightarrow> throwIO (InvalidArgument ''price'')
     | Some p \<Rightarrow> callContract oracle ''setAssetPrice'' [Str a, Str p])"

section \<open>Stages 0 to 5\<close>

definition testnet_deploy_address_provider_registry :: "string \<Rightarrow> bool \<Rightarrow> unit script" where
  "testnet_deploy_address_provider_registry pool verify =
     full_deploy_address_provider_registry pool verify"

definition testnet_deploy_address_provider :: "string \<Rightarrow> bool \<Rightarrow> bool \<Rightarrow> unit script" where
  "testnet_deploy_address_provider pool verify skipRegistry =
     full_deploy_address_provider pool verify skipRegistry"

text \<open>The configurator's implementation is left uninitialized here.\<close>

definition configuratorImplementation :: "ICommonConfiguration \<Rightarrow> bool \<Rightarrow> address option script" where
  "configuratorImplementation config verify =
     bindIO (paramHere (LendingPoolConfigurator config)) (\<lambda>configured.
     bindIO (getsIO (\<lambda>w. notFalsyOrZeroAddress w configured)) (\<lambda>usable.
     if usable then returnIO configured
     else bindIO (deployLendingPoolConfigurator verify) (\<lambda>impl. returnIO (Some (h_address impl)))))"

definition testnet_deploy_lending_pool :: "string \<Rightarrow> bool \<Rightarrow> unit script" where
  "testnet_deploy_lending_pool pool verify =
     bindIO (currentPoolConfig pool) (\<lambda>poolConfig.
     let config = commonConfiguration poolConfig in
     bindIO (getLendingPoolAddressesProvider None) (\<lambda>addressesProvider.
     bindIO (implementationOr (LendingPool config) deployLendingPool addressesProvider verify)
       (\<lambda>lendingPoolImplAddress.
     thenIO (setLendingPoolImpl addressesProvider lendingPoolImplAddress) (
     bindIO (getLendingPool_addr addressesProvider) (\<lambda>a.
     bindIO (getLendingPool (Some a)) (\<lambda>lendingPoolProxy.
     thenIO (insertContractAddressInDb ''LendingPool'' (h_address lendingPoolProxy)) (
     bindIO (configuratorImplementation config verify) (\<lambda>lendingPoolConfiguratorImplAddress.
     thenIO (setLendingPoolConfiguratorImpl addressesProvider lendingPoolConfiguratorImplAddress) (
     bindIO (getLendingPoolConfigurator_addr addressesProvider) (\<lambda>b.
     bindIO (getLendingPoolConfiguratorProxy (Some b)) (\<lambda>lendingPoolConfiguratorProxy.
     thenIO (insertContractAddressInDb ''LendingPoolConfigurator''
               (h_address lendingPoolConfiguratorProxy)) (
     bindIO (deployStableAndVariableTokensHelper [] verify) (\<lambda>_.
     bindIO (deployATokensAndRatesHelper [Str (h_address lendingPoolConfiguratorProxy)] verify)
       (\<lambda>_. returnIO ()))))))))))))))"

text \<open>The object literal handed to \<open>setInitialAssetPricesInOracle\<close>: each key with the reserve asset it
  reads, \<open>undefined\<close> when the network has none. One key reads another symbol.\<close>

definition pricedSymbols :: "(string \<times> string) list" where
  "pricedSymbols =
     map (\<lambda>s. (s, s))
       [''DAI'', ''USDC'', ''fUSDT'', ''USDT'', ''stETH'', ''WETH'', ''yvWFTM'', ''yvWETH'', ''yvWBTC'',
        ''yvBOO'', ''mooTOMB_FTM'', ''mooTOMB_MIMATIC'', ''mooBASED_MIMATIC'', ''yvfBEETS'', ''yvLINK'',
        ''yvCRV'', ''yvSPELL'', ''mooWETH'']
     @ [(''mooMIM_2CRV'', ''mooMIM2_CRV'')]
     @ map (\<lambda>s. (s, s))
       [''yvRETH_WSTETH'', ''cvxRETH_WSTETH'', ''cvxFRAX_3CRV'', ''cvxSTECRV'', ''cvxDOLA_3CRV'',
        ''cvxMIM_3CRV'', ''cvxDAI_USDC_USDT_SUSD'', ''cvxHBTC_WBTC'', ''cvxIRON_BANK'', ''cvxFRAX_USDC'',
        ''auraDAI_USDC_USDT'', ''cvxTUSD_FRAXBP'']"

definition pricedAssets :: "string jsobj \<Rightarrow> string \<Rightarrow> address option jsobj" where
  "pricedAssets reserveAssets usdAddress =
     map (\<lambda>(key, symbol). (key, obj_get reserveAssets symbol)) pricedSymbols @ [(''USD'', Some usdAddress)]"

definition testnet_deploy_oracles :: "'n bignumber_js \<Rightarrow> string \<Rightarrow> bool \<Rightarrow> unit script" where
  "testnet_deploy_oracles bn pool verify =
     bindIO (currentPoolConfig pool) (\<lambda>poolConfig.
     let config = commonConfiguration poolConfig in
     bindIO (getLendingPoolAddressesProvider None) (\<lambda>addressesProvider.
     bindIO (getGenesisPoolAdmin config) (\<lambda>admin.
     bindIO (configuredParam (Some (LendingRateOracle config))) (\<lambda>lendingRateOracleAddress.
     bindIO (getsIO (\<lambda>w. getParamPerNetwork (ReserveAssets config) (currentNetwork w) w)) (\<lambda>reserveAssets.
     bindIO (deployPriceOracle False) (\<lambda>fallbackOracle.
     thenIO (callContract fallbackOracle ''setEthUsdPrice''
               [Str (MockUsdPriceInWei (ProtocolGlobalParams config))]) (
     case reserveAssets of None \<Rightarrow> throwIO (TypeError ''DAI'') | Some assets \<Rightarrow>
     thenIO (setInitialAssetPricesInOracle (MOCK_CHAINLINK_AGGREGATORS_PRICES bn)
               (pricedAssets assets (UsdAddress (ProtocolGlobalParams config))) fallbackOracle) (
     bindIO (getsIO (\<lambda>w. notFalsyOrZeroAddress w lendingRateOracleAddress)) (\<lambda>rateOracleKnown.
     bindIO (if rateOracleKnown then getLendingRateOracle lendingRateOracleAddress
             else bindIO (deployLendingRateOracle verify) (\<lambda>lendingRateOracle.
                  thenIO (setInitialMarketRatesInRatesOracleByHelper
                            (LendingRateOracleRatesCommon config) assets lendingRateOracle admin)
                    (returnIO lendingRateOracle)))
       (\<lambda>lendingRateOracle.
     thenIO (setPriceOracle addressesProvider (Some (h_address fallbackOracle)))
       (setLendingRateOracle addressesProvider (Some (h_address lendingRateOracle)))))))))))))"

definition testnet_data_provider :: "bool \<Rightarrow> unit script" where
  "testnet_data_provider verify = full_data_provider verify"

definition testnet_deploy_incentives_impl :: "bool \<Rightarrow> unit script" where
  "testnet_deploy_incentives_impl verify = exitOnError
     (bindIO theFirstSigner (\<lambda>EMISSION_EXECUTOR.
      bindIO (deploySturdyIncentivesController [Str EMISSION_EXECUTOR] verify) (\<lambda>incentives.
      bindIO (deploySturdyToken False) (\<lambda>sturdyToken. returnIO ()))))"

section \<open>Vaults\<close>

text \<open>The vault is deployed and registered at the configurator.\<close>

definition registerDeployed :: "handle script \<Rightarrow> handle script" where
  "registerDeployed deployVault =
     bindIO deployVault (\<lambda>vault.
     bindIO (getLendingPoolConfiguratorProxy None) (\<lambda>configurator.
     thenIO (callContract configurator ''registerVault'' [Str (h_address vault)])
       (returnIO vault)))"

definition deployVaultTask :: "handle script \<Rightarrow> unit script" where
  "deployVaultTask deployVault =
     thenIO requireChainId (bindIO (registerDeployed deployVault) (\<lambda>_. returnIO ()))"

text \<open>One price on the registered mock oracle.\<close>

definition setReservePrice ::
  "'n bignumber_js \<Rightarrow> ICommonConfiguration \<Rightarrow> handle \<Rightarrow> string \<Rightarrow> unit script" where
  "setReservePrice bn config oracle symbol =
     bindIO (rawEntry (ReserveAssets config) symbol) (\<lambda>asset.
     setAssetPrice oracle asset (mockPrice bn symbol))"

definition setTokenPrice ::
  "'n bignumber_js \<Rightarrow> string jsobj option \<Rightarrow> handle \<Rightarrow> string \<Rightarrow> unit script" where
  "setTokenPrice bn field oracle symbol =
     bindIO (rawParam field) (\<lambda>asset. setAssetPrice oracle asset (mockPrice bn symbol))"

text \<open>The tasks that price the vault's asset: an optional underlying token first.\<close>

definition deployPricedVaultTask ::
  "'n bignumber_js \<Rightarrow> string \<Rightarrow> handle script \<Rightarrow>
   (PoolConfiguration \<Rightarrow> (string jsobj option \<times> string) list) \<Rightarrow> string \<Rightarrow> unit script" where
  "deployPricedVaultTask bn pool deployVault tokens symbol =
     thenIO requireChainId (
     bindIO (currentPoolConfig pool) (\<lambda>poolConfig.
     bindIO (registerDeployed deployVault) (\<lambda>_.
     bindIO (getPriceOracle None) (\<lambda>priceOracleInstance.
     thenIO (forIO (tokens poolConfig) (\<lambda>(field, token).
               setTokenPrice bn field priceOracleInstance token))
       (setReservePrice bn (commonConfiguration poolConfig) priceOracleInstance symbol)))))"

definition testnet_deploy_lido_vault :: "bool \<Rightarrow> unit script" where
  "testnet_deploy_lido_vault verify = deployVaultTask (deployLidoVault verify)"

definition testnet_deploy_yearn_vault :: "bool \<Rightarrow> unit script" where
  "testnet_deploy_yearn_vault verify = deployVaultTask (deployYearnVault verify)"

definition testnet_deploy_yearn_weth_vault :: "bool \<Rightarrow> unit script" where
  "testnet_deploy_yearn_weth_vault verify = deployVaultTask (deployYearnWETHVault verify)"

definition testnet_deploy_yearn_wbtc_vault :: "bool \<Rightarrow> unit script" where
  "testnet_deploy_yearn_wbtc_vault verify = deployVaultTask (deployYearnWBTCVault verify)"

definition testnet_deploy_yearn_boo_vault :: "bool \<Rightarrow> unit script" where
  "testnet_deploy_yearn_boo_vault verify = deployVaultTask (deployYearnBOOVault verify)"

definition testnet_deploy_tomb_ftm_beefy_vault :: "'n bignumber_js \<Rightarrow> string \<Rightarrow> bool \<Rightarrow> unit script" where
  "testnet_deploy_tomb_ftm_beefy_vault bn pool verify =
     deployPricedVaultTask bn pool (deployTombFTMBeefyVault verify)
       (\<lambda>poolConfig. [(fantomField TOMB poolConfig, ''TOMB'')]) ''mooTOMB_FTM''"

definition testnet_deploy_tomb_mimatic_beefy_vault :: "'n bignumber_js \<Rightarrow> string \<Rightarrow> bool \<Rightarrow> unit script" where
  "testnet_deploy_tomb_mimatic_beefy_vault bn pool verify =
     deployPricedVaultTask bn pool (deployTombMiMaticBeefyVault verify)
       (\<lambda>poolConfig. [(fantomField MIMATIC poolConfig, ''MIMATIC'')]) ''mooTOMB_MIMATIC''"

definition testnet_deploy_yearn_fbeets_vault :: "'n bignumber_js \<Rightarrow> string \<Rightarrow> bool \<Rightarrow> unit script" where
  "testnet_deploy_yearn_fbeets_vault bn pool verify =
     deployPricedVaultTask bn pool (deployYearnFBeetsVault verify)
       (\<lambda>poolConfig. [(fantomField BEETS poolConfig, ''BEETS'')]) ''yvfBEETS''"

definition testnet_deploy_yearn_link_vault :: "'n bignumber_js \<Rightarrow> string \<Rightarrow> bool \<Rightarrow> unit script" where
  "testnet_deploy_yearn_link_vault bn pool verify =
     deployPricedVaultTask bn pool (deployYearnLINKVault verify)
       (\<lambda>poolConfig. []) ''yvLINK''"

definition testnet_deploy_yearn_crv_vault :: "'n bignumber_js \<Rightarrow> string \<Rightarrow> bool \<Rightarrow> unit script" where
  "testnet_deploy_yearn_crv_vault bn pool verify =
     deployPricedVaultTask bn pool (deployYearnCRVVault verify)
       (\<lambda>poolConfig. []) ''yvCRV''"

definition testnet_deploy_yearn_spell_vault :: "'n bignumber_js \<Rightarrow> string \<Rightarrow> bool \<Rightarrow> unit script" where
  "testnet_deploy_yearn_spell_vault bn pool verify =
     deployPricedVaultTask bn pool (deployYearnSPELLVault verify)
       (\<lambda>poolConfig. []) ''yvSPELL''"

definition testnet_deploy_based_mimatic_beefy_vault :: "'n bignumber_js \<Rightarrow> string \<Rightarrow> bool \<Rightarrow> unit script" where
  "testnet_deploy_based_mimatic_beefy_vault bn pool verify =
     deployPricedVaultTask bn pool (deployBasedMiMaticBeefyVault verify)
       (\<lambda>poolConfig. [(fantomField BASED poolConfig, ''BASED'')]) ''mooBASED_MIMATIC''"

text \<open>The Beefy WETH vault reads the price back, by the aliased network name.\<close>

definition testnet_deploy_beefy_eth_vault :: "'n bignumber_js \<Rightarrow> string \<Rightarrow> bool \<Rightarrow> unit script" where
  "testnet_deploy_beefy_eth_vault bn pool verify =
     thenIO requireChainId (
     bindIO (currentPoolConfig pool) (\<lambda>poolConfig.
     let config = commonConfiguration poolConfig in
     bindIO (registerDeployed (deployBeefyETHVault verify)) (\<lambda>_.
     bindIO (getPriceOracle None) (\<lambda>priceOracleInstance.
     thenIO (setReservePrice bn config priceOracleInstance ''mooWETH'') (
     bindIO (entryHere (ReserveAssets config) ''mooWETH'') (logAssetPrice priceOracleInstance))))))"

section \<open>Stage 8\<close>

text \<open>
  The call of \<open>initReservesByHelper\<close> still has the arguments of an older signature: the admin and
  the yield distributors are two arguments too many. The callee's \<open>treasuryAddress\<close> is the admin, its
  \<open>yieldAddresses\<close> the treasury's address (a string, which has no property of a symbol's name), its
  \<open>verify\<close> the object of yield addresses, which counts as true.
\<close>

definition testnetYieldAddresses :: "string \<Rightarrow> address jsobj script" where
  "testnetYieldAddresses pool =
     vaultAddresses
       (if pool = ''Sturdy'' then []
        else
          [(''yvWFTM'', getYearnVault),
           (''yvWETH'', getYearnWETHVault),
           (''yvWBTC'', getYearnWBTCVault),
           (''yvBOO'', getYearnBOOVault),
           (''mooTOMB_FTM'', getTombFtmBeefyVault),
           (''mooTOMB_MIMATIC'', getTombMiMaticBeefyVault),
           (''yvFBEETS'', getYearnFBEETSVault),
           (''yvLINK'', getYearnLINKVault),
           (''yvCRV'', getYearnCRVVault),
           (''yvSPELL'', getYearnSPELLVault)])"

definition stringAsObject :: "string option \<Rightarrow> address jsobj option" where
  "stringAsObject s = map_option (\<lambda>_. []) s"

definition testnet_initialize_lending_pool :: "'n bignumber_js \<Rightarrow> string \<Rightarrow> bool \<Rightarrow> unit script" where
  "testnet_initialize_lending_pool bn pool verify = exitOnError (
     bindIO (currentPoolConfig pool) (\<lambda>poolConfig.
     let config = commonConfiguration poolConfig in
     bindIO (paramHere (ReserveAssets config)) (\<lambda>reserveAssets.
     bindIO (paramHere (IncentivesController config)) (\<lambda>configuredController.
     bindIO (if truthy configuredController then returnIO (the configuredController)
             else bindIO (getSturdyIncentivesController None) (\<lambda>h. returnIO (h_address h)))
       (\<lambda>incentivesController.
     bindIO (getLendingPoolAddressesProvider None) (\<lambda>addressesProvider.
     bindIO (getSturdyProtocolDataProvider None) (\<lambda>testHelpers.
     bindIO (getPoolAdmin addressesProvider) (\<lambda>admin.
     bindIO (getPriceOracle_addr addressesProvider) (\<lambda>oracle.
     case reserveAssets of
       None \<Rightarrow> throwIO (Thrown ''Reserve assets is undefined. Check ReserveAssets configuration at config directory'')
     | Some assets \<Rightarrow>
     bindIO (getTreasuryAddress config) (\<lambda>treasuryAddress.
     bindIO (testnetYieldAddresses pool) (\<lambda>yieldAddresses.
     thenIO (initReservesByHelper (reservesConfigOf bn poolConfig) assets
               (ATokenNamePrefix config) (StableDebtTokenNamePrefix config)
               (VariableDebtTokenNamePrefix config) (SymbolPrefix config)
               (Some admin) (stringAsObject treasuryAddress) True) (
     thenIO (configureReservesByHelper (reservesConfigOf bn poolConfig) assets testHelpers (Some admin)) (
     bindIO (paramHere (LendingPoolCollateralManager config)) (\<lambda>configuredManager.
     bindIO (getsIO (\<lambda>w. notFalsyOrZeroAddress w configuredManager)) (\<lambda>usable.
     bindIO (if usable then returnIO configuredManager
             else bindIO (deployLendingPoolCollateralManager verify) (\<lambda>collateralManager.
                  returnIO (Some (h_address collateralManager)))) (\<lambda>collateralManagerAddress.
     thenIO (setLendingPoolCollateralManager addressesProvider collateralManagerAddress) (
     bindIO (getSturdyProtocolDataProvider None) (\<lambda>sturdyProtocolDataProvider.
     thenIO (setAddressBytes32 addressesProvider
               ''0x0100000000000000000000000000000000000000000000000000000000000000''
               (Some (h_address sturdyProtocolDataProvider))) (
     bindIO (deployWalletBalancerProvider verify) (\<lambda>_.
     bindIO (deployUiPoolDataProvider (incentivesController, oracle) verify) (\<lambda>uiPoolDataProvider.
     bindIO (deployUiIncentiveDataProvider verify) (\<lambda>uiIncentiveDataProvider.
     returnIO ()))))))))))))))))))))))"

definition testnetExternalAssets :: "string \<Rightarrow> PoolConfiguration \<Rightarrow> string option jsobj script" where
  "testnetExternalAssets pool poolConfig =
     (let config = commonConfiguration poolConfig in
      externalAssets
        (if pool = ''Sturdy'' then [(''stETH'', sturdyField Lido poolConfig)]
         else
           [(''yvWFTM'', Some (WFTM config)),
            (''yvWETH'', Some (WETH config)),
            (''yvWBTC'', Some (WBTC config)),
            (''yvBOO'', fantomField BOO poolConfig),
            (''mooTOMB_FTM'', fantomField TOMB_FTM_LP poolConfig),
            (''mooTOMB_MIMATIC'', fantomField TOMB_MIMATIC_LP poolConfig),
            (''yvFBEETS'', fantomField fBEETS poolConfig),
            (''yvLINK'', fantomField LINK poolConfig),
            (''yvCRV'', CRV_field poolConfig),
            (''yvSPELL'', fantomField SPELL poolConfig)]))"

definition testnetAcceptableVaults :: "string \<Rightarrow> address jsobj script" where
  "testnetAcceptableVaults pool =
     vaultAddresses
       (if pool = ''Sturdy'' then [(''stETH'', getLidoVault)]
        else
          [(''yvWFTM'', getYearnVault),
           (''yvWETH'', getYearnWETHVault),
           (''yvWBTC'', getYearnWBTCVault),
           (''yvBOO'', getYearnBOOVault),
           (''mooTOMB_FTM'', getTombFtmBeefyVault),
           (''mooTOMB_MIMATIC'', getTombMiMaticBeefyVault),
           (''yvFBEETS'', getYearnFBEETSVault),
           (''yvLINK'', getYearnLINKVault),
           (''yvCRV'', getYearnCRVVault),
           (''yvSPELL'', getYearnSPELLVault)])"

definition testnet_deploy_collateral_adapter :: "'n bignumber_js \<Rightarrow> string \<Rightarrow> bool \<Rightarrow> unit script" where
  "testnet_deploy_collateral_adapter bn pool verify =
     thenIO requireChainId (
     bindIO (deployCollateralAdapter verify) (\<lambda>collateralAdapter.
     bindIO (currentPoolConfig pool) (\<lambda>poolConfig.
     bindIO (paramHere (ReserveAssets (commonConfiguration poolConfig))) (\<lambda>reserveAssets.
     bindIO (testnetExternalAssets pool poolConfig) (\<lambda>reserveExternalAssets.
     bindIO (testnetAcceptableVaults pool) (\<lambda>acceptableVaults.
     bindIO (forIO (collateralSymbols (reservesConfigOf bn poolConfig))
               (addCollateralAsset collateralAdapter reserveExternalAssets acceptableVaults reserveAssets))
       (\<lambda>_. returnIO ())))))))"

section \<open>Migrations\<close>

text \<open>No stage gets the flag \<open>verify\<close>, which only decides whether the sources are verified at the end.\<close>

definition sturdy_testnet :: "'n bignumber_js \<Rightarrow> bool \<Rightarrow> bool \<Rightarrow> unit script" where
  "sturdy_testnet bn verify skipRegistry =
     (let POOL_NAME = ''Sturdy'' in
      thenIO (requireVerification verify) (
      thenIO (testnet_deploy_address_provider POOL_NAME False skipRegistry) (
      thenIO (testnet_deploy_lending_pool POOL_NAME False) (
      thenIO (testnet_deploy_oracles bn POOL_NAME False) (
      thenIO (testnet_data_provider False) (
      thenIO (testnet_deploy_incentives_impl False) (
      thenIO (testnet_deploy_lido_vault False) (
      thenIO (testnet_initialize_lending_pool bn POOL_NAME False) (
      thenIO (testnet_deploy_collateral_adapter bn POOL_NAME False) (
      if verify then thenIO (verify_general bn True POOL_NAME) (verify_tokens bn POOL_NAME)
      else returnIO ()))))))))))"

definition sturdy_ftm_testnet :: "'n bignumber_js \<Rightarrow> bool \<Rightarrow> bool \<Rightarrow> unit script" where
  "sturdy_ftm_testnet bn verify skipRegistry =
     (let POOL_NAME = ''Fantom'' in
      thenIO (requireVerification verify) (
      thenIO (testnet_deploy_address_provider POOL_NAME False skipRegistry) (
      thenIO (testnet_deploy_lending_pool POOL_NAME False) (
      thenIO (testnet_deploy_oracles bn POOL_NAME False) (
      thenIO (testnet_data_provider False) (
      thenIO (testnet_deploy_incentives_impl False) (
      thenIO (testnet_deploy_yearn_vault False) (
      thenIO (testnet_deploy_beefy_eth_vault bn POOL_NAME False) (
      thenIO (testnet_deploy_yearn_weth_vault False) (
      thenIO (testnet_deploy_yearn_wbtc_vault False) (
      thenIO (testnet_deploy_yearn_boo_vault False) (
      thenIO (testnet_deploy_tomb_ftm_beefy_vault bn POOL_NAME False) (
      thenIO (testnet_deploy_tomb_mimatic_beefy_vault bn POOL_NAME False) (
      thenIO (testnet_deploy_yearn_fbeets_vault bn POOL_NAME False) (
      thenIO (testnet_deploy_yearn_link_vault bn POOL_NAME False) (
      thenIO (testnet_deploy_yearn_crv_vault bn POOL_NAME False) (
      thenIO (testnet_deploy_yearn_spell_vault bn POOL_NAME False) (
      thenIO (testnet_deploy_based_mimatic_beefy_vault bn POOL_NAME False) (
      thenIO (testnet_initialize_lending_pool bn POOL_NAME False) (
      thenIO (testnet_deploy_collateral_adapter bn POOL_NAME False) (
      if verify then thenIO (verify_general bn True POOL_NAME) (verify_tokens bn POOL_NAME)
      else returnIO ())))))))))))))))))))))"

end
