(* ===== verification/ReserveConfiguration.thy ===== *)
theory ReserveConfiguration
  imports World "HOL-Library.Word"
begin

unbundle bit_operations_syntax

text \<open>
  \<open>contracts/protocol/libraries/configuration/ReserveConfiguration.sol\<close>: the configuration of a
  reserve packed into one 256 bit word. The locale \<open>bit_field\<close> states what a mask and a start
  position have to satisfy for the read and the write of a field, proves once that a write
  is read back and leaves every other bit alone, and is interpreted for each of the ten fields.
\<close>

section \<open>Fields of a word\<close>

type_synonym uint256 = "256 word"

definition put_field :: "uint256 \<Rightarrow> nat \<Rightarrow> uint256 \<Rightarrow> uint256 \<Rightarrow> uint256" where
  "put_field msk start v data = (data AND msk) OR push_bit start v"

definition get_field :: "uint256 \<Rightarrow> nat \<Rightarrow> uint256 \<Rightarrow> uint256" where
  "get_field msk start data = drop_bit start (data AND NOT msk)"

definition get_flag :: "uint256 \<Rightarrow> uint256 \<Rightarrow> bool" where
  "get_flag msk data \<longleftrightarrow> data AND NOT msk \<noteq> 0"

definition flag_word :: "bool \<Rightarrow> uint256" where
  "flag_word b = (if b then 1 else 0)"

text \<open>The mask clears exactly the bits of the field.\<close>

locale bit_field =
  fixes msk :: uint256 and start :: nat and width :: nat
  assumes mask_field: "msk = NOT (push_bit start (mask width))" and inside: "start + width \<le> 256"
begin

lemma bit_mask: "i < 256 \<Longrightarrow> bit msk i \<longleftrightarrow> \<not> (start \<le> i \<and> i < start + width)"
  by (auto simp: mask_field bit_simps)

lemma bit_value:
  assumes "unat v < 2 ^ width" and "bit (v :: uint256) j"
  shows "j < width"
proof -
  have "take_bit width (unat v) = unat v" using assms(1) by (simp add: take_bit_nat_eq_self_iff)
  moreover have "bit (unat v) j" using assms(2) by (simp add: bit_unsigned_iff)
  ultimately show ?thesis by (metis bit_take_bit_iff)
qed

lemma bit_put_field:
  assumes "unat v < 2 ^ width" and "i < 256"
  shows "bit (put_field msk start v data) i =
    (if start \<le> i \<and> i < start + width then bit v (i - start) else bit data i)"
  using bit_value [OF assms(1), of "i - start"] assms(2) bit_mask [OF assms(2)]
  by (auto simp: put_field_def bit_or_iff bit_and_iff bit_push_bit_iff)

lemma bit_get_field:
  "bit (get_field msk start data) i \<longleftrightarrow> i < width \<and> bit data (start + i)"
  using inside bit_mask [of "start + i"] bit_imp_le_length [of data "start + i"]
  by (auto simp: get_field_def bit_drop_bit_eq bit_and_iff bit_not_iff)

lemma get_put_field:
  assumes "unat v < 2 ^ width"
  shows "get_field msk start (put_field msk start v data) = v"
proof (rule bit_eqI)
  fix i
  show "bit (get_field msk start (put_field msk start v data)) i = bit v i"
    using inside bit_put_field [OF assms, of "start + i"] bit_value [OF assms, of i]
    by (auto simp: bit_get_field)
qed

lemma flag_bits:
  "get_flag msk data \<longleftrightarrow> (\<exists>i. start \<le> i \<and> i < start + width \<and> bit data i)"
proof -
  have "bit (data AND NOT msk) i \<longleftrightarrow> start \<le> i \<and> i < start + width \<and> bit data i" for i
    using inside bit_mask [of i] bit_imp_le_length [of data i] by (auto simp: bit_and_iff bit_not_iff)
  then show ?thesis
    using inside by (auto simp: get_flag_def bit_eq_iff [of _ 0] intro: less_le_trans)
qed

lemma flag_put_field:
  assumes "width = 1"
  shows "get_flag msk (put_field msk start (flag_word b) data) \<longleftrightarrow> b"
proof -
  have "unat (flag_word b) < 2 ^ width" by (simp add: flag_word_def assms)
  from bit_put_field [OF this] inside assms show ?thesis
    by (auto simp: flag_bits flag_word_def bit_1_iff le_Suc_eq split: if_splits)
qed

text \<open>A write leaves every other field alone.\<close>

lemma put_field_other:
  assumes v: "unat v < 2 ^ width" and other: "m' = NOT (push_bit start' (mask width'))"
    and disjoint: "start + width \<le> start' \<or> start' + width' \<le> start"
  shows "put_field msk start v data AND NOT m' = data AND NOT m'"
proof (rule bit_eqI)
  fix i assume "possible_bit TYPE(uint256) i"
  then have "i < 256" by simp
  from bit_put_field [OF v this] disjoint
  show "bit (put_field msk start v data AND NOT m') i = bit (data AND NOT m') i"
    by (auto simp: other bit_and_iff bit_push_bit_iff bit_mask_iff)
qed

end

section \<open>The masks and positions\<close>

definition LTV_MASK :: uint256 where
  "LTV_MASK =
     0xFFFFFFFFFFFFFFFFFFFFFFFFFFFFFFFFFFFFFFFFFFFFFFFFFFFFFFFFFFFF0000"

definition LIQUIDATION_THRESHOLD_MASK :: uint256 where
  "LIQUIDATION_THRESHOLD_MASK =
     0xFFFFFFFFFFFFFFFFFFFFFFFFFFFFFFFFFFFFFFFFFFFFFFFFFFFFFFFF0000FFFF"

definition LIQUIDATION_BONUS_MASK :: uint256 where
  "LIQUIDATION_BONUS_MASK =
     0xFFFFFFFFFFFFFFFFFFFFFFFFFFFFFFFFFFFFFFFFFFFFFFFFFFFF0000FFFFFFFF"

definition DECIMALS_MASK :: uint256 where
  "DECIMALS_MASK =
     0xFFFFFFFFFFFFFFFFFFFFFFFFFFFFFFFFFFFFFFFFFFFFFFFFFF00FFFFFFFFFFFF"

definition ACTIVE_MASK :: uint256 where
  "ACTIVE_MASK =
     0xFFFFFFFFFFFFFFFFFFFFFFFFFFFFFFFFFFFFFFFFFFFFFFFFFEFFFFFFFFFFFFFF"

definition FROZEN_MASK :: uint256 where
  "FROZEN_MASK =
     0xFFFFFFFFFFFFFFFFFFFFFFFFFFFFFFFFFFFFFFFFFFFFFFFFFDFFFFFFFFFFFFFF"

definition BORROWING_MASK :: uint256 where
  "BORROWING_MASK =
     0xFFFFFFFFFFFFFFFFFFFFFFFFFFFFFFFFFFFFFFFFFFFFFFFFFBFFFFFFFFFFFFFF"

definition STABLE_BORROWING_MASK :: uint256 where
  "STABLE_BORROWING_MASK =
     0xFFFFFFFFFFFFFFFFFFFFFFFFFFFFFFFFFFFFFFFFFFFFFFFFF7FFFFFFFFFFFFFF"

definition RESERVE_FACTOR_MASK :: uint256 where
  "RESERVE_FACTOR_MASK =
     0xFFFFFFFFFFFFFFFFFFFFFFFFFFFFFFFFFFFFFFFFFFFF0000FFFFFFFFFFFFFFFF"

definition COLLATERAL_MASK :: uint256 where
  "COLLATERAL_MASK =
     0xFFFFFFFFFFFFFFFFFFFFFFFFFFFFFFFFFFFFFFFFFFFFFFFFEFFFFFFFFFFFFFFF"

definition MAX_VALID_LTV :: uint256 where
  "MAX_VALID_LTV = 65535"

definition MAX_VALID_LIQUIDATION_THRESHOLD :: uint256 where
  "MAX_VALID_LIQUIDATION_THRESHOLD = 65535"

definition MAX_VALID_LIQUIDATION_BONUS :: uint256 where
  "MAX_VALID_LIQUIDATION_BONUS = 65535"

definition MAX_VALID_DECIMALS :: uint256 where
  "MAX_VALID_DECIMALS = 255"

definition MAX_VALID_RESERVE_FACTOR :: uint256 where
  "MAX_VALID_RESERVE_FACTOR = 65535"

lemmas max_valid_defs = MAX_VALID_LTV_def MAX_VALID_LIQUIDATION_THRESHOLD_def
  MAX_VALID_LIQUIDATION_BONUS_def MAX_VALID_DECIMALS_def MAX_VALID_RESERVE_FACTOR_def

lemma mask_defs:
  "LTV_MASK = NOT (push_bit 0 (mask 16))"
  "LIQUIDATION_THRESHOLD_MASK = NOT (push_bit 16 (mask 16))"
  "LIQUIDATION_BONUS_MASK = NOT (push_bit 32 (mask 16))"
  "DECIMALS_MASK = NOT (push_bit 48 (mask 8))"
  "ACTIVE_MASK = NOT (push_bit 56 (mask 1))"
  "FROZEN_MASK = NOT (push_bit 57 (mask 1))"
  "BORROWING_MASK = NOT (push_bit 58 (mask 1))"
  "STABLE_BORROWING_MASK = NOT (push_bit 59 (mask 1))"
  "RESERVE_FACTOR_MASK = NOT (push_bit 64 (mask 16))"
  "COLLATERAL_MASK = NOT (push_bit 60 (mask 1))"
  by (simp_all add: LTV_MASK_def LIQUIDATION_THRESHOLD_MASK_def LIQUIDATION_BONUS_MASK_def DECIMALS_MASK_def ACTIVE_MASK_def FROZEN_MASK_def BORROWING_MASK_def STABLE_BORROWING_MASK_def RESERVE_FACTOR_MASK_def COLLATERAL_MASK_def
      push_bit_eq_mult mask_eq_exp_minus_1)

section \<open>Writing and reading the configuration\<close>

definition setLtv :: "uint256 \<Rightarrow> uint256 \<Rightarrow> error + uint256" where
  "setLtv data ltv =
     (if ltv \<le> MAX_VALID_LTV then Inr (put_field LTV_MASK 0 ltv data)
      else Inl (Revert ''RC_INVALID_LTV''))"

definition getLtv :: "uint256 \<Rightarrow> uint256" where
  "getLtv data = get_field LTV_MASK 0 data"

definition setLiquidationThreshold :: "uint256 \<Rightarrow> uint256 \<Rightarrow> error + uint256" where
  "setLiquidationThreshold data threshold =
     (if threshold \<le> MAX_VALID_LIQUIDATION_THRESHOLD then Inr (put_field LIQUIDATION_THRESHOLD_MASK 16 threshold data)
      else Inl (Revert ''RC_INVALID_LIQ_THRESHOLD''))"

definition getLiquidationThreshold :: "uint256 \<Rightarrow> uint256" where
  "getLiquidationThreshold data = get_field LIQUIDATION_THRESHOLD_MASK 16 data"

definition setLiquidationBonus :: "uint256 \<Rightarrow> uint256 \<Rightarrow> error + uint256" where
  "setLiquidationBonus data bonus =
     (if bonus \<le> MAX_VALID_LIQUIDATION_BONUS then Inr (put_field LIQUIDATION_BONUS_MASK 32 bonus data)
      else Inl (Revert ''RC_INVALID_LIQ_BONUS''))"

definition getLiquidationBonus :: "uint256 \<Rightarrow> uint256" where
  "getLiquidationBonus data = get_field LIQUIDATION_BONUS_MASK 32 data"

definition setDecimals :: "uint256 \<Rightarrow> uint256 \<Rightarrow> error + uint256" where
  "setDecimals data decimals =
     (if decimals \<le> MAX_VALID_DECIMALS then Inr (put_field DECIMALS_MASK 48 decimals data)
      else Inl (Revert ''RC_INVALID_DECIMALS''))"

definition getDecimals :: "uint256 \<Rightarrow> uint256" where
  "getDecimals data = get_field DECIMALS_MASK 48 data"

definition setReserveFactor :: "uint256 \<Rightarrow> uint256 \<Rightarrow> error + uint256" where
  "setReserveFactor data reserveFactor =
     (if reserveFactor \<le> MAX_VALID_RESERVE_FACTOR then Inr (put_field RESERVE_FACTOR_MASK 64 reserveFactor data)
      else Inl (Revert ''RC_INVALID_RESERVE_FACTOR''))"

definition getReserveFactor :: "uint256 \<Rightarrow> uint256" where
  "getReserveFactor data = get_field RESERVE_FACTOR_MASK 64 data"

definition setActive :: "uint256 \<Rightarrow> bool \<Rightarrow> uint256" where
  "setActive data enabled = put_field ACTIVE_MASK 56 (flag_word enabled) data"

definition getActive :: "uint256 \<Rightarrow> bool" where
  "getActive data = get_flag ACTIVE_MASK data"

definition setFrozen :: "uint256 \<Rightarrow> bool \<Rightarrow> uint256" where
  "setFrozen data enabled = put_field FROZEN_MASK 57 (flag_word enabled) data"

definition getFrozen :: "uint256 \<Rightarrow> bool" where
  "getFrozen data = get_flag FROZEN_MASK data"

definition setBorrowingEnabled :: "uint256 \<Rightarrow> bool \<Rightarrow> uint256" where
  "setBorrowingEnabled data enabled = put_field BORROWING_MASK 58 (flag_word enabled) data"

definition getBorrowingEnabled :: "uint256 \<Rightarrow> bool" where
  "getBorrowingEnabled data = get_flag BORROWING_MASK data"

definition setStableRateBorrowingEnabled :: "uint256 \<Rightarrow> bool \<Rightarrow> uint256" where
  "setStableRateBorrowingEnabled data enabled = put_field STABLE_BORROWING_MASK 59 (flag_word enabled) data"

definition getStableRateBorrowingEnabled :: "uint256 \<Rightarrow> bool" where
  "getStableRateBorrowingEnabled data = get_flag STABLE_BORROWING_MASK data"

definition setCollateralEnabled :: "uint256 \<Rightarrow> bool \<Rightarrow> uint256" where
  "setCollateralEnabled data enabled = put_field COLLATERAL_MASK 60 (flag_word enabled) data"

definition getCollateralEnabled :: "uint256 \<Rightarrow> bool" where
  "getCollateralEnabled data = get_flag COLLATERAL_MASK data"

text \<open>\<open>getFlags\<close>, \<open>getFlagsMemory\<close>, \<open>getParams\<close> and \<open>getParamsMemory\<close>\<close>

definition getFlags :: "uint256 \<Rightarrow> bool \<times> bool \<times> bool \<times> bool \<times> bool" where
  "getFlags data =
     (get_flag ACTIVE_MASK data, get_flag FROZEN_MASK data, get_flag BORROWING_MASK data,
      get_flag STABLE_BORROWING_MASK data, get_flag COLLATERAL_MASK data)"

definition getParams :: "uint256 \<Rightarrow> uint256 \<times> uint256 \<times> uint256 \<times> uint256 \<times> uint256" where
  "getParams data =
     (get_field LTV_MASK 0 data, get_field LIQUIDATION_THRESHOLD_MASK 16 data,
      get_field LIQUIDATION_BONUS_MASK 32 data, get_field DECIMALS_MASK 48 data,
      get_field RESERVE_FACTOR_MASK 64 data)"

section \<open>The configuration as a record\<close>

text \<open>What the packed word stands for: one component per field.\<close>

record reserve_config =
  rc_ltv :: uint256
  rc_threshold :: uint256
  rc_bonus :: uint256
  rc_decimals :: uint256
  rc_factor :: uint256
  rc_active :: bool
  rc_frozen :: bool
  rc_borrowing :: bool
  rc_stable :: bool
  rc_collateral :: bool

definition config_of :: "uint256 \<Rightarrow> reserve_config" where
  "config_of data =
     \<lparr>rc_ltv = getLtv data, rc_threshold = getLiquidationThreshold data,
      rc_bonus = getLiquidationBonus data, rc_decimals = getDecimals data,
      rc_factor = getReserveFactor data, rc_active = getActive data, rc_frozen = getFrozen data,
      rc_borrowing = getBorrowingEnabled data, rc_stable = getStableRateBorrowingEnabled data,
      rc_collateral = getCollateralEnabled data\<rparr>"

interpretation ltv: bit_field LTV_MASK 0 16
  by unfold_locales (simp_all add: mask_defs)

interpretation liquidationthreshold: bit_field LIQUIDATION_THRESHOLD_MASK 16 16
  by unfold_locales (simp_all add: mask_defs)

interpretation liquidationbonus: bit_field LIQUIDATION_BONUS_MASK 32 16
  by unfold_locales (simp_all add: mask_defs)

interpretation decimals: bit_field DECIMALS_MASK 48 8
  by unfold_locales (simp_all add: mask_defs)

interpretation reservefactor: bit_field RESERVE_FACTOR_MASK 64 16
  by unfold_locales (simp_all add: mask_defs)

interpretation active: bit_field ACTIVE_MASK 56 1
  by unfold_locales (simp_all add: mask_defs)

interpretation frozen: bit_field FROZEN_MASK 57 1
  by unfold_locales (simp_all add: mask_defs)

interpretation borrowing: bit_field BORROWING_MASK 58 1
  by unfold_locales (simp_all add: mask_defs)

interpretation stablerateborrowing: bit_field STABLE_BORROWING_MASK 59 1
  by unfold_locales (simp_all add: mask_defs)

interpretation collateral: bit_field COLLATERAL_MASK 60 1
  by unfold_locales (simp_all add: mask_defs)

lemmas getter_defs = getLtv_def getLiquidationThreshold_def getLiquidationBonus_def getDecimals_def
  getReserveFactor_def getActive_def getFrozen_def getBorrowingEnabled_def
  getStableRateBorrowingEnabled_def getCollateralEnabled_def

lemma unat_flag_word [simp]: "unat (flag_word b) < 2"
  by (simp add: flag_word_def)

text \<open>Each write is an update of one component.\<close>

lemmas ltv_others =
  ltv.put_field_other [OF _ mask_defs(2)] ltv.put_field_other [OF _ mask_defs(3)]
  ltv.put_field_other [OF _ mask_defs(4)] ltv.put_field_other [OF _ mask_defs(5)]
  ltv.put_field_other [OF _ mask_defs(6)] ltv.put_field_other [OF _ mask_defs(7)]
  ltv.put_field_other [OF _ mask_defs(8)] ltv.put_field_other [OF _ mask_defs(9)]
  ltv.put_field_other [OF _ mask_defs(10)]

lemma config_of_setLtv:
  assumes "setLtv data ltv = Inr data'"
  shows "config_of data' = (config_of data)\<lparr>rc_ltv := ltv\<rparr>"
proof -
  from assms have "unat ltv < 2 ^ 16" and "data' = put_field LTV_MASK 0 ltv data"
    by (simp_all add: setLtv_def max_valid_defs word_le_nat_alt split: if_splits)
  then show ?thesis
    by (simp add: config_of_def getter_defs ltv.get_put_field)
      (simp add: get_field_def get_flag_def ltv_others)
qed

lemmas liquidationthreshold_others =
  liquidationthreshold.put_field_other [OF _ mask_defs(1)]
  liquidationthreshold.put_field_other [OF _ mask_defs(3)]
  liquidationthreshold.put_field_other [OF _ mask_defs(4)]
  liquidationthreshold.put_field_other [OF _ mask_defs(5)]
  liquidationthreshold.put_field_other [OF _ mask_defs(6)]
  liquidationthreshold.put_field_other [OF _ mask_defs(7)]
  liquidationthreshold.put_field_other [OF _ mask_defs(8)]
  liquidationthreshold.put_field_other [OF _ mask_defs(9)]
  liquidationthreshold.put_field_other [OF _ mask_defs(10)]

lemma config_of_setLiquidationThreshold:
  assumes "setLiquidationThreshold data threshold = Inr data'"
  shows "config_of data' = (config_of data)\<lparr>rc_threshold := threshold\<rparr>"
proof -
  from assms have "unat threshold < 2 ^ 16" and "data' = put_field LIQUIDATION_THRESHOLD_MASK 16 threshold data"
    by (simp_all add: setLiquidationThreshold_def max_valid_defs word_le_nat_alt split: if_splits)
  then show ?thesis
    by (simp add: config_of_def getter_defs liquidationthreshold.get_put_field)
      (simp add: get_field_def get_flag_def liquidationthreshold_others)
qed

lemmas liquidationbonus_others =
  liquidationbonus.put_field_other [OF _ mask_defs(1)] liquidationbonus.put_field_other [OF
  _ mask_defs(2)] liquidationbonus.put_field_other [OF _ mask_defs(4)]
  liquidationbonus.put_field_other [OF _ mask_defs(5)] liquidationbonus.put_field_other [OF
  _ mask_defs(6)] liquidationbonus.put_field_other [OF _ mask_defs(7)]
  liquidationbonus.put_field_other [OF _ mask_defs(8)] liquidationbonus.put_field_other [OF
  _ mask_defs(9)] liquidationbonus.put_field_other [OF _ mask_defs(10)]

lemma config_of_setLiquidationBonus:
  assumes "setLiquidationBonus data bonus = Inr data'"
  shows "config_of data' = (config_of data)\<lparr>rc_bonus := bonus\<rparr>"
proof -
  from assms have "unat bonus < 2 ^ 16" and "data' = put_field LIQUIDATION_BONUS_MASK 32 bonus data"
    by (simp_all add: setLiquidationBonus_def max_valid_defs word_le_nat_alt split: if_splits)
  then show ?thesis
    by (simp add: config_of_def getter_defs liquidationbonus.get_put_field)
      (simp add: get_field_def get_flag_def liquidationbonus_others)
qed

lemmas decimals_others =
  decimals.put_field_other [OF _ mask_defs(1)] decimals.put_field_other [OF _ mask_defs(2)]
  decimals.put_field_other [OF _ mask_defs(3)] decimals.put_field_other [OF _ mask_defs(5)]
  decimals.put_field_other [OF _ mask_defs(6)] decimals.put_field_other [OF _ mask_defs(7)]
  decimals.put_field_other [OF _ mask_defs(8)] decimals.put_field_other [OF _ mask_defs(9)]
  decimals.put_field_other [OF _ mask_defs(10)]

lemma config_of_setDecimals:
  assumes "setDecimals data decimals = Inr data'"
  shows "config_of data' = (config_of data)\<lparr>rc_decimals := decimals\<rparr>"
proof -
  from assms have "unat decimals < 2 ^ 8" and "data' = put_field DECIMALS_MASK 48 decimals data"
    by (simp_all add: setDecimals_def max_valid_defs word_le_nat_alt split: if_splits)
  then show ?thesis
    by (simp add: config_of_def getter_defs decimals.get_put_field)
      (simp add: get_field_def get_flag_def decimals_others)
qed

lemmas reservefactor_others =
  reservefactor.put_field_other [OF _ mask_defs(1)] reservefactor.put_field_other [OF _
  mask_defs(2)] reservefactor.put_field_other [OF _ mask_defs(3)]
  reservefactor.put_field_other [OF _ mask_defs(4)] reservefactor.put_field_other [OF _
  mask_defs(5)] reservefactor.put_field_other [OF _ mask_defs(6)]
  reservefactor.put_field_other [OF _ mask_defs(7)] reservefactor.put_field_other [OF _
  mask_defs(8)] reservefactor.put_field_other [OF _ mask_defs(10)]

lemma config_of_setReserveFactor:
  assumes "setReserveFactor data reserveFactor = Inr data'"
  shows "config_of data' = (config_of data)\<lparr>rc_factor := reserveFactor\<rparr>"
proof -
  from assms have "unat reserveFactor < 2 ^ 16" and "data' = put_field RESERVE_FACTOR_MASK 64 reserveFactor data"
    by (simp_all add: setReserveFactor_def max_valid_defs word_le_nat_alt split: if_splits)
  then show ?thesis
    by (simp add: config_of_def getter_defs reservefactor.get_put_field)
      (simp add: get_field_def get_flag_def reservefactor_others)
qed

lemmas active_others =
  active.put_field_other [OF _ mask_defs(1)] active.put_field_other [OF _ mask_defs(2)]
  active.put_field_other [OF _ mask_defs(3)] active.put_field_other [OF _ mask_defs(4)]
  active.put_field_other [OF _ mask_defs(6)] active.put_field_other [OF _ mask_defs(7)]
  active.put_field_other [OF _ mask_defs(8)] active.put_field_other [OF _ mask_defs(9)]
  active.put_field_other [OF _ mask_defs(10)]

lemma config_of_setActive [simp]: "config_of (setActive data b) = (config_of data)\<lparr>rc_active := b\<rparr>"
  by (simp add: setActive_def config_of_def getter_defs active.flag_put_field)
    (simp add: get_field_def get_flag_def active_others)

lemmas frozen_others =
  frozen.put_field_other [OF _ mask_defs(1)] frozen.put_field_other [OF _ mask_defs(2)]
  frozen.put_field_other [OF _ mask_defs(3)] frozen.put_field_other [OF _ mask_defs(4)]
  frozen.put_field_other [OF _ mask_defs(5)] frozen.put_field_other [OF _ mask_defs(7)]
  frozen.put_field_other [OF _ mask_defs(8)] frozen.put_field_other [OF _ mask_defs(9)]
  frozen.put_field_other [OF _ mask_defs(10)]

lemma config_of_setFrozen [simp]: "config_of (setFrozen data b) = (config_of data)\<lparr>rc_frozen := b\<rparr>"
  by (simp add: setFrozen_def config_of_def getter_defs frozen.flag_put_field)
    (simp add: get_field_def get_flag_def frozen_others)

lemmas borrowing_others =
  borrowing.put_field_other [OF _ mask_defs(1)] borrowing.put_field_other [OF _
  mask_defs(2)] borrowing.put_field_other [OF _ mask_defs(3)] borrowing.put_field_other [OF
  _ mask_defs(4)] borrowing.put_field_other [OF _ mask_defs(5)] borrowing.put_field_other
  [OF _ mask_defs(6)] borrowing.put_field_other [OF _ mask_defs(8)]
  borrowing.put_field_other [OF _ mask_defs(9)] borrowing.put_field_other [OF _
  mask_defs(10)]

lemma config_of_setBorrowingEnabled [simp]: "config_of (setBorrowingEnabled data b) = (config_of data)\<lparr>rc_borrowing := b\<rparr>"
  by (simp add: setBorrowingEnabled_def config_of_def getter_defs borrowing.flag_put_field)
    (simp add: get_field_def get_flag_def borrowing_others)

lemmas stablerateborrowing_others =
  stablerateborrowing.put_field_other [OF _ mask_defs(1)]
  stablerateborrowing.put_field_other [OF _ mask_defs(2)]
  stablerateborrowing.put_field_other [OF _ mask_defs(3)]
  stablerateborrowing.put_field_other [OF _ mask_defs(4)]
  stablerateborrowing.put_field_other [OF _ mask_defs(5)]
  stablerateborrowing.put_field_other [OF _ mask_defs(6)]
  stablerateborrowing.put_field_other [OF _ mask_defs(7)]
  stablerateborrowing.put_field_other [OF _ mask_defs(9)]
  stablerateborrowing.put_field_other [OF _ mask_defs(10)]

lemma config_of_setStableRateBorrowingEnabled [simp]: "config_of (setStableRateBorrowingEnabled data b) = (config_of data)\<lparr>rc_stable := b\<rparr>"
  by (simp add: setStableRateBorrowingEnabled_def config_of_def getter_defs stablerateborrowing.flag_put_field)
    (simp add: get_field_def get_flag_def stablerateborrowing_others)

lemmas collateral_others =
  collateral.put_field_other [OF _ mask_defs(1)] collateral.put_field_other [OF _
  mask_defs(2)] collateral.put_field_other [OF _ mask_defs(3)] collateral.put_field_other
  [OF _ mask_defs(4)] collateral.put_field_other [OF _ mask_defs(5)]
  collateral.put_field_other [OF _ mask_defs(6)] collateral.put_field_other [OF _
  mask_defs(7)] collateral.put_field_other [OF _ mask_defs(8)] collateral.put_field_other
  [OF _ mask_defs(9)]

lemma config_of_setCollateralEnabled [simp]: "config_of (setCollateralEnabled data b) = (config_of data)\<lparr>rc_collateral := b\<rparr>"
  by (simp add: setCollateralEnabled_def config_of_def getter_defs collateral.flag_put_field)
    (simp add: get_field_def get_flag_def collateral_others)

section \<open>Properties\<close>

definition accepts :: "(uint256 \<Rightarrow> uint256 \<Rightarrow> error + uint256) \<Rightarrow> nat \<Rightarrow>
    (uint256 \<Rightarrow> reserve_config \<Rightarrow> reserve_config) \<Rightarrow> bool" where
  "accepts setter bound upd \<longleftrightarrow>
     (\<forall>data v. if unat v \<le> bound then \<exists>d. setter data v = Inr d \<and> config_of d = upd v (config_of data)
               else \<exists>e. setter data v = Inl e)"

lemma setters_accept:
  "accepts setLtv 65535 (\<lambda>v c. c\<lparr>rc_ltv := v\<rparr>)"
  "accepts setLiquidationThreshold 65535 (\<lambda>v c. c\<lparr>rc_threshold := v\<rparr>)"
  "accepts setLiquidationBonus 65535 (\<lambda>v c. c\<lparr>rc_bonus := v\<rparr>)"
  "accepts setDecimals 255 (\<lambda>v c. c\<lparr>rc_decimals := v\<rparr>)"
  "accepts setReserveFactor 65535 (\<lambda>v c. c\<lparr>rc_factor := v\<rparr>)"
  unfolding accepts_def
  using config_of_setLtv config_of_setLiquidationThreshold config_of_setLiquidationBonus
    config_of_setDecimals config_of_setReserveFactor
  by (auto simp: setLtv_def setLiquidationThreshold_def setLiquidationBonus_def setDecimals_def
      setReserveFactor_def max_valid_defs word_le_nat_alt)

text \<open>C9. The packed word implements a record: each of the ten writers changes exactly its own
  component, the numeric ones reject exactly the values that do not fit their field, and
  \<open>getFlags\<close> and \<open>getParams\<close> read the components.\<close>

theorem reserve_configuration_refines:
  "accepts setLtv 65535 (\<lambda>v c. c\<lparr>rc_ltv := v\<rparr>) \<and>
   accepts setLiquidationThreshold 65535 (\<lambda>v c. c\<lparr>rc_threshold := v\<rparr>) \<and>
   accepts setLiquidationBonus 65535 (\<lambda>v c. c\<lparr>rc_bonus := v\<rparr>) \<and>
   accepts setDecimals 255 (\<lambda>v c. c\<lparr>rc_decimals := v\<rparr>) \<and>
   accepts setReserveFactor 65535 (\<lambda>v c. c\<lparr>rc_factor := v\<rparr>) \<and>
   config_of (setActive data b) = (config_of data)\<lparr>rc_active := b\<rparr> \<and>
   config_of (setFrozen data b) = (config_of data)\<lparr>rc_frozen := b\<rparr> \<and>
   config_of (setBorrowingEnabled data b) = (config_of data)\<lparr>rc_borrowing := b\<rparr> \<and>
   config_of (setStableRateBorrowingEnabled data b) = (config_of data)\<lparr>rc_stable := b\<rparr> \<and>
   config_of (setCollateralEnabled data b) = (config_of data)\<lparr>rc_collateral := b\<rparr> \<and>
   getFlags data = (rc_active (config_of data), rc_frozen (config_of data), rc_borrowing (config_of data),
     rc_stable (config_of data), rc_collateral (config_of data)) \<and>
   getParams data = (rc_ltv (config_of data), rc_threshold (config_of data), rc_bonus (config_of data),
     rc_decimals (config_of data), rc_factor (config_of data))"
  by (intro conjI setters_accept config_of_setActive config_of_setFrozen config_of_setBorrowingEnabled
      config_of_setStableRateBorrowingEnabled config_of_setCollateralEnabled)
    (simp_all add: getFlags_def getParams_def config_of_def getter_defs)

end
