(* ===== verification/ReserveChecks.thy ===== *)
theory ReserveChecks
  imports ReserveConfiguration Reserves
begin

text \<open>
  What the chain accepts of the markets' reserve parameters: the configuration part of
  \<open>LendingPoolConfigurator._initReserve\<close>, \<open>enableBorrowingOnReserve\<close>,
  \<open>enableCollateralOnReserve\<close>, \<open>configureReserveAsCollateral\<close> and \<open>setReserveFactor\<close>, the loop body of
  \<open>ATokensAndRatesHelper.configureReserves\<close>, \<open>PercentageMath.percentMul\<close> with the checked
  arithmetic of Solidity 0.8, and the subtraction in the constructor of
  \<open>DefaultReserveInterestRateStrategy\<close>. They work on the packed configuration of one reserve; the
  caller is the pool admin (the scripts make the helper contract the pool admin first), and
  \<open>noLiquidity\<close> is the result of \<open>_checkNoLiquidity\<close>.
\<close>

section \<open>Checked steps\<close>

definition bindSum :: "error + 'a \<Rightarrow> ('a \<Rightarrow> error + 'b) \<Rightarrow> error + 'b" where
  "bindSum m f = (case m of Inl e \<Rightarrow> Inl e | Inr x \<Rightarrow> f x)"

lemma bindSum_simps [simp]: "bindSum (Inl e) f = Inl e" "bindSum (Inr x) f = f x"
  by (simp_all add: bindSum_def)

definition check :: "bool \<Rightarrow> string \<Rightarrow> error + 'a \<Rightarrow> error + 'a" where
  "check b reason m = (if b then m else Inl (Revert reason))"

text \<open>Checked multiplication and addition: a result that does not fit reverts.\<close>

definition mulChecked :: "uint256 \<Rightarrow> uint256 \<Rightarrow> error + uint256" where
  "mulChecked a b = check (unat a * unat b < 2 ^ 256) ''panic 0x11'' (Inr (a * b))"

definition addChecked :: "uint256 \<Rightarrow> uint256 \<Rightarrow> error + uint256" where
  "addChecked a b = check (unat a + unat b < 2 ^ 256) ''panic 0x11'' (Inr (a + b))"

definition subChecked :: "uint256 \<Rightarrow> uint256 \<Rightarrow> error + uint256" where
  "subChecked a b = check (b \<le> a) ''panic 0x11'' (Inr (a - b))"

section \<open>Percentages\<close>

definition sol_PERCENTAGE_FACTOR :: uint256 where
  "sol_PERCENTAGE_FACTOR = 10000"

definition HALF_PERCENT :: uint256 where
  "HALF_PERCENT = sol_PERCENTAGE_FACTOR div 2"

definition sol_percentMul :: "uint256 \<Rightarrow> uint256 \<Rightarrow> error + uint256" where
  "sol_percentMul value percentage =
     (if value = 0 \<or> percentage = 0 then Inr 0
      else bindSum (mulChecked value percentage) (\<lambda>p.
           bindSum (addChecked p HALF_PERCENT) (\<lambda>s. Inr (s div sol_PERCENTAGE_FACTOR))))"

section \<open>The configurator\<close>

definition initReserveConfig :: "uint256 \<Rightarrow> uint256 \<Rightarrow> error + uint256" where
  "initReserveConfig decimals data =
     check (decimals \<le> 18) ''LPC_INVALID_CONFIGURATION''
       (bindSum (setDecimals data decimals) (\<lambda>d. Inr (setFrozen (setActive d True) False)))"

definition enableBorrowingOnReserve :: "bool \<Rightarrow> uint256 \<Rightarrow> error + uint256" where
  "enableBorrowingOnReserve stableRate data =
     (let (_, _, _, _, isCollateral) = getFlags data in
      check (\<not> isCollateral) ''LPC_INVALID_CONFIGURATION''
        (Inr (setStableRateBorrowingEnabled (setBorrowingEnabled data True) stableRate)))"

definition enableCollateralOnReserve :: "uint256 \<Rightarrow> error + uint256" where
  "enableCollateralOnReserve data =
     (let (_, _, isBorrowing, _, _) = getFlags data in
      check (\<not> isBorrowing) ''LPC_INVALID_CONFIGURATION'' (Inr (setCollateralEnabled data True)))"

definition configureReserveAsCollateral ::
  "bool \<Rightarrow> uint256 \<Rightarrow> uint256 \<Rightarrow> uint256 \<Rightarrow> uint256 \<Rightarrow> error + uint256" where
  "configureReserveAsCollateral noLiquidity ltv threshold bonus data =
     (let (_, _, _, _, isCollateral) = getFlags data in
      check (ltv \<le> threshold) ''LPC_INVALID_CONFIGURATION''
     (bindSum
       (if threshold \<noteq> 0 then
          check isCollateral ''LPC_INVALID_CONFIGURATION''
         (check (bonus > sol_PERCENTAGE_FACTOR) ''LPC_INVALID_CONFIGURATION''
         (bindSum (sol_percentMul threshold bonus) (\<lambda>p.
            check (p \<le> sol_PERCENTAGE_FACTOR) ''LPC_INVALID_CONFIGURATION'' (Inr ()))))
        else
          check (bonus = 0) ''LPC_INVALID_CONFIGURATION''
         (check (ltv = 0) ''LPC_INVALID_CONFIGURATION''
         (check noLiquidity ''LPC_RESERVE_LIQUIDITY_NOT_0'' (Inr ())))) (\<lambda>_.
      bindSum (setLtv data ltv) (\<lambda>d1.
      bindSum (setLiquidationThreshold d1 threshold) (\<lambda>d2.
      setLiquidationBonus d2 bonus)))))"

section \<open>The helper contract\<close>

record ConfigureReserveInput =
  cri_baseLTV :: uint256
  cri_liquidationThreshold :: uint256
  cri_liquidationBonus :: uint256
  cri_reserveFactor :: uint256
  cri_stableBorrowingEnabled :: bool
  cri_borrowingEnabled :: bool
  cri_collateralEnabled :: bool

definition configureReserve :: "bool \<Rightarrow> ConfigureReserveInput \<Rightarrow> uint256 \<Rightarrow> error + uint256" where
  "configureReserve noLiquidity input data =
     bindSum (if cri_borrowingEnabled input
              then enableBorrowingOnReserve (cri_stableBorrowingEnabled input) data else Inr data) (\<lambda>d1.
     bindSum (if cri_collateralEnabled input then enableCollateralOnReserve d1 else Inr d1) (\<lambda>d2.
     bindSum (configureReserveAsCollateral noLiquidity (cri_baseLTV input)
                (cri_liquidationThreshold input) (cri_liquidationBonus input) d2) (\<lambda>d3.
     setReserveFactor d3 (cri_reserveFactor input))))"

section \<open>The parameters the scripts send\<close>

text \<open>A decimal numeral, as ethers converts a string argument of type \<open>uint256\<close>.\<close>

definition readDigits :: "string \<Rightarrow> nat" where
  "readDigits s = foldl (\<lambda>n c. 10 * n + (of_char c - 48)) 0 s"

definition isNumeral :: "string \<Rightarrow> bool" where
  "isNumeral s \<longleftrightarrow> s \<noteq> [] \<and> list_all (\<lambda>c. 48 \<le> (of_char c :: nat) \<and> (of_char c :: nat) \<le> 57) s"

definition uint256Arg :: "string \<Rightarrow> error + uint256" where
  "uint256Arg s =
     (if isNumeral s \<and> readDigits s < 2 ^ 256 then Inr (of_nat (readDigits s))
      else Inl (InvalidArgument s))"

text \<open>One element of the batch \<open>configureReservesByHelper\<close> sends.\<close>

definition configureArgument :: "IReserveParams \<Rightarrow> error + ConfigureReserveInput" where
  "configureArgument params =
     bindSum (uint256Arg (baseLTVAsCollateral params)) (\<lambda>ltv.
     bindSum (uint256Arg (liquidationThreshold params)) (\<lambda>threshold.
     bindSum (uint256Arg (liquidationBonus params)) (\<lambda>bonus.
     bindSum (uint256Arg (reserveFactor params)) (\<lambda>factor.
     Inr \<lparr>cri_baseLTV = ltv, cri_liquidationThreshold = threshold, cri_liquidationBonus = bonus,
          cri_reserveFactor = factor, cri_stableBorrowingEnabled = stableBorrowRateEnabled params,
          cri_borrowingEnabled = borrowingEnabled params,
          cri_collateralEnabled = collateralEnabled params\<rparr>))))"

text \<open>The whole way of one reserve: initialization, then configuration.\<close>

definition setUpReserve :: "IReserveParams \<Rightarrow> error + uint256" where
  "setUpReserve params =
     bindSum (uint256Arg (reserveDecimals params)) (\<lambda>decimals.
     bindSum (initReserveConfig decimals 0) (\<lambda>d.
     bindSum (configureArgument params) (\<lambda>input. configureReserve True input d)))"

section \<open>Lemmas\<close>

lemma unat_small: "n < 2 ^ 256 \<Longrightarrow> unat (of_nat n :: uint256) = n"
  by (simp add: unsigned_of_nat take_bit_nat_eq_self_iff)

lemma percentMul_small:
  assumes "unat value \<le> 65535" and "unat percentage \<le> 65535"
  shows "sol_percentMul value percentage =
    Inr (of_nat ((unat value * unat percentage + (if value = 0 \<or> percentage = 0 then 0 else 5000)) div 10000))"
proof (cases "value = 0 \<or> percentage = 0")
  case False
  have le: "unat value * unat percentage \<le> 65535 * 65535" using assms by (intro mult_mono) simp_all
  have m: "unat (value * percentage) = unat value * unat percentage"
    using le by (intro unat_mult_lem [THEN iffD1]) simp
  have half: "unat HALF_PERCENT = 5000" "HALF_PERCENT = 5000"
    by (simp_all add: HALF_PERCENT_def sol_PERCENTAGE_FACTOR_def)
  have a: "unat (value * percentage + 5000) = unat value * unat percentage + 5000"
    using le m by (subst unat_add_lem [THEN iffD1]) simp_all
  have "(value * percentage + 5000) div 10000 =
      (of_nat ((unat value * unat percentage + 5000) div 10000) :: uint256)"
    using le by (simp add: word_eq_iff_unsigned [where ?'a = nat] unat_div_distrib a unat_small)
  with False m half le show ?thesis
    by (simp add: sol_percentMul_def mulChecked_def addChecked_def check_def sol_PERCENTAGE_FACTOR_def)
qed (auto simp: sol_percentMul_def)

text \<open>The numeric conditions under which the chain accepts the parameters of a reserve.\<close>

definition acceptable :: "IReserveParams \<Rightarrow> bool" where
  "acceptable params \<longleftrightarrow>
     list_all isNumeral [baseLTVAsCollateral params, liquidationThreshold params,
       liquidationBonus params, reserveFactor params, reserveDecimals params] \<and>
     readDigits (reserveDecimals params) \<le> 18 \<and> readDigits (reserveFactor params) \<le> 65535 \<and>
     \<not> (borrowingEnabled params \<and> collateralEnabled params) \<and>
     readDigits (baseLTVAsCollateral params) \<le> readDigits (liquidationThreshold params) \<and>
     (if readDigits (liquidationThreshold params) \<noteq> 0
      then collateralEnabled params \<and> readDigits (liquidationThreshold params) \<le> 65535 \<and>
        10000 < readDigits (liquidationBonus params) \<and> readDigits (liquidationBonus params) \<le> 65535 \<and>
        readDigits (liquidationThreshold params) * readDigits (liquidationBonus params) + 5000 < 100010000
      else readDigits (liquidationBonus params) = 0)"

text \<open>The configuration a reserve ends up with.\<close>

definition intendedConfig :: "IReserveParams \<Rightarrow> reserve_config" where
  "intendedConfig params =
     \<lparr>rc_ltv = of_nat (readDigits (baseLTVAsCollateral params)),
      rc_threshold = of_nat (readDigits (liquidationThreshold params)),
      rc_bonus = of_nat (readDigits (liquidationBonus params)),
      rc_decimals = of_nat (readDigits (reserveDecimals params)),
      rc_factor = of_nat (readDigits (reserveFactor params)),
      rc_active = True, rc_frozen = False, rc_borrowing = borrowingEnabled params,
      rc_stable = borrowingEnabled params \<and> stableBorrowRateEnabled params,
      rc_collateral = collateralEnabled params\<rparr>"

lemma le_of_nat: "n < 2 ^ 256 \<Longrightarrow> m < 2 ^ 256 \<Longrightarrow> (of_nat n :: uint256) \<le> of_nat m \<longleftrightarrow> n \<le> m"
  by (simp add: word_le_nat_alt unat_small)

lemma config_of_0: "config_of 0 = \<lparr>rc_ltv = 0, rc_threshold = 0, rc_bonus = 0, rc_decimals = 0,
    rc_factor = 0, rc_active = False, rc_frozen = False, rc_borrowing = False, rc_stable = False,
    rc_collateral = False\<rparr>"
  by (simp add: config_of_def getter_defs get_field_def get_flag_def)

lemma initReserveConfig_ok:
  assumes "n \<le> 18"
  obtains d where "initReserveConfig (of_nat n) data = Inr d"
    and "config_of d = (config_of data)\<lparr>rc_decimals := of_nat n, rc_active := True, rc_frozen := False\<rparr>"
proof -
  have le: "(of_nat n :: uint256) \<le> 18" "(of_nat n :: uint256) \<le> MAX_VALID_DECIMALS"
    using assms by (simp_all add: word_le_nat_alt unat_small MAX_VALID_DECIMALS_def)
  then obtain d where d: "setDecimals data (of_nat n) = Inr d" by (simp add: setDecimals_def)
  with le show thesis
    by (intro that [of "setFrozen (setActive d True) False"])
      (simp_all add: initReserveConfig_def check_def config_of_setDecimals [OF d])
qed

lemma getFlags_config:
  "getFlags data = (rc_active (config_of data), rc_frozen (config_of data), rc_borrowing (config_of data),
     rc_stable (config_of data), rc_collateral (config_of data))"
  by (simp add: getFlags_def config_of_def getter_defs)

lemma configureReserveAsCollateral_ok:
  assumes lt: "ltv \<le> threshold" and th: "threshold \<le> 65535"
    and cases: "if threshold \<noteq> 0 then rc_collateral (config_of data) \<and> 10000 < bonus \<and> bonus \<le> 65535 \<and>
        threshold * bonus + 5000 < 100010000 else bonus = 0"
  obtains d where "configureReserveAsCollateral True (of_nat ltv) (of_nat threshold) (of_nat bonus) data = Inr d"
    and "config_of d = (config_of data)\<lparr>rc_ltv := of_nat ltv, rc_threshold := of_nat threshold,
      rc_bonus := of_nat bonus\<rparr>"
proof -
  let ?l = "of_nat ltv :: uint256" and ?t = "of_nat threshold :: uint256" and ?b = "of_nat bonus :: uint256"
  have b: "bonus \<le> 65535" using cases by (auto split: if_splits)
  have u: "unat ?l = ltv" "unat ?t = threshold" "unat ?b = bonus"
    using lt th b by (simp_all add: unat_small)
  obtain d1 where d1: "setLtv data ?l = Inr d1"
    using lt th u by (simp add: setLtv_def max_valid_defs word_le_nat_alt)
  obtain d2 where d2: "setLiquidationThreshold d1 ?t = Inr d2"
    using th u by (simp add: setLiquidationThreshold_def max_valid_defs word_le_nat_alt)
  obtain d3 where d3: "setLiquidationBonus d2 ?b = Inr d3"
    using b u by (simp add: setLiquidationBonus_def max_valid_defs word_le_nat_alt)
  have zero: "?t = 0 \<longleftrightarrow> threshold = 0" "?b = 0 \<longleftrightarrow> bonus = 0" "?l = 0 \<longleftrightarrow> ltv = 0"
    by (simp_all add: word_eq_iff_unsigned [where ?'a = nat] u)
  have pm: "sol_percentMul ?t ?b = Inr (of_nat ((threshold * bonus + 5000) div 10000))"
    if "threshold \<noteq> 0" "bonus \<noteq> 0"
    using percentMul_small [of ?t ?b] th b that by (simp add: u zero)
  have small: "(of_nat ((threshold * bonus + 5000) div 10000) :: uint256) \<le> sol_PERCENTAGE_FACTOR"
    if "threshold * bonus + 5000 < 100010000"
  proof -
    have "(threshold * bonus + 5000) div 10000 \<le> 10000" using that by linarith
    then show ?thesis by (simp add: word_le_nat_alt unat_small sol_PERCENTAGE_FACTOR_def)
  qed
  have "configureReserveAsCollateral True ?l ?t ?b data = Inr d3"
    using cases lt pm small d1 d2 d3
    by (auto simp: configureReserveAsCollateral_def getFlags_config check_def zero word_le_nat_alt
        word_less_nat_alt u sol_PERCENTAGE_FACTOR_def split: if_splits)
  with d1 d2 d3 show thesis
    by (intro that [of d3])
      (simp_all add: config_of_setLtv config_of_setLiquidationThreshold config_of_setLiquidationBonus)
qed

lemma configureReserve_ok:
  assumes data: "\<not> rc_borrowing (config_of data)" "\<not> rc_collateral (config_of data)"
    and excl: "\<not> (b \<and> c)" and lt: "ltv \<le> threshold" and f: "f \<le> 65535"
    and cases: "if threshold \<noteq> 0 then c \<and> threshold \<le> 65535 \<and> 10000 < bonus \<and> bonus \<le> 65535 \<and>
        threshold * bonus + 5000 < 100010000 else bonus = 0"
  obtains d where "configureReserve True
      \<lparr>cri_baseLTV = of_nat ltv, cri_liquidationThreshold = of_nat threshold,
       cri_liquidationBonus = of_nat bonus, cri_reserveFactor = of_nat f,
       cri_stableBorrowingEnabled = s, cri_borrowingEnabled = b, cri_collateralEnabled = c\<rparr> data = Inr d"
    and "config_of d = (config_of data)\<lparr>rc_ltv := of_nat ltv, rc_threshold := of_nat threshold,
      rc_bonus := of_nat bonus, rc_factor := of_nat f, rc_borrowing := b,
      rc_stable := (if b then s else rc_stable (config_of data)), rc_collateral := c\<rparr>"
proof -
  define d1 where "d1 = (if b then setStableRateBorrowingEnabled (setBorrowingEnabled data True) s else data)"
  define d2 where "d2 = (if c then setCollateralEnabled d1 True else d1)"
  have d2_config: "config_of d2 = (config_of data)\<lparr>rc_borrowing := b,
      rc_stable := (if b then s else rc_stable (config_of data)), rc_collateral := c\<rparr>"
    using data by (simp add: d1_def d2_def)
  have 1: "(if b then enableBorrowingOnReserve s data else Inr data) = Inr d1"
    using data by (simp add: enableBorrowingOnReserve_def getFlags_config check_def d1_def)
  have 2: "(if c then enableCollateralOnReserve d1 else Inr d1) = Inr d2"
    using data excl by (simp add: enableCollateralOnReserve_def getFlags_config check_def d1_def d2_def)
  have th: "threshold \<le> 65535" using cases by (auto split: if_splits)
  have "if threshold \<noteq> 0 then rc_collateral (config_of d2) \<and> 10000 < bonus \<and> bonus \<le> 65535 \<and>
        threshold * bonus + 5000 < 100010000 else bonus = 0"
    using cases by (auto simp: d2_config split: if_splits)
  with lt th obtain d3 where 3: "configureReserveAsCollateral True (of_nat ltv) (of_nat threshold) (of_nat bonus) d2 = Inr d3"
      "config_of d3 = (config_of d2)\<lparr>rc_ltv := of_nat ltv, rc_threshold := of_nat threshold,
        rc_bonus := of_nat bonus\<rparr>"
    by (rule configureReserveAsCollateral_ok)
  obtain d4 where 4: "setReserveFactor d3 (of_nat f) = Inr d4"
    using f by (simp add: setReserveFactor_def max_valid_defs word_le_nat_alt unat_small)
  show thesis
    by (rule that [of d4])
      (simp_all add: configureReserve_def 1 2 3 4 config_of_setReserveFactor [OF 4] d2_config
        cong: if_cong split del: if_split)
qed

lemma uint256Arg_ok: "isNumeral s \<Longrightarrow> readDigits s \<le> 65535 \<Longrightarrow> uint256Arg s = Inr (of_nat (readDigits s))"
  by (simp add: uint256Arg_def)

lemma setUpReserve_ok:
  assumes "acceptable params"
  shows "\<exists>d. setUpReserve params = Inr d \<and> config_of d = intendedConfig params"
proof -
  note acc = assms [unfolded acceptable_def]
  let ?t = "readDigits (liquidationThreshold params)" and ?b = "readDigits (liquidationBonus params)"
  have bounds: "?t \<le> 65535" "?b \<le> 65535" "readDigits (baseLTVAsCollateral params) \<le> 65535"
    "readDigits (reserveDecimals params) \<le> 65535" "readDigits (reserveFactor params) \<le> 65535"
    using acc by (auto split: if_splits)
  have args: "uint256Arg (baseLTVAsCollateral params) = Inr (of_nat (readDigits (baseLTVAsCollateral params)))"
    "uint256Arg (liquidationThreshold params) = Inr (of_nat ?t)"
    "uint256Arg (liquidationBonus params) = Inr (of_nat ?b)"
    "uint256Arg (reserveFactor params) = Inr (of_nat (readDigits (reserveFactor params)))"
    "uint256Arg (reserveDecimals params) = Inr (of_nat (readDigits (reserveDecimals params)))"
    by (rule uint256Arg_ok; use acc bounds in simp)+
  obtain d where d: "initReserveConfig (of_nat (readDigits (reserveDecimals params))) 0 = Inr d"
    "config_of d = (config_of 0)\<lparr>rc_decimals := of_nat (readDigits (reserveDecimals params)),
      rc_active := True, rc_frozen := False\<rparr>"
    using acc by (auto elim: initReserveConfig_ok)
  show ?thesis
    by (rule configureReserve_ok [of d "borrowingEnabled params" "collateralEnabled params"
          "readDigits (baseLTVAsCollateral params)" ?t "readDigits (reserveFactor params)" ?b
          "stableBorrowRateEnabled params"])
      (use acc in \<open>simp_all add: d config_of_0 setUpReserve_def configureArgument_def args intendedConfig_def\<close>)
qed

lemmas reserve_params_defs =
  strategyDAI_def strategyUSDC_def strategyUSDT_def strategySTETH_def
  strategyYVRETH_WSTETH_def strategyCVXRETH_WSTETH_def strategyCVXFRAX_3CRV_def
  strategyCVXSTECRV_def strategyCVXDOLA_3CRV_def strategyCVXMIM_3CRV_def
  strategyCVXDAI_USDC_USDT_SUSD_def strategyCVXHBTC_WBTC_def strategyCVXIRON_BANK_def
  strategyCVXFRAX_USDC_def strategyAURADAI_USDC_USDT_def strategyCVXTUSD_FRAXBP_def
  strategyAURABB_A_USD_def strategyAURABB_A3_USD_def ftm_strategyDAI_def
  ftm_strategyUSDC_def ftm_strategyUSDT_def ftm_strategyYVWFTM_def ftm_strategyMOOWETH_def
  ftm_strategyYVWETH_def ftm_strategyYVWBTC_def ftm_strategyYVBOO_def
  ftm_strategyMOOTOMB_FTM_def ftm_strategyMOOTOMB_MIMATIC_def ftm_strategyMOOMIM_2CRV_def
  ftm_strategyYVFBEETS_def ftm_strategyYVLINK_def ftm_strategyYVCRV_def
  ftm_strategyYVSPELL_def ftm_strategyMOOBASED_MIMATIC_def

lemma reserves_acceptable:
  "list_all (\<lambda>(symbol, params). acceptable params) (SturdyReservesConfig bn)"
  "list_all (\<lambda>(symbol, params). acceptable params) (FantomReservesConfig bn)"
  unfolding SturdyReservesConfig_def FantomReservesConfig_def list.pred_inject(2) prod.case
  by (intro conjI list.pred_inject(1);
      simp add: acceptable_def isNumeral_def readDigits_def reserve_params_defs)+

section \<open>Interest rate strategies\<close>

text \<open>
  What the repository relies on of \<open>bignumber.js\<close>, as documented there: the constructor reads a
  decimal literal with optional fraction and exponent, \<open>multipliedBy\<close> is exact, and \<open>toFixed\<close>
  without an argument prints a whole number in plain decimal notation.
\<close>

definition literalParts :: "string \<Rightarrow> string \<times> string \<times> string" where
  "literalParts s =
     (takeWhile (\<lambda>c. c \<noteq> CHR ''.'' \<and> c \<noteq> CHR ''e'') s,
      takeWhile (\<lambda>c. c \<noteq> CHR ''e'') (drop 1 (dropWhile (\<lambda>c. c \<noteq> CHR ''.'') s)),
      drop 2 (dropWhile (\<lambda>c. c \<noteq> CHR ''e'') s))"

definition isLiteral :: "string \<Rightarrow> bool" where
  "isLiteral s \<longleftrightarrow> (case literalParts s of (whole, fraction, exponent) \<Rightarrow>
     isNumeral whole \<and> s = whole @ (if fraction = [] then [] else ''.'' @ fraction) @
       (if exponent = [] then [] else ''e+'' @ exponent) \<and>
     (fraction = [] \<or> isNumeral fraction) \<and> (exponent = [] \<or> isNumeral exponent))"

text \<open>The value of a literal, scaled by a power of ten: mantissa and number of decimals.\<close>

definition literalValue :: "string \<Rightarrow> nat \<times> nat" where
  "literalValue s = (case literalParts s of (whole, fraction, exponent) \<Rightarrow>
     (readDigits (whole @ fraction) * 10 ^ readDigits exponent, length fraction))"

text \<open>\<open>val x = (m, k)\<close> says that the number \<open>x\<close> is \<open>m / 10 ^ k\<close>.\<close>

definition bignumber_exact :: "'n bignumber_js \<Rightarrow> ('n \<Rightarrow> nat \<times> nat) \<Rightarrow> bool" where
  "bignumber_exact bn val \<longleftrightarrow>
     (\<forall>s. isLiteral s \<longrightarrow> val (bn_new bn s) = literalValue s) \<and>
     (\<forall>x y. val (bn_multipliedBy bn x y) =
        (fst (val x) * fst (val y), snd (val x) + snd (val y))) \<and>
     (\<forall>x n. fst (val x) = n * 10 ^ snd (val x) \<longrightarrow> bn_toFixed bn x = showNat n)"

text \<open>An exact decimal arithmetic that has these properties.\<close>

definition decimal_js :: "(nat \<times> nat) bignumber_js" where
  "decimal_js =
     \<lparr>bn_new = literalValue, bn_multipliedBy = (\<lambda>(m, k) (m', k'). (m * m', k + k')),
      bn_toFixed = (\<lambda>(m, k). showNat (m div 10 ^ k)), bn_toString = (\<lambda>(m, k). showNat (m div 10 ^ k))\<rparr>"

lemma decimal_js_exact: "bignumber_exact decimal_js (\<lambda>x. x)"
  by (auto simp: bignumber_exact_def decimal_js_def split: prod.splits)

text \<open>Printing and reading a natural number.\<close>

lemma readDigits_append: "readDigits (s @ [c]) = 10 * readDigits s + (of_char c - 48)"
  by (simp add: readDigits_def)

lemma digit_char: "n < 10 \<Longrightarrow> of_char (char_of (n + 48) :: char) = (n + 48 :: nat)"
  by simp

lemma readDigits_showNat: "readDigits (showNat n) = n \<and> isNumeral (showNat n)"
proof (induction n rule: showNat.induct)
  case (1 n)
  show ?case
  proof (cases "n < 10")
    case True
    then show ?thesis
      by (simp add: showNat.simps [of n] readDigits_def isNumeral_def)
  next
    case False
    from False have s: "showNat n = showNat (n div 10) @ [char_of (n mod 10 + 48)]"
      by (subst showNat.simps) simp
    show ?thesis
      using 1 [OF False] unfolding s readDigits_append by (simp add: isNumeral_def)
  qed
qed

text \<open>\<open>new BigNumber(literal).multipliedBy(oneRay).toFixed()\<close>\<close>

lemma scaled_literal:
  assumes exact: "bignumber_exact bn val" and lit: "isLiteral s"
    and n: "fst (literalValue s) * 10 ^ 27 = n * 10 ^ snd (literalValue s)"
  shows "bn_toFixed bn (bn_multipliedBy bn (bn_new bn s) (oneRay bn)) = showNat n"
proof -
  have "isLiteral ''1e+27''" "literalValue ''1e+27'' = (10 ^ 27, 0)"
    by (simp_all add: isLiteral_def literalParts_def literalValue_def isNumeral_def readDigits_def)
  with exact lit have "val (bn_multipliedBy bn (bn_new bn s) (oneRay bn)) =
      (fst (literalValue s) * 10 ^ 27, snd (literalValue s))"
    unfolding bignumber_exact_def oneRay_def by simp
  with exact n show ?thesis unfolding bignumber_exact_def by simp
qed

definition sol_RAY :: uint256 where
  "sol_RAY = 1000000000000000000000000000"

text \<open>The constructor: \<open>EXCESS_UTILIZATION_RATE = ray() - optimalUtilizationRate\<close>. The rates later
  divide by the optimal rate and by the excess rate.\<close>

definition rateUsable :: "string \<Rightarrow> bool" where
  "rateUsable rate \<longleftrightarrow>
     (case (uint256Arg rate, bindSum (uint256Arg rate) (subChecked sol_RAY)) of
        (Inr optimal, Inr excess) \<Rightarrow> optimal \<noteq> 0 \<and> excess \<noteq> 0
      | _ \<Rightarrow> False)"

lemma rateUsable_showNat:
  assumes "0 < n" and "n < 1000000000000000000000000000"
  shows "rateUsable (showNat n)"
proof -
  have "uint256Arg (showNat n) = Inr (of_nat n)" "unat (of_nat n :: uint256) = n"
    using assms readDigits_showNat [of n] by (simp_all add: uint256Arg_def unat_small)
  then show ?thesis
    using assms
    by (simp add: rateUsable_def subChecked_def check_def sol_RAY_def
        word_le_nat_alt word_eq_iff_unsigned [where ?'a = nat] unat_sub)
qed

lemmas rate_strategy_defs =
  rateStrategyStableTwo_def rateStrategySTETH_def rateStrategyYVRETH_WSTETH_def
  rateStrategyCVXRETH_WSTETH_def rateStrategyCVXFRAX_3CRV_def rateStrategyCVXSTECRV_def
  rateStrategyCVXDOLA_3CRV_def rateStrategyCVXMIM_3CRV_def
  rateStrategyCVXDAI_USDC_USDT_SUSD_def rateStrategyCVXHBTC_WBTC_def
  rateStrategyCVXIRON_BANK_def rateStrategyCVXFRAX_USDC_def
  rateStrategyAURADAI_USDC_USDT_def rateStrategyCVXTUSD_FRAXBP_def
  rateStrategyAURABB_A_USD_def rateStrategyAURABB_A3_USD_def ftm_rateStrategyStableTwo_def
  ftm_rateStrategyStableThree_def ftm_rateStrategyYVWFTM_def ftm_rateStrategyMOOWETH_def
  ftm_rateStrategyYVWETH_def ftm_rateStrategyYVWBTC_def ftm_rateStrategyYVBOO_def
  ftm_rateStrategyMOOTOMB_FTM_def ftm_rateStrategyMOOTOMB_MIMATIC_def
  ftm_rateStrategyMOOMIM_2CRV_def ftm_rateStrategyYVFBEETS_def ftm_rateStrategyYVLINK_def
  ftm_rateStrategyYVCRV_def ftm_rateStrategyYVSPELL_def ftm_rateStrategyMOOBASED_MIMATIC_def

text \<open>The literals of the optimal utilization rates.\<close>

lemma scaled_literals:
  assumes "bignumber_exact bn val"
  shows "bn_toFixed bn (bn_multipliedBy bn (bn_new bn ''0.45'') (oneRay bn)) = showNat 450000000000000000000000000"
    and "bn_toFixed bn (bn_multipliedBy bn (bn_new bn ''0.8'') (oneRay bn)) = showNat 800000000000000000000000000"
    and "bn_toFixed bn (bn_multipliedBy bn (bn_new bn ''0.9'') (oneRay bn)) = showNat 900000000000000000000000000"
  by (rule scaled_literal [OF assms];
      simp add: isLiteral_def literalParts_def literalValue_def isNumeral_def readDigits_def)+

lemma strategies_usable:
  assumes "bignumber_exact bn val"
  shows "list_all (\<lambda>(symbol, params). rateUsable (optimalUtilizationRate (strategy params))) (SturdyReservesConfig bn)"
    and "list_all (\<lambda>(symbol, params). rateUsable (optimalUtilizationRate (strategy params))) (FantomReservesConfig bn)"
  by (simp_all add: SturdyReservesConfig_def FantomReservesConfig_def reserve_params_defs
      rate_strategy_defs scaled_literals [OF assms] rateUsable_showNat)

section \<open>Properties\<close>

text \<open>C10. The chain accepts the parameters of all 34 reserves of the two markets: starting from an
  empty configuration word, initialization and configuration of the reserve go through, and the
  word then holds exactly the configured values.\<close>

theorem shipped_reserves_accepted:
  "list_all (\<lambda>(symbol, params). \<exists>data. setUpReserve params = Inr data \<and> config_of data = intendedConfig params)
     (SturdyReservesConfig bn @ FantomReservesConfig bn)"
  using reserves_acceptable [of bn] setUpReserve_ok by (auto simp: list_all_iff)

text \<open>With a \<open>bignumber.js\<close> that is exact on decimals, the optimal utilization rate of every
  reserve's interest rate strategy is a number strictly between zero and one ray: the strategy's
  constructor accepts it, and neither of the two divisions of the rate model is by zero.\<close>

theorem shipped_strategies_usable:
  assumes "bignumber_exact bn val"
  shows "list_all (\<lambda>(symbol, params). rateUsable (optimalUtilizationRate (strategy params)))
     (SturdyReservesConfig bn @ FantomReservesConfig bn)"
  using strategies_usable [OF assms] by simp

theorem shipped_strategies_usable_witness:
  "rateUsable (optimalUtilizationRate (strategy (strategyDAI decimal_js)))"
  using shipped_strategies_usable [OF decimal_js_exact] by (simp add: SturdyReservesConfig_def)

end
