(* ===== verification/WadRayMath.thy ===== *)
theory WadRayMath
  imports ReserveChecks
begin

text \<open>
  The fixed point arithmetic of the contracts at its 256 bits: \<open>WadRayMath.sol\<close>, \<open>PercentageMath.sol\<close>
  and \<open>MathUtils.sol\<close>, with the checked arithmetic of Solidity 0.8. A result that does not fit and
  a division by zero revert. For each function a lemma gives the natural number it returns
  whenever it returns.
\<close>

section \<open>Checked division and readings of the checked operations\<close>

definition divChecked :: "uint256 \<Rightarrow> uint256 \<Rightarrow> error + uint256" where
  "divChecked a b = check (b \<noteq> 0) ''panic 0x12'' (Inr (a div b))"

named_theorems checked_unat

lemma bindSum_Inr: "bindSum m f = Inr y \<longleftrightarrow> (\<exists>x. m = Inr x \<and> f x = Inr y)"
  by (cases m) simp_all

lemma check_Inr: "check b reason m = Inr y \<longleftrightarrow> b \<and> m = Inr y"
  by (simp add: check_def)

lemma mulChecked_unat [checked_unat]: "mulChecked a b = Inr c \<Longrightarrow> unat c = unat a * unat b"
  by (auto simp: mulChecked_def check_Inr unat_word_ariths)

lemma addChecked_unat [checked_unat]: "addChecked a b = Inr c \<Longrightarrow> unat c = unat a + unat b"
  by (auto simp: addChecked_def check_Inr unat_word_ariths)

lemma subChecked_unat [checked_unat]: "subChecked a b = Inr c \<Longrightarrow> unat c = unat a - unat b \<and> unat b \<le> unat a"
  by (auto simp: subChecked_def check_Inr unat_sub word_le_nat_alt)

lemma divChecked_unat [checked_unat]: "divChecked a b = Inr c \<Longrightarrow> unat c = unat a div unat b \<and> unat b \<noteq> 0"
  by (auto simp: divChecked_def check_Inr unat_div unat_eq_0)

text \<open>The operations return exactly when the result fits.\<close>

lemma checked_ok:
  "unat a * unat b < 2 ^ 256 \<Longrightarrow> mulChecked a b = Inr (a * b)"
  "unat a + unat b < 2 ^ 256 \<Longrightarrow> addChecked a b = Inr (a + b)"
  "unat b \<le> unat a \<Longrightarrow> subChecked a b = Inr (a - b)"
  "unat b \<noteq> 0 \<Longrightarrow> divChecked a b = Inr (a div b)"
  by (auto simp: mulChecked_def addChecked_def subChecked_def divChecked_def check_def word_le_nat_alt)

section \<open>Wads and rays\<close>

definition sol_WAD :: uint256 where
  "sol_WAD = 1000000000000000000"

definition sol_halfWAD :: uint256 where
  "sol_halfWAD = sol_WAD div 2"

definition sol_halfRAY :: uint256 where
  "sol_halfRAY = sol_RAY div 2"

definition sol_WAD_RAY_RATIO :: uint256 where
  "sol_WAD_RAY_RATIO = 1000000000"

definition sol_wadMul :: "uint256 \<Rightarrow> uint256 \<Rightarrow> error + uint256" where
  "sol_wadMul a b =
     (if a = 0 \<or> b = 0 then Inr 0
      else bindSum (mulChecked a b) (\<lambda>p.
           bindSum (addChecked p sol_halfWAD) (\<lambda>s. divChecked s sol_WAD)))"

definition sol_wadDiv :: "uint256 \<Rightarrow> uint256 \<Rightarrow> error + uint256" where
  "sol_wadDiv a b =
     (let halfB = b div 2 in
      bindSum (mulChecked a sol_WAD) (\<lambda>p.
      bindSum (addChecked p halfB) (\<lambda>s. divChecked s b)))"

definition sol_rayMul :: "uint256 \<Rightarrow> uint256 \<Rightarrow> error + uint256" where
  "sol_rayMul a b =
     (if a = 0 \<or> b = 0 then Inr 0
      else bindSum (mulChecked a b) (\<lambda>p.
           bindSum (addChecked p sol_halfRAY) (\<lambda>s. divChecked s sol_RAY)))"

definition sol_rayDiv :: "uint256 \<Rightarrow> uint256 \<Rightarrow> error + uint256" where
  "sol_rayDiv a b =
     (let halfB = b div 2 in
      bindSum (mulChecked a sol_RAY) (\<lambda>p.
      bindSum (addChecked p halfB) (\<lambda>s. divChecked s b)))"

definition sol_rayToWad :: "uint256 \<Rightarrow> error + uint256" where
  "sol_rayToWad a =
     (let halfRatio = sol_WAD_RAY_RATIO div 2 in
      bindSum (addChecked halfRatio a) (\<lambda>result. divChecked result sol_WAD_RAY_RATIO))"

definition sol_wadToRay :: "uint256 \<Rightarrow> error + uint256" where
  "sol_wadToRay a = mulChecked a sol_WAD_RAY_RATIO"

definition sol_percentDiv :: "uint256 \<Rightarrow> uint256 \<Rightarrow> error + uint256" where
  "sol_percentDiv value percentage =
     (let halfPercentage = percentage div 2 in
      bindSum (mulChecked value sol_PERCENTAGE_FACTOR) (\<lambda>p.
      bindSum (addChecked p halfPercentage) (\<lambda>s. divChecked s percentage)))"

section \<open>Interest\<close>

definition SECONDS_PER_YEAR :: uint256 where
  "SECONDS_PER_YEAR = 31536000"

text \<open>\<open>now\<close> is \<open>block.timestamp\<close>; the 40 bit timestamps are widened before they are used.\<close>

definition calculateLinearInterest :: "uint256 \<Rightarrow> uint256 \<Rightarrow> uint256 \<Rightarrow> error + uint256" where
  "calculateLinearInterest rate lastUpdateTimestamp now =
     bindSum (subChecked now lastUpdateTimestamp) (\<lambda>timeDifference.
     bindSum (mulChecked rate timeDifference) (\<lambda>p.
     bindSum (divChecked p SECONDS_PER_YEAR) (\<lambda>q. addChecked q sol_RAY)))"

definition calculateCompoundedInterest :: "uint256 \<Rightarrow> uint256 \<Rightarrow> uint256 \<Rightarrow> error + uint256" where
  "calculateCompoundedInterest rate lastUpdateTimestamp currentTimestamp =
     bindSum (subChecked currentTimestamp lastUpdateTimestamp) (\<lambda>exp.
     if exp = 0 then Inr sol_RAY
     else
       bindSum (subChecked exp 1) (\<lambda>expMinusOne.
       bindSum (if 2 < exp then subChecked exp 2 else Inr 0) (\<lambda>expMinusTwo.
       bindSum (divChecked rate SECONDS_PER_YEAR) (\<lambda>ratePerSecond.
       bindSum (sol_rayMul ratePerSecond ratePerSecond) (\<lambda>basePowerTwo.
       bindSum (sol_rayMul basePowerTwo ratePerSecond) (\<lambda>basePowerThree.
       bindSum (bindSum (mulChecked exp expMinusOne) (\<lambda>p. mulChecked p basePowerTwo)) (\<lambda>s.
       bindSum (divChecked s 2) (\<lambda>secondTerm.
       bindSum (bindSum (mulChecked exp expMinusOne) (\<lambda>p.
                bindSum (mulChecked p expMinusTwo) (\<lambda>q. mulChecked q basePowerThree))) (\<lambda>t.
       bindSum (divChecked t 6) (\<lambda>thirdTerm.
       bindSum (mulChecked ratePerSecond exp) (\<lambda>linear.
       bindSum (addChecked sol_RAY linear) (\<lambda>r1.
       bindSum (addChecked r1 secondTerm) (\<lambda>r2. addChecked r2 thirdTerm)))))))))))))"

section \<open>The same functions over natural numbers\<close>

definition ray :: nat where
  "ray = 1000000000000000000000000000"

definition rayMulN :: "nat \<Rightarrow> nat \<Rightarrow> nat" where
  "rayMulN a b = (a * b + ray div 2) div ray"

definition rayDivN :: "nat \<Rightarrow> nat \<Rightarrow> nat" where
  "rayDivN a b = (a * ray + b div 2) div b"

definition percentMulN :: "nat \<Rightarrow> nat \<Rightarrow> nat" where
  "percentMulN a b = (a * b + 5000) div 10000"

definition linearInterestN :: "nat \<Rightarrow> nat \<Rightarrow> nat" where
  "linearInterestN rate t = rate * t div 31536000 + ray"

text \<open>The third order binomial approximation of compound interest per second.\<close>

definition compoundedInterestN :: "nat \<Rightarrow> nat \<Rightarrow> nat" where
  "compoundedInterestN rate t =
     (let r = rate div 31536000; r2 = rayMulN r r; r3 = rayMulN r2 r in
      ray + r * t + t * (t - 1) * r2 div 2 + t * (t - 1) * (t - 2) * r3 div 6)"

lemma compoundedInterestN_0 [simp]: "compoundedInterestN rate 0 = ray"
  by (simp add: compoundedInterestN_def)

lemma unat_ray [simp]: "unat sol_RAY = ray"
  by (simp add: sol_RAY_def ray_def)

lemma unat_math_constants [simp]:
  "unat sol_halfRAY = ray div 2" "unat sol_WAD = 10 ^ 18" "unat sol_halfWAD = 5 * 10 ^ 17"
  "unat sol_WAD_RAY_RATIO = 10 ^ 9" "unat SECONDS_PER_YEAR = 31536000"
  "unat sol_PERCENTAGE_FACTOR = 10000" "unat HALF_PERCENT = 5000"
  by (simp_all add: sol_halfRAY_def unat_div sol_RAY_def ray_def sol_WAD_def sol_halfWAD_def
      sol_WAD_RAY_RATIO_def SECONDS_PER_YEAR_def sol_PERCENTAGE_FACTOR_def HALF_PERCENT_def)

lemma sol_rayMul_unat [checked_unat]:
  assumes "sol_rayMul a b = Inr c"
  shows "unat c = rayMulN (unat a) (unat b)"
proof (cases "a = 0 \<or> b = 0")
  case True
  with assms show ?thesis by (auto simp: sol_rayMul_def rayMulN_def ray_def)
next
  case False
  with assms show ?thesis
    by (auto simp: sol_rayMul_def bindSum_Inr rayMulN_def dest!: checked_unat)
qed

lemma sol_rayDiv_unat [checked_unat]:
  assumes "sol_rayDiv a b = Inr c"
  shows "unat c = rayDivN (unat a) (unat b) \<and> unat b \<noteq> 0"
  using assms by (auto simp: sol_rayDiv_def bindSum_Inr rayDivN_def unat_div dest!: checked_unat)

lemma sol_wadMul_unat:
  assumes "sol_wadMul a b = Inr c"
  shows "unat c = (unat a * unat b + 5 * 10 ^ 17) div 10 ^ 18"
proof (cases "a = 0 \<or> b = 0")
  case True
  with assms show ?thesis by (auto simp: sol_wadMul_def)
next
  case False
  with assms show ?thesis
    by (auto simp: sol_wadMul_def bindSum_Inr dest!: checked_unat)
qed

lemma sol_wadDiv_unat:
  assumes "sol_wadDiv a b = Inr c"
  shows "unat c = (unat a * 10 ^ 18 + unat b div 2) div unat b \<and> unat b \<noteq> 0"
  using assms by (auto simp: sol_wadDiv_def bindSum_Inr unat_div dest!: checked_unat)

lemma sol_rayToWad_unat:
  assumes "sol_rayToWad a = Inr c"
  shows "unat c = (unat a + 5 * 10 ^ 8) div 10 ^ 9"
  using assms
  by (auto simp: sol_rayToWad_def bindSum_Inr unat_div add.commute numeral_2_eq_2 [symmetric] dest!: checked_unat)

lemma sol_wadToRay_unat [checked_unat]: "sol_wadToRay a = Inr c \<Longrightarrow> unat c = unat a * 10 ^ 9"
  by (auto simp: sol_wadToRay_def dest!: checked_unat)

lemma sol_percentMul_unat [checked_unat]:
  assumes "sol_percentMul a b = Inr c"
  shows "unat c = percentMulN (unat a) (unat b)"
proof (cases "a = 0 \<or> b = 0")
  case True
  with assms show ?thesis by (auto simp: sol_percentMul_def percentMulN_def)
next
  case False
  with assms show ?thesis
    by (auto simp: sol_percentMul_def bindSum_Inr percentMulN_def unat_div dest!: checked_unat)
qed

lemma sol_percentDiv_unat:
  assumes "sol_percentDiv a b = Inr c"
  shows "unat c = (unat a * 10000 + unat b div 2) div unat b \<and> unat b \<noteq> 0"
  using assms by (auto simp: sol_percentDiv_def bindSum_Inr unat_div dest!: checked_unat)

lemma calculateLinearInterest_unat [checked_unat]:
  assumes "calculateLinearInterest rate since now = Inr c"
  shows "unat c = linearInterestN (unat rate) (unat now - unat since) \<and> unat since \<le> unat now"
  using assms
  by (auto simp: calculateLinearInterest_def bindSum_Inr linearInterestN_def dest!: checked_unat)

lemma calculateCompoundedInterest_unat [checked_unat]:
  assumes "calculateCompoundedInterest rate since now = Inr c"
  shows "unat c = compoundedInterestN (unat rate) (unat now - unat since) \<and> unat since \<le> unat now"
proof -
  obtain e where e: "subChecked now since = Inr e" "unat e = unat now - unat since" "unat since \<le> unat now"
    using assms by (auto simp: calculateCompoundedInterest_def bindSum_Inr dest: checked_unat)
  show ?thesis
  proof (cases "e = 0")
    case True
    with assms e show ?thesis by (auto simp: calculateCompoundedInterest_def)
  next
    case False
    have two: "(2 < e) = (2 < unat e)" by (simp add: word_less_nat_alt)
    from False have "unat e \<noteq> 0" by (simp add: unat_eq_0)
    with False assms e(2,3) show ?thesis
      unfolding e(2) [symmetric]
      by (auto simp: calculateCompoundedInterest_def e(1) bindSum_Inr two compoundedInterestN_def Let_def
          mult.assoc split: if_splits dest!: checked_unat)
  qed
qed

end
