(* ===== verification/BigMath.thy ===== *)
theory BigMath
  imports WadRayMath Complex_Main
begin

text \<open>
  \<open>test-suites/*/helpers/utils/math.ts\<close> (the two copies are the same file): the fixed point methods
  the test suites add to \<open>bignumber.js\<close>, and the constants of \<open>helpers/constants.ts\<close> they use. The
  package itself is the argument \<open>bn\<close>; the locale \<open>bignumber_laws\<close> states its documented
  behaviour: \<open>val x\<close> is the rational number that \<open>x\<close> is, or \<open>None\<close> for a value that is not a
  finite number; \<open>dp\<close> and \<open>mode\<close> are the settings \<open>DECIMAL_PLACES\<close> and \<open>ROUNDING_MODE\<close>, which only
  division (and rounding without a mode) looks at. A field an object does not have holds
  \<open>bn_undefined\<close>.
\<close>

section \<open>The package\<close>

datatype rounding = ROUND_DOWN | ROUND_HALF_UP

text \<open>A method argument may be a number or a string; it is converted by the constructor:
  \<open>bn_number\<close> for a whole number and \<open>bn_new\<close> for a string.\<close>

record 'n bignumber = "'n bignumber_js" +
  bn_number :: "int \<Rightarrow> 'n"
  bn_plus :: "'n \<Rightarrow> 'n \<Rightarrow> 'n"
  bn_minus :: "'n \<Rightarrow> 'n \<Rightarrow> 'n"
  bn_div :: "'n \<Rightarrow> 'n \<Rightarrow> 'n"
  bn_exponentiatedBy :: "'n \<Rightarrow> nat \<Rightarrow> 'n"
  bn_abs :: "'n \<Rightarrow> 'n"
  bn_negated :: "'n \<Rightarrow> 'n"
  bn_eq :: "'n \<Rightarrow> 'n \<Rightarrow> bool"
  bn_lt :: "'n \<Rightarrow> 'n \<Rightarrow> bool"
  bn_gt :: "'n \<Rightarrow> 'n \<Rightarrow> bool"
  bn_decimalPlaces :: "'n \<Rightarrow> nat \<Rightarrow> rounding option \<Rightarrow> 'n"
  bn_toFixedPlaces :: "'n \<Rightarrow> nat \<Rightarrow> string"
  bn_undefined :: 'n

text \<open>Rounding to a number of decimal places, towards zero or to the nearest with ties away
  from zero.\<close>

definition roundAbs :: "rounding \<Rightarrow> rat \<Rightarrow> int" where
  "roundAbs m y = (case m of ROUND_DOWN \<Rightarrow> \<lfloor>y\<rfloor> | ROUND_HALF_UP \<Rightarrow> \<lfloor>y + 1 / 2\<rfloor>)"

definition roundTo :: "nat \<Rightarrow> rounding \<Rightarrow> rat \<Rightarrow> rat" where
  "roundTo k m x = sgn x * of_int (roundAbs m (\<bar>x\<bar> * 10 ^ k)) / 10 ^ k"

definition literalRat :: "string \<Rightarrow> rat" where
  "literalRat s = (case literalValue s of (m, k) \<Rightarrow> of_nat m / 10 ^ k)"

section \<open>Constants\<close>

definition PERCENTAGE_FACTOR :: string where
  "PERCENTAGE_FACTOR = ''10000''"

definition HALF_PERCENTAGE :: string where
  "HALF_PERCENTAGE = ''5000''"

definition WAD :: string where
  "WAD = ''1000000000000000000''"

definition HALF_WAD :: "'n bignumber \<Rightarrow> string" where
  "HALF_WAD bn = bn_toString bn (bn_multipliedBy bn (bn_new bn WAD) (bn_new bn ''0.5''))"

definition RAY :: "'n bignumber \<Rightarrow> string" where
  "RAY bn = bn_toFixed bn (bn_exponentiatedBy bn (bn_number bn 10) 27)"

definition HALF_RAY :: "'n bignumber \<Rightarrow> string" where
  "HALF_RAY bn = bn_toFixed bn (bn_multipliedBy bn (bn_new bn (RAY bn)) (bn_new bn ''0.5''))"

definition WAD_RAY_RATIO :: string where
  "WAD_RAY_RATIO = ''1000000000''"

definition MAX_UINT_AMOUNT :: string where
  "MAX_UINT_AMOUNT = ''115792089237316195423570985008687907853269984665640564039457584007913129639935''"

definition ONE_YEAR :: string where
  "ONE_YEAR = ''31536000''"

section \<open>The methods\<close>

definition roundDown :: "'n bignumber \<Rightarrow> 'n \<Rightarrow> 'n" where
  "roundDown bn x = bn_decimalPlaces bn x 0 (Some ROUND_DOWN)"

definition halfRay :: "'n bignumber \<Rightarrow> 'n" where
  "halfRay bn = roundDown bn (bn_new bn (HALF_RAY bn))"

definition halfWad :: "'n bignumber \<Rightarrow> 'n" where
  "halfWad bn = roundDown bn (bn_new bn (HALF_WAD bn))"

definition wadMul :: "'n bignumber \<Rightarrow> 'n \<Rightarrow> 'n \<Rightarrow> 'n" where
  "wadMul bn x b = roundDown bn (bn_div bn (bn_plus bn (halfWad bn) (bn_multipliedBy bn x b)) (bn_new bn WAD))"

definition wadDiv :: "'n bignumber \<Rightarrow> 'n \<Rightarrow> 'n \<Rightarrow> 'n" where
  "wadDiv bn x a =
     (let halfA = roundDown bn (bn_div bn a (bn_number bn 2)) in
      roundDown bn (bn_div bn (bn_plus bn halfA (bn_multipliedBy bn x (bn_new bn WAD))) a))"

definition rayMul :: "'n bignumber \<Rightarrow> 'n \<Rightarrow> 'n \<Rightarrow> 'n" where
  "rayMul bn x a =
     roundDown bn (bn_div bn (bn_plus bn (halfRay bn) (bn_multipliedBy bn x a)) (bn_new bn (RAY bn)))"

definition rayDiv :: "'n bignumber \<Rightarrow> 'n \<Rightarrow> 'n \<Rightarrow> 'n" where
  "rayDiv bn x a =
     (let halfA = roundDown bn (bn_div bn a (bn_number bn 2)) in
      roundDown bn (bn_div bn
        (roundDown bn (bn_plus bn halfA (bn_multipliedBy bn x (bn_new bn (RAY bn))))) a))"

definition rayToWad :: "'n bignumber \<Rightarrow> 'n \<Rightarrow> 'n" where
  "rayToWad bn x =
     (let halfRatio = bn_div bn (bn_new bn WAD_RAY_RATIO) (bn_number bn 2) in
      roundDown bn (bn_div bn (bn_plus bn halfRatio x) (bn_new bn WAD_RAY_RATIO)))"

definition wadToRay :: "'n bignumber \<Rightarrow> 'n \<Rightarrow> 'n" where
  "wadToRay bn x = roundDown bn (bn_multipliedBy bn x (bn_new bn WAD_RAY_RATIO))"

definition halfPercentage :: "'n bignumber \<Rightarrow> 'n" where
  "halfPercentage bn = roundDown bn (bn_new bn HALF_PERCENTAGE)"

definition percentMul :: "'n bignumber \<Rightarrow> 'n \<Rightarrow> 'n \<Rightarrow> 'n" where
  "percentMul bn x b =
     roundDown bn (bn_div bn (bn_plus bn (halfPercentage bn) (bn_multipliedBy bn x b))
       (bn_new bn PERCENTAGE_FACTOR))"

definition percentDiv :: "'n bignumber \<Rightarrow> 'n \<Rightarrow> 'n \<Rightarrow> 'n" where
  "percentDiv bn x a =
     (let halfA = roundDown bn (bn_div bn a (bn_number bn 2)) in
      roundDown bn (bn_div bn
        (bn_plus bn halfA (bn_multipliedBy bn x (bn_new bn PERCENTAGE_FACTOR))) a))"

section \<open>Rounding\<close>

lemma roundTo_nonneg: "0 \<le> x \<Longrightarrow> roundTo k m x = of_int (roundAbs m (x * 10 ^ k)) / 10 ^ k"
  by (cases "x = 0") (auto simp: roundTo_def roundAbs_def sgn_if floor_eq_iff split: rounding.splits)

lemma roundTo_down_int [simp]: "roundTo 0 ROUND_DOWN (of_int i) = of_int i"
  by (simp add: roundTo_def roundAbs_def sgn_if)

lemma roundTo_down_nat [simp]: "roundTo 0 ROUND_DOWN (of_nat n) = of_nat n"
  using roundTo_down_int [of "int n"] by simp

lemma roundTo_quotient [simp]:
  "roundTo 0 ROUND_DOWN (of_nat a / of_nat b) = (of_nat (a div b) :: rat)"
  by (simp add: roundTo_nonneg roundAbs_def floor_divide_of_nat_eq)

section \<open>Documented behaviour\<close>

text \<open>\<open>toString\<close> prints in exponent notation from \<open>10\<^sup>2\<^sup>1\<close> on, \<open>toFixed\<close> never does.\<close>

locale bignumber_laws =
  fixes bn :: "'n bignumber" and val :: "'n \<Rightarrow> rat option" and dp :: nat and mode :: rounding
  assumes val_new: "isLiteral s \<Longrightarrow> val (bn_new bn s) = Some (literalRat s)"
    and val_number: "val (bn_number bn i) = Some (of_int i)"
    and val_plus: "val x = Some a \<Longrightarrow> val y = Some b \<Longrightarrow> val (bn_plus bn x y) = Some (a + b)"
    and val_minus: "val x = Some a \<Longrightarrow> val y = Some b \<Longrightarrow> val (bn_minus bn x y) = Some (a - b)"
    and val_multipliedBy: "val x = Some a \<Longrightarrow> val y = Some b \<Longrightarrow> val (bn_multipliedBy bn x y) = Some (a * b)"
    and val_div: "val x = Some a \<Longrightarrow> val y = Some b \<Longrightarrow> b \<noteq> 0 \<Longrightarrow>
      val (bn_div bn x y) = Some (roundTo dp mode (a / b))"
    and val_exponentiatedBy: "val x = Some a \<Longrightarrow> val (bn_exponentiatedBy bn x n) = Some (a ^ n)"
    and val_abs: "val x = Some a \<Longrightarrow> val (bn_abs bn x) = Some \<bar>a\<bar>"
    and val_negated: "val x = Some a \<Longrightarrow> val (bn_negated bn x) = Some (- a)"
    and eq_val: "val x = Some a \<Longrightarrow> val y = Some b \<Longrightarrow> bn_eq bn x y \<longleftrightarrow> a = b"
    and lt_val: "val x = Some a \<Longrightarrow> val y = Some b \<Longrightarrow> bn_lt bn x y \<longleftrightarrow> a < b"
    and gt_val: "val x = Some a \<Longrightarrow> val y = Some b \<Longrightarrow> bn_gt bn x y \<longleftrightarrow> b < a"
    and val_decimalPlaces: "val x = Some a \<Longrightarrow>
      val (bn_decimalPlaces bn x k m) = Some (roundTo k (case m of None \<Rightarrow> mode | Some m' \<Rightarrow> m') a)"
    and toFixed_val: "val x = Some (of_nat n) \<Longrightarrow> bn_toFixed bn x = showNat n"
    and toFixedPlaces_val: "val x = Some (of_nat n) \<Longrightarrow> bn_toFixedPlaces bn x 0 = showNat n"
    and toString_val: "val x = Some (of_nat n) \<Longrightarrow> n < 10 ^ 21 \<Longrightarrow> bn_toString bn x = showNat n"

text \<open>The number \<open>x\<close> is the natural number \<open>n\<close>.\<close>

definition denotes :: "('n \<Rightarrow> rat option) \<Rightarrow> 'n \<Rightarrow> nat \<Rightarrow> bool" where
  "denotes val x n \<longleftrightarrow> val x = Some (of_nat n)"

named_theorems denotes_intros

lemma isLiteral_digits:
  assumes "isNumeral s"
  shows "isLiteral s \<and> literalRat s = of_nat (readDigits s)"
proof -
  have all: "\<forall>c \<in> set s. c \<noteq> CHR ''.'' \<and> c \<noteq> CHR ''e''"
    using assms by (auto simp: isNumeral_def list_all_iff)
  then have parts: "takeWhile (\<lambda>c. c \<noteq> CHR ''.'' \<and> c \<noteq> CHR ''e'') s = s"
    "dropWhile (\<lambda>c. c \<noteq> CHR ''.'') s = []" "dropWhile (\<lambda>c. c \<noteq> CHR ''e'') s = []"
    by (auto simp: takeWhile_eq_all_conv)
  have "literalParts s = (s, [], [])" unfolding literalParts_def parts by simp
  with assms show ?thesis
    by (simp add: isLiteral_def literalRat_def literalValue_def readDigits_def)
qed

context bignumber_laws
begin

lemma denotes_new [denotes_intros]: "isNumeral s \<Longrightarrow> denotes val (bn_new bn s) (readDigits s)"
  using isLiteral_digits [of s] val_new [of s] by (simp add: denotes_def)

lemma denotes_number [denotes_intros]: "denotes val (bn_number bn (int n)) n"
  by (simp add: denotes_def val_number)

lemma denotes_plus [denotes_intros]:
  "denotes val x a \<Longrightarrow> denotes val y b \<Longrightarrow> denotes val (bn_plus bn x y) (a + b)"
  using val_plus by (fastforce simp: denotes_def)

lemma denotes_minus [denotes_intros]:
  "denotes val x a \<Longrightarrow> denotes val y b \<Longrightarrow> b \<le> a \<Longrightarrow> denotes val (bn_minus bn x y) (a - b)"
  using val_minus by (fastforce simp: denotes_def of_nat_diff)

lemma denotes_multipliedBy [denotes_intros]:
  "denotes val x a \<Longrightarrow> denotes val y b \<Longrightarrow> denotes val (bn_multipliedBy bn x y) (a * b)"
  using val_multipliedBy by (fastforce simp: denotes_def)

lemma denotes_roundDown [denotes_intros]: "denotes val x a \<Longrightarrow> denotes val (roundDown bn x) a"
  using val_decimalPlaces [of x "of_nat a" 0 "Some ROUND_DOWN"] by (simp add: denotes_def roundDown_def)

lemma denotes_unique: "denotes val x a \<Longrightarrow> denotes val x b \<Longrightarrow> a = b"
  by (simp add: denotes_def)

lemma denotes_eq: "denotes val x a \<Longrightarrow> denotes val y b \<Longrightarrow> bn_eq bn x y \<longleftrightarrow> a = b"
  using eq_val by (fastforce simp: denotes_def)

lemma denotes_gt: "denotes val x a \<Longrightarrow> denotes val y b \<Longrightarrow> bn_gt bn x y \<longleftrightarrow> b < a"
  using gt_val by (fastforce simp: denotes_def)

lemma denotes_lt: "denotes val x a \<Longrightarrow> denotes val y b \<Longrightarrow> bn_lt bn x y \<longleftrightarrow> a < b"
  using lt_val by (fastforce simp: denotes_def)

lemma denotes_abs [denotes_intros]: "denotes val x a \<Longrightarrow> denotes val (bn_abs bn x) a"
  using val_abs by (fastforce simp: denotes_def)

lemma denotes_showNat [denotes_intros]: "denotes val (bn_new bn (showNat n)) n"
  using denotes_new [of "showNat n"] readDigits_showNat [of n] by simp

lemma toFixed_denotes: "denotes val x n \<Longrightarrow> bn_toFixed bn x = showNat n"
  by (simp add: denotes_def toFixed_val)

lemma toFixedPlaces_denotes: "denotes val x n \<Longrightarrow> bn_toFixedPlaces bn x 0 = showNat n"
  by (simp add: denotes_def toFixedPlaces_val)

lemma half_value:
  assumes "denotes val x (2 * n)"
  shows "denotes val (bn_multipliedBy bn x (bn_new bn ''0.5'')) n"
proof -
  have "isLiteral ''0.5''" "literalRat ''0.5'' = 1 / 2"
    by (simp_all add: isLiteral_def literalParts_def literalRat_def literalValue_def isNumeral_def readDigits_def)
  then show ?thesis
    using assms val_multipliedBy [of x "of_nat (2 * n)" "bn_new bn ''0.5''" "1 / 2"] val_new [of "''0.5''"]
    by (simp add: denotes_def)
qed

lemma RAY_eq: "RAY bn = showNat ray"
  using val_exponentiatedBy [OF val_number [of 10], of 27]
  by (intro toFixed_denotes [unfolded denotes_def, of "bn_exponentiatedBy bn (bn_number bn 10) 27", folded RAY_def])
    (simp add: ray_def)

lemma denotes_RAY [denotes_intros]: "denotes val (bn_new bn (RAY bn)) ray"
  by (simp add: RAY_eq denotes_showNat)

lemma denotes_halfRay [denotes_intros]: "denotes val (halfRay bn) (ray div 2)"
proof -
  have "HALF_RAY bn = showNat (ray div 2)"
    unfolding HALF_RAY_def
    by (intro toFixed_denotes half_value) (use denotes_RAY in \<open>simp add: ray_def\<close>)
  then show ?thesis by (simp add: halfRay_def denotes_roundDown denotes_showNat)
qed

lemma denotes_constants [denotes_intros]:
  "denotes val (bn_new bn WAD) (10 ^ 18)" "denotes val (bn_new bn WAD_RAY_RATIO) (10 ^ 9)"
  "denotes val (bn_new bn PERCENTAGE_FACTOR) 10000" "denotes val (bn_new bn HALF_PERCENTAGE) 5000"
  "denotes val (bn_new bn ONE_YEAR) 31536000"
  "denotes val (bn_new bn ''0'') 0" "denotes val (bn_number bn 0) 0" "denotes val (bn_number bn 1) 1"
  "denotes val (bn_number bn 2) 2" "denotes val (bn_number bn 6) 6"
  using denotes_new [of WAD] denotes_new [of WAD_RAY_RATIO] denotes_new [of PERCENTAGE_FACTOR]
    denotes_new [of HALF_PERCENTAGE] denotes_new [of ONE_YEAR] denotes_new [of "''0''"]
    denotes_number [of 0] denotes_number [of 1] denotes_number [of 2] denotes_number [of 6]
  by (simp_all add: WAD_def WAD_RAY_RATIO_def PERCENTAGE_FACTOR_def HALF_PERCENTAGE_def ONE_YEAR_def
      isNumeral_def readDigits_def)

lemma denotes_halfWad [denotes_intros]: "denotes val (halfWad bn) (5 * 10 ^ 17)"
proof -
  have "denotes val (bn_multipliedBy bn (bn_new bn WAD) (bn_new bn ''0.5'')) (5 * 10 ^ 17)"
    by (rule half_value) (use denotes_constants(1) in simp)
  then have "HALF_WAD bn = showNat (5 * 10 ^ 17)"
    unfolding HALF_WAD_def denotes_def by (rule toString_val) simp
  then show ?thesis using denotes_showNat [of "5 * 10 ^ 17"] by (simp add: halfWad_def denotes_roundDown)
qed

lemma denotes_halfPercentage [denotes_intros]: "denotes val (halfPercentage bn) 5000"
  by (simp add: halfPercentage_def denotes_roundDown denotes_constants)

end

section \<open>The setting of the scenario suites\<close>

text \<open>The scenarios run with \<open>BigNumber.config({ DECIMAL_PLACES: 0, ROUNDING_MODE: ROUND_DOWN })\<close>:
  division is that of the natural numbers, and each method is the function of the same name
  over the natural numbers.\<close>

locale bignumber_integers = bignumber_laws bn val 0 ROUND_DOWN for bn :: "'n bignumber" and val
begin

lemma denotes_div [denotes_intros]:
  "denotes val x a \<Longrightarrow> denotes val y b \<Longrightarrow> b \<noteq> 0 \<Longrightarrow> denotes val (bn_div bn x y) (a div b)"
  using val_div [of x "of_nat a" y "of_nat b"] by (simp add: denotes_def)

lemma denotes_half [denotes_intros]:
  "denotes val x a \<Longrightarrow> denotes val (roundDown bn (bn_div bn x (bn_number bn 2))) (a div 2)"
  by (rule denotes_roundDown, rule denotes_div) (simp_all add: denotes_constants)

lemma denotes_rayMul [denotes_intros]:
  assumes "denotes val x a" "denotes val y b"
  shows "denotes val (rayMul bn x y) (rayMulN a b)"
proof -
  have "denotes val (rayMul bn x y) ((ray div 2 + a * b) div ray)"
    unfolding rayMul_def by (intro denotes_intros assms) (simp add: ray_def)
  then show ?thesis by (simp add: rayMulN_def add.commute)
qed

lemma denotes_rayDiv [denotes_intros]:
  assumes "denotes val x a" "denotes val y b" "b \<noteq> 0"
  shows "denotes val (rayDiv bn x y) (rayDivN a b)"
proof -
  have "denotes val (rayDiv bn x y) ((b div 2 + a * ray) div b)"
    unfolding rayDiv_def Let_def by (intro denotes_intros assms)
  then show ?thesis by (simp add: rayDivN_def add.commute)
qed

lemma denotes_wadMul:
  assumes "denotes val x a" "denotes val y b"
  shows "denotes val (wadMul bn x y) ((a * b + 5 * 10 ^ 17) div 10 ^ 18)"
proof -
  have "denotes val (wadMul bn x y) ((5 * 10 ^ 17 + a * b) div 10 ^ 18)"
    unfolding wadMul_def by (intro denotes_intros assms) simp
  then show ?thesis by (simp add: add.commute)
qed

lemma denotes_wadDiv:
  assumes "denotes val x a" "denotes val y b" "b \<noteq> 0"
  shows "denotes val (wadDiv bn x y) ((a * 10 ^ 18 + b div 2) div b)"
proof -
  have "denotes val (wadDiv bn x y) ((b div 2 + a * 10 ^ 18) div b)"
    unfolding wadDiv_def Let_def by (intro denotes_intros assms)
  then show ?thesis by (simp add: add.commute)
qed

lemma denotes_rayToWad:
  assumes "denotes val x a"
  shows "denotes val (rayToWad bn x) ((a + 5 * 10 ^ 8) div 10 ^ 9)"
proof -
  have "denotes val (rayToWad bn x) ((10 ^ 9 div 2 + a) div 10 ^ 9)"
    unfolding rayToWad_def Let_def by (intro denotes_intros assms) simp_all
  then show ?thesis by (simp add: add.commute)
qed

lemma denotes_wadToRay [denotes_intros]: "denotes val x a \<Longrightarrow> denotes val (wadToRay bn x) (a * 10 ^ 9)"
  unfolding wadToRay_def by (intro denotes_intros)

lemma denotes_percentMul [denotes_intros]:
  assumes "denotes val x a" "denotes val y b"
  shows "denotes val (percentMul bn x y) (percentMulN a b)"
proof -
  have "denotes val (percentMul bn x y) ((5000 + a * b) div 10000)"
    unfolding percentMul_def by (intro denotes_intros assms) simp
  then show ?thesis by (simp add: percentMulN_def add.commute)
qed

lemma denotes_percentDiv:
  assumes "denotes val x a" "denotes val y b" "b \<noteq> 0"
  shows "denotes val (percentDiv bn x y) ((a * 10000 + b div 2) div b)"
proof -
  have "denotes val (percentDiv bn x y) ((b div 2 + a * 10000) div b)"
    unfolding percentDiv_def Let_def by (intro denotes_intros assms)
  then show ?thesis by (simp add: add.commute)
qed

end

section \<open>An arithmetic with these laws\<close>

definition printNat :: "rat option \<Rightarrow> string" where
  "printNat x = (case x of None \<Rightarrow> ''NaN'' | Some a \<Rightarrow> showNat (nat \<lfloor>a\<rfloor>))"

definition lift2 :: "(rat \<Rightarrow> rat \<Rightarrow> 'b) \<Rightarrow> 'b \<Rightarrow> rat option \<Rightarrow> rat option \<Rightarrow> 'b" where
  "lift2 f d x y = (case (x, y) of (Some a, Some b) \<Rightarrow> f a b | _ \<Rightarrow> d)"

definition rational_js :: "nat \<Rightarrow> rounding \<Rightarrow> rat option bignumber" where
  "rational_js dp mode =
     \<lparr>bn_new = (\<lambda>s. if isLiteral s then Some (literalRat s) else None),
      bn_multipliedBy = lift2 (\<lambda>a b. Some (a * b)) None,
      bn_toFixed = printNat, bn_toString = printNat,
      bn_number = (\<lambda>i. Some (of_int i)),
      bn_plus = lift2 (\<lambda>a b. Some (a + b)) None,
      bn_minus = lift2 (\<lambda>a b. Some (a - b)) None,
      bn_div = lift2 (\<lambda>a b. if b = 0 then None else Some (roundTo dp mode (a / b))) None,
      bn_exponentiatedBy = (\<lambda>x n. map_option (\<lambda>a. a ^ n) x),
      bn_abs = map_option abs, bn_negated = map_option uminus,
      bn_eq = lift2 (=) False, bn_lt = lift2 (<) False, bn_gt = lift2 (>) False,
      bn_decimalPlaces = (\<lambda>x k m. map_option (roundTo k (case m of None \<Rightarrow> mode | Some m' \<Rightarrow> m')) x),
      bn_toFixedPlaces = (\<lambda>x k. printNat x), bn_undefined = None\<rparr>"

interpretation rational: bignumber_laws "rational_js dp mode" "\<lambda>x. x" dp mode for dp mode
  by unfold_locales (simp_all add: rational_js_def lift2_def printNat_def)

interpretation rational_integers: bignumber_integers "rational_js 0 ROUND_DOWN" "\<lambda>x. x"
  by unfold_locales

end
