(* ===== verification/TokenHelpers.thy ===== *)
theory TokenHelpers
  imports Getters AddressesProvider BigMath
begin

text \<open>
  \<open>helpers/contracts-helpers.ts\<close>: amounts in units of a token, and the parameters of the adapters,
  encoded by \<open>ethers.utils.defaultAbiCoder.encode\<close>, the argument \<open>encode\<close>.
\<close>

section \<open>Amounts\<close>

text \<open>The functions of the packages the scripts use on amounts: \<open>bignumber.js\<close> with \<open>toString(16)\<close> and
  \<open>toNumber\<close>, and \<open>ethers.utils.parseUnits\<close>, which throws on text it cannot read.\<close>

record 'n tools =
  big :: "'n bignumber"
  parseUnits :: "string \<Rightarrow> string \<Rightarrow> error + string"
  toHex :: "'n \<Rightarrow> string"
  toNumber :: "'n \<Rightarrow> nat"

definition unitsOf :: "'n tools \<Rightarrow> string \<Rightarrow> string \<Rightarrow> error + string" where
  "unitsOf tools amount decimals =
     parseUnits tools (bn_toFixedPlaces (big tools) (bn_new (big tools) amount) (readDigits decimals)) decimals"

definition convertToCurrencyDecimals :: "'n tools \<Rightarrow> address \<Rightarrow> string \<Rightarrow> string script" where
  "convertToCurrencyDecimals tools tokenAddress amount =
     bindIO (getIErc20Detailed tokenAddress) (\<lambda>token.
     bindIO (viewContract token ''decimals'' '''') (\<lambda>decimals.
     liftSum (unitsOf tools amount decimals)))"

definition convertToCurrencyUnits :: "'n bignumber \<Rightarrow> address \<Rightarrow> string \<Rightarrow> string script" where
  "convertToCurrencyUnits bn tokenAddress amount =
     bindIO (getIErc20Detailed tokenAddress) (\<lambda>token.
     bindIO (viewContract token ''decimals'' '''') (\<lambda>decimals.
     let currencyUnit = bn_exponentiatedBy bn (bn_number bn 10) (readDigits decimals);
         amountInCurrencyUnits = bn_div bn (bn_new bn amount) currencyUnit in
     returnIO (bn_toFixed bn amountInCurrencyUnits)))"

definition parseEther :: "'n tools \<Rightarrow> string \<Rightarrow> error + string" where
  "parseEther tools amount = parseUnits tools amount ''18''"

section \<open>Parameters of the adapters\<close>

definition buildLiquiditySwapParams ::
  "(string list \<Rightarrow> arg list \<Rightarrow> 'b) \<Rightarrow> string list \<Rightarrow> string list \<Rightarrow> string list \<Rightarrow> string list \<Rightarrow>
   string list \<Rightarrow> string list \<Rightarrow> string list \<Rightarrow> string list \<Rightarrow> bool list \<Rightarrow> 'b" where
  "buildLiquiditySwapParams encode assetToSwapToList minAmountsToReceive swapAllBalances permitAmounts
     deadlines v r s useEthPath =
     encode
       [''address[]'', ''uint256[]'', ''bool[]'', ''uint256[]'', ''uint256[]'', ''uint8[]'', ''bytes32[]'',
        ''bytes32[]'', ''bool[]'']
       [Strs assetToSwapToList, Strs minAmountsToReceive, Strs swapAllBalances, Strs permitAmounts,
        Strs deadlines, Strs v, Strs r, Strs s, Bools useEthPath]"

definition buildRepayAdapterParams ::
  "(string list \<Rightarrow> arg list \<Rightarrow> 'b) \<Rightarrow> address \<Rightarrow> string \<Rightarrow> string \<Rightarrow> string \<Rightarrow> string \<Rightarrow> string \<Rightarrow> string \<Rightarrow>
   string \<Rightarrow> bool \<Rightarrow> 'b" where
  "buildRepayAdapterParams encode collateralAsset collateralAmount rateMode permitAmount deadline v r s useEthPath =
     encode
       [''address'', ''uint256'', ''uint256'', ''uint256'', ''uint256'', ''uint8'', ''bytes32'', ''bytes32'', ''bool'']
       [Str collateralAsset, Str collateralAmount, Str rateMode, Str permitAmount, Str deadline, Str v, Str r,
        Str s, Flag useEthPath]"

definition buildFlashLiquidationAdapterParams ::
  "(string list \<Rightarrow> arg list \<Rightarrow> 'b) \<Rightarrow> address \<Rightarrow> address \<Rightarrow> address \<Rightarrow> string \<Rightarrow> bool \<Rightarrow> 'b" where
  "buildFlashLiquidationAdapterParams encode collateralAsset debtAsset user debtToCover useEthPath =
     encode [''address'', ''address'', ''address'', ''uint256'', ''bool'']
       [Str collateralAsset, Str debtAsset, Str user, Str debtToCover, Flag useEthPath]"

text \<open>The tuple of the permit is an array, by position.\<close>

definition buildParaSwapLiquiditySwapParams ::
  "(string list \<Rightarrow> arg list \<Rightarrow> 'b) \<Rightarrow> address \<Rightarrow> string \<Rightarrow> string \<Rightarrow> string \<Rightarrow> address \<Rightarrow> string \<Rightarrow> string \<Rightarrow>
   string \<Rightarrow> string \<Rightarrow> string \<Rightarrow> 'b" where
  "buildParaSwapLiquiditySwapParams encode assetToSwapTo minAmountToReceive swapAllBalanceOffset swapCalldata
     augustus permitAmount deadline v r s =
     encode
       [''address'', ''uint256'', ''uint256'', ''bytes'', ''address'',
        ''tuple(uint256,uint256,uint8,bytes32,bytes32)'']
       [Str assetToSwapTo, Str minAmountToReceive, Str swapAllBalanceOffset, Str swapCalldata, Str augustus,
        Strs [permitAmount, deadline, v, r, s]]"

end
