(* ===== verification/DeveloperTasks.thy ===== *)
theory DeveloperTasks
  imports TestnetTasks TokenHelpers
begin

text \<open>
  The tasks a developer runs against a deployed market: \<open>tasks/helpers/*\<close> (a new asset, another
  strategy, the parameters of a new vault), \<open>tasks/misc/*\<close>, the test tokens of
  \<open>tasks/migrations/sturdy.testnet.{dai,usdc,usdt}.ts\<close> and \<open>sturdy.ftm.mockVaults.ts\<close>. 
\<close>

section \<open>Strategies by name\<close>

text \<open>\<open>import * as reserveConfigs from '../markets/*/reservesConfigs'\<close>: the exports by name.\<close>

definition sturdyReserveConfigs :: "'n bignumber_js \<Rightarrow> IReserveParams jsobj" where
  "sturdyReserveConfigs bn =
     [(''strategyDAI'', strategyDAI bn),
      (''strategyUSDC'', strategyUSDC bn),
      (''strategyUSDT'', strategyUSDT bn),
      (''strategySTETH'', strategySTETH bn),
      (''strategyYVRETH_WSTETH'', strategyYVRETH_WSTETH bn),
      (''strategyCVXRETH_WSTETH'', strategyCVXRETH_WSTETH bn),
      (''strategyCVXFRAX_3CRV'', strategyCVXFRAX_3CRV bn),
      (''strategyCVXSTECRV'', strategyCVXSTECRV bn),
      (''strategyCVXDOLA_3CRV'', strategyCVXDOLA_3CRV bn),
      (''strategyCVXMIM_3CRV'', strategyCVXMIM_3CRV bn),
      (''strategyCVXDAI_USDC_USDT_SUSD'', strategyCVXDAI_USDC_USDT_SUSD bn),
      (''strategyCVXHBTC_WBTC'', strategyCVXHBTC_WBTC bn),
      (''strategyCVXIRON_BANK'', strategyCVXIRON_BANK bn),
      (''strategyCVXFRAX_USDC'', strategyCVXFRAX_USDC bn),
      (''strategyAURADAI_USDC_USDT'', strategyAURADAI_USDC_USDT bn),
      (''strategyCVXTUSD_FRAXBP'', strategyCVXTUSD_FRAXBP bn),
      (''strategyAURABB_A_USD'', strategyAURABB_A_USD bn),
      (''strategyAURABB_A3_USD'', strategyAURABB_A3_USD bn)]"

definition fantomReserveConfigs :: "'n bignumber_js \<Rightarrow> IReserveParams jsobj" where
  "fantomReserveConfigs bn =
     [(''strategyDAI'', ftm_strategyDAI bn),
      (''strategyUSDC'', ftm_strategyUSDC bn),
      (''strategyUSDT'', ftm_strategyUSDT bn),
      (''strategyYVWFTM'', ftm_strategyYVWFTM bn),
      (''strategyMOOWETH'', ftm_strategyMOOWETH bn),
      (''strategyYVWETH'', ftm_strategyYVWETH bn),
      (''strategyYVWBTC'', ftm_strategyYVWBTC bn),
      (''strategyYVBOO'', ftm_strategyYVBOO bn),
      (''strategyMOOTOMB_FTM'', ftm_strategyMOOTOMB_FTM bn),
      (''strategyMOOTOMB_MIMATIC'', ftm_strategyMOOTOMB_MIMATIC bn),
      (''strategyMOOMIM_2CRV'', ftm_strategyMOOMIM_2CRV bn),
      (''strategyYVFBEETS'', ftm_strategyYVFBEETS bn),
      (''strategyYVLINK'', ftm_strategyYVLINK bn),
      (''strategyYVCRV'', ftm_strategyYVCRV bn),
      (''strategyYVSPELL'', ftm_strategyYVSPELL bn),
      (''strategyMOOBASED_MIMATIC'', ftm_strategyMOOBASED_MIMATIC bn)]"

definition getReserveConfigs :: "'n bignumber_js \<Rightarrow> string \<Rightarrow> error + IReserveParams jsobj" where
  "getReserveConfigs bn pool =
     (if pool = ''Sturdy'' then Inr (sturdyReserveConfigs bn)
      else if pool = ''Fantom'' then Inr (fantomReserveConfigs bn)
      else Inl (Error ''Not exist reserveConfigs''))"

text \<open>Which export the field \<open>ReservesConfig\<close> of \<open>markets/*/index.ts\<close> has under a symbol. The
  comparison with \<open>===\<close> below is one of references, so it is one of these names.\<close>

definition sturdyReserveNames :: "string jsobj" where
  "sturdyReserveNames =
     [(''DAI'', ''strategyDAI''), (''USDC'', ''strategyUSDC''), (''USDT'', ''strategyUSDT''),
      (''stETH'', ''strategySTETH''), (''yvRETH_WSTETH'', ''strategyYVRETH_WSTETH''),
      (''cvxRETH_WSTETH'', ''strategyCVXRETH_WSTETH''), (''cvxFRAX_3CRV'', ''strategyCVXFRAX_3CRV''),
      (''cvxSTECRV'', ''strategyCVXSTECRV''), (''cvxDOLA_3CRV'', ''strategyCVXDOLA_3CRV''),
      (''cvxMIM_3CRV'', ''strategyCVXMIM_3CRV''),
      (''cvxDAI_USDC_USDT_SUSD'', ''strategyCVXDAI_USDC_USDT_SUSD''),
      (''cvxHBTC_WBTC'', ''strategyCVXHBTC_WBTC''), (''cvxIRON_BANK'', ''strategyCVXIRON_BANK''),
      (''cvxFRAX_USDC'', ''strategyCVXFRAX_USDC''),
      (''auraDAI_USDC_USDT'', ''strategyAURADAI_USDC_USDT''),
      (''cvxTUSD_FRAXBP'', ''strategyCVXTUSD_FRAXBP''), (''auraBB_A_USD'', ''strategyAURABB_A_USD''),
      (''auraBB_A3_USD'', ''strategyAURABB_A3_USD'')]"

definition fantomReserveNames :: "string jsobj" where
  "fantomReserveNames =
     [(''DAI'', ''strategyDAI''), (''USDC'', ''strategyUSDC''), (''fUSDT'', ''strategyUSDT''),
      (''yvWFTM'', ''strategyYVWFTM''), (''mooWETH'', ''strategyMOOWETH''),
      (''yvWETH'', ''strategyYVWETH''), (''yvWBTC'', ''strategyYVWBTC''), (''yvBOO'', ''strategyYVBOO''),
      (''mooTOMB_FTM'', ''strategyMOOTOMB_FTM''), (''mooTOMB_MIMATIC'', ''strategyMOOTOMB_MIMATIC''),
      (''mooBASED_MIMATIC'', ''strategyMOOBASED_MIMATIC''), (''mooMIM_2CRV'', ''strategyMOOMIM_2CRV''),
      (''yvfBEETS'', ''strategyYVFBEETS''), (''yvLINK'', ''strategyYVLINK''), (''yvCRV'', ''strategyYVCRV''),
      (''yvSPELL'', ''strategyYVSPELL'')]"

fun reserveNamesOf :: "PoolConfiguration \<Rightarrow> string jsobj" where
  "reserveNamesOf (CommonsPool c) = []"
| "reserveNamesOf (SturdyPool c) = sturdyReserveNames"
| "reserveNamesOf (FantomPool c) = fantomReserveNames"

text \<open>\<open>'strategy' + symbol.toUpperCase()\<close>\<close>

definition strategyName :: "string \<Rightarrow> string" where
  "strategyName symbol = ''strategy'' @ toUpperCase symbol"

text \<open>The conjunction is evaluated from the left; \<open>ReserveAssets[network]\<close> may be \<open>undefined\<close>.\<close>

definition isSymbolValid ::
  "string \<Rightarrow> string \<Rightarrow> PoolConfiguration \<Rightarrow> IReserveParams jsobj \<Rightarrow> error + bool" where
  "isSymbolValid symbol network poolConfig reserveConfigs =
     (if strategyName symbol \<notin> set (obj_keys reserveConfigs) then Inr False
      else case obj_get (ReserveAssets (commonConfiguration poolConfig)) network of
        None \<Rightarrow> Inl (TypeError symbol)
      | Some assets \<Rightarrow>
          Inr (truthy (obj_get assets symbol) \<and>
               obj_get (reserveNamesOf poolConfig) symbol = Some (strategyName symbol)))"

text \<open>The first lines of the tasks on one asset: the configuration, the strategy of the symbol and the
  address of its asset.\<close>

definition loadAsset :: "'n bignumber_js \<Rightarrow> string \<Rightarrow> string \<Rightarrow>
    (PoolConfiguration \<times> IReserveParams \<times> address) script" where
  "loadAsset bn pool symbol =
     bindIO (currentPoolConfig pool) (\<lambda>poolConfig.
     bindIO (liftSum (getReserveConfigs bn pool)) (\<lambda>reserveConfigs.
     bindIO (getsIO currentNetwork) (\<lambda>network.
     bindIO (liftSum (isSymbolValid symbol network poolConfig reserveConfigs)) (\<lambda>valid.
     thenIO (requireIO valid (Error ''WRONG RESERVE ASSET SETUP'')) (
     returnIO (poolConfig, the (obj_get reserveConfigs (strategyName symbol)),
       the (obj_get (the (obj_get (ReserveAssets (commonConfiguration poolConfig)) network)) symbol)))))))"

section \<open>Another strategy for an asset\<close>

definition change_asset_strategy :: "'n bignumber_js \<Rightarrow> string \<Rightarrow> string \<Rightarrow> unit script" where
  "change_asset_strategy bn symbol pool =
     bindIO (loadAsset bn pool symbol) (\<lambda>(poolConfig, strategyParams, reserveAssetAddress).
     bindIO (getLendingPoolConfiguratorProxy None) (\<lambda>lendingPoolConf.
     bindIO (addressArg (Some reserveAssetAddress)) (\<lambda>asset.
     callContract lendingPoolConf ''configureReserveAsCollateral''
       [Str asset, Str (baseLTVAsCollateral strategyParams), Str (liquidationThreshold strategyParams),
        Str (liquidationBonus strategyParams)])))"

section \<open>A new asset\<close>

text \<open>A strategy contract for the parameters of a reserve, recorded under its name too.\<close>

definition deployStrategyOf :: "address \<Rightarrow> IReserveParams \<Rightarrow> bool \<Rightarrow> handle script" where
  "deployStrategyOf provider params verify =
     (let strat = strategy params in
      bindIO (deployDefaultReserveInterestRateStrategy
                [Str provider, Str (optimalUtilizationRate strat), Str (baseVariableBorrowRate strat),
                 Str (variableRateSlope1 strat), Str (variableRateSlope2 strat),
                 Str (stableRateSlope1 strat), Str (stableRateSlope2 strat), Str (capacity strat)] verify)
        (\<lambda>rates. thenIO (rawInsertContractAddressInDb (strategy_name strat) (h_address rates))
          (returnIO rates)))"

definition aTokenImplementationFor :: "IReserveParams \<Rightarrow> address script" where
  "aTokenImplementationFor params =
     bindIO (if aTokenImpl params = ''AToken'' then getGenericATokenImpl None
             else getCollateralATokenImpl None) (\<lambda>h. returnIO (h_address h))"

text \<open>The structure \<open>InitReserveInput\<close> of one asset.\<close>

definition newAssetInput ::
  "ICommonConfiguration \<Rightarrow> string \<Rightarrow> IReserveParams \<Rightarrow> address \<times> address \<times> address \<times> address \<Rightarrow>
   address \<Rightarrow> address \<Rightarrow> address \<Rightarrow> address \<Rightarrow> (string \<times> arg) list" where
  "newAssetInput config symbol params impls yieldAddress underlyingAsset treasury incentives =
     (let (aTokenToUse, stableDebtToken, variableDebtToken, rates) = impls in
      [(''aTokenImpl'', Str aTokenToUse),
       (''stableDebtTokenImpl'', Str stableDebtToken),
       (''variableDebtTokenImpl'', Str variableDebtToken),
       (''underlyingAssetDecimals'', Str (reserveDecimals params)),
       (''interestRateStrategyAddress'', Str rates),
       (''yieldAddress'', Str yieldAddress),
       (''underlyingAsset'', Str underlyingAsset),
       (''treasury'', Str treasury),
       (''incentivesController'', Str incentives),
       (''underlyingAssetName'', Str symbol),
       (''aTokenName'', Str (ATokenNamePrefix config @ '' '' @ symbol)),
       (''aTokenSymbol'', Str (''s'' @ SymbolPrefix config @ symbol)),
       (''variableDebtTokenName'',
        Str (VariableDebtTokenNamePrefix config @ '' '' @ SymbolPrefix config @ symbol)),
       (''variableDebtTokenSymbol'', Str (''variableDebt'' @ SymbolPrefix config @ symbol)),
       (''stableDebtTokenName'', Str (StableDebtTokenNamePrefix config @ '' '' @ symbol)),
       (''stableDebtTokenSymbol'', Str (''stableDebt'' @ SymbolPrefix config @ symbol)),
       (''params'', Str ''0x10'')])"

text \<open>The strategy of the two tasks below is deployed after the treasury and the incentives controller
  are read. An empty yield address stands for zero; ethers checks the addresses of the structure.\<close>

definition initNewAsset ::
  "handle \<Rightarrow> ICommonConfiguration \<Rightarrow> string \<Rightarrow> IReserveParams \<Rightarrow> address \<Rightarrow> string \<Rightarrow> address \<Rightarrow>
   address option \<Rightarrow> address \<Rightarrow> address \<Rightarrow> unit script" where
  "initNewAsset configurator config symbol params aTokenToUse yieldaddress reserveAssetAddress
     treasuryAddress incentives rates =
     bindIO (getStableDebtToken None) (\<lambda>stableDebtToken.
     bindIO (getVariableDebtToken None) (\<lambda>variableDebtToken.
     bindIO (addressArg (Some (if yieldaddress = '''' then ZERO_ADDRESS else yieldaddress))) (\<lambda>yieldAddress.
     bindIO (addressArg (Some reserveAssetAddress)) (\<lambda>underlyingAsset.
     bindIO (addressArg treasuryAddress) (\<lambda>treasury.
     callContract configurator ''batchInitReserve''
       [Structs [Struct (newAssetInput config symbol params
          (aTokenToUse, h_address stableDebtToken, h_address variableDebtToken, rates)
          yieldAddress underlyingAsset treasury incentives)]])))))"

text \<open>The helper is the pool admin while it configures the reserve.\<close>

definition configureAsPoolAdmin :: "handle \<Rightarrow> address \<Rightarrow> IReserveParams \<Rightarrow> unit script" where
  "configureAsPoolAdmin addressProvider reserveAssetAddress params =
     bindIO (getATokensAndRatesHelper None) (\<lambda>atokenAndRatesDeployer.
     bindIO (getPoolAdmin addressProvider) (\<lambda>admin.
     thenIO (setPoolAdmin addressProvider (Some (h_address atokenAndRatesDeployer))) (
     thenIO (callContract atokenAndRatesDeployer ''configureReserves''
               [Structs [Struct (configureInput reserveAssetAddress params)]]) (
     setPoolAdmin addressProvider (Some admin)))))"

definition deploy_new_asset ::
  "'n bignumber_js \<Rightarrow> string \<Rightarrow> bool \<Rightarrow> string \<Rightarrow> string \<Rightarrow> string \<Rightarrow> unit script" where
  "deploy_new_asset bn pool verify symbol yieldaddress externalcollateraladdress =
     bindIO (loadAsset bn pool symbol) (\<lambda>(poolConfig, strategyParams, reserveAssetAddress).
     let config = commonConfiguration poolConfig in
     bindIO (getLendingPoolAddressesProvider None) (\<lambda>addressProvider.
     bindIO (getLendingPool None) (\<lambda>lendingPool.
     bindIO (getTreasuryAddress config) (\<lambda>treasuryAddress.
     bindIO (getSturdyIncentivesController None) (\<lambda>incentivesController.
     bindIO (deployStrategyOf (h_address addressProvider) strategyParams verify) (\<lambda>rates.
     bindIO (getLendingPoolConfiguratorProxy None) (\<lambda>configurator.
     bindIO (aTokenImplementationFor strategyParams) (\<lambda>aTokenToUse.
     thenIO (initNewAsset configurator config symbol strategyParams aTokenToUse yieldaddress
               reserveAssetAddress treasuryAddress (h_address incentivesController) (h_address rates)) (
     bindIO (viewContract lendingPool ''getReserveData.aTokenAddress'' reserveAssetAddress) (\<lambda>aToken.
     bindIO (viewContract lendingPool ''getReserveData.variableDebtTokenAddress'' reserveAssetAddress)
       (\<lambda>variableDebtToken.
     thenIO (callContract incentivesController ''configureAssets''
               [Strs [aToken, variableDebtToken],
                Strs [emissionPerSecond strategyParams, emissionPerSecond strategyParams]]) (
     thenIO (configureAsPoolAdmin addressProvider reserveAssetAddress strategyParams) (
     bindIO (getCollateralAdapter None) (\<lambda>collateralAdapter.
     bindIO (addressArg (Some externalcollateraladdress)) (\<lambda>external.
     bindIO (addressArg (Some yieldaddress)) (\<lambda>vault.
     callContract collateralAdapter ''addCollateralAsset''
       [Str external, Str reserveAssetAddress, Str vault]))))))))))))))))"

section \<open>The parameters of a new vault\<close>

text \<open>
  The task deploys the strategy and the vault's implementation and prints the arguments of
  \<open>DeployVaultHelper.deployVault\<close> for somebody else to send. What it prints is its result here, label
  by label; \<open>ethers.utils.formatBytes32String\<close> of a name is the name.
\<close>

definition newVaultParams ::
  "ICommonConfiguration \<Rightarrow> string \<Rightarrow> IReserveParams \<Rightarrow> address list \<Rightarrow> address option \<Rightarrow> address \<Rightarrow>
   address \<times> address \<times> address \<times> address \<Rightarrow> address \<Rightarrow> address option \<Rightarrow> address \<Rightarrow> (string \<times> arg) list" where
  "newVaultParams config symbol strategyParams contractAddresses rawTreasury atokenAndRatesDeployer impls
     reserveAssetAddress treasuryAddress incentivesController =
     (let shown = (\<lambda>v. case v of None \<Rightarrow> ''undefined'' | Some s \<Rightarrow> s) in
       [(''_ids'', Strs [''AURA_BB_A3_USD_VAULT'', ''AURABAL_BB_A3_USD'', ''BAL_BB_A3_USD_LP'']),
        (''_addresses'', Strs contractAddresses),
        (''_treasuryAddress'', Str (shown rawTreasury)),
        (''_treasuryFee'', Str ''1000''),
        (''_aTokenHelper'', Str atokenAndRatesDeployer),
        (''_inputParams'', Structs [Struct (configureInput reserveAssetAddress strategyParams)]),
        (''_input'', Structs [Struct (newAssetInput config symbol strategyParams impls
           ZERO_ADDRESS reserveAssetAddress (shown treasuryAddress) incentivesController)])])"

definition get_param_for_new_vault ::
  "'n bignumber_js \<Rightarrow> string \<Rightarrow> bool \<Rightarrow> string \<Rightarrow> (string \<times> arg) list script" where
  "get_param_for_new_vault bn pool verify symbol =
     bindIO (loadAsset bn pool symbol) (\<lambda>(poolConfig, strategyParams, reserveAssetAddress).
     let config = commonConfiguration poolConfig in
     bindIO (getLendingPoolAddressesProvider None) (\<lambda>addressProvider.
     bindIO (getTreasuryAddress config) (\<lambda>treasuryAddress.
     bindIO (getSturdyIncentivesController None) (\<lambda>incentivesController.
     bindIO (getATokensAndRatesHelper None) (\<lambda>atokenAndRatesDeployer.
     bindIO (deployStrategyOf (h_address addressProvider) strategyParams verify) (\<lambda>rates.
     bindIO (aTokenImplementationFor strategyParams) (\<lambda>aTokenToUse.
     bindIO (deployAuraBBA3USDVaultImpl verify) (\<lambda>vaultImpl.
     bindIO (getLendingPoolAddressesProvider None) (\<lambda>addressesProvider.
     thenIO (initialize vaultImpl (h_address addressesProvider)) (
     bindIO (entryHere (ReserveAssets config) ''auraBB_A3_USD'') (\<lambda>internalAsset.
     bindIO (configuredParam (sturdyField BAL_BB_A3_USD_LP poolConfig)) (\<lambda>externalAsset.
     bindIO (rawParam (Some (ReserveFactorTreasuryAddress config))) (\<lambda>rawTreasury.
     bindIO (getStableDebtToken None) (\<lambda>stableDebtToken.
     bindIO (getVariableDebtToken None) (\<lambda>variableDebtToken.
     let shown = (\<lambda>v. case v of None \<Rightarrow> ''undefined'' | Some s \<Rightarrow> s) in
     returnIO (newVaultParams config symbol strategyParams
       [h_address vaultImpl, shown internalAsset, shown externalAsset] rawTreasury
       (h_address atokenAndRatesDeployer)
       (aTokenToUse, h_address stableDebtToken, h_address variableDebtToken, h_address rates)
       reserveAssetAddress treasuryAddress (h_address incentivesController)))))))))))))))))"

section \<open>Test tokens\<close>

definition sturdy_testnet_dai :: "'n tools \<Rightarrow> bool \<Rightarrow> unit script" where
  "sturdy_testnet_dai tools verify =
     bindIO theFirstSigner (\<lambda>dai_minter.
     bindIO (getsIO network_chainId) (\<lambda>chainId. case chainId of
       None \<Rightarrow> throwIO (InvalidArgument ''chainId'')
     | Some c \<Rightarrow>
       bindIO (deployMockDai (Str (showNat c)) verify) (\<lambda>dai.
       bindIO (liftSum (parseEther tools ''1000000'')) (\<lambda>amount.
       callContract dai ''mint'' [Str dai_minter, Str amount]))))"

definition mintSwapped :: "'n tools \<Rightarrow> address \<Rightarrow> handle \<Rightarrow> unit script" where
  "mintSwapped tools minter token =
     bindIO (convertToCurrencyDecimals tools (h_address token) ''1000000'') (\<lambda>amount.
     callContract token ''Swapin''
       [Str ''0xf46b121a8bf6c2612ca202023f93cba708ecb1771da365029072a2f9930ddc76'', Str minter, Str amount])"

definition sturdy_testnet_usdc :: "'n tools \<Rightarrow> bool \<Rightarrow> unit script" where
  "sturdy_testnet_usdc tools verify =
     bindIO theFirstSigner (\<lambda>usdc_minter.
     bindIO (deployMockUSDC [Str ''USDC'', Str ''USDC'', Str ''6'', Str usdc_minter] verify) (\<lambda>usdc.
     mintSwapped tools usdc_minter usdc))"

definition sturdy_testnet_usdt :: "'n tools \<Rightarrow> bool \<Rightarrow> unit script" where
  "sturdy_testnet_usdt tools verify =
     bindIO theFirstSigner (\<lambda>usdt_minter.
     bindIO (deployMockUSDT [Str ''USDT'', Str ''USDT'', Str ''6'', Str usdt_minter] verify) (\<lambda>usdt.
     mintSwapped tools usdt_minter usdt))"

text \<open>\<open>sturdy:testnet:ftm:mockVaults\<close>: the body is commented out but for the reads.\<close>

definition sturdy_ftm_mockVaults :: "unit script" where
  "sturdy_ftm_mockVaults =
     bindIO (currentPoolConfig ''Fantom'') (\<lambda>poolConfig.
     let config = commonConfiguration poolConfig in
     bindIO theFirstSigner (\<lambda>sender.
     bindIO (forIO
       [Some (WFTM config), Some (WETH config), Some (WBTC config), fantomField BOO poolConfig,
        fantomField TOMB_FTM_LP poolConfig, fantomField TOMB_MIMATIC_LP poolConfig,
        fantomField BASED_MIMATIC_LP poolConfig, fantomField LINK poolConfig,
        fantomField fBEETS poolConfig, CRV_field poolConfig, fantomField SPELL poolConfig]
       configuredParam) (\<lambda>_. returnIO ())))"

section \<open>Console tasks\<close>

text \<open>\<open>wrap:ftm\<close> deposits into the token configured as WETH.\<close>

definition wrap_ftm :: "'n tools \<Rightarrow> string \<Rightarrow> unit script" where
  "wrap_ftm tools amount =
     bindIO (currentPoolConfig ''Fantom'') (\<lambda>poolConfig.
     bindIO (paramHere (WETH (commonConfiguration poolConfig))) (\<lambda>wftmAddress.
     bindIO (addressArg wftmAddress) (\<lambda>a.
     bindIO (getIWETH a) (\<lambda>token.
     bindIO (liftSum (parseEther tools amount)) (\<lambda>value.
     callContract token ''deposit'' [Struct [(''value'', Str value)]])))))"

definition verify_sc :: "address \<Rightarrow> arg list \<Rightarrow> unit script" where
  "verify_sc a constructorArguments =
     thenIO checkVerification (verifyEtherscanContract a constructorArguments)"

text \<open>\<open>print-config\<close>: what it reads and prints, label by label; the views of the registry and the data
  provider return strings.\<close>

definition getMarketId :: "handle \<Rightarrow> string script" where
  "getMarketId h =
     bindIO (getsIO (\<lambda>w. providers w (h_address h))) (\<lambda>p. case p of
       None \<Rightarrow> throwIO (Error ''call revert exception'') | Some p \<Rightarrow> returnIO (marketId p))"

definition reserveFields :: "string list" where
  "reserveFields =
     [''decimals'', ''ltv'', ''liquidationThreshold'', ''liquidationBonus'', ''reserveFactor'',
      ''usageAsCollateralEnabled'', ''borrowingEnabled'', ''stableBorrowRateEnabled'', ''isActive'', ''isFrozen'']"

definition reserveTokenFields :: "string list" where
  "reserveTokenFields = [''aToken'', ''stableDebtToken'', ''variableDebtToken'']"

text \<open>\<open>reserveData[field]\<close> is the component of that name; \<open>tokensAddresses[index]\<close> goes by position.\<close>

definition printReserve :: "handle \<Rightarrow> string \<times> address \<Rightarrow> (string \<times> string) list script" where
  "printReserve protocolDataProvider = (\<lambda>(symbol, a).
     bindIO (addressArg (Some a)) (\<lambda>_.
     bindIO (forIO reserveFields (\<lambda>field.
       bindIO (viewContract protocolDataProvider (''getReserveConfigurationData.'' @ field) a) (\<lambda>v.
         returnIO (field, v)))) (\<lambda>reserveData.
     bindIO (forIO (zip [0..<length reserveTokenFields] reserveTokenFields) (\<lambda>(index, field).
       bindIO (viewContract protocolDataProvider (''getReserveTokensAddresses.'' @ showNat index) a) (\<lambda>v.
         returnIO (field, v)))) (\<lambda>tokensAddresses.
     returnIO ((symbol, a) # reserveData @ tokensAddresses)))))"

definition print_config :: "string \<Rightarrow> address \<Rightarrow> (string \<times> string) list script" where
  "print_config pool dataProvider =
     bindIO (currentPoolConfig pool) (\<lambda>poolConfig.
     let config = commonConfiguration poolConfig in
     bindIO (configuredParam (Some (ProviderRegistry config))) (\<lambda>providerRegistryAddress.
     bindIO (getLendingPoolAddressesProviderRegistry providerRegistryAddress) (\<lambda>providerRegistry.
     bindIO (viewContract providerRegistry ''getAddressesProvidersList'' ''0'') (\<lambda>firstProvider.
     bindIO (getLendingPoolAddressesProvider (Some firstProvider)) (\<lambda>addressesProvider.
     bindIO (getMarketId addressesProvider) (\<lambda>market.
     bindIO (getLendingPool_addr addressesProvider) (\<lambda>lendingPool.
     bindIO (getLendingPoolCollateralManager_addr addressesProvider) (\<lambda>collateralManager.
     bindIO (getLendingPoolConfigurator_addr addressesProvider) (\<lambda>configurator.
     bindIO (getPoolAdmin addressesProvider) (\<lambda>poolAdmin.
     bindIO (getEmergencyAdmin_addr addressesProvider) (\<lambda>emergencyAdmin.
     bindIO (getPriceOracle_addr addressesProvider) (\<lambda>priceOracle.
     bindIO (getAddress addressesProvider ''LENDING_RATE_ORACLE'') (\<lambda>lendingRateOracle.
     bindIO (getSturdyProtocolDataProvider (Some dataProvider)) (\<lambda>protocolDataProvider.
     bindIO (getsIO (\<lambda>w. getParamPerNetwork (ReserveAssets config) (currentNetwork w) w)) (\<lambda>assets. case assets of
       None \<Rightarrow> throwIO (TypeError ''Object.entries'')
     | Some entries \<Rightarrow>
       bindIO (forIO entries (printReserve protocolDataProvider)) (\<lambda>reserves.
       returnIO
         ([(''Market Id'', market),
           (''LendingPool Proxy'', lendingPool), (''Lending Pool Collateral Manager'', collateralManager),
           (''Lending Pool Configurator proxy'', configurator), (''Pool admin'', poolAdmin),
           (''Emergency admin'', emergencyAdmin), (''Price Oracle'', priceOracle),
           (''Lending Rate Oracle'', lendingRateOracle), (''Lending Pool Data Provider'', dataProvider)]
          @ concat reserves)))))))))))))))))"

text \<open>\<open>print-config:fork\<close>\<close>

definition print_config_fork :: "'n bignumber_js \<Rightarrow> (string \<times> string) list script" where
  "print_config_fork bn =
     thenIO (sturdy_mainnet bn False False) (
     bindIO (getSturdyProtocolDataProvider None) (\<lambda>dataProvider.
     print_config ''Sturdy'' (h_address dataProvider)))"

end
