(* ===== verification/ScriptSteps.thy ===== *)
theory ScriptSteps
  imports DeveloperTasks
begin

text \<open>
  What every script keeps, proved once for all of them. The locale \<open>script_steps\<close> takes an
  invariant of the world, a relation between the worlds before and after, and a property of
  handles, assumes that the primitive steps of the model respect them, and derives that every
  getter, every deployment function and every task does, whatever it is called with and
  however it ends. The instances are in \<open>Frames\<close>.
\<close>

section \<open>Primitive steps\<close>

text \<open>Updates of the records a script keeps about its own actions.\<close>

definition bookkeeping :: "world \<Rightarrow> world \<Rightarrow> bool" where
  "bookkeeping w w' \<longleftrightarrow>
     w' = w\<lparr>call_log := call_log w', verify_runs := verify_runs w', cleanups := cleanups w',
            tenderly_log := tenderly_log w', impersonated := impersonated w'\<rparr>"

lemma bookkeepingE:
  assumes "bookkeeping w w'"
  obtains a b c d e where "w' = w\<lparr>call_log := a, verify_runs := b, cleanups := c,
      tenderly_log := d, impersonated := e\<rparr>"
  using assms unfolding bookkeeping_def by blast

named_theorems script_keeps \<open>scripts that keep the invariant\<close>

locale script_steps = guarded_steps I R ok
  for I :: "world \<Rightarrow> bool" and R :: "world \<Rightarrow> world \<Rightarrow> bool" and ok :: "handle \<Rightarrow> world \<Rightarrow> bool" +
  assumes step_bookkeeping: "I w \<Longrightarrow> bookkeeping w w' \<Longrightarrow> I w' \<and> R w w'"
    and step_deploy: "I w \<Longrightarrow> deployNew s n l args w = (Inr h, w') \<Longrightarrow> I w' \<and> R w w' \<and> ok h w'"
    and step_register: "I w \<Longrightarrow> ok h w \<Longrightarrow> h_deployer h = Some d \<Longrightarrow>
      I (db_put k \<lparr>entry_address = h_address h, entry_deployer = Some d\<rparr> w) \<and>
      R w (db_put k \<lparr>entry_address = h_address h, entry_deployer = Some d\<rparr> w)"
    and step_insert: "I w \<Longrightarrow>
      I (db_put k \<lparr>entry_address = a, entry_deployer = None\<rparr> w) \<and>
      R w (db_put k \<lparr>entry_address = a, entry_deployer = None\<rparr> w)"
    and step_setAddress: "I w \<Longrightarrow> providers w self \<noteq> None \<Longrightarrow>
      sol_setAddress self sender i b w = (Inr (), w') \<Longrightarrow> I w' \<and> R w w'"
    and step_setAddressAsProxy: "I w \<Longrightarrow> providers w self \<noteq> None \<Longrightarrow>
      sol_setAddressAsProxy self sender i b w = (Inr (), w') \<Longrightarrow> I w' \<and> R w w'"
    and step_initializer: "I w \<Longrightarrow> initializer acct name prov w = (Inr (), w') \<Longrightarrow> I w' \<and> R w w'"
begin

abbreviation safe :: "handle list \<Rightarrow> 'a script \<Rightarrow> bool" where
  "safe hs m \<equiv> keeps I R ok hs m"

lemma safe_bookkeeping: "(\<And>w. bookkeeping w (f w)) \<Longrightarrow> safe hs (modifyIO f)"
  by (rule keeps_modify) (blast dest: step_bookkeeping)

lemma safe_deployNew [script_keeps]: "safe hs (deployNew s n l a)"
proof (rule keepsI)
  fix w
  assume "I w"
  obtain r w' where d: "deployNew s n l a w = (r, w')" by fastforce
  show "I (snd (deployNew s n l a w)) \<and> R w (snd (deployNew s n l a w))"
  proof (cases r)
    case (Inl e)
    with d have "w' = w" by (auto simp: deployNew_def split: option.splits if_splits)
    with d \<open>I w\<close> refl show ?thesis by simp
  next
    case (Inr h)
    with d \<open>I w\<close> step_deploy show ?thesis by simp
  qed
qed

lemma ok_deployNew: "yields I ok hs (deployNew s n l a)"
  by (rule yieldsI) (blast dest: step_deploy)

text \<open>A transaction that fails leaves the world as it was.\<close>

lemma safe_transaction:
  assumes "\<And>w w'. I w \<Longrightarrow> m w = (Inr (), w') \<Longrightarrow> I w' \<and> R w w'"
  shows "safe hs (transaction m)"
proof (rule keepsI)
  fix w
  assume "I w"
  with assms refl show "I (snd (transaction m w)) \<and> R w (snd (transaction m w))"
    by (auto simp: transaction_def split: prod.split sum.split)
qed

lemma safe_providerTx:
  assumes "\<And>w w' self sender. I w \<Longrightarrow> providers w self \<noteq> None \<Longrightarrow>
    body self sender w = (Inr (), w') \<Longrightarrow> I w' \<and> R w w'"
  shows "safe hs (providerTx h body)"
proof (rule keepsI)
  fix w
  assume "I w"
  obtain r w' where run: "providerTx h body w = (r, w')" by fastforce
  then consider "w' = w"
    | sender where "providers w (h_address h) \<noteq> None" "body (h_address h) sender w = (Inr (), w')"
    by (auto simp: providerTx_def senderOf_def revert_def transaction_def io_run
        split: option.splits if_splits prod.splits sum.splits)
  then show "I (snd (providerTx h body w)) \<and> R w (snd (providerTx h body w))"
    using run \<open>I w\<close> refl assms by cases auto
qed

section \<open>Transactions and calls\<close>

lemma safe_arguments [script_keeps]:
  "safe hs (senderOf h)" "safe hs (addressArg v)" "safe hs (formatBytes32String t)"
  unfolding senderOf_def addressArg_def formatBytes32String_def
  by (intro keeps_rules)+

lemma safe_setAddress [script_keeps]: "safe hs (setAddress h i v)"
  unfolding setAddress_def
  by (intro keeps_rules script_keeps safe_providerTx) (blast dest: step_setAddress)

lemma safe_setAddressAsProxy [script_keeps]: "safe hs (setAddressAsProxy h i v)"
  unfolding setAddressAsProxy_def
  by (intro keeps_rules script_keeps safe_providerTx) (blast dest: step_setAddressAsProxy)

lemma safe_provider_setters [script_keeps]:
  "safe hs (setLendingPoolImpl h v)" "safe hs (setLendingPoolConfiguratorImpl h v)"
  "safe hs (setIncentiveControllerImpl h b)" "safe hs (setIncentiveTokenImpl h b)"
  "safe hs (setLendingPoolCollateralManager h v)" "safe hs (setPoolAdmin h v)"
  "safe hs (setEmergencyAdmin h v)" "safe hs (setPriceOracle h v)" "safe hs (setLendingRateOracle h v)"
  unfolding setLendingPoolImpl_def setLendingPoolConfiguratorImpl_def setIncentiveControllerImpl_def
    setIncentiveTokenImpl_def setLendingPoolCollateralManager_def setPoolAdmin_def
    setEmergencyAdmin_def setPriceOracle_def setLendingRateOracle_def
  by (intro keeps_rules script_keeps)+

lemma safe_getAddress [script_keeps]: "safe hs (getAddress h i)"
  unfolding getAddress_def revert_def by (intro keeps_rules script_keeps)

lemma safe_provider_getters [script_keeps]:
  "safe hs (getLendingPool_addr h)" "safe hs (getLendingPoolConfigurator_addr h)"
  "safe hs (getIncentiveController h)" "safe hs (getIncentiveToken h)"
  "safe hs (getPoolAdmin h)" "safe hs (getEmergencyAdmin_addr h)" "safe hs (getPriceOracle_addr h)"
  unfolding getLendingPool_addr_def getLendingPoolConfigurator_addr_def getIncentiveController_def
    getIncentiveToken_def getPoolAdmin_def getEmergencyAdmin_addr_def getPriceOracle_addr_def
  by (rule safe_getAddress)+

lemma safe_initialize [script_keeps]: "safe hs (initialize h p)"
  unfolding initialize_def
  by (intro keeps_rules script_keeps safe_transaction) (blast dest: step_initializer)

lemma safe_callContract [script_keeps]: "safe hs (callContract h m args)"
  unfolding callContract_def revert_def
  by (intro keeps_rules script_keeps safe_bookkeeping) (simp add: bookkeeping_def)

lemma safe_viewContract [script_keeps]: "safe hs (viewContract h m a)"
  unfolding viewContract_def by (intro keeps_rules)

section \<open>Verification, signers and the registry\<close>

lemma safe_cleanup [script_keeps]: "safe hs cleanup"
  unfolding cleanup_def by (rule safe_bookkeeping) (simp add: bookkeeping_def)

lemma safe_runVerify [script_keeps]: "safe hs (runVerify a args b)"
proof (rule keepsI)
  fix w
  assume "I w"
  then show "I (snd (runVerify a args b w)) \<and> R w (snd (runVerify a args b w))"
    using step_bookkeeping [of w "snd (runVerify a args b w)"]
    by (simp add: runVerify_def bookkeeping_def)
qed

lemma safe_runTaskWithRetry [script_keeps]: "safe hs (runTaskWithRetry a args b n)"
  by (induction n arbitrary: b)
    (auto intro!: keeps_rules script_keeps simp: Let_def split: option.split)

lemma safe_verification [script_keeps]:
  "safe hs (verifyEtherscanContract a args)" "safe hs checkVerification"
  "safe hs (verifyAtTenderly name a)" "safe hs (impersonateAccountsHardhat accs)"
  unfolding verifyEtherscanContract_def checkVerification_def verifyAtTenderly_def
    impersonateAccountsHardhat_def
  by (intro keeps_rules script_keeps safe_bookkeeping; simp add: bookkeeping_def)+

lemma safe_signers [script_keeps]:
  "safe hs getDefenderRelaySigner" "safe hs getEthersSigners"
  "safe hs getEthersSignersAddresses" "safe hs getFirstSigner"
  unfolding getFirstSigner_def getEthersSignersAddresses_def getEthersSigners_def
    getDefenderRelaySigner_def
  by (intro keeps_rules script_keeps)+

lemma safe_insert [script_keeps]:
  "safe hs (insertContractAddressInDb k a)" "safe hs (rawInsertContractAddressInDb k a)"
  unfolding insertContractAddressInDb_def rawInsertContractAddressInDb_def
  by (rule keeps_modify, blast dest: step_insert)+

lemma safe_register:
  assumes "h \<in> set hs"
  shows "safe hs (registerContractInJsonDb k h)"
proof (rule keepsI)
  fix w
  assume w: "I w" and hs: "list_all (\<lambda>h. ok h w) hs"
  from hs assms have "ok h w" by (simp add: list_all_iff)
  with w refl show "I (snd (registerContractInJsonDb k h w)) \<and> R w (snd (registerContractInJsonDb k h w))"
    by (auto simp: registerContractInJsonDb_def io_run step_register split: option.split)
qed

lemma safe_verifyContract [script_keeps]: "safe hs (verifyContract k h args)"
  unfolding verifyContract_def by (intro keeps_rules script_keeps)

lemma safe_withSaveAndVerify: "h \<in> set hs \<Longrightarrow> safe hs (withSaveAndVerify h k args v)"
  unfolding withSaveAndVerify_def waitForDeployTransaction_def
  by (intro keeps_rules script_keeps safe_register)

lemma ok_withSaveAndVerify: "h \<in> set hs \<Longrightarrow> yields I ok hs (withSaveAndVerify h k args v)"
  unfolding withSaveAndVerify_def waitForDeployTransaction_def
  by (intro yields_then yields_return keeps_rules script_keeps safe_register)

section \<open>Deployment\<close>

lemma safe_deployFresh [script_keeps]: "safe hs (deployFresh n l a)"
  unfolding deployFresh_def by (intro keeps_rules script_keeps)

lemma ok_deployFresh: "yields I ok hs (deployFresh n l a)"
  unfolding deployFresh_def by (intro yields_bind ok_deployNew script_keeps)

lemma safe_deployLinked [script_keeps]: "safe hs (deployLinked n l)"
  unfolding deployLinked_def by (intro keeps_rules script_keeps)

lemma ok_deployLinked: "yields I ok hs (deployLinked n l)"
  unfolding deployLinked_def by (intro yields_bind yields_then ok_deployNew keeps_rules script_keeps)

lemma safe_deployAndSave [script_keeps]: "safe hs (deployAndSave n l k a v)"
  unfolding deployAndSave_def
  by (rule keeps_bind_ok [OF safe_deployFresh ok_deployFresh]) (simp add: safe_withSaveAndVerify)

lemma ok_deployAndSave: "yields I ok hs (deployAndSave n l k a v)"
  unfolding deployAndSave_def
  by (rule yields_bind_ok [OF safe_deployFresh ok_deployFresh]) (simp add: ok_withSaveAndVerify)

lemma safe_linked_and_saved [script_keeps]:
  "safe hs (bindIO (deployLinked n l) (\<lambda>h. withSaveAndVerify h k a v))"
  by (rule keeps_bind_ok [OF safe_deployLinked ok_deployLinked]) (simp add: safe_withSaveAndVerify)

lemma safe_deployContract [script_keeps]: "safe hs (deployContract n args)"
  unfolding deployContract_def waitForDeployTransaction_def
  by (intro keeps_bind [OF safe_signers(4)] keeps_bind_ok [OF safe_deployNew ok_deployNew]
      keeps_then keeps_require keeps_return safe_register) simp

lemma safe_getContract [script_keeps]: "safe hs (getContract n a)"
  unfolding getContract_def by (intro keeps_rules)

lemma safe_paramHere [script_keeps]: "safe hs (paramHere param)"
  unfolding paramHere_def by (intro keeps_rules)

section \<open>Getters\<close>

lemma safe_registeredAddress [script_keeps]: "safe hs (registeredAddress k)"
  unfolding registeredAddress_def by (intro keeps_rules)

lemma safe_connectOrRegistered [script_keeps]: "safe hs (connectOrRegistered f a k)"
  unfolding connectOrRegistered_def by (intro keeps_rules script_keeps)

lemma safe_registeredAddressOrUndefined [script_keeps]: "safe hs (registeredAddressOrUndefined k)"
  unfolding registeredAddressOrUndefined_def by (intro keeps_rules)

lemma safe_getters [script_keeps]:
  "safe hs (getLendingPoolAddressesProvider a)"
  "safe hs (getLendingPoolConfiguratorProxy a)"
  "safe hs (getSturdyProtocolDataProvider a)"
  "safe hs (getInterestRateStrategy a)"
  "safe hs (getReserveLogic a)"
  "safe hs (getStableAndVariableTokensHelper a)"
  "safe hs (getATokensAndRatesHelper a)"
  "safe hs (getLendingPoolImpl a)"
  "safe hs (getLendingPoolConfiguratorImpl a)"
  "safe hs (getLendingPoolCollateralManagerImpl a)"
  "safe hs (getLendingPoolCollateralManager a)"
  "safe hs (getLendingPool a)"
  "safe hs (getWalletProvider a)"
  "safe hs (getUiPoolDataProvider a)"
  "safe hs (getUiIncentiveDataProvider a)"
  "safe hs (getSturdyIncentivesControllerImpl a)"
  "safe hs (getSturdyIncentivesController a)"
  "safe hs (getSturdyTokenImpl a)"
  "safe hs (getSturdyToken a)"
  "safe hs (getStableYieldDistributionImpl a)"
  "safe hs (getLDOStableYieldDistribution a)"
  "safe hs (getVariableYieldDistributionImpl a)"
  "safe hs (getVariableYieldDistribution a)"
  "safe hs (getYieldDistributorAdapter a)"
  "safe hs (getCollateralAdapter a)"
  "safe hs (getFTMLiquidator a)"
  "safe hs (getETHLiquidator a)"
  "safe hs (getDeployVaultHelper a)"
  "safe hs (getYieldManager a)"
  "safe hs (getLeverageSwapManager a)"
  "safe hs (getSturdyAPRDataProvider a)"
  "safe hs (getVaultWhitelist a)"
  "safe hs (getERC4626Router a)"
  "safe hs (getAToken a)"
  "safe hs (getATokenForCollateral a)"
  "safe hs (getStableDebtToken a)"
  "safe hs (getVariableDebtToken a)"
  "safe hs (getMintableERC20 b)"
  "safe hs (getSwapinERC20 b)"
  "safe hs (getIErc20Detailed b)"
  "safe hs (getGenericATokenImpl a)"
  "safe hs (getCollateralATokenImpl a)"
  "safe hs (getPriceOracle a)"
  "safe hs (getLendingRateOracle a)"
  "safe hs (getSturdyOracle a)"
  "safe hs (getBooOracle a)"
  "safe hs (getTombOracle a)"
  "safe hs (getTombFtmLPOracle a)"
  "safe hs (getTombMiMaticLPOracle a)"
  "safe hs (getBasedOracle a)"
  "safe hs (getBasedMiMaticLPOracle a)"
  "safe hs (getBeetsOracle a)"
  "safe hs (getFBeetsOracle a)"
  "safe hs (getRETHWstETHLPOracle a)"
  "safe hs (getLidoVaultImpl a)"
  "safe hs (getLidoVault a)"
  "safe hs (getYearnRETHWstETHVaultImpl a)"
  "safe hs (getYearnRETHWstETHVault a)"
  "safe hs (getConvexRocketPoolETHVaultImpl a)"
  "safe hs (getConvexRocketPoolETHVault a)"
  "safe hs (getConvexFRAX3CRVVault a)"
  "safe hs (getConvexSTETHVault a)"
  "safe hs (getConvexDOLA3CRVVault a)"
  "safe hs (getConvexMIM3CRVVault a)"
  "safe hs (getConvexDAIUSDCUSDTSUSDVault a)"
  "safe hs (getConvexHBTCWBTCVault a)"
  "safe hs (getConvexIronBankVault a)"
  "safe hs (getConvexFRAXUSDCVault a)"
  "safe hs (getAuraDAIUSDCUSDTVault a)"
  "safe hs (getConvexTUSDFRAXBPVault a)"
  "safe hs (getAuraBBAUSDVault a)"
  "safe hs (getAuraBBA3USDVault a)"
  "safe hs (getYearnVaultImpl a)"
  "safe hs (getYearnVault a)"
  "safe hs (getYearnWETHVaultImpl a)"
  "safe hs (getYearnWETHVault a)"
  "safe hs (getYearnWBTCVaultImpl a)"
  "safe hs (getYearnWBTCVault a)"
  "safe hs (getYearnBOOVaultImpl a)"
  "safe hs (getYearnBOOVault a)"
  "safe hs (getTombFtmBeefyVaultImpl a)"
  "safe hs (getTombFtmBeefyVault a)"
  "safe hs (getTombMiMaticBeefyVaultImpl a)"
  "safe hs (getTombMiMaticBeefyVault a)"
  "safe hs (getBasedMiMaticBeefyVaultImpl a)"
  "safe hs (getBasedMiMaticBeefyVault a)"
  "safe hs (getBeefyMIM2CRVVaultImpl a)"
  "safe hs (getBeefyMIM2CRVVault a)"
  "safe hs (getYearnFBEETSVaultImpl a)"
  "safe hs (getYearnFBEETSVault a)"
  "safe hs (getYearnLINKVaultImpl a)"
  "safe hs (getYearnLINKVault a)"
  "safe hs (getBeefyETHVault a)"
  "safe hs (getYearnCRVVaultImpl a)"
  "safe hs (getYearnCRVVault a)"
  "safe hs (getYearnSPELLVaultImpl a)"
  "safe hs (getYearnSPELLVault a)"
  "safe hs (getWETHMocked a)"
  "safe hs (getMockAToken a)"
  "safe hs (getMockVariableDebtToken a)"
  "safe hs (getMockStableDebtToken a)"
  "safe hs (getMockyvWFTM a)"
  "safe hs (getMockyvWETH a)"
  "safe hs (getMockyvWBTC a)"
  "safe hs (getMockyvBOO a)"
  "safe hs (getMockMooTOMBFTM a)"
  "safe hs (getMockMooTOMBMIMATIC a)"
  "safe hs (getMockMooBASEDMIMATIC a)"
  "safe hs (getMockWBTCForFTM a)"
  "safe hs (getStaticAToken s a)"
  "safe hs (getERC4626Vault s a)"
  "safe hs (getStableStructuredVault s a)"
  unfolding
    getLendingPoolAddressesProvider_def getLendingPoolConfiguratorProxy_def
    getSturdyProtocolDataProvider_def getInterestRateStrategy_def getReserveLogic_def
    getStableAndVariableTokensHelper_def getATokensAndRatesHelper_def getLendingPoolImpl_def
    getLendingPoolConfiguratorImpl_def getLendingPoolCollateralManagerImpl_def
    getLendingPoolCollateralManager_def getLendingPool_def getWalletProvider_def
    getUiPoolDataProvider_def getUiIncentiveDataProvider_def
    getSturdyIncentivesControllerImpl_def getSturdyIncentivesController_def
    getSturdyTokenImpl_def getSturdyToken_def getStableYieldDistributionImpl_def
    getLDOStableYieldDistribution_def getVariableYieldDistributionImpl_def
    getVariableYieldDistribution_def getYieldDistributorAdapter_def getCollateralAdapter_def
    getFTMLiquidator_def getETHLiquidator_def getDeployVaultHelper_def getYieldManager_def
    getLeverageSwapManager_def getSturdyAPRDataProvider_def getVaultWhitelist_def
    getERC4626Router_def getAToken_def getATokenForCollateral_def getStableDebtToken_def
    getVariableDebtToken_def getMintableERC20_def getSwapinERC20_def getIErc20Detailed_def
    getGenericATokenImpl_def getCollateralATokenImpl_def getPriceOracle_def
    getLendingRateOracle_def getSturdyOracle_def getBooOracle_def getTombOracle_def
    getTombFtmLPOracle_def getTombMiMaticLPOracle_def getBasedOracle_def
    getBasedMiMaticLPOracle_def getBeetsOracle_def getFBeetsOracle_def
    getRETHWstETHLPOracle_def getLidoVaultImpl_def getLidoVault_def
    getYearnRETHWstETHVaultImpl_def getYearnRETHWstETHVault_def
    getConvexRocketPoolETHVaultImpl_def getConvexRocketPoolETHVault_def
    getConvexFRAX3CRVVault_def getConvexSTETHVault_def getConvexDOLA3CRVVault_def
    getConvexMIM3CRVVault_def getConvexDAIUSDCUSDTSUSDVault_def getConvexHBTCWBTCVault_def
    getConvexIronBankVault_def getConvexFRAXUSDCVault_def getAuraDAIUSDCUSDTVault_def
    getConvexTUSDFRAXBPVault_def getAuraBBAUSDVault_def getAuraBBA3USDVault_def
    getYearnVaultImpl_def getYearnVault_def getYearnWETHVaultImpl_def getYearnWETHVault_def
    getYearnWBTCVaultImpl_def getYearnWBTCVault_def getYearnBOOVaultImpl_def
    getYearnBOOVault_def getTombFtmBeefyVaultImpl_def getTombFtmBeefyVault_def
    getTombMiMaticBeefyVaultImpl_def getTombMiMaticBeefyVault_def
    getBasedMiMaticBeefyVaultImpl_def getBasedMiMaticBeefyVault_def
    getBeefyMIM2CRVVaultImpl_def getBeefyMIM2CRVVault_def getYearnFBEETSVaultImpl_def
    getYearnFBEETSVault_def getYearnLINKVaultImpl_def getYearnLINKVault_def
    getBeefyETHVault_def getYearnCRVVaultImpl_def getYearnCRVVault_def
    getYearnSPELLVaultImpl_def getYearnSPELLVault_def getWETHMocked_def getMockAToken_def
    getMockVariableDebtToken_def getMockStableDebtToken_def getMockyvWFTM_def
    getMockyvWETH_def getMockyvWBTC_def getMockyvBOO_def getMockMooTOMBFTM_def
    getMockMooTOMBMIMATIC_def getMockMooBASEDMIMATIC_def getMockWBTCForFTM_def
    getStaticAToken_def getERC4626Vault_def getStableStructuredVault_def
  by (rule safe_connectOrRegistered)+

lemma safe_library_addresses [script_keeps]:
  "safe hs getUniswapAdapterAddress"
  "safe hs getCurveswapAdapterAddress"
  "safe hs getBalancerswapAdapterAddress"
  "safe hs getUniswapAdapter2Address"
  "safe hs getCurveswapAdapter2Address"
  "safe hs getBalancerswapAdapter2Address"
  "safe hs getValidationLogic"
  "safe hs getGenericLogic"
  "safe hs getReserveLogicLibrary"
  unfolding
    getUniswapAdapterAddress_def getCurveswapAdapterAddress_def
    getBalancerswapAdapterAddress_def getUniswapAdapter2Address_def
    getCurveswapAdapter2Address_def getBalancerswapAdapter2Address_def
    getValidationLogic_def getGenericLogic_def getReserveLogicLibrary_def
  by (rule safe_registeredAddressOrUndefined)+

lemma safe_other_getters [script_keeps]:
  "safe hs (getAddressById k)" "safe hs (getIWETH a)" "safe hs (getProxy a)"
  "safe hs (getLendingPoolAddressesProviderRegistry v)"
  unfolding getAddressById_def getIWETH_def getProxy_def getLendingPoolAddressesProviderRegistry_def
  by (intro keeps_rules script_keeps)+

lemma safe_mockedTokensOf [script_keeps]: "safe hs (mockedTokensOf symbols acc)"
  by (induction symbols arbitrary: acc) (auto intro!: keeps_rules script_keeps)

lemma safe_mocked_getters [script_keeps]:
  "safe hs (getMockedTokens symbols)" "safe hs getAllMockedTokens"
  unfolding getMockedTokens_def getAllMockedTokens_def by (rule safe_mockedTokensOf)+

section \<open>Contracts on their own, libraries, tokens\<close>

lemma safe_setConfiguredAddress [script_keeps]:
  "safe hs (setConfiguredAddress h i param)" "safe hs (setReserveAssetAddress h i assets s)"
  unfolding setConfiguredAddress_def setReserveAssetAddress_def
  by (intro keeps_rules script_keeps)+

lemma safe_deploy_simple [script_keeps]:
  "safe hs (deployLendingPoolAddressesProvider s v)"
  "safe hs (deployLendingPoolAddressesProviderRegistry v)"
  "safe hs (deployLendingPoolConfiguratorImpl v)"
  "safe hs (deployLendingPoolCollateralManagerImpl v)"
  "safe hs (deploySturdyProtocolDataProvider s v)"
  "safe hs (deployDefaultReserveInterestRateStrategy args v)"
  "safe hs (deployWalletBalancerProvider v)"
  "safe hs (deployUiIncentiveDataProvider v)"
  "safe hs (deployVaultHelper args v)"
  "safe hs (deploySturdyAPRDataProvider args v)"
  "safe hs (deployVaultWhitelist v)"
  "safe hs (deployInitializableAdminUpgradeabilityProxy v)"
  "safe hs (deployERC4626Router v)"
  "safe hs (deployERC4626Vault args s v)"
  "safe hs (deployPriceOracle v)"
  "safe hs (deployLendingRateOracle v)"
  "safe hs (deploySturdyOracle args v)"
  "safe hs (deployBooOracle v)"
  "safe hs (deployTombOracle v)"
  "safe hs (deployTombFtmLPOracle v)"
  "safe hs (deployTombMiMaticLPOracle v)"
  "safe hs (deployFBeetsOracle v)"
  "safe hs (deployBeetsOracle v)"
  "safe hs (deployBasedOracle v)"
  "safe hs (deployBasedMiMaticLPOracle v)"
  "safe hs (deployMIM2CRVLPOracle v)"
  "safe hs (deployRETHWstETHLPOracle v)"
  "safe hs (deployFRAX3CRVPOracle v)"
  "safe hs (deploySTECRVOracle v)"
  "safe hs (deployDOLA3CRVOracle v)"
  "safe hs (deployMIMOracle v)"
  "safe hs (deployMIM3CRVOracle v)"
  "safe hs (deployDAIUSDCUSDTSUSDOracle v)"
  "safe hs (deployHBTCWBTCOracle v)"
  "safe hs (deployIronBankOracle v)"
  "safe hs (deployFRAXUSDCOracle v)"
  "safe hs (deployBALDAIUSDCUSDTOracle v)"
  "safe hs (deployTUSDFRAXBPCOracle v)"
  "safe hs (deployBALBBAUSDOracle v)"
  "safe hs (deployBALBBA3USDOracle v)"
  "safe hs (deployAURAOracle v)"
  "safe hs (deployMintableERC20 args v)"
  "safe hs (deployMintableDelegationERC20 args v)"
  "safe hs deployGenericStableDebtToken"
  "safe hs deployGenericVariableDebtToken"
  "safe hs (deployGenericATokenImpl v)"
  "safe hs (deployCollateralATokenImpl v)"
  "safe hs (deployStableAndVariableTokensHelper args v)"
  "safe hs (deployATokensAndRatesHelper args v)"
  "safe hs (deployMockAggregator s v)"
  "safe hs (deployWETHMocked v)"
  "safe hs (deployMockDai x v)"
  "safe hs (deployMockUSDC args v)"
  "safe hs (deployMockUSDT args v)"
  "safe hs (deployMockyvWFTM args v)"
  "safe hs (deployMockyvWETH args v)"
  "safe hs (deployMockyvWBTC args v)"
  "safe hs (deployMockyvBOO args v)"
  "safe hs (deployMockWETHForFTM args v)"
  "safe hs (deployMockWBTCForFTM args v)"
  "safe hs (deployMockBOOForFTM args v)"
  "safe hs (deployMockMooTOMBFTM args v)"
  "safe hs (deployMockMooTOMBMIMATIC args v)"
  "safe hs (deployMockMooBASEDMIMATIC args v)"
  "safe hs (deployMockYearnVault s args v)"
  "safe hs (deployMockBeefyVault s args v)"
  unfolding
    deployLendingPoolAddressesProvider_def deployLendingPoolAddressesProviderRegistry_def
    deployLendingPoolConfiguratorImpl_def deployLendingPoolCollateralManagerImpl_def
    deploySturdyProtocolDataProvider_def deployDefaultReserveInterestRateStrategy_def
    deployWalletBalancerProvider_def deployUiIncentiveDataProvider_def deployVaultHelper_def
    deploySturdyAPRDataProvider_def deployVaultWhitelist_def
    deployInitializableAdminUpgradeabilityProxy_def deployERC4626Router_def
    deployERC4626Vault_def deployPriceOracle_def deployLendingRateOracle_def
    deploySturdyOracle_def deployBooOracle_def deployTombOracle_def
    deployTombFtmLPOracle_def deployTombMiMaticLPOracle_def deployFBeetsOracle_def
    deployBeetsOracle_def deployBasedOracle_def deployBasedMiMaticLPOracle_def
    deployMIM2CRVLPOracle_def deployRETHWstETHLPOracle_def deployFRAX3CRVPOracle_def
    deploySTECRVOracle_def deployDOLA3CRVOracle_def deployMIMOracle_def
    deployMIM3CRVOracle_def deployDAIUSDCUSDTSUSDOracle_def deployHBTCWBTCOracle_def
    deployIronBankOracle_def deployFRAXUSDCOracle_def deployBALDAIUSDCUSDTOracle_def
    deployTUSDFRAXBPCOracle_def deployBALBBAUSDOracle_def deployBALBBA3USDOracle_def
    deployAURAOracle_def deployMintableERC20_def deployMintableDelegationERC20_def
    deployGenericStableDebtToken_def deployGenericVariableDebtToken_def
    deployGenericATokenImpl_def deployCollateralATokenImpl_def
    deployStableAndVariableTokensHelper_def deployATokensAndRatesHelper_def
    deployMockAggregator_def deployWETHMocked_def deployMockDai_def deployMockUSDC_def
    deployMockUSDT_def deployMockyvWFTM_def deployMockyvWETH_def deployMockyvWBTC_def
    deployMockyvBOO_def deployMockWETHForFTM_def deployMockWBTCForFTM_def
    deployMockBOOForFTM_def deployMockMooTOMBFTM_def deployMockMooTOMBMIMATIC_def
    deployMockMooBASEDMIMATIC_def deployMockYearnVault_def deployMockBeefyVault_def
  by (rule safe_deployAndSave)+

lemma safe_libraries [script_keeps]:
  "safe hs (deployReserveLogicLibrary v)" "safe hs (deployGenericLogic h1 v)"
  "safe hs (deployValidationLogic h1 h2 v)" "safe hs (deployUniswapAdapterLibrary v)"
  "safe hs (deployCurveswapAdapterLibrary v)" "safe hs (deployBalancerswapAdapterLibrary v)"
  "safe hs (deployUniswapAdapter2Library v)" "safe hs (deployCurveswapAdapter2Library v)"
  "safe hs (deployBalancerswapAdapter2Library v)"
  unfolding deployReserveLogicLibrary_def deployGenericLogic_def deployValidationLogic_def
    deployUniswapAdapterLibrary_def deployCurveswapAdapterLibrary_def
    deployBalancerswapAdapterLibrary_def deployUniswapAdapter2Library_def
    deployCurveswapAdapter2Library_def deployBalancerswapAdapter2Library_def
  by (intro safe_linked_and_saved keeps_bind [OF safe_library_addresses(1)]
      keeps_bind [OF safe_library_addresses(2)] keeps_bind [OF safe_library_addresses(3)]
      keeps_bind [OF safe_library_addresses(4)] keeps_bind [OF safe_library_addresses(5)]
      keeps_bind [OF safe_library_addresses(6)] keeps_bind [OF safe_library_addresses(7)]
      keeps_bind [OF safe_library_addresses(8)] keeps_bind [OF safe_library_addresses(9)]
      keeps_bind [OF safe_getters(1)] keeps_then keeps_if safe_setConfiguredAddress
      safe_getContract safe_deployAndSave)+

lemma safe_library_sets [script_keeps]:
  "safe hs (deploySturdyLibraries v)" "safe hs (deploySwapAdapterLibraries v)"
  "safe hs (deploySwapAdapter2Libraries v)" "safe hs (deployLidoVaultLibraries v)"
  "safe hs (deployYearnRETHWstETHVaultLibraries v)"
  unfolding deploySturdyLibraries_def deploySwapAdapterLibraries_def deploySwapAdapter2Libraries_def
    deployLidoVaultLibraries_def deployYearnRETHWstETHVaultLibraries_def
  by (intro keeps_rules script_keeps)+

lemma safe_linked_contracts [script_keeps]:
  "safe hs (deployETHLiquidator args v)" "safe hs (deployFTMLiquidator args v)"
  "safe hs (deployFRAX3CRVLevSwap args v)" "safe hs (deployDAIUSDCUSDTSUSDLevSwap args v)"
  "safe hs (deployMIM3CRVLevSwap args v)" "safe hs (deployFRAXUSDCLevSwap args v)"
  "safe hs (deployTUSDFRAXBPLevSwap args v)" "safe hs (deployAURABBAUSDLevSwap args v)"
  "safe hs (deployAURABBA3USDLevSwap args v)"
  unfolding deployETHLiquidator_def deployFTMLiquidator_def deployFRAX3CRVLevSwap_def
    deployDAIUSDCUSDTSUSDLevSwap_def deployMIM3CRVLevSwap_def deployFRAXUSDCLevSwap_def
    deployTUSDFRAXBPLevSwap_def deployAURABBAUSDLevSwap_def deployAURABBA3USDLevSwap_def
  by (intro keeps_rules script_keeps)+

lemma safe_lending_pool [script_keeps]:
  "safe hs (deployLendingPoolImpl v)" "safe hs (deployLendingPool v)"
  "safe hs (deployLendingPoolCollateralManager v)" "safe hs (deployLendingPoolConfigurator v)"
  unfolding deployLendingPoolImpl_def deployLendingPool_def deployLendingPoolCollateralManager_def
    deployLendingPoolConfigurator_def
  by (intro keeps_bind [OF safe_library_sets(1)] keeps_bind_ok [OF safe_deployFresh ok_deployFresh]
      keeps_then keeps_return safe_insert safe_withSaveAndVerify; simp)+

lemma safe_deployUiPoolDataProvider [script_keeps]: "safe hs (deployUiPoolDataProvider p v)"
  unfolding deployUiPoolDataProvider_def by (cases p) (auto intro!: keeps_rules script_keeps)

lemma safe_tokens [script_keeps]:
  "safe hs (deployStableDebtToken t v)" "safe hs (deployVariableDebtToken t v)"
  "safe hs (deployGenericAToken u v)" "safe hs (deployCollateralAToken u v)"
  "safe hs (deployMockStableDebtToken t v)" "safe hs (deployMockVariableDebtToken t v)"
  "safe hs (deployMockAToken u v)"
  unfolding deployStableDebtToken_def deployVariableDebtToken_def deployGenericAToken_def
    deployCollateralAToken_def deployMockStableDebtToken_def deployMockVariableDebtToken_def
    deployMockAToken_def
  by (cases t; cases u; simp; intro keeps_rules script_keeps)+

lemma safe_deployStaticAToken [script_keeps]: "safe hs (deployStaticAToken t v)"
proof (cases t)
  case (fields pool aTokenAddress symbol proxyAdmin)
  have ok: "yields I ok gs (deployInitializableAdminUpgradeabilityProxy v)" for gs
    unfolding deployInitializableAdminUpgradeabilityProxy_def by (rule ok_deployAndSave)
  have proxy: "safe gs (deployInitializableAdminUpgradeabilityProxy v)" for gs
    by (rule script_keeps)
  show ?thesis
    unfolding deployStaticAToken_def fields prod.case Let_def
    by (intro keeps_bind [OF safe_deployAndSave] keeps_bind_ok [OF proxy ok]
        keeps_then keeps_return safe_register safe_callContract) simp
qed

lemma safe_mock_tokens [script_keeps]:
  "safe hs (deployTokenPerSymbol f v symbols tokens)"
  "safe hs (deployAllMockTokens bn v)" "safe hs (deployMockTokens c v)"
proof -
  have ok: "yields I ok gs (deployMintableERC20 args v)" for gs args
    unfolding deployMintableERC20_def by (rule ok_deployAndSave)
  have loop: "safe hs (deployTokenPerSymbol f v symbols tokens)" for hs f symbols tokens
  proof (induction symbols arbitrary: tokens hs)
    case (Cons s symbols)
    have "safe hs (deployMintableERC20 args v)" for args by (rule script_keeps)
    then show ?case
      unfolding deployTokenPerSymbol.simps
      by (rule keeps_bind_ok [OF _ ok]) (intro keeps_then Cons.IH safe_register, simp)
  qed (simp add: keeps_return)
  show "safe hs (deployTokenPerSymbol f v symbols tokens)" by (rule loop)
  show "safe hs (deployAllMockTokens bn v)" "safe hs (deployMockTokens c v)"
    unfolding deployAllMockTokens_def deployMockTokens_def Let_def by (rule loop)+
qed

lemma safe_native_token [script_keeps]:
  "safe hs (getWrappedNativeTokenAddress c)" "safe hs (getQuoteCurrency c)"
  unfolding getQuoteCurrency_def getWrappedNativeTokenAddress_def
  by (intro keeps_rules script_keeps)+

section \<open>Contracts behind proxies\<close>

lemma safe_vault_impls [script_keeps]:
  "safe hs (deployConvexRocketPoolETHVaultImpl v)"
  "safe hs (deployConvexFRAX3CRVVaultImpl v)"
  "safe hs (deployConvexSTETHVaultImpl v)"
  "safe hs (deployConvexDOLA3CRVVaultImpl v)"
  "safe hs (deployConvexMIM3CRVVaultImpl v)"
  "safe hs (deployConvexDAIUSDCUSDTSUSDVaultImpl v)"
  "safe hs (deployConvexHBTCWBTCVaultImpl v)"
  "safe hs (deployConvexIronBankVaultImpl v)"
  "safe hs (deployConvexFRAXUSDCVaultImpl v)"
  "safe hs (deployConvexTUSDFRAXBPVaultImpl v)"
  "safe hs (deployAuraBBA3USDVaultImpl v)"
  "safe hs (deployYearnVaultImpl v)"
  "safe hs (deployYearnWETHVaultImpl v)"
  "safe hs (deployYearnWBTCVaultImpl v)"
  "safe hs (deployYearnBOOVaultImpl v)"
  "safe hs (deployTombFTMBeefyVaultImpl v)"
  "safe hs (deployTombMiMaticBeefyVaultImpl v)"
  "safe hs (deployBasedMiMaticBeefyVaultImpl v)"
  "safe hs (deployBeefyMIM2CRVVaultImpl v)"
  "safe hs (deployYearnFBeetsVaultImpl v)"
  "safe hs (deployYearnLINKVaultImpl v)"
  "safe hs (deployYearnCRVVaultImpl v)"
  "safe hs (deployYearnSPELLVaultImpl v)"
  "safe hs (deploySturdyIncentivesControllerImpl args v)"
  "safe hs (deploySturdyTokenImpl v)"
  unfolding
    deployConvexRocketPoolETHVaultImpl_def deployConvexFRAX3CRVVaultImpl_def
    deployConvexSTETHVaultImpl_def deployConvexDOLA3CRVVaultImpl_def
    deployConvexMIM3CRVVaultImpl_def deployConvexDAIUSDCUSDTSUSDVaultImpl_def
    deployConvexHBTCWBTCVaultImpl_def deployConvexIronBankVaultImpl_def
    deployConvexFRAXUSDCVaultImpl_def deployConvexTUSDFRAXBPVaultImpl_def
    deployAuraBBA3USDVaultImpl_def deployYearnVaultImpl_def deployYearnWETHVaultImpl_def
    deployYearnWBTCVaultImpl_def deployYearnBOOVaultImpl_def deployTombFTMBeefyVaultImpl_def
    deployTombMiMaticBeefyVaultImpl_def deployBasedMiMaticBeefyVaultImpl_def
    deployBeefyMIM2CRVVaultImpl_def deployYearnFBeetsVaultImpl_def
    deployYearnLINKVaultImpl_def deployYearnCRVVaultImpl_def deployYearnSPELLVaultImpl_def
    deploySturdyIncentivesControllerImpl_def deploySturdyTokenImpl_def
  by (rule safe_deployAndSave)+

lemma safe_vaults [script_keeps]:
  "safe hs (deployLidoVaultImpl v)"
  "safe hs (deployLidoVault v)"
  "safe hs (deployYearnRETHWstETHVaultVault v)"
  "safe hs (deployConvexRocketPoolETHVault v)"
  "safe hs (deployConvexFRAX3CRVVault v)"
  "safe hs (deployConvexSTETHVault v)"
  "safe hs (deployConvexDOLA3CRVVault v)"
  "safe hs (deployConvexMIM3CRVVault v)"
  "safe hs (deployConvexDAIUSDCUSDTSUSDVault v)"
  "safe hs (deployConvexHBTCWBTCVault v)"
  "safe hs (deployConvexIronBankVault v)"
  "safe hs (deployConvexFRAXUSDCVault v)"
  "safe hs (deployAuraDAIUSDCUSDTVault v)"
  "safe hs (deployConvexTUSDFRAXBPVault v)"
  "safe hs (deployAuraBBAUSDVault v)"
  "safe hs (deployAuraBBA3USDVault v)"
  "safe hs (deployYearnVault v)"
  "safe hs (deployYearnWETHVault v)"
  "safe hs (deployYearnWBTCVault v)"
  "safe hs (deployYearnBOOVault v)"
  "safe hs (deployTombFTMBeefyVault v)"
  "safe hs (deployTombMiMaticBeefyVault v)"
  "safe hs (deployBasedMiMaticBeefyVault v)"
  "safe hs (deployBeefyMIM2CRVVault v)"
  "safe hs (deployYearnFBeetsVault v)"
  "safe hs (deployYearnLINKVault v)"
  "safe hs (deployBeefyETHVault v)"
  "safe hs (deployYearnCRVVault v)"
  "safe hs (deployYearnSPELLVault v)"
  "safe hs (deploySturdyIncentivesController args v)"
  "safe hs (deploySturdyToken v)"
  "safe hs (deployStableYieldDistributionImpl args v)"
  "safe hs deployLDOStableYieldDistribution"
  "safe hs (deployYieldDistributorAdapter args v)"
  "safe hs (deployVariableYieldDistributionImpl args v)"
  "safe hs deployVariableYieldDistribution"
  "safe hs (deployCollateralAdapter v)"
  "safe hs (deployYieldManager v)"
  "safe hs (deployLeverageSwapManager v)"
  "safe hs (deployStableStructuredVault s v)"
  unfolding
    deployLidoVaultImpl_def deployLidoVault_def deployYearnRETHWstETHVaultVault_def
    deployConvexRocketPoolETHVault_def deployConvexFRAX3CRVVault_def
    deployConvexSTETHVault_def deployConvexDOLA3CRVVault_def deployConvexMIM3CRVVault_def
    deployConvexDAIUSDCUSDTSUSDVault_def deployConvexHBTCWBTCVault_def
    deployConvexIronBankVault_def deployConvexFRAXUSDCVault_def
    deployAuraDAIUSDCUSDTVault_def deployConvexTUSDFRAXBPVault_def deployAuraBBAUSDVault_def
    deployAuraBBA3USDVault_def deployYearnVault_def deployYearnWETHVault_def
    deployYearnWBTCVault_def deployYearnBOOVault_def deployTombFTMBeefyVault_def
    deployTombMiMaticBeefyVault_def deployBasedMiMaticBeefyVault_def
    deployBeefyMIM2CRVVault_def deployYearnFBeetsVault_def deployYearnLINKVault_def
    deployBeefyETHVault_def deployYearnCRVVault_def deployYearnSPELLVault_def
    deploySturdyIncentivesController_def deploySturdyToken_def
    deployStableYieldDistributionImpl_def deployLDOStableYieldDistribution_def
    deployYieldDistributorAdapter_def deployVariableYieldDistributionImpl_def
    deployVariableYieldDistribution_def deployCollateralAdapter_def deployYieldManager_def
    deployLeverageSwapManager_def deployStableStructuredVault_def
  by (intro keeps_rules script_keeps)+

lemma safe_detached [script_keeps]:
  "safe hs (deployYieldManagerImpl v)" "safe hs (deployYearnRETHWstETHVaultImpl v)"
  "safe hs (deployLeverageSwapManagerImpl v)"
  unfolding deployYieldManagerImpl_def deployYearnRETHWstETHVaultImpl_def
    deployLeverageSwapManagerImpl_def
  by (intro keeps_bind [OF safe_library_sets(2)] keeps_bind [OF safe_library_sets(5)]
      keeps_bind_ok [OF safe_deployFresh ok_deployFresh] keeps_detach safe_withSaveAndVerify; simp)+

section \<open>Configuration, oracles and reserves\<close>

lemma safe_configuration [script_keeps]:
  "safe hs (adminOrSigner p i)" "safe hs (getGenesisPoolAdmin c)" "safe hs (getEmergencyAdmin c)"
  "safe hs (getTreasuryAddress c)" "safe hs (liftSum r)"
  unfolding getGenesisPoolAdmin_def getEmergencyAdmin_def getTreasuryAddress_def adminOrSigner_def
    liftSum_def
  by (intro keeps_rules script_keeps)+

lemma safe_oracles [script_keeps]:
  "safe hs (setInitialMarketRatesInRatesOracleByHelper rates assets h admin)"
  "safe hs (setInitialAssetPricesInOracle prices assets' h)"
  "safe hs (setAssetPricesInOracle prices assets' h)"
  unfolding setInitialMarketRatesInRatesOracleByHelper_def setInitialAssetPricesInOracle_def
    setAssetPricesInOracle_def
  by (intro keeps_rules script_keeps)+

lemma safe_aggregators [script_keeps]:
  "safe hs (deployAggregatorPerKey prices v names acc)"
  "safe hs (deployMockAggregators prices v)" "safe hs (deployAllMockAggregators prices v)"
proof -
  have loop: "safe hs (deployAggregatorPerKey prices v names acc)" for hs names acc
    by (induction names arbitrary: acc) (auto intro!: keeps_rules script_keeps)
  show "safe hs (deployAggregatorPerKey prices v names acc)"
    "safe hs (deployMockAggregators prices v)" "safe hs (deployAllMockAggregators prices v)"
    unfolding deployMockAggregators_def deployAllMockAggregators_def by (rule loop)+
qed

lemma safe_ensureStrategy [script_keeps]: "safe hs (ensureStrategy p v strat st)"
  unfolding ensureStrategy_def by (intro keeps_rules script_keeps)

lemma safe_collectReserves [script_keeps]: "safe hs (collectReserves p tokens v reserves st)"
  by (induction p tokens v reserves st rule: collectReserves.induct)
    (auto intro!: keeps_rules script_keeps)

lemma safe_collectConfigurations [script_keeps]:
  "safe hs (collectConfigurations h tokens reserves inputs)"
  by (induction h tokens reserves inputs rule: collectConfigurations.induct)
    (auto intro!: keeps_rules script_keeps)

lemma safe_init_steps [script_keeps]:
  "safe hs (initChunk configurator pool es n i inputs)"
  "safe hs (registerVariableYield pool adapter tokens yields' symbol)"
  "safe hs (configureLDO pool adapter tokens)" "safe hs (readableYields ys st)"
  unfolding initChunk_def registerVariableYield_def configureLDO_def readableYields_def
  by (intro keeps_rules script_keeps)+

lemma safe_init_helpers [script_keeps]:
  "safe hs (initReservesByHelper reserves tokens n1 n2 n3 n4 treasury ys v)"
  "safe hs (configureReservesByHelper reserves tokens h admin)"
  unfolding initReservesByHelper_def configureReservesByHelper_def
  by (intro keeps_rules script_keeps)+

section \<open>Tasks\<close>

lemma safe_exitOnError [script_keeps]: "safe hs m \<Longrightarrow> safe hs (exitOnError m)"
  unfolding exitOnError_def by (intro keeps_rules)

lemma safe_task_steps [script_keeps]:
  "safe hs theFirstSigner" "safe hs requireChainId" "safe hs (currentPoolConfig pool)"
  unfolding theFirstSigner_def requireChainId_def currentPoolConfig_def by (intro keeps_rules script_keeps)+

lemma safe_implementationOr [script_keeps]:
  "(\<And>hs v. safe hs (f v)) \<Longrightarrow> safe hs (implementationOr param f p v)"
  unfolding implementationOr_def by (intro keeps_rules script_keeps)

lemma safe_registry_task [script_keeps]:
  "safe hs (full_deploy_address_provider_registry pool v)"
  unfolding full_deploy_address_provider_registry_def by (intro keeps_rules script_keeps)

lemma safe_impersonation [script_keeps]:
  "safe hs (modifyIO (\<lambda>w. w\<lparr>impersonated := impersonated w @ as\<rparr>))"
  by (rule safe_bookkeeping) (simp add: bookkeeping_def)

lemma safe_add_market_to_registry [script_keeps]: "safe hs (add_market_to_registry pool a v b)"
  unfolding add_market_to_registry_def by (intro keeps_rules script_keeps)

lemma safe_tasks [script_keeps]:
  "safe hs (full_deploy_address_provider pool v b)" "safe hs (full_deploy_lending_pool pool v)"
  "safe hs (full_deploy_oracles bn pool v)" "safe hs (full_data_provider v)"
  "safe hs (full_deploy_incentives_impl v)" "safe hs full_deploy_LDO_stable_yield_distributor"
  "safe hs full_deploy_variable_yield_distributor" "safe hs (sturdy_lendingPoolImpl v)"
  "safe hs (full_deploy_liquidator v)" "safe hs (full_deploy_vault_helper v)"
  unfolding full_deploy_address_provider_def full_deploy_lending_pool_def full_deploy_oracles_def
    full_data_provider_def full_deploy_incentives_impl_def
    full_deploy_LDO_stable_yield_distributor_def full_deploy_variable_yield_distributor_def
    sturdy_lendingPoolImpl_def full_deploy_liquidator_def full_deploy_vault_helper_def
  by (intro keeps_rules script_keeps)+

text \<open>Stages 6 to 8.\<close>

lemma safe_oracle_calls [script_keeps]:
  "safe hs (setAssetSources h as ss bs)" "safe hs (getSourceOfAsset h a)" "safe hs (logAssetPrice h a)"
  unfolding setAssetSources_def getSourceOfAsset_def logAssetPrice_def revert_def
  by (intro keeps_rules script_keeps)+

lemma safe_configuration_reads [script_keeps]:
  "safe hs (configuredParam field)" "safe hs (entryHere param symbol)"
  unfolding configuredParam_def entryHere_def by (intro keeps_rules script_keeps)+

lemma safe_vault_steps [script_keeps]:
  "(\<And>hs. safe hs m) \<Longrightarrow> safe hs (deployRegisteredVault config m)"
  "safe hs (setVaultConfiguration h field n)"
  "(\<And>hs. safe hs m) \<Longrightarrow> safe hs (aggregatorOr config symbol m)"
  unfolding deployRegisteredVault_def setVaultConfiguration_def aggregatorOr_def
  by (intro keeps_rules script_keeps; assumption?)+

lemma safe_vault_tasks [script_keeps]:
  "safe hs (full_deploy_lido_vault pool v)"
  "safe hs (full_deploy_yearn_reth_wsteth_vault pool v)"
  "safe hs (full_deploy_yearn_vault pool v)" "safe hs (full_deploy_beefy_eth_vault pool v)"
  "safe hs (full_deploy_yearn_weth_vault pool v)"
  "safe hs (full_deploy_yearn_wbtc_vault pool v)"
  "safe hs (full_deploy_yearn_boo_vault pool v)"
  "safe hs (full_deploy_tomb_ftm_beefy_vault pool v)"
  "safe hs (full_deploy_tomb_mimatic_beefy_vault pool v)"
  "safe hs (full_deploy_yearn_fbeets_vault pool v)"
  "safe hs (full_deploy_yearn_link_vault pool v)"
  "safe hs (full_deploy_yearn_crv_vault pool v)"
  "safe hs (full_deploy_yearn_spell_vault pool v)"
  "safe hs (full_deploy_based_mimatic_beefy_vault pool v)"
  "safe hs (full_deploy_beefy_mim2crv_vault pool v)"
  unfolding
    full_deploy_lido_vault_def full_deploy_yearn_reth_wsteth_vault_def
    full_deploy_yearn_vault_def full_deploy_beefy_eth_vault_def
    full_deploy_yearn_weth_vault_def full_deploy_yearn_wbtc_vault_def
    full_deploy_yearn_boo_vault_def full_deploy_tomb_ftm_beefy_vault_def
    full_deploy_tomb_mimatic_beefy_vault_def full_deploy_yearn_fbeets_vault_def
    full_deploy_yearn_link_vault_def full_deploy_yearn_crv_vault_def
    full_deploy_yearn_spell_vault_def full_deploy_based_mimatic_beefy_vault_def
    full_deploy_beefy_mim2crv_vault_def
  by (intro keeps_rules script_keeps)+

lemma safe_setAddressBytes32 [script_keeps]: "safe hs (setAddressBytes32 h i v)"
  unfolding setAddressBytes32_def
  by (intro keeps_rules script_keeps safe_providerTx) (blast dest: step_setAddress)

lemma safe_vaultAddresses [script_keeps]:
  "list_all (\<lambda>(symbol, getter). \<forall>hs a. safe hs (getter a)) getters \<Longrightarrow> safe hs (vaultAddresses getters)"
  unfolding vaultAddresses_def
  by (induction getters) (auto intro!: keeps_bind keeps_return split: prod.splits)

lemma safe_market_vaults [script_keeps]:
  "safe hs (yieldAddressesOf pool)" "safe hs (acceptableVaultsOf pool)"
  unfolding yieldAddressesOf_def acceptableVaultsOf_def
  by (rule safe_vaultAddresses, simp add: script_keeps)+

lemma safe_reserveExternalAssetsOf [script_keeps]: "safe hs (reserveExternalAssetsOf pool c)"
  unfolding reserveExternalAssetsOf_def externalAssets_def by (intro keeps_rules script_keeps)

lemma safe_manager_steps [script_keeps]:
  "safe hs (addCollateralAsset h externals vaults assets symbol)"
  "safe hs (registerReward h field n)" "safe hs (setCurvePool h config symbol a)"
  "safe hs (registerLevSwapper h config symbol h')" "safe hs (copyAssetSource h config symbol field)"
  "safe hs (registerConvexReserve h config symbol n a)"
  unfolding addCollateralAsset_def registerReward_def setCurvePool_def registerLevSwapper_def
    copyAssetSource_def registerConvexReserve_def
  by (intro keeps_rules script_keeps)+

lemma safe_deployLevSwapFor [script_keeps]:
  "(\<And>hs a. safe hs (f a)) \<Longrightarrow> (\<And>hs args v. safe hs (g args v)) \<Longrightarrow> safe hs (deployLevSwapFor f g field h v)"
  unfolding deployLevSwapFor_def by (intro keeps_rules script_keeps; assumption?)

lemma safe_stage8_tasks [script_keeps]:
  "safe hs (full_initialize_lending_pool bn pool v)" "safe hs (full_deploy_collateral_adapter bn pool v)"
  "safe hs (full_deploy_yield_manager pool v)" "safe hs (full_deploy_leverage_swap_manager pool v)"
  "safe hs (full_deploy_sturdy_apr_data_provider pool v)"
  unfolding full_initialize_lending_pool_def full_deploy_collateral_adapter_def
    full_deploy_yield_manager_def full_deploy_leverage_swap_manager_def
    full_deploy_sturdy_apr_data_provider_def
  by (intro keeps_rules script_keeps)+

lemma safe_verification_steps [script_keeps]:
  "safe hs (verifyOnly k h args)" "safe hs (verifyProxy a h)"
  "safe hs (getLendingPoolCollateralManager_addr h)" "safe hs (oracleVerificationArgs bn c)"
  unfolding verifyOnly_def verifyProxy_def getLendingPoolCollateralManager_addr_def
    oracleVerificationArgs_def
  by (intro keeps_rules script_keeps)+

lemma safe_configuredOrRegistered [script_keeps]:
  "(\<And>hs a. safe hs (f a)) \<Longrightarrow> safe hs (configuredOrRegistered param f)"
  unfolding configuredOrRegistered_def by (intro keeps_rules script_keeps; assumption?)

lemma safe_verification_parts [script_keeps]:
  "safe hs (verifyImplementations bn c a h1 h2 h3 b1 b2)" "safe hs (verifyVaults pool b h)"
  "safe hs (verifyToken reserves h1 h2 h3 entry)"
  unfolding verifyImplementations_def verifyVaults_def verifyToken_def
  by (intro keeps_rules script_keeps)+

lemma safe_verification_tasks [script_keeps]:
  "safe hs (verify_general bn b pool)" "safe hs (verify_tokens bn pool)" "safe hs (requireVerification v)"
  unfolding verify_general_def verify_tokens_def requireVerification_def
  by (intro keeps_rules script_keeps)+

lemma safe_impl_tasks [script_keeps]:
  "safe hs (sturdy_lendingPoolConfigImpl v)" "safe hs (sturdy_lendingPoolCollateralImpl v)"
  "safe hs (sturdy_incentiveControllerImpl v)" "safe hs (sturdy_incentiveTokenImpl v)"
  "safe hs (sturdy_lidoVaultImpl v)"
  unfolding sturdy_lendingPoolConfigImpl_def sturdy_lendingPoolCollateralImpl_def
    sturdy_incentiveControllerImpl_def sturdy_incentiveTokenImpl_def sturdy_lidoVaultImpl_def
  by (intro keeps_rules script_keeps)+

text \<open>The test networks.\<close>

lemma safe_testnet_reads [script_keeps]:
  "safe hs (rawParam field)" "safe hs (rawEntry param symbol)" "safe hs (setAssetPrice h a p)"
  "safe hs (configuratorImplementation config v)"
  unfolding rawParam_def rawEntry_def setAssetPrice_def configuratorImplementation_def
  by (intro keeps_rules script_keeps)+

lemma safe_testnet_prices [script_keeps]:
  "safe hs (setReservePrice bn config h symbol)" "safe hs (setTokenPrice bn field h symbol)"
  unfolding setReservePrice_def setTokenPrice_def by (intro keeps_rules script_keeps)+

lemma safe_registerDeployed [script_keeps]: "(\<And>hs. safe hs m) \<Longrightarrow> safe hs (registerDeployed m)"
  unfolding registerDeployed_def by (intro keeps_rules script_keeps; assumption?)

lemma safe_testnet_vault [script_keeps]:
  "(\<And>hs. safe hs m) \<Longrightarrow> safe hs (deployVaultTask m)"
  "(\<And>hs. safe hs m) \<Longrightarrow> safe hs (deployPricedVaultTask bn pool m tokens symbol)"
  unfolding deployVaultTask_def deployPricedVaultTask_def
  by (intro keeps_rules script_keeps; assumption?)+

lemma safe_testnet_maps [script_keeps]:
  "safe hs (testnetYieldAddresses pool)" "safe hs (testnetAcceptableVaults pool)"
  "safe hs (testnetExternalAssets pool c)"
  unfolding testnetYieldAddresses_def testnetAcceptableVaults_def testnetExternalAssets_def externalAssets_def
  by (rule safe_vaultAddresses, simp add: script_keeps)+ (intro keeps_rules script_keeps)

lemma safe_testnet_tasks [script_keeps]:
  "safe hs (testnet_deploy_address_provider_registry pool v)"
  "safe hs (testnet_deploy_address_provider pool v b)" "safe hs (testnet_deploy_lending_pool pool v)"
  "safe hs (testnet_deploy_oracles bn pool v)" "safe hs (testnet_data_provider v)"
  "safe hs (testnet_deploy_incentives_impl v)"
  "safe hs (testnet_deploy_lido_vault v)" "safe hs (testnet_deploy_yearn_vault v)"
  "safe hs (testnet_deploy_yearn_weth_vault v)" "safe hs (testnet_deploy_yearn_wbtc_vault v)"
  "safe hs (testnet_deploy_yearn_boo_vault v)" "safe hs (testnet_deploy_tomb_ftm_beefy_vault bn pool v)"
  "safe hs (testnet_deploy_tomb_mimatic_beefy_vault bn pool v)"
  "safe hs (testnet_deploy_yearn_fbeets_vault bn pool v)"
  "safe hs (testnet_deploy_yearn_link_vault bn pool v)" "safe hs (testnet_deploy_yearn_crv_vault bn pool v)"
  "safe hs (testnet_deploy_yearn_spell_vault bn pool v)"
  "safe hs (testnet_deploy_based_mimatic_beefy_vault bn pool v)"
  "safe hs (testnet_deploy_beefy_eth_vault bn pool v)"
  "safe hs (testnet_initialize_lending_pool bn pool v)"
  "safe hs (testnet_deploy_collateral_adapter bn pool v)"
  unfolding testnet_deploy_address_provider_registry_def testnet_deploy_address_provider_def
    testnet_deploy_lending_pool_def testnet_deploy_oracles_def testnet_data_provider_def
    testnet_deploy_incentives_impl_def testnet_deploy_lido_vault_def testnet_deploy_yearn_vault_def
    testnet_deploy_yearn_weth_vault_def testnet_deploy_yearn_wbtc_vault_def
    testnet_deploy_yearn_boo_vault_def testnet_deploy_tomb_ftm_beefy_vault_def
    testnet_deploy_tomb_mimatic_beefy_vault_def testnet_deploy_yearn_fbeets_vault_def
    testnet_deploy_yearn_link_vault_def testnet_deploy_yearn_crv_vault_def
    testnet_deploy_yearn_spell_vault_def testnet_deploy_based_mimatic_beefy_vault_def
    testnet_deploy_beefy_eth_vault_def testnet_initialize_lending_pool_def
    testnet_deploy_collateral_adapter_def
  by (intro keeps_rules script_keeps)+

lemma safe_testnet_migrations [script_keeps]:
  "safe hs (sturdy_testnet bn v b)" "safe hs (sturdy_ftm_testnet bn v b)"
  unfolding sturdy_testnet_def sturdy_ftm_testnet_def by (intro keeps_rules script_keeps)+

text \<open>The developer's tasks.\<close>

lemma safe_asset_tasks [script_keeps]:
  "safe hs (loadAsset bn pool symbol)" "safe hs (deployStrategyOf a params v)"
  "safe hs (aTokenImplementationFor params)"
  "safe hs (initNewAsset h config symbol params x1 x2 x3 t x4 x5)" "safe hs (configureAsPoolAdmin h a params)"
  unfolding loadAsset_def deployStrategyOf_def aTokenImplementationFor_def initNewAsset_def
    configureAsPoolAdmin_def
  by (intro keeps_rules script_keeps)+

lemma safe_new_assets [script_keeps]:
  "safe hs (change_asset_strategy bn symbol pool)" "safe hs (deploy_new_asset bn pool v symbol b c)"
  "safe hs (get_param_for_new_vault bn pool v symbol)"
  unfolding change_asset_strategy_def deploy_new_asset_def get_param_for_new_vault_def
  by (intro keeps_rules script_keeps)+

lemma safe_test_tokens [script_keeps]:
  "safe hs (convertToCurrencyDecimals tools a n)" "safe hs (convertToCurrencyUnits bn a n)" "safe hs (mintSwapped tools a h)"
  "safe hs (sturdy_testnet_dai tools v)" "safe hs (sturdy_testnet_usdc tools v)"
  "safe hs (sturdy_testnet_usdt tools v)" "safe hs sturdy_ftm_mockVaults" "safe hs (wrap_ftm tools n)"
  unfolding convertToCurrencyDecimals_def convertToCurrencyUnits_def mintSwapped_def sturdy_testnet_dai_def sturdy_testnet_usdc_def
    sturdy_testnet_usdt_def sturdy_ftm_mockVaults_def wrap_ftm_def
  by (intro keeps_rules script_keeps)+

lemma safe_console_tasks [script_keeps]:
  "safe hs (verify_sc a args)" "safe hs (getMarketId h)" "safe hs (printReserve h entry)"
  "safe hs (print_config pool a)"
  unfolding verify_sc_def getMarketId_def printReserve_def print_config_def
  by (intro keeps_rules script_keeps)+

end

section \<open>Tasks that write into the configuration\<close>

text \<open>The scripts above leave the loaded configurations alone. The tasks of the Convex and Aura
  vaults, and the migrations that run them, take one more kind of step.\<close>

locale task_steps = script_steps I R ok
  for I :: "world \<Rightarrow> bool" and R :: "world \<Rightarrow> world \<Rightarrow> bool" and ok :: "handle \<Rightarrow> world \<Rightarrow> bool" +
  assumes step_write: "I w \<Longrightarrow>
      I (w\<lparr>asset_writes := asset_writes w @ [x]\<rparr>) \<and> R w (w\<lparr>asset_writes := asset_writes w @ [x]\<rparr>)"
begin

lemma safe_writeReserveAsset [script_keeps]: "safe hs (writeReserveAsset pool config symbol a)"
  unfolding writeReserveAsset_def
  by (intro keeps_rules keeps_modify) (blast dest: step_write)

lemma safe_recordInternalAsset [script_keeps]: "safe hs (recordInternalAsset pool config symbol h)"
  unfolding recordInternalAsset_def by (intro keeps_rules script_keeps)

lemma safe_internal_asset_tasks [script_keeps]:
  "safe hs (full_deploy_convex_rocket_pool_eth_vault pool v)"
  "safe hs (full_deploy_convex_frax_3crv_vault pool v)"
  "safe hs (full_deploy_convex_steth_vault pool v)"
  "safe hs (full_deploy_convex_dola_3crv_vault pool v)"
  "safe hs (full_deploy_convex_mim_3crv_vault pool v)"
  "safe hs (full_deploy_convex_dai_usdc_usdt_susd_vault pool v)"
  "safe hs (full_deploy_convex_hbtc_wbtc_vault pool v)"
  "safe hs (full_deploy_convex_iron_bank_vault pool v)"
  "safe hs (full_deploy_convex_frax_usdc_vault pool v)"
  "safe hs (full_deploy_aura_dai_usdc_usdt_vault pool v)"
  "safe hs (full_deploy_convex_tusd_fraxbp_vault pool v)"
  "safe hs (full_deploy_aura_bb_a_usd_vault pool v)"
  "safe hs (full_deploy_aura_bb_a3_usd_vault pool v)"
  unfolding
    full_deploy_convex_rocket_pool_eth_vault_def full_deploy_convex_frax_3crv_vault_def
    full_deploy_convex_steth_vault_def full_deploy_convex_dola_3crv_vault_def
    full_deploy_convex_mim_3crv_vault_def full_deploy_convex_dai_usdc_usdt_susd_vault_def
    full_deploy_convex_hbtc_wbtc_vault_def full_deploy_convex_iron_bank_vault_def
    full_deploy_convex_frax_usdc_vault_def full_deploy_aura_dai_usdc_usdt_vault_def
    full_deploy_convex_tusd_fraxbp_vault_def full_deploy_aura_bb_a_usd_vault_def
    full_deploy_aura_bb_a3_usd_vault_def
  by (intro keeps_rules script_keeps)+

lemma safe_migrations [script_keeps]:
  "safe hs (sturdy_mainnet bn v b)" "safe hs (sturdy_ftm bn v b)"
  unfolding sturdy_mainnet_def sturdy_ftm_def by (intro keeps_rules script_keeps)+

lemma safe_print_config_fork [script_keeps]: "safe hs (print_config_fork bn)"
  unfolding print_config_fork_def by (intro keeps_rules script_keeps)

end

end
