(* ===== verification/Frames.thy ===== *)
theory Frames
  imports ScriptSteps "HOL-Library.Sublist"
begin

text \<open>
  The instances of \<open>script_steps\<close> and \<open>task_steps\<close>. The first needs no assumption on the world: no
  script changes the runtime environment or the registry entries of another network. The second
  starts from a well-formed world: it stays well formed, and the chain only grows. The third says
  which scripts leave the loaded configurations alone, the fourth that writes into them add up.
\<close>

section \<open>Environment and other networks\<close>

definition same_environment :: "world \<Rightarrow> world \<Rightarrow> bool" where
  "same_environment w w' \<longleftrightarrow>
     network_name w' = network_name w \<and> network_chainId w' = network_chainId w \<and>
     env_FORK w' = env_FORK w \<and> env_ETHERSCAN_KEY w' = env_ETHERSCAN_KEY w \<and>
     env_TENDERLY w' = env_TENDERLY w \<and> env_DEFENDER w' = env_DEFENDER w \<and>
     node_signers w' = node_signers w \<and> is_address w' = is_address w \<and>
     create_address w' = create_address w \<and> artifact_of w' = artifact_of w \<and>
     creation_rejected w' = creation_rejected w \<and> call_rejected w' = call_rejected w \<and>
     verify_outcome w' = verify_outcome w \<and> view_result w' = view_result w"

definition other_networks_kept :: "world \<Rightarrow> world \<Rightarrow> bool" where
  "other_networks_kept w w' \<longleftrightarrow>
     (\<forall>k n. n \<noteq> network_name w \<longrightarrow> json_db w' k n = json_db w k n)"

definition frame_step :: "world \<Rightarrow> world \<Rightarrow> bool" where
  "frame_step w w' \<longleftrightarrow> same_environment w w' \<and> other_networks_kept w w'"

lemma frame_step_trans: "frame_step w1 w2 \<Longrightarrow> frame_step w2 w3 \<Longrightarrow> frame_step w1 w3"
  by (auto simp: frame_step_def same_environment_def other_networks_kept_def)

lemma frame_step_simps:
  "frame_step w w"
  "frame_step w (create_contract c w)"
  "frame_step w (update_contract a f w)"
  "frame_step w (put_address self i a w)"
  "frame_step w (run_constructor s n args a w)"
  "frame_step w (db_put k e w)"
  "frame_step w (w\<lparr>asset_writes := ws\<rparr>)"
  by (simp_all add: frame_step_def same_environment_def other_networks_kept_def create_contract_def
      update_contract_def put_address_def run_constructor_def db_put_def)

lemma frame_step_installed: "installed p impl prov w w' \<Longrightarrow> frame_step w w'"
  by (auto simp: installed_def frame_step_simps)

lemma frame_step_updateImpl: "updateImpl self i impl w = (Inr (), w') \<Longrightarrow> frame_step w w'"
  unfolding updateImpl_Inr
  by (auto intro: frame_step_installed split: if_splits)
    (blast intro: frame_step_trans frame_step_installed frame_step_simps)

lemma frame_step_deployNew: "deployNew s n l args w = (Inr h, w') \<Longrightarrow> frame_step w w'"
  by (auto simp: deployNew_def intro: frame_step_trans frame_step_simps split: option.splits if_splits)

interpretation frame: task_steps "\<lambda>_. True" frame_step "\<lambda>_ _. True"
proof (unfold_locales, goal_cases)
  case (4 w w')
  from 4(2) show ?case
    by (rule bookkeepingE)
      (simp add: frame_step_def same_environment_def other_networks_kept_def)
qed (auto simp: frame_step_simps sol_setAddress_Inr sol_setAddressAsProxy_Inr initializer_Inr
      intro: frame_step_trans frame_step_deployNew frame_step_updateImpl)

section \<open>Well-formed worlds\<close>

text \<open>
  Accounts are exactly at addresses already handed out, a provider's storage belongs to a
  provider account, an entry that names a deployer names a contract on the chain, a proxy
  points at a contract, and no account was initialized beyond revision 1.
\<close>

definition wf_world :: "world \<Rightarrow> bool" where
  "wf_world w \<longleftrightarrow>
     env_laws w \<and>
     (\<forall>a. contracts w a \<noteq> None \<longrightarrow> (\<exists>n < creations w. a = create_address w n)) \<and>
     (\<forall>a. providers w a \<noteq> None \<longrightarrow> codeAt w a = ''LendingPoolAddressesProvider'') \<and>
     (\<forall>k e. json_db w k (network_name w) = Some e \<longrightarrow> entry_deployer e \<noteq> None \<longrightarrow>
        contracts w (entry_address e) \<noteq> None) \<and>
     (\<forall>a c. contracts w a = Some c \<longrightarrow>
        (implementation c = ZERO_ADDRESS \<or> contracts w (implementation c) \<noteq> None) \<and>
        lastInitializedRevision c \<le> 1)"

text \<open>Nothing on the chain disappears, and what identifies a contract or a provider stays.\<close>

definition account_grows :: "contract \<Rightarrow> contract \<Rightarrow> bool" where
  "account_grows c c' \<longleftrightarrow>
     code c' = code c \<and> ctor_args c' = ctor_args c \<and> libraries c' = libraries c \<and>
     proxy_admin c' = proxy_admin c \<and> lastInitializedRevision c \<le> lastInitializedRevision c' \<and>
     (implementation c \<noteq> ZERO_ADDRESS \<longrightarrow> implementation c' \<noteq> ZERO_ADDRESS)"

definition same_owner :: "provider \<Rightarrow> provider \<Rightarrow> bool" where
  "same_owner p p' \<longleftrightarrow> owner p' = owner p \<and> marketId p' = marketId p"

definition map_grows :: "('v \<Rightarrow> 'v \<Rightarrow> bool) \<Rightarrow> ('k \<rightharpoonup> 'v) \<Rightarrow> ('k \<rightharpoonup> 'v) \<Rightarrow> bool" where
  "map_grows P m m' \<longleftrightarrow> (\<forall>k v. m k = Some v \<longrightarrow> (\<exists>v'. m' k = Some v' \<and> P v v'))"

definition chain_grows :: "world \<Rightarrow> world \<Rightarrow> bool" where
  "chain_grows w w' \<longleftrightarrow>
     creations w \<le> creations w' \<and> map_grows account_grows (contracts w) (contracts w') \<and>
     map_grows same_owner (providers w) (providers w')"

definition deployed_handle :: "handle \<Rightarrow> world \<Rightarrow> bool" where
  "deployed_handle h w \<longleftrightarrow> (h_deployer h \<noteq> None \<longrightarrow> codeAt w (h_address h) = h_factory h \<and>
     contracts w (h_address h) \<noteq> None)"

lemma map_grows_refl: "(\<And>v. P v v) \<Longrightarrow> map_grows P m m"
  by (simp add: map_grows_def)

lemma map_grows_trans:
  assumes "\<And>u v x. P u v \<Longrightarrow> P v x \<Longrightarrow> P u x"
  shows "map_grows P m1 m2 \<Longrightarrow> map_grows P m2 m3 \<Longrightarrow> map_grows P m1 m3"
  unfolding map_grows_def using assms by blast

lemma map_grows_update:
  "(\<And>v. P v v) \<Longrightarrow> m k = None \<or> (\<exists>u. m k = Some u \<and> P u v) \<Longrightarrow> map_grows P m (m(k \<mapsto> v))"
  by (auto simp: map_grows_def)

lemma account_grows_refl: "account_grows c c"
  and same_owner_refl: "same_owner p p"
  by (simp_all add: account_grows_def same_owner_def)

lemma chain_grows_refl: "chain_grows w w"
  by (simp add: chain_grows_def map_grows_refl account_grows_refl same_owner_refl)

lemma chain_grows_trans: "chain_grows w1 w2 \<Longrightarrow> chain_grows w2 w3 \<Longrightarrow> chain_grows w1 w3"
  unfolding chain_grows_def
  by (auto elim!: map_grows_trans [rotated] simp: account_grows_def same_owner_def)

lemma map_growsD: "map_grows P m m' \<Longrightarrow> m k = Some v \<Longrightarrow> \<exists>v'. m' k = Some v' \<and> P v v'"
  by (simp add: map_grows_def)

lemma chain_grows_codeAt:
  assumes "chain_grows w w'" and "contracts w a \<noteq> None"
  shows "contracts w' a \<noteq> None" and "codeAt w' a = codeAt w a"
proof -
  from assms obtain c c' where "contracts w a = Some c" "contracts w' a = Some c'" "code c' = code c"
    unfolding chain_grows_def account_grows_def by (blast dest: map_growsD)
  then show "contracts w' a \<noteq> None" and "codeAt w' a = codeAt w a"
    by (simp_all add: codeAt_def)
qed

section \<open>Steps from well-formed worlds\<close>

lemma next_address_fresh:
  assumes "wf_world w"
  shows "contracts w (next_address w) = None" and "providers w (next_address w) = None"
    and "next_address w \<noteq> ZERO_ADDRESS"
proof -
  from assms have env: "env_laws w"
    and dom: "contracts w (next_address w) \<noteq> None \<Longrightarrow> \<exists>n < creations w. next_address w = create_address w n"
    by (simp_all add: wf_world_def)
  show *: "contracts w (next_address w) = None"
    by (rule ccontr) (use dom env_lawsD(4) [OF env] in \<open>auto simp: next_address_def\<close>)
  show "providers w (next_address w) = None"
  proof (rule ccontr)
    assume "providers w (next_address w) \<noteq> None"
    with assms have "codeAt w (next_address w) = ''LendingPoolAddressesProvider''"
      unfolding wf_world_def by blast
    with * show False by (simp add: codeAt_def)
  qed
  show "next_address w \<noteq> ZERO_ADDRESS"
    using env_lawsD(1) [OF env] by (simp add: next_address_def)
qed

lemma wf_create_contract:
  assumes w: "wf_world w" and c: "implementation c = ZERO_ADDRESS" "lastInitializedRevision c \<le> 1"
  shows "wf_world (create_contract c w)" and "chain_grows w (create_contract c w)"
proof -
  note fresh = next_address_fresh [OF w]
  show "chain_grows w (create_contract c w)"
    by (simp add: chain_grows_def map_grows_update map_grows_refl account_grows_refl
        same_owner_refl fresh)
  have code: "codeAt (create_contract c w) a = (if a = next_address w then code c else codeAt w a)" for a
    by (simp add: codeAt_def)
  show "wf_world (create_contract c w)"
    unfolding wf_world_def
  proof (intro conjI allI impI)
    show "env_laws (create_contract c w)"
      using w by (simp add: wf_world_def env_laws_def)
  next
    fix a assume "contracts (create_contract c w) a \<noteq> None"
    then show "\<exists>n < creations (create_contract c w). a = create_address (create_contract c w) n"
      using w by (cases "a = next_address w") (auto simp: wf_world_def next_address_def less_Suc_eq)
  next
    fix a assume "providers (create_contract c w) a \<noteq> None"
    with w fresh(2) show "codeAt (create_contract c w) a = ''LendingPoolAddressesProvider''"
      by (auto simp: wf_world_def code)
  next
    fix k e
    assume "json_db (create_contract c w) k (network_name (create_contract c w)) = Some e"
      and "entry_deployer e \<noteq> None"
    with w show "contracts (create_contract c w) (entry_address e) \<noteq> None"
      by (auto simp: wf_world_def)
  next
    fix a c'
    assume "contracts (create_contract c w) a = Some c'"
    with w c show "implementation c' = ZERO_ADDRESS \<or> contracts (create_contract c w) (implementation c') \<noteq> None"
      and "lastInitializedRevision c' \<le> 1"
      by (auto simp: wf_world_def split: if_splits)
  qed
qed

lemma wf_update_contract:
  assumes w: "wf_world w"
    and f: "\<And>c. contracts w a = Some c \<Longrightarrow> account_grows c (f c) \<and>
      (implementation (f c) = ZERO_ADDRESS \<or> contracts w (implementation (f c)) \<noteq> None) \<and>
      lastInitializedRevision (f c) \<le> 1"
  shows "wf_world (update_contract a f w)" and "chain_grows w (update_contract a f w)"
proof -
  have dom: "contracts (update_contract a f w) b \<noteq> None \<longleftrightarrow> contracts w b \<noteq> None" for b
    by simp
  have code: "codeAt (update_contract a f w) b = codeAt w b" for b
    using f by (auto simp: codeAt_def account_grows_def split: option.split)
  show "chain_grows w (update_contract a f w)"
    using f by (auto simp: chain_grows_def map_grows_def account_grows_refl same_owner_refl)
  show "wf_world (update_contract a f w)"
    unfolding wf_world_def
  proof (intro conjI allI impI)
    show "env_laws (update_contract a f w)"
      using w by (simp add: wf_world_def env_laws_def)
  next
    fix b assume "contracts (update_contract a f w) b \<noteq> None"
    with w dom show "\<exists>n < creations (update_contract a f w). b = create_address (update_contract a f w) n"
      by (simp add: wf_world_def)
  next
    fix b assume "providers (update_contract a f w) b \<noteq> None"
    with w show "codeAt (update_contract a f w) b = ''LendingPoolAddressesProvider''"
      by (simp add: wf_world_def code)
  next
    fix k e
    assume "json_db (update_contract a f w) k (network_name (update_contract a f w)) = Some e"
      and "entry_deployer e \<noteq> None"
    with w dom show "contracts (update_contract a f w) (entry_address e) \<noteq> None"
      by (simp add: wf_world_def)
  next
    fix b c'
    assume b: "contracts (update_contract a f w) b = Some c'"
    then have "(implementation c' = ZERO_ADDRESS \<or> contracts w (implementation c') \<noteq> None) \<and>
        lastInitializedRevision c' \<le> 1"
      using f w by (cases "b = a") (auto simp: wf_world_def)
    with dom show "implementation c' = ZERO_ADDRESS \<or> contracts (update_contract a f w) (implementation c') \<noteq> None"
      and "lastInitializedRevision c' \<le> 1" by blast+
  qed
qed

lemma wf_put_address:
  assumes "wf_world w"
  shows "wf_world (put_address self i a w)" and "chain_grows w (put_address self i a w)"
  using assms
  by (auto simp: wf_world_def put_address_def env_laws_def codeAt_def chain_grows_def map_grows_def
      account_grows_refl same_owner_def)

lemma wf_nonzero: "wf_world w \<Longrightarrow> contracts w a \<noteq> None \<Longrightarrow> a \<noteq> ZERO_ADDRESS"
  unfolding wf_world_def by (metis env_lawsD(1))

lemma wf_db_put:
  assumes "wf_world w" and "entry_deployer e \<noteq> None \<Longrightarrow> contracts w (entry_address e) \<noteq> None"
  shows "wf_world (db_put k e w)" and "chain_grows w (db_put k e w)"
  using assms
  by (auto simp: wf_world_def db_put_def env_laws_def codeAt_def chain_grows_def map_grows_def
      account_grows_refl same_owner_refl)

lemma getRevision_Some: "getRevision name = Some revision \<Longrightarrow> revision = 1"
  by (simp add: getRevision_def split: if_splits)

lemma wf_initializer:
  assumes w: "wf_world w" and run: "initializer acct name prov w = (Inr (), w')"
  shows "wf_world w'" and "chain_grows w w'"
proof -
  from run obtain c where w': "w' = update_contract acct (\<lambda>c. c\<lparr>lastInitializedRevision := 1\<rparr>) w"
    and c: "contracts w acct = Some c" "lastInitializedRevision c < 1"
    unfolding initializer_Inr using getRevision_Some by blast
  have "implementation c = ZERO_ADDRESS \<or> contracts w (implementation c) \<noteq> None"
    using w c by (simp add: wf_world_def)
  with w c show "wf_world w'" and "chain_grows w w'"
    unfolding w' by (auto intro!: wf_update_contract simp: account_grows_def)
qed

lemma wf_installed:
  assumes w: "wf_world w" and run: "installed proxy impl prov w w'"
  shows "wf_world w'" and "chain_grows w w'"
proof -
  from run obtain c where
    w': "w' = update_contract proxy (\<lambda>c. c\<lparr>implementation := impl, lastInitializedRevision := 1\<rparr>) w"
    and c: "contracts w proxy = Some c" "lastInitializedRevision c < 1" and impl: "contracts w impl \<noteq> None"
    unfolding installed_def using getRevision_Some by blast
  with w c wf_nonzero [OF w impl] show "wf_world w'" and "chain_grows w w'"
    unfolding w' by (auto intro!: wf_update_contract simp: account_grows_def)
qed

lemma wf_updateImpl:
  assumes w: "wf_world w" and run: "updateImpl self i impl w = (Inr (), w')"
  shows "wf_world w' \<and> chain_grows w w'"
proof (cases "sol_getAddress self i w = ZERO_ADDRESS")
  case True
  let ?w1 = "create_contract (proxy_contract self) w"
  from True run obtain w2 where inst: "installed (next_address w) impl self ?w1 w2"
    and w': "w' = put_address self i (next_address w) w2"
    by (auto simp: updateImpl_Inr)
  have w1: "wf_world ?w1" "chain_grows w ?w1"
    by (rule wf_create_contract [OF w]; simp add: proxy_contract_def new_contract_def)+
  have w2: "wf_world w2" "chain_grows ?w1 w2"
    by (rule wf_installed [OF w1(1) inst])+
  show ?thesis
    unfolding w' using wf_put_address [OF w2(1)] w1(2) w2(2) by (blast intro: chain_grows_trans)
next
  case False
  with run wf_installed [OF w] show ?thesis by (auto simp: updateImpl_Inr)
qed

lemma wf_run_constructor:
  assumes w: "wf_world w" and fresh: "providers w a = None" and code: "codeAt w a = name"
  shows "wf_world (run_constructor s name args a w)" and "chain_grows w (run_constructor s name args a w)"
  using assms
  by (auto simp: run_constructor_def wf_world_def env_laws_def codeAt_def chain_grows_def map_grows_def
      account_grows_refl same_owner_refl)

lemma wf_deployNew:
  assumes w: "wf_world w" and run: "deployNew s n l args w = (Inr h, w')"
  shows "wf_world w' \<and> chain_grows w w' \<and> deployed_handle h w'"
proof -
  let ?w1 = "create_contract (new_contract n args l) w"
  from run obtain d where h: "h = \<lparr>h_address = next_address w, h_factory = n, h_signer = Some d, h_deployer = Some d\<rparr>"
    and w': "w' = run_constructor d n args (next_address w) ?w1"
    by (auto simp: deployNew_def split: option.splits if_splits)
  have w1: "wf_world ?w1" "chain_grows w ?w1"
    by (rule wf_create_contract [OF w]; simp add: new_contract_def)+
  have "wf_world w'" "chain_grows ?w1 w'"
    unfolding w'
    by (rule wf_run_constructor [OF w1(1)];
        simp add: next_address_fresh [OF w] codeAt_def new_contract_def)+
  moreover have "deployed_handle h w'"
    by (simp add: deployed_handle_def h w' codeAt_def new_contract_def)
  ultimately show ?thesis using w1(2) by (blast intro: chain_grows_trans)
qed

lemma wf_bookkeeping: "wf_world w \<Longrightarrow> bookkeeping w w' \<Longrightarrow> wf_world w' \<and> chain_grows w w'"
  by (erule bookkeepingE)
    (simp add: wf_world_def env_laws_def codeAt_def chain_grows_def map_grows_def
      account_grows_refl same_owner_refl)

lemma wf_asset_writes: "wf_world w \<Longrightarrow> wf_world (w\<lparr>asset_writes := ws\<rparr>) \<and> chain_grows w (w\<lparr>asset_writes := ws\<rparr>)"
  by (simp add: wf_world_def env_laws_def codeAt_def chain_grows_def map_grows_def
      account_grows_refl same_owner_refl)

lemma deployed_handle_persists:
  "deployed_handle h w \<Longrightarrow> chain_grows w w' \<Longrightarrow> deployed_handle h w'"
  by (auto simp: deployed_handle_def dest: chain_grows_codeAt)

interpretation chain: task_steps wf_world chain_grows deployed_handle
proof (unfold_locales, goal_cases)
  case 1 show ?case by (rule chain_grows_refl)
next
  case 2 then show ?case by (rule chain_grows_trans)
next
  case 3 then show ?case by (rule deployed_handle_persists)
next
  case 4 then show ?case by (rule wf_bookkeeping)
next
  case 5 then show ?case by (rule wf_deployNew)
next
  case (6 w h d k)
  then show ?case by (intro conjI wf_db_put) (simp_all add: deployed_handle_def)
next
  case 7 then show ?case by (intro conjI wf_db_put) simp_all
next
  case 8 then show ?case using wf_put_address by (auto simp: sol_setAddress_Inr)
next
  case 9 then show ?case using wf_updateImpl by (auto simp: sol_setAddressAsProxy_Inr)
next
  case 10 then show ?case using wf_initializer by blast
next
  case 11 then show ?case by (rule wf_asset_writes)
qed

section \<open>Writes into the configuration\<close>

definition writes_kept :: "world \<Rightarrow> world \<Rightarrow> bool" where
  "writes_kept w w' \<longleftrightarrow> asset_writes w' = asset_writes w"

definition writes_grow :: "world \<Rightarrow> world \<Rightarrow> bool" where
  "writes_grow w w' \<longleftrightarrow> prefix (asset_writes w) (asset_writes w')"

lemma asset_writes_simps [simp]:
  "asset_writes (create_contract c w) = asset_writes w"
  "asset_writes (update_contract a f w) = asset_writes w"
  "asset_writes (put_address self i a w) = asset_writes w"
  "asset_writes (run_constructor s n args a w) = asset_writes w"
  "asset_writes (db_put k e w) = asset_writes w"
  by (simp_all add: create_contract_def update_contract_def put_address_def run_constructor_def db_put_def)

lemma writes_kept_installed: "installed p impl prov w w' \<Longrightarrow> asset_writes w' = asset_writes w"
  by (auto simp: installed_def)

lemma writes_kept_updateImpl:
  "updateImpl self i impl w = (Inr (), w') \<Longrightarrow> asset_writes w' = asset_writes w"
  unfolding updateImpl_Inr by (auto dest: writes_kept_installed split: if_splits)

lemma writes_kept_deployNew: "deployNew s n l args w = (Inr h, w') \<Longrightarrow> asset_writes w' = asset_writes w"
  by (auto simp: deployNew_def split: option.splits if_splits)

lemma writes_kept_bookkeeping: "bookkeeping w w' \<Longrightarrow> asset_writes w' = asset_writes w"
  by (erule bookkeepingE) simp

lemmas writes_kept_steps = writes_kept_bookkeeping writes_kept_deployNew writes_kept_updateImpl

interpretation kept: script_steps "\<lambda>_. True" writes_kept "\<lambda>_ _. True"
  by unfold_locales
    (auto simp: writes_kept_def sol_setAddress_Inr sol_setAddressAsProxy_Inr initializer_Inr
      dest: writes_kept_steps)

interpretation grown: task_steps "\<lambda>_. True" writes_grow "\<lambda>_ _. True"
  by unfold_locales
    (auto simp: writes_grow_def sol_setAddress_Inr sol_setAddressAsProxy_Inr initializer_Inr
      dest: writes_kept_steps intro: prefix_order.trans)

end
