(* ===== verification/Effects.thy ===== *)
theory Effects
  imports Frames
begin

text \<open>
  What a successful deployment leaves. Signers, getters and verification only do bookkeeping
  (an instance of \<open>guarded_steps\<close>), so the effect of \<open>deployAndSave\<close> is one new account and one
  registry entry.
\<close>

section \<open>Bookkeeping\<close>

lemma bookkeeping_refl: "bookkeeping w w"
  by (simp add: bookkeeping_def)

lemma bookkeeping_trans: "bookkeeping w1 w2 \<Longrightarrow> bookkeeping w2 w3 \<Longrightarrow> bookkeeping w1 w3"
  by (elim bookkeepingE) (simp add: bookkeeping_def)

interpretation book: guarded_steps "\<lambda>_. True" bookkeeping "\<lambda>_ _. True"
  by unfold_locales (auto intro: bookkeeping_refl bookkeeping_trans)

abbreviation quiet :: "'a script \<Rightarrow> bool" where
  "quiet m \<equiv> keeps (\<lambda>_. True) bookkeeping (\<lambda>_ _. True) ([] :: handle list) m"

named_theorems quiet_scripts \<open>scripts that only do bookkeeping\<close>

lemma quietD: "quiet m \<Longrightarrow> m w = (r, w') \<Longrightarrow> bookkeeping w w'"
  using keepsD [of "\<lambda>_. True" bookkeeping "\<lambda>_ _. True" "[]" m w r w'] by simp

lemma quiet_modify: "(\<And>w. bookkeeping w (f w)) \<Longrightarrow> quiet (modifyIO f)"
  by (rule book.keeps_modify) simp

lemma quiet_verification [quiet_scripts]:
  "quiet cleanup" "quiet (verifyAtTenderly name a)" "quiet (impersonateAccountsHardhat accs)"
  unfolding cleanup_def verifyAtTenderly_def impersonateAccountsHardhat_def
  by (intro book.keeps_rules quiet_modify; simp add: bookkeeping_def)+

lemma quiet_runVerify [quiet_scripts]: "quiet (runVerify a args b)"
  by (rule keepsI) (simp add: runVerify_def bookkeeping_def)

lemma quiet_runTaskWithRetry [quiet_scripts]: "quiet (runTaskWithRetry a args b n)"
  by (induction n arbitrary: b)
    (auto intro!: book.keeps_rules quiet_scripts simp: Let_def split: option.split)

lemma quiet_verifyContract [quiet_scripts]:
  "quiet (verifyEtherscanContract a args)" "quiet (verifyContract k h args)"
  unfolding verifyContract_def verifyEtherscanContract_def by (intro book.keeps_rules quiet_scripts)+

lemma quiet_signers [quiet_scripts]:
  "quiet getDefenderRelaySigner" "quiet getEthersSigners" "quiet getFirstSigner"
  unfolding getFirstSigner_def getEthersSigners_def getDefenderRelaySigner_def
  by (intro book.keeps_rules quiet_scripts)+

lemma quiet_getters [quiet_scripts]:
  "quiet (registeredAddress k)" "quiet (registeredAddressOrUndefined k)"
  "quiet (connectOrRegistered f a k)"
  unfolding connectOrRegistered_def registeredAddress_def registeredAddressOrUndefined_def
  by (intro book.keeps_rules quiet_scripts)+

lemma quiet_callContract [quiet_scripts]: "quiet (callContract h m args)"
  unfolding callContract_def senderOf_def revert_def
  by (intro book.keeps_rules quiet_modify) (simp add: bookkeeping_def)

lemma bookkeeping_simps:
  assumes "bookkeeping w w'"
  shows "contracts w' = contracts w" "providers w' = providers w" "creations w' = creations w"
    "json_db w' = json_db w" "network_name w' = network_name w" "is_address w' = is_address w"
    "create_address w' = create_address w" "node_signers w' = node_signers w"
    "env_FORK w' = env_FORK w" "env_TENDERLY w' = env_TENDERLY w" "env_DEFENDER w' = env_DEFENDER w"
    "db_get k w' = db_get k w" "next_address w' = next_address w" "codeAt w' a = codeAt w a"
    "same_environment w w'"
  using assms
  by (auto elim!: bookkeepingE simp: db_get_def next_address_def codeAt_def same_environment_def)

lemma same_environment_refl: "same_environment w w"
  and same_environment_sym: "same_environment w w' \<Longrightarrow> same_environment w' w"
  and same_environment_trans:
    "same_environment w1 w2 \<Longrightarrow> same_environment w2 w3 \<Longrightarrow> same_environment w1 w3"
  by (simp_all add: same_environment_def)

text \<open>Which signer is first depends on the environment only.\<close>

lemma getFirstSigner_result:
  "same_environment w w' \<Longrightarrow> fst (getFirstSigner w') = fst (getFirstSigner w)"
  by (auto simp: getFirstSigner_def getEthersSigners_def getDefenderRelaySigner_def usingDefender_def
      usingTenderly_def impersonateAccountsHardhat_def same_environment_def io_run)

section \<open>Getters\<close>

lemma connectOrRegistered_Inr:
  assumes "connectOrRegistered f None k w = (Inr h, w')"
  obtains e s where "db_get k w = Some e" and "h = connectAt f (entry_address e) s"
    and "fst (getFirstSigner w) = Inr s" and "bookkeeping w w'"
proof -
  from assms obtain e s where "db_get k w = Some e" and "getFirstSigner w = (Inr s, w')"
    and "h = connectAt f (entry_address e) s"
    by (auto simp: connectOrRegistered_def registeredAddress_def io_run
        split: option.splits prod.splits sum.splits)
  moreover from this have "bookkeeping w w'" using quietD [OF quiet_signers(3)] by blast
  ultimately show thesis using that by simp
qed

lemma connectOrRegistered_run:
  assumes "db_get k w = Some e" and "fst (getFirstSigner w) = Inr s"
  shows "\<exists>w'. connectOrRegistered f None k w = (Inr (connectAt f (entry_address e) s), w')"
  using assms
  by (cases "getFirstSigner w") (auto simp: connectOrRegistered_def registeredAddress_def io_run)

lemma connectOrRegistered_given:
  "a \<noteq> '''' \<Longrightarrow> fst (getFirstSigner w) = Inr s \<Longrightarrow>
   \<exists>w'. connectOrRegistered f (Some a) k w = (Inr (connectAt f a s), w')"
  by (cases "getFirstSigner w") (auto simp: connectOrRegistered_def io_run)

lemma connectOrRegistered_missing:
  "db_get k w = None \<Longrightarrow> connectOrRegistered f None k w = (Inl (TypeError k), w)"
  by (simp add: connectOrRegistered_def registeredAddress_def io_run)

section \<open>Deployment\<close>

lemma deployFresh_Inr:
  assumes "deployFresh n l args w = (Inr h, w')"
  obtains s w1 where "fst (getFirstSigner w) = Inr (Some s)" and "bookkeeping w w1"
    and "\<not> creation_rejected w n args"
    and "h = \<lparr>h_address = next_address w, h_factory = n, h_signer = Some s, h_deployer = Some s\<rparr>"
    and "w' = run_constructor s n args (next_address w) (create_contract (new_contract n args l) w1)"
proof -
  from assms obtain s w1 where 1: "getFirstSigner w = (Inr (Some s), w1)"
    and rej: "\<not> creation_rejected w1 n args"
    and h: "h = \<lparr>h_address = next_address w1, h_factory = n, h_signer = Some s, h_deployer = Some s\<rparr>"
    and w': "w' = run_constructor s n args (next_address w1) (create_contract (new_contract n args l) w1)"
    by (auto simp: deployFresh_def deployNew_def io_run split: prod.splits sum.splits option.splits if_splits)
  have b: "bookkeeping w w1" by (rule quietD [OF quiet_signers(3) 1])
  then have "creation_rejected w1 = creation_rejected w" "next_address w1 = next_address w"
    using bookkeeping_simps(13,15) by (auto simp: same_environment_def)
  with 1 rej h w' b show thesis using that by simp
qed

lemma withSaveAndVerify_Inr:
  assumes "withSaveAndVerify h k args v w = (Inr h', w')"
  obtains d where "h' = h" and "h_deployer h = Some d"
    and "bookkeeping (db_put k \<lparr>entry_address = h_address h, entry_deployer = Some d\<rparr> w) w'"
proof -
  from assms obtain d where h: "h' = h" "h_deployer h = Some d"
    and rest: "(if v then bindIO (verifyContract k h args) (\<lambda>_. returnIO ()) else returnIO ())
      (db_put k \<lparr>entry_address = h_address h, entry_deployer = Some d\<rparr> w) = (Inr (), w')"
    by (auto simp: withSaveAndVerify_def waitForDeployTransaction_def registerContractInJsonDb_def io_run
        split: option.splits prod.splits sum.splits if_splits)
  have "quiet (if v then bindIO (verifyContract k h args) (\<lambda>_. returnIO ()) else returnIO ())"
    by (intro book.keeps_rules quiet_scripts)
  from quietD [OF this rest] h show thesis using that by blast
qed

text \<open>The effect of \<open>deployAndSave\<close>.\<close>

definition deployed_as ::
  "string \<Rightarrow> (string \<times> address) list \<Rightarrow> string \<Rightarrow> arg list \<Rightarrow> handle \<Rightarrow> world \<Rightarrow> world \<Rightarrow> bool" where
  "deployed_as n l k args h w w' \<longleftrightarrow>
     (\<exists>s. fst (getFirstSigner w) = Inr (Some s) \<and>
        h = \<lparr>h_address = next_address w, h_factory = n, h_signer = Some s, h_deployer = Some s\<rparr> \<and>
        db_get k w' = Some \<lparr>entry_address = next_address w, entry_deployer = Some s\<rparr>) \<and>
     (\<forall>k'. k' \<noteq> k \<longrightarrow> db_get k' w' = db_get k' w) \<and>
     contracts w' = (contracts w)(next_address w \<mapsto> new_contract n args l) \<and>
     (n \<noteq> ''LendingPoolAddressesProvider'' \<longrightarrow> providers w' = providers w) \<and>
     creations w' = Suc (creations w) \<and> same_environment w w'"

lemma deployAndSave_Inr:
  assumes "deployAndSave n l k args v w = (Inr h, w')"
  shows "deployed_as n l k args h w w'"
proof -
  from assms obtain h0 w1 where fresh: "deployFresh n l args w = (Inr h0, w1)"
    and save: "withSaveAndVerify h0 k args v w1 = (Inr h, w')"
    unfolding deployAndSave_def by (rule bindIO_InrE)
  from fresh obtain s w0 where s: "fst (getFirstSigner w) = Inr (Some s)" and b0: "bookkeeping w w0"
    and h0: "h0 = \<lparr>h_address = next_address w, h_factory = n, h_signer = Some s, h_deployer = Some s\<rparr>"
    and w1: "w1 = run_constructor s n args (next_address w) (create_contract (new_contract n args l) w0)"
    by (rule deployFresh_Inr)
  from save h0 have h: "h = h0"
    and b1: "bookkeeping (db_put k \<lparr>entry_address = next_address w, entry_deployer = Some s\<rparr> w1) w'"
    by (auto elim: withSaveAndVerify_Inr)
  note bs = bookkeeping_simps [OF b0] bookkeeping_simps [OF b1]
  have "db_get k' w1 = db_get k' w" for k'
    by (simp add: w1 db_get_def bs)
  moreover have "contracts w' = (contracts w)(next_address w \<mapsto> new_contract n args l)"
    by (simp add: bs w1)
  moreover have "creations w' = Suc (creations w)"
    by (simp add: bs w1)
  moreover have "n \<noteq> ''LendingPoolAddressesProvider'' \<Longrightarrow> providers w' = providers w"
    by (simp add: bs w1)
  moreover have "frame_step w0 w1"
    unfolding w1 by (blast intro: frame_step_trans frame_step_simps)
  then have "same_environment w w'"
    using bs(15) bs(30) frame_step_simps(6) [of w1 k]
    unfolding frame_step_def by (blast intro: same_environment_trans)
  ultimately show ?thesis
    using s by (simp add: deployed_as_def h h0 bs)
qed

lemma deployAndSave_run:
  assumes "fst (getFirstSigner w) = Inr (Some s)" and "\<not> creation_rejected w n args"
  shows "\<exists>h w'. deployAndSave n l k args False w = (Inr h, w')"
proof -
  obtain w1 where g: "getFirstSigner w = (Inr (Some s), w1)"
    using assms(1) by (cases "getFirstSigner w") auto
  then have "creation_rejected w1 = creation_rejected w"
    using bookkeeping_simps(15) [OF quietD [OF quiet_signers(3) g]] by (simp add: same_environment_def)
  with g assms(2) show ?thesis
    by (simp add: deployAndSave_def deployFresh_def deployNew_def withSaveAndVerify_def
        waitForDeployTransaction_def registerContractInJsonDb_def io_run)
qed

section \<open>A sample market\<close>

text \<open>The world the deployment of the addresses provider leaves.\<close>

definition sampleMarket :: "string \<Rightarrow> world" where
  "sampleMarket network = snd (deployLendingPoolAddressesProvider ''Market'' False (sampleWorld network))"

lemma wf_sampleWorld: "wf_world (sampleWorld network)"
  by (simp add: wf_world_def sampleWorld_env_laws) (simp add: sampleWorld_def)

lemma wf_sampleMarket: "wf_world (sampleMarket network)"
proof -
  obtain r w where "deployLendingPoolAddressesProvider ''Market'' False (sampleWorld network) = (r, w)"
    by fastforce
  with keepsD [OF chain.safe_deployAndSave [of "[]"] wf_sampleWorld _ this [unfolded deployLendingPoolAddressesProvider_def]]
  show ?thesis by (simp add: sampleMarket_def)
qed

lemmas run_defs = io_run deployAndSave_def deployFresh_def deployNew_def withSaveAndVerify_def
  waitForDeployTransaction_def registerContractInJsonDb_def getFirstSigner_def getEthersSigners_def
  usingDefender_def nth_opt_def

lemma sampleMarket_eq:
  "sampleMarket network =
     (let a = ''0xC'';
          w = create_contract (new_contract ''LendingPoolAddressesProvider'' [Str ''Market''] []) (sampleWorld network)
      in db_put ''LendingPoolAddressesProvider'' \<lparr>entry_address = a, entry_deployer = Some ''0xA1''\<rparr>
           (w\<lparr>providers := (providers w)(a \<mapsto> construct_provider ''0xA1'' ''Market'')\<rparr>))"
  by (simp add: sampleMarket_def deployLendingPoolAddressesProvider_def run_defs run_constructor_def
      next_address_def sampleWorld_def Let_def)

end
