(* ===== verification/Sessions.thy ===== *)
theory Sessions
  imports Effects ReserveChecks
begin

text \<open>
  Sessions: any number of runs of the repository's scripts, one after the other, each with any
  arguments and each ending in success or in an error. The scripts are collected by shape;
  \<open>session\<close> is the step relation they generate, and what every script keeps is kept by a
  session, by rule induction.
\<close>

section \<open>The scripts\<close>

definition getterScripts ::
  "string option \<Rightarrow> address \<Rightarrow> string \<Rightarrow> handle script list" where
  "getterScripts a b s =
     [getLendingPoolAddressesProvider a, getLendingPoolConfiguratorProxy a,
      getSturdyProtocolDataProvider a, getInterestRateStrategy a, getReserveLogic a,
      getStableAndVariableTokensHelper a, getATokensAndRatesHelper a, getLendingPoolImpl a,
      getLendingPoolConfiguratorImpl a, getLendingPoolCollateralManagerImpl a,
      getLendingPoolCollateralManager a, getLendingPool a, getWalletProvider a,
      getUiPoolDataProvider a, getUiIncentiveDataProvider a, getSturdyIncentivesControllerImpl a,
      getSturdyIncentivesController a, getSturdyTokenImpl a, getSturdyToken a,
      getStableYieldDistributionImpl a, getLDOStableYieldDistribution a,
      getVariableYieldDistributionImpl a, getVariableYieldDistribution a,
      getYieldDistributorAdapter a, getCollateralAdapter a, getFTMLiquidator a,
      getETHLiquidator a, getDeployVaultHelper a, getYieldManager a, getLeverageSwapManager a,
      getSturdyAPRDataProvider a, getVaultWhitelist a, getERC4626Router a, getAToken a,
      getATokenForCollateral a, getStableDebtToken a, getVariableDebtToken a, getMintableERC20 b,
      getSwapinERC20 b, getIErc20Detailed b, getGenericATokenImpl a, getCollateralATokenImpl a,
      getPriceOracle a, getLendingRateOracle a, getSturdyOracle a, getBooOracle a,
      getTombOracle a, getTombFtmLPOracle a, getTombMiMaticLPOracle a, getBasedOracle a,
      getBasedMiMaticLPOracle a, getBeetsOracle a, getFBeetsOracle a, getRETHWstETHLPOracle a,
      getLidoVaultImpl a, getLidoVault a, getYearnRETHWstETHVaultImpl a,
      getYearnRETHWstETHVault a, getConvexRocketPoolETHVaultImpl a,
      getConvexRocketPoolETHVault a, getConvexFRAX3CRVVault a, getConvexSTETHVault a,
      getConvexDOLA3CRVVault a, getConvexMIM3CRVVault a, getConvexDAIUSDCUSDTSUSDVault a,
      getConvexHBTCWBTCVault a, getConvexIronBankVault a, getConvexFRAXUSDCVault a,
      getAuraDAIUSDCUSDTVault a, getConvexTUSDFRAXBPVault a, getAuraBBAUSDVault a,
      getAuraBBA3USDVault a, getYearnVaultImpl a, getYearnVault a, getYearnWETHVaultImpl a,
      getYearnWETHVault a, getYearnWBTCVaultImpl a, getYearnWBTCVault a, getYearnBOOVaultImpl a,
      getYearnBOOVault a, getTombFtmBeefyVaultImpl a, getTombFtmBeefyVault a,
      getTombMiMaticBeefyVaultImpl a, getTombMiMaticBeefyVault a,
      getBasedMiMaticBeefyVaultImpl a, getBasedMiMaticBeefyVault a, getBeefyMIM2CRVVaultImpl a,
      getBeefyMIM2CRVVault a, getYearnFBEETSVaultImpl a, getYearnFBEETSVault a,
      getYearnLINKVaultImpl a, getYearnLINKVault a, getBeefyETHVault a, getYearnCRVVaultImpl a,
      getYearnCRVVault a, getYearnSPELLVaultImpl a, getYearnSPELLVault a, getWETHMocked a,
      getMockAToken a, getMockVariableDebtToken a, getMockStableDebtToken a, getMockyvWFTM a,
      getMockyvWETH a, getMockyvWBTC a, getMockyvBOO a, getMockMooTOMBFTM a,
      getMockMooTOMBMIMATIC a, getMockMooBASEDMIMATIC a, getMockWBTCForFTM a,
      getStaticAToken s a, getERC4626Vault s a, getStableStructuredVault s a, getIWETH b,
      getProxy b, getLendingPoolAddressesProviderRegistry a]"

definition deploymentScripts ::
  "string \<Rightarrow> arg list \<Rightarrow> arg \<Rightarrow> handle \<Rightarrow> handle \<Rightarrow> (string \<times> string) \<Rightarrow> (string \<times> string \<times> string \<times> string \<times> string \<times> string) \<Rightarrow> (string \<times> string \<times> string \<times> string \<times> string \<times> string \<times> string) \<Rightarrow> bool \<Rightarrow> handle script list" where
  "deploymentScripts s args x h h' p t u v =
     [deployLendingPoolAddressesProvider s v, deployLendingPoolAddressesProviderRegistry v,
      deployLendingPoolConfiguratorImpl v, deployLendingPoolCollateralManagerImpl v,
      deploySturdyProtocolDataProvider s v, deployDefaultReserveInterestRateStrategy args v,
      deployWalletBalancerProvider v, deployUiIncentiveDataProvider v, deployVaultHelper args v,
      deploySturdyAPRDataProvider args v, deployVaultWhitelist v,
      deployInitializableAdminUpgradeabilityProxy v, deployERC4626Router v,
      deployLendingPoolConfigurator v, deployLendingPoolCollateralManager v,
      deployUiPoolDataProvider p v, deployERC4626Vault args s v, deployPriceOracle v,
      deployLendingRateOracle v, deploySturdyOracle args v, deployBooOracle v,
      deployTombOracle v, deployTombFtmLPOracle v, deployTombMiMaticLPOracle v,
      deployFBeetsOracle v, deployBeetsOracle v, deployBasedOracle v,
      deployBasedMiMaticLPOracle v, deployMIM2CRVLPOracle v, deployRETHWstETHLPOracle v,
      deployFRAX3CRVPOracle v, deploySTECRVOracle v, deployDOLA3CRVOracle v, deployMIMOracle v,
      deployMIM3CRVOracle v, deployDAIUSDCUSDTSUSDOracle v, deployHBTCWBTCOracle v,
      deployIronBankOracle v, deployFRAXUSDCOracle v, deployBALDAIUSDCUSDTOracle v,
      deployTUSDFRAXBPCOracle v, deployBALBBAUSDOracle v, deployBALBBA3USDOracle v,
      deployAURAOracle v, deployReserveLogicLibrary v, deployGenericLogic h v,
      deployValidationLogic h h' v, deployUniswapAdapterLibrary v,
      deployCurveswapAdapterLibrary v, deployBalancerswapAdapterLibrary v,
      deployUniswapAdapter2Library v, deployCurveswapAdapter2Library v,
      deployBalancerswapAdapter2Library v, deployLendingPoolImpl v, deployLendingPool v,
      deployFTMLiquidator args v, deployETHLiquidator args v, deployFRAX3CRVLevSwap args v,
      deployDAIUSDCUSDTSUSDLevSwap args v, deployMIM3CRVLevSwap args v,
      deployFRAXUSDCLevSwap args v, deployTUSDFRAXBPLevSwap args v,
      deployAURABBAUSDLevSwap args v, deployAURABBA3USDLevSwap args v,
      deployMintableERC20 args v, deployMintableDelegationERC20 args v,
      deployGenericStableDebtToken, deployGenericVariableDebtToken, deployGenericATokenImpl v,
      deployCollateralATokenImpl v, deployStableAndVariableTokensHelper args v,
      deployATokensAndRatesHelper args v, deployStableDebtToken t v, deployVariableDebtToken t v,
      deployGenericAToken u v, deployCollateralAToken u v, deployMockAggregator s v,
      deployWETHMocked v, deployMockDai x v, deployMockUSDC args v, deployMockUSDT args v,
      deployMockyvWFTM args v, deployMockyvWETH args v, deployMockyvWBTC args v,
      deployMockyvBOO args v, deployMockWETHForFTM args v, deployMockWBTCForFTM args v,
      deployMockBOOForFTM args v, deployMockMooTOMBFTM args v, deployMockMooTOMBMIMATIC args v,
      deployMockMooBASEDMIMATIC args v, deployMockYearnVault s args v,
      deployMockBeefyVault s args v, deployMockStableDebtToken t v,
      deployMockVariableDebtToken t v, deployMockAToken u v, deployLidoVaultImpl v,
      deployLidoVault v, deployYearnRETHWstETHVaultVault v, deployConvexRocketPoolETHVaultImpl v,
      deployConvexRocketPoolETHVault v, deployConvexFRAX3CRVVaultImpl v,
      deployConvexFRAX3CRVVault v, deployConvexSTETHVaultImpl v, deployConvexSTETHVault v,
      deployConvexDOLA3CRVVaultImpl v, deployConvexDOLA3CRVVault v,
      deployConvexMIM3CRVVaultImpl v, deployConvexMIM3CRVVault v,
      deployConvexDAIUSDCUSDTSUSDVaultImpl v, deployConvexDAIUSDCUSDTSUSDVault v,
      deployConvexHBTCWBTCVaultImpl v, deployConvexHBTCWBTCVault v,
      deployConvexIronBankVaultImpl v, deployConvexIronBankVault v,
      deployConvexFRAXUSDCVaultImpl v, deployConvexFRAXUSDCVault v, deployAuraDAIUSDCUSDTVault v,
      deployConvexTUSDFRAXBPVaultImpl v, deployConvexTUSDFRAXBPVault v, deployAuraBBAUSDVault v,
      deployAuraBBA3USDVaultImpl v, deployAuraBBA3USDVault v, deployYearnVaultImpl v,
      deployYearnVault v, deployYearnWETHVaultImpl v, deployYearnWETHVault v,
      deployYearnWBTCVaultImpl v, deployYearnWBTCVault v, deployYearnBOOVaultImpl v,
      deployYearnBOOVault v, deployTombFTMBeefyVaultImpl v, deployTombFTMBeefyVault v,
      deployTombMiMaticBeefyVaultImpl v, deployTombMiMaticBeefyVault v,
      deployBasedMiMaticBeefyVaultImpl v, deployBasedMiMaticBeefyVault v,
      deployBeefyMIM2CRVVaultImpl v, deployBeefyMIM2CRVVault v, deployYearnFBeetsVaultImpl v,
      deployYearnFBeetsVault v, deployYearnLINKVaultImpl v, deployYearnLINKVault v,
      deployBeefyETHVault v, deployYearnCRVVaultImpl v, deployYearnCRVVault v,
      deployYearnSPELLVaultImpl v, deployYearnSPELLVault v,
      deploySturdyIncentivesControllerImpl args v, deploySturdyTokenImpl v,
      deploySturdyIncentivesController args v, deploySturdyToken v,
      deployStableYieldDistributionImpl args v, deployLDOStableYieldDistribution,
      deployYieldDistributorAdapter args v, deployVariableYieldDistributionImpl args v,
      deployVariableYieldDistribution, deployCollateralAdapter v, deployYieldManager v,
      deployLeverageSwapManager v, deployStableStructuredVault s v]"

definition unfinishedScripts ::
  "bool \<Rightarrow> unit script list" where
  "unfinishedScripts v =
     [deployYearnRETHWstETHVaultImpl v, deployYieldManagerImpl v,
      deployLeverageSwapManagerImpl v]"

definition libraryScripts ::
  "bool \<Rightarrow> (string \<times> address) list script list" where
  "libraryScripts v =
     [deploySturdyLibraries v, deploySwapAdapterLibraries v, deploySwapAdapter2Libraries v,
      deployLidoVaultLibraries v, deployYearnRETHWstETHVaultLibraries v]"

definition vaultTaskScripts :: "string \<Rightarrow> bool \<Rightarrow> unit script list" where
  "vaultTaskScripts pool v =
     [full_deploy_lido_vault pool v, full_deploy_yearn_reth_wsteth_vault pool v,
      full_deploy_convex_rocket_pool_eth_vault pool v, full_deploy_convex_frax_3crv_vault pool v,
      full_deploy_convex_steth_vault pool v, full_deploy_convex_dola_3crv_vault pool v,
      full_deploy_convex_mim_3crv_vault pool v,
      full_deploy_convex_dai_usdc_usdt_susd_vault pool v,
      full_deploy_convex_hbtc_wbtc_vault pool v, full_deploy_convex_iron_bank_vault pool v,
      full_deploy_convex_frax_usdc_vault pool v, full_deploy_aura_dai_usdc_usdt_vault pool v,
      full_deploy_convex_tusd_fraxbp_vault pool v, full_deploy_aura_bb_a_usd_vault pool v,
      full_deploy_aura_bb_a3_usd_vault pool v, full_deploy_yearn_vault pool v,
      full_deploy_beefy_eth_vault pool v, full_deploy_yearn_weth_vault pool v,
      full_deploy_yearn_wbtc_vault pool v, full_deploy_yearn_boo_vault pool v,
      full_deploy_tomb_ftm_beefy_vault pool v, full_deploy_tomb_mimatic_beefy_vault pool v,
      full_deploy_yearn_fbeets_vault pool v, full_deploy_yearn_link_vault pool v,
      full_deploy_yearn_crv_vault pool v, full_deploy_yearn_spell_vault pool v,
      full_deploy_based_mimatic_beefy_vault pool v, full_deploy_beefy_mim2crv_vault pool v]"

definition voidIO :: "'a script \<Rightarrow> unit script" where
  "voidIO m = bindIO m (\<lambda>_. returnIO ())"

text \<open>A script of the repository, for some library \<open>bignumber.js\<close>.\<close>

inductive repository_script :: "'n bignumber_js \<Rightarrow> unit script \<Rightarrow> bool" for bn where
  getter: "m \<in> set (getterScripts a b s) \<Longrightarrow> repository_script bn (voidIO m)"
| deployment: "m \<in> set (deploymentScripts s args x h h' p t u v) \<Longrightarrow> repository_script bn (voidIO m)"
| unfinished: "m \<in> set (unfinishedScripts v) \<Longrightarrow> repository_script bn m"
| library: "m \<in> set (libraryScripts v) \<Longrightarrow> repository_script bn (voidIO m)"
| static_token: "repository_script bn (voidIO (deployStaticAToken st v))"
| mock_tokens: "m \<in> {deployAllMockTokens bn v, deployMockTokens reserves v,
    deployMockAggregators prices v, deployAllMockAggregators prices v} \<Longrightarrow>
    repository_script bn (voidIO m)"
| market_rates:
    "repository_script bn (setInitialMarketRatesInRatesOracleByHelper rates assets h admin)"
| asset_prices: "m \<in> {setInitialAssetPricesInOracle prices priced h, setAssetPricesInOracle prices priced h} \<Longrightarrow>
    repository_script bn (voidIO m)"
| init_reserves: "repository_script bn
    (voidIO (initReservesByHelper reserves tokens n1 n2 n3 n4 treasury yieldAddrs v))"
| configure_reserves: "repository_script bn (configureReservesByHelper reserves tokens h admin)"
| task: "m \<in> {full_deploy_address_provider_registry pool v, add_market_to_registry pool a v b,
    full_deploy_address_provider pool v b, full_deploy_lending_pool pool v,
    full_deploy_oracles bn pool v, full_data_provider v, full_deploy_incentives_impl v,
    full_deploy_LDO_stable_yield_distributor, full_deploy_variable_yield_distributor,
    sturdy_lendingPoolImpl v, full_deploy_liquidator v, full_deploy_vault_helper v} \<Longrightarrow>
    repository_script bn m"
| vault_task: "m \<in> set (vaultTaskScripts pool v) \<Longrightarrow> repository_script bn m"
| market_task: "m \<in> {full_initialize_lending_pool bn pool v, full_deploy_collateral_adapter bn pool v,
    full_deploy_yield_manager pool v, full_deploy_leverage_swap_manager pool v,
    full_deploy_sturdy_apr_data_provider pool v} \<Longrightarrow> repository_script bn m"
| migration: "m \<in> {verify_general bn b pool, verify_tokens bn pool, sturdy_mainnet bn v b, sturdy_ftm bn v b} \<Longrightarrow>
    repository_script bn m"
| implementation_alone: "m \<in> {sturdy_lendingPoolConfigImpl v, sturdy_lendingPoolCollateralImpl v,
    sturdy_incentiveControllerImpl v, sturdy_incentiveTokenImpl v, sturdy_lidoVaultImpl v} \<Longrightarrow>
    repository_script bn m"
| testnet_stage: "m \<in> {testnet_deploy_address_provider_registry pool v,
    testnet_deploy_address_provider pool v b, testnet_deploy_lending_pool pool v,
    testnet_deploy_oracles bn pool v, testnet_data_provider v, testnet_deploy_incentives_impl v,
    testnet_initialize_lending_pool bn pool v, testnet_deploy_collateral_adapter bn pool v} \<Longrightarrow>
    repository_script bn m"
| testnet_vault: "m \<in> {testnet_deploy_lido_vault v, testnet_deploy_yearn_vault v,
    testnet_deploy_yearn_weth_vault v, testnet_deploy_yearn_wbtc_vault v,
    testnet_deploy_yearn_boo_vault v, testnet_deploy_tomb_ftm_beefy_vault bn pool v,
    testnet_deploy_tomb_mimatic_beefy_vault bn pool v, testnet_deploy_yearn_fbeets_vault bn pool v,
    testnet_deploy_yearn_link_vault bn pool v, testnet_deploy_yearn_crv_vault bn pool v,
    testnet_deploy_yearn_spell_vault bn pool v, testnet_deploy_based_mimatic_beefy_vault bn pool v,
    testnet_deploy_beefy_eth_vault bn pool v} \<Longrightarrow> repository_script bn m"
| testnet_migration: "m \<in> {sturdy_testnet bn v b, sturdy_ftm_testnet bn v b} \<Longrightarrow>
    repository_script bn m"
| developer_task: "m \<in> {change_asset_strategy bn symbol pool, deploy_new_asset bn pool v symbol a b,
    sturdy_testnet_dai (tools :: 'n tools) v, sturdy_testnet_usdc tools v, sturdy_testnet_usdt tools v,
    sturdy_ftm_mockVaults, wrap_ftm tools s, verify_sc a args, voidIO (get_param_for_new_vault bn pool v symbol),
    voidIO (print_config pool a), voidIO (print_config_fork bn)} \<Longrightarrow> repository_script bn m"

context task_steps
begin

lemma safe_void: "safe hs m \<Longrightarrow> safe hs (voidIO m)"
  unfolding voidIO_def by (intro keeps_rules)

lemma safe_script_lists:
  "list_all (safe hs) (getterScripts a b s)"
  "list_all (safe hs) (deploymentScripts s args x h h' p t u v)"
  "list_all (safe hs) (unfinishedScripts v)"
  "list_all (safe hs) (libraryScripts v)"
  "list_all (safe hs) (vaultTaskScripts pool v)"
  unfolding getterScripts_def deploymentScripts_def unfinishedScripts_def libraryScripts_def
    vaultTaskScripts_def list.pred_inject(2)
  by (intro conjI list.pred_inject(1) script_keeps)+

lemma safe_script_sets:
  "m \<in> set (getterScripts a b s) \<Longrightarrow> safe hs m"
  "m \<in> set (deploymentScripts s args x h h' p t u v) \<Longrightarrow> safe hs m"
  "k \<in> set (unfinishedScripts v) \<Longrightarrow> safe hs k"
  "l \<in> set (libraryScripts v) \<Longrightarrow> safe hs l"
  "k \<in> set (vaultTaskScripts pool v) \<Longrightarrow> safe hs k"
  using safe_script_lists(1) [of hs a b s] safe_script_lists(2) [of hs s args x h h' p t u v]
    safe_script_lists(3) [of hs v] safe_script_lists(4) [of hs v] safe_script_lists(5) [of hs pool v]
  unfolding list_all_iff by blast+

lemma safe_repository_script: "repository_script bn m \<Longrightarrow> safe hs m"
proof (induction rule: repository_script.induct)
  case getter then show ?case by (intro safe_void safe_script_sets(1))
next
  case deployment then show ?case by (intro safe_void safe_script_sets(2))
next
  case unfinished then show ?case by (rule safe_script_sets(3))
next
  case library then show ?case by (intro safe_void safe_script_sets(4))
next
  case vault_task then show ?case by (rule safe_script_sets(5))
qed (auto intro!: safe_void script_keeps)

end

section \<open>Sessions\<close>

inductive session :: "'n bignumber_js \<Rightarrow> world \<Rightarrow> world \<Rightarrow> bool" for bn where
  session_refl: "session bn w w"
| session_run: "repository_script bn m \<Longrightarrow> m w = (r, w1) \<Longrightarrow> session bn w1 w2 \<Longrightarrow> session bn w w2"

lemma repository_script_frame:
  assumes "repository_script bn m" and "m w = (r, w')"
  shows "frame_step w w'"
  using keepsD [OF frame.safe_repository_script [OF assms(1), of "[]"] _ _ assms(2)] by simp

lemma repository_script_chain:
  assumes "repository_script bn m" and "m w = (r, w')" and "wf_world w"
  shows "wf_world w' \<and> chain_grows w w'"
  using keepsD [OF chain.safe_repository_script [OF assms(1), of "[]"] assms(3) _ assms(2)] by simp

lemma session_frame: "session bn w w' \<Longrightarrow> frame_step w w'"
  by (induction rule: session.induct)
    (auto intro: frame_step_simps frame_step_trans repository_script_frame)

lemma session_chain: "session bn w w' \<Longrightarrow> wf_world w \<Longrightarrow> wf_world w' \<and> chain_grows w w'"
  by (induction rule: session.induct)
    (blast intro: chain_grows_refl chain_grows_trans dest: repository_script_chain)+

section \<open>Properties\<close>

lemma sample_session:
  "session decimal_js (sampleWorld ''main'')
     (snd (voidIO (deployLendingPoolAddressesProviderRegistry False) (sampleWorld ''main'')))"
proof (rule session_run)
  show "repository_script decimal_js (voidIO (deployLendingPoolAddressesProviderRegistry False))"
    by (rule repository_script.deployment [where v = False]) (simp add: deploymentScripts_def)
qed (auto intro: session_refl prod.collapse [symmetric])

text \<open>C1. No session, however many scripts it runs and whether they succeed or fail, changes the
  runtime environment or the registry entries of a network other than the current one.\<close>

theorem session_isolates_networks:
  assumes "session bn w w'"
  shows "same_environment w w' \<and> (\<forall>key network. network \<noteq> network_name w \<longrightarrow>
    json_db w' key network = json_db w key network)"
  using session_frame [OF assms] by (simp add: frame_step_def other_networks_kept_def)

theorem session_isolates_networks_witness:
  "json_db (snd (voidIO (deployLendingPoolAddressesProviderRegistry False) (sampleWorld ''main'')))
     ''LendingPoolAddressesProvider'' ''ftm'' = None"
  using session_isolates_networks [OF sample_session] by (simp add: sampleWorld_def)



end
