(* ===== verification/ProxyDeployment.thy ===== *)
theory ProxyDeployment
  imports Effects
begin

text \<open>
  The contract all deployments behind a proxy share, as an abstract specification
  (\<open>deployBehindProxy\<close>, with the data of one contract in a \<open>proxy_spec\<close>), the proof that each of
  the repository's functions is an instance of it, and what a run of it leaves on the chain
  and in the registry.
\<close>

section \<open>Specification\<close>

datatype setting =
    Configured string "string jsobj"
  | FromReserveAssets string "string jsobj jsobj" string

fun settingId :: "setting \<Rightarrow> string" where
  "settingId (Configured i param) = i"
| "settingId (FromReserveAssets i param symbol) = i"

fun applySetting :: "handle \<Rightarrow> setting \<Rightarrow> unit script" where
  "applySetting p (Configured i param) = setConfiguredAddress p i param"
| "applySetting p (FromReserveAssets i param symbol) = setReserveAssetAddress p i param symbol"

fun applySettings :: "handle \<Rightarrow> setting list \<Rightarrow> unit script" where
  "applySettings p [] = returnIO ()"
| "applySettings p (s # ss) = thenIO (applySetting p s) (applySettings p ss)"

record proxy_spec =
  ps_libraries :: "bool \<Rightarrow> (string \<times> address) list script"
  ps_factory :: string
  ps_implKey :: string
  ps_initialize :: bool
  ps_id :: string
  ps_settings :: "setting list"
  ps_key :: string

definition deployBehindProxy :: "proxy_spec \<Rightarrow> bool \<Rightarrow> handle script" where
  "deployBehindProxy ps verify =
     bindIO (ps_libraries ps verify) (\<lambda>libs.
     bindIO (deployAndSave (ps_factory ps) libs (ps_implKey ps) [] verify) (\<lambda>impl.
     bindIO (getLendingPoolAddressesProvider None) (\<lambda>provider.
     thenIO (if ps_initialize ps then initialize impl (h_address provider) else returnIO ()) (
     thenIO (setAddressAsProxy provider (ps_id ps) (h_address impl)) (
     thenIO (applySettings provider (ps_settings ps)) (
     bindIO (getAddress provider (ps_id ps)) (\<lambda>proxy.
     thenIO (insertContractAddressInDb (ps_key ps) proxy) (
     connectOrRegistered (ps_factory ps) None (ps_key ps)))))))))"

definition proxiedContracts :: "((bool \<Rightarrow> handle script) \<times> proxy_spec) list" where
  "proxiedContracts =
     [(deployLidoVault,
       \<lparr>ps_libraries = deployLidoVaultLibraries, ps_factory = ''LidoVault'',
        ps_implKey = ''LidoVaultImpl'', ps_initialize = True,
        ps_id = ''LIDO_VAULT'',
        ps_settings = [Configured ''LIDO'' (Lido SturdyConfig),
           Configured ''STETH_ETH_POOL'' (CurveswapLidoPool SturdyConfig),
           Configured ''uniswapRouter'' (ISturdyConfiguration.UniswapRouter SturdyConfig),
           Configured ''WETH'' (WETH SturdyConfig)],
        ps_key = ''LidoVault''\<rparr>),
      (deployYearnRETHWstETHVaultVault,
       \<lparr>ps_libraries = deployYearnRETHWstETHVaultLibraries, ps_factory = ''YearnRETHWstETHVault'',
        ps_implKey = ''YearnRETHWstETHVaultImpl'', ps_initialize = True,
        ps_id = ''YEARN_RETH_WSTETH_VAULT'',
        ps_settings = [Configured ''YVRETH_WSTETH'' (YearnRETHWstETHVault SturdyConfig),
           Configured ''RETH_WSTETH'' (RETH_WSTETH_LP SturdyConfig),
           Configured ''WSTETH'' (WSTETH SturdyConfig)],
        ps_key = ''YearnRETHWstETHVault''\<rparr>),
      (deployConvexRocketPoolETHVault,
       \<lparr>ps_libraries = (\<lambda>_. returnIO []), ps_factory = ''ConvexCurveLPVault'',
        ps_implKey = ''ConvexRocketPoolETHVaulttImpl'', ps_initialize = True,
        ps_id = ''CONVEX_ROCKET_POOL_ETH_VAULT'',
        ps_settings = [Configured ''RETH_WSTETH'' (RETH_WSTETH_LP SturdyConfig),
           Configured ''WSTETH'' (WSTETH SturdyConfig),
           Configured ''CRV'' (ISturdyConfiguration.CRV SturdyConfig),
           Configured ''CVX'' (CVX SturdyConfig)],
        ps_key = ''ConvexRocketPoolETHVault''\<rparr>),
      (deployConvexFRAX3CRVVault,
       \<lparr>ps_libraries = (\<lambda>_. returnIO []), ps_factory = ''ConvexCurveLPVault'',
        ps_implKey = ''ConvexFRAX3CRVVaultImpl'', ps_initialize = True,
        ps_id = ''CONVEX_FRAX_3CRV_VAULT'',
        ps_settings = [Configured ''CRV'' (ISturdyConfiguration.CRV SturdyConfig),
           Configured ''CVX'' (CVX SturdyConfig)],
        ps_key = ''ConvexFRAX3CRVVault''\<rparr>),
      (deployConvexSTETHVault,
       \<lparr>ps_libraries = (\<lambda>_. returnIO []), ps_factory = ''ConvexCurveLPVault'',
        ps_implKey = ''ConvexSTETHVaultImpl'', ps_initialize = True,
        ps_id = ''CONVEX_STETH_VAULT'',
        ps_settings = [],
        ps_key = ''ConvexSTETHVault''\<rparr>),
      (deployConvexDOLA3CRVVault,
       \<lparr>ps_libraries = (\<lambda>_. returnIO []), ps_factory = ''ConvexCurveLPVault'',
        ps_implKey = ''ConvexDOLA3CRVVaultImpl'', ps_initialize = True,
        ps_id = ''CONVEX_DOLA_3CRV_VAULT'',
        ps_settings = [],
        ps_key = ''ConvexDOLA3CRVVault''\<rparr>),
      (deployConvexMIM3CRVVault,
       \<lparr>ps_libraries = (\<lambda>_. returnIO []), ps_factory = ''ConvexCurveLPVault'',
        ps_implKey = ''ConvexMIM3CRVVaultImpl'', ps_initialize = True,
        ps_id = ''CONVEX_MIM_3CRV_VAULT'',
        ps_settings = [],
        ps_key = ''ConvexMIM3CRVVault''\<rparr>),
      (deployConvexDAIUSDCUSDTSUSDVault,
       \<lparr>ps_libraries = (\<lambda>_. returnIO []), ps_factory = ''ConvexCurveLPVault'',
        ps_implKey = ''ConvexDAIUSDCUSDTSUSDVaultImpl'', ps_initialize = True,
        ps_id = ''CONVEX_DAI_USDC_USDT_SUSD_VAULT'',
        ps_settings = [],
        ps_key = ''ConvexDAIUSDCUSDTSUSDVault''\<rparr>),
      (deployConvexHBTCWBTCVault,
       \<lparr>ps_libraries = (\<lambda>_. returnIO []), ps_factory = ''ConvexCurveLPVault'',
        ps_implKey = ''ConvexHBTCWBTCVaultImpl'', ps_initialize = True,
        ps_id = ''CONVEX_HBTC_WBTC_VAULT'',
        ps_settings = [],
        ps_key = ''ConvexHBTCWBTCVault''\<rparr>),
      (deployConvexIronBankVault,
       \<lparr>ps_libraries = (\<lambda>_. returnIO []), ps_factory = ''ConvexCurveLPVault'',
        ps_implKey = ''ConvexIronBankVaultImpl'', ps_initialize = True,
        ps_id = ''CONVEX_IRON_BANK_VAULT'',
        ps_settings = [],
        ps_key = ''ConvexIronBankVault''\<rparr>),
      (deployConvexFRAXUSDCVault,
       \<lparr>ps_libraries = (\<lambda>_. returnIO []), ps_factory = ''ConvexCurveLPVault'',
        ps_implKey = ''ConvexFRAXUSDCVaultImpl'', ps_initialize = True,
        ps_id = ''CONVEX_FRAX_USDC_VAULT'',
        ps_settings = [],
        ps_key = ''ConvexFRAXUSDCVault''\<rparr>),
      (deployAuraDAIUSDCUSDTVault,
       \<lparr>ps_libraries = (\<lambda>_. returnIO []), ps_factory = ''AuraBalancerLPVault'',
        ps_implKey = ''AuraDAIUSDCUSDTVaultImpl'', ps_initialize = True,
        ps_id = ''AURA_DAI_USDC_USDT_VAULT'',
        ps_settings = [],
        ps_key = ''AuraDAIUSDCUSDTVault''\<rparr>),
      (deployConvexTUSDFRAXBPVault,
       \<lparr>ps_libraries = (\<lambda>_. returnIO []), ps_factory = ''ConvexCurveLPVault2'',
        ps_implKey = ''ConvexTUSDFRAXBPVaultImpl'', ps_initialize = True,
        ps_id = ''CONVEX_TUSD_FRAXBP_VAULT'',
        ps_settings = [],
        ps_key = ''ConvexTUSDFRAXBPVault''\<rparr>),
      (deployAuraBBAUSDVault,
       \<lparr>ps_libraries = (\<lambda>_. returnIO []), ps_factory = ''AuraBalancerLPVault'',
        ps_implKey = ''AuraBBAUSDVaultImpl'', ps_initialize = True,
        ps_id = ''AURA_BB_A_USD_VAULT'',
        ps_settings = [],
        ps_key = ''AuraBBAUSDVault''\<rparr>),
      (deployAuraBBA3USDVault,
       \<lparr>ps_libraries = (\<lambda>_. returnIO []), ps_factory = ''AuraBalancerLPVault'',
        ps_implKey = ''AuraBBA3USDVaultImpl'', ps_initialize = True,
        ps_id = ''AURA_BB_A3_USD_VAULT'',
        ps_settings = [],
        ps_key = ''AuraBBA3USDVault''\<rparr>),
      (deployYearnVault,
       \<lparr>ps_libraries = (\<lambda>_. returnIO []), ps_factory = ''YearnVault'',
        ps_implKey = ''YearnVaultImpl'', ps_initialize = False,
        ps_id = ''YEARN_VAULT'',
        ps_settings = [Configured ''YVWFTM'' (YearnVaultFTM FantomConfig),
           Configured ''uniswapRouter'' (IFantomConfiguration.UniswapRouter FantomConfig),
           Configured ''WFTM'' (WFTM FantomConfig)],
        ps_key = ''YearnVault''\<rparr>),
      (deployYearnWETHVault,
       \<lparr>ps_libraries = (\<lambda>_. returnIO []), ps_factory = ''YearnWETHVault'',
        ps_implKey = ''YearnWETHVaultImpl'', ps_initialize = False,
        ps_id = ''YEARN_WETH_VAULT'',
        ps_settings = [Configured ''YVWETH'' (YearnWETHVaultFTM FantomConfig),
           Configured ''WETH'' (WETH FantomConfig)],
        ps_key = ''YearnWETHVault''\<rparr>),
      (deployYearnWBTCVault,
       \<lparr>ps_libraries = (\<lambda>_. returnIO []), ps_factory = ''YearnWBTCVault'',
        ps_implKey = ''YearnWBTCVaultImpl'', ps_initialize = False,
        ps_id = ''YEARN_WBTC_VAULT'',
        ps_settings = [Configured ''YVWBTC'' (YearnWBTCVaultFTM FantomConfig),
           Configured ''WBTC'' (WBTC FantomConfig)],
        ps_key = ''YearnWBTCVault''\<rparr>),
      (deployYearnBOOVault,
       \<lparr>ps_libraries = (\<lambda>_. returnIO []), ps_factory = ''YearnBOOVault'',
        ps_implKey = ''YearnBOOVaultImpl'', ps_initialize = False,
        ps_id = ''YEARN_BOO_VAULT'',
        ps_settings = [Configured ''YVBOO'' (YearnBOOVaultFTM FantomConfig),
           Configured ''BOO'' (BOO FantomConfig)],
        ps_key = ''YearnBOOVault''\<rparr>),
      (deployTombFTMBeefyVault,
       \<lparr>ps_libraries = (\<lambda>_. returnIO []), ps_factory = ''TombFtmBeefyVault'',
        ps_implKey = ''TombFtmBeefyVaultImpl'', ps_initialize = False,
        ps_id = ''BEEFY_TOMB_FTM_VAULT'',
        ps_settings = [Configured ''mooTombTOMB-FTM'' (BeefyVaultTOMB_FTM FantomConfig),
           Configured ''TOMB_FTM_LP'' (TOMB_FTM_LP FantomConfig),
           Configured ''TOMB'' (TOMB FantomConfig)],
        ps_key = ''TombFtmBeefyVault''\<rparr>),
      (deployTombMiMaticBeefyVault,
       \<lparr>ps_libraries = (\<lambda>_. returnIO []), ps_factory = ''TombMimaticBeefyVault'',
        ps_implKey = ''TombMiMaticBeefyVaultImpl'', ps_initialize = False,
        ps_id = ''BEEFY_TOMB_MIMATIC_VAULT'',
        ps_settings = [Configured ''mooTombTOMB-MIMATIC'' (BeefyVaultTOMB_MIMATIC FantomConfig),
           Configured ''TOMB_MIMATIC_LP'' (TOMB_MIMATIC_LP FantomConfig),
           Configured ''MIMATIC'' (MIMATIC FantomConfig),
           FromReserveAssets ''USDC'' (ReserveAssets FantomConfig) ''USDC'',
           Configured ''tombSwapRouter'' (TombSwapRouter FantomConfig)],
        ps_key = ''TombMiMaticBeefyVault''\<rparr>),
      (deployBasedMiMaticBeefyVault,
       \<lparr>ps_libraries = (\<lambda>_. returnIO []), ps_factory = ''BasedMimaticBeefyVault'',
        ps_implKey = ''BasedMiMaticBeefyVaultImpl'', ps_initialize = False,
        ps_id = ''BEEFY_BASED_MIMATIC_VAULT'',
        ps_settings = [Configured ''mooTombBASED-MIMATIC'' (BeefyVaultBASED_MIMATIC FantomConfig),
           Configured ''BASED_MIMATIC_LP'' (BASED_MIMATIC_LP FantomConfig),
           Configured ''BASED'' (BASED FantomConfig)],
        ps_key = ''BasedMiMaticBeefyVault''\<rparr>),
      (deployBeefyMIM2CRVVault,
       \<lparr>ps_libraries = (\<lambda>_. returnIO []), ps_factory = ''BeefyMIM2CRVVault'',
        ps_implKey = ''BeefyMIM2CRVVaultImpl'', ps_initialize = False,
        ps_id = ''BEEFY_MIM2CRV_VAULT'',
        ps_settings = [Configured ''MOOMIM2CRV'' (BeefyMIM2CRVVault FantomConfig),
           Configured ''MIM_2CRV_LP'' (MIM_2CRV_LP FantomConfig)],
        ps_key = ''BeefyMIM2CRVVault''\<rparr>),
      (deployYearnFBeetsVault,
       \<lparr>ps_libraries = (\<lambda>_. returnIO []), ps_factory = ''YearnFBEETSVault'',
        ps_implKey = ''YearnFBEETSVaultImpl'', ps_initialize = False,
        ps_id = ''YEARN_FBEETS_VAULT'',
        ps_settings = [Configured ''YVFBEETS'' (YearnFBEETSVaultFTM FantomConfig),
           Configured ''fBEETS'' (fBEETS FantomConfig),
           Configured ''BEETS'' (BEETS FantomConfig)],
        ps_key = ''YearnFBEETSVault''\<rparr>),
      (deployYearnLINKVault,
       \<lparr>ps_libraries = (\<lambda>_. returnIO []), ps_factory = ''YearnLINKVault'',
        ps_implKey = ''YearnLINKVaultImpl'', ps_initialize = False,
        ps_id = ''YEARN_LINK_VAULT'',
        ps_settings = [Configured ''YVLINK'' (YearnLINKVaultFTM FantomConfig),
           Configured ''LINK'' (LINK FantomConfig)],
        ps_key = ''YearnLINKVault''\<rparr>),
      (deployBeefyETHVault,
       \<lparr>ps_libraries = (\<lambda>_. returnIO []), ps_factory = ''BeefyETHVault'',
        ps_implKey = ''BeefyETHVaultImpl'', ps_initialize = False,
        ps_id = ''BEEFY_ETH_VAULT'',
        ps_settings = [Configured ''MOOWETH'' (BeefyETHVault FantomConfig),
           Configured ''WETH'' (WETH FantomConfig)],
        ps_key = ''BeefyETHVault''\<rparr>),
      (deployYearnCRVVault,
       \<lparr>ps_libraries = (\<lambda>_. returnIO []), ps_factory = ''YearnCRVVault'',
        ps_implKey = ''YearnCRVVaultImpl'', ps_initialize = False,
        ps_id = ''YEARN_CRV_VAULT'',
        ps_settings = [Configured ''YVCRV'' (YearnCRVVaultFTM FantomConfig),
           Configured ''CRV'' (IFantomConfiguration.CRV FantomConfig)],
        ps_key = ''YearnCRVVault''\<rparr>),
      (deployYearnSPELLVault,
       \<lparr>ps_libraries = (\<lambda>_. returnIO []), ps_factory = ''YearnSPELLVault'',
        ps_implKey = ''YearnSPELLVaultImpl'', ps_initialize = False,
        ps_id = ''YEARN_SPELL_VAULT'',
        ps_settings = [Configured ''YVSPELL'' (YearnSPELLVaultFTM FantomConfig),
           Configured ''SPELL'' (SPELL FantomConfig)],
        ps_key = ''YearnSPELLVault''\<rparr>),
      (deployCollateralAdapter,
       \<lparr>ps_libraries = (\<lambda>_. returnIO []), ps_factory = ''CollateralAdapter'',
        ps_implKey = ''CollateralAdapterImpl'', ps_initialize = True,
        ps_id = ''COLLATERAL_ADAPTER'',
        ps_settings = [],
        ps_key = ''CollateralAdapter''\<rparr>),
      (deployYieldManager,
       \<lparr>ps_libraries = deploySwapAdapterLibraries, ps_factory = ''YieldManager'',
        ps_implKey = ''YieldManagerImpl'', ps_initialize = True,
        ps_id = ''YIELD_MANAGER'',
        ps_settings = [],
        ps_key = ''YieldManager''\<rparr>),
      (deployLeverageSwapManager,
       \<lparr>ps_libraries = (\<lambda>_. returnIO []), ps_factory = ''LeverageSwapManager'',
        ps_implKey = ''LeverageSwapManagerImpl'', ps_initialize = True,
        ps_id = ''LEVERAGE_SWAP_MANAGER'',
        ps_settings = [],
        ps_key = ''LeverageSwapManager''\<rparr>)]"

section \<open>Refinement\<close>

lemma proxied_contracts_refine:
  "list_all (\<lambda>(deploy, ps). \<forall>v. deploy v = deployBehindProxy ps v) proxiedContracts"
  unfolding proxiedContracts_def list.pred_inject(2) prod.case deployBehindProxy_def
    proxy_spec.select_convs applySettings.simps applySetting.simps if_True if_False
    thenIO_assoc thenIO_return_left bindIO_return_left
    deployLidoVault_def deployYearnRETHWstETHVaultVault_def
    deployConvexRocketPoolETHVault_def deployConvexFRAX3CRVVault_def
    deployConvexSTETHVault_def deployConvexDOLA3CRVVault_def deployConvexMIM3CRVVault_def
    deployConvexDAIUSDCUSDTSUSDVault_def deployConvexHBTCWBTCVault_def
    deployConvexIronBankVault_def deployConvexFRAXUSDCVault_def
    deployAuraDAIUSDCUSDTVault_def deployConvexTUSDFRAXBPVault_def deployAuraBBAUSDVault_def
    deployAuraBBA3USDVault_def deployYearnVault_def deployYearnWETHVault_def
    deployYearnWBTCVault_def deployYearnBOOVault_def deployTombFTMBeefyVault_def
    deployTombMiMaticBeefyVault_def deployBasedMiMaticBeefyVault_def
    deployBeefyMIM2CRVVault_def deployYearnFBeetsVault_def deployYearnLINKVault_def
    deployBeefyETHVault_def deployYearnCRVVault_def deployYearnSPELLVault_def
    deployCollateralAdapter_def deployYieldManager_def deployLeverageSwapManager_def
    getLidoVault_def getYearnRETHWstETHVault_def getConvexRocketPoolETHVault_def
    getConvexFRAX3CRVVault_def getConvexSTETHVault_def getConvexDOLA3CRVVault_def
    getConvexMIM3CRVVault_def getConvexDAIUSDCUSDTSUSDVault_def getConvexHBTCWBTCVault_def
    getConvexIronBankVault_def getConvexFRAXUSDCVault_def getAuraDAIUSDCUSDTVault_def
    getConvexTUSDFRAXBPVault_def getAuraBBAUSDVault_def getAuraBBA3USDVault_def
    getYearnVault_def getYearnWETHVault_def getYearnWBTCVault_def getYearnBOOVault_def
    getTombFtmBeefyVault_def getTombMiMaticBeefyVault_def getBasedMiMaticBeefyVault_def
    getBeefyMIM2CRVVault_def getYearnFBEETSVault_def getYearnLINKVault_def
    getBeefyETHVault_def getYearnCRVVault_def getYearnSPELLVault_def
    getCollateralAdapter_def getYieldManager_def getLeverageSwapManager_def
  by (intro conjI allI refl list.pred_inject(1))

section \<open>Effect of the provider calls\<close>

lemma providerTx_Inr:
  assumes "providerTx h body w = (Inr (), w')" and "providers w (h_address h) \<noteq> None"
    and "contracts w (h_address h) \<noteq> None"
  obtains s where "h_signer h = Some s" and "body (h_address h) s w = (Inr (), w')"
  using assms
  by (auto simp: providerTx_def senderOf_def transaction_def io_run split: option.splits prod.splits sum.splits)

lemma setAddress_Inr:
  assumes "setAddress h i v w = (Inr (), w')" and "providers w (h_address h) \<noteq> None"
    and "contracts w (h_address h) \<noteq> None"
  obtains a where "v = Some a" and "w' = put_address (h_address h) i a w"
  using assms
  by (auto simp: setAddress_def formatBytes32String_def addressArg_def io_run sol_setAddress_Inr
      elim!: providerTx_Inr split: if_splits option.splits)

lemma setAddressAsProxy_Inr:
  assumes "setAddressAsProxy h i impl w = (Inr (), w')" and "providers w (h_address h) \<noteq> None"
    and "contracts w (h_address h) \<noteq> None"
  shows "updateImpl (h_address h) i impl w = (Inr (), w')"
  using assms
  by (auto simp: setAddressAsProxy_def formatBytes32String_def addressArg_def io_run
      sol_setAddressAsProxy_Inr elim!: providerTx_Inr split: if_splits option.splits)

text \<open>What the settings may change: entries of the provider other than the proxy's.\<close>

definition only_settings :: "address \<Rightarrow> string set \<Rightarrow> world \<Rightarrow> world \<Rightarrow> bool" where
  "only_settings p ids w w' \<longleftrightarrow>
     contracts w' = contracts w \<and> json_db w' = json_db w \<and> network_name w' = network_name w \<and>
     (\<forall>q. providers w p = Some q \<longrightarrow> (\<exists>q'. providers w' p = Some q' \<and> owner q' = owner q \<and>
        (\<forall>i. i \<notin> ids \<longrightarrow> addresses q' i = addresses q i)))"

lemma only_settings_refl: "only_settings p ids w w"
  by (simp add: only_settings_def)

lemma only_settings_trans:
  assumes "only_settings p ids w1 w2" and "only_settings p ids' w2 w3"
  shows "only_settings p (ids \<union> ids') w1 w3"
  unfolding only_settings_def
proof (intro conjI allI impI)
  fix q assume q: "providers w1 p = Some q"
  with assms(1) obtain q2 where q2: "providers w2 p = Some q2" "owner q2 = owner q"
    "\<And>i. i \<notin> ids \<Longrightarrow> addresses q2 i = addresses q i" unfolding only_settings_def by blast
  with assms(2) obtain q3 where q3: "providers w3 p = Some q3" "owner q3 = owner q2"
    "\<And>i. i \<notin> ids' \<Longrightarrow> addresses q3 i = addresses q2 i" unfolding only_settings_def by blast
  show "\<exists>q'. providers w3 p = Some q' \<and> owner q' = owner q \<and>
      (\<forall>i. i \<notin> ids \<union> ids' \<longrightarrow> addresses q' i = addresses q i)"
    using q2 q3 by auto
qed (use assms in \<open>simp_all add: only_settings_def\<close>)

lemma applySetting_only:
  assumes run: "applySetting h s w = (Inr (), w')" and p: "providers w (h_address h) \<noteq> None"
    and c: "contracts w (h_address h) \<noteq> None"
  shows "only_settings (h_address h) {settingId s} w w'"
proof -
  from run obtain v where "setAddress h (settingId s) v w = (Inr (), w')"
    by (cases s) (auto simp: setConfiguredAddress_def setReserveAssetAddress_def paramHere_def io_run
        split: option.splits)
  from this p c obtain a where "w' = put_address (h_address h) (settingId s) a w"
    by (rule setAddress_Inr)
  then show ?thesis by (auto simp: only_settings_def put_address_def)
qed

lemma applySettings_only:
  "applySettings h ss w = (Inr (), w') \<Longrightarrow> providers w (h_address h) \<noteq> None \<Longrightarrow>
   contracts w (h_address h) \<noteq> None \<Longrightarrow>
   only_settings (h_address h) (settingId ` set ss) w w'"
proof (induction ss arbitrary: w)
  case Nil
  then show ?case by (simp add: returnIO_run only_settings_refl)
next
  case (Cons s ss)
  from Cons.prems(1) obtain w1 where 1: "applySetting h s w = (Inr (), w1)"
    and 2: "applySettings h ss w1 = (Inr (), w')" by (auto elim!: thenIO_InrE)
  from applySetting_only [OF 1 Cons.prems(2,3)]
  have o1: "only_settings (h_address h) {settingId s} w w1" .
  with Cons.prems(2,3) have "providers w1 (h_address h) \<noteq> None" "contracts w1 (h_address h) \<noteq> None"
    by (auto simp: only_settings_def)
  from only_settings_trans [OF o1 Cons.IH [OF 2 this]] show ?case by simp
qed

text \<open>A call to an account that is not a provider either fails or does nothing.\<close>

lemma providerTx_none:
  "providerTx h body w = (Inr (), w') \<Longrightarrow> providers w (h_address h) = None \<Longrightarrow> w' = w"
  by (auto simp: providerTx_def senderOf_def revert_def io_run split: option.splits if_splits)

lemma setAddress_none:
  "setAddress h i v w = (Inr (), w') \<Longrightarrow> providers w (h_address h) = None \<Longrightarrow> w' = w"
  by (auto simp: setAddress_def formatBytes32String_def addressArg_def io_run
      dest: providerTx_none split: if_splits option.splits)

lemma setAddressAsProxy_none:
  "setAddressAsProxy h i impl w = (Inr (), w') \<Longrightarrow> providers w (h_address h) = None \<Longrightarrow> w' = w"
  by (auto simp: setAddressAsProxy_def formatBytes32String_def addressArg_def io_run
      dest: providerTx_none split: if_splits option.splits)

lemma applySettings_none:
  "applySettings h ss w = (Inr (), w') \<Longrightarrow> providers w (h_address h) = None \<Longrightarrow> w' = w"
proof (induction ss arbitrary: w)
  case (Cons s ss)
  from Cons.prems(1) obtain w1 where 1: "applySetting h s w = (Inr (), w1)"
    and 2: "applySettings h ss w1 = (Inr (), w')" by (auto elim!: thenIO_InrE)
  from 1 obtain v where "setAddress h (settingId s) v w = (Inr (), w1)"
    by (cases s) (auto simp: setConfiguredAddress_def setReserveAssetAddress_def paramHere_def io_run
        split: option.splits)
  from setAddress_none [OF this Cons.prems(2)] have "w1 = w" .
  with 2 Cons show ?case by simp
qed (simp add: returnIO_run)

section \<open>Effect of installing an implementation\<close>

definition proxied :: "address \<Rightarrow> string \<Rightarrow> address \<Rightarrow> address \<Rightarrow> world \<Rightarrow> bool" where
  "proxied p i proxy impl w \<longleftrightarrow>
     (\<exists>q c. providers w p = Some q \<and> addresses q i = proxy \<and> proxy \<noteq> ZERO_ADDRESS \<and>
        contracts w proxy = Some c \<and> code c = proxyCode \<and> proxy_admin c = p \<and>
        implementation c = impl \<and> lastInitializedRevision c = 1)"

lemma proxied_simps:
  assumes "proxied p i proxy impl w"
  shows "proxy \<noteq> ZERO_ADDRESS" and "providers w p \<noteq> None" and "contracts w proxy \<noteq> None"
    and "sol_getAddress p i w = proxy"
  using assms by (auto simp: proxied_def sol_getAddress_def)

lemma installed_contracts:
  assumes "installed proxy impl prov w w'" and "contracts w proxy = Some c"
  shows "contracts w' = (contracts w)(proxy \<mapsto> c\<lparr>implementation := impl, lastInitializedRevision := 1\<rparr>)"
    and "providers w' = providers w" and "json_db w' = json_db w" and "network_name w' = network_name w"
    and "contracts w impl \<noteq> None"
proof -
  from assms(1) obtain r where r: "getRevision (codeAt w impl) = Some r" and impl: "contracts w impl \<noteq> None"
    and w': "w' = update_contract proxy (\<lambda>c. c\<lparr>implementation := impl, lastInitializedRevision := r\<rparr>) w"
    by (auto simp: installed_def)
  from getRevision_Some [OF r] w' assms(2)
  show "contracts w' = (contracts w)(proxy \<mapsto> c\<lparr>implementation := impl, lastInitializedRevision := 1\<rparr>)"
    and "providers w' = providers w" and "json_db w' = json_db w" and "network_name w' = network_name w"
    by simp_all
  from impl show "contracts w impl \<noteq> None" .
qed

lemma updateImpl_proxied:
  assumes w: "wf_world w" and p: "providers w p = Some q"
    and run: "updateImpl p i impl w = (Inr (), w')"
  obtains proxy where "proxied p i proxy impl w'" and "\<And>a. a \<noteq> proxy \<Longrightarrow> contracts w' a = contracts w a"
    and "json_db w' = json_db w" and "network_name w' = network_name w"
    and "proxy = (if addresses q i = ZERO_ADDRESS then next_address w else addresses q i)"
proof (cases "sol_getAddress p i w = ZERO_ADDRESS")
  case True
  let ?w1 = "create_contract (proxy_contract p) w" and ?a = "next_address w"
  from True run obtain w2 where inst: "installed ?a impl p ?w1 w2" and w': "w' = put_address p i ?a w2"
    by (auto simp: updateImpl_Inr)
  note w2 = installed_contracts [OF inst, of "proxy_contract p", simplified]
  show thesis
  proof (rule that)
    show "proxied p i ?a impl w'"
      using p next_address_fresh(3) [OF w]
      by (simp add: proxied_def w' put_address_def w2 proxy_contract_def new_contract_def)
    show "?a = (if addresses q i = ZERO_ADDRESS then next_address w else addresses q i)"
      using True p by (simp add: sol_getAddress_def)
  qed (simp_all add: w' put_address_def w2)
next
  case False
  let ?a = "sol_getAddress p i w"
  from False run obtain c where c: "contracts w ?a = Some c" "code c = proxyCode" "proxy_admin c = p"
    and inst: "installed ?a impl p w w'"
    by (auto simp: updateImpl_Inr)
  note w' = installed_contracts [OF inst c(1)]
  show thesis
  proof (rule that)
    show "proxied p i ?a impl w'"
      using p False c by (simp add: proxied_def w' sol_getAddress_def)
    show "?a = (if addresses q i = ZERO_ADDRESS then next_address w else addresses q i)"
      using False p by (simp add: sol_getAddress_def)
  qed (simp_all add: w')
qed

lemma proxied_only_settings:
  assumes "proxied p i proxy impl w" and "only_settings p ids w w'" and "i \<notin> ids"
  shows "proxied p i proxy impl w'"
  using assms by (fastforce simp: proxied_def only_settings_def)

section \<open>What a deployment behind a proxy leaves\<close>

text \<open>
  The registry names the proxy the provider knows under the contract's id; the proxy belongs to
  the provider, is initialized, and delegates to the implementation registered beside it,
  whose code is the contract's.
\<close>

definition proxy_live :: "proxy_spec \<Rightarrow> handle \<Rightarrow> world \<Rightarrow> bool" where
  "proxy_live ps h w \<longleftrightarrow>
     (\<exists>e impl d.
        db_get ''LendingPoolAddressesProvider'' w = Some e \<and>
        db_get (ps_key ps) w = Some \<lparr>entry_address = h_address h, entry_deployer = None\<rparr> \<and>
        db_get (ps_implKey ps) w = Some \<lparr>entry_address = impl, entry_deployer = Some d\<rparr> \<and>
        codeAt w impl = ps_factory ps \<and>
        proxied (entry_address e) (ps_id ps) (h_address h) impl w)"

definition ps_ok :: "proxy_spec \<Rightarrow> bool" where
  "ps_ok ps \<longleftrightarrow> ps_id ps \<notin> settingId ` set (ps_settings ps) \<and>
     distinct [''LendingPoolAddressesProvider'', ps_key ps, ps_implKey ps] \<and>
     ps_factory ps \<noteq> ''LendingPoolAddressesProvider''"

lemma initialize_Inr:
  assumes "initialize h prov w = (Inr (), w')"
  shows "providers w' = providers w" and "json_db w' = json_db w" and "network_name w' = network_name w"
    and "contracts w' a \<noteq> None \<longleftrightarrow> contracts w a \<noteq> None" and "codeAt w' a = codeAt w a"
  using assms
  by (auto simp: initialize_def addressArg_def senderOf_def transaction_def io_run initializer_def
      codeAt_def split: option.splits if_splits prod.splits sum.splits)

lemma wf_provider_contract:
  assumes "wf_world w" and "providers w p \<noteq> None"
  shows "contracts w p \<noteq> None"
  using assms by (fastforce simp: wf_world_def codeAt_def split: option.splits)

text \<open>The provider calls of a deployment behind a proxy, from the call of
  \<open>setAddressAsProxy\<close> to the read of the proxy's address.\<close>

lemma install_and_configure:
  assumes w: "wf_world w"
    and proxyTx: "setAddressAsProxy h i impl w = (Inr (), w1)"
    and settings: "applySettings h ss w1 = (Inr (), w2)"
    and read: "getAddress h i w2 = (Inr proxy, w3)"
    and i: "i \<notin> settingId ` set ss"
  shows "w3 = w2" and "proxied (h_address h) i proxy impl w2" and "json_db w2 = json_db w"
    and "network_name w2 = network_name w" and "chain_grows w w1" and "contracts w2 = contracts w1"
proof -
  from read obtain q2 where q2: "providers w2 (h_address h) = Some q2" "proxy = addresses q2 i"
    and w3: "w3 = w2"
    by (auto simp: getAddress_def formatBytes32String_def revert_def io_run
        split: if_splits option.splits)
  have "providers w (h_address h) \<noteq> None"
    using setAddressAsProxy_none [OF proxyTx] applySettings_none [OF settings] q2 by force
  then obtain q where q: "providers w (h_address h) = Some q" by blast
  have c: "contracts w (h_address h) \<noteq> None"
    using wf_provider_contract [OF w] q by simp
  have up: "updateImpl (h_address h) i impl w = (Inr (), w1)"
    using setAddressAsProxy_Inr [OF proxyTx] q c by simp
  from wf_updateImpl [OF w up] have w1: "wf_world w1" "chain_grows w w1" by simp_all
  from updateImpl_proxied [OF w q up] obtain a where a: "proxied (h_address h) i a impl w1"
    and frame: "json_db w1 = json_db w" "network_name w1 = network_name w" by blast
  have p1: "providers w1 (h_address h) \<noteq> None" using proxied_simps(2) [OF a] .
  have o: "only_settings (h_address h) (settingId ` set ss) w1 w2"
    using applySettings_only [OF settings p1 wf_provider_contract [OF w1(1) p1]] .
  have a2: "proxied (h_address h) i a impl w2"
    using proxied_only_settings [OF a o i] .
  with q2 have "a = proxy" by (auto simp: proxied_def)
  with a2 show "proxied (h_address h) i proxy impl w2" by simp
  from o frame show "json_db w2 = json_db w" "network_name w2 = network_name w"
    "contracts w2 = contracts w1" by (simp_all add: only_settings_def)
  show "w3 = w2" "chain_grows w w1" by fact+
qed

lemma initialize_chain:
  "wf_world w \<Longrightarrow> initialize h p w = (Inr (), w') \<Longrightarrow> wf_world w' \<and> chain_grows w w'"
  using keepsD [OF chain.safe_initialize [of "[]" h p], of w "Inr ()" w'] by simp

lemma deployAndSave_chain:
  "wf_world w \<Longrightarrow> deployAndSave n l k args v w = (Inr h, w') \<Longrightarrow> wf_world w' \<and> chain_grows w w'"
  using keepsD [OF chain.safe_deployAndSave [of "[]" n l k args v], of w "Inr h" w'] by simp

lemma proxied_db_put [simp]: "proxied p i proxy impl (db_put k e w) = proxied p i proxy impl w"
  by (simp add: proxied_def)

lemma proxied_bookkeeping:
  "bookkeeping w w' \<Longrightarrow> proxied p i proxy impl w' = proxied p i proxy impl w"
  by (simp add: proxied_def bookkeeping_simps)

lemma codeAt_db_put [simp]: "codeAt (db_put k e w) a = codeAt w a"
  by (simp add: codeAt_def)

lemma deployBehindProxy_live:
  assumes w: "wf_world w" and ps: "ps_ok ps"
    and libs: "keeps wf_world chain_grows deployed_handle [] (ps_libraries ps v)"
    and run: "deployBehindProxy ps v w = (Inr h, w')"
  shows "proxy_live ps h w'"
proof -
  from run obtain l w1 impl w2 p w3 w4 w5 w6 proxy w7 where
    1: "ps_libraries ps v w = (Inr l, w1)" and
    2: "deployAndSave (ps_factory ps) l (ps_implKey ps) [] v w1 = (Inr impl, w2)" and
    3: "getLendingPoolAddressesProvider None w2 = (Inr p, w3)" and
    4: "(if ps_initialize ps then initialize impl (h_address p) else returnIO ()) w3 = (Inr (), w4)" and
    5: "setAddressAsProxy p (ps_id ps) (h_address impl) w4 = (Inr (), w5)" and
    6: "applySettings p (ps_settings ps) w5 = (Inr (), w6)" and
    7: "getAddress p (ps_id ps) w6 = (Inr proxy, w7)" and
    8: "connectOrRegistered (ps_factory ps) None (ps_key ps)
          (db_put (ps_key ps) \<lparr>entry_address = proxy, entry_deployer = None\<rparr> w7) = (Inr h, w')"
    unfolding deployBehindProxy_def
    by (elim bindIO_InrE thenIO_InrE) (auto simp: insertContractAddressInDb_def modifyIO_run)
  have w1: "wf_world w1" using keepsD [OF libs w _ 1] by simp
  from deployAndSave_Inr [OF 2] obtain d where
    impl: "h_address impl = next_address w1" and
    implKey: "db_get (ps_implKey ps) w2 = Some \<lparr>entry_address = next_address w1, entry_deployer = Some d\<rparr>" and
    code: "codeAt w2 (next_address w1) = ps_factory ps" "contracts w2 (next_address w1) \<noteq> None"
    by (auto simp: deployed_as_def codeAt_def new_contract_def)
  from deployAndSave_chain [OF w1 2] have w2: "wf_world w2" by simp
  from 3 obtain e where e: "db_get ''LendingPoolAddressesProvider'' w2 = Some e"
    "h_address p = entry_address e" and b3: "bookkeeping w2 w3"
    unfolding getLendingPoolAddressesProvider_def
    by (auto simp: connectAt_def elim!: connectOrRegistered_Inr)
  from wf_bookkeeping [OF w2 b3] have w3: "wf_world w3" "chain_grows w2 w3" by simp_all
  from 4 w3 have w4: "wf_world w4" "chain_grows w3 w4" "json_db w4 = json_db w3"
      "network_name w4 = network_name w3"
    by (auto simp: io_run chain_grows_refl dest: initialize_chain initialize_Inr split: if_splits)
  from ps have i: "ps_id ps \<notin> settingId ` set (ps_settings ps)" by (simp add: ps_ok_def)
  note inst = install_and_configure [OF w4(1) 5 6 7 i]
  have grown: "chain_grows w2 w5"
    using w3(2) w4(2) inst(5) by (blast intro: chain_grows_trans)
  have db: "db_get k w6 = db_get k w2" for k
    using inst(3,4) w4(3,4) b3 by (simp add: db_get_def bookkeeping_simps)
  have code6: "codeAt w6 (next_address w1) = ps_factory ps"
    using chain_grows_codeAt(2) [OF grown code(2)] code(1) inst(6) by (simp add: codeAt_def)
  from 8 have h: "h_address h = proxy" and b8: "bookkeeping
      (db_put (ps_key ps) \<lparr>entry_address = proxy, entry_deployer = None\<rparr> w6) w'"
    using inst(1) by (auto simp: connectAt_def elim!: connectOrRegistered_Inr)
  note final = bookkeeping_simps(12,14) [OF b8] proxied_bookkeeping [OF b8]
  show ?thesis
    unfolding proxy_live_def
    by (rule exI [of _ e], rule exI [of _ "next_address w1"], rule exI [of _ d])
      (use ps inst(2) impl e db implKey code6 in \<open>auto simp: final h ps_ok_def\<close>)
qed

lemma proxied_libraries_safe:
  "list_all (\<lambda>(deploy, ps). \<forall>v. keeps wf_world chain_grows deployed_handle [] (ps_libraries ps v))
     proxiedContracts"
  unfolding proxiedContracts_def list.pred_inject(2) prod.case proxy_spec.select_convs
  by (intro conjI allI list.pred_inject(1) chain.keeps_return script_keeps)

lemma proxied_specs_ok: "list_all (\<lambda>(deploy, ps). ps_ok ps) proxiedContracts"
  by (simp add: proxiedContracts_def ps_ok_def)

lemma proxied_contracts_live:
  assumes "(deploy, ps) \<in> set proxiedContracts" and "wf_world w" and "deploy v w = (Inr h, w')"
  shows "proxy_live ps h w'"
  using assms proxied_contracts_refine proxied_libraries_safe proxied_specs_ok
  by (fastforce simp: list_all_iff intro: deployBehindProxy_live)

section \<open>When a deployment behind a proxy succeeds\<close>

text \<open>The value a setting has on the current network.\<close>

fun settingValue :: "setting \<Rightarrow> world \<Rightarrow> address option" where
  "settingValue (Configured i param) w = getParamPerNetwork param (network_name w) w"
| "settingValue (FromReserveAssets i param symbol) w =
     Option.bind (getParamPerNetwork param (network_name w) w) (\<lambda>assets. obj_get assets symbol)"

definition setting_ready :: "world \<Rightarrow> setting \<Rightarrow> bool" where
  "setting_ready w s \<longleftrightarrow> length (settingId s) \<le> 31 \<and>
     (case settingValue s w of None \<Rightarrow> False | Some a \<Rightarrow> is_address w a)"

text \<open>The first signer owns the registered addresses provider and the creation is accepted;
  the provider does not know the contract's id yet and every setting is configured.\<close>

definition deployer_ready :: "proxy_spec \<Rightarrow> address \<Rightarrow> address \<Rightarrow> world \<Rightarrow> bool" where
  "deployer_ready ps signer prov w \<longleftrightarrow>
     fst (getFirstSigner w) = Inr (Some signer) \<and> \<not> creation_rejected w (ps_factory ps) [] \<and>
     map_option entry_address (db_get ''LendingPoolAddressesProvider'' w) = Some prov \<and>
     map_option owner (providers w prov) = Some signer"

definition proxy_ready :: "proxy_spec \<Rightarrow> address \<Rightarrow> address \<Rightarrow> world \<Rightarrow> bool" where
  "proxy_ready ps signer prov w \<longleftrightarrow> deployer_ready ps signer prov w \<and>
     sol_getAddress prov (ps_id ps) w = ZERO_ADDRESS \<and>
     list_all (setting_ready w) (ps_settings ps)"

definition ps_initializable :: "proxy_spec \<Rightarrow> bool" where
  "ps_initializable ps \<longleftrightarrow> getRevision (ps_factory ps) = Some 1 \<and> length (ps_id ps) \<le> 31 \<and>
     ps_factory ps \<notin> {''SturdyToken'', ''LendingPoolConfigurator''}"

lemma initialize_body_ok:
  "name \<notin> {''SturdyToken'', ''LendingPoolConfigurator''} \<Longrightarrow> prov \<noteq> ZERO_ADDRESS \<Longrightarrow> initialize_body w name prov"
  by (simp add: initialize_body_def)

lemma initialize_run:
  assumes "h_signer h = Some s" and "is_address w prov" and "contracts w (h_address h) = Some c"
    and "getRevision (code c) = Some 1" and "lastInitializedRevision c = 0" and "initialize_body w (code c) prov"
  shows "initialize h prov w =
    (Inr (), update_contract (h_address h) (\<lambda>c. c\<lparr>lastInitializedRevision := 1\<rparr>) w)"
  using assms
  by (simp add: initialize_def addressArg_def senderOf_def transaction_def initializer_def io_run)

lemma setAddressAsProxy_run:
  assumes h: "h_signer h = Some s" and i: "length i \<le> 31" "is_address w impl"
    and c: "contracts w (h_address h) \<noteq> None" and o: "map_option owner (providers w (h_address h)) = Some s"
    and z: "sol_getAddress (h_address h) i w = ZERO_ADDRESS"
    and impl: "contracts w impl = Some ic" "getRevision (code ic) = Some 1"
    and fresh: "contracts w (next_address w) = None"
    and body: "\<And>w. initialize_body w (code ic) (h_address h)"
  shows "\<exists>w'. setAddressAsProxy h i impl w = (Inr (), w')"
proof -
  let ?w1 = "create_contract (proxy_contract (h_address h)) w"
  have ne: "impl \<noteq> next_address w" using fresh impl by auto
  have "installed (next_address w) impl (h_address h) ?w1
      (update_contract (next_address w) (\<lambda>c. c\<lparr>implementation := impl, lastInitializedRevision := 1\<rparr>) ?w1)"
    unfolding installed_def using impl ne body
    by (simp add: codeAt_def proxy_contract_def new_contract_def)
  then obtain w' where "sol_setAddressAsProxy (h_address h) s i impl w = (Inr (), w')"
    unfolding sol_setAddressAsProxy_Inr updateImpl_Inr using o z by auto
  with h i c o show ?thesis
    by (auto simp: setAddressAsProxy_def formatBytes32String_def addressArg_def senderOf_def
        providerTx_def transaction_def io_run)
qed

lemma applySetting_run:
  assumes "setting_ready w s" and "h_signer h = Some d" and "contracts w (h_address h) \<noteq> None"
    and "map_option owner (providers w (h_address h)) = Some d"
  obtains a where "applySetting h s w = (Inr (), put_address (h_address h) (settingId s) a w)"
proof -
  from assms(1) obtain a where a: "settingValue s w = Some a" "is_address w a" "length (settingId s) \<le> 31"
    by (auto simp: setting_ready_def split: option.splits)
  have "applySetting h s w = (Inr (), put_address (h_address h) (settingId s) a w)"
    using setAddress_run [OF assms(2) a(3,2) assms(3,4)] a(1)
    by (cases s) (auto simp: setConfiguredAddress_def setReserveAssetAddress_def paramHere_def io_run
        split: Option.bind_splits option.splits)
  then show thesis by (rule that)
qed

lemma settingValue_env: "same_environment w w' \<Longrightarrow> settingValue s w' = settingValue s w"
  by (cases s) (simp_all add: same_environment_def getParamPerNetwork_def)

lemma setting_ready_env: "same_environment w w' \<Longrightarrow> setting_ready w' s = setting_ready w s"
  using settingValue_env [of w w' s]
  by (simp add: setting_ready_def same_environment_def split: option.split)

lemma applySettings_run:
  "list_all (setting_ready w) ss \<Longrightarrow> h_signer h = Some d \<Longrightarrow> contracts w (h_address h) \<noteq> None \<Longrightarrow>
   map_option owner (providers w (h_address h)) = Some d \<Longrightarrow>
   \<exists>w'. applySettings h ss w = (Inr (), w')"
proof (induction ss arbitrary: w)
  case Nil
  then show ?case by (simp add: returnIO_run)
next
  case (Cons s ss)
  from Cons.prems obtain a where
    a: "applySetting h s w = (Inr (), put_address (h_address h) (settingId s) a w)"
    by (auto elim: applySetting_run)
  let ?w1 = "put_address (h_address h) (settingId s) a w"
  have "same_environment w ?w1" using frame_step_simps(4) by (simp add: frame_step_def)
  then have "setting_ready ?w1 = setting_ready w" using setting_ready_env by blast
  with Cons.prems have "\<exists>w'. applySettings h ss ?w1 = (Inr (), w')"
    by (intro Cons.IH) (auto simp: put_address_def)
  with a show ?case by (auto simp: thenIO_run)
qed

lemma proxied_specs_initializable: "list_all (\<lambda>(deploy, ps). ps_initializable ps) proxiedContracts"
  by (simp add: proxiedContracts_def ps_initializable_def getRevision_def versionedContracts_def)

lemma wf_is_address: "wf_world w \<Longrightarrow> contracts w a \<noteq> None \<Longrightarrow> is_address w a"
  unfolding wf_world_def by (metis env_lawsD(3))

lemma frame_environment:
  assumes "keeps (\<lambda>_. True) frame_step (\<lambda>_ _. True) ([] :: handle list) m" and "m w = (r, w')"
  shows "same_environment w w'"
  using keepsD [OF assms(1) _ _ assms(2)] by (simp add: frame_step_def)

lemma proxy_provider_part:
  assumes w: "wf_world w" and ps: "ps_initializable ps" and s: "h_signer p = Some s"
    and o: "map_option owner (providers w (h_address p)) = Some s"
    and z: "sol_getAddress (h_address p) (ps_id ps) w = ZERO_ADDRESS"
    and ss: "list_all (setting_ready w) (ps_settings ps)"
    and impl: "contracts w impl = Some ic" "code ic = ps_factory ps"
  shows "\<exists>w1 w2 q. setAddressAsProxy p (ps_id ps) impl w = (Inr (), w1) \<and>
    applySettings p (ps_settings ps) w1 = (Inr (), w2) \<and> providers w2 (h_address p) = Some q \<and>
    same_environment w w2"
proof -
  from o have pc: "contracts w (h_address p) \<noteq> None" using wf_provider_contract [OF w] by auto
  have body: "\<And>w. initialize_body w (code ic) (h_address p)"
    using ps wf_nonzero [OF w pc] impl(2) by (intro initialize_body_ok) (simp_all add: ps_initializable_def)
  from ps impl have rev: "length (ps_id ps) \<le> 31" "getRevision (code ic) = Some 1"
    by (simp_all add: ps_initializable_def)
  have "is_address w impl" using wf_is_address [OF w] impl by simp
  from setAddressAsProxy_run [OF s rev(1) this pc o z impl(1) rev(2) next_address_fresh(1) [OF w] body]
  obtain w1 where 1: "setAddressAsProxy p (ps_id ps) impl w = (Inr (), w1)" by blast
  have e1: "same_environment w w1" by (rule frame_environment [OF frame.safe_setAddressAsProxy 1])
  from keepsD [OF chain.safe_setAddressAsProxy [of "[]"] w _ 1]
  have w1: "chain_grows w w1" by simp
  have pc1: "contracts w1 (h_address p) \<noteq> None" using chain_grows_codeAt(1) [OF w1 pc] .
  have o1: "map_option owner (providers w1 (h_address p)) = Some s"
    using w1 o by (auto simp: chain_grows_def same_owner_def dest: map_growsD)
  have ss1: "list_all (setting_ready w1) (ps_settings ps)"
    using ss setting_ready_env [OF e1] by (simp add: list_all_iff)
  from applySettings_run [OF ss1 s pc1 o1] obtain w2 where
    2: "applySettings p (ps_settings ps) w1 = (Inr (), w2)" by blast
  have p1: "providers w1 (h_address p) \<noteq> None" using o1 by auto
  from applySettings_only [OF 2 p1 pc1] p1 have p2: "providers w2 (h_address p) \<noteq> None"
    by (auto simp: only_settings_def)
  have "keeps (\<lambda>_. True) frame_step (\<lambda>_ _. True) ([] :: handle list) (applySettings p ss)" for ss
  proof (induction ss)
    case (Cons s ss)
    then show ?case
      by (cases s) (auto simp: setConfiguredAddress_def setReserveAssetAddress_def paramHere_def
          intro!: frame.keeps_rules script_keeps)
  qed (simp add: frame.keeps_return)
  from frame_environment [OF this 2] e1 have "same_environment w w2"
    by (blast intro: same_environment_trans)
  with 1 2 p2 show ?thesis by blast
qed

text \<open>The implementation part: create, save, find the provider, initialize.\<close>

lemma proxy_initialize_part:
  assumes w: "wf_world w" and ps: "ps_initializable ps" and p: "providers w prov \<noteq> None"
    and h: "h_signer h = Some s" and c: "contracts w (h_address h) = Some (new_contract (ps_factory ps) [] l)"
  obtains w' c' where "(if ps_initialize ps then initialize h prov else returnIO ()) w = (Inr (), w')"
    and "contracts w' (h_address h) = Some c'" and "code c' = ps_factory ps"
    and "providers w' = providers w" and "wf_world w'" and "same_environment w w'"
    and "json_db w' = json_db w" and "\<And>a. a \<noteq> h_address h \<Longrightarrow> contracts w' a = contracts w a"
proof (cases "ps_initialize ps")
  case True
  let ?w' = "update_contract (h_address h) (\<lambda>c. c\<lparr>lastInitializedRevision := 1\<rparr>) w"
  note pc = wf_provider_contract [OF w p]
  have run: "initialize h prov w = (Inr (), ?w')"
    using ps wf_nonzero [OF w pc]
    by (intro initialize_run [OF h wf_is_address [OF w pc] c])
      (simp_all add: new_contract_def ps_initializable_def initialize_body_ok)
  with initialize_chain [OF w run] frame_step_simps(3) [of w] True c show thesis
    by (intro that [of ?w' "(new_contract (ps_factory ps) [] l)\<lparr>lastInitializedRevision := 1\<rparr>"])
      (simp_all add: new_contract_def frame_step_def)
next
  case False
  with w c show thesis
    by (intro that [of w "new_contract (ps_factory ps) [] l"])
      (simp_all add: returnIO_run new_contract_def same_environment_refl)
qed

lemma proxy_implementation_part:
  assumes w: "wf_world w" and ps: "ps_ok ps" "ps_initializable ps" and ready: "deployer_ready ps s prov w"
  obtains impl w1 w2 w3 c where
    "deployAndSave (ps_factory ps) l (ps_implKey ps) [] False w = (Inr impl, w1)"
    and "getLendingPoolAddressesProvider None w1 =
          (Inr (connectAt ''LendingPoolAddressesProvider'' prov (Some s)), w2)"
    and "(if ps_initialize ps then initialize impl prov else returnIO ()) w2 = (Inr (), w3)"
    and "contracts w3 (h_address impl) = Some c" and "code c = ps_factory ps"
    and "providers w3 = providers w" and "wf_world w3" and "same_environment w w3"
    and "h_address impl = next_address w" and "\<forall>a. a \<noteq> next_address w \<longrightarrow> contracts w3 a = contracts w a"
    and "map_option entry_address (db_get (ps_implKey ps) w3) = Some (next_address w)"
    and "\<forall>k. k \<noteq> ps_implKey ps \<longrightarrow> db_get k w3 = db_get k w"
proof -
  from ready have sig: "fst (getFirstSigner w) = Inr (Some s)"
    and rej: "\<not> creation_rejected w (ps_factory ps) []"
    and prov: "map_option entry_address (db_get ''LendingPoolAddressesProvider'' w) = Some prov"
    and o: "map_option owner (providers w prov) = Some s"
    by (simp_all add: deployer_ready_def)
  from deployAndSave_run [OF sig rej] obtain impl w1 where
    1: "deployAndSave (ps_factory ps) l (ps_implKey ps) [] False w = (Inr impl, w1)" by blast
  from deployAndSave_chain [OF w 1] have w1: "wf_world w1" by simp
  have impl: "h_signer impl = Some s"
    "contracts w1 (h_address impl) = Some (new_contract (ps_factory ps) [] l)"
    "providers w1 = providers w" "same_environment w w1"
    "map_option entry_address (db_get ''LendingPoolAddressesProvider'' w1) = Some prov"
    "h_address impl = next_address w" "\<And>a. a \<noteq> next_address w \<Longrightarrow> contracts w1 a = contracts w a"
    "map_option entry_address (db_get (ps_implKey ps) w1) = Some (next_address w)"
    "\<And>k. k \<noteq> ps_implKey ps \<Longrightarrow> db_get k w1 = db_get k w"
    using deployAndSave_Inr [OF 1] sig ps(1) prov by (auto simp: ps_ok_def deployed_as_def)
  then obtain e where e: "db_get ''LendingPoolAddressesProvider'' w1 = Some e" "entry_address e = prov"
    by auto
  have sig1: "fst (getFirstSigner w1) = Inr (Some s)"
    using getFirstSigner_result [OF impl(4)] sig by simp
  from connectOrRegistered_run [OF e(1) sig1] obtain w2 where
    2: "getLendingPoolAddressesProvider None w1 =
          (Inr (connectAt ''LendingPoolAddressesProvider'' prov (Some s)), w2)"
    unfolding getLendingPoolAddressesProvider_def e(2) by blast
  have b2: "bookkeeping w1 w2"
    using 2 unfolding getLendingPoolAddressesProvider_def by (rule quietD [OF quiet_getters(3)])
  from wf_bookkeeping [OF w1 b2] have w2: "wf_world w2" by simp
  note b2s = bookkeeping_simps [OF b2]
  have p2: "providers w2 prov \<noteq> None" using o impl(3) by (auto simp: b2s)
  have c2: "contracts w2 (h_address impl) = Some (new_contract (ps_factory ps) [] l)"
    using impl(2) by (simp add: b2s)
  from proxy_initialize_part [OF w2 ps(2) p2 impl(1) c2] obtain w3 c where
    3: "(if ps_initialize ps then initialize impl prov else returnIO ()) w2 = (Inr (), w3)"
    "contracts w3 (h_address impl) = Some c" "code c = ps_factory ps"
    "providers w3 = providers w2" "wf_world w3" "same_environment w2 w3"
    "json_db w3 = json_db w2" "\<And>a. a \<noteq> h_address impl \<Longrightarrow> contracts w3 a = contracts w2 a" by blast
  have "db_get k w3 = db_get k w1" for k
    using 3(6,7) by (simp add: db_get_def b2s same_environment_def)
  moreover have "\<And>a. a \<noteq> next_address w \<Longrightarrow> contracts w3 a = contracts w a"
    using 3(8) impl(6,7) by (simp add: b2s)
  moreover have "same_environment w w3"
    using impl(4) b2s(15) 3(6) by (blast intro: same_environment_trans)
  moreover have "providers w3 = providers w" using 3(4) impl(3) by (simp add: b2s)
  ultimately show thesis using that [OF 1 2 3(1-3) _ 3(5)] impl(6,8,9) by metis
qed

lemma deployBehindProxy_succeeds:
  assumes w: "wf_world w" and ps: "ps_ok ps" "ps_initializable ps"
    and libs: "ps_libraries ps False w0 = (Inr l, w)"
    and ready: "proxy_ready ps s prov w"
  shows "\<exists>h w'. deployBehindProxy ps False w0 = (Inr h, w')"
proof -
  let ?p = "connectAt ''LendingPoolAddressesProvider'' prov (Some s)"
  from ready have "deployer_ready ps s prov w" by (simp add: proxy_ready_def)
  from w ps this obtain impl w1 w2 w3 c where
    1: "deployAndSave (ps_factory ps) l (ps_implKey ps) [] False w = (Inr impl, w1)" and
    2: "getLendingPoolAddressesProvider None w1 = (Inr ?p, w2)" and
    3: "(if ps_initialize ps then initialize impl prov else returnIO ()) w2 = (Inr (), w3)" and
    c: "contracts w3 (h_address impl) = Some c" "code c = ps_factory ps" and
    p: "providers w3 = providers w" and w3: "wf_world w3" and env: "same_environment w w3" and
    impl: "h_address impl = next_address w" and
    same: "\<forall>a. a \<noteq> next_address w \<longrightarrow> contracts w3 a = contracts w a" and
    db: "map_option entry_address (db_get (ps_implKey ps) w3) = Some (next_address w)"
      "\<forall>k. k \<noteq> ps_implKey ps \<longrightarrow> db_get k w3 = db_get k w"
    by (rule proxy_implementation_part [where l = l])
  have "\<exists>w4 w5 q. setAddressAsProxy ?p (ps_id ps) (h_address impl) w3 = (Inr (), w4) \<and>
    applySettings ?p (ps_settings ps) w4 = (Inr (), w5) \<and> providers w5 (h_address ?p) = Some q \<and>
    same_environment w3 w5"
    using w3 ps(2) ready c setting_ready_env [OF env]
    by (intro proxy_provider_part)
      (auto simp: proxy_ready_def deployer_ready_def connectAt_def p sol_getAddress_def list_all_iff)
  then obtain w4 w5 q where 4: "setAddressAsProxy ?p (ps_id ps) (h_address impl) w3 = (Inr (), w4)"
    and 5: "applySettings ?p (ps_settings ps) w4 = (Inr (), w5)"
    and q: "providers w5 prov = Some q" and e5: "same_environment w3 w5"
    by (auto simp: connectAt_def)
  have 6: "getAddress ?p (ps_id ps) w5 = (Inr (addresses q (ps_id ps)), w5)"
    using q ps(2) by (simp add: getAddress_def formatBytes32String_def connectAt_def io_run ps_initializable_def)
  let ?e = "\<lparr>entry_address = addresses q (ps_id ps), entry_deployer = None\<rparr>"
  have "same_environment w (db_put (ps_key ps) ?e w5)"
    using env e5 frame_step_simps(6) by (auto simp: frame_step_def intro: same_environment_trans)
  then have sig: "fst (getFirstSigner (db_put (ps_key ps) ?e w5)) = Inr (Some s)"
    using getFirstSigner_result ready unfolding proxy_ready_def deployer_ready_def by metis
  have "db_get (ps_key ps) (db_put (ps_key ps) ?e w5) = Some ?e" by simp
  from connectOrRegistered_run [OF this sig, of "ps_factory ps"] obtain h w' where
    7: "connectOrRegistered (ps_factory ps) None (ps_key ps) (db_put (ps_key ps) ?e w5) = (Inr h, w')"
    by blast
  have "h_address ?p = prov" by (simp add: connectAt_def)
  with libs 1 2 3 4 5 6 7 show ?thesis
    unfolding deployBehindProxy_def insertContractAddressInDb_def
    by (simp add: bindIO_run thenIO_run modifyIO_run cong: if_cong split del: if_split)
qed

text \<open>The deployments of the table.\<close>

lemma proxied_contractsD:
  assumes "(deploy, ps) \<in> set proxiedContracts"
  shows "deploy v = deployBehindProxy ps v" and "ps_ok ps" and "ps_initializable ps"
    and "keeps wf_world chain_grows deployed_handle [] (ps_libraries ps v)"
  using assms proxied_contracts_refine proxied_libraries_safe proxied_specs_ok proxied_specs_initializable
  by (fastforce simp: list_all_iff)+

lemma proxied_contracts_succeed:
  assumes t: "(deploy, ps) \<in> set proxiedContracts" and w0: "wf_world w0"
    and libs: "ps_libraries ps False w0 = (Inr l, w)" and ready: "proxy_ready ps s prov w"
  shows "\<exists>h w'. deploy False w0 = (Inr h, w')"
proof -
  from keepsD [OF proxied_contractsD(4) [OF t] w0 _ libs] have "wf_world w" by simp
  from deployBehindProxy_succeeds [OF this proxied_contractsD(2,3) [OF t] libs ready] show ?thesis
    by (simp add: proxied_contractsD(1) [OF t])
qed

section \<open>Running a deployment again\<close>

text \<open>An implementation of the same revision does not pass the initializer guard of the proxy.\<close>

lemma setAddressAsProxy_again:
  assumes h: "h_signer h = Some s" and i: "length i \<le> 31" "is_address w impl"
    and c: "contracts w (h_address h) \<noteq> None" and o: "map_option owner (providers w (h_address h)) = Some s"
    and impl: "contracts w impl = Some ic" "getRevision (code ic) = Some 1"
    and p: "proxied (h_address h) i proxy old w"
  shows "setAddressAsProxy h i impl w =
    (Inl (Revert ''''), w)"
proof -
  from p obtain q pc where q: "providers w (h_address h) = Some q" "addresses q i = proxy" "proxy \<noteq> ZERO_ADDRESS"
    and pc: "contracts w proxy = Some pc" "code pc = proxyCode" "proxy_admin pc = h_address h"
      "lastInitializedRevision pc = 1"
    by (auto simp: proxied_def)
  let ?w1 = "update_contract proxy (\<lambda>c. c\<lparr>implementation := impl\<rparr>) w"
  have "codeAt ?w1 impl = codeAt w impl" by simp
  also have "\<dots> = code ic" using impl(1) by (simp add: codeAt_def)
  finally have code: "codeAt ?w1 impl = code ic" .
  have "updateImpl (h_address h) i impl w =
      (Inl (Revert ''''), ?w1)"
    using q pc impl code
    by (simp add: updateImpl_def sol_getAddress_def upgradeToAndCall_def requires_def
        setImplementation_def delegateInitialize_def revert_def initializer_def io_run)
  with h i c o q show ?thesis
    by (auto simp: setAddressAsProxy_def formatBytes32String_def addressArg_def senderOf_def
        providerTx_def transaction_def sol_setAddressAsProxy_def onlyOwner_def requires_def io_run)
qed

lemma deployBehindProxy_again:
  assumes w: "wf_world w" and ps: "ps_ok ps" "ps_initializable ps"
    and libs: "ps_libraries ps False w0 = (Inr l, w)"
    and ready: "deployer_ready ps s prov w" and live: "proxied prov (ps_id ps) proxy old w"
  shows "\<exists>w'. deployBehindProxy ps False w0 =
      (Inl (Revert ''''), w') \<and>
    proxied prov (ps_id ps) proxy old w' \<and> db_get (ps_key ps) w' = db_get (ps_key ps) w \<and>
    map_option entry_address (db_get (ps_implKey ps) w') = Some (next_address w)"
proof -
  let ?p = "connectAt ''LendingPoolAddressesProvider'' prov (Some s)"
  from w ps ready obtain impl w1 w2 w3 c where
    1: "deployAndSave (ps_factory ps) l (ps_implKey ps) [] False w = (Inr impl, w1)" and
    2: "getLendingPoolAddressesProvider None w1 = (Inr ?p, w2)" and
    3: "(if ps_initialize ps then initialize impl prov else returnIO ()) w2 = (Inr (), w3)" and
    c: "contracts w3 (h_address impl) = Some c" "code c = ps_factory ps" and
    p: "providers w3 = providers w" and w3: "wf_world w3" and env: "same_environment w w3" and
    impl: "h_address impl = next_address w" and
    same: "\<forall>a. a \<noteq> next_address w \<longrightarrow> contracts w3 a = contracts w a" and
    db: "map_option entry_address (db_get (ps_implKey ps) w3) = Some (next_address w)"
      "\<forall>k. k \<noteq> ps_implKey ps \<longrightarrow> db_get k w3 = db_get k w"
    by (rule proxy_implementation_part [where l = l])
  have "proxy \<noteq> next_address w"
    using next_address_fresh(1) [OF w] proxied_simps(3) [OF live] by auto
  with live same p have live3: "proxied prov (ps_id ps) proxy old w3" by (simp add: proxied_def)
  have prov: "h_address ?p = prov" "h_signer ?p = Some s" by (simp_all add: connectAt_def)
  have "setAddressAsProxy ?p (ps_id ps) (h_address impl) w3 =
      (Inl (Revert ''''), w3)"
    using ps(2) ready c live3 p wf_is_address [OF w3] wf_provider_contract [OF w3]
    by (intro setAddressAsProxy_again [OF prov(2), where ic = c])
      (auto simp: prov ps_initializable_def deployer_ready_def)
  with libs 1 2 3 have "deployBehindProxy ps False w0 =
      (Inl (Revert ''''), w3)"
    unfolding deployBehindProxy_def
    by (simp add: bindIO_run thenIO_run prov cong: if_cong split del: if_split)
  with live3 db ps(1) show ?thesis by (auto simp: ps_ok_def)
qed

lemma proxied_contracts_again:
  assumes t: "(deploy, ps) \<in> set proxiedContracts" and w0: "wf_world w0"
    and libs: "ps_libraries ps False w0 = (Inr l, w)" and ready: "deployer_ready ps s prov w"
    and live: "proxied prov (ps_id ps) proxy old w"
  shows "\<exists>w'. deploy False w0 = (Inl (Revert ''''), w') \<and>
    proxied prov (ps_id ps) proxy old w' \<and> db_get (ps_key ps) w' = db_get (ps_key ps) w \<and>
    map_option entry_address (db_get (ps_implKey ps) w') = Some (next_address w)"
proof -
  from keepsD [OF proxied_contractsD(4) [OF t] w0 _ libs] have "wf_world w" by simp
  from deployBehindProxy_again [OF this proxied_contractsD(2,3) [OF t] libs ready live] show ?thesis
    by (simp add: proxied_contractsD(1) [OF t])
qed

section \<open>A sample vault\<close>

text \<open>The data of one vault.\<close>

definition sampleSpec :: proxy_spec where
  "sampleSpec =
       \<lparr>ps_libraries = (\<lambda>_. returnIO []), ps_factory = ''YearnVault'',
        ps_implKey = ''YearnVaultImpl'', ps_initialize = False,
        ps_id = ''YEARN_VAULT'',
        ps_settings = [Configured ''YVWFTM'' (YearnVaultFTM FantomConfig),
           Configured ''uniswapRouter'' (IFantomConfiguration.UniswapRouter FantomConfig),
           Configured ''WFTM'' (WFTM FantomConfig)],
        ps_key = ''YearnVault''\<rparr>"

lemma sampleSpec_in: "(deployYearnVault, sampleSpec) \<in> set proxiedContracts"
  by (simp add: proxiedContracts_def sampleSpec_def)

lemma sample_ready: "proxy_ready sampleSpec ''0xA1'' ''0xC'' (sampleMarket ''ftm'')"
  by (simp add: proxy_ready_def deployer_ready_def sampleMarket_eq sampleSpec_def Let_def run_defs
      setting_ready_def getParamPerNetwork_def sol_getAddress_def construct_provider_def db_get_def
      db_put_def create_contract_def sampleWorld_def MarketFtm_data)

text \<open>The sample market with the vault behind its proxy.\<close>

definition sampleLive :: world where
  "sampleLive =
     put_address ''0xC'' ''YEARN_VAULT'' ''0xC11''
       (update_contract ''0xC11'' (\<lambda>c. c\<lparr>implementation := ''0xC1'', lastInitializedRevision := 1\<rparr>)
         (create_contract (proxy_contract ''0xC'')
           (create_contract (new_contract ''YearnVault'' [] []) (sampleMarket ''ftm''))))"

lemma sampleMarket_addresses:
  "next_address (sampleMarket network) = ''0xC1''"
  "next_address (create_contract c (sampleMarket network)) = ''0xC11''"
  by (simp_all add: sampleMarket_eq next_address_def Let_def sampleWorld_def)

lemma wf_sampleLive: "wf_world sampleLive"
proof -
  let ?w1 = "create_contract (new_contract ''YearnVault'' [] []) (sampleMarket ''ftm'')"
  let ?w2 = "create_contract (proxy_contract ''0xC'') ?w1"
  have 1: "wf_world ?w1" by (rule wf_create_contract [OF wf_sampleMarket]) (simp_all add: new_contract_def)
  have 2: "wf_world ?w2"
    by (rule wf_create_contract [OF 1]) (simp_all add: proxy_contract_def new_contract_def)
  have impl: "contracts ?w2 ''0xC1'' \<noteq> None" by (simp add: sampleMarket_addresses)
  show ?thesis
    unfolding sampleLive_def
    by (rule wf_put_address, rule wf_update_contract [OF 2])
      (use impl in \<open>auto simp: sampleMarket_addresses account_grows_def proxy_contract_def new_contract_def ZERO_ADDRESS_def\<close>)
qed

lemma sampleLive_ready:
  "deployer_ready sampleSpec ''0xA1'' ''0xC'' sampleLive"
  "proxied ''0xC'' (ps_id sampleSpec) ''0xC11'' ''0xC1'' sampleLive"
  by (simp_all add: deployer_ready_def proxied_def sampleSpec_def sampleLive_def sampleMarket_eq Let_def
      run_defs put_address_def update_contract_def create_contract_def db_get_def db_put_def sampleWorld_def
      construct_provider_def next_address_def proxy_contract_def new_contract_def ZERO_ADDRESS_def)

lemma sample_libraries: "ps_libraries sampleSpec False w = (Inr [], w)"
  by (simp add: sampleSpec_def returnIO_run)

section \<open>Properties\<close>


text \<open>C4. Whenever one of these functions returns on a well-formed world, the registry names
  under the contract's key the proxy the addresses provider has under the contract's id; that
  proxy is administered by the provider, is initialized at revision 1 and delegates to the
  implementation registered beside it, whose code is the contract's.\<close>

theorem proxied_deployment_live:
  assumes "(deploy, ps) \<in> set proxiedContracts" and "wf_world w" and "deploy verify w = (Inr h, w')"
  shows "proxy_live ps h w'"
  using assms by (rule proxied_contracts_live)

text \<open>C5. They do return: from a well-formed world, when the libraries can be deployed and then
  the first signer owns the registered provider, the provider does not have the contract's id
  yet, the creation is accepted and every setting is configured for the network, the
  deployment without verification succeeds.\<close>

theorem proxied_deployment_succeeds:
  assumes "(deploy, ps) \<in> set proxiedContracts" and "wf_world w0"
    and "ps_libraries ps False w0 = (Inr libs, w)" and "proxy_ready ps signer prov w"
  shows "\<exists>h w'. deploy False w0 = (Inr h, w')"
  using assms by (rule proxied_contracts_succeed)

theorem proxied_deployment_succeeds_witness:
  "\<exists>h w'. deployYearnVault False (sampleMarket ''ftm'') = (Inr h, w')"
  by (rule proxied_deployment_succeeds [OF sampleSpec_in wf_sampleMarket sample_libraries sample_ready])

theorem proxied_deployment_live_witness:
  "\<exists>h w'. deployYearnVault False (sampleMarket ''ftm'') = (Inr h, w') \<and> proxy_live sampleSpec h w'"
proof -
  obtain h w' where "deployYearnVault False (sampleMarket ''ftm'') = (Inr h, w')"
    using proxied_contracts_succeed [OF sampleSpec_in wf_sampleMarket sample_libraries sample_ready] by blast
  with proxied_deployment_live [OF sampleSpec_in wf_sampleMarket this] show ?thesis by blast
qed

text \<open>C6. Running one of these functions again does not upgrade the proxy: every implementation
  has revision 1, so the proxy's initializer guard reverts the transaction. The proxy keeps
  its implementation and its registry entry, but the entry of the implementation has already
  been overwritten with the address of the new, uninstalled one.\<close>

theorem proxied_redeployment_reverts:
  assumes "(deploy, ps) \<in> set proxiedContracts" and "wf_world w0"
    and "ps_libraries ps False w0 = (Inr libs, w)" and "deployer_ready ps signer prov w"
    and "proxied prov (ps_id ps) proxy old w"
  shows "\<exists>w'. deploy False w0 = (Inl (Revert ''''), w') \<and>
    proxied prov (ps_id ps) proxy old w' \<and> db_get (ps_key ps) w' = db_get (ps_key ps) w \<and>
    map_option entry_address (db_get (ps_implKey ps) w') = Some (next_address w)"
  using assms by (rule proxied_contracts_again)

theorem proxied_redeployment_reverts_witness:
  "\<exists>w'. deployYearnVault False sampleLive =
      (Inl (Revert ''''), w') \<and>
    proxied ''0xC'' (ps_id sampleSpec) ''0xC11'' ''0xC1'' w'"
  using proxied_redeployment_reverts [OF sampleSpec_in wf_sampleLive sample_libraries sampleLive_ready] by blast

end
