(* ===== verification/RoundTrips.thy ===== *)
theory RoundTrips
  imports Effects
begin

text \<open>
  Getters after deployments. The getters that connect to the contract registered under a key
  are collected with their interface and key, the deployments that save one contract with the
  getter that finds it again; what a getter returns then follows from \<open>deployAndSave\<close> and
  \<open>connectOrRegistered\<close> alone.
\<close>

section \<open>Getters by key\<close>

definition namedGetters :: "((string option \<Rightarrow> handle script) \<times> string \<times> string) list" where
  "namedGetters =
     [(getLendingPoolAddressesProvider, ''LendingPoolAddressesProvider'', ''LendingPoolAddressesProvider''),
      (getLendingPoolConfiguratorProxy, ''LendingPoolConfigurator'', ''LendingPoolConfigurator''),
      (getPriceOracle, ''PriceOracle'', ''PriceOracle''),
      (getAToken, ''AToken'', ''AToken''),
      (getATokenForCollateral, ''ATokenForCollateral'', ''ATokenForCollateral''),
      (getStableDebtToken, ''StableDebtToken'', ''StableDebtToken''),
      (getVariableDebtToken, ''VariableDebtToken'', ''VariableDebtToken''),
      (getSturdyProtocolDataProvider, ''SturdyProtocolDataProvider'', ''SturdyProtocolDataProvider''),
      (getInterestRateStrategy, ''DefaultReserveInterestRateStrategy'', ''DefaultReserveInterestRateStrategy''),
      (getLendingRateOracle, ''LendingRateOracle'', ''LendingRateOracle''),
      (getReserveLogic, ''ReserveLogic'', ''ReserveLogic''),
      (getStableAndVariableTokensHelper, ''StableAndVariableTokensHelper'', ''StableAndVariableTokensHelper''),
      (getATokensAndRatesHelper, ''ATokensAndRatesHelper'', ''ATokensAndRatesHelper''),
      (getWETHMocked, ''WETH9Mocked'', ''WETHMocked''),
      (getMockAToken, ''MockAToken'', ''MockAToken''),
      (getMockVariableDebtToken, ''MockVariableDebtToken'', ''MockVariableDebtToken''),
      (getMockStableDebtToken, ''MockStableDebtToken'', ''MockStableDebtToken''),
      (getLendingPoolImpl, ''LendingPool'', ''LendingPoolImpl''),
      (getLendingPoolConfiguratorImpl, ''LendingPoolConfigurator'', ''LendingPoolConfiguratorImpl''),
      (getLendingPoolCollateralManagerImpl, ''LendingPoolCollateralManager'', ''LendingPoolCollateralManagerImpl''),
      (getLendingPoolCollateralManager, ''LendingPoolCollateralManager'', ''LendingPoolCollateralManager''),
      (getSturdyOracle, ''SturdyOracle'', ''SturdyOracle''),
      (getBooOracle, ''BooOracle'', ''BooOracle''),
      (getTombOracle, ''TombOracle'', ''TombOracle''),
      (getTombFtmLPOracle, ''TombFtmLPOracle'', ''TombFtmLPOracle''),
      (getTombMiMaticLPOracle, ''TombMiMaticLPOracle'', ''TombMiMaticLPOracle''),
      (getBasedOracle, ''BasedOracle'', ''BasedOracle''),
      (getBasedMiMaticLPOracle, ''BasedMiMaticLPOracle'', ''BasedMiMaticLPOracle''),
      (getLendingPool, ''LendingPool'', ''LendingPool''),
      (getLidoVaultImpl, ''LidoVault'', ''LidoVaultImpl''),
      (getLidoVault, ''LidoVault'', ''LidoVault''),
      (getYearnRETHWstETHVaultImpl, ''YearnRETHWstETHVault'', ''YearnRETHWstETHVaultImpl''),
      (getYearnRETHWstETHVault, ''YearnRETHWstETHVault'', ''YearnRETHWstETHVault''),
      (getConvexRocketPoolETHVaultImpl, ''ConvexCurveLPVault'', ''ConvexRocketPoolETHVaulttImpl''),
      (getConvexRocketPoolETHVault, ''ConvexCurveLPVault'', ''ConvexRocketPoolETHVault''),
      (getConvexFRAX3CRVVault, ''ConvexCurveLPVault'', ''ConvexFRAX3CRVVault''),
      (getConvexSTETHVault, ''ConvexCurveLPVault'', ''ConvexSTETHVault''),
      (getConvexDOLA3CRVVault, ''ConvexCurveLPVault'', ''ConvexDOLA3CRVVault''),
      (getConvexMIM3CRVVault, ''ConvexCurveLPVault'', ''ConvexMIM3CRVVault''),
      (getConvexDAIUSDCUSDTSUSDVault, ''ConvexCurveLPVault'', ''ConvexDAIUSDCUSDTSUSDVault''),
      (getConvexHBTCWBTCVault, ''ConvexCurveLPVault'', ''ConvexHBTCWBTCVault''),
      (getConvexIronBankVault, ''ConvexCurveLPVault'', ''ConvexIronBankVault''),
      (getConvexFRAXUSDCVault, ''ConvexCurveLPVault'', ''ConvexFRAXUSDCVault''),
      (getAuraDAIUSDCUSDTVault, ''AuraBalancerLPVault'', ''AuraDAIUSDCUSDTVault''),
      (getConvexTUSDFRAXBPVault, ''ConvexCurveLPVault2'', ''ConvexTUSDFRAXBPVault''),
      (getAuraBBAUSDVault, ''AuraBalancerLPVault'', ''AuraBBAUSDVault''),
      (getAuraBBA3USDVault, ''AuraBalancerLPVault'', ''AuraBBA3USDVault''),
      (getYearnVaultImpl, ''YearnVault'', ''YearnVaultImpl''),
      (getYearnVault, ''YearnVault'', ''YearnVault''),
      (getYearnWETHVaultImpl, ''YearnWETHVault'', ''YearnWETHVaultImpl''),
      (getYearnWETHVault, ''YearnWETHVault'', ''YearnWETHVault''),
      (getYearnWBTCVaultImpl, ''YearnWBTCVault'', ''YearnWBTCVaultImpl''),
      (getYearnWBTCVault, ''YearnWBTCVault'', ''YearnWBTCVault''),
      (getYearnBOOVaultImpl, ''YearnBOOVault'', ''YearnBOOVaultImpl''),
      (getYearnBOOVault, ''YearnBOOVault'', ''YearnBOOVault''),
      (getTombFtmBeefyVaultImpl, ''TombFtmBeefyVault'', ''TombFtmBeefyVaultImpl''),
      (getTombFtmBeefyVault, ''TombFtmBeefyVault'', ''TombFtmBeefyVault''),
      (getTombMiMaticBeefyVaultImpl, ''TombMimaticBeefyVault'', ''TombMiMaticBeefyVaultImpl''),
      (getTombMiMaticBeefyVault, ''TombMimaticBeefyVault'', ''TombMiMaticBeefyVault''),
      (getBasedMiMaticBeefyVaultImpl, ''BasedMimaticBeefyVault'', ''BasedMiMaticBeefyVaultImpl''),
      (getBasedMiMaticBeefyVault, ''BasedMimaticBeefyVault'', ''BasedMiMaticBeefyVault''),
      (getBeefyMIM2CRVVaultImpl, ''BeefyMIM2CRVVault'', ''BeefyMIM2CRVVaultImpl''),
      (getBeefyMIM2CRVVault, ''BeefyMIM2CRVVault'', ''BeefyMIM2CRVVault''),
      (getYearnFBEETSVaultImpl, ''YearnFBEETSVault'', ''YearnFBEETSVaultImpl''),
      (getYearnFBEETSVault, ''YearnFBEETSVault'', ''YearnFBEETSVault''),
      (getYearnLINKVaultImpl, ''YearnLINKVault'', ''YearnLINKVaultImpl''),
      (getYearnLINKVault, ''YearnLINKVault'', ''YearnLINKVault''),
      (getBeefyETHVault, ''BeefyETHVault'', ''BeefyETHVault''),
      (getYearnCRVVaultImpl, ''YearnCRVVault'', ''YearnCRVVaultImpl''),
      (getYearnCRVVault, ''YearnCRVVault'', ''YearnCRVVault''),
      (getYearnSPELLVaultImpl, ''YearnSPELLVault'', ''YearnSPELLVaultImpl''),
      (getYearnSPELLVault, ''YearnSPELLVault'', ''YearnSPELLVault''),
      (getWalletProvider, ''WalletBalanceProvider'', ''WalletBalanceProvider''),
      (getUiPoolDataProvider, ''UiPoolDataProvider'', ''UiPoolDataProvider''),
      (getUiIncentiveDataProvider, ''UiIncentiveDataProvider'', ''UiIncentiveDataProvider''),
      (getSturdyIncentivesControllerImpl, ''StakedTokenIncentivesController'', ''StakedTokenIncentivesControllerImpl''),
      (getSturdyIncentivesController, ''StakedTokenIncentivesController'', ''StakedTokenIncentivesController''),
      (getSturdyTokenImpl, ''SturdyToken'', ''SturdyTokenImpl''),
      (getSturdyToken, ''SturdyToken'', ''SturdyToken''),
      (getStableYieldDistributionImpl, ''StableYieldDistribution'', ''StableYieldDistributionImpl''),
      (getLDOStableYieldDistribution, ''StableYieldDistribution'', ''LDOStableYieldDistribution''),
      (getVariableYieldDistributionImpl, ''VariableYieldDistribution'', ''VariableYieldDistributionImpl''),
      (getVariableYieldDistribution, ''VariableYieldDistribution'', ''VariableYieldDistribution''),
      (getYieldDistributorAdapter, ''YieldDistributorAdapter'', ''YieldDistributorAdapter''),
      (getCollateralAdapter, ''CollateralAdapter'', ''CollateralAdapter''),
      (getMockyvWFTM, ''MockyvWFTM'', ''MockyvWFTM''),
      (getMockyvWETH, ''MockyvWETH'', ''MockyvWETH''),
      (getMockyvWBTC, ''MockyvWBTC'', ''MockyvWBTC''),
      (getMockyvBOO, ''MockyvBOO'', ''MockyvBOO''),
      (getMockMooTOMBFTM, ''MockMooTOMBFTM'', ''MockMooTOMBFTM''),
      (getMockMooTOMBMIMATIC, ''MockMooTOMBMIMATIC'', ''MockMooTOMBMIMATIC''),
      (getMockMooBASEDMIMATIC, ''MockMooBASEDMIMATIC'', ''MockMooBASEDMIMATIC''),
      (getMockWBTCForFTM, ''MockWBTCForFTM'', ''MockWBTCForFTM''),
      (getGenericATokenImpl, ''AToken'', ''AToken''),
      (getCollateralATokenImpl, ''ATokenForCollateral'', ''ATokenForCollateral''),
      (getFTMLiquidator, ''FTMLiquidator'', ''FTMLiquidator''),
      (getETHLiquidator, ''ETHLiquidator'', ''ETHLiquidator''),
      (getDeployVaultHelper, ''DeployVaultHelper'', ''DeployVaultHelper''),
      (getBeetsOracle, ''BeetsOracle'', ''BeetsOracle''),
      (getFBeetsOracle, ''FBeetsOracle'', ''FBeetsOracle''),
      (getRETHWstETHLPOracle, ''CrvREthWstETHOracle'', ''RETHWstETHLPOracle''),
      (getYieldManager, ''YieldManager'', ''YieldManager''),
      (getLeverageSwapManager, ''LeverageSwapManager'', ''LeverageSwapManager''),
      (getSturdyAPRDataProvider, ''SturdyAPRDataProvider'', ''SturdyAPRDataProvider''),
      (getVaultWhitelist, ''VaultWhitelist'', ''VaultWhitelist''),
      (getERC4626Router, ''ERC4626Router'', ''ERC4626Router'')]"

lemma namedGetters_connect:
  "list_all (\<lambda>(getter, factory, key). \<forall>a. getter a = connectOrRegistered factory a key) namedGetters"
  unfolding namedGetters_def list.pred_inject(2) prod.case
    getLendingPoolAddressesProvider_def getLendingPoolConfiguratorProxy_def
    getPriceOracle_def getAToken_def getATokenForCollateral_def getStableDebtToken_def
    getVariableDebtToken_def getSturdyProtocolDataProvider_def getInterestRateStrategy_def
    getLendingRateOracle_def getReserveLogic_def getStableAndVariableTokensHelper_def
    getATokensAndRatesHelper_def getWETHMocked_def getMockAToken_def
    getMockVariableDebtToken_def getMockStableDebtToken_def getLendingPoolImpl_def
    getLendingPoolConfiguratorImpl_def getLendingPoolCollateralManagerImpl_def
    getLendingPoolCollateralManager_def getSturdyOracle_def getBooOracle_def
    getTombOracle_def getTombFtmLPOracle_def getTombMiMaticLPOracle_def getBasedOracle_def
    getBasedMiMaticLPOracle_def getLendingPool_def getLidoVaultImpl_def getLidoVault_def
    getYearnRETHWstETHVaultImpl_def getYearnRETHWstETHVault_def
    getConvexRocketPoolETHVaultImpl_def getConvexRocketPoolETHVault_def
    getConvexFRAX3CRVVault_def getConvexSTETHVault_def getConvexDOLA3CRVVault_def
    getConvexMIM3CRVVault_def getConvexDAIUSDCUSDTSUSDVault_def getConvexHBTCWBTCVault_def
    getConvexIronBankVault_def getConvexFRAXUSDCVault_def getAuraDAIUSDCUSDTVault_def
    getConvexTUSDFRAXBPVault_def getAuraBBAUSDVault_def getAuraBBA3USDVault_def
    getYearnVaultImpl_def getYearnVault_def getYearnWETHVaultImpl_def getYearnWETHVault_def
    getYearnWBTCVaultImpl_def getYearnWBTCVault_def getYearnBOOVaultImpl_def
    getYearnBOOVault_def getTombFtmBeefyVaultImpl_def getTombFtmBeefyVault_def
    getTombMiMaticBeefyVaultImpl_def getTombMiMaticBeefyVault_def
    getBasedMiMaticBeefyVaultImpl_def getBasedMiMaticBeefyVault_def
    getBeefyMIM2CRVVaultImpl_def getBeefyMIM2CRVVault_def getYearnFBEETSVaultImpl_def
    getYearnFBEETSVault_def getYearnLINKVaultImpl_def getYearnLINKVault_def
    getBeefyETHVault_def getYearnCRVVaultImpl_def getYearnCRVVault_def
    getYearnSPELLVaultImpl_def getYearnSPELLVault_def getWalletProvider_def
    getUiPoolDataProvider_def getUiIncentiveDataProvider_def
    getSturdyIncentivesControllerImpl_def getSturdyIncentivesController_def
    getSturdyTokenImpl_def getSturdyToken_def getStableYieldDistributionImpl_def
    getLDOStableYieldDistribution_def getVariableYieldDistributionImpl_def
    getVariableYieldDistribution_def getYieldDistributorAdapter_def getCollateralAdapter_def
    getMockyvWFTM_def getMockyvWETH_def getMockyvWBTC_def getMockyvBOO_def
    getMockMooTOMBFTM_def getMockMooTOMBMIMATIC_def getMockMooBASEDMIMATIC_def
    getMockWBTCForFTM_def getGenericATokenImpl_def getCollateralATokenImpl_def
    getFTMLiquidator_def getETHLiquidator_def getDeployVaultHelper_def getBeetsOracle_def
    getFBeetsOracle_def getRETHWstETHLPOracle_def getYieldManager_def
    getLeverageSwapManager_def getSturdyAPRDataProvider_def getVaultWhitelist_def
    getERC4626Router_def
  by (intro conjI allI refl list.pred_inject(1))

section \<open>Deployments with their getters\<close>

text \<open>The arguments \<open>s\<close> and \<open>args\<close> stand for the constructor arguments of the functions that take
  some, \<open>v\<close> for the flag \<open>verify\<close>.\<close>

definition deploymentsWithGetters ::
  "string \<Rightarrow> arg list \<Rightarrow> bool \<Rightarrow> (handle script \<times> (string option \<Rightarrow> handle script) \<times> string \<times> string) list" where
  "deploymentsWithGetters s args v =
     [(deployLendingPoolAddressesProvider s v, getLendingPoolAddressesProvider, ''LendingPoolAddressesProvider'', ''LendingPoolAddressesProvider''),
      (deployLendingPoolConfiguratorImpl v, getLendingPoolConfiguratorImpl, ''LendingPoolConfigurator'', ''LendingPoolConfiguratorImpl''),
      (deployLendingPoolCollateralManagerImpl v, getLendingPoolCollateralManagerImpl, ''LendingPoolCollateralManager'', ''LendingPoolCollateralManagerImpl''),
      (deploySturdyProtocolDataProvider s v, getSturdyProtocolDataProvider, ''SturdyProtocolDataProvider'', ''SturdyProtocolDataProvider''),
      (deployDefaultReserveInterestRateStrategy args v, getInterestRateStrategy, ''DefaultReserveInterestRateStrategy'', ''DefaultReserveInterestRateStrategy''),
      (deployWalletBalancerProvider v, getWalletProvider, ''WalletBalanceProvider'', ''WalletBalanceProvider''),
      (deployUiIncentiveDataProvider v, getUiIncentiveDataProvider, ''UiIncentiveDataProvider'', ''UiIncentiveDataProvider''),
      (deployVaultHelper args v, getDeployVaultHelper, ''DeployVaultHelper'', ''DeployVaultHelper''),
      (deploySturdyAPRDataProvider args v, getSturdyAPRDataProvider, ''SturdyAPRDataProvider'', ''SturdyAPRDataProvider''),
      (deployVaultWhitelist v, getVaultWhitelist, ''VaultWhitelist'', ''VaultWhitelist''),
      (deployERC4626Router v, getERC4626Router, ''ERC4626Router'', ''ERC4626Router''),
      (deployPriceOracle v, getPriceOracle, ''PriceOracle'', ''PriceOracle''),
      (deployLendingRateOracle v, getLendingRateOracle, ''LendingRateOracle'', ''LendingRateOracle''),
      (deploySturdyOracle args v, getSturdyOracle, ''SturdyOracle'', ''SturdyOracle''),
      (deployBooOracle v, getBooOracle, ''BooOracle'', ''BooOracle''),
      (deployTombOracle v, getTombOracle, ''TombOracle'', ''TombOracle''),
      (deployTombFtmLPOracle v, getTombFtmLPOracle, ''TombFtmLPOracle'', ''TombFtmLPOracle''),
      (deployTombMiMaticLPOracle v, getTombMiMaticLPOracle, ''TombMiMaticLPOracle'', ''TombMiMaticLPOracle''),
      (deployFBeetsOracle v, getFBeetsOracle, ''FBeetsOracle'', ''FBeetsOracle''),
      (deployBeetsOracle v, getBeetsOracle, ''BeetsOracle'', ''BeetsOracle''),
      (deployBasedOracle v, getBasedOracle, ''BasedOracle'', ''BasedOracle''),
      (deployBasedMiMaticLPOracle v, getBasedMiMaticLPOracle, ''BasedMiMaticLPOracle'', ''BasedMiMaticLPOracle''),
      (deployRETHWstETHLPOracle v, getRETHWstETHLPOracle, ''CrvREthWstETHOracle'', ''RETHWstETHLPOracle''),
      (deployGenericStableDebtToken, getStableDebtToken, ''StableDebtToken'', ''StableDebtToken''),
      (deployGenericVariableDebtToken, getVariableDebtToken, ''VariableDebtToken'', ''VariableDebtToken''),
      (deployGenericATokenImpl v, getAToken, ''AToken'', ''AToken''),
      (deployGenericATokenImpl v, getGenericATokenImpl, ''AToken'', ''AToken''),
      (deployCollateralATokenImpl v, getATokenForCollateral, ''ATokenForCollateral'', ''ATokenForCollateral''),
      (deployCollateralATokenImpl v, getCollateralATokenImpl, ''ATokenForCollateral'', ''ATokenForCollateral''),
      (deployStableAndVariableTokensHelper args v, getStableAndVariableTokensHelper, ''StableAndVariableTokensHelper'', ''StableAndVariableTokensHelper''),
      (deployATokensAndRatesHelper args v, getATokensAndRatesHelper, ''ATokensAndRatesHelper'', ''ATokensAndRatesHelper''),
      (deployWETHMocked v, getWETHMocked, ''WETH9Mocked'', ''WETHMocked''),
      (deployMockyvWFTM args v, getMockyvWFTM, ''MockyvWFTM'', ''MockyvWFTM''),
      (deployMockyvWETH args v, getMockyvWETH, ''MockyvWETH'', ''MockyvWETH''),
      (deployMockyvWBTC args v, getMockyvWBTC, ''MockyvWBTC'', ''MockyvWBTC''),
      (deployMockyvBOO args v, getMockyvBOO, ''MockyvBOO'', ''MockyvBOO''),
      (deployMockWBTCForFTM args v, getMockWBTCForFTM, ''MockWBTCForFTM'', ''MockWBTCForFTM''),
      (deployMockMooTOMBFTM args v, getMockMooTOMBFTM, ''MockMooTOMBFTM'', ''MockMooTOMBFTM''),
      (deployMockMooTOMBMIMATIC args v, getMockMooTOMBMIMATIC, ''MockMooTOMBMIMATIC'', ''MockMooTOMBMIMATIC''),
      (deployMockMooBASEDMIMATIC args v, getMockMooBASEDMIMATIC, ''MockMooBASEDMIMATIC'', ''MockMooBASEDMIMATIC''),
      (deployConvexRocketPoolETHVaultImpl v, getConvexRocketPoolETHVaultImpl, ''ConvexCurveLPVault'', ''ConvexRocketPoolETHVaulttImpl''),
      (deployYearnVaultImpl v, getYearnVaultImpl, ''YearnVault'', ''YearnVaultImpl''),
      (deployYearnWETHVaultImpl v, getYearnWETHVaultImpl, ''YearnWETHVault'', ''YearnWETHVaultImpl''),
      (deployYearnWBTCVaultImpl v, getYearnWBTCVaultImpl, ''YearnWBTCVault'', ''YearnWBTCVaultImpl''),
      (deployYearnBOOVaultImpl v, getYearnBOOVaultImpl, ''YearnBOOVault'', ''YearnBOOVaultImpl''),
      (deployTombFTMBeefyVaultImpl v, getTombFtmBeefyVaultImpl, ''TombFtmBeefyVault'', ''TombFtmBeefyVaultImpl''),
      (deployTombMiMaticBeefyVaultImpl v, getTombMiMaticBeefyVaultImpl, ''TombMimaticBeefyVault'', ''TombMiMaticBeefyVaultImpl''),
      (deployBasedMiMaticBeefyVaultImpl v, getBasedMiMaticBeefyVaultImpl, ''BasedMimaticBeefyVault'', ''BasedMiMaticBeefyVaultImpl''),
      (deployBeefyMIM2CRVVaultImpl v, getBeefyMIM2CRVVaultImpl, ''BeefyMIM2CRVVault'', ''BeefyMIM2CRVVaultImpl''),
      (deployYearnFBeetsVaultImpl v, getYearnFBEETSVaultImpl, ''YearnFBEETSVault'', ''YearnFBEETSVaultImpl''),
      (deployYearnLINKVaultImpl v, getYearnLINKVaultImpl, ''YearnLINKVault'', ''YearnLINKVaultImpl''),
      (deployYearnCRVVaultImpl v, getYearnCRVVaultImpl, ''YearnCRVVault'', ''YearnCRVVaultImpl''),
      (deployYearnSPELLVaultImpl v, getYearnSPELLVaultImpl, ''YearnSPELLVault'', ''YearnSPELLVaultImpl''),
      (deploySturdyIncentivesControllerImpl args v, getSturdyIncentivesControllerImpl, ''StakedTokenIncentivesController'', ''StakedTokenIncentivesControllerImpl''),
      (deploySturdyTokenImpl v, getSturdyTokenImpl, ''SturdyToken'', ''SturdyTokenImpl'')]"

lemma deploymentsWithGetters_save:
  "list_all (\<lambda>(deploy, getter, factory, key).
     (\<exists>xs v'. deploy = deployAndSave factory [] key xs v') \<and>
     (\<forall>a. getter a = connectOrRegistered factory a key)) (deploymentsWithGetters s args v)"
  unfolding deploymentsWithGetters_def list.pred_inject(2) prod.case
    deployLendingPoolAddressesProvider_def getLendingPoolAddressesProvider_def
    deployLendingPoolConfiguratorImpl_def getLendingPoolConfiguratorImpl_def
    deployLendingPoolCollateralManagerImpl_def getLendingPoolCollateralManagerImpl_def
    deploySturdyProtocolDataProvider_def getSturdyProtocolDataProvider_def
    deployDefaultReserveInterestRateStrategy_def getInterestRateStrategy_def
    deployWalletBalancerProvider_def getWalletProvider_def deployUiIncentiveDataProvider_def
    getUiIncentiveDataProvider_def deployVaultHelper_def getDeployVaultHelper_def
    deploySturdyAPRDataProvider_def getSturdyAPRDataProvider_def deployVaultWhitelist_def
    getVaultWhitelist_def deployERC4626Router_def getERC4626Router_def deployPriceOracle_def
    getPriceOracle_def deployLendingRateOracle_def getLendingRateOracle_def
    deploySturdyOracle_def getSturdyOracle_def deployBooOracle_def getBooOracle_def
    deployTombOracle_def getTombOracle_def deployTombFtmLPOracle_def getTombFtmLPOracle_def
    deployTombMiMaticLPOracle_def getTombMiMaticLPOracle_def deployFBeetsOracle_def
    getFBeetsOracle_def deployBeetsOracle_def getBeetsOracle_def deployBasedOracle_def
    getBasedOracle_def deployBasedMiMaticLPOracle_def getBasedMiMaticLPOracle_def
    deployRETHWstETHLPOracle_def getRETHWstETHLPOracle_def deployGenericStableDebtToken_def
    getStableDebtToken_def deployGenericVariableDebtToken_def getVariableDebtToken_def
    deployGenericATokenImpl_def getAToken_def getGenericATokenImpl_def
    deployCollateralATokenImpl_def getATokenForCollateral_def getCollateralATokenImpl_def
    deployStableAndVariableTokensHelper_def getStableAndVariableTokensHelper_def
    deployATokensAndRatesHelper_def getATokensAndRatesHelper_def deployWETHMocked_def
    getWETHMocked_def deployMockyvWFTM_def getMockyvWFTM_def deployMockyvWETH_def
    getMockyvWETH_def deployMockyvWBTC_def getMockyvWBTC_def deployMockyvBOO_def
    getMockyvBOO_def deployMockWBTCForFTM_def getMockWBTCForFTM_def deployMockMooTOMBFTM_def
    getMockMooTOMBFTM_def deployMockMooTOMBMIMATIC_def getMockMooTOMBMIMATIC_def
    deployMockMooBASEDMIMATIC_def getMockMooBASEDMIMATIC_def
    deployConvexRocketPoolETHVaultImpl_def getConvexRocketPoolETHVaultImpl_def
    deployYearnVaultImpl_def getYearnVaultImpl_def deployYearnWETHVaultImpl_def
    getYearnWETHVaultImpl_def deployYearnWBTCVaultImpl_def getYearnWBTCVaultImpl_def
    deployYearnBOOVaultImpl_def getYearnBOOVaultImpl_def deployTombFTMBeefyVaultImpl_def
    getTombFtmBeefyVaultImpl_def deployTombMiMaticBeefyVaultImpl_def
    getTombMiMaticBeefyVaultImpl_def deployBasedMiMaticBeefyVaultImpl_def
    getBasedMiMaticBeefyVaultImpl_def deployBeefyMIM2CRVVaultImpl_def
    getBeefyMIM2CRVVaultImpl_def deployYearnFBeetsVaultImpl_def getYearnFBEETSVaultImpl_def
    deployYearnLINKVaultImpl_def getYearnLINKVaultImpl_def deployYearnCRVVaultImpl_def
    getYearnCRVVaultImpl_def deployYearnSPELLVaultImpl_def getYearnSPELLVaultImpl_def
    deploySturdyIncentivesControllerImpl_def getSturdyIncentivesControllerImpl_def
    deploySturdyTokenImpl_def getSturdyTokenImpl_def
  by (intro conjI allI list.pred_inject(1); (rule refl | (rule exI)+, rule refl))

lemma deploymentsWithGetters_save_only:
  "list_all (\<lambda>(deploy, getter, factory, key). \<exists>xs. deploy = deployAndSave factory [] key xs False)
     (deploymentsWithGetters s args False)"
  unfolding deploymentsWithGetters_def list.pred_inject(2) prod.case
    deployLendingPoolAddressesProvider_def getLendingPoolAddressesProvider_def
    deployLendingPoolConfiguratorImpl_def getLendingPoolConfiguratorImpl_def
    deployLendingPoolCollateralManagerImpl_def getLendingPoolCollateralManagerImpl_def
    deploySturdyProtocolDataProvider_def getSturdyProtocolDataProvider_def
    deployDefaultReserveInterestRateStrategy_def getInterestRateStrategy_def
    deployWalletBalancerProvider_def getWalletProvider_def deployUiIncentiveDataProvider_def
    getUiIncentiveDataProvider_def deployVaultHelper_def getDeployVaultHelper_def
    deploySturdyAPRDataProvider_def getSturdyAPRDataProvider_def deployVaultWhitelist_def
    getVaultWhitelist_def deployERC4626Router_def getERC4626Router_def deployPriceOracle_def
    getPriceOracle_def deployLendingRateOracle_def getLendingRateOracle_def
    deploySturdyOracle_def getSturdyOracle_def deployBooOracle_def getBooOracle_def
    deployTombOracle_def getTombOracle_def deployTombFtmLPOracle_def getTombFtmLPOracle_def
    deployTombMiMaticLPOracle_def getTombMiMaticLPOracle_def deployFBeetsOracle_def
    getFBeetsOracle_def deployBeetsOracle_def getBeetsOracle_def deployBasedOracle_def
    getBasedOracle_def deployBasedMiMaticLPOracle_def getBasedMiMaticLPOracle_def
    deployRETHWstETHLPOracle_def getRETHWstETHLPOracle_def deployGenericStableDebtToken_def
    getStableDebtToken_def deployGenericVariableDebtToken_def getVariableDebtToken_def
    deployGenericATokenImpl_def getAToken_def getGenericATokenImpl_def
    deployCollateralATokenImpl_def getATokenForCollateral_def getCollateralATokenImpl_def
    deployStableAndVariableTokensHelper_def getStableAndVariableTokensHelper_def
    deployATokensAndRatesHelper_def getATokensAndRatesHelper_def deployWETHMocked_def
    getWETHMocked_def deployMockyvWFTM_def getMockyvWFTM_def deployMockyvWETH_def
    getMockyvWETH_def deployMockyvWBTC_def getMockyvWBTC_def deployMockyvBOO_def
    getMockyvBOO_def deployMockWBTCForFTM_def getMockWBTCForFTM_def deployMockMooTOMBFTM_def
    getMockMooTOMBFTM_def deployMockMooTOMBMIMATIC_def getMockMooTOMBMIMATIC_def
    deployMockMooBASEDMIMATIC_def getMockMooBASEDMIMATIC_def
    deployConvexRocketPoolETHVaultImpl_def getConvexRocketPoolETHVaultImpl_def
    deployYearnVaultImpl_def getYearnVaultImpl_def deployYearnWETHVaultImpl_def
    getYearnWETHVaultImpl_def deployYearnWBTCVaultImpl_def getYearnWBTCVaultImpl_def
    deployYearnBOOVaultImpl_def getYearnBOOVaultImpl_def deployTombFTMBeefyVaultImpl_def
    getTombFtmBeefyVaultImpl_def deployTombMiMaticBeefyVaultImpl_def
    getTombMiMaticBeefyVaultImpl_def deployBasedMiMaticBeefyVaultImpl_def
    getBasedMiMaticBeefyVaultImpl_def deployBeefyMIM2CRVVaultImpl_def
    getBeefyMIM2CRVVaultImpl_def deployYearnFBeetsVaultImpl_def getYearnFBEETSVaultImpl_def
    deployYearnLINKVaultImpl_def getYearnLINKVaultImpl_def deployYearnCRVVaultImpl_def
    getYearnCRVVaultImpl_def deployYearnSPELLVaultImpl_def getYearnSPELLVaultImpl_def
    deploySturdyIncentivesControllerImpl_def getSturdyIncentivesControllerImpl_def
    deploySturdyTokenImpl_def getSturdyTokenImpl_def
  by (intro conjI allI list.pred_inject(1); (rule refl | (rule exI)+, rule refl))

section \<open>Properties\<close>

lemma deployAndSave_found:
  assumes "deployAndSave f l k xs v w = (Inr h, w')"
  shows "\<exists>w''. connectOrRegistered f None k w' = (Inr (h\<lparr>h_deployer := None\<rparr>), w'') \<and>
    codeAt w' (h_address h) = f \<and> bookkeeping w' w''"
proof -
  from deployAndSave_Inr [OF assms] obtain s where s: "fst (getFirstSigner w) = Inr (Some s)"
    and h: "h = \<lparr>h_address = next_address w, h_factory = f, h_signer = Some s, h_deployer = Some s\<rparr>"
    and db: "db_get k w' = Some \<lparr>entry_address = next_address w, entry_deployer = Some s\<rparr>"
    and c: "contracts w' (next_address w) = Some (new_contract f xs l)" and env: "same_environment w w'"
    unfolding deployed_as_def by auto
  from getFirstSigner_result [OF env] s have "fst (getFirstSigner w') = Inr (Some s)" by simp
  from connectOrRegistered_run [OF db this, of f] obtain w'' where
    run: "connectOrRegistered f None k w' = (Inr (connectAt f (next_address w) (Some s)), w'')" by auto
  with quietD [OF quiet_getters(3) run] c h show ?thesis
    by (simp add: connectAt_def codeAt_def new_contract_def)
qed

text \<open>C7. Whatever one of these 55 deployments returns is what its getter finds: the getter without
  an address, run next, connects to the same address with the same interface and signer, the
  account there holds the contract, and nothing else changes.\<close>

theorem getter_finds_deployment:
  assumes "(deploy, getter, factory, key) \<in> set (deploymentsWithGetters s args v)"
    and "deploy w = (Inr h, w')"
  shows "\<exists>w''. getter None w' = (Inr (h\<lparr>h_deployer := None\<rparr>), w'') \<and>
    codeAt w' (h_address h) = factory \<and> bookkeeping w' w''"
proof -
  from assms(1) deploymentsWithGetters_save [of s args v] obtain xs v' where
    "deploy = deployAndSave factory [] key xs v'" and "getter None = connectOrRegistered factory None key"
    by (fastforce simp: list_all_iff)
  with deployAndSave_found assms(2) show ?thesis by metis
qed

text \<open>C8. Without verification each of them returns, whatever the world, as soon as there is a
  first signer and the creation is accepted; the registry then has the contract under its key
  and no other entry has changed.\<close>

theorem deployment_succeeds_and_registers:
  assumes "(deploy, getter, factory, key) \<in> set (deploymentsWithGetters s args False)"
    and "fst (getFirstSigner w) = Inr (Some signer)" and "\<And>xs. \<not> creation_rejected w factory xs"
  shows "\<exists>h w'. deploy w = (Inr h, w') \<and> h_address h = next_address w \<and>
    db_get key w' = Some \<lparr>entry_address = next_address w, entry_deployer = Some signer\<rparr> \<and>
    (\<forall>k'. k' \<noteq> key \<longrightarrow> db_get k' w' = db_get k' w)"
proof -
  from assms(1) deploymentsWithGetters_save_only [of s args] obtain xs where
    d: "deploy = deployAndSave factory [] key xs False" by (fastforce simp: list_all_iff)
  from deployAndSave_run [OF assms(2,3)] obtain h w' where run: "deploy w = (Inr h, w')"
    unfolding d by blast
  with deployAndSave_Inr [OF run [unfolded d]] assms(2) show ?thesis
    by (auto simp: deployed_as_def)
qed

lemma sample_deployment:
  "(deployVaultWhitelist False, getVaultWhitelist, ''VaultWhitelist'', ''VaultWhitelist'')
     \<in> set (deploymentsWithGetters '''' [] False)"
  by (simp add: deploymentsWithGetters_def)

lemma sampleWorld_signer: "fst (getFirstSigner (sampleWorld n)) = Inr (Some ''0xA1'')"
  by (simp add: run_defs sampleWorld_def)

lemma sampleWorld_accepts: "\<not> creation_rejected (sampleWorld n) f xs"
  by (simp add: sampleWorld_def)

theorem deployment_succeeds_and_registers_witness:
  "\<exists>h w'. deployVaultWhitelist False (sampleWorld ''main'') = (Inr h, w') \<and>
    db_get ''VaultWhitelist'' w' = Some \<lparr>entry_address = ''0xC'', entry_deployer = Some ''0xA1''\<rparr>"
  using deployment_succeeds_and_registers [OF sample_deployment sampleWorld_signer [of "''main''"]]
  by (auto simp: sampleWorld_def next_address_def)

theorem getter_finds_deployment_witness:
  "\<exists>h w' w''. deployVaultWhitelist False (sampleWorld ''main'') = (Inr h, w') \<and>
    getVaultWhitelist None w' = (Inr (h\<lparr>h_deployer := None\<rparr>), w'')"
proof -
  obtain h w' where "deployVaultWhitelist False (sampleWorld ''main'') = (Inr h, w')"
    using deployAndSave_run [OF sampleWorld_signer sampleWorld_accepts]
    unfolding deployVaultWhitelist_def by blast
  with getter_finds_deployment [OF sample_deployment this] show ?thesis by blast
qed

text \<open>C24. Each of the 106 getters by key: with an address it connects to that address without
  looking at the registry; without one it connects to the registered address, and throws a
  \<open>TypeError\<close> when nothing is registered on the current network.\<close>

theorem getters_resolve:
  assumes "(getter, factory, key) \<in> set namedGetters" and "fst (getFirstSigner w) = Inr signer"
  shows "(\<forall>a. a \<noteq> '''' \<longrightarrow> (\<exists>w'. getter (Some a) w = (Inr (connectAt factory a signer), w'))) \<and>
    (case db_get key w of
       None \<Rightarrow> getter None w = (Inl (TypeError key), w)
     | Some e \<Rightarrow> \<exists>w'. getter None w = (Inr (connectAt factory (entry_address e) signer), w'))"
proof -
  from assms(1) namedGetters_connect have "\<forall>a. getter a = connectOrRegistered factory a key"
    by (fastforce simp: list_all_iff)
  then show ?thesis
    using connectOrRegistered_given [OF _ assms(2)] connectOrRegistered_missing
      connectOrRegistered_run [OF _ assms(2)]
    by (auto split: option.split)
qed

theorem getters_resolve_witness:
  "getLidoVault None (sampleWorld ''main'') = (Inl (TypeError ''LidoVault''), sampleWorld ''main'')"
proof -
  have "(getLidoVault, ''LidoVault'', ''LidoVault'') \<in> set namedGetters" by (simp add: namedGetters_def)
  from getters_resolve [OF this sampleWorld_signer [of "''main''"]] show ?thesis
    by (simp add: db_get_def sampleWorld_def)
qed

end
