(* ===== verification/Calculations.thy ===== *)
theory Calculations
  imports BigMath
begin

text \<open>
  \<open>test-suites/test-sturdy/helpers/utils/calculations.ts\<close>: what the scenarios expect of the reserve
  and of the user after each action of the lending pool. One definition per function under the
  function's name; \<open>bn\<close> is \<open>bignumber.js\<close> and \<open>reservesParams\<close> the module's mutable
  \<open>configuration.reservesParams\<close>, which the suite sets once. An object built from \<open>{}\<close> starts with all
  fields undefined. Parameters a function does not read are left out. Looking up a reserve that
  is not configured throws.
\<close>

section \<open>The data\<close>

record 'n UserReserveData =
  u_scaledATokenBalance :: 'n
  u_currentATokenBalance :: 'n
  u_currentStableDebt :: 'n
  u_currentVariableDebt :: 'n
  u_principalStableDebt :: 'n
  u_scaledVariableDebt :: 'n
  u_liquidityRate :: 'n
  u_stableBorrowRate :: 'n
  u_stableRateLastUpdated :: 'n
  u_usageAsCollateralEnabled :: "bool option"
  u_walletBalance :: 'n
  u_variableBorrowIndex :: 'n
  u_principalVariableDebt :: 'n

record 'n ReserveData =
  r_address :: "string option"
  r_symbol :: "string option"
  r_decimals :: 'n
  totalLiquidity :: 'n
  availableLiquidity :: 'n
  totalStableDebt :: 'n
  totalVariableDebt :: 'n
  principalStableDebt :: 'n
  scaledVariableDebt :: 'n
  averageStableBorrowRate :: 'n
  variableBorrowRate :: 'n
  stableBorrowRate :: 'n
  utilizationRate :: 'n
  liquidityIndex :: 'n
  variableBorrowIndex :: 'n
  r_aTokenAddress :: "string option"
  marketStableRate :: 'n
  lastUpdateTimestamp :: 'n
  totalStableDebtLastUpdated :: 'n
  liquidityRate :: 'n

definition emptyUserReserveData :: "'n bignumber \<Rightarrow> 'n UserReserveData" where
  "emptyUserReserveData bn = (let n = bn_undefined bn in
     \<lparr>u_scaledATokenBalance = n, u_currentATokenBalance = n, u_currentStableDebt = n,
      u_currentVariableDebt = n, u_principalStableDebt = n, u_scaledVariableDebt = n,
      u_liquidityRate = n, u_stableBorrowRate = n, u_stableRateLastUpdated = n,
      u_usageAsCollateralEnabled = None, u_walletBalance = n, u_variableBorrowIndex = n,
      u_principalVariableDebt = n\<rparr>)"

definition emptyReserveData :: "'n bignumber \<Rightarrow> 'n ReserveData" where
  "emptyReserveData bn = (let n = bn_undefined bn in
     \<lparr>r_address = None, r_symbol = None, r_decimals = n, totalLiquidity = n, availableLiquidity = n,
      totalStableDebt = n, totalVariableDebt = n, principalStableDebt = n, scaledVariableDebt = n,
      averageStableBorrowRate = n, variableBorrowRate = n, stableBorrowRate = n, utilizationRate = n,
      liquidityIndex = n, variableBorrowIndex = n, r_aTokenAddress = None, marketStableRate = n,
      lastUpdateTimestamp = n, totalStableDebtLastUpdated = n, liquidityRate = n\<rparr>)"

text \<open>\<open>RateMode.Stable\<close>.\<close>

definition RateMode_Stable :: string where
  "RateMode_Stable = ''1''"

definition strToBN :: "'n bignumber \<Rightarrow> string \<Rightarrow> 'n" where
  "strToBN bn amount = bn_new bn amount"

section \<open>Interest\<close>

definition calcLinearInterest :: "'n bignumber \<Rightarrow> 'n \<Rightarrow> 'n \<Rightarrow> 'n \<Rightarrow> 'n" where
  "calcLinearInterest bn rate currentTimestamp lastUpdate =
     (let timeDifference = bn_minus bn currentTimestamp lastUpdate in
      bn_plus bn (bn_div bn (bn_multipliedBy bn rate timeDifference) (bn_new bn ONE_YEAR)) (bn_new bn (RAY bn)))"

definition calcCompoundedInterest :: "'n bignumber \<Rightarrow> 'n \<Rightarrow> 'n \<Rightarrow> 'n \<Rightarrow> 'n" where
  "calcCompoundedInterest bn rate currentTimestamp lastUpdate =
     (let timeDifference = bn_minus bn currentTimestamp lastUpdate in
      if bn_eq bn timeDifference (bn_number bn 0) then bn_new bn (RAY bn)
      else let
        expMinusOne = bn_minus bn timeDifference (bn_number bn 1);
        expMinusTwo = (if bn_gt bn timeDifference (bn_number bn 2)
                       then bn_minus bn timeDifference (bn_number bn 2) else bn_number bn 0);
        ratePerSecond = bn_div bn rate (bn_new bn ONE_YEAR);
        basePowerTwo = rayMul bn ratePerSecond ratePerSecond;
        basePowerThree = rayMul bn basePowerTwo ratePerSecond;
        secondTerm = bn_div bn
          (bn_multipliedBy bn (bn_multipliedBy bn timeDifference expMinusOne) basePowerTwo) (bn_number bn 2);
        thirdTerm = bn_div bn
          (bn_multipliedBy bn (bn_multipliedBy bn (bn_multipliedBy bn timeDifference expMinusOne)
             expMinusTwo) basePowerThree) (bn_number bn 6)
      in bn_plus bn (bn_plus bn (bn_plus bn (bn_new bn (RAY bn))
           (bn_multipliedBy bn ratePerSecond timeDifference)) secondTerm) thirdTerm)"

section \<open>Balances and indexes\<close>

definition calcExpectedScaledATokenBalance ::
  "'n bignumber \<Rightarrow> 'n UserReserveData \<Rightarrow> 'n \<Rightarrow> 'n \<Rightarrow> 'n \<Rightarrow> 'n" where
  "calcExpectedScaledATokenBalance bn user index amountAdded amountTaken =
     bn_minus bn (bn_plus bn (u_scaledATokenBalance user) (rayDiv bn amountAdded index))
       (rayDiv bn amountTaken index)"

definition calcExpectedReserveNormalizedIncome :: "'n bignumber \<Rightarrow> 'n ReserveData \<Rightarrow> 'n \<Rightarrow> 'n" where
  "calcExpectedReserveNormalizedIncome bn reserve currentTimestamp =
     (if bn_eq bn (liquidityRate reserve) (bn_new bn ''0'') then liquidityIndex reserve
      else
        let cumulatedInterest = calcLinearInterest bn (liquidityRate reserve) currentTimestamp
              (lastUpdateTimestamp reserve)
        in rayMul bn cumulatedInterest (liquidityIndex reserve))"

definition calcExpectedATokenBalance ::
  "'n bignumber \<Rightarrow> 'n ReserveData \<Rightarrow> 'n UserReserveData \<Rightarrow> 'n \<Rightarrow> 'n" where
  "calcExpectedATokenBalance bn reserve user currentTimestamp =
     (let index = calcExpectedReserveNormalizedIncome bn reserve currentTimestamp in
      rayMul bn (u_scaledATokenBalance user) index)"

definition calcExpectedAverageStableBorrowRate :: "'n bignumber \<Rightarrow> 'n \<Rightarrow> 'n \<Rightarrow> 'n \<Rightarrow> 'n \<Rightarrow> 'n" where
  "calcExpectedAverageStableBorrowRate bn avgStableRateBefore totalStableDebtBefore amountChanged rate =
     (let weightedTotalBorrows = bn_multipliedBy bn avgStableRateBefore totalStableDebtBefore;
          weightedAmountBorrowed = bn_multipliedBy bn rate amountChanged;
          totalBorrowedStable = bn_plus bn totalStableDebtBefore amountChanged in
      if bn_eq bn totalBorrowedStable (bn_number bn 0) then bn_new bn ''0''
      else roundDown bn (bn_div bn (bn_plus bn weightedTotalBorrows weightedAmountBorrowed) totalBorrowedStable))"

definition calcExpectedAverageStableBorrowRateRebalance ::
  "'n bignumber \<Rightarrow> 'n \<Rightarrow> 'n \<Rightarrow> 'n \<Rightarrow> 'n \<Rightarrow> 'n" where
  "calcExpectedAverageStableBorrowRateRebalance bn avgStableRateBefore totalStableDebtBefore amountChanged rate =
     (let weightedTotalBorrows = rayMul bn avgStableRateBefore totalStableDebtBefore;
          weightedAmountBorrowed = rayMul bn rate (wadToRay bn amountChanged);
          totalBorrowedStable = bn_plus bn totalStableDebtBefore (wadToRay bn amountChanged) in
      if bn_eq bn totalBorrowedStable (bn_number bn 0) then bn_new bn ''0''
      else roundDown bn (rayDiv bn (bn_plus bn weightedTotalBorrows weightedAmountBorrowed) totalBorrowedStable))"

definition calcExpectedReserveNormalizedDebt :: "'n bignumber \<Rightarrow> 'n \<Rightarrow> 'n \<Rightarrow> 'n \<Rightarrow> 'n \<Rightarrow> 'n" where
  "calcExpectedReserveNormalizedDebt bn borrowRate borrowIndex lastUpdate currentTimestamp =
     (if bn_eq bn borrowRate (bn_new bn ''0'') then borrowIndex
      else
        let cumulatedInterest = calcCompoundedInterest bn borrowRate currentTimestamp lastUpdate
        in rayMul bn cumulatedInterest borrowIndex)"

definition calcExpectedVariableDebtTokenBalance ::
  "'n bignumber \<Rightarrow> 'n ReserveData \<Rightarrow> 'n UserReserveData \<Rightarrow> 'n \<Rightarrow> 'n" where
  "calcExpectedVariableDebtTokenBalance bn reserve user currentTimestamp =
     (let normalizedDebt = calcExpectedReserveNormalizedDebt bn (variableBorrowRate reserve)
            (variableBorrowIndex reserve) (lastUpdateTimestamp reserve) currentTimestamp in
      rayMul bn (u_scaledVariableDebt user) normalizedDebt)"

definition calcExpectedStableDebtTokenBalance :: "'n bignumber \<Rightarrow> 'n \<Rightarrow> 'n \<Rightarrow> 'n \<Rightarrow> 'n \<Rightarrow> 'n" where
  "calcExpectedStableDebtTokenBalance bn principalDebt rate rateLastUpdated currentTimestamp =
     (if bn_eq bn rate (bn_number bn 0) \<or> bn_eq bn currentTimestamp rateLastUpdated \<or>
         bn_eq bn rateLastUpdated (bn_number bn 0)
      then principalDebt
      else
        let cumulatedInterest = calcCompoundedInterest bn rate currentTimestamp rateLastUpdated
        in rayMul bn principalDebt cumulatedInterest)"

definition calcExpectedUserStableRate :: "'n bignumber \<Rightarrow> 'n \<Rightarrow> 'n \<Rightarrow> 'n \<Rightarrow> 'n \<Rightarrow> 'n" where
  "calcExpectedUserStableRate bn balanceBefore rateBefore amount rateNew =
     bn_div bn (bn_plus bn (bn_multipliedBy bn balanceBefore rateBefore) (bn_multipliedBy bn amount rateNew))
       (bn_plus bn balanceBefore amount)"

definition calcExpectedLiquidityIndex :: "'n bignumber \<Rightarrow> 'n ReserveData \<Rightarrow> 'n \<Rightarrow> 'n" where
  "calcExpectedLiquidityIndex bn reserve timestamp =
     (if bn_eq bn (utilizationRate reserve) (bn_new bn ''0'') then liquidityIndex reserve
      else
        let cumulatedInterest = calcLinearInterest bn (liquidityRate reserve) timestamp
              (lastUpdateTimestamp reserve)
        in rayMul bn cumulatedInterest (liquidityIndex reserve))"

definition calcExpectedVariableBorrowIndex :: "'n bignumber \<Rightarrow> 'n ReserveData \<Rightarrow> 'n \<Rightarrow> 'n" where
  "calcExpectedVariableBorrowIndex bn reserve timestamp =
     (if bn_eq bn (totalVariableDebt reserve) (bn_new bn ''0'') then variableBorrowIndex reserve
      else
        let cumulatedInterest = calcCompoundedInterest bn (variableBorrowRate reserve) timestamp
              (lastUpdateTimestamp reserve)
        in rayMul bn cumulatedInterest (variableBorrowIndex reserve))"

definition calcExpectedTotalStableDebt :: "'n bignumber \<Rightarrow> 'n \<Rightarrow> 'n \<Rightarrow> 'n \<Rightarrow> 'n \<Rightarrow> 'n" where
  "calcExpectedTotalStableDebt bn principalDebt averageRate lastUpdate currentTimestamp =
     (let cumulatedInterest = calcCompoundedInterest bn averageRate currentTimestamp lastUpdate in
      rayMul bn cumulatedInterest principalDebt)"

definition calcExpectedTotalVariableDebt :: "'n bignumber \<Rightarrow> 'n ReserveData \<Rightarrow> 'n \<Rightarrow> 'n" where
  "calcExpectedTotalVariableDebt bn reserve expectedVariableDebtIndex =
     rayMul bn (scaledVariableDebt reserve) expectedVariableDebtIndex"

section \<open>Rates\<close>

definition calcExpectedOverallBorrowRate :: "'n bignumber \<Rightarrow> 'n \<Rightarrow> 'n \<Rightarrow> 'n \<Rightarrow> 'n \<Rightarrow> 'n" where
  "calcExpectedOverallBorrowRate bn stableDebt variableDebt currentVariableBorrowRate currentAverageStableBorrowRate =
     (let totalBorrows = bn_plus bn stableDebt variableDebt in
      if bn_eq bn totalBorrows (bn_number bn 0) then strToBN bn ''0''
      else
        let weightedVariableRate = rayMul bn (wadToRay bn variableDebt) currentVariableBorrowRate;
            weightedStableRate = rayMul bn (wadToRay bn stableDebt) currentAverageStableBorrowRate
        in rayDiv bn (bn_plus bn weightedVariableRate weightedStableRate) (wadToRay bn totalBorrows))"

definition calcExpectedUtilizationRate :: "'n bignumber \<Rightarrow> 'n \<Rightarrow> 'n \<Rightarrow> 'n \<Rightarrow> 'n" where
  "calcExpectedUtilizationRate bn stableDebt variableDebt liquidity =
     (if bn_eq bn stableDebt (bn_new bn ''0'') \<and> bn_eq bn variableDebt (bn_new bn ''0'') then strToBN bn ''0''
      else rayDiv bn (bn_plus bn stableDebt variableDebt) liquidity)"

text \<open>The result is the array of the liquidity, the stable and the variable rate.\<close>

definition calcExpectedInterestRates ::
  "'n bignumber \<Rightarrow> IReserveParams jsobj \<Rightarrow> string option \<Rightarrow> 'n \<Rightarrow> 'n \<Rightarrow> 'n \<Rightarrow> 'n \<Rightarrow> 'n \<Rightarrow> error + 'n \<times> 'n \<times> 'n" where
  "calcExpectedInterestRates bn reservesParams reserveSymbol marketRate utilization stableDebt variableDebt averageRate =
     (case findIndex (\<lambda>value. Some value = reserveSymbol) (obj_keys reservesParams) of
        None \<Rightarrow> Inl (TypeError ''undefined is not iterable'')
      | Some reserveIndex \<Rightarrow>
          let reserveConfiguration = snd (reservesParams ! reserveIndex);
              params = strategy reserveConfiguration;
              optimalRate = bn_new bn (optimalUtilizationRate params);
              excessRate = bn_minus bn (bn_new bn (RAY bn)) optimalRate;
              (stableRate, variableRate) =
                (if bn_gt bn utilization optimalRate then
                   let excessUtilizationRateRatio =
                         rayDiv bn (bn_minus bn utilization (bn_new bn (optimalUtilizationRate params))) excessRate in
                   (bn_plus bn (bn_plus bn marketRate (bn_new bn (stableRateSlope1 params)))
                      (rayMul bn (bn_new bn (stableRateSlope2 params)) excessUtilizationRateRatio),
                    bn_plus bn (bn_plus bn (bn_new bn (baseVariableBorrowRate params))
                      (bn_new bn (variableRateSlope1 params)))
                      (rayMul bn (bn_new bn (variableRateSlope2 params)) excessUtilizationRateRatio))
                 else
                   (bn_plus bn marketRate
                      (rayMul bn (bn_new bn (stableRateSlope1 params)) (rayDiv bn utilization optimalRate)),
                    bn_plus bn (bn_new bn (baseVariableBorrowRate params))
                      (rayMul bn (rayDiv bn utilization optimalRate) (bn_new bn (variableRateSlope1 params)))));
              expectedOverallRate = calcExpectedOverallBorrowRate bn stableDebt variableDebt variableRate averageRate;
              liquidity = percentMul bn (rayMul bn expectedOverallRate utilization)
                (bn_minus bn (bn_new bn PERCENTAGE_FACTOR) (bn_new bn (reserveFactor reserveConfiguration)))
          in Inr (liquidity, stableRate, variableRate))"

text \<open>The three assignments \<open>rates[0]\<close>, \<open>rates[1]\<close>, \<open>rates[2]\<close>.\<close>

definition setRates :: "'n \<times> 'n \<times> 'n \<Rightarrow> 'n ReserveData \<Rightarrow> 'n ReserveData" where
  "setRates rates e = (case rates of (r0, r1, r2) \<Rightarrow>
     e\<lparr>liquidityRate := r0, stableBorrowRate := r1, variableBorrowRate := r2\<rparr>)"

section \<open>Deposit and withdrawal\<close>

definition calcExpectedUserDataAfterDeposit ::
  "'n bignumber \<Rightarrow> string \<Rightarrow> 'n ReserveData \<Rightarrow> 'n ReserveData \<Rightarrow> 'n UserReserveData \<Rightarrow> 'n \<Rightarrow> string \<Rightarrow>
   'n UserReserveData" where
  "calcExpectedUserDataAfterDeposit bn amountDeposited before after user txTimestamp reserveSymbol =
     (let e = emptyUserReserveData bn;
          e = e\<lparr>u_currentStableDebt := calcExpectedStableDebtTokenBalance bn (u_principalStableDebt user)
                 (u_stableBorrowRate user) (u_stableRateLastUpdated user) txTimestamp\<rparr>;
          e = e\<lparr>u_currentVariableDebt := calcExpectedVariableDebtTokenBalance bn before user txTimestamp\<rparr>;
          e = e\<lparr>u_principalStableDebt := u_principalStableDebt user,
                u_scaledVariableDebt := u_scaledVariableDebt user,
                u_variableBorrowIndex := u_variableBorrowIndex user,
                u_stableBorrowRate := u_stableBorrowRate user,
                u_stableRateLastUpdated := u_stableRateLastUpdated user,
                u_liquidityRate := liquidityRate after\<rparr>;
          e = e\<lparr>u_scaledATokenBalance := calcExpectedScaledATokenBalance bn user (liquidityIndex after)
                 (bn_new bn amountDeposited) (bn_number bn 0)\<rparr>;
          e = e\<lparr>u_currentATokenBalance := bn_plus bn (calcExpectedATokenBalance bn before user txTimestamp)
                 (bn_new bn amountDeposited)\<rparr>;
          e = (if (case obj_get (SturdyReservesConfig (bignumber_js.truncate bn)) reserveSymbol of
                     None \<Rightarrow> False | Some params \<Rightarrow> collateralEnabled params) \<and>
                  bn_eq bn (u_currentATokenBalance user) (bn_number bn 0)
               then e\<lparr>u_usageAsCollateralEnabled := Some True\<rparr>
               else e\<lparr>u_usageAsCollateralEnabled := u_usageAsCollateralEnabled user\<rparr>);
          e = e\<lparr>u_variableBorrowIndex := u_variableBorrowIndex user,
                u_walletBalance := bn_minus bn (u_walletBalance user) (bn_new bn amountDeposited)\<rparr>;
          stableDebt = calcExpectedStableDebtTokenBalance bn (u_principalStableDebt user)
                 (u_stableBorrowRate user) (u_stableRateLastUpdated user) txTimestamp;
          e = e\<lparr>u_principalStableDebt := stableDebt, u_currentStableDebt := stableDebt\<rparr>;
          variableDebt = calcExpectedVariableDebtTokenBalance bn before user txTimestamp;
          e = e\<lparr>u_principalStableDebt := variableDebt, u_currentVariableDebt := variableDebt\<rparr>
      in e)"

definition calcExpectedUserDataAfterWithdraw ::
  "'n bignumber \<Rightarrow> string \<Rightarrow> 'n ReserveData \<Rightarrow> 'n ReserveData \<Rightarrow> 'n UserReserveData \<Rightarrow> 'n \<Rightarrow>
   'n UserReserveData" where
  "calcExpectedUserDataAfterWithdraw bn amountWithdrawn before after user txTimestamp =
     (let e = emptyUserReserveData bn;
          aTokenBalance = calcExpectedATokenBalance bn before user txTimestamp;
          amountWithdrawn = (if amountWithdrawn = MAX_UINT_AMOUNT
                             then bn_toFixedPlaces bn aTokenBalance 0 else amountWithdrawn);
          e = e\<lparr>u_scaledATokenBalance := calcExpectedScaledATokenBalance bn user (liquidityIndex after)
                 (bn_number bn 0) (bn_new bn amountWithdrawn)\<rparr>;
          e = e\<lparr>u_currentATokenBalance := bn_minus bn aTokenBalance (bn_new bn amountWithdrawn)\<rparr>;
          e = e\<lparr>u_principalStableDebt := u_principalStableDebt user,
                u_scaledVariableDebt := u_scaledVariableDebt user\<rparr>;
          e = e\<lparr>u_currentStableDebt := calcExpectedStableDebtTokenBalance bn (u_principalStableDebt user)
                 (u_stableBorrowRate user) (u_stableRateLastUpdated user) txTimestamp\<rparr>;
          e = e\<lparr>u_currentVariableDebt := calcExpectedVariableDebtTokenBalance bn before user txTimestamp\<rparr>;
          e = e\<lparr>u_variableBorrowIndex := u_variableBorrowIndex user,
                u_stableBorrowRate := u_stableBorrowRate user,
                u_stableRateLastUpdated := u_stableRateLastUpdated user,
                u_liquidityRate := liquidityRate after\<rparr>;
          e = (if bn_eq bn (u_currentATokenBalance user) (bn_number bn 0)
               then e\<lparr>u_usageAsCollateralEnabled := Some True\<rparr>
               else if bn_eq bn (u_currentATokenBalance e) (bn_number bn 0)
               then e\<lparr>u_usageAsCollateralEnabled := Some False\<rparr>
               else e\<lparr>u_usageAsCollateralEnabled := u_usageAsCollateralEnabled user\<rparr>);
          e = e\<lparr>u_walletBalance := bn_plus bn (u_walletBalance user) (bn_new bn amountWithdrawn)\<rparr>
      in e)"

definition calcExpectedReserveDataAfterDeposit ::
  "'n bignumber \<Rightarrow> IReserveParams jsobj \<Rightarrow> string \<Rightarrow> 'n ReserveData \<Rightarrow> 'n \<Rightarrow> error + 'n ReserveData" where
  "calcExpectedReserveDataAfterDeposit bn reservesParams amountDeposited before txTimestamp =
     (let e = emptyReserveData bn;
          e = e\<lparr>r_address := r_address before\<rparr>;
          e = e\<lparr>totalLiquidity := bn_plus bn (totalLiquidity before) (bn_new bn amountDeposited),
                availableLiquidity := bn_plus bn (availableLiquidity before) (bn_new bn amountDeposited)\<rparr>;
          e = e\<lparr>averageStableBorrowRate := averageStableBorrowRate before,
                liquidityIndex := calcExpectedLiquidityIndex bn before txTimestamp,
                variableBorrowIndex := calcExpectedVariableBorrowIndex bn before txTimestamp\<rparr>;
          e = e\<lparr>totalStableDebt := calcExpectedTotalStableDebt bn (principalStableDebt before)
                 (averageStableBorrowRate before) (totalStableDebtLastUpdated before) txTimestamp\<rparr>;
          e = e\<lparr>totalVariableDebt := calcExpectedTotalVariableDebt bn before (variableBorrowIndex e)\<rparr>;
          e = e\<lparr>scaledVariableDebt := scaledVariableDebt before,
                principalStableDebt := principalStableDebt before\<rparr>;
          e = e\<lparr>utilizationRate := calcExpectedUtilizationRate bn (totalStableDebt e) (totalVariableDebt e)
                 (totalLiquidity e)\<rparr>
      in bindSum (calcExpectedInterestRates bn reservesParams (r_symbol before) (marketStableRate before)
           (utilizationRate e) (totalStableDebt e) (totalVariableDebt e) (averageStableBorrowRate e)) (\<lambda>rates.
         Inr (setRates rates e)))"

definition calcExpectedReserveDataAfterWithdraw ::
  "'n bignumber \<Rightarrow> IReserveParams jsobj \<Rightarrow> string \<Rightarrow> 'n ReserveData \<Rightarrow> 'n UserReserveData \<Rightarrow> 'n \<Rightarrow>
   error + 'n ReserveData" where
  "calcExpectedReserveDataAfterWithdraw bn reservesParams amountWithdrawn before user txTimestamp =
     (let e = emptyReserveData bn;
          e = e\<lparr>r_address := r_address before\<rparr>;
          amountWithdrawn = (if amountWithdrawn = MAX_UINT_AMOUNT
                             then bn_toFixed bn (calcExpectedATokenBalance bn before user txTimestamp)
                             else amountWithdrawn);
          e = e\<lparr>availableLiquidity := bn_minus bn (availableLiquidity before) (bn_new bn amountWithdrawn)\<rparr>;
          e = e\<lparr>principalStableDebt := principalStableDebt before,
                scaledVariableDebt := scaledVariableDebt before\<rparr>;
          e = e\<lparr>liquidityIndex := calcExpectedLiquidityIndex bn before txTimestamp,
                variableBorrowIndex := calcExpectedVariableBorrowIndex bn before txTimestamp\<rparr>;
          e = e\<lparr>totalStableDebt := calcExpectedTotalStableDebt bn (principalStableDebt before)
                 (averageStableBorrowRate before) (totalStableDebtLastUpdated before) txTimestamp\<rparr>;
          e = e\<lparr>totalVariableDebt := rayMul bn (scaledVariableDebt e) (variableBorrowIndex e)\<rparr>;
          e = e\<lparr>averageStableBorrowRate := averageStableBorrowRate before\<rparr>;
          e = e\<lparr>totalLiquidity := bn_plus bn (bn_plus bn
                 (bn_minus bn (availableLiquidity before) (bn_new bn amountWithdrawn))
                 (totalVariableDebt e)) (totalStableDebt e)\<rparr>;
          e = e\<lparr>utilizationRate := calcExpectedUtilizationRate bn (totalStableDebt e) (totalVariableDebt e)
                 (totalLiquidity e)\<rparr>
      in bindSum (calcExpectedInterestRates bn reservesParams (r_symbol before) (marketStableRate before)
           (utilizationRate e) (totalStableDebt e) (totalVariableDebt e) (averageStableBorrowRate e)) (\<lambda>rates.
         Inr (setRates rates e)))"

section \<open>Borrowing\<close>

definition calcExpectedReserveDataAfterBorrow ::
  "'n bignumber \<Rightarrow> IReserveParams jsobj \<Rightarrow> string \<Rightarrow> string \<Rightarrow> 'n ReserveData \<Rightarrow> 'n \<Rightarrow> 'n \<Rightarrow>
   error + 'n ReserveData" where
  "calcExpectedReserveDataAfterBorrow bn reservesParams amountBorrowed borrowRateMode before txTimestamp currentTimestamp =
     (let e = emptyReserveData bn;
          e = e\<lparr>r_address := r_address before\<rparr>;
          amountBorrowedBN = bn_new bn amountBorrowed;
          e = e\<lparr>liquidityIndex := calcExpectedLiquidityIndex bn before txTimestamp\<rparr>;
          e = e\<lparr>variableBorrowIndex := calcExpectedVariableBorrowIndex bn before txTimestamp\<rparr>;
          e = e\<lparr>availableLiquidity := bn_minus bn (availableLiquidity before) amountBorrowedBN\<rparr>;
          e = e\<lparr>lastUpdateTimestamp := txTimestamp\<rparr>
      in if borrowRateMode = RateMode_Stable then
        (let e = e\<lparr>scaledVariableDebt := scaledVariableDebt before\<rparr>;
             expectedVariableDebtAfterTx = rayMul bn (scaledVariableDebt e) (variableBorrowIndex e);
             expectedStableDebtUntilTx = calcExpectedTotalStableDebt bn (principalStableDebt before)
               (averageStableBorrowRate before) (totalStableDebtLastUpdated before) txTimestamp;
             e = e\<lparr>principalStableDebt := bn_plus bn expectedStableDebtUntilTx amountBorrowedBN\<rparr>;
             e = e\<lparr>averageStableBorrowRate := calcExpectedAverageStableBorrowRate bn
               (averageStableBorrowRate before) expectedStableDebtUntilTx amountBorrowedBN
               (stableBorrowRate before)\<rparr>;
             totalLiquidityAfterTx = bn_plus bn (bn_plus bn (availableLiquidity e) (principalStableDebt e))
               expectedVariableDebtAfterTx;
             utilizationRateAfterTx = calcExpectedUtilizationRate bn (principalStableDebt e)
               expectedVariableDebtAfterTx totalLiquidityAfterTx
         in bindSum (calcExpectedInterestRates bn reservesParams (r_symbol before) (marketStableRate before)
              utilizationRateAfterTx (principalStableDebt e) expectedVariableDebtAfterTx
              (averageStableBorrowRate e)) (\<lambda>ratesAfterTx.
            let e = setRates ratesAfterTx e;
                e = e\<lparr>totalStableDebt := calcExpectedTotalStableDebt bn (principalStableDebt e)
                  (averageStableBorrowRate e) txTimestamp currentTimestamp\<rparr>;
                e = e\<lparr>totalVariableDebt := rayMul bn (scaledVariableDebt before)
                  (calcExpectedReserveNormalizedDebt bn (variableBorrowRate e) (variableBorrowIndex e)
                     txTimestamp currentTimestamp)\<rparr>;
                e = e\<lparr>totalLiquidity := bn_plus bn (bn_plus bn (availableLiquidity e) (totalVariableDebt e))
                  (totalStableDebt e)\<rparr>;
                e = e\<lparr>utilizationRate := calcExpectedUtilizationRate bn (totalStableDebt e)
                  (totalVariableDebt e) (totalLiquidity e)\<rparr>
            in Inr e))
      else
        (let e = e\<lparr>principalStableDebt := principalStableDebt before\<rparr>;
             totalStableDebtAfterTx = calcExpectedStableDebtTokenBalance bn (principalStableDebt before)
               (averageStableBorrowRate before) (totalStableDebtLastUpdated before) txTimestamp;
             e = e\<lparr>totalStableDebt := calcExpectedTotalStableDebt bn (principalStableDebt before)
               (averageStableBorrowRate before) (totalStableDebtLastUpdated before) currentTimestamp\<rparr>;
             e = e\<lparr>averageStableBorrowRate := averageStableBorrowRate before\<rparr>;
             e = e\<lparr>scaledVariableDebt := bn_plus bn (scaledVariableDebt before)
               (rayDiv bn amountBorrowedBN (variableBorrowIndex e))\<rparr>;
             totalVariableDebtAfterTx = rayMul bn (scaledVariableDebt e) (variableBorrowIndex e);
             utilizationRateAfterTx = calcExpectedUtilizationRate bn totalStableDebtAfterTx
               totalVariableDebtAfterTx
               (bn_plus bn (bn_plus bn (availableLiquidity e) totalStableDebtAfterTx) totalVariableDebtAfterTx)
         in bindSum (calcExpectedInterestRates bn reservesParams (r_symbol before) (marketStableRate before)
              utilizationRateAfterTx totalStableDebtAfterTx totalVariableDebtAfterTx
              (averageStableBorrowRate e)) (\<lambda>rates.
            let e = setRates rates e;
                e = e\<lparr>totalVariableDebt := rayMul bn (scaledVariableDebt e)
                  (calcExpectedReserveNormalizedDebt bn (variableBorrowRate e) (variableBorrowIndex e)
                     txTimestamp currentTimestamp)\<rparr>;
                e = e\<lparr>totalLiquidity := bn_plus bn (bn_plus bn (availableLiquidity e) (totalStableDebt e))
                  (totalVariableDebt e)\<rparr>;
                e = e\<lparr>utilizationRate := calcExpectedUtilizationRate bn (totalStableDebt e)
                  (totalVariableDebt e) (totalLiquidity e)\<rparr>
            in Inr e)))"

definition calcExpectedUserDataAfterBorrow ::
  "'n bignumber \<Rightarrow> string \<Rightarrow> string \<Rightarrow> 'n ReserveData \<Rightarrow> 'n ReserveData \<Rightarrow> 'n UserReserveData \<Rightarrow> 'n \<Rightarrow> 'n \<Rightarrow>
   'n UserReserveData" where
  "calcExpectedUserDataAfterBorrow bn amountBorrowed interestRateMode before expectedAfter user txTimestamp currentTimestamp =
     (let e = emptyUserReserveData bn;
          amountBorrowedBN = bn_new bn amountBorrowed;
          e = (if interestRateMode = RateMode_Stable then
                 (let stableDebtUntilTx = calcExpectedStableDebtTokenBalance bn (u_principalStableDebt user)
                        (u_stableBorrowRate user) (u_stableRateLastUpdated user) txTimestamp;
                      e = e\<lparr>u_principalStableDebt := bn_plus bn stableDebtUntilTx (bn_new bn amountBorrowed),
                            u_stableRateLastUpdated := txTimestamp\<rparr>;
                      e = e\<lparr>u_stableBorrowRate := calcExpectedUserStableRate bn stableDebtUntilTx
                        (u_stableBorrowRate user) amountBorrowedBN (stableBorrowRate before)\<rparr>;
                      e = e\<lparr>u_currentStableDebt := calcExpectedStableDebtTokenBalance bn
                        (u_principalStableDebt e) (u_stableBorrowRate e) txTimestamp currentTimestamp\<rparr>
                  in e\<lparr>u_scaledVariableDebt := u_scaledVariableDebt user\<rparr>)
               else
                 (let e = e\<lparr>u_scaledVariableDebt := bn_plus bn (u_scaledVariableDebt user)
                        (rayDiv bn amountBorrowedBN (variableBorrowIndex expectedAfter))\<rparr>;
                      e = e\<lparr>u_principalStableDebt := u_principalStableDebt user,
                            u_stableBorrowRate := u_stableBorrowRate user,
                            u_stableRateLastUpdated := u_stableRateLastUpdated user\<rparr>
                  in e\<lparr>u_currentStableDebt := calcExpectedStableDebtTokenBalance bn (u_principalStableDebt user)
                        (u_stableBorrowRate user) (u_stableRateLastUpdated user) currentTimestamp\<rparr>));
          e = e\<lparr>u_currentVariableDebt := calcExpectedVariableDebtTokenBalance bn expectedAfter e currentTimestamp\<rparr>;
          e = e\<lparr>u_liquidityRate := liquidityRate expectedAfter,
                u_usageAsCollateralEnabled := u_usageAsCollateralEnabled user\<rparr>;
          e = e\<lparr>u_currentATokenBalance := calcExpectedATokenBalance bn expectedAfter user currentTimestamp\<rparr>;
          e = e\<lparr>u_scaledATokenBalance := u_scaledATokenBalance user,
                u_walletBalance := bn_plus bn (u_walletBalance user) (bn_new bn amountBorrowed)\<rparr>
      in e)"

section \<open>Repayment\<close>

definition calcExpectedReserveDataAfterRepay ::
  "'n bignumber \<Rightarrow> IReserveParams jsobj \<Rightarrow> string \<Rightarrow> string \<Rightarrow> 'n ReserveData \<Rightarrow> 'n UserReserveData \<Rightarrow> 'n \<Rightarrow>
   error + 'n ReserveData" where
  "calcExpectedReserveDataAfterRepay bn reservesParams amountRepaid borrowRateMode before user txTimestamp =
     (let e = emptyReserveData bn;
          e = e\<lparr>r_address := r_address before\<rparr>;
          amountRepaidBN = bn_new bn amountRepaid;
          userStableDebt = calcExpectedStableDebtTokenBalance bn (u_principalStableDebt user)
            (u_stableBorrowRate user) (u_stableRateLastUpdated user) txTimestamp;
          userVariableDebt = calcExpectedVariableDebtTokenBalance bn before user txTimestamp;
          amountRepaidBN = (if bn_eq bn (bn_abs bn amountRepaidBN) (bn_new bn MAX_UINT_AMOUNT)
                            then (if borrowRateMode = RateMode_Stable then userStableDebt else userVariableDebt)
                            else amountRepaidBN);
          e = e\<lparr>liquidityIndex := calcExpectedLiquidityIndex bn before txTimestamp\<rparr>;
          e = e\<lparr>variableBorrowIndex := calcExpectedVariableBorrowIndex bn before txTimestamp\<rparr>;
          e = (if borrowRateMode = RateMode_Stable then
                 (let expectedDebt = calcExpectedTotalStableDebt bn (principalStableDebt before)
                        (averageStableBorrowRate before) (totalStableDebtLastUpdated before) txTimestamp;
                      newDebt = bn_minus bn expectedDebt amountRepaidBN;
                      e = e\<lparr>totalStableDebt := newDebt, principalStableDebt := newDebt\<rparr>;
                      zeroStable = (\<lambda>e. e\<lparr>averageStableBorrowRate := bn_number bn 0,
                        totalStableDebt := bn_number bn 0, principalStableDebt := bn_number bn 0\<rparr>);
                      e = (if bn_lt bn (totalStableDebt e) (bn_number bn 0) then zeroStable e
                           else
                             (let e = e\<lparr>averageStableBorrowRate := calcExpectedAverageStableBorrowRate bn
                                    (averageStableBorrowRate before) expectedDebt (bn_negated bn amountRepaidBN)
                                    (u_stableBorrowRate user)\<rparr>
                              in if bn_lt bn (averageStableBorrowRate e) (bn_number bn 0) then zeroStable e else e));
                      e = e\<lparr>scaledVariableDebt := scaledVariableDebt before\<rparr>
                  in e\<lparr>totalVariableDebt := rayMul bn (scaledVariableDebt e) (variableBorrowIndex e)\<rparr>)
               else
                 (let e = e\<lparr>scaledVariableDebt := bn_minus bn (scaledVariableDebt before)
                        (rayDiv bn amountRepaidBN (variableBorrowIndex e))\<rparr>;
                      e = e\<lparr>totalVariableDebt := rayMul bn (scaledVariableDebt e) (variableBorrowIndex e)\<rparr>
                  in e\<lparr>principalStableDebt := principalStableDebt before,
                       totalStableDebt := totalStableDebt before,
                       averageStableBorrowRate := averageStableBorrowRate before\<rparr>));
          e = e\<lparr>availableLiquidity := bn_plus bn (availableLiquidity before) amountRepaidBN\<rparr>;
          e = e\<lparr>totalLiquidity := bn_plus bn (bn_plus bn (availableLiquidity e) (totalStableDebt e))
                 (totalVariableDebt e)\<rparr>;
          e = e\<lparr>utilizationRate := calcExpectedUtilizationRate bn (totalStableDebt e) (totalVariableDebt e)
                 (totalLiquidity e)\<rparr>
      in bindSum (calcExpectedInterestRates bn reservesParams (r_symbol before) (marketStableRate before)
           (utilizationRate e) (totalStableDebt e) (totalVariableDebt e) (averageStableBorrowRate e)) (\<lambda>rates.
         Inr ((setRates rates e)\<lparr>lastUpdateTimestamp := txTimestamp\<rparr>)))"

definition calcExpectedUserDataAfterRepay ::
  "'n bignumber \<Rightarrow> string \<Rightarrow> string \<Rightarrow> 'n ReserveData \<Rightarrow> 'n ReserveData \<Rightarrow> 'n UserReserveData \<Rightarrow> string \<Rightarrow> string \<Rightarrow>
   'n \<Rightarrow> 'n \<Rightarrow> 'n UserReserveData" where
  "calcExpectedUserDataAfterRepay bn totalRepaid rateMode before expectedAfter user payer onBehalfOf txTimestamp
     currentTimestamp =
     (let e = emptyUserReserveData bn;
          variableDebt = calcExpectedVariableDebtTokenBalance bn before user currentTimestamp;
          stableDebt = calcExpectedStableDebtTokenBalance bn (u_principalStableDebt user)
            (u_stableBorrowRate user) (u_stableRateLastUpdated user) currentTimestamp;
          totalRepaidBN = bn_new bn totalRepaid;
          totalRepaidBN = (if bn_eq bn (bn_abs bn totalRepaidBN) (bn_new bn MAX_UINT_AMOUNT)
                           then (if rateMode = RateMode_Stable then stableDebt else variableDebt)
                           else totalRepaidBN);
          e = (if rateMode = RateMode_Stable then
                 (let e = e\<lparr>u_scaledVariableDebt := u_scaledVariableDebt user,
                            u_currentVariableDebt := variableDebt\<rparr>;
                      newDebt = bn_minus bn stableDebt totalRepaidBN;
                      e = e\<lparr>u_currentStableDebt := newDebt, u_principalStableDebt := newDebt\<rparr>
                  in if bn_eq bn (u_currentStableDebt e) (bn_new bn ''0'')
                     then e\<lparr>u_stableRateLastUpdated := bn_new bn ''0'', u_stableBorrowRate := bn_new bn ''0''\<rparr>
                     else e\<lparr>u_stableBorrowRate := u_stableBorrowRate user,
                            u_stableRateLastUpdated := txTimestamp\<rparr>)
               else
                 (let e = e\<lparr>u_currentStableDebt := u_principalStableDebt user,
                            u_principalStableDebt := stableDebt,
                            u_stableBorrowRate := u_stableBorrowRate user,
                            u_stableRateLastUpdated := u_stableRateLastUpdated user\<rparr>;
                      e = e\<lparr>u_scaledVariableDebt := bn_minus bn (u_scaledVariableDebt user)
                        (rayDiv bn totalRepaidBN (variableBorrowIndex expectedAfter))\<rparr>
                  in e\<lparr>u_currentVariableDebt := rayMul bn (u_scaledVariableDebt e)
                        (variableBorrowIndex expectedAfter)\<rparr>));
          e = e\<lparr>u_liquidityRate := liquidityRate expectedAfter,
                u_usageAsCollateralEnabled := u_usageAsCollateralEnabled user\<rparr>;
          e = e\<lparr>u_currentATokenBalance := calcExpectedATokenBalance bn before user txTimestamp,
                u_scaledATokenBalance := u_scaledATokenBalance user\<rparr>
      in if payer = onBehalfOf
         then e\<lparr>u_walletBalance := bn_minus bn (u_walletBalance user) totalRepaidBN\<rparr>
         else e\<lparr>u_walletBalance := u_walletBalance user\<rparr>)"

definition calcExpectedUserDataAfterSetUseAsCollateral ::
  "bool \<Rightarrow> 'n UserReserveData \<Rightarrow> 'n UserReserveData" where
  "calcExpectedUserDataAfterSetUseAsCollateral useAsCollateral user =
     user\<lparr>u_usageAsCollateralEnabled := Some useAsCollateral\<rparr>"

section \<open>Rate modes\<close>

definition calcExpectedReserveDataAfterSwapRateMode ::
  "'n bignumber \<Rightarrow> IReserveParams jsobj \<Rightarrow> 'n ReserveData \<Rightarrow> 'n UserReserveData \<Rightarrow> string \<Rightarrow> 'n \<Rightarrow>
   error + 'n ReserveData" where
  "calcExpectedReserveDataAfterSwapRateMode bn reservesParams before user rateMode txTimestamp =
     (let e = emptyReserveData bn;
          e = e\<lparr>r_address := r_address before\<rparr>;
          variableDebt = calcExpectedVariableDebtTokenBalance bn before user txTimestamp;
          stableDebt = calcExpectedStableDebtTokenBalance bn (u_principalStableDebt user)
            (u_stableBorrowRate user) (u_stableRateLastUpdated user) txTimestamp;
          e = e\<lparr>liquidityIndex := calcExpectedLiquidityIndex bn before txTimestamp\<rparr>;
          e = e\<lparr>variableBorrowIndex := calcExpectedVariableBorrowIndex bn before txTimestamp\<rparr>;
          e = e\<lparr>availableLiquidity := availableLiquidity before\<rparr>;
          totalStableDebtUntilTx = calcExpectedTotalStableDebt bn (principalStableDebt before)
            (averageStableBorrowRate before) (totalStableDebtLastUpdated before) txTimestamp;
          e = (if rateMode = RateMode_Stable then
                 (let e = e\<lparr>scaledVariableDebt := bn_plus bn (scaledVariableDebt before)
                        (rayDiv bn stableDebt (variableBorrowIndex e))\<rparr>;
                      e = e\<lparr>totalVariableDebt := rayMul bn (scaledVariableDebt e) (variableBorrowIndex e)\<rparr>;
                      newDebt = bn_minus bn totalStableDebtUntilTx stableDebt;
                      e = e\<lparr>totalStableDebt := newDebt, principalStableDebt := newDebt\<rparr>
                  in e\<lparr>averageStableBorrowRate := calcExpectedAverageStableBorrowRate bn
                       (averageStableBorrowRate before) (bn_plus bn (principalStableDebt e) stableDebt)
                       (bn_negated bn stableDebt) (u_stableBorrowRate user)\<rparr>)
               else
                 (let newDebt = bn_plus bn totalStableDebtUntilTx variableDebt;
                      e = e\<lparr>totalStableDebt := newDebt, principalStableDebt := newDebt\<rparr>;
                      e = e\<lparr>scaledVariableDebt := bn_minus bn (scaledVariableDebt before)
                        (rayDiv bn variableDebt (variableBorrowIndex e))\<rparr>;
                      e = e\<lparr>totalVariableDebt := rayMul bn (scaledVariableDebt e) (variableBorrowIndex e)\<rparr>
                  in e\<lparr>averageStableBorrowRate := calcExpectedAverageStableBorrowRate bn
                       (averageStableBorrowRate before) (totalStableDebt before) variableDebt
                       (stableBorrowRate before)\<rparr>));
          e = e\<lparr>totalLiquidity := bn_plus bn (bn_plus bn (availableLiquidity before) (totalStableDebt e))
                 (totalVariableDebt e)\<rparr>;
          e = e\<lparr>utilizationRate := calcExpectedUtilizationRate bn (totalStableDebt e) (totalVariableDebt e)
                 (totalLiquidity e)\<rparr>
      in bindSum (calcExpectedInterestRates bn reservesParams (r_symbol before) (marketStableRate before)
           (utilizationRate e) (totalStableDebt e) (totalVariableDebt e) (averageStableBorrowRate e)) (\<lambda>rates.
         Inr (setRates rates e)))"

definition calcExpectedUserDataAfterSwapRateMode ::
  "'n bignumber \<Rightarrow> 'n ReserveData \<Rightarrow> 'n ReserveData \<Rightarrow> 'n UserReserveData \<Rightarrow> string \<Rightarrow> 'n \<Rightarrow> 'n UserReserveData" where
  "calcExpectedUserDataAfterSwapRateMode bn before expectedAfter user rateMode txTimestamp =
     (let e = user;
          stableDebtBalance = calcExpectedStableDebtTokenBalance bn (u_principalStableDebt user)
            (u_stableBorrowRate user) (u_stableRateLastUpdated user) txTimestamp;
          variableDebtBalance = calcExpectedVariableDebtTokenBalance bn before user txTimestamp;
          e = e\<lparr>u_currentATokenBalance := calcExpectedATokenBalance bn before user txTimestamp\<rparr>;
          e = (if rateMode = RateMode_Stable then
                 (let e = e\<lparr>u_principalStableDebt := bn_number bn 0, u_currentStableDebt := bn_number bn 0\<rparr>;
                      e = e\<lparr>u_stableBorrowRate := bn_number bn 0\<rparr>;
                      e = e\<lparr>u_scaledVariableDebt := bn_plus bn (u_scaledVariableDebt user)
                        (rayDiv bn stableDebtBalance (variableBorrowIndex expectedAfter))\<rparr>;
                      e = e\<lparr>u_currentVariableDebt := rayMul bn (u_scaledVariableDebt e)
                        (variableBorrowIndex expectedAfter)\<rparr>
                  in e\<lparr>u_stableRateLastUpdated := bn_number bn 0\<rparr>)
               else
                 (let newDebt = bn_plus bn (u_currentStableDebt user) variableDebtBalance;
                      e = e\<lparr>u_currentStableDebt := newDebt, u_principalStableDebt := newDebt\<rparr>;
                      e = e\<lparr>u_stableBorrowRate := calcExpectedUserStableRate bn stableDebtBalance
                        (u_stableBorrowRate user) variableDebtBalance (stableBorrowRate before)\<rparr>;
                      e = e\<lparr>u_stableRateLastUpdated := txTimestamp\<rparr>
                  in e\<lparr>u_scaledVariableDebt := bn_number bn 0, u_currentVariableDebt := bn_number bn 0\<rparr>))
      in e\<lparr>u_liquidityRate := liquidityRate expectedAfter\<rparr>)"

definition calcExpectedReserveDataAfterStableRateRebalance ::
  "'n bignumber \<Rightarrow> IReserveParams jsobj \<Rightarrow> 'n ReserveData \<Rightarrow> 'n UserReserveData \<Rightarrow> 'n \<Rightarrow> error + 'n ReserveData" where
  "calcExpectedReserveDataAfterStableRateRebalance bn reservesParams before user txTimestamp =
     (let e = emptyReserveData bn;
          e = e\<lparr>r_address := r_address before\<rparr>;
          userStableDebt = calcExpectedStableDebtTokenBalance bn (u_principalStableDebt user)
            (u_stableBorrowRate user) (u_stableRateLastUpdated user) txTimestamp;
          e = e\<lparr>liquidityIndex := calcExpectedLiquidityIndex bn before txTimestamp\<rparr>;
          e = e\<lparr>variableBorrowIndex := calcExpectedVariableBorrowIndex bn before txTimestamp\<rparr>;
          e = e\<lparr>scaledVariableDebt := scaledVariableDebt before\<rparr>;
          e = e\<lparr>totalVariableDebt := rayMul bn (scaledVariableDebt e) (variableBorrowIndex e)\<rparr>;
          debt = calcExpectedTotalStableDebt bn (principalStableDebt before)
            (averageStableBorrowRate before) (totalStableDebtLastUpdated before) txTimestamp;
          e = e\<lparr>totalStableDebt := debt, principalStableDebt := debt\<rparr>;
          e = e\<lparr>availableLiquidity := availableLiquidity before\<rparr>;
          e = e\<lparr>totalLiquidity := bn_plus bn (bn_plus bn (availableLiquidity e) (totalStableDebt e))
                 (totalVariableDebt e)\<rparr>;
          avgRateBefore = calcExpectedAverageStableBorrowRateRebalance bn (averageStableBorrowRate before)
            (totalStableDebt e) (bn_negated bn userStableDebt) (u_stableBorrowRate user);
          e = e\<lparr>averageStableBorrowRate := calcExpectedAverageStableBorrowRateRebalance bn avgRateBefore
            (bn_minus bn (totalStableDebt e) userStableDebt) userStableDebt (stableBorrowRate before)\<rparr>;
          e = e\<lparr>utilizationRate := calcExpectedUtilizationRate bn (totalStableDebt e) (totalVariableDebt e)
                 (totalLiquidity e)\<rparr>
      in bindSum (calcExpectedInterestRates bn reservesParams (r_symbol before) (marketStableRate before)
           (utilizationRate e) (totalStableDebt e) (totalVariableDebt e) (averageStableBorrowRate e)) (\<lambda>rates.
         Inr (setRates rates e)))"

definition calcExpectedUserDataAfterStableRateRebalance ::
  "'n bignumber \<Rightarrow> 'n ReserveData \<Rightarrow> 'n ReserveData \<Rightarrow> 'n UserReserveData \<Rightarrow> 'n \<Rightarrow> 'n UserReserveData" where
  "calcExpectedUserDataAfterStableRateRebalance bn before expectedAfter user txTimestamp =
     (let e = user;
          e = e\<lparr>u_principalStableDebt := u_principalStableDebt user\<rparr>;
          e = e\<lparr>u_principalVariableDebt := calcExpectedVariableDebtTokenBalance bn before user txTimestamp\<rparr>;
          stableDebt = calcExpectedStableDebtTokenBalance bn (u_principalStableDebt user)
            (u_stableBorrowRate user) (u_stableRateLastUpdated user) txTimestamp;
          e = e\<lparr>u_principalStableDebt := stableDebt, u_currentStableDebt := stableDebt\<rparr>;
          e = e\<lparr>u_currentVariableDebt := calcExpectedVariableDebtTokenBalance bn before user txTimestamp\<rparr>;
          e = e\<lparr>u_stableRateLastUpdated := txTimestamp\<rparr>;
          e = e\<lparr>u_principalVariableDebt := u_principalVariableDebt user\<rparr>;
          e = e\<lparr>u_stableBorrowRate := averageStableBorrowRate expectedAfter\<rparr>;
          e = e\<lparr>u_liquidityRate := liquidityRate expectedAfter\<rparr>
      in e\<lparr>u_currentATokenBalance := calcExpectedATokenBalance bn before user txTimestamp\<rparr>)"

end
