(* ===== verification/InterestRates.thy ===== *)
theory InterestRates
  imports WadRayMath
begin

text \<open>
  The interest model of the contracts: \<open>DefaultReserveInterestRateStrategy.sol\<close> and, of
  \<open>ReserveLogic.sol\<close>, the normalized income and debt and the update of the two indexes. The market
  rate of \<open>calculateInterestRates\<close> is the answer of the lending rate oracle, \<open>now\<close> is
  \<open>block.timestamp\<close>.
\<close>

section \<open>The rate strategy\<close>

record InterestRateStrategy =
  OPTIMAL_UTILIZATION_RATE :: uint256
  EXCESS_UTILIZATION_RATE :: uint256
  s_baseVariableBorrowRate :: uint256
  s_variableRateSlope1 :: uint256
  s_variableRateSlope2 :: uint256
  s_stableRateSlope1 :: uint256
  s_stableRateSlope2 :: uint256
  s_reserveCapacity :: uint256

definition newStrategy :: "uint256 \<Rightarrow> uint256 \<Rightarrow> uint256 \<Rightarrow> uint256 \<Rightarrow> uint256 \<Rightarrow> uint256 \<Rightarrow> uint256 \<Rightarrow>
  error + InterestRateStrategy" where
  "newStrategy optimal base variable1 variable2 stable1 stable2 reserveCapacity =
     bindSum (subChecked sol_RAY optimal) (\<lambda>excess.
     Inr \<lparr>OPTIMAL_UTILIZATION_RATE = optimal, EXCESS_UTILIZATION_RATE = excess,
          s_baseVariableBorrowRate = base, s_variableRateSlope1 = variable1,
          s_variableRateSlope2 = variable2, s_stableRateSlope1 = stable1,
          s_stableRateSlope2 = stable2, s_reserveCapacity = reserveCapacity\<rparr>)"

definition getMaxVariableBorrowRate :: "InterestRateStrategy \<Rightarrow> error + uint256" where
  "getMaxVariableBorrowRate s =
     bindSum (addChecked (s_baseVariableBorrowRate s) (s_variableRateSlope1 s)) (\<lambda>r.
     addChecked r (s_variableRateSlope2 s))"

definition getOverallBorrowRate :: "uint256 \<Rightarrow> uint256 \<Rightarrow> uint256 \<Rightarrow> uint256 \<Rightarrow> error + uint256" where
  "getOverallBorrowRate stableDebt variableDebt currentVariableBorrowRate currentAverageStableBorrowRate =
     bindSum (addChecked stableDebt variableDebt) (\<lambda>totalDebt.
     if totalDebt = 0 then Inr 0
     else
       bindSum (bindSum (sol_wadToRay variableDebt) (\<lambda>d. sol_rayMul d currentVariableBorrowRate)) (\<lambda>weightedVariableRate.
       bindSum (bindSum (sol_wadToRay stableDebt) (\<lambda>d. sol_rayMul d currentAverageStableBorrowRate)) (\<lambda>weightedStableRate.
       bindSum (addChecked weightedVariableRate weightedStableRate) (\<lambda>weighted.
       bindSum (sol_wadToRay totalDebt) (\<lambda>d. sol_rayDiv weighted d)))))"

definition utilizationOf :: "uint256 \<Rightarrow> uint256 \<Rightarrow> error + uint256" where
  "utilizationOf available totalDebt =
     (if totalDebt = 0 then Inr 0
      else bindSum (addChecked available totalDebt) (sol_rayDiv totalDebt))"

definition stableRateAt :: "InterestRateStrategy \<Rightarrow> uint256 \<Rightarrow> uint256 \<Rightarrow> error + uint256" where
  "stableRateAt s marketRate utilization =
     (if OPTIMAL_UTILIZATION_RATE s < utilization then
        bindSum (subChecked utilization (OPTIMAL_UTILIZATION_RATE s)) (\<lambda>over.
        bindSum (sol_rayDiv over (EXCESS_UTILIZATION_RATE s)) (\<lambda>ratio.
        bindSum (addChecked marketRate (s_stableRateSlope1 s)) (\<lambda>r.
        bindSum (sol_rayMul (s_stableRateSlope2 s) ratio) (addChecked r))))
      else
        bindSum (sol_rayDiv utilization (OPTIMAL_UTILIZATION_RATE s)) (\<lambda>ratio.
        bindSum (sol_rayMul (s_stableRateSlope1 s) ratio) (addChecked marketRate)))"

definition variableRateAt :: "InterestRateStrategy \<Rightarrow> uint256 \<Rightarrow> error + uint256" where
  "variableRateAt s utilization =
     (if OPTIMAL_UTILIZATION_RATE s < utilization then
        bindSum (subChecked utilization (OPTIMAL_UTILIZATION_RATE s)) (\<lambda>over.
        bindSum (sol_rayDiv over (EXCESS_UTILIZATION_RATE s)) (\<lambda>ratio.
        bindSum (addChecked (s_baseVariableBorrowRate s) (s_variableRateSlope1 s)) (\<lambda>r.
        bindSum (sol_rayMul (s_variableRateSlope2 s) ratio) (addChecked r))))
      else
        bindSum (bindSum (sol_rayMul utilization (s_variableRateSlope1 s))
          (\<lambda>p. sol_rayDiv p (OPTIMAL_UTILIZATION_RATE s))) (addChecked (s_baseVariableBorrowRate s)))"

definition calculateInterestRates :: "InterestRateStrategy \<Rightarrow> uint256 \<Rightarrow> uint256 \<Rightarrow> uint256 \<Rightarrow> uint256 \<Rightarrow> uint256 \<Rightarrow>
  uint256 \<Rightarrow> error + uint256 \<times> uint256 \<times> uint256" where
  "calculateInterestRates s marketRate available stableDebt variableDebt averageRate factor =
     bindSum (addChecked stableDebt variableDebt) (\<lambda>totalDebt.
     bindSum (utilizationOf available totalDebt) (\<lambda>utilization.
     bindSum (stableRateAt s marketRate utilization) (\<lambda>stableRate.
     bindSum (variableRateAt s utilization) (\<lambda>variableRate.
     bindSum (getOverallBorrowRate stableDebt variableDebt variableRate averageRate) (\<lambda>overall.
     bindSum (sol_rayMul overall utilization) (\<lambda>gross.
     bindSum (subChecked sol_PERCENTAGE_FACTOR factor) (\<lambda>share.
     bindSum (sol_percentMul gross share) (\<lambda>liquidityRate.
     Inr (liquidityRate, stableRate, variableRate)))))))))"

section \<open>Indexes\<close>

text \<open>The rates and indexes of a reserve, as far as the functions below use them. The fields are
  \<open>uint128\<close> and \<open>uint40\<close> in the contract and are widened when read.\<close>

record ReserveIndexes =
  ri_liquidityIndex :: "128 word"
  ri_variableBorrowIndex :: "128 word"
  ri_currentLiquidityRate :: "128 word"
  ri_currentVariableBorrowRate :: "128 word"
  ri_lastUpdateTimestamp :: "40 word"

definition getNormalizedIncome :: "ReserveIndexes \<Rightarrow> uint256 \<Rightarrow> error + uint256" where
  "getNormalizedIncome r now =
     (if ri_lastUpdateTimestamp r = ucast now then Inr (ucast (ri_liquidityIndex r))
      else
        bindSum (calculateLinearInterest (ucast (ri_currentLiquidityRate r)) (ucast (ri_lastUpdateTimestamp r)) now)
          (\<lambda>cumulated. sol_rayMul cumulated (ucast (ri_liquidityIndex r))))"

definition getNormalizedDebt :: "ReserveIndexes \<Rightarrow> uint256 \<Rightarrow> error + uint256" where
  "getNormalizedDebt r now =
     (if ri_lastUpdateTimestamp r = ucast now then Inr (ucast (ri_variableBorrowIndex r))
      else
        bindSum (calculateCompoundedInterest (ucast (ri_currentVariableBorrowRate r)) (ucast (ri_lastUpdateTimestamp r)) now)
          (\<lambda>cumulated. sol_rayMul cumulated (ucast (ri_variableBorrowIndex r))))"

definition updateIndexes :: "uint256 \<Rightarrow> uint256 \<Rightarrow> ReserveIndexes \<Rightarrow> error + ReserveIndexes" where
  "updateIndexes scaledDebt now r =
     bindSum
       (if ri_currentLiquidityRate r \<noteq> 0 then
          bindSum (calculateLinearInterest (ucast (ri_currentLiquidityRate r)) (ucast (ri_lastUpdateTimestamp r)) now)
            (\<lambda>cumulated.
          bindSum (sol_rayMul cumulated (ucast (ri_liquidityIndex r))) (\<lambda>newIndex.
          check (newIndex \<le> mask 128) ''RL_LIQUIDITY_INDEX_OVERFLOW''
          (let r1 = r\<lparr>ri_liquidityIndex := ucast newIndex\<rparr> in
           if scaledDebt \<noteq> 0 then
             bindSum (calculateCompoundedInterest (ucast (ri_currentVariableBorrowRate r))
                (ucast (ri_lastUpdateTimestamp r)) now) (\<lambda>compounded.
             bindSum (sol_rayMul compounded (ucast (ri_variableBorrowIndex r))) (\<lambda>newBorrowIndex.
             check (newBorrowIndex \<le> mask 128) ''RL_VARIABLE_BORROW_INDEX_OVERFLOW''
               (Inr (r1\<lparr>ri_variableBorrowIndex := ucast newBorrowIndex\<rparr>))))
           else Inr r1)))
        else Inr r) (\<lambda>r'.
     Inr (r'\<lparr>ri_lastUpdateTimestamp := ucast now\<rparr>))"

section \<open>Over natural numbers\<close>

definition utilizationN :: "nat \<Rightarrow> nat \<Rightarrow> nat" where
  "utilizationN liquidity debt = (if debt = 0 then 0 else rayDivN debt liquidity)"

definition overallRateN :: "nat \<Rightarrow> nat \<Rightarrow> nat \<Rightarrow> nat \<Rightarrow> nat" where
  "overallRateN sd vd vr ar =
     (if sd + vd = 0 then 0
      else rayDivN (rayMulN (vd * 10 ^ 9) vr + rayMulN (sd * 10 ^ 9) ar) ((sd + vd) * 10 ^ 9))"

definition stableRateN :: "nat \<Rightarrow> nat \<Rightarrow> nat \<Rightarrow> nat \<Rightarrow> nat \<Rightarrow> nat" where
  "stableRateN opt slope1 slope2 market u =
     (if opt < u then market + slope1 + rayMulN slope2 (rayDivN (u - opt) (ray - opt))
      else market + rayMulN slope1 (rayDivN u opt))"

lemma utilizationOf_unat [checked_unat]:
  assumes "utilizationOf available debt = Inr u"
  shows "unat u = utilizationN (unat available + unat debt) (unat debt)"
  using assms
  by (auto simp: utilizationOf_def utilizationN_def bindSum_Inr unat_eq_0 split: if_splits dest!: checked_unat)

lemma getOverallBorrowRate_unat [checked_unat]:
  assumes "getOverallBorrowRate sd vd vr ar = Inr r"
  shows "unat r = overallRateN (unat sd) (unat vd) (unat vr) (unat ar)"
proof -
  obtain d where d: "addChecked sd vd = Inr d" "unat d = unat sd + unat vd"
    using assms by (auto simp: getOverallBorrowRate_def bindSum_Inr dest: checked_unat)
  then have "d = 0 \<longleftrightarrow> unat sd + unat vd = 0" by (metis unat_eq_0)
  with assms d show ?thesis
    by (auto simp: getOverallBorrowRate_def overallRateN_def bindSum_Inr split: if_splits dest!: checked_unat)
qed

lemma stableRateAt_unat [checked_unat]:
  assumes "stableRateAt s m u = Inr r" and "unat (EXCESS_UTILIZATION_RATE s) = ray - unat (OPTIMAL_UTILIZATION_RATE s)"
  shows "unat r = stableRateN (unat (OPTIMAL_UTILIZATION_RATE s)) (unat (s_stableRateSlope1 s))
    (unat (s_stableRateSlope2 s)) (unat m) (unat u)"
  using assms
  by (auto simp: stableRateAt_def stableRateN_def bindSum_Inr word_less_nat_alt split: if_splits dest!: checked_unat)

end
