(* ===== verification/ExpectedValues.thy ===== *)
theory ExpectedValues
  imports Calculations InterestRates
begin

text \<open>
  The expected values of the scenarios against the contracts: the fixed point methods, the interest
  formulas, the indexes and the rates of \<open>calculations.ts\<close> compute what the contracts compute whenever
  these return, exactly or within the tolerance of the suites' \<open>almostEqual\<close>; and what the
  calculators say about full withdrawals, full repayments and the totals of a reserve.
\<close>

section \<open>Rounding to the nearest\<close>

lemma rayMulN_bounds:
  "int ray * int (rayMulN a b) \<le> int a * int b + int ray div 2"
  "int a * int b + int ray div 2 < int ray * int (rayMulN a b) + int ray"
proof -
  have pos: "0 < ray" by (simp add: ray_def)
  have "ray * rayMulN a b \<le> a * b + ray div 2"
    by (simp add: rayMulN_def)
  moreover have "a * b + ray div 2 < ray * rayMulN a b + ray"
    using mod_less_divisor [OF pos, of "a * b + ray div 2"] mult_div_mod_eq [of ray "a * b + ray div 2"]
    unfolding rayMulN_def by linarith
  ultimately show "int ray * int (rayMulN a b) \<le> int a * int b + int ray div 2"
    "int a * int b + int ray div 2 < int ray * int (rayMulN a b) + int ray"
    by (simp_all flip: of_nat_mult of_nat_add zdiv_int add: zdiv_int)
qed

lemma rayDivN_bounds:
  assumes "b \<noteq> 0"
  shows "int b * int (rayDivN a b) \<le> int a * int ray + int b div 2"
    "int a * int ray + int b div 2 < int b * int (rayDivN a b) + int b"
proof -
  have "b * rayDivN a b \<le> a * ray + b div 2"
    by (simp add: rayDivN_def)
  moreover have "a * ray + b div 2 < b * rayDivN a b + b"
    using mod_less_divisor [of b "a * ray + b div 2"] assms mult_div_mod_eq [of b "a * ray + b div 2"]
    unfolding rayDivN_def by linarith
  ultimately show "int b * int (rayDivN a b) \<le> int a * int ray + int b div 2"
    "int a * int ray + int b div 2 < int b * int (rayDivN a b) + int b"
    by (simp_all flip: of_nat_mult of_nat_add add: zdiv_int)
qed

lemma rayMulN_simps [simp]: "rayMulN 0 b = 0" "rayMulN a 0 = 0" "rayMulN ray b = b" "rayMulN a ray = a"
  by (simp_all add: rayMulN_def ray_def)

lemma rayDivN_0 [simp]: "rayDivN 0 i = 0"
  by (cases "i = 0") (simp_all add: rayDivN_def)

text \<open>Multiplying by at least one ray does not decrease.\<close>

lemma rayMulN_ge: "ray \<le> a \<Longrightarrow> b \<le> rayMulN a b"
proof -
  assume "ray \<le> a"
  then have "ray * b \<le> a * b + ray div 2" by (simp add: trans_le_add1)
  then have "(ray * b) div ray \<le> rayMulN a b" unfolding rayMulN_def by (rule div_le_mono)
  then show ?thesis by (simp add: ray_def)
qed

text \<open>A scaled amount is recovered from its value when the index is at least one ray.\<close>

lemma rayDivN_rayMulN:
  assumes "ray \<le> i"
  shows "rayDivN (rayMulN a i) i = a"
proof (cases "i = ray")
  case True
  then show ?thesis by (simp add: rayDivN_def) (simp add: ray_def)
next
  case False
  define p where "p = rayMulN a i"
  have "ray * p \<le> a * i + ray div 2" "a * i + ray div 2 < ray * p + ray"
    using rayMulN_bounds [of a i] unfolding p_def
    by (simp_all flip: of_nat_mult of_nat_add add: zdiv_int)
  moreover have "ray div 2 + i div 2 < i" "ray div 2 \<le> i div 2" "ray = 2 * (ray div 2)"
    using False assms by (auto simp: ray_def)
  ultimately have "a * i \<le> p * ray + i div 2" "p * ray + i div 2 < a * i + i"
    by (simp_all add: mult.commute)
  then have "(p * ray + i div 2) div i = a"
    by (intro div_nat_eqI) (simp_all add: mult.commute)
  then show ?thesis by (simp add: rayDivN_def p_def)
qed

lemma rayMulN_near: "\<bar>2 * (int ray * int (rayMulN a b)) - 2 * (int a * int b)\<bar> \<le> int ray"
  using rayMulN_bounds [of a b] by (simp add: ray_def abs_le_iff)

lemma rayDivN_near: "b \<noteq> 0 \<Longrightarrow> \<bar>2 * (int b * int (rayDivN a b)) - 2 * (int a * int ray)\<bar> \<le> int b"
  using rayDivN_bounds [of b a] by (simp add: abs_le_iff) linarith

lemma scale_near:
  fixes x y e k :: int
  assumes "\<bar>2 * x - 2 * y\<bar> \<le> e" and "0 \<le> k"
  shows "\<bar>2 * (k * x) - 2 * (k * y)\<bar> \<le> k * e"
proof -
  have "2 * (k * x) - 2 * (k * y) = k * (2 * x - 2 * y)" by (simp add: algebra_simps)
  with assms show ?thesis by (simp add: abs_mult mult_left_mono)
qed

text \<open>Scaling by a slope and then dividing by the optimal rate, or the other way round.\<close>

lemma slope_orders:
  assumes opt: "9 * ray \<le> 20 * opt" and s: "s \<le> ray"
  shows "\<bar>int (rayDivN (rayMulN u s) opt) - int (rayMulN (rayDivN u opt) s)\<bar> \<le> 2"
proof -
  let ?A = "int (rayDivN (rayMulN u s) opt)" and ?B = "int (rayMulN (rayDivN u opt) s)"
  let ?R = "int ray" and ?o = "int opt" and ?X = "int u * int s * int ray"
  have o0: "opt \<noteq> 0" using opt by (auto simp: ray_def)
  have "\<bar>2 * (?R * (?R * int (rayMulN u s))) - 2 * (?R * (int u * int s))\<bar> \<le> ?R * ?R"
    by (rule scale_near [OF rayMulN_near]) simp
  moreover have "\<bar>2 * (?R * (?o * ?A)) - 2 * (?R * (int (rayMulN u s) * ?R))\<bar> \<le> ?R * ?o"
    by (rule scale_near [OF rayDivN_near [OF o0]]) simp
  ultimately have A: "\<bar>2 * (?R * ?o * ?A) - 2 * ?X\<bar> \<le> ?R * ?R + ?R * ?o"
    by (simp add: algebra_simps abs_le_iff)
  have "\<bar>2 * (?o * (?R * ?B)) - 2 * (?o * (int (rayDivN u opt) * int s))\<bar> \<le> ?o * ?R"
    by (rule scale_near [OF rayMulN_near]) simp
  moreover have "\<bar>2 * (int s * (?o * int (rayDivN u opt))) - 2 * (int s * (int u * ?R))\<bar> \<le> int s * ?o"
    by (rule scale_near [OF rayDivN_near [OF o0]]) simp
  ultimately have B: "\<bar>2 * (?R * ?o * ?B) - 2 * ?X\<bar> \<le> ?R * ?o + int s * ?o"
    by (simp add: algebra_simps abs_le_iff)
  have "int s * ?o \<le> ?R * ?o" using s by (simp add: mult_right_mono)
  moreover have "9 * ?R \<le> 20 * ?o" using opt by linarith
  then have "9 * ?R * ?R \<le> 20 * ?o * ?R" by (rule mult_right_mono) simp
  moreover have "0 < ?R * ?o" using o0 by (simp add: ray_def)
  ultimately have "2 * (?R * ?o * ?A) - 2 * (?R * ?o * ?B) < 6 * (?R * ?o)"
    "2 * (?R * ?o * ?B) - 2 * (?R * ?o * ?A) < 6 * (?R * ?o)"
    using A B by (simp_all add: abs_le_iff algebra_simps)
  then have "?R * ?o * (?A - ?B) < ?R * ?o * 3" "?R * ?o * (?B - ?A) < ?R * ?o * 3"
    by (simp_all add: algebra_simps)
  with \<open>0 < ?R * ?o\<close> show ?thesis by (simp add: mult_less_cancel_left_pos abs_le_iff)
qed

section \<open>The fixed point methods\<close>

lemma roundTo_near:
  assumes "0 \<le> q"
  shows "\<lfloor>q\<rfloor> \<le> \<lfloor>roundTo k m q\<rfloor> \<and> \<lfloor>roundTo k m q\<rfloor> \<le> \<lfloor>q\<rfloor> + 1"
proof -
  define t :: rat where "t = 10 ^ k"
  have t: "1 \<le> t" by (simp add: t_def)
  have r: "roundTo k m q = of_int (roundAbs m (q * t)) / t"
    using assms by (simp add: roundTo_nonneg t_def)
  have ti: "t = of_int (10 ^ k)" by (simp add: t_def)
  have "of_int \<lfloor>q\<rfloor> * t \<le> q * t" using t by (intro mult_right_mono) simp_all
  then have "\<lfloor>q\<rfloor> * 10 ^ k \<le> \<lfloor>q * t\<rfloor>" unfolding ti by (simp add: le_floor_iff)
  moreover have "\<lfloor>q * t\<rfloor> \<le> roundAbs m (q * t)"
    unfolding roundAbs_def by (cases m) (simp_all add: floor_mono)
  ultimately have "of_int (\<lfloor>q\<rfloor> * 10 ^ k) \<le> (of_int (roundAbs m (q * t)) :: rat)"
    by (simp only: of_int_le_iff)
  then have low: "of_int \<lfloor>q\<rfloor> \<le> roundTo k m q"
    unfolding r using t by (simp add: pos_le_divide_eq t_def)
  have "of_int (roundAbs m (q * t)) \<le> q * t + 1 / 2"
    unfolding roundAbs_def by (cases m) (simp_all add: of_int_floor_le add_increasing2)
  also have "\<dots> \<le> q * t + t / 2" using t by simp
  finally have "roundTo k m q \<le> q + 1 / 2"
    unfolding r using t by (simp add: pos_divide_le_eq algebra_simps)
  also have "\<dots> < of_int \<lfloor>q\<rfloor> + 2" by linarith
  finally show ?thesis using low by (simp add: le_floor_iff floor_le_iff)
qed

context bignumber_laws
begin

lemma rayMul_value:
  assumes "denotes val x a" and "denotes val y b"
  shows "val (rayMul bn x y) =
    Some (roundTo 0 ROUND_DOWN (roundTo dp mode (of_nat (ray div 2 + a * b) / of_nat ray)))"
proof -
  have "denotes val (bn_plus bn (halfRay bn) (bn_multipliedBy bn x y)) (ray div 2 + a * b)"
    by (intro denotes_intros assms)
  then have "val (bn_div bn (bn_plus bn (halfRay bn) (bn_multipliedBy bn x y)) (bn_new bn (RAY bn))) =
      Some (roundTo dp mode (of_nat (ray div 2 + a * b) / of_nat ray))"
    using denotes_RAY unfolding denotes_def by (intro val_div) (simp_all add: ray_def)
  then show ?thesis
    unfolding rayMul_def roundDown_def by (simp add: val_decimalPlaces)
qed

text \<open>With any setting of the package, multiplication is off by at most one from the rounded
  product.\<close>

lemma rayMul_setting:
  assumes "denotes val x a" and "denotes val y b"
  shows "\<exists>n. denotes val (rayMul bn x y) n \<and> rayMulN a b \<le> n \<and> n \<le> rayMulN a b + 1"
proof -
  define q :: rat where "q = of_nat (ray div 2 + a * b) / of_nat ray"
  have q: "0 \<le> q" "\<lfloor>q\<rfloor> = int (rayMulN a b)"
    unfolding q_def rayMulN_def floor_divide_of_nat_eq by (simp_all add: add.commute)
  note v = rayMul_value [OF assms, folded q_def]
  from roundTo_near [OF q(1), of dp mode] q(2)
  have near: "int (rayMulN a b) \<le> \<lfloor>roundTo dp mode q\<rfloor>" "\<lfloor>roundTo dp mode q\<rfloor> \<le> int (rayMulN a b) + 1"
    by simp_all
  then have "0 \<le> roundTo dp mode q" by linarith
  then have "roundTo 0 ROUND_DOWN (roundTo dp mode q) = of_int \<lfloor>roundTo dp mode q\<rfloor>"
    by (simp add: roundTo_nonneg roundAbs_def)
  moreover obtain n where "\<lfloor>roundTo dp mode q\<rfloor> = int n"
    using near(1) by (metis nonneg_int_cases of_nat_0_le_iff order_trans)
  ultimately show ?thesis
    using v near by (intro exI [of _ n]) (simp add: denotes_def)
qed

end

section \<open>Interest\<close>

lemma interest_simps [simp]:
  "linearInterestN 0 t = ray" "linearInterestN r 0 = ray" "compoundedInterestN 0 t = ray"
  by (simp_all add: linearInterestN_def compoundedInterestN_def)

lemma interest_ge: "ray \<le> linearInterestN r t" "ray \<le> compoundedInterestN r t"
  by (simp_all add: linearInterestN_def compoundedInterestN_def Let_def)

text \<open>What the contract's indexes are worth at a time, and the numbers an object of the scenarios
  has when it was read from the reserve.\<close>

definition incomeN :: "ReserveIndexes \<Rightarrow> uint256 \<Rightarrow> nat" where
  "incomeN r now = rayMulN (linearInterestN (unat (ri_currentLiquidityRate r))
     (unat now - unat (ri_lastUpdateTimestamp r))) (unat (ri_liquidityIndex r))"

definition debtN :: "ReserveIndexes \<Rightarrow> uint256 \<Rightarrow> nat" where
  "debtN r now = rayMulN (compoundedInterestN (unat (ri_currentVariableBorrowRate r))
     (unat now - unat (ri_lastUpdateTimestamp r))) (unat (ri_variableBorrowIndex r))"

definition readsIndexes :: "('n \<Rightarrow> rat option) \<Rightarrow> 'n ReserveData \<Rightarrow> ReserveIndexes \<Rightarrow> bool" where
  "readsIndexes val d r \<longleftrightarrow>
     denotes val (liquidityIndex d) (unat (ri_liquidityIndex r)) \<and>
     denotes val (variableBorrowIndex d) (unat (ri_variableBorrowIndex r)) \<and>
     denotes val (liquidityRate d) (unat (ri_currentLiquidityRate r)) \<and>
     denotes val (variableBorrowRate d) (unat (ri_currentVariableBorrowRate r)) \<and>
     denotes val (lastUpdateTimestamp d) (unat (ri_lastUpdateTimestamp r))"

context bignumber_integers
begin

lemma denotes_calcLinearInterest [denotes_intros]:
  assumes "denotes val rate r" "denotes val now t" "denotes val upd l" "l \<le> t"
  shows "denotes val (calcLinearInterest bn rate now upd) (linearInterestN r (t - l))"
  unfolding calcLinearInterest_def linearInterestN_def Let_def
  by (intro denotes_intros assms) simp

lemma denotes_calcCompoundedInterest [denotes_intros]:
  assumes rate: "denotes val rate r" and time: "denotes val now t" "denotes val upd l" "l \<le> t"
  shows "denotes val (calcCompoundedInterest bn rate now upd) (compoundedInterestN r (t - l))"
proof -
  define d where "d = t - l"
  have d: "denotes val (bn_minus bn now upd) d" unfolding d_def by (intro denotes_minus time)
  have zero: "bn_eq bn (bn_minus bn now upd) (bn_number bn 0) \<longleftrightarrow> d = 0"
    and two: "bn_gt bn (bn_minus bn now upd) (bn_number bn 2) \<longleftrightarrow> 2 < d"
    by (rule denotes_eq [OF d] denotes_gt [OF d]; simp add: denotes_constants)+
  show ?thesis
  proof (cases "d = 0")
    case True
    then show ?thesis
      using denotes_RAY by (simp add: calcCompoundedInterest_def zero Let_def flip: d_def)
  next
    case False
    define r1 where "r1 = bn_div bn rate (bn_new bn ONE_YEAR)"
    have r1: "denotes val r1 (r div 31536000)" unfolding r1_def by (intro denotes_intros rate) simp
    have e2: "denotes val (if 2 < d then bn_minus bn (bn_minus bn now upd) (bn_number bn 2) else bn_number bn 0) (d - 2)"
      using denotes_minus [OF d denotes_constants(9)] denotes_constants(7) by simp
    have e1: "denotes val (bn_minus bn (bn_minus bn now upd) (bn_number bn 1)) (d - 1)"
      using denotes_minus [OF d denotes_constants(8)] False by simp
    from False show ?thesis
      unfolding calcCompoundedInterest_def compoundedInterestN_def Let_def zero two
      by (simp only: if_False d_def [symmetric] r1_def [symmetric]) (intro denotes_intros d r1 e1 e2; simp)
  qed
qed

lemma denotes_normalizedIncome:
  assumes "readsIndexes val d r" "denotes val now (unat t)" "unat (ri_lastUpdateTimestamp r) \<le> unat t"
  shows "denotes val (calcExpectedReserveNormalizedIncome bn d now) (incomeN r t)"
proof -
  have "bn_eq bn (liquidityRate d) (bn_new bn ''0'') \<longleftrightarrow> unat (ri_currentLiquidityRate r) = 0"
    using assms(1) denotes_eq denotes_constants(6) by (auto simp: readsIndexes_def)
  with assms show ?thesis
    unfolding calcExpectedReserveNormalizedIncome_def incomeN_def Let_def
    by (auto simp: readsIndexes_def intro!: denotes_intros)
qed

lemma denotes_normalizedDebt:
  assumes "readsIndexes val d r" "denotes val now (unat t)" "unat (ri_lastUpdateTimestamp r) \<le> unat t"
  shows "denotes val (calcExpectedReserveNormalizedDebt bn (variableBorrowRate d) (variableBorrowIndex d)
    (lastUpdateTimestamp d) now) (debtN r t)"
proof -
  have "bn_eq bn (variableBorrowRate d) (bn_new bn ''0'') \<longleftrightarrow> unat (ri_currentVariableBorrowRate r) = 0"
    using assms(1) denotes_eq denotes_constants(6) by (auto simp: readsIndexes_def)
  with assms show ?thesis
    unfolding calcExpectedReserveNormalizedDebt_def debtN_def Let_def
    by (auto simp: readsIndexes_def intro!: denotes_intros)
qed

end

lemma unat_widen [simp]:
  "unat (ucast (x :: 128 word) :: uint256) = unat x" "unat (ucast (y :: 40 word) :: uint256) = unat y"
  by (simp_all add: unsigned_ucast_eq take_bit_nat_eq_self less_le_trans [OF unsigned_less])

lemma same_block:
  assumes "(y :: 40 word) = ucast (now :: uint256)" and "unat now < 2 ^ 40"
  shows "unat now = unat y"
  using assms by (simp add: unsigned_ucast_eq take_bit_nat_eq_self)

lemma getNormalizedIncome_unat:
  assumes "getNormalizedIncome r now = Inr c" and "unat now < 2 ^ 40"
  shows "unat c = incomeN r now \<and> unat (ri_lastUpdateTimestamp r) \<le> unat now"
proof (cases "ri_lastUpdateTimestamp r = ucast now")
  case True
  with assms(1) same_block [OF True assms(2)] show ?thesis
    by (auto simp: getNormalizedIncome_def incomeN_def)
next
  case False
  with assms(1) show ?thesis
    by (auto simp: getNormalizedIncome_def incomeN_def bindSum_Inr dest!: checked_unat)
qed

lemma getNormalizedDebt_unat:
  assumes "getNormalizedDebt r now = Inr c" and "unat now < 2 ^ 40"
  shows "unat c = debtN r now \<and> unat (ri_lastUpdateTimestamp r) \<le> unat now"
proof (cases "ri_lastUpdateTimestamp r = ucast now")
  case True
  with assms(1) same_block [OF True assms(2)] show ?thesis
    by (auto simp: getNormalizedDebt_def debtN_def)
next
  case False
  with assms(1) show ?thesis
    by (auto simp: getNormalizedDebt_def debtN_def bindSum_Inr dest!: checked_unat)
qed

context bignumber_integers
begin

lemma denotes_liquidityIndex:
  assumes "readsIndexes val d r" "denotes val now (unat t)" "unat (ri_lastUpdateTimestamp r) \<le> unat t"
    and "denotes val (utilizationRate d) ut"
  shows "denotes val (calcExpectedLiquidityIndex bn d now) (if ut = 0 then unat (ri_liquidityIndex r) else incomeN r t)"
proof -
  have "bn_eq bn (utilizationRate d) (bn_new bn ''0'') \<longleftrightarrow> ut = 0"
    using denotes_eq [OF assms(4) denotes_constants(6)] .
  with assms show ?thesis
    unfolding calcExpectedLiquidityIndex_def incomeN_def Let_def
    by (auto simp: readsIndexes_def intro!: denotes_intros)
qed

lemma denotes_variableBorrowIndex:
  assumes "readsIndexes val d r" "denotes val now (unat t)" "unat (ri_lastUpdateTimestamp r) \<le> unat t"
    and "denotes val (totalVariableDebt d) tv"
  shows "denotes val (calcExpectedVariableBorrowIndex bn d now)
    (if tv = 0 then unat (ri_variableBorrowIndex r) else debtN r t)"
proof -
  have "bn_eq bn (totalVariableDebt d) (bn_new bn ''0'') \<longleftrightarrow> tv = 0"
    using denotes_eq [OF assms(4) denotes_constants(6)] .
  with assms show ?thesis
    unfolding calcExpectedVariableBorrowIndex_def debtN_def Let_def
    by (auto simp: readsIndexes_def intro!: denotes_intros)
qed

end

lemma indexes_ge: "unat (ri_liquidityIndex r) \<le> incomeN r t" "unat (ri_variableBorrowIndex r) \<le> debtN r t"
  by (simp_all add: incomeN_def debtN_def rayMulN_ge interest_ge)

lemma unat_narrow: "(x :: uint256) \<le> mask 128 \<Longrightarrow> unat (ucast x :: 128 word) = unat x"
  by (simp add: unsigned_ucast_eq take_bit_nat_eq_self word_le_nat_alt mask_eq_exp_minus_1)

text \<open>The contract's update of the indexes: nothing accrues without a liquidity rate, and no variable
  debt accrues when there is none.\<close>

lemma updateIndexes_unat:
  assumes "updateIndexes sd t r = Inr r'"
  shows "unat (ri_liquidityIndex r') = (if ri_currentLiquidityRate r = 0 then unat (ri_liquidityIndex r) else incomeN r t)"
    "unat (ri_variableBorrowIndex r') =
       (if ri_currentLiquidityRate r = 0 \<or> sd = 0 then unat (ri_variableBorrowIndex r) else debtN r t)"
  using assms
  by (cases "ri_currentLiquidityRate r = 0"; cases "sd = 0";
      auto simp: updateIndexes_def bindSum_Inr check_Inr incomeN_def debtN_def Let_def unat_narrow
        dest!: checked_unat)+

section \<open>Rates\<close>

text \<open>The strategy contract that \<open>initReservesByHelper\<close> deploys for the parameters of a reserve.\<close>

definition strategyOf :: "IReserveParams \<Rightarrow> error + InterestRateStrategy" where
  "strategyOf params = (let p = strategy params in
     bindSum (uint256Arg (optimalUtilizationRate p)) (\<lambda>optimal.
     bindSum (uint256Arg (baseVariableBorrowRate p)) (\<lambda>base.
     bindSum (uint256Arg (variableRateSlope1 p)) (\<lambda>v1.
     bindSum (uint256Arg (variableRateSlope2 p)) (\<lambda>v2.
     bindSum (uint256Arg (stableRateSlope1 p)) (\<lambda>s1.
     bindSum (uint256Arg (stableRateSlope2 p)) (\<lambda>s2.
     bindSum (uint256Arg (capacity p)) (\<lambda>cap.
     newStrategy optimal base v1 v2 s1 s2 cap))))))))"

lemma uint256Arg_unat: "uint256Arg s = Inr w \<Longrightarrow> isNumeral s \<and> readDigits s = unat w"
  by (auto simp: uint256Arg_def unat_of_nat take_bit_nat_eq_self split: if_splits)

lemma strategyOf_Inr:
  assumes "strategyOf params = Inr s"
  shows "uint256Arg (optimalUtilizationRate (strategy params)) = Inr (OPTIMAL_UTILIZATION_RATE s)"
    "uint256Arg (baseVariableBorrowRate (strategy params)) = Inr (s_baseVariableBorrowRate s)"
    "uint256Arg (variableRateSlope1 (strategy params)) = Inr (s_variableRateSlope1 s)"
    "uint256Arg (variableRateSlope2 (strategy params)) = Inr (s_variableRateSlope2 s)"
    "uint256Arg (stableRateSlope1 (strategy params)) = Inr (s_stableRateSlope1 s)"
    "uint256Arg (stableRateSlope2 (strategy params)) = Inr (s_stableRateSlope2 s)"
    "unat (EXCESS_UTILIZATION_RATE s) = ray - unat (OPTIMAL_UTILIZATION_RATE s)"
    "unat (OPTIMAL_UTILIZATION_RATE s) \<le> ray"
  using assms
  by (auto simp: strategyOf_def newStrategy_def bindSum_Inr Let_def dest!: checked_unat)

text \<open>The variable rate as the contract and as the scenarios compute it.\<close>

definition variableRateN :: "nat \<Rightarrow> nat \<Rightarrow> nat \<Rightarrow> nat \<Rightarrow> nat \<Rightarrow> nat" where
  "variableRateN opt base slope1 slope2 u =
     (if opt < u then base + slope1 + rayMulN slope2 (rayDivN (u - opt) (ray - opt))
      else base + rayDivN (rayMulN u slope1) opt)"

definition expectedVariableRateN :: "nat \<Rightarrow> nat \<Rightarrow> nat \<Rightarrow> nat \<Rightarrow> nat \<Rightarrow> nat" where
  "expectedVariableRateN opt base slope1 slope2 u =
     (if opt < u then base + slope1 + rayMulN slope2 (rayDivN (u - opt) (ray - opt))
      else base + rayMulN (rayDivN u opt) slope1)"

lemma variableRateAt_unat:
  assumes "variableRateAt s u = Inr r" and "unat (EXCESS_UTILIZATION_RATE s) = ray - unat (OPTIMAL_UTILIZATION_RATE s)"
  shows "unat r = variableRateN (unat (OPTIMAL_UTILIZATION_RATE s)) (unat (s_baseVariableBorrowRate s))
      (unat (s_variableRateSlope1 s)) (unat (s_variableRateSlope2 s)) (unat u) \<and>
    (if unat (OPTIMAL_UTILIZATION_RATE s) < unat u then unat (OPTIMAL_UTILIZATION_RATE s) < ray
     else unat (OPTIMAL_UTILIZATION_RATE s) \<noteq> 0)"
  using assms
  by (auto simp: variableRateAt_def variableRateN_def bindSum_Inr word_less_nat_alt split: if_splits dest!: checked_unat)

lemma variable_rates_close:
  assumes "9 * ray \<le> 20 * opt" and "slope1 \<le> ray"
  shows "\<bar>int (variableRateN opt base slope1 slope2 u) - int (expectedVariableRateN opt base slope1 slope2 u)\<bar> \<le> 2"
  using slope_orders [OF assms, of u] by (simp add: variableRateN_def expectedVariableRateN_def)

context bignumber_integers
begin

lemma denotes_utilization:
  assumes "denotes val sd' sd" "denotes val vd' vd" "denotes val l' l" "sd + vd \<le> l"
  shows "denotes val (calcExpectedUtilizationRate bn sd' vd' l') (utilizationN l (sd + vd))"
proof -
  have "bn_eq bn sd' (bn_new bn ''0'') \<longleftrightarrow> sd = 0" "bn_eq bn vd' (bn_new bn ''0'') \<longleftrightarrow> vd = 0"
    using assms denotes_eq denotes_constants(6) by blast+
  with assms show ?thesis
    by (auto simp: calcExpectedUtilizationRate_def utilizationN_def strToBN_def intro!: denotes_intros)
qed

lemma denotes_overallRate [denotes_intros]:
  assumes "denotes val sd' sd" "denotes val vd' vd" "denotes val vr' vr" "denotes val ar' ar"
  shows "denotes val (calcExpectedOverallBorrowRate bn sd' vd' vr' ar') (overallRateN sd vd vr ar)"
proof -
  have "bn_eq bn (bn_plus bn sd' vd') (bn_number bn 0) \<longleftrightarrow> sd + vd = 0"
    by (rule denotes_eq) (intro denotes_intros assms)+
  then show ?thesis
    unfolding calcExpectedOverallBorrowRate_def overallRateN_def Let_def strToBN_def
    by (cases "sd + vd = 0"; simp only: if_True if_False refl simp_thms; intro denotes_intros assms) simp
qed

lemma denotes_uint256Arg: "uint256Arg s = Inr w \<Longrightarrow> denotes val (bn_new bn s) (unat w)"
  using denotes_new uint256Arg_unat by metis

text \<open>The rates the scenarios expect, as natural numbers.\<close>

lemma denotes_interestRates:
  assumes "obj_get reservesParams rsym = Some params" "strategyOf params = Inr s"
    and "uint256Arg (reserveFactor params) = Inr f" "unat f \<le> 10000"
    and "denotes val market' m" "denotes val u' u" "denotes val sd' sd" "denotes val vd' vd" "denotes val ar' ar"
    and "if unat (OPTIMAL_UTILIZATION_RATE s) < u then unat (OPTIMAL_UTILIZATION_RATE s) < ray
         else unat (OPTIMAL_UTILIZATION_RATE s) \<noteq> 0"
  shows "\<exists>x y z. calcExpectedInterestRates bn reservesParams (Some rsym) market' u' sd' vd' ar' = Inr (x, y, z) \<and>
    denotes val y (stableRateN (unat (OPTIMAL_UTILIZATION_RATE s)) (unat (s_stableRateSlope1 s))
      (unat (s_stableRateSlope2 s)) m u) \<and>
    denotes val z (expectedVariableRateN (unat (OPTIMAL_UTILIZATION_RATE s)) (unat (s_baseVariableBorrowRate s))
      (unat (s_variableRateSlope1 s)) (unat (s_variableRateSlope2 s)) u) \<and>
    denotes val x (percentMulN (rayMulN (overallRateN sd vd
      (expectedVariableRateN (unat (OPTIMAL_UTILIZATION_RATE s)) (unat (s_baseVariableBorrowRate s))
        (unat (s_variableRateSlope1 s)) (unat (s_variableRateSlope2 s)) u) ar) u) (10000 - unat f))"
proof -
  note num = strategyOf_Inr(1-6) [OF assms(2), THEN denotes_uint256Arg] denotes_uint256Arg [OF assms(3)]
  from assms(1) obtain i where i: "findIndex (\<lambda>value. value = rsym) (obj_keys reservesParams) = Some i"
    "snd (reservesParams ! i) = params"
    using findIndex_obj_get [of reservesParams rsym] by (auto split: option.splits)
  have gt: "bn_gt bn u' (bn_new bn (optimalUtilizationRate (strategy params))) \<longleftrightarrow>
      unat (OPTIMAL_UTILIZATION_RATE s) < u"
    by (rule denotes_gt [OF assms(6) num(1)])
  have excess: "denotes val (bn_minus bn (bn_new bn (RAY bn)) (bn_new bn (optimalUtilizationRate (strategy params))))
      (ray - unat (OPTIMAL_UTILIZATION_RATE s))"
    by (intro denotes_intros num strategyOf_Inr(8) [OF assms(2)])
  show ?thesis
  proof (cases "unat (OPTIMAL_UTILIZATION_RATE s) < u")
    case True
    with assms(10) have "ray - unat (OPTIMAL_UTILIZATION_RATE s) \<noteq> 0" by simp
    with True show ?thesis
      using assms(4)
      by (simp add: calcExpectedInterestRates_def i gt Let_def stableRateN_def expectedVariableRateN_def)
        (intro conjI denotes_intros num excess assms less_imp_le; simp)
  next
    case False
    with assms(10) have "unat (OPTIMAL_UTILIZATION_RATE s) \<noteq> 0" by simp
    with False show ?thesis
      using assms(4)
      by (simp add: calcExpectedInterestRates_def i gt Let_def stableRateN_def expectedVariableRateN_def)
        (intro conjI denotes_intros num excess assms; simp)
  qed
qed

end

lemma rates_agree:
  assumes "bignumber_laws bn val 0 ROUND_DOWN" and "obj_get reservesParams rsym = Some params"
    and "strategyOf params = Inr s" and "uint256Arg (reserveFactor params) = Inr f"
    and "denotes val market' (unat m)" and "denotes val sd' (unat sd)" and "denotes val vd' (unat vd)"
    and "denotes val ar' (unat ar)" and "denotes val l' (unat available + (unat sd + unat vd))"
    and "calculateInterestRates s m available sd vd ar f = Inr (lr, sr, vr)"
  shows "\<exists>x y z. calcExpectedInterestRates bn reservesParams (Some rsym) market'
      (calcExpectedUtilizationRate bn sd' vd' l') sd' vd' ar' = Inr (x, y, z) \<and>
    denotes val y (unat sr) \<and>
    (if s_variableRateSlope1 s = 0 \<or> unat (OPTIMAL_UTILIZATION_RATE s) <
       utilizationN (unat available + (unat sd + unat vd)) (unat sd + unat vd)
     then denotes val x (unat lr) \<and> denotes val z (unat vr)
     else 9 * ray \<le> 20 * unat (OPTIMAL_UTILIZATION_RATE s) \<longrightarrow> unat (s_variableRateSlope1 s) \<le> ray \<longrightarrow>
       (\<exists>n. denotes val z n \<and> \<bar>int n - int (unat vr)\<bar> \<le> 2))"
proof -
  from assms(1) have bi: "bignumber_integers bn val" by (simp add: bignumber_integers_def)
  let ?l = "unat available + (unat sd + unat vd)"
  let ?u = "utilizationN ?l (unat sd + unat vd)"
  note excess = strategyOf_Inr(7) [OF assms(3)]
  from assms(10) obtain d u overall gross share where
    d: "addChecked sd vd = Inr d" and u: "utilizationOf available d = Inr u" and
    sr: "stableRateAt s m u = Inr sr" and vr: "variableRateAt s u = Inr vr" and
    ov: "getOverallBorrowRate sd vd vr ar = Inr overall" and
    gr: "sol_rayMul overall u = Inr gross" and sh: "subChecked sol_PERCENTAGE_FACTOR f = Inr share" and
    lr: "sol_percentMul gross share = Inr lr"
    by (auto simp: calculateInterestRates_def bindSum_Inr)
  have uu: "unat u = ?u" using utilizationOf_unat [OF u] addChecked_unat [OF d] by simp
  have f: "unat f \<le> 10000" "unat share = 10000 - unat f" using subChecked_unat [OF sh] by simp_all
  note vrN = variableRateAt_unat [OF vr excess, unfolded uu]
  note util = bignumber_integers.denotes_utilization [OF bi assms(6,7,9)]
  obtain x y z where xyz: "calcExpectedInterestRates bn reservesParams (Some rsym) market'
      (calcExpectedUtilizationRate bn sd' vd' l') sd' vd' ar' = Inr (x, y, z)"
    "denotes val y (stableRateN (unat (OPTIMAL_UTILIZATION_RATE s)) (unat (s_stableRateSlope1 s))
      (unat (s_stableRateSlope2 s)) (unat m) ?u)"
    "denotes val z (expectedVariableRateN (unat (OPTIMAL_UTILIZATION_RATE s)) (unat (s_baseVariableBorrowRate s))
      (unat (s_variableRateSlope1 s)) (unat (s_variableRateSlope2 s)) ?u)"
    "denotes val x (percentMulN (rayMulN (overallRateN (unat sd) (unat vd)
      (expectedVariableRateN (unat (OPTIMAL_UTILIZATION_RATE s)) (unat (s_baseVariableBorrowRate s))
        (unat (s_variableRateSlope1 s)) (unat (s_variableRateSlope2 s)) ?u) (unat ar)) ?u) (10000 - unat f))"
    using bignumber_integers.denotes_interestRates [OF bi assms(2,3,4) f(1) assms(5) util assms(6,7,8)] vrN by auto
  have above: "variableRateN opt base slope1 slope2 v = expectedVariableRateN opt base slope1 slope2 v"
    if "slope1 = 0 \<or> opt < v" for opt base slope1 slope2 v
    using that by (auto simp: variableRateN_def expectedVariableRateN_def)
  have lrN: "unat lr = percentMulN (rayMulN (overallRateN (unat sd) (unat vd) (unat vr) (unat ar)) ?u) (10000 - unat f)"
    using sol_percentMul_unat [OF lr] sol_rayMul_unat [OF gr] getOverallBorrowRate_unat [OF ov] f(2) uu by simp
  show ?thesis
    using xyz stableRateAt_unat [OF sr excess] vrN lrN above
      variable_rates_close [of "unat (OPTIMAL_UTILIZATION_RATE s)" "unat (s_variableRateSlope1 s)"
        "unat (s_baseVariableBorrowRate s)" "unat (s_variableRateSlope2 s)" ?u]
    by (auto simp: uu abs_minus_commute)
qed

lemma shipped_slopes:
  "obj_get (SturdyReservesConfig bn') rsym = Some params \<Longrightarrow> variableRateSlope1 (strategy params) = ''0''"
  "obj_get (FantomReservesConfig bn') rsym = Some params \<Longrightarrow> variableRateSlope1 (strategy params) = ''0''"
proof -
  have all: "list_all (\<lambda>(k, p). variableRateSlope1 (strategy p) = ''0'') (SturdyReservesConfig bn')"
    "list_all (\<lambda>(k, p). variableRateSlope1 (strategy p) = ''0'') (FantomReservesConfig bn')"
    by (simp_all add: SturdyReservesConfig_def FantomReservesConfig_def reserve_params_defs rate_strategy_defs)
  show "obj_get (SturdyReservesConfig bn') rsym = Some params \<Longrightarrow> variableRateSlope1 (strategy params) = ''0''"
    "obj_get (FantomReservesConfig bn') rsym = Some params \<Longrightarrow> variableRateSlope1 (strategy params) = ''0''"
    using all by (auto simp: list_all_iff obj_get_def dest!: map_of_SomeD)
qed

section \<open>Which reserves the calculators know\<close>

definition configured :: "IReserveParams jsobj \<Rightarrow> string option \<Rightarrow> bool" where
  "configured reservesParams rsym \<longleftrightarrow> (case rsym of None \<Rightarrow> False | Some s \<Rightarrow> obj_get reservesParams s \<noteq> None)"

lemma findIndex_configured:
  "findIndex (\<lambda>value. Some value = rsym) (obj_keys ps) = None \<longleftrightarrow> \<not> configured ps rsym"
proof (cases rsym)
  case None
  have "findIndex (\<lambda>value :: string. False) xs = None" for xs by (induction xs) simp_all
  then show ?thesis by (simp add: None configured_def)
next
  case (Some s)
  then show ?thesis
    using findIndex_obj_get [of ps s, symmetric] by (auto simp: configured_def split: option.splits)
qed

lemma interestRates_returns:
  "(\<exists>rates. calcExpectedInterestRates bn ps rsym m u sd vd ar = Inr rates) \<longleftrightarrow> configured ps rsym"
  using findIndex_configured [of rsym ps]
  by (auto simp: calcExpectedInterestRates_def Let_def split: option.splits)

lemma bindSum_returns: "(\<forall>x. \<exists>z. f x = Inr z) \<Longrightarrow> (\<exists>y. bindSum m f = Inr y) \<longleftrightarrow> (\<exists>x. m = Inr x)"
  by (auto simp: bindSum_Inr)

section \<open>Totals of a reserve\<close>

definition balanced :: "('n \<Rightarrow> rat option) \<Rightarrow> 'n ReserveData \<Rightarrow> bool" where
  "balanced val e \<longleftrightarrow> (\<forall>a s v. val (availableLiquidity e) = Some a \<longrightarrow> val (totalStableDebt e) = Some s \<longrightarrow>
     val (totalVariableDebt e) = Some v \<longrightarrow> val (totalLiquidity e) = Some (a + s + v))"

lemma setRates_simps [simp]:
  "totalLiquidity (setRates rs e) = totalLiquidity e" "availableLiquidity (setRates rs e) = availableLiquidity e"
  "totalStableDebt (setRates rs e) = totalStableDebt e" "totalVariableDebt (setRates rs e) = totalVariableDebt e"
  by (simp_all add: setRates_def split: prod.splits)

context bignumber_laws
begin

lemma balancedI:
  assumes "totalLiquidity e = bn_plus bn (bn_plus bn (availableLiquidity e) (totalStableDebt e)) (totalVariableDebt e) \<or>
    totalLiquidity e = bn_plus bn (bn_plus bn (availableLiquidity e) (totalVariableDebt e)) (totalStableDebt e)"
  shows "balanced val e"
  unfolding balanced_def
proof (intro allI impI)
  fix a s v
  assume v: "val (availableLiquidity e) = Some a" "val (totalStableDebt e) = Some s" "val (totalVariableDebt e) = Some v"
  from assms show "val (totalLiquidity e) = Some (a + s + v)"
    using val_plus [OF val_plus [OF v(1,2)] v(3)] val_plus [OF val_plus [OF v(1,3)] v(2)]
    by (auto simp: algebra_simps)
qed

lemma withdraw_balanced: "calcExpectedReserveDataAfterWithdraw bn ps amount before user t = Inr e \<Longrightarrow> balanced val e"
  by (intro balancedI) (auto simp: calcExpectedReserveDataAfterWithdraw_def Let_def bindSum_Inr)

lemma borrow_balanced: "calcExpectedReserveDataAfterBorrow bn ps amount rm before t now = Inr e \<Longrightarrow> balanced val e"
  by (intro balancedI) (auto simp: calcExpectedReserveDataAfterBorrow_def Let_def bindSum_Inr split: if_splits)

lemma repay_balanced: "calcExpectedReserveDataAfterRepay bn ps amount rm before user t = Inr e \<Longrightarrow> balanced val e"
  by (intro balancedI) (auto simp: calcExpectedReserveDataAfterRepay_def Let_def bindSum_Inr)

lemma swap_balanced: "calcExpectedReserveDataAfterSwapRateMode bn ps before user rm t = Inr e \<Longrightarrow> balanced val e"
  by (intro balancedI) (auto simp: calcExpectedReserveDataAfterSwapRateMode_def Let_def bindSum_Inr)

lemma rebalance_balanced: "calcExpectedReserveDataAfterStableRateRebalance bn ps before user t = Inr e \<Longrightarrow> balanced val e"
  by (intro balancedI) (auto simp: calcExpectedReserveDataAfterStableRateRebalance_def Let_def bindSum_Inr)

end

section \<open>Closing a position\<close>

context bignumber_integers
begin

lemma denotes_aTokenBalance:
  assumes "readsIndexes val d r" "denotes val now (unat t)" "unat (ri_lastUpdateTimestamp r) \<le> unat t"
    and "denotes val (u_scaledATokenBalance user) a"
  shows "denotes val (calcExpectedATokenBalance bn d user now) (rayMulN a (incomeN r t))"
  unfolding calcExpectedATokenBalance_def Let_def
  by (intro denotes_rayMul denotes_normalizedIncome assms)

lemma denotes_variableDebt:
  assumes "readsIndexes val d r" "denotes val now (unat t)" "unat (ri_lastUpdateTimestamp r) \<le> unat t"
    and "denotes val (u_scaledVariableDebt user) a"
  shows "denotes val (calcExpectedVariableDebtTokenBalance bn d user now) (rayMulN a (debtN r t))"
  unfolding calcExpectedVariableDebtTokenBalance_def Let_def
  by (intro denotes_rayMul denotes_normalizedDebt assms)

lemma MAX_UINT_AMOUNT_eq: "bn_eq bn (bn_abs bn (bn_new bn MAX_UINT_AMOUNT)) (bn_new bn MAX_UINT_AMOUNT)"
proof -
  have "isNumeral MAX_UINT_AMOUNT" by (simp add: MAX_UINT_AMOUNT_def isNumeral_def)
  then have "denotes val (bn_new bn MAX_UINT_AMOUNT) (readDigits MAX_UINT_AMOUNT)" by (rule denotes_new)
  then show ?thesis using denotes_eq denotes_abs by blast
qed

lemma scaled_cleared:
  assumes "denotes val x a" "denotes val y (rayMulN a i)" "denotes val idx i" "ray \<le> i"
  shows "denotes val (bn_minus bn x (rayDiv bn y idx)) 0"
proof -
  have "i \<noteq> 0" using assms(4) by (auto simp: ray_def)
  with assms have "denotes val (rayDiv bn y idx) a"
    using denotes_rayDiv [OF assms(2,3)] by (simp add: rayDivN_rayMulN)
  then show ?thesis using denotes_minus [OF assms(1), of _ a] by simp
qed

lemma withdraw_everything:
  assumes reads: "readsIndexes val before r" "denotes val now (unat t)" "unat (ri_lastUpdateTimestamp r) \<le> unat t"
    and user: "denotes val (u_scaledATokenBalance user) a" "denotes val (u_walletBalance user) wallet"
      "denotes val (u_currentATokenBalance user) held" "held \<noteq> 0"
    and after: "denotes val (liquidityIndex after) (incomeN r t)" "ray \<le> incomeN r t"
    and e: "e = calcExpectedUserDataAfterWithdraw bn MAX_UINT_AMOUNT before after user now"
  shows "denotes val (u_currentATokenBalance e) 0 \<and> denotes val (u_scaledATokenBalance e) 0 \<and>
    u_usageAsCollateralEnabled e = Some False \<and> denotes val (u_walletBalance e) (wallet + rayMulN a (incomeN r t))"
proof -
  let ?b = "rayMulN a (incomeN r t)"
  note balance = denotes_aTokenBalance [OF reads user(1)]
  have amount: "bn_toFixedPlaces bn (calcExpectedATokenBalance bn before user now) 0 = showNat ?b"
    by (rule toFixedPlaces_denotes [OF balance])
  have i0: "incomeN r t \<noteq> 0" using after(2) by (auto simp: ray_def)
  have zero: "denotes val (rayDiv bn (bn_number bn 0) (liquidityIndex after)) 0"
    using denotes_rayDiv [OF denotes_constants(7) after(1) i0] by simp
  have current: "denotes val (bn_minus bn (calcExpectedATokenBalance bn before user now) (bn_new bn (showNat ?b))) 0"
    using denotes_minus [OF balance denotes_showNat [of ?b]] by simp
  have held: "\<not> bn_eq bn (u_currentATokenBalance user) (bn_number bn 0)"
    using denotes_eq [OF user(3) denotes_constants(7)] user(4) by simp
  have closed: "bn_eq bn (bn_minus bn (calcExpectedATokenBalance bn before user now) (bn_new bn (showNat ?b))) (bn_number bn 0)"
    using denotes_eq [OF current denotes_constants(7)] by simp
  have "denotes val (bn_plus bn (u_scaledATokenBalance user) (rayDiv bn (bn_number bn 0) (liquidityIndex after))) a"
    using denotes_plus [OF user(1) zero] by simp
  from scaled_cleared [OF this denotes_showNat after]
  show ?thesis
    using current denotes_plus [OF user(2) denotes_showNat]
    by (simp add: e calcExpectedUserDataAfterWithdraw_def Let_def amount held closed calcExpectedScaledATokenBalance_def)
qed

lemma repay_everything:
  assumes reads: "readsIndexes val before r" "denotes val now (unat t)" "unat (ri_lastUpdateTimestamp r) \<le> unat t"
    and user: "denotes val (u_scaledVariableDebt user) a" "denotes val (u_walletBalance user) wallet"
      "rayMulN a (debtN r t) \<le> wallet"
    and after: "denotes val (variableBorrowIndex after) (debtN r t)" "ray \<le> debtN r t"
    and "rateMode \<noteq> RateMode_Stable"
    and e: "e = calcExpectedUserDataAfterRepay bn MAX_UINT_AMOUNT rateMode before after user payer payer tx now"
  shows "denotes val (u_scaledVariableDebt e) 0 \<and> denotes val (u_currentVariableDebt e) 0 \<and>
    denotes val (u_walletBalance e) (wallet - rayMulN a (debtN r t)) \<and>
    u_usageAsCollateralEnabled e = u_usageAsCollateralEnabled user"
proof -
  note debt = denotes_variableDebt [OF reads user(1)]
  note cleared = scaled_cleared [OF user(1) debt after]
  from denotes_rayMul [OF cleared after(1)] cleared denotes_minus [OF user(2) debt user(3)] show ?thesis
    using assms(9) by (simp add: e calcExpectedUserDataAfterRepay_def Let_def MAX_UINT_AMOUNT_eq)
qed

end

text \<open>The principal stable debt expected after a deposit is the variable debt.\<close>

lemma deposit_principal_overwritten:
  "u_principalStableDebt (calcExpectedUserDataAfterDeposit bn amount before after user t symbol) =
   calcExpectedVariableDebtTokenBalance bn before user t"
  by (simp add: calcExpectedUserDataAfterDeposit_def Let_def)

section \<open>Properties\<close>

text \<open>C18. With the setting of the scenario suites each fixed point method computes what the
  contract's function of the same name returns, whenever that returns.\<close>

theorem math_agrees_with_contracts:
  assumes "bignumber_laws bn val 0 ROUND_DOWN" and "denotes val x (unat a)" and "denotes val y (unat b)"
  shows "(sol_rayMul a b = Inr c \<longrightarrow> denotes val (rayMul bn x y) (unat c)) \<and>
    (sol_rayDiv a b = Inr c \<longrightarrow> denotes val (rayDiv bn x y) (unat c)) \<and>
    (sol_wadMul a b = Inr c \<longrightarrow> denotes val (wadMul bn x y) (unat c)) \<and>
    (sol_wadDiv a b = Inr c \<longrightarrow> denotes val (wadDiv bn x y) (unat c)) \<and>
    (sol_percentMul a b = Inr c \<longrightarrow> denotes val (percentMul bn x y) (unat c)) \<and>
    (sol_percentDiv a b = Inr c \<longrightarrow> denotes val (percentDiv bn x y) (unat c)) \<and>
    (sol_rayToWad a = Inr c \<longrightarrow> denotes val (rayToWad bn x) (unat c)) \<and>
    (sol_wadToRay a = Inr c \<longrightarrow> denotes val (wadToRay bn x) (unat c))"
proof -
  from assms(1) have "bignumber_integers bn val" by (simp add: bignumber_integers_def)
  note int = bignumber_integers.denotes_rayMul [OF this] bignumber_integers.denotes_rayDiv [OF this]
    bignumber_integers.denotes_wadMul [OF this] bignumber_integers.denotes_wadDiv [OF this]
    bignumber_integers.denotes_percentMul [OF this] bignumber_integers.denotes_percentDiv [OF this]
    bignumber_integers.denotes_rayToWad [OF this] bignumber_integers.denotes_wadToRay [OF this]
  show ?thesis
    using int(1,3,5) [OF assms(2,3)] int(2,4,6) [OF assms(2,3)] int(7,8) [OF assms(2)]
    by (intro conjI impI)
      (drule checked_unat sol_wadMul_unat sol_wadDiv_unat sol_percentDiv_unat sol_rayToWad_unat; simp)+
qed

theorem math_agrees_with_contracts_witness:
  "rayMul (rational_js 0 ROUND_DOWN) (Some 3) (Some 500000000000000000000000000) = Some 2"
proof -
  have "sol_rayMul 3 500000000000000000000000000 = Inr 2"
    by (simp add: sol_rayMul_def mulChecked_def addChecked_def divChecked_def check_def sol_halfRAY_def sol_RAY_def)
  then show ?thesis
    using math_agrees_with_contracts [OF rational.bignumber_laws_axioms, of "Some 3" 3
        "Some 500000000000000000000000000" 500000000000000000000000000 2]
    by (simp add: denotes_def)
qed

text \<open>With any other setting, for instance the package's default of 20 decimal places rounded half
  up, \<open>rayMul\<close> is the rounded product or one more.\<close>

theorem rayMul_any_setting:
  assumes "bignumber_laws bn val dp mode" and "denotes val x a" and "denotes val y b"
  shows "\<exists>n. denotes val (rayMul bn x y) n \<and> n \<in> {rayMulN a b, rayMulN a b + 1}"
  using bignumber_laws.rayMul_setting [OF assms] by (auto intro: le_antisym simp: le_Suc_eq)

theorem rayMul_any_setting_witness:
  "\<exists>n \<in> {0, 1}. rayMul (rational_js 20 ROUND_HALF_UP) (Some 499999999999999999999999999) (Some 1) = Some (of_nat n)"
  using rayMul_any_setting [OF rational.bignumber_laws_axioms [where dp = 20 and mode = ROUND_HALF_UP],
      of "Some 499999999999999999999999999" 499999999999999999999999999 "Some 1" 1]
  by (auto simp: denotes_def rayMulN_def ray_def)

text \<open>The default setting does round up across a whole number: the product rounds to 0.\<close>

lemma default_setting_overestimates:
  "rayMul (rational_js 20 ROUND_HALF_UP) (Some 499999999999999999999999999) (Some 1) = Some 1 \<and>
   rayMulN 499999999999999999999999999 1 = 0"
proof -
  have "\<lfloor>1000000000000000000004999999 / 10000000 :: rat\<rfloor> = 100000000000000000000"
    by (simp add: floor_eq_iff)
  then show ?thesis
    using rational.rayMul_value [where dp = 20 and mode = ROUND_HALF_UP and x = "Some 499999999999999999999999999"
        and a = 499999999999999999999999999 and y = "Some 1" and b = 1]
    by (simp add: denotes_def ray_def rayMulN_def roundTo_nonneg roundAbs_def)
qed

text \<open>A scaled balance is recovered exactly from the balance it stands for when the index is at
  least one ray.\<close>

theorem scaled_balance_roundtrip:
  assumes "bignumber_laws bn val 0 ROUND_DOWN" and "denotes val x a" and "denotes val index i" and "ray \<le> i"
  shows "denotes val (rayDiv bn (rayMul bn x index) index) a"
proof -
  from assms(1) have bi: "bignumber_integers bn val" by (simp add: bignumber_integers_def)
  have "i \<noteq> 0" using assms(4) by (auto simp: ray_def)
  from bignumber_integers.denotes_rayDiv [OF bi bignumber_integers.denotes_rayMul [OF bi assms(2,3)] assms(3) this]
  show ?thesis by (simp add: rayDivN_rayMulN [OF assms(4)])
qed

theorem scaled_balance_roundtrip_witness:
  "rayDiv (rational_js 0 ROUND_DOWN) (rayMul (rational_js 0 ROUND_DOWN) (Some 7)
     (Some 1234567890123456789012345678)) (Some 1234567890123456789012345678) = Some 7"
  using scaled_balance_roundtrip [OF rational.bignumber_laws_axioms, of "Some 7" 7
      "Some 1234567890123456789012345678" 1234567890123456789012345678]
  by (simp add: denotes_def ray_def)

text \<open>C19. The normalized income and debt the scenarios compute from a reserve are those the contract
  computes from its indexes, rates and time of last update, in the same block and later.\<close>

theorem normalized_values_agree:
  assumes "bignumber_laws bn val 0 ROUND_DOWN" and "readsIndexes val d r" and "denotes val now (unat t)"
    and "unat t < 2 ^ 40"
  shows "(getNormalizedIncome r t = Inr c \<longrightarrow>
      denotes val (calcExpectedReserveNormalizedIncome bn d now) (unat c)) \<and>
    (getNormalizedDebt r t = Inr c \<longrightarrow>
      denotes val (calcExpectedReserveNormalizedDebt bn (variableBorrowRate d) (variableBorrowIndex d)
        (lastUpdateTimestamp d) now) (unat c))"
proof -
  from assms(1) have bi: "bignumber_integers bn val" by (simp add: bignumber_integers_def)
  show ?thesis
    using bignumber_integers.denotes_normalizedIncome [OF bi assms(2,3)]
      bignumber_integers.denotes_normalizedDebt [OF bi assms(2,3)]
      getNormalizedIncome_unat [OF _ assms(4)] getNormalizedDebt_unat [OF _ assms(4)]
    by auto
qed

definition sampleIndexes :: ReserveIndexes where
  "sampleIndexes = \<lparr>ri_liquidityIndex = 1100000000000000000000000000,
     ri_variableBorrowIndex = 1200000000000000000000000000,
     ri_currentLiquidityRate = 31536000000000000000000000, ri_currentVariableBorrowRate = 63072000000000000000000000,
     ri_lastUpdateTimestamp = 1000\<rparr>"

definition sampleReserve :: "rat option ReserveData" where
  "sampleReserve = (emptyReserveData (rational_js 0 ROUND_DOWN))
     \<lparr>r_symbol := Some ''DAI'', liquidityIndex := Some 1100000000000000000000000000,
      variableBorrowIndex := Some 1200000000000000000000000000,
      liquidityRate := Some 31536000000000000000000000, variableBorrowRate := Some 63072000000000000000000000,
      lastUpdateTimestamp := Some 1000\<rparr>"

lemma sampleReserve_reads: "readsIndexes (\<lambda>x. x) sampleReserve sampleIndexes"
  by (simp add: readsIndexes_def sampleReserve_def sampleIndexes_def denotes_def)

theorem normalized_values_agree_witness:
  "calcExpectedReserveNormalizedIncome (rational_js 0 ROUND_DOWN) sampleReserve (Some 1010) =
     Some 1100000011000000000000000000"
proof -
  have "getNormalizedIncome sampleIndexes 1010 = Inr 1100000011000000000000000000"
    by (simp add: getNormalizedIncome_def sampleIndexes_def calculateLinearInterest_def subChecked_def mulChecked_def
        divChecked_def addChecked_def check_def SECONDS_PER_YEAR_def sol_RAY_def sol_rayMul_def sol_halfRAY_def)
  then show ?thesis
    using normalized_values_agree [OF rational.bignumber_laws_axioms sampleReserve_reads, of "Some 1010" 1010
        1100000011000000000000000000]
    by (simp add: denotes_def)
qed


text \<open>C16. For every reserve of the two markets all three rates the scenarios expect are exactly the
  contract's.\<close>

theorem shipped_rates_agree:
  assumes "bignumber_laws bn val 0 ROUND_DOWN"
    and "reservesParams \<in> {SturdyReservesConfig (bignumber_js.truncate bn), FantomReservesConfig (bignumber_js.truncate bn)}"
    and "obj_get reservesParams rsym = Some params"
    and "strategyOf params = Inr s" and "uint256Arg (reserveFactor params) = Inr f"
    and "denotes val market' (unat m)" and "denotes val sd' (unat sd)" and "denotes val vd' (unat vd)"
    and "denotes val ar' (unat ar)" and "denotes val l' (unat available + (unat sd + unat vd))"
    and "calculateInterestRates s m available sd vd ar f = Inr (lr, sr, vr)"
  shows "\<exists>x y z. calcExpectedInterestRates bn reservesParams (Some rsym) market'
      (calcExpectedUtilizationRate bn sd' vd' l') sd' vd' ar' = Inr (x, y, z) \<and>
    denotes val x (unat lr) \<and> denotes val y (unat sr) \<and> denotes val z (unat vr)"
proof -
  from assms(2,3) have "variableRateSlope1 (strategy params) = ''0''"
    using shipped_slopes [where rsym = rsym and params = params] by auto
  then have "s_variableRateSlope1 s = 0"
    using strategyOf_Inr(3) [OF assms(4)] by (auto simp: uint256Arg_def isNumeral_def readDigits_def)
  then show ?thesis using rates_agree [OF assms(1,3-)] by (metis (no_types, lifting))
qed

definition sampleStrategy :: InterestRateStrategy where
  "sampleStrategy = \<lparr>OPTIMAL_UTILIZATION_RATE = 800000000000000000000000000,
     EXCESS_UTILIZATION_RATE = 200000000000000000000000000, s_baseVariableBorrowRate = 0, s_variableRateSlope1 = 0,
     s_variableRateSlope2 = 600000000000000000000000000, s_stableRateSlope1 = 0, s_stableRateSlope2 = 0,
     s_reserveCapacity = 0\<rparr>"

lemma sampleStrategy_of:
  "strategyOf (strategyDAI (bignumber_js.truncate (rational_js 0 ROUND_DOWN))) = Inr sampleStrategy"
  "uint256Arg (reserveFactor (strategyDAI (bignumber_js.truncate (rational_js 0 ROUND_DOWN)))) = Inr 1000"
proof -
  let ?bn = "rational_js 0 ROUND_DOWN"
  have scaled: "bn_toFixed ?bn (bn_multipliedBy ?bn (bn_new ?bn s) (bn_new ?bn ''1e+27'')) = showNat n"
    if "isLiteral s" "literalRat s * 10 ^ 27 = of_nat n" for s n
  proof (rule rational.toFixed_val)
    have "isLiteral ''1e+27''" "literalRat ''1e+27'' = 10 ^ 27"
      by (simp_all add: isLiteral_def literalRat_def literalParts_def literalValue_def isNumeral_def readDigits_def)
    then show "bn_multipliedBy ?bn (bn_new ?bn s) (bn_new ?bn ''1e+27'') = Some (of_nat n)"
      using rational.val_multipliedBy [OF rational.val_new [OF that(1)] rational.val_new] that(2) by fastforce
  qed
  have lits: "bn_toFixed ?bn (bn_multipliedBy ?bn (bn_new ?bn ''0.8'') (bn_new ?bn ''1e+27'')) =
      showNat 800000000000000000000000000"
    "bn_toFixed ?bn (bn_multipliedBy ?bn (bn_new ?bn ''0.6'') (bn_new ?bn ''1e+27'')) =
      showNat 600000000000000000000000000"
    by (rule scaled; simp add: isLiteral_def literalRat_def literalParts_def literalValue_def isNumeral_def readDigits_def)+
  have args: "uint256Arg (showNat n) = Inr (of_nat n)" if "n < 2 ^ 256" for n
    using that readDigits_showNat [of n] by (simp add: uint256Arg_def)
  have zero: "uint256Arg ''0'' = Inr 0" by (simp add: uint256Arg_def isNumeral_def readDigits_def)
  show "strategyOf (strategyDAI (bignumber_js.truncate ?bn)) = Inr sampleStrategy"
    by (simp add: strategyOf_def strategyDAI_def rateStrategyStableTwo_def bignumber_js.truncate_def oneRay_def lits args
        zero newStrategy_def subChecked_def check_def sol_RAY_def sampleStrategy_def)
  show "uint256Arg (reserveFactor (strategyDAI (bignumber_js.truncate ?bn))) = Inr 1000"
    by (simp add: strategyDAI_def uint256Arg_def isNumeral_def readDigits_def)
qed

lemma sample_rates:
  "calculateInterestRates sampleStrategy 7 100 0 900 0 1000 =
     Inr (243000000000000000000000000, 7, 300000000000000000000000000)"
  by (simp add: calculateInterestRates_def utilizationOf_def stableRateAt_def variableRateAt_def getOverallBorrowRate_def
      sampleStrategy_def addChecked_def subChecked_def mulChecked_def divChecked_def check_def sol_rayDiv_def
      sol_rayMul_def sol_wadToRay_def sol_percentMul_def sol_RAY_def sol_halfRAY_def sol_WAD_RAY_RATIO_def
      sol_PERCENTAGE_FACTOR_def HALF_PERCENT_def)


theorem shipped_rates_agree_witness:
  "calcExpectedInterestRates (rational_js 0 ROUND_DOWN)
      (SturdyReservesConfig (bignumber_js.truncate (rational_js 0 ROUND_DOWN))) (Some ''DAI'') (Some 7)
      (calcExpectedUtilizationRate (rational_js 0 ROUND_DOWN) (Some 0) (Some 900) (Some 1000))
      (Some 0) (Some 900) (Some 0) =
    Inr (Some 243000000000000000000000000, Some 7, Some 300000000000000000000000000)"
  using shipped_rates_agree [OF rational.bignumber_laws_axioms _ _ sampleStrategy_of _ _ _ _ _ sample_rates,
      of "SturdyReservesConfig (bignumber_js.truncate (rational_js 0 ROUND_DOWN))" "''DAI''"
      "Some 7" "Some 0" "Some 900" "Some 0" "Some 1000"]
  by (simp add: denotes_def) (simp add: SturdyReservesConfig_def obj_get_def)

text \<open>An index the scenarios expect is never smaller than the one before, whatever the reserve's
  rates and however much time has passed.\<close>

theorem expected_indexes_grow:
  assumes "bignumber_laws bn val 0 ROUND_DOWN" and "readsIndexes val d r" and "denotes val now (unat (t :: uint256))"
    and "unat (ri_lastUpdateTimestamp r) \<le> unat t"
    and "denotes val (utilizationRate d) ut" and "denotes val (totalVariableDebt d) tv"
  shows "\<exists>li vi. denotes val (calcExpectedLiquidityIndex bn d now) li \<and> unat (ri_liquidityIndex r) \<le> li \<and>
    denotes val (calcExpectedVariableBorrowIndex bn d now) vi \<and> unat (ri_variableBorrowIndex r) \<le> vi"
proof -
  from assms(1) have bi: "bignumber_integers bn val" by (simp add: bignumber_integers_def)
  show ?thesis
    using bignumber_integers.denotes_liquidityIndex [OF bi assms(2-5)]
      bignumber_integers.denotes_variableBorrowIndex [OF bi assms(2-4,6)] indexes_ge [of r t]
    by (cases "ut = 0"; cases "tv = 0") auto
qed

theorem expected_indexes_grow_witness:
  "\<exists>li \<ge> 1100000000000000000000000000. calcExpectedLiquidityIndex (rational_js 0 ROUND_DOWN)
     (sampleReserve\<lparr>utilizationRate := Some 1, totalVariableDebt := Some 1\<rparr>) (Some 2000) = Some (of_nat li)"
proof -
  have "readsIndexes (\<lambda>x. x) (sampleReserve\<lparr>utilizationRate := Some 1, totalVariableDebt := Some 1\<rparr>) sampleIndexes"
    using sampleReserve_reads by (simp add: readsIndexes_def)
  from expected_indexes_grow [OF rational.bignumber_laws_axioms this, of "Some 2000" 2000 1 1] show ?thesis
    by (auto simp: denotes_def sampleIndexes_def)
qed

text \<open>The indexes the scenarios expect after an action are the ones the contract stores, when the
  reserve was read consistently: no utilization only without a liquidity rate, and no variable
  debt exactly when the contract accrues none.\<close>

theorem expected_indexes_agree:
  assumes "bignumber_laws bn val 0 ROUND_DOWN" and "readsIndexes val d r" and "denotes val now (unat t)"
    and "unat (ri_lastUpdateTimestamp r) \<le> unat t"
    and "denotes val (utilizationRate d) ut" and "denotes val (totalVariableDebt d) tv"
    and "ut = 0 \<longrightarrow> ri_currentLiquidityRate r = 0" and "tv = 0 \<longleftrightarrow> ri_currentLiquidityRate r = 0 \<or> scaled = 0"
    and "updateIndexes scaled t r = Inr r'"
  shows "denotes val (calcExpectedLiquidityIndex bn d now) (unat (ri_liquidityIndex r')) \<and>
    denotes val (calcExpectedVariableBorrowIndex bn d now) (unat (ri_variableBorrowIndex r'))"
proof -
  from assms(1) have bi: "bignumber_integers bn val" by (simp add: bignumber_integers_def)
  have "incomeN r t = unat (ri_liquidityIndex r)" if "ri_currentLiquidityRate r = 0"
    using that by (simp add: incomeN_def)
  then show ?thesis
    using bignumber_integers.denotes_liquidityIndex [OF bi assms(2-5)]
      bignumber_integers.denotes_variableBorrowIndex [OF bi assms(2-4,6)] updateIndexes_unat [OF assms(9)] assms(7,8)
    by (auto split: if_splits)
qed

theorem expected_indexes_agree_witness:
  "calcExpectedLiquidityIndex (rational_js 0 ROUND_DOWN)
     (sampleReserve\<lparr>utilizationRate := Some 1, totalVariableDebt := Some 0\<rparr>) (Some 1010) =
     Some 1100000011000000000000000000"
proof -
  have "readsIndexes (\<lambda>x. x) (sampleReserve\<lparr>utilizationRate := Some 1, totalVariableDebt := Some 0\<rparr>) sampleIndexes"
    using sampleReserve_reads by (simp add: readsIndexes_def)
  moreover have "updateIndexes 0 1010 sampleIndexes = Inr (sampleIndexes\<lparr>ri_liquidityIndex := 1100000011000000000000000000,
      ri_lastUpdateTimestamp := 1010\<rparr>)"
    by (simp add: updateIndexes_def sampleIndexes_def calculateLinearInterest_def subChecked_def mulChecked_def
        divChecked_def addChecked_def check_def SECONDS_PER_YEAR_def sol_RAY_def sol_rayMul_def sol_halfRAY_def
        mask_eq_exp_minus_1)
  ultimately show ?thesis
    using expected_indexes_agree [OF rational.bignumber_laws_axioms, of _ sampleIndexes "Some 1010" 1010 1 0 0]
    by (simp add: denotes_def sampleIndexes_def)
qed

text \<open>Withdrawing everything: the expected balance and scaled balance are zero, the reserve is no
  longer used as collateral, and the wallet receives the whole balance with its interest.\<close>

theorem full_withdrawal_closes:
  assumes "bignumber_laws bn val 0 ROUND_DOWN"
    and "readsIndexes val before r" and "denotes val now (unat t)" and "unat (ri_lastUpdateTimestamp r) \<le> unat t"
    and "denotes val (u_scaledATokenBalance user) a" and "denotes val (u_walletBalance user) wallet"
    and "denotes val (u_currentATokenBalance user) held" and "held \<noteq> 0"
    and "denotes val (liquidityIndex after) (incomeN r t)" and "ray \<le> incomeN r t"
    and "e = calcExpectedUserDataAfterWithdraw bn MAX_UINT_AMOUNT before after user now"
  shows "denotes val (u_currentATokenBalance e) 0 \<and> denotes val (u_scaledATokenBalance e) 0 \<and>
    u_usageAsCollateralEnabled e = Some False \<and> denotes val (u_walletBalance e) (wallet + rayMulN a (incomeN r t))"
  by (rule bignumber_integers.withdraw_everything [OF bignumber_integers.intro [OF assms(1)] assms(2-11)])

definition sampleUser :: "rat option UserReserveData" where
  "sampleUser = (emptyUserReserveData (rational_js 0 ROUND_DOWN))
     \<lparr>u_scaledATokenBalance := Some 500, u_currentATokenBalance := Some 550, u_walletBalance := Some 10000,
      u_scaledVariableDebt := Some 1000\<rparr>"

lemma sampleIndexes_values: "incomeN sampleIndexes 1000 = 1100000000000000000000000000"
  "debtN sampleIndexes 1000 = 1200000000000000000000000000"
  "unat (ri_lastUpdateTimestamp sampleIndexes) = 1000" "liquidityIndex sampleReserve = Some 1100000000000000000000000000"
  "variableBorrowIndex sampleReserve = Some 1200000000000000000000000000"
  by (simp_all add: incomeN_def debtN_def sampleIndexes_def sampleReserve_def)

theorem full_withdrawal_closes_witness:
  "u_walletBalance (calcExpectedUserDataAfterWithdraw (rational_js 0 ROUND_DOWN) MAX_UINT_AMOUNT sampleReserve
     sampleReserve sampleUser (Some 1000)) = Some 10550"
  using full_withdrawal_closes [OF rational.bignumber_laws_axioms sampleReserve_reads _ _ _ _ _ _ _ _ refl,
      of "Some 1000" 1000 sampleUser 500 10000 550 sampleReserve]
  by (simp add: sampleIndexes_values denotes_def sampleUser_def ray_def rayMulN_def)

text \<open>Repaying everything at the variable rate: the expected scaled and current debts are zero, and
  the payer's wallet has paid the whole debt with its interest.\<close>

theorem full_repayment_closes:
  assumes "bignumber_laws bn val 0 ROUND_DOWN"
    and "readsIndexes val before r" and "denotes val now (unat t)" and "unat (ri_lastUpdateTimestamp r) \<le> unat t"
    and "denotes val (u_scaledVariableDebt user) a" and "denotes val (u_walletBalance user) wallet"
    and "rayMulN a (debtN r t) \<le> wallet"
    and "denotes val (variableBorrowIndex after) (debtN r t)" and "ray \<le> debtN r t" and "rateMode \<noteq> RateMode_Stable"
    and "e = calcExpectedUserDataAfterRepay bn MAX_UINT_AMOUNT rateMode before after user payer payer tx now"
  shows "denotes val (u_scaledVariableDebt e) 0 \<and> denotes val (u_currentVariableDebt e) 0 \<and>
    denotes val (u_walletBalance e) (wallet - rayMulN a (debtN r t)) \<and>
    u_usageAsCollateralEnabled e = u_usageAsCollateralEnabled user"
  by (rule bignumber_integers.repay_everything [OF bignumber_integers.intro [OF assms(1)] assms(2-11)])

theorem full_repayment_closes_witness:
  "u_walletBalance (calcExpectedUserDataAfterRepay (rational_js 0 ROUND_DOWN) MAX_UINT_AMOUNT ''2'' sampleReserve
     sampleReserve sampleUser ''0xA'' ''0xA'' (Some 1000) (Some 1000)) = Some 8800"
  using full_repayment_closes [OF rational.bignumber_laws_axioms sampleReserve_reads _ _ _ _ _ _ _ _ refl,
      of "Some 1000" 1000 sampleUser 1000 10000 sampleReserve "''2''" "''0xA''" "Some 1000"]
  by (simp add: sampleIndexes_values denotes_def sampleUser_def ray_def rayMulN_def RateMode_Stable_def)


text \<open>Each of the six calculators of a reserve returns exactly when the reserve's symbol is among the
  configured ones, and throws otherwise.\<close>

theorem expected_reserve_returns:
  "((\<exists>e. calcExpectedReserveDataAfterDeposit bn ps amount before t = Inr e) \<longleftrightarrow> configured ps (r_symbol before)) \<and>
   ((\<exists>e. calcExpectedReserveDataAfterWithdraw bn ps amount before user t = Inr e) \<longleftrightarrow> configured ps (r_symbol before)) \<and>
   ((\<exists>e. calcExpectedReserveDataAfterBorrow bn ps amount rm before t now = Inr e) \<longleftrightarrow> configured ps (r_symbol before)) \<and>
   ((\<exists>e. calcExpectedReserveDataAfterRepay bn ps amount rm before user t = Inr e) \<longleftrightarrow> configured ps (r_symbol before)) \<and>
   ((\<exists>e. calcExpectedReserveDataAfterSwapRateMode bn ps before user rm t = Inr e) \<longleftrightarrow> configured ps (r_symbol before)) \<and>
   ((\<exists>e. calcExpectedReserveDataAfterStableRateRebalance bn ps before user t = Inr e) \<longleftrightarrow> configured ps (r_symbol before))"
  unfolding calcExpectedReserveDataAfterDeposit_def calcExpectedReserveDataAfterWithdraw_def
    calcExpectedReserveDataAfterBorrow_def calcExpectedReserveDataAfterRepay_def
    calcExpectedReserveDataAfterSwapRateMode_def calcExpectedReserveDataAfterStableRateRebalance_def Let_def
  by (intro conjI; simp add: bindSum_returns interestRates_returns del: split_paired_Ex)


end
