(* ===== verification/FantomCalculators.thy ===== *)
theory FantomCalculators
  imports Calculations
begin

text \<open>
  The calculators of \<open>test-suites/test-ftm/helpers/utils/calculations.ts\<close> that repeat those of
  \<open>test-suites/test-sturdy\<close>, translated on their own: the two files are kept by hand. The lemmas
  \<open>ftm_calculators\<close> say that the copies still compute the same; the deposit differs in the market
  whose configuration it reads. Names have the prefix \<open>ftm_\<close>.
\<close>

definition ftm_strToBN :: "'n bignumber \<Rightarrow> string \<Rightarrow> 'n" where
  "ftm_strToBN bn amount = bn_new bn amount"

section \<open>Interest\<close>

definition ftm_calcLinearInterest :: "'n bignumber \<Rightarrow> 'n \<Rightarrow> 'n \<Rightarrow> 'n \<Rightarrow> 'n" where
  "ftm_calcLinearInterest bn rate currentTimestamp lastUpdate =
     (let timeDifference = bn_minus bn currentTimestamp lastUpdate in
      bn_plus bn (bn_div bn (bn_multipliedBy bn rate timeDifference) (bn_new bn ONE_YEAR)) (bn_new bn (RAY bn)))"

definition ftm_calcCompoundedInterest :: "'n bignumber \<Rightarrow> 'n \<Rightarrow> 'n \<Rightarrow> 'n \<Rightarrow> 'n" where
  "ftm_calcCompoundedInterest bn rate currentTimestamp lastUpdate =
     (let timeDifference = bn_minus bn currentTimestamp lastUpdate in
      if bn_eq bn timeDifference (bn_number bn 0) then bn_new bn (RAY bn)
      else let
        expMinusOne = bn_minus bn timeDifference (bn_number bn 1);
        expMinusTwo = (if bn_gt bn timeDifference (bn_number bn 2)
                       then bn_minus bn timeDifference (bn_number bn 2) else bn_number bn 0);
        ratePerSecond = bn_div bn rate (bn_new bn ONE_YEAR);
        basePowerTwo = rayMul bn ratePerSecond ratePerSecond;
        basePowerThree = rayMul bn basePowerTwo ratePerSecond;
        secondTerm = bn_div bn
          (bn_multipliedBy bn (bn_multipliedBy bn timeDifference expMinusOne) basePowerTwo) (bn_number bn 2);
        thirdTerm = bn_div bn
          (bn_multipliedBy bn (bn_multipliedBy bn (bn_multipliedBy bn timeDifference expMinusOne)
             expMinusTwo) basePowerThree) (bn_number bn 6)
      in bn_plus bn (bn_plus bn (bn_plus bn (bn_new bn (RAY bn))
           (bn_multipliedBy bn ratePerSecond timeDifference)) secondTerm) thirdTerm)"

section \<open>Balances and indexes\<close>

definition ftm_calcExpectedScaledATokenBalance ::
  "'n bignumber \<Rightarrow> 'n UserReserveData \<Rightarrow> 'n \<Rightarrow> 'n \<Rightarrow> 'n \<Rightarrow> 'n" where
  "ftm_calcExpectedScaledATokenBalance bn user index amountAdded amountTaken =
     bn_minus bn (bn_plus bn (u_scaledATokenBalance user) (rayDiv bn amountAdded index))
       (rayDiv bn amountTaken index)"

definition ftm_calcExpectedReserveNormalizedIncome :: "'n bignumber \<Rightarrow> 'n ReserveData \<Rightarrow> 'n \<Rightarrow> 'n" where
  "ftm_calcExpectedReserveNormalizedIncome bn reserve currentTimestamp =
     (if bn_eq bn (liquidityRate reserve) (bn_new bn ''0'') then liquidityIndex reserve
      else
        let cumulatedInterest = ftm_calcLinearInterest bn (liquidityRate reserve) currentTimestamp
              (lastUpdateTimestamp reserve)
        in rayMul bn cumulatedInterest (liquidityIndex reserve))"

definition ftm_calcExpectedATokenBalance ::
  "'n bignumber \<Rightarrow> 'n ReserveData \<Rightarrow> 'n UserReserveData \<Rightarrow> 'n \<Rightarrow> 'n" where
  "ftm_calcExpectedATokenBalance bn reserve user currentTimestamp =
     (let index = ftm_calcExpectedReserveNormalizedIncome bn reserve currentTimestamp in
      rayMul bn (u_scaledATokenBalance user) index)"

definition ftm_calcExpectedAverageStableBorrowRate :: "'n bignumber \<Rightarrow> 'n \<Rightarrow> 'n \<Rightarrow> 'n \<Rightarrow> 'n \<Rightarrow> 'n" where
  "ftm_calcExpectedAverageStableBorrowRate bn avgStableRateBefore totalStableDebtBefore amountChanged rate =
     (let weightedTotalBorrows = bn_multipliedBy bn avgStableRateBefore totalStableDebtBefore;
          weightedAmountBorrowed = bn_multipliedBy bn rate amountChanged;
          totalBorrowedStable = bn_plus bn totalStableDebtBefore amountChanged in
      if bn_eq bn totalBorrowedStable (bn_number bn 0) then bn_new bn ''0''
      else roundDown bn (bn_div bn (bn_plus bn weightedTotalBorrows weightedAmountBorrowed) totalBorrowedStable))"

definition ftm_calcExpectedAverageStableBorrowRateRebalance ::
  "'n bignumber \<Rightarrow> 'n \<Rightarrow> 'n \<Rightarrow> 'n \<Rightarrow> 'n \<Rightarrow> 'n" where
  "ftm_calcExpectedAverageStableBorrowRateRebalance bn avgStableRateBefore totalStableDebtBefore amountChanged rate =
     (let weightedTotalBorrows = rayMul bn avgStableRateBefore totalStableDebtBefore;
          weightedAmountBorrowed = rayMul bn rate (wadToRay bn amountChanged);
          totalBorrowedStable = bn_plus bn totalStableDebtBefore (wadToRay bn amountChanged) in
      if bn_eq bn totalBorrowedStable (bn_number bn 0) then bn_new bn ''0''
      else roundDown bn (rayDiv bn (bn_plus bn weightedTotalBorrows weightedAmountBorrowed) totalBorrowedStable))"

definition ftm_calcExpectedReserveNormalizedDebt :: "'n bignumber \<Rightarrow> 'n \<Rightarrow> 'n \<Rightarrow> 'n \<Rightarrow> 'n \<Rightarrow> 'n" where
  "ftm_calcExpectedReserveNormalizedDebt bn borrowRate borrowIndex lastUpdate currentTimestamp =
     (if bn_eq bn borrowRate (bn_new bn ''0'') then borrowIndex
      else
        let cumulatedInterest = ftm_calcCompoundedInterest bn borrowRate currentTimestamp lastUpdate
        in rayMul bn cumulatedInterest borrowIndex)"

definition ftm_calcExpectedVariableDebtTokenBalance ::
  "'n bignumber \<Rightarrow> 'n ReserveData \<Rightarrow> 'n UserReserveData \<Rightarrow> 'n \<Rightarrow> 'n" where
  "ftm_calcExpectedVariableDebtTokenBalance bn reserve user currentTimestamp =
     (let normalizedDebt = ftm_calcExpectedReserveNormalizedDebt bn (variableBorrowRate reserve)
            (variableBorrowIndex reserve) (lastUpdateTimestamp reserve) currentTimestamp in
      rayMul bn (u_scaledVariableDebt user) normalizedDebt)"

definition ftm_calcExpectedStableDebtTokenBalance :: "'n bignumber \<Rightarrow> 'n \<Rightarrow> 'n \<Rightarrow> 'n \<Rightarrow> 'n \<Rightarrow> 'n" where
  "ftm_calcExpectedStableDebtTokenBalance bn principalDebt rate rateLastUpdated currentTimestamp =
     (if bn_eq bn rate (bn_number bn 0) \<or> bn_eq bn currentTimestamp rateLastUpdated \<or>
         bn_eq bn rateLastUpdated (bn_number bn 0)
      then principalDebt
      else
        let cumulatedInterest = ftm_calcCompoundedInterest bn rate currentTimestamp rateLastUpdated
        in rayMul bn principalDebt cumulatedInterest)"

definition ftm_calcExpectedUserStableRate :: "'n bignumber \<Rightarrow> 'n \<Rightarrow> 'n \<Rightarrow> 'n \<Rightarrow> 'n \<Rightarrow> 'n" where
  "ftm_calcExpectedUserStableRate bn balanceBefore rateBefore amount rateNew =
     bn_div bn (bn_plus bn (bn_multipliedBy bn balanceBefore rateBefore) (bn_multipliedBy bn amount rateNew))
       (bn_plus bn balanceBefore amount)"

definition ftm_calcExpectedLiquidityIndex :: "'n bignumber \<Rightarrow> 'n ReserveData \<Rightarrow> 'n \<Rightarrow> 'n" where
  "ftm_calcExpectedLiquidityIndex bn reserve timestamp =
     (if bn_eq bn (utilizationRate reserve) (bn_new bn ''0'') then liquidityIndex reserve
      else
        let cumulatedInterest = ftm_calcLinearInterest bn (liquidityRate reserve) timestamp
              (lastUpdateTimestamp reserve)
        in rayMul bn cumulatedInterest (liquidityIndex reserve))"

definition ftm_calcExpectedVariableBorrowIndex :: "'n bignumber \<Rightarrow> 'n ReserveData \<Rightarrow> 'n \<Rightarrow> 'n" where
  "ftm_calcExpectedVariableBorrowIndex bn reserve timestamp =
     (if bn_eq bn (totalVariableDebt reserve) (bn_new bn ''0'') then variableBorrowIndex reserve
      else
        let cumulatedInterest = ftm_calcCompoundedInterest bn (variableBorrowRate reserve) timestamp
              (lastUpdateTimestamp reserve)
        in rayMul bn cumulatedInterest (variableBorrowIndex reserve))"

definition ftm_calcExpectedTotalStableDebt :: "'n bignumber \<Rightarrow> 'n \<Rightarrow> 'n \<Rightarrow> 'n \<Rightarrow> 'n \<Rightarrow> 'n" where
  "ftm_calcExpectedTotalStableDebt bn principalDebt averageRate lastUpdate currentTimestamp =
     (let cumulatedInterest = ftm_calcCompoundedInterest bn averageRate currentTimestamp lastUpdate in
      rayMul bn cumulatedInterest principalDebt)"

definition ftm_calcExpectedTotalVariableDebt :: "'n bignumber \<Rightarrow> 'n ReserveData \<Rightarrow> 'n \<Rightarrow> 'n" where
  "ftm_calcExpectedTotalVariableDebt bn reserve expectedVariableDebtIndex =
     rayMul bn (scaledVariableDebt reserve) expectedVariableDebtIndex"

section \<open>Rates\<close>

definition ftm_calcExpectedOverallBorrowRate :: "'n bignumber \<Rightarrow> 'n \<Rightarrow> 'n \<Rightarrow> 'n \<Rightarrow> 'n \<Rightarrow> 'n" where
  "ftm_calcExpectedOverallBorrowRate bn stableDebt variableDebt currentVariableBorrowRate currentAverageStableBorrowRate =
     (let totalBorrows = bn_plus bn stableDebt variableDebt in
      if bn_eq bn totalBorrows (bn_number bn 0) then ftm_strToBN bn ''0''
      else
        let weightedVariableRate = rayMul bn (wadToRay bn variableDebt) currentVariableBorrowRate;
            weightedStableRate = rayMul bn (wadToRay bn stableDebt) currentAverageStableBorrowRate
        in rayDiv bn (bn_plus bn weightedVariableRate weightedStableRate) (wadToRay bn totalBorrows))"

definition ftm_calcExpectedUtilizationRate :: "'n bignumber \<Rightarrow> 'n \<Rightarrow> 'n \<Rightarrow> 'n \<Rightarrow> 'n" where
  "ftm_calcExpectedUtilizationRate bn stableDebt variableDebt liquidity =
     (if bn_eq bn stableDebt (bn_new bn ''0'') \<and> bn_eq bn variableDebt (bn_new bn ''0'') then ftm_strToBN bn ''0''
      else rayDiv bn (bn_plus bn stableDebt variableDebt) liquidity)"

text \<open>The result is the array of the liquidity, the stable and the variable rate.\<close>

definition ftm_calcExpectedInterestRates ::
  "'n bignumber \<Rightarrow> IReserveParams jsobj \<Rightarrow> string option \<Rightarrow> 'n \<Rightarrow> 'n \<Rightarrow> 'n \<Rightarrow> 'n \<Rightarrow> 'n \<Rightarrow> error + 'n \<times> 'n \<times> 'n" where
  "ftm_calcExpectedInterestRates bn reservesParams reserveSymbol marketRate utilization stableDebt variableDebt averageRate =
     (case findIndex (\<lambda>value. Some value = reserveSymbol) (obj_keys reservesParams) of
        None \<Rightarrow> Inl (TypeError ''undefined is not iterable'')
      | Some reserveIndex \<Rightarrow>
          let reserveConfiguration = snd (reservesParams ! reserveIndex);
              params = strategy reserveConfiguration;
              optimalRate = bn_new bn (optimalUtilizationRate params);
              excessRate = bn_minus bn (bn_new bn (RAY bn)) optimalRate;
              (stableRate, variableRate) =
                (if bn_gt bn utilization optimalRate then
                   let excessUtilizationRateRatio =
                         rayDiv bn (bn_minus bn utilization (bn_new bn (optimalUtilizationRate params))) excessRate in
                   (bn_plus bn (bn_plus bn marketRate (bn_new bn (stableRateSlope1 params)))
                      (rayMul bn (bn_new bn (stableRateSlope2 params)) excessUtilizationRateRatio),
                    bn_plus bn (bn_plus bn (bn_new bn (baseVariableBorrowRate params))
                      (bn_new bn (variableRateSlope1 params)))
                      (rayMul bn (bn_new bn (variableRateSlope2 params)) excessUtilizationRateRatio))
                 else
                   (bn_plus bn marketRate
                      (rayMul bn (bn_new bn (stableRateSlope1 params)) (rayDiv bn utilization optimalRate)),
                    bn_plus bn (bn_new bn (baseVariableBorrowRate params))
                      (rayMul bn (rayDiv bn utilization optimalRate) (bn_new bn (variableRateSlope1 params)))));
              expectedOverallRate = ftm_calcExpectedOverallBorrowRate bn stableDebt variableDebt variableRate averageRate;
              liquidity = percentMul bn (rayMul bn expectedOverallRate utilization)
                (bn_minus bn (bn_new bn PERCENTAGE_FACTOR) (bn_new bn (reserveFactor reserveConfiguration)))
          in Inr (liquidity, stableRate, variableRate))"

section \<open>Deposit and withdrawal\<close>

definition ftm_calcExpectedUserDataAfterDeposit ::
  "'n bignumber \<Rightarrow> string \<Rightarrow> 'n ReserveData \<Rightarrow> 'n ReserveData \<Rightarrow> 'n UserReserveData \<Rightarrow> 'n \<Rightarrow> string \<Rightarrow>
   'n UserReserveData" where
  "ftm_calcExpectedUserDataAfterDeposit bn amountDeposited before after user txTimestamp reserveSymbol =
     (let e = emptyUserReserveData bn;
          e = e\<lparr>u_currentStableDebt := ftm_calcExpectedStableDebtTokenBalance bn (u_principalStableDebt user)
                 (u_stableBorrowRate user) (u_stableRateLastUpdated user) txTimestamp\<rparr>;
          e = e\<lparr>u_currentVariableDebt := ftm_calcExpectedVariableDebtTokenBalance bn before user txTimestamp\<rparr>;
          e = e\<lparr>u_principalStableDebt := u_principalStableDebt user,
                u_scaledVariableDebt := u_scaledVariableDebt user,
                u_variableBorrowIndex := u_variableBorrowIndex user,
                u_stableBorrowRate := u_stableBorrowRate user,
                u_stableRateLastUpdated := u_stableRateLastUpdated user,
                u_liquidityRate := liquidityRate after\<rparr>;
          e = e\<lparr>u_scaledATokenBalance := ftm_calcExpectedScaledATokenBalance bn user (liquidityIndex after)
                 (bn_new bn amountDeposited) (bn_number bn 0)\<rparr>;
          e = e\<lparr>u_currentATokenBalance := bn_plus bn (ftm_calcExpectedATokenBalance bn before user txTimestamp)
                 (bn_new bn amountDeposited)\<rparr>;
          e = (if (case obj_get (FantomReservesConfig (bignumber_js.truncate bn)) reserveSymbol of
                     None \<Rightarrow> False | Some params \<Rightarrow> collateralEnabled params) \<and>
                  bn_eq bn (u_currentATokenBalance user) (bn_number bn 0)
               then e\<lparr>u_usageAsCollateralEnabled := Some True\<rparr>
               else e\<lparr>u_usageAsCollateralEnabled := u_usageAsCollateralEnabled user\<rparr>);
          e = e\<lparr>u_variableBorrowIndex := u_variableBorrowIndex user,
                u_walletBalance := bn_minus bn (u_walletBalance user) (bn_new bn amountDeposited)\<rparr>;
          stableDebt = ftm_calcExpectedStableDebtTokenBalance bn (u_principalStableDebt user)
                 (u_stableBorrowRate user) (u_stableRateLastUpdated user) txTimestamp;
          e = e\<lparr>u_principalStableDebt := stableDebt, u_currentStableDebt := stableDebt\<rparr>;
          variableDebt = ftm_calcExpectedVariableDebtTokenBalance bn before user txTimestamp;
          e = e\<lparr>u_principalStableDebt := variableDebt, u_currentVariableDebt := variableDebt\<rparr>
      in e)"

definition ftm_calcExpectedUserDataAfterWithdraw ::
  "'n bignumber \<Rightarrow> string \<Rightarrow> 'n ReserveData \<Rightarrow> 'n ReserveData \<Rightarrow> 'n UserReserveData \<Rightarrow> 'n \<Rightarrow>
   'n UserReserveData" where
  "ftm_calcExpectedUserDataAfterWithdraw bn amountWithdrawn before after user txTimestamp =
     (let e = emptyUserReserveData bn;
          aTokenBalance = ftm_calcExpectedATokenBalance bn before user txTimestamp;
          amountWithdrawn = (if amountWithdrawn = MAX_UINT_AMOUNT
                             then bn_toFixedPlaces bn aTokenBalance 0 else amountWithdrawn);
          e = e\<lparr>u_scaledATokenBalance := ftm_calcExpectedScaledATokenBalance bn user (liquidityIndex after)
                 (bn_number bn 0) (bn_new bn amountWithdrawn)\<rparr>;
          e = e\<lparr>u_currentATokenBalance := bn_minus bn aTokenBalance (bn_new bn amountWithdrawn)\<rparr>;
          e = e\<lparr>u_principalStableDebt := u_principalStableDebt user,
                u_scaledVariableDebt := u_scaledVariableDebt user\<rparr>;
          e = e\<lparr>u_currentStableDebt := ftm_calcExpectedStableDebtTokenBalance bn (u_principalStableDebt user)
                 (u_stableBorrowRate user) (u_stableRateLastUpdated user) txTimestamp\<rparr>;
          e = e\<lparr>u_currentVariableDebt := ftm_calcExpectedVariableDebtTokenBalance bn before user txTimestamp\<rparr>;
          e = e\<lparr>u_variableBorrowIndex := u_variableBorrowIndex user,
                u_stableBorrowRate := u_stableBorrowRate user,
                u_stableRateLastUpdated := u_stableRateLastUpdated user,
                u_liquidityRate := liquidityRate after\<rparr>;
          e = (if bn_eq bn (u_currentATokenBalance user) (bn_number bn 0)
               then e\<lparr>u_usageAsCollateralEnabled := Some True\<rparr>
               else if bn_eq bn (u_currentATokenBalance e) (bn_number bn 0)
               then e\<lparr>u_usageAsCollateralEnabled := Some False\<rparr>
               else e\<lparr>u_usageAsCollateralEnabled := u_usageAsCollateralEnabled user\<rparr>);
          e = e\<lparr>u_walletBalance := bn_plus bn (u_walletBalance user) (bn_new bn amountWithdrawn)\<rparr>
      in e)"

definition ftm_calcExpectedReserveDataAfterDeposit ::
  "'n bignumber \<Rightarrow> IReserveParams jsobj \<Rightarrow> string \<Rightarrow> 'n ReserveData \<Rightarrow> 'n \<Rightarrow> error + 'n ReserveData" where
  "ftm_calcExpectedReserveDataAfterDeposit bn reservesParams amountDeposited before txTimestamp =
     (let e = emptyReserveData bn;
          e = e\<lparr>r_address := r_address before\<rparr>;
          e = e\<lparr>totalLiquidity := bn_plus bn (totalLiquidity before) (bn_new bn amountDeposited),
                availableLiquidity := bn_plus bn (availableLiquidity before) (bn_new bn amountDeposited)\<rparr>;
          e = e\<lparr>averageStableBorrowRate := averageStableBorrowRate before,
                liquidityIndex := ftm_calcExpectedLiquidityIndex bn before txTimestamp,
                variableBorrowIndex := ftm_calcExpectedVariableBorrowIndex bn before txTimestamp\<rparr>;
          e = e\<lparr>totalStableDebt := ftm_calcExpectedTotalStableDebt bn (principalStableDebt before)
                 (averageStableBorrowRate before) (totalStableDebtLastUpdated before) txTimestamp\<rparr>;
          e = e\<lparr>totalVariableDebt := ftm_calcExpectedTotalVariableDebt bn before (variableBorrowIndex e)\<rparr>;
          e = e\<lparr>scaledVariableDebt := scaledVariableDebt before,
                principalStableDebt := principalStableDebt before\<rparr>;
          e = e\<lparr>utilizationRate := ftm_calcExpectedUtilizationRate bn (totalStableDebt e) (totalVariableDebt e)
                 (totalLiquidity e)\<rparr>
      in bindSum (ftm_calcExpectedInterestRates bn reservesParams (r_symbol before) (marketStableRate before)
           (utilizationRate e) (totalStableDebt e) (totalVariableDebt e) (averageStableBorrowRate e)) (\<lambda>rates.
         Inr (setRates rates e)))"

definition ftm_calcExpectedReserveDataAfterWithdraw ::
  "'n bignumber \<Rightarrow> IReserveParams jsobj \<Rightarrow> string \<Rightarrow> 'n ReserveData \<Rightarrow> 'n UserReserveData \<Rightarrow> 'n \<Rightarrow>
   error + 'n ReserveData" where
  "ftm_calcExpectedReserveDataAfterWithdraw bn reservesParams amountWithdrawn before user txTimestamp =
     (let e = emptyReserveData bn;
          e = e\<lparr>r_address := r_address before\<rparr>;
          amountWithdrawn = (if amountWithdrawn = MAX_UINT_AMOUNT
                             then bn_toFixed bn (ftm_calcExpectedATokenBalance bn before user txTimestamp)
                             else amountWithdrawn);
          e = e\<lparr>availableLiquidity := bn_minus bn (availableLiquidity before) (bn_new bn amountWithdrawn)\<rparr>;
          e = e\<lparr>principalStableDebt := principalStableDebt before,
                scaledVariableDebt := scaledVariableDebt before\<rparr>;
          e = e\<lparr>liquidityIndex := ftm_calcExpectedLiquidityIndex bn before txTimestamp,
                variableBorrowIndex := ftm_calcExpectedVariableBorrowIndex bn before txTimestamp\<rparr>;
          e = e\<lparr>totalStableDebt := ftm_calcExpectedTotalStableDebt bn (principalStableDebt before)
                 (averageStableBorrowRate before) (totalStableDebtLastUpdated before) txTimestamp\<rparr>;
          e = e\<lparr>totalVariableDebt := rayMul bn (scaledVariableDebt e) (variableBorrowIndex e)\<rparr>;
          e = e\<lparr>averageStableBorrowRate := averageStableBorrowRate before\<rparr>;
          e = e\<lparr>totalLiquidity := bn_plus bn (bn_plus bn
                 (bn_minus bn (availableLiquidity before) (bn_new bn amountWithdrawn))
                 (totalVariableDebt e)) (totalStableDebt e)\<rparr>;
          e = e\<lparr>utilizationRate := ftm_calcExpectedUtilizationRate bn (totalStableDebt e) (totalVariableDebt e)
                 (totalLiquidity e)\<rparr>
      in bindSum (ftm_calcExpectedInterestRates bn reservesParams (r_symbol before) (marketStableRate before)
           (utilizationRate e) (totalStableDebt e) (totalVariableDebt e) (averageStableBorrowRate e)) (\<lambda>rates.
         Inr (setRates rates e)))"

section \<open>Borrowing\<close>

definition ftm_calcExpectedReserveDataAfterBorrow ::
  "'n bignumber \<Rightarrow> IReserveParams jsobj \<Rightarrow> string \<Rightarrow> string \<Rightarrow> 'n ReserveData \<Rightarrow> 'n \<Rightarrow> 'n \<Rightarrow>
   error + 'n ReserveData" where
  "ftm_calcExpectedReserveDataAfterBorrow bn reservesParams amountBorrowed borrowRateMode before txTimestamp currentTimestamp =
     (let e = emptyReserveData bn;
          e = e\<lparr>r_address := r_address before\<rparr>;
          amountBorrowedBN = bn_new bn amountBorrowed;
          e = e\<lparr>liquidityIndex := ftm_calcExpectedLiquidityIndex bn before txTimestamp\<rparr>;
          e = e\<lparr>variableBorrowIndex := ftm_calcExpectedVariableBorrowIndex bn before txTimestamp\<rparr>;
          e = e\<lparr>availableLiquidity := bn_minus bn (availableLiquidity before) amountBorrowedBN\<rparr>;
          e = e\<lparr>lastUpdateTimestamp := txTimestamp\<rparr>
      in if borrowRateMode = RateMode_Stable then
        (let e = e\<lparr>scaledVariableDebt := scaledVariableDebt before\<rparr>;
             expectedVariableDebtAfterTx = rayMul bn (scaledVariableDebt e) (variableBorrowIndex e);
             expectedStableDebtUntilTx = ftm_calcExpectedTotalStableDebt bn (principalStableDebt before)
               (averageStableBorrowRate before) (totalStableDebtLastUpdated before) txTimestamp;
             e = e\<lparr>principalStableDebt := bn_plus bn expectedStableDebtUntilTx amountBorrowedBN\<rparr>;
             e = e\<lparr>averageStableBorrowRate := ftm_calcExpectedAverageStableBorrowRate bn
               (averageStableBorrowRate before) expectedStableDebtUntilTx amountBorrowedBN
               (stableBorrowRate before)\<rparr>;
             totalLiquidityAfterTx = bn_plus bn (bn_plus bn (availableLiquidity e) (principalStableDebt e))
               expectedVariableDebtAfterTx;
             utilizationRateAfterTx = ftm_calcExpectedUtilizationRate bn (principalStableDebt e)
               expectedVariableDebtAfterTx totalLiquidityAfterTx
         in bindSum (ftm_calcExpectedInterestRates bn reservesParams (r_symbol before) (marketStableRate before)
              utilizationRateAfterTx (principalStableDebt e) expectedVariableDebtAfterTx
              (averageStableBorrowRate e)) (\<lambda>ratesAfterTx.
            let e = setRates ratesAfterTx e;
                e = e\<lparr>totalStableDebt := ftm_calcExpectedTotalStableDebt bn (principalStableDebt e)
                  (averageStableBorrowRate e) txTimestamp currentTimestamp\<rparr>;
                e = e\<lparr>totalVariableDebt := rayMul bn (scaledVariableDebt before)
                  (ftm_calcExpectedReserveNormalizedDebt bn (variableBorrowRate e) (variableBorrowIndex e)
                     txTimestamp currentTimestamp)\<rparr>;
                e = e\<lparr>totalLiquidity := bn_plus bn (bn_plus bn (availableLiquidity e) (totalVariableDebt e))
                  (totalStableDebt e)\<rparr>;
                e = e\<lparr>utilizationRate := ftm_calcExpectedUtilizationRate bn (totalStableDebt e)
                  (totalVariableDebt e) (totalLiquidity e)\<rparr>
            in Inr e))
      else
        (let e = e\<lparr>principalStableDebt := principalStableDebt before\<rparr>;
             totalStableDebtAfterTx = ftm_calcExpectedStableDebtTokenBalance bn (principalStableDebt before)
               (averageStableBorrowRate before) (totalStableDebtLastUpdated before) txTimestamp;
             e = e\<lparr>totalStableDebt := ftm_calcExpectedTotalStableDebt bn (principalStableDebt before)
               (averageStableBorrowRate before) (totalStableDebtLastUpdated before) currentTimestamp\<rparr>;
             e = e\<lparr>averageStableBorrowRate := averageStableBorrowRate before\<rparr>;
             e = e\<lparr>scaledVariableDebt := bn_plus bn (scaledVariableDebt before)
               (rayDiv bn amountBorrowedBN (variableBorrowIndex e))\<rparr>;
             totalVariableDebtAfterTx = rayMul bn (scaledVariableDebt e) (variableBorrowIndex e);
             utilizationRateAfterTx = ftm_calcExpectedUtilizationRate bn totalStableDebtAfterTx
               totalVariableDebtAfterTx
               (bn_plus bn (bn_plus bn (availableLiquidity e) totalStableDebtAfterTx) totalVariableDebtAfterTx)
         in bindSum (ftm_calcExpectedInterestRates bn reservesParams (r_symbol before) (marketStableRate before)
              utilizationRateAfterTx totalStableDebtAfterTx totalVariableDebtAfterTx
              (averageStableBorrowRate e)) (\<lambda>rates.
            let e = setRates rates e;
                e = e\<lparr>totalVariableDebt := rayMul bn (scaledVariableDebt e)
                  (ftm_calcExpectedReserveNormalizedDebt bn (variableBorrowRate e) (variableBorrowIndex e)
                     txTimestamp currentTimestamp)\<rparr>;
                e = e\<lparr>totalLiquidity := bn_plus bn (bn_plus bn (availableLiquidity e) (totalStableDebt e))
                  (totalVariableDebt e)\<rparr>;
                e = e\<lparr>utilizationRate := ftm_calcExpectedUtilizationRate bn (totalStableDebt e)
                  (totalVariableDebt e) (totalLiquidity e)\<rparr>
            in Inr e)))"

definition ftm_calcExpectedUserDataAfterBorrow ::
  "'n bignumber \<Rightarrow> string \<Rightarrow> string \<Rightarrow> 'n ReserveData \<Rightarrow> 'n ReserveData \<Rightarrow> 'n UserReserveData \<Rightarrow> 'n \<Rightarrow> 'n \<Rightarrow>
   'n UserReserveData" where
  "ftm_calcExpectedUserDataAfterBorrow bn amountBorrowed interestRateMode before expectedAfter user txTimestamp currentTimestamp =
     (let e = emptyUserReserveData bn;
          amountBorrowedBN = bn_new bn amountBorrowed;
          e = (if interestRateMode = RateMode_Stable then
                 (let stableDebtUntilTx = ftm_calcExpectedStableDebtTokenBalance bn (u_principalStableDebt user)
                        (u_stableBorrowRate user) (u_stableRateLastUpdated user) txTimestamp;
                      e = e\<lparr>u_principalStableDebt := bn_plus bn stableDebtUntilTx (bn_new bn amountBorrowed),
                            u_stableRateLastUpdated := txTimestamp\<rparr>;
                      e = e\<lparr>u_stableBorrowRate := ftm_calcExpectedUserStableRate bn stableDebtUntilTx
                        (u_stableBorrowRate user) amountBorrowedBN (stableBorrowRate before)\<rparr>;
                      e = e\<lparr>u_currentStableDebt := ftm_calcExpectedStableDebtTokenBalance bn
                        (u_principalStableDebt e) (u_stableBorrowRate e) txTimestamp currentTimestamp\<rparr>
                  in e\<lparr>u_scaledVariableDebt := u_scaledVariableDebt user\<rparr>)
               else
                 (let e = e\<lparr>u_scaledVariableDebt := bn_plus bn (u_scaledVariableDebt user)
                        (rayDiv bn amountBorrowedBN (variableBorrowIndex expectedAfter))\<rparr>;
                      e = e\<lparr>u_principalStableDebt := u_principalStableDebt user,
                            u_stableBorrowRate := u_stableBorrowRate user,
                            u_stableRateLastUpdated := u_stableRateLastUpdated user\<rparr>
                  in e\<lparr>u_currentStableDebt := ftm_calcExpectedStableDebtTokenBalance bn (u_principalStableDebt user)
                        (u_stableBorrowRate user) (u_stableRateLastUpdated user) currentTimestamp\<rparr>));
          e = e\<lparr>u_currentVariableDebt := ftm_calcExpectedVariableDebtTokenBalance bn expectedAfter e currentTimestamp\<rparr>;
          e = e\<lparr>u_liquidityRate := liquidityRate expectedAfter,
                u_usageAsCollateralEnabled := u_usageAsCollateralEnabled user\<rparr>;
          e = e\<lparr>u_currentATokenBalance := ftm_calcExpectedATokenBalance bn expectedAfter user currentTimestamp\<rparr>;
          e = e\<lparr>u_scaledATokenBalance := u_scaledATokenBalance user,
                u_walletBalance := bn_plus bn (u_walletBalance user) (bn_new bn amountBorrowed)\<rparr>
      in e)"

section \<open>Repayment\<close>

definition ftm_calcExpectedReserveDataAfterRepay ::
  "'n bignumber \<Rightarrow> IReserveParams jsobj \<Rightarrow> string \<Rightarrow> string \<Rightarrow> 'n ReserveData \<Rightarrow> 'n UserReserveData \<Rightarrow> 'n \<Rightarrow>
   error + 'n ReserveData" where
  "ftm_calcExpectedReserveDataAfterRepay bn reservesParams amountRepaid borrowRateMode before user txTimestamp =
     (let e = emptyReserveData bn;
          e = e\<lparr>r_address := r_address before\<rparr>;
          amountRepaidBN = bn_new bn amountRepaid;
          userStableDebt = ftm_calcExpectedStableDebtTokenBalance bn (u_principalStableDebt user)
            (u_stableBorrowRate user) (u_stableRateLastUpdated user) txTimestamp;
          userVariableDebt = ftm_calcExpectedVariableDebtTokenBalance bn before user txTimestamp;
          amountRepaidBN = (if bn_eq bn (bn_abs bn amountRepaidBN) (bn_new bn MAX_UINT_AMOUNT)
                            then (if borrowRateMode = RateMode_Stable then userStableDebt else userVariableDebt)
                            else amountRepaidBN);
          e = e\<lparr>liquidityIndex := ftm_calcExpectedLiquidityIndex bn before txTimestamp\<rparr>;
          e = e\<lparr>variableBorrowIndex := ftm_calcExpectedVariableBorrowIndex bn before txTimestamp\<rparr>;
          e = (if borrowRateMode = RateMode_Stable then
                 (let expectedDebt = ftm_calcExpectedTotalStableDebt bn (principalStableDebt before)
                        (averageStableBorrowRate before) (totalStableDebtLastUpdated before) txTimestamp;
                      newDebt = bn_minus bn expectedDebt amountRepaidBN;
                      e = e\<lparr>totalStableDebt := newDebt, principalStableDebt := newDebt\<rparr>;
                      zeroStable = (\<lambda>e. e\<lparr>averageStableBorrowRate := bn_number bn 0,
                        totalStableDebt := bn_number bn 0, principalStableDebt := bn_number bn 0\<rparr>);
                      e = (if bn_lt bn (totalStableDebt e) (bn_number bn 0) then zeroStable e
                           else
                             (let e = e\<lparr>averageStableBorrowRate := ftm_calcExpectedAverageStableBorrowRate bn
                                    (averageStableBorrowRate before) expectedDebt (bn_negated bn amountRepaidBN)
                                    (u_stableBorrowRate user)\<rparr>
                              in if bn_lt bn (averageStableBorrowRate e) (bn_number bn 0) then zeroStable e else e));
                      e = e\<lparr>scaledVariableDebt := scaledVariableDebt before\<rparr>
                  in e\<lparr>totalVariableDebt := rayMul bn (scaledVariableDebt e) (variableBorrowIndex e)\<rparr>)
               else
                 (let e = e\<lparr>scaledVariableDebt := bn_minus bn (scaledVariableDebt before)
                        (rayDiv bn amountRepaidBN (variableBorrowIndex e))\<rparr>;
                      e = e\<lparr>totalVariableDebt := rayMul bn (scaledVariableDebt e) (variableBorrowIndex e)\<rparr>
                  in e\<lparr>principalStableDebt := principalStableDebt before,
                       totalStableDebt := totalStableDebt before,
                       averageStableBorrowRate := averageStableBorrowRate before\<rparr>));
          e = e\<lparr>availableLiquidity := bn_plus bn (availableLiquidity before) amountRepaidBN\<rparr>;
          e = e\<lparr>totalLiquidity := bn_plus bn (bn_plus bn (availableLiquidity e) (totalStableDebt e))
                 (totalVariableDebt e)\<rparr>;
          e = e\<lparr>utilizationRate := ftm_calcExpectedUtilizationRate bn (totalStableDebt e) (totalVariableDebt e)
                 (totalLiquidity e)\<rparr>
      in bindSum (ftm_calcExpectedInterestRates bn reservesParams (r_symbol before) (marketStableRate before)
           (utilizationRate e) (totalStableDebt e) (totalVariableDebt e) (averageStableBorrowRate e)) (\<lambda>rates.
         Inr ((setRates rates e)\<lparr>lastUpdateTimestamp := txTimestamp\<rparr>)))"

definition ftm_calcExpectedUserDataAfterRepay ::
  "'n bignumber \<Rightarrow> string \<Rightarrow> string \<Rightarrow> 'n ReserveData \<Rightarrow> 'n ReserveData \<Rightarrow> 'n UserReserveData \<Rightarrow> string \<Rightarrow> string \<Rightarrow>
   'n \<Rightarrow> 'n \<Rightarrow> 'n UserReserveData" where
  "ftm_calcExpectedUserDataAfterRepay bn totalRepaid rateMode before expectedAfter user payer onBehalfOf txTimestamp
     currentTimestamp =
     (let e = emptyUserReserveData bn;
          variableDebt = ftm_calcExpectedVariableDebtTokenBalance bn before user currentTimestamp;
          stableDebt = ftm_calcExpectedStableDebtTokenBalance bn (u_principalStableDebt user)
            (u_stableBorrowRate user) (u_stableRateLastUpdated user) currentTimestamp;
          totalRepaidBN = bn_new bn totalRepaid;
          totalRepaidBN = (if bn_eq bn (bn_abs bn totalRepaidBN) (bn_new bn MAX_UINT_AMOUNT)
                           then (if rateMode = RateMode_Stable then stableDebt else variableDebt)
                           else totalRepaidBN);
          e = (if rateMode = RateMode_Stable then
                 (let e = e\<lparr>u_scaledVariableDebt := u_scaledVariableDebt user,
                            u_currentVariableDebt := variableDebt\<rparr>;
                      newDebt = bn_minus bn stableDebt totalRepaidBN;
                      e = e\<lparr>u_currentStableDebt := newDebt, u_principalStableDebt := newDebt\<rparr>
                  in if bn_eq bn (u_currentStableDebt e) (bn_new bn ''0'')
                     then e\<lparr>u_stableRateLastUpdated := bn_new bn ''0'', u_stableBorrowRate := bn_new bn ''0''\<rparr>
                     else e\<lparr>u_stableBorrowRate := u_stableBorrowRate user,
                            u_stableRateLastUpdated := txTimestamp\<rparr>)
               else
                 (let e = e\<lparr>u_currentStableDebt := u_principalStableDebt user,
                            u_principalStableDebt := stableDebt,
                            u_stableBorrowRate := u_stableBorrowRate user,
                            u_stableRateLastUpdated := u_stableRateLastUpdated user\<rparr>;
                      e = e\<lparr>u_scaledVariableDebt := bn_minus bn (u_scaledVariableDebt user)
                        (rayDiv bn totalRepaidBN (variableBorrowIndex expectedAfter))\<rparr>
                  in e\<lparr>u_currentVariableDebt := rayMul bn (u_scaledVariableDebt e)
                        (variableBorrowIndex expectedAfter)\<rparr>));
          e = e\<lparr>u_liquidityRate := liquidityRate expectedAfter,
                u_usageAsCollateralEnabled := u_usageAsCollateralEnabled user\<rparr>;
          e = e\<lparr>u_currentATokenBalance := ftm_calcExpectedATokenBalance bn before user txTimestamp,
                u_scaledATokenBalance := u_scaledATokenBalance user\<rparr>
      in if payer = onBehalfOf
         then e\<lparr>u_walletBalance := bn_minus bn (u_walletBalance user) totalRepaidBN\<rparr>
         else e\<lparr>u_walletBalance := u_walletBalance user\<rparr>)"

definition ftm_calcExpectedUserDataAfterSetUseAsCollateral ::
  "bool \<Rightarrow> 'n UserReserveData \<Rightarrow> 'n UserReserveData" where
  "ftm_calcExpectedUserDataAfterSetUseAsCollateral useAsCollateral user =
     user\<lparr>u_usageAsCollateralEnabled := Some useAsCollateral\<rparr>"

section \<open>Rate modes\<close>

definition ftm_calcExpectedReserveDataAfterSwapRateMode ::
  "'n bignumber \<Rightarrow> IReserveParams jsobj \<Rightarrow> 'n ReserveData \<Rightarrow> 'n UserReserveData \<Rightarrow> string \<Rightarrow> 'n \<Rightarrow>
   error + 'n ReserveData" where
  "ftm_calcExpectedReserveDataAfterSwapRateMode bn reservesParams before user rateMode txTimestamp =
     (let e = emptyReserveData bn;
          e = e\<lparr>r_address := r_address before\<rparr>;
          variableDebt = ftm_calcExpectedVariableDebtTokenBalance bn before user txTimestamp;
          stableDebt = ftm_calcExpectedStableDebtTokenBalance bn (u_principalStableDebt user)
            (u_stableBorrowRate user) (u_stableRateLastUpdated user) txTimestamp;
          e = e\<lparr>liquidityIndex := ftm_calcExpectedLiquidityIndex bn before txTimestamp\<rparr>;
          e = e\<lparr>variableBorrowIndex := ftm_calcExpectedVariableBorrowIndex bn before txTimestamp\<rparr>;
          e = e\<lparr>availableLiquidity := availableLiquidity before\<rparr>;
          totalStableDebtUntilTx = ftm_calcExpectedTotalStableDebt bn (principalStableDebt before)
            (averageStableBorrowRate before) (totalStableDebtLastUpdated before) txTimestamp;
          e = (if rateMode = RateMode_Stable then
                 (let e = e\<lparr>scaledVariableDebt := bn_plus bn (scaledVariableDebt before)
                        (rayDiv bn stableDebt (variableBorrowIndex e))\<rparr>;
                      e = e\<lparr>totalVariableDebt := rayMul bn (scaledVariableDebt e) (variableBorrowIndex e)\<rparr>;
                      newDebt = bn_minus bn totalStableDebtUntilTx stableDebt;
                      e = e\<lparr>totalStableDebt := newDebt, principalStableDebt := newDebt\<rparr>
                  in e\<lparr>averageStableBorrowRate := ftm_calcExpectedAverageStableBorrowRate bn
                       (averageStableBorrowRate before) (bn_plus bn (principalStableDebt e) stableDebt)
                       (bn_negated bn stableDebt) (u_stableBorrowRate user)\<rparr>)
               else
                 (let newDebt = bn_plus bn totalStableDebtUntilTx variableDebt;
                      e = e\<lparr>totalStableDebt := newDebt, principalStableDebt := newDebt\<rparr>;
                      e = e\<lparr>scaledVariableDebt := bn_minus bn (scaledVariableDebt before)
                        (rayDiv bn variableDebt (variableBorrowIndex e))\<rparr>;
                      e = e\<lparr>totalVariableDebt := rayMul bn (scaledVariableDebt e) (variableBorrowIndex e)\<rparr>
                  in e\<lparr>averageStableBorrowRate := ftm_calcExpectedAverageStableBorrowRate bn
                       (averageStableBorrowRate before) (totalStableDebt before) variableDebt
                       (stableBorrowRate before)\<rparr>));
          e = e\<lparr>totalLiquidity := bn_plus bn (bn_plus bn (availableLiquidity before) (totalStableDebt e))
                 (totalVariableDebt e)\<rparr>;
          e = e\<lparr>utilizationRate := ftm_calcExpectedUtilizationRate bn (totalStableDebt e) (totalVariableDebt e)
                 (totalLiquidity e)\<rparr>
      in bindSum (ftm_calcExpectedInterestRates bn reservesParams (r_symbol before) (marketStableRate before)
           (utilizationRate e) (totalStableDebt e) (totalVariableDebt e) (averageStableBorrowRate e)) (\<lambda>rates.
         Inr (setRates rates e)))"

definition ftm_calcExpectedUserDataAfterSwapRateMode ::
  "'n bignumber \<Rightarrow> 'n ReserveData \<Rightarrow> 'n ReserveData \<Rightarrow> 'n UserReserveData \<Rightarrow> string \<Rightarrow> 'n \<Rightarrow> 'n UserReserveData" where
  "ftm_calcExpectedUserDataAfterSwapRateMode bn before expectedAfter user rateMode txTimestamp =
     (let e = user;
          stableDebtBalance = ftm_calcExpectedStableDebtTokenBalance bn (u_principalStableDebt user)
            (u_stableBorrowRate user) (u_stableRateLastUpdated user) txTimestamp;
          variableDebtBalance = ftm_calcExpectedVariableDebtTokenBalance bn before user txTimestamp;
          e = e\<lparr>u_currentATokenBalance := ftm_calcExpectedATokenBalance bn before user txTimestamp\<rparr>;
          e = (if rateMode = RateMode_Stable then
                 (let e = e\<lparr>u_principalStableDebt := bn_number bn 0, u_currentStableDebt := bn_number bn 0\<rparr>;
                      e = e\<lparr>u_stableBorrowRate := bn_number bn 0\<rparr>;
                      e = e\<lparr>u_scaledVariableDebt := bn_plus bn (u_scaledVariableDebt user)
                        (rayDiv bn stableDebtBalance (variableBorrowIndex expectedAfter))\<rparr>;
                      e = e\<lparr>u_currentVariableDebt := rayMul bn (u_scaledVariableDebt e)
                        (variableBorrowIndex expectedAfter)\<rparr>
                  in e\<lparr>u_stableRateLastUpdated := bn_number bn 0\<rparr>)
               else
                 (let newDebt = bn_plus bn (u_currentStableDebt user) variableDebtBalance;
                      e = e\<lparr>u_currentStableDebt := newDebt, u_principalStableDebt := newDebt\<rparr>;
                      e = e\<lparr>u_stableBorrowRate := ftm_calcExpectedUserStableRate bn stableDebtBalance
                        (u_stableBorrowRate user) variableDebtBalance (stableBorrowRate before)\<rparr>;
                      e = e\<lparr>u_stableRateLastUpdated := txTimestamp\<rparr>
                  in e\<lparr>u_scaledVariableDebt := bn_number bn 0, u_currentVariableDebt := bn_number bn 0\<rparr>))
      in e\<lparr>u_liquidityRate := liquidityRate expectedAfter\<rparr>)"

definition ftm_calcExpectedReserveDataAfterStableRateRebalance ::
  "'n bignumber \<Rightarrow> IReserveParams jsobj \<Rightarrow> 'n ReserveData \<Rightarrow> 'n UserReserveData \<Rightarrow> 'n \<Rightarrow> error + 'n ReserveData" where
  "ftm_calcExpectedReserveDataAfterStableRateRebalance bn reservesParams before user txTimestamp =
     (let e = emptyReserveData bn;
          e = e\<lparr>r_address := r_address before\<rparr>;
          userStableDebt = ftm_calcExpectedStableDebtTokenBalance bn (u_principalStableDebt user)
            (u_stableBorrowRate user) (u_stableRateLastUpdated user) txTimestamp;
          e = e\<lparr>liquidityIndex := ftm_calcExpectedLiquidityIndex bn before txTimestamp\<rparr>;
          e = e\<lparr>variableBorrowIndex := ftm_calcExpectedVariableBorrowIndex bn before txTimestamp\<rparr>;
          e = e\<lparr>scaledVariableDebt := scaledVariableDebt before\<rparr>;
          e = e\<lparr>totalVariableDebt := rayMul bn (scaledVariableDebt e) (variableBorrowIndex e)\<rparr>;
          debt = ftm_calcExpectedTotalStableDebt bn (principalStableDebt before)
            (averageStableBorrowRate before) (totalStableDebtLastUpdated before) txTimestamp;
          e = e\<lparr>totalStableDebt := debt, principalStableDebt := debt\<rparr>;
          e = e\<lparr>availableLiquidity := availableLiquidity before\<rparr>;
          e = e\<lparr>totalLiquidity := bn_plus bn (bn_plus bn (availableLiquidity e) (totalStableDebt e))
                 (totalVariableDebt e)\<rparr>;
          avgRateBefore = ftm_calcExpectedAverageStableBorrowRateRebalance bn (averageStableBorrowRate before)
            (totalStableDebt e) (bn_negated bn userStableDebt) (u_stableBorrowRate user);
          e = e\<lparr>averageStableBorrowRate := ftm_calcExpectedAverageStableBorrowRateRebalance bn avgRateBefore
            (bn_minus bn (totalStableDebt e) userStableDebt) userStableDebt (stableBorrowRate before)\<rparr>;
          e = e\<lparr>utilizationRate := ftm_calcExpectedUtilizationRate bn (totalStableDebt e) (totalVariableDebt e)
                 (totalLiquidity e)\<rparr>
      in bindSum (ftm_calcExpectedInterestRates bn reservesParams (r_symbol before) (marketStableRate before)
           (utilizationRate e) (totalStableDebt e) (totalVariableDebt e) (averageStableBorrowRate e)) (\<lambda>rates.
         Inr (setRates rates e)))"

definition ftm_calcExpectedUserDataAfterStableRateRebalance ::
  "'n bignumber \<Rightarrow> 'n ReserveData \<Rightarrow> 'n ReserveData \<Rightarrow> 'n UserReserveData \<Rightarrow> 'n \<Rightarrow> 'n UserReserveData" where
  "ftm_calcExpectedUserDataAfterStableRateRebalance bn before expectedAfter user txTimestamp =
     (let e = user;
          e = e\<lparr>u_principalStableDebt := u_principalStableDebt user\<rparr>;
          e = e\<lparr>u_principalVariableDebt := ftm_calcExpectedVariableDebtTokenBalance bn before user txTimestamp\<rparr>;
          stableDebt = ftm_calcExpectedStableDebtTokenBalance bn (u_principalStableDebt user)
            (u_stableBorrowRate user) (u_stableRateLastUpdated user) txTimestamp;
          e = e\<lparr>u_principalStableDebt := stableDebt, u_currentStableDebt := stableDebt\<rparr>;
          e = e\<lparr>u_currentVariableDebt := ftm_calcExpectedVariableDebtTokenBalance bn before user txTimestamp\<rparr>;
          e = e\<lparr>u_stableRateLastUpdated := txTimestamp\<rparr>;
          e = e\<lparr>u_principalVariableDebt := u_principalVariableDebt user\<rparr>;
          e = e\<lparr>u_stableBorrowRate := averageStableBorrowRate expectedAfter\<rparr>;
          e = e\<lparr>u_liquidityRate := liquidityRate expectedAfter\<rparr>
      in e\<lparr>u_currentATokenBalance := ftm_calcExpectedATokenBalance bn before user txTimestamp\<rparr>)"

section \<open>The copies agree\<close>

named_theorems ftm_calculators \<open>a calculator of the Fantom suite is that of the Sturdy suite\<close>

lemma ftm_strToBN [ftm_calculators]: "ftm_strToBN = strToBN"
  by (intro ext) (simp only: ftm_strToBN_def strToBN_def ftm_calculators)

lemma ftm_calcLinearInterest [ftm_calculators]: "ftm_calcLinearInterest = calcLinearInterest"
  by (intro ext) (simp only: ftm_calcLinearInterest_def calcLinearInterest_def ftm_calculators)

lemma ftm_calcCompoundedInterest [ftm_calculators]: "ftm_calcCompoundedInterest = calcCompoundedInterest"
  by (intro ext) (simp only: ftm_calcCompoundedInterest_def calcCompoundedInterest_def ftm_calculators)

lemma ftm_calcExpectedScaledATokenBalance [ftm_calculators]: "ftm_calcExpectedScaledATokenBalance = calcExpectedScaledATokenBalance"
  by (intro ext) (simp only: ftm_calcExpectedScaledATokenBalance_def calcExpectedScaledATokenBalance_def ftm_calculators)

lemma ftm_calcExpectedReserveNormalizedIncome [ftm_calculators]: "ftm_calcExpectedReserveNormalizedIncome = calcExpectedReserveNormalizedIncome"
  by (intro ext) (simp only: ftm_calcExpectedReserveNormalizedIncome_def calcExpectedReserveNormalizedIncome_def ftm_calculators)

lemma ftm_calcExpectedATokenBalance [ftm_calculators]: "ftm_calcExpectedATokenBalance = calcExpectedATokenBalance"
  by (intro ext) (simp only: ftm_calcExpectedATokenBalance_def calcExpectedATokenBalance_def ftm_calculators)

lemma ftm_calcExpectedAverageStableBorrowRate [ftm_calculators]: "ftm_calcExpectedAverageStableBorrowRate = calcExpectedAverageStableBorrowRate"
  by (intro ext) (simp only: ftm_calcExpectedAverageStableBorrowRate_def calcExpectedAverageStableBorrowRate_def ftm_calculators)

lemma ftm_calcExpectedAverageStableBorrowRateRebalance [ftm_calculators]: "ftm_calcExpectedAverageStableBorrowRateRebalance = calcExpectedAverageStableBorrowRateRebalance"
  by (intro ext) (simp only: ftm_calcExpectedAverageStableBorrowRateRebalance_def calcExpectedAverageStableBorrowRateRebalance_def ftm_calculators)

lemma ftm_calcExpectedReserveNormalizedDebt [ftm_calculators]: "ftm_calcExpectedReserveNormalizedDebt = calcExpectedReserveNormalizedDebt"
  by (intro ext) (simp only: ftm_calcExpectedReserveNormalizedDebt_def calcExpectedReserveNormalizedDebt_def ftm_calculators)

lemma ftm_calcExpectedVariableDebtTokenBalance [ftm_calculators]: "ftm_calcExpectedVariableDebtTokenBalance = calcExpectedVariableDebtTokenBalance"
  by (intro ext) (simp only: ftm_calcExpectedVariableDebtTokenBalance_def calcExpectedVariableDebtTokenBalance_def ftm_calculators)

lemma ftm_calcExpectedStableDebtTokenBalance [ftm_calculators]: "ftm_calcExpectedStableDebtTokenBalance = calcExpectedStableDebtTokenBalance"
  by (intro ext) (simp only: ftm_calcExpectedStableDebtTokenBalance_def calcExpectedStableDebtTokenBalance_def ftm_calculators)

lemma ftm_calcExpectedUserStableRate [ftm_calculators]: "ftm_calcExpectedUserStableRate = calcExpectedUserStableRate"
  by (intro ext) (simp only: ftm_calcExpectedUserStableRate_def calcExpectedUserStableRate_def ftm_calculators)

lemma ftm_calcExpectedLiquidityIndex [ftm_calculators]: "ftm_calcExpectedLiquidityIndex = calcExpectedLiquidityIndex"
  by (intro ext) (simp only: ftm_calcExpectedLiquidityIndex_def calcExpectedLiquidityIndex_def ftm_calculators)

lemma ftm_calcExpectedVariableBorrowIndex [ftm_calculators]: "ftm_calcExpectedVariableBorrowIndex = calcExpectedVariableBorrowIndex"
  by (intro ext) (simp only: ftm_calcExpectedVariableBorrowIndex_def calcExpectedVariableBorrowIndex_def ftm_calculators)

lemma ftm_calcExpectedTotalStableDebt [ftm_calculators]: "ftm_calcExpectedTotalStableDebt = calcExpectedTotalStableDebt"
  by (intro ext) (simp only: ftm_calcExpectedTotalStableDebt_def calcExpectedTotalStableDebt_def ftm_calculators)

lemma ftm_calcExpectedTotalVariableDebt [ftm_calculators]: "ftm_calcExpectedTotalVariableDebt = calcExpectedTotalVariableDebt"
  by (intro ext) (simp only: ftm_calcExpectedTotalVariableDebt_def calcExpectedTotalVariableDebt_def ftm_calculators)

lemma ftm_calcExpectedOverallBorrowRate [ftm_calculators]: "ftm_calcExpectedOverallBorrowRate = calcExpectedOverallBorrowRate"
  by (intro ext) (simp only: ftm_calcExpectedOverallBorrowRate_def calcExpectedOverallBorrowRate_def ftm_calculators)

lemma ftm_calcExpectedUtilizationRate [ftm_calculators]: "ftm_calcExpectedUtilizationRate = calcExpectedUtilizationRate"
  by (intro ext) (simp only: ftm_calcExpectedUtilizationRate_def calcExpectedUtilizationRate_def ftm_calculators)

lemma ftm_calcExpectedInterestRates [ftm_calculators]: "ftm_calcExpectedInterestRates = calcExpectedInterestRates"
  by (intro ext) (simp only: ftm_calcExpectedInterestRates_def calcExpectedInterestRates_def ftm_calculators)

lemma ftm_calcExpectedUserDataAfterWithdraw [ftm_calculators]: "ftm_calcExpectedUserDataAfterWithdraw = calcExpectedUserDataAfterWithdraw"
  by (intro ext) (simp only: ftm_calcExpectedUserDataAfterWithdraw_def calcExpectedUserDataAfterWithdraw_def ftm_calculators)

lemma ftm_calcExpectedReserveDataAfterDeposit [ftm_calculators]: "ftm_calcExpectedReserveDataAfterDeposit = calcExpectedReserveDataAfterDeposit"
  by (intro ext) (simp only: ftm_calcExpectedReserveDataAfterDeposit_def calcExpectedReserveDataAfterDeposit_def ftm_calculators)

lemma ftm_calcExpectedReserveDataAfterWithdraw [ftm_calculators]: "ftm_calcExpectedReserveDataAfterWithdraw = calcExpectedReserveDataAfterWithdraw"
  by (intro ext) (simp only: ftm_calcExpectedReserveDataAfterWithdraw_def calcExpectedReserveDataAfterWithdraw_def ftm_calculators)

lemma ftm_calcExpectedReserveDataAfterBorrow [ftm_calculators]: "ftm_calcExpectedReserveDataAfterBorrow = calcExpectedReserveDataAfterBorrow"
  by (intro ext) (simp only: ftm_calcExpectedReserveDataAfterBorrow_def calcExpectedReserveDataAfterBorrow_def ftm_calculators)

lemma ftm_calcExpectedUserDataAfterBorrow [ftm_calculators]: "ftm_calcExpectedUserDataAfterBorrow = calcExpectedUserDataAfterBorrow"
  by (intro ext) (simp only: ftm_calcExpectedUserDataAfterBorrow_def calcExpectedUserDataAfterBorrow_def ftm_calculators)

lemma ftm_calcExpectedReserveDataAfterRepay [ftm_calculators]: "ftm_calcExpectedReserveDataAfterRepay = calcExpectedReserveDataAfterRepay"
  by (intro ext) (simp only: ftm_calcExpectedReserveDataAfterRepay_def calcExpectedReserveDataAfterRepay_def ftm_calculators)

lemma ftm_calcExpectedUserDataAfterRepay [ftm_calculators]: "ftm_calcExpectedUserDataAfterRepay = calcExpectedUserDataAfterRepay"
  by (intro ext) (simp only: ftm_calcExpectedUserDataAfterRepay_def calcExpectedUserDataAfterRepay_def ftm_calculators)

lemma ftm_calcExpectedUserDataAfterSetUseAsCollateral [ftm_calculators]: "ftm_calcExpectedUserDataAfterSetUseAsCollateral = calcExpectedUserDataAfterSetUseAsCollateral"
  by (intro ext) (simp only: ftm_calcExpectedUserDataAfterSetUseAsCollateral_def calcExpectedUserDataAfterSetUseAsCollateral_def ftm_calculators)

lemma ftm_calcExpectedReserveDataAfterSwapRateMode [ftm_calculators]: "ftm_calcExpectedReserveDataAfterSwapRateMode = calcExpectedReserveDataAfterSwapRateMode"
  by (intro ext) (simp only: ftm_calcExpectedReserveDataAfterSwapRateMode_def calcExpectedReserveDataAfterSwapRateMode_def ftm_calculators)

lemma ftm_calcExpectedUserDataAfterSwapRateMode [ftm_calculators]: "ftm_calcExpectedUserDataAfterSwapRateMode = calcExpectedUserDataAfterSwapRateMode"
  by (intro ext) (simp only: ftm_calcExpectedUserDataAfterSwapRateMode_def calcExpectedUserDataAfterSwapRateMode_def ftm_calculators)

lemma ftm_calcExpectedReserveDataAfterStableRateRebalance [ftm_calculators]: "ftm_calcExpectedReserveDataAfterStableRateRebalance = calcExpectedReserveDataAfterStableRateRebalance"
  by (intro ext) (simp only: ftm_calcExpectedReserveDataAfterStableRateRebalance_def calcExpectedReserveDataAfterStableRateRebalance_def ftm_calculators)

lemma ftm_calcExpectedUserDataAfterStableRateRebalance [ftm_calculators]: "ftm_calcExpectedUserDataAfterStableRateRebalance = calcExpectedUserDataAfterStableRateRebalance"
  by (intro ext) (simp only: ftm_calcExpectedUserDataAfterStableRateRebalance_def calcExpectedUserDataAfterStableRateRebalance_def ftm_calculators)

text \<open>The deposit is the one of the Sturdy suite but for the collateral flag, which looks the symbol up in
  the Fantom market.\<close>

lemma ftm_deposit_user:
  "ftm_calcExpectedUserDataAfterDeposit bn amount before after user t symbol =
   (calcExpectedUserDataAfterDeposit bn amount before after user t symbol)
     \<lparr>u_usageAsCollateralEnabled :=
       if (case obj_get (FantomReservesConfig (bignumber_js.truncate bn)) symbol of
             None \<Rightarrow> False | Some params \<Rightarrow> collateralEnabled params) \<and>
          bn_eq bn (u_currentATokenBalance user) (bn_number bn 0)
       then Some True else u_usageAsCollateralEnabled user\<rparr>"
  by (simp add: ftm_calcExpectedUserDataAfterDeposit_def calcExpectedUserDataAfterDeposit_def Let_def
      ftm_calculators)

end
