(* ===== verification/CalculationsFtm.thy ===== *)
theory CalculationsFtm
  imports ExpectedValues FantomCalculators
begin

text \<open>
  \<open>test-suites/test-ftm/helpers/utils/calculations.ts\<close>: the calculators the Fantom suite has beside
  those of \<open>Calculations\<close>, for deposits and withdrawals of collateral. Collateral earns no
  interest inside the pool: its scaled balance is the balance, at an index of one ray.
\<close>

definition oneRayIndex :: "'n bignumber \<Rightarrow> 'n" where
  "oneRayIndex bn = bn_exponentiatedBy bn (bn_number bn 10) 27"

definition calcExpectedUserDataAfterDepositCollateral ::
  "'n bignumber \<Rightarrow> string \<Rightarrow> 'n ReserveData \<Rightarrow> 'n ReserveData \<Rightarrow> 'n UserReserveData \<Rightarrow> 'n \<Rightarrow> string \<Rightarrow>
   'n UserReserveData" where
  "calcExpectedUserDataAfterDepositCollateral bn amountDeposited before after user txTimestamp reserveSymbol =
     (let e = emptyUserReserveData bn;
          e = e\<lparr>u_currentStableDebt := ftm_calcExpectedStableDebtTokenBalance bn (u_principalStableDebt user)
                 (u_stableBorrowRate user) (u_stableRateLastUpdated user) txTimestamp\<rparr>;
          e = e\<lparr>u_currentVariableDebt := ftm_calcExpectedVariableDebtTokenBalance bn before user txTimestamp\<rparr>;
          e = e\<lparr>u_principalStableDebt := u_principalStableDebt user,
                u_scaledVariableDebt := u_scaledVariableDebt user,
                u_variableBorrowIndex := u_variableBorrowIndex user,
                u_stableBorrowRate := u_stableBorrowRate user,
                u_stableRateLastUpdated := u_stableRateLastUpdated user,
                u_liquidityRate := liquidityRate after\<rparr>;
          e = e\<lparr>u_scaledATokenBalance := ftm_calcExpectedScaledATokenBalance bn user (oneRayIndex bn)
                 (bn_new bn amountDeposited) (bn_number bn 0)\<rparr>;
          e = e\<lparr>u_currentATokenBalance := u_scaledATokenBalance e\<rparr>;
          e = (if (case obj_get (FantomReservesConfig (bignumber_js.truncate bn)) reserveSymbol of
                     None \<Rightarrow> False | Some params \<Rightarrow> collateralEnabled params) \<and>
                  bn_eq bn (u_currentATokenBalance user) (bn_number bn 0)
               then e\<lparr>u_usageAsCollateralEnabled := Some True\<rparr>
               else e\<lparr>u_usageAsCollateralEnabled := u_usageAsCollateralEnabled user\<rparr>);
          e = e\<lparr>u_variableBorrowIndex := u_variableBorrowIndex user,
                u_walletBalance := bn_minus bn (u_walletBalance user) (bn_new bn amountDeposited)\<rparr>;
          stableDebt = ftm_calcExpectedStableDebtTokenBalance bn (u_principalStableDebt user)
                 (u_stableBorrowRate user) (u_stableRateLastUpdated user) txTimestamp;
          e = e\<lparr>u_principalStableDebt := stableDebt, u_currentStableDebt := stableDebt\<rparr>;
          variableDebt = ftm_calcExpectedVariableDebtTokenBalance bn before user txTimestamp;
          e = e\<lparr>u_principalStableDebt := variableDebt, u_currentVariableDebt := variableDebt\<rparr>
      in e)"

definition calcExpectedUserDataAfterWithdrawCollateral ::
  "'n bignumber \<Rightarrow> string \<Rightarrow> 'n ReserveData \<Rightarrow> 'n ReserveData \<Rightarrow> 'n UserReserveData \<Rightarrow> 'n \<Rightarrow>
   'n UserReserveData" where
  "calcExpectedUserDataAfterWithdrawCollateral bn amountWithdrawn before after user txTimestamp =
     (let e = emptyUserReserveData bn;
          aTokenBalance = u_scaledATokenBalance user;
          amountWithdrawn = (if amountWithdrawn = MAX_UINT_AMOUNT
                             then bn_toFixedPlaces bn aTokenBalance 0 else amountWithdrawn);
          e = e\<lparr>u_scaledATokenBalance := ftm_calcExpectedScaledATokenBalance bn user (oneRayIndex bn)
                 (bn_number bn 0) (bn_new bn amountWithdrawn)\<rparr>;
          e = e\<lparr>u_currentATokenBalance := u_scaledATokenBalance e\<rparr>;
          e = e\<lparr>u_principalStableDebt := u_principalStableDebt user,
                u_scaledVariableDebt := u_scaledVariableDebt user\<rparr>;
          e = e\<lparr>u_currentStableDebt := ftm_calcExpectedStableDebtTokenBalance bn (u_principalStableDebt user)
                 (u_stableBorrowRate user) (u_stableRateLastUpdated user) txTimestamp\<rparr>;
          e = e\<lparr>u_currentVariableDebt := ftm_calcExpectedVariableDebtTokenBalance bn before user txTimestamp\<rparr>;
          e = e\<lparr>u_variableBorrowIndex := u_variableBorrowIndex user,
                u_stableBorrowRate := u_stableBorrowRate user,
                u_stableRateLastUpdated := u_stableRateLastUpdated user,
                u_liquidityRate := liquidityRate after\<rparr>;
          e = (if bn_eq bn (u_currentATokenBalance user) (bn_number bn 0)
               then e\<lparr>u_usageAsCollateralEnabled := Some True\<rparr>
               else if bn_eq bn (u_currentATokenBalance e) (bn_number bn 0)
               then e\<lparr>u_usageAsCollateralEnabled := Some False\<rparr>
               else e\<lparr>u_usageAsCollateralEnabled := u_usageAsCollateralEnabled user\<rparr>);
          e = e\<lparr>u_walletBalance := bn_plus bn (u_walletBalance user) (bn_new bn amountWithdrawn)\<rparr>
      in e)"

definition calcExpectedReserveDataAfterDepositCollateral ::
  "'n bignumber \<Rightarrow> IReserveParams jsobj \<Rightarrow> string \<Rightarrow> 'n ReserveData \<Rightarrow> 'n ReserveData \<Rightarrow> 'n \<Rightarrow>
   error + 'n ReserveData" where
  "calcExpectedReserveDataAfterDepositCollateral bn reservesParams amountDeposited before after txTimestamp =
     (let e = emptyReserveData bn;
          e = e\<lparr>r_address := r_address before\<rparr>;
          shares = rayDiv bn (bn_new bn amountDeposited) (liquidityIndex after);
          e = e\<lparr>totalLiquidity := bn_plus bn (totalLiquidity before) shares,
                availableLiquidity := bn_plus bn (availableLiquidity before) shares\<rparr>;
          e = e\<lparr>averageStableBorrowRate := averageStableBorrowRate before,
                liquidityIndex := ftm_calcExpectedLiquidityIndex bn after txTimestamp,
                variableBorrowIndex := ftm_calcExpectedVariableBorrowIndex bn before txTimestamp\<rparr>;
          e = e\<lparr>totalStableDebt := ftm_calcExpectedTotalStableDebt bn (principalStableDebt before)
                 (averageStableBorrowRate before) (totalStableDebtLastUpdated before) txTimestamp\<rparr>;
          e = e\<lparr>totalVariableDebt := ftm_calcExpectedTotalVariableDebt bn before (variableBorrowIndex e)\<rparr>;
          e = e\<lparr>scaledVariableDebt := scaledVariableDebt before,
                principalStableDebt := principalStableDebt before\<rparr>;
          e = e\<lparr>utilizationRate := ftm_calcExpectedUtilizationRate bn (totalStableDebt e) (totalVariableDebt e)
                 (totalLiquidity e)\<rparr>
      in bindSum (ftm_calcExpectedInterestRates bn reservesParams (r_symbol before) (marketStableRate before)
           (utilizationRate e) (totalStableDebt e) (totalVariableDebt e) (averageStableBorrowRate e)) (\<lambda>rates.
         Inr (setRates rates e)))"

definition calcExpectedReserveDataAfterWithdrawCollateral ::
  "'n bignumber \<Rightarrow> IReserveParams jsobj \<Rightarrow> string \<Rightarrow> 'n ReserveData \<Rightarrow> 'n ReserveData \<Rightarrow> 'n UserReserveData \<Rightarrow> 'n \<Rightarrow>
   error + 'n ReserveData" where
  "calcExpectedReserveDataAfterWithdrawCollateral bn reservesParams amountWithdrawn before after user txTimestamp =
     (let e = emptyReserveData bn;
          e = e\<lparr>r_address := r_address before\<rparr>;
          amountWithdrawn = (if amountWithdrawn = MAX_UINT_AMOUNT
                             then bn_toString bn (u_scaledATokenBalance user) else amountWithdrawn);
          shares = rayDiv bn (bn_new bn amountWithdrawn) (liquidityIndex after);
          e = e\<lparr>availableLiquidity := bn_minus bn (availableLiquidity before) shares\<rparr>;
          e = e\<lparr>principalStableDebt := principalStableDebt before,
                scaledVariableDebt := scaledVariableDebt before\<rparr>;
          e = e\<lparr>liquidityIndex := ftm_calcExpectedLiquidityIndex bn after txTimestamp,
                variableBorrowIndex := ftm_calcExpectedVariableBorrowIndex bn before txTimestamp\<rparr>;
          e = e\<lparr>totalStableDebt := ftm_calcExpectedTotalStableDebt bn (principalStableDebt before)
                 (averageStableBorrowRate before) (totalStableDebtLastUpdated before) txTimestamp\<rparr>;
          e = e\<lparr>totalVariableDebt := rayMul bn (scaledVariableDebt e) (variableBorrowIndex e)\<rparr>;
          e = e\<lparr>averageStableBorrowRate := averageStableBorrowRate before\<rparr>;
          e = e\<lparr>totalLiquidity := bn_plus bn (bn_plus bn
                 (bn_minus bn (availableLiquidity before) shares)
                 (totalVariableDebt e)) (totalStableDebt e)\<rparr>;
          e = e\<lparr>utilizationRate := ftm_calcExpectedUtilizationRate bn (totalStableDebt e) (totalVariableDebt e)
                 (totalLiquidity e)\<rparr>
      in bindSum (ftm_calcExpectedInterestRates bn reservesParams (r_symbol before) (marketStableRate before)
           (utilizationRate e) (totalStableDebt e) (totalVariableDebt e) (averageStableBorrowRate e)) (\<lambda>rates.
         Inr (setRates rates e)))"

context bignumber_integers
begin

lemma denotes_oneRayIndex: "denotes val (oneRayIndex bn) ray"
  using val_exponentiatedBy [OF val_number [of 10], of 27] by (simp add: denotes_def oneRayIndex_def ray_def)

lemma rayDiv_oneRay:
  assumes "denotes val x a"
  shows "denotes val (rayDiv bn x (oneRayIndex bn)) a"
  using denotes_rayDiv [OF assms denotes_oneRayIndex] by (simp add: rayDivN_def) (simp add: ray_def)

lemma collateral_deposit:
  assumes "denotes val (u_scaledATokenBalance user) a" "denotes val (u_walletBalance user) wallet" "n \<le> wallet"
  shows "denotes val (u_scaledATokenBalance
      (calcExpectedUserDataAfterDepositCollateral bn (showNat n) before after user t symbol)) (a + n)"
    "denotes val (u_walletBalance
      (calcExpectedUserDataAfterDepositCollateral bn (showNat n) before after user t symbol)) (wallet - n)"
  using denotes_minus [OF denotes_plus [OF assms(1) rayDiv_oneRay [OF denotes_showNat]]
      rayDiv_oneRay [OF denotes_constants(7)]]
    denotes_minus [OF assms(2) denotes_showNat assms(3)]
  by (simp_all add: calcExpectedUserDataAfterDepositCollateral_def ftm_calculators calcExpectedScaledATokenBalance_def Let_def)

lemma collateral_withdrawal:
  assumes "denotes val (u_scaledATokenBalance user) a" "denotes val (u_walletBalance user) wallet" "n \<le> a"
    and "showNat n \<noteq> MAX_UINT_AMOUNT"
  shows "denotes val (u_scaledATokenBalance
      (calcExpectedUserDataAfterWithdrawCollateral bn (showNat n) before after user t)) (a - n)"
    "denotes val (u_walletBalance
      (calcExpectedUserDataAfterWithdrawCollateral bn (showNat n) before after user t)) (wallet + n)"
  using denotes_minus [OF denotes_plus [OF assms(1) rayDiv_oneRay [OF denotes_constants(7)]]
      rayDiv_oneRay [OF denotes_showNat]] assms(3,4)
    denotes_plus [OF assms(2) denotes_showNat]
  by (simp_all add: calcExpectedUserDataAfterWithdrawCollateral_def ftm_calculators calcExpectedScaledATokenBalance_def Let_def)

end

text \<open>Depositing an amount of collateral and withdrawing it restores the expected scaled balance
  and the expected wallet balance, in whatever blocks the two happen.\<close>

theorem collateral_roundtrip:
  assumes "bignumber_laws bn val 0 ROUND_DOWN" and "denotes val (u_scaledATokenBalance user) a"
    and "denotes val (u_walletBalance user) wallet" and "n \<le> wallet" and "n < 2 ^ 256 - 1"
    and "user1 = calcExpectedUserDataAfterDepositCollateral bn (showNat n) before after user t symbol"
    and "user2 = calcExpectedUserDataAfterWithdrawCollateral bn (showNat n) before' after' user1 t'"
  shows "denotes val (u_scaledATokenBalance user2) a \<and> denotes val (u_walletBalance user2) wallet"
proof -
  from assms(1) have bi: "bignumber_integers bn val" by (simp add: bignumber_integers_def)
  have max: "showNat n \<noteq> MAX_UINT_AMOUNT"
  proof
    assume "showNat n = MAX_UINT_AMOUNT"
    then have "n = readDigits MAX_UINT_AMOUNT" using readDigits_showNat [of n] by simp
    then show False using assms(5) by (simp add: MAX_UINT_AMOUNT_def readDigits_def)
  qed
  note d = bignumber_integers.collateral_deposit [OF bi assms(2-4), of before after t symbol, folded assms(6)]
  show ?thesis
    using bignumber_integers.collateral_withdrawal [OF bi d(1,2) _ max, of before' after' t', folded assms(7)] assms(4)
    by simp
qed

theorem collateral_roundtrip_witness:
  "u_walletBalance (calcExpectedUserDataAfterWithdrawCollateral (rational_js 0 ROUND_DOWN) (showNat 70) sampleReserve
     sampleReserve (calcExpectedUserDataAfterDepositCollateral (rational_js 0 ROUND_DOWN) (showNat 70) sampleReserve
       sampleReserve sampleUser (Some 1000) ''yvWFTM'') (Some 2000)) = Some 10000"
  using collateral_roundtrip [OF rational.bignumber_laws_axioms _ _ _ _ refl refl, of sampleUser 500 10000 70]
  by (simp add: denotes_def sampleUser_def)

text \<open>The Fantom reserve expected after a withdrawal of collateral is balanced, with any setting of
  the package, and both calculators for collateral return exactly when the symbol is configured.\<close>

theorem collateral_reserve_balanced:
  assumes "bignumber_laws bn val dp mode"
  shows "((\<exists>e. calcExpectedReserveDataAfterDepositCollateral bn ps amount before after t = Inr e) \<longleftrightarrow>
      configured ps (r_symbol before)) \<and>
    (case calcExpectedReserveDataAfterWithdrawCollateral bn ps amount before after user t of
       Inl err \<Rightarrow> \<not> configured ps (r_symbol before)
     | Inr e \<Rightarrow> configured ps (r_symbol before) \<and> balanced val e)"
proof -
  have "(\<exists>e. calcExpectedReserveDataAfterDepositCollateral bn ps amount before after t = Inr e) \<longleftrightarrow>
      configured ps (r_symbol before)"
    "(\<exists>e. calcExpectedReserveDataAfterWithdrawCollateral bn ps amount before after user t = Inr e) \<longleftrightarrow>
      configured ps (r_symbol before)"
    unfolding calcExpectedReserveDataAfterDepositCollateral_def calcExpectedReserveDataAfterWithdrawCollateral_def Let_def ftm_calculators
    by (simp_all add: bindSum_returns interestRates_returns del: split_paired_Ex)
  moreover have "balanced val e"
    if "calcExpectedReserveDataAfterWithdrawCollateral bn ps amount before after user t = Inr e" for e
    using that by (intro bignumber_laws.balancedI [OF assms])
      (auto simp: calcExpectedReserveDataAfterWithdrawCollateral_def ftm_calculators Let_def bindSum_Inr)
  ultimately show ?thesis by (auto split: sum.splits)
qed

theorem collateral_reserve_balanced_witness:
  "\<exists>e. calcExpectedReserveDataAfterWithdrawCollateral (rational_js 0 ROUND_DOWN)
     [(''DAI'', strategyDAI decimal_js)] ''100'' sampleReserve sampleReserve sampleUser (Some 1000) = Inr e \<and>
     balanced (\<lambda>x. x) e"
  using collateral_reserve_balanced [OF rational.bignumber_laws_axioms [where dp = 0 and mode = ROUND_DOWN], of "[(''DAI'', strategyDAI decimal_js)]"
      "''100''" sampleReserve sampleReserve "Some 1000" sampleUser]
  by (auto simp: configured_def sampleReserve_def split: sum.splits)


end
