(* ===== verification/VaultChecks.thy ===== *)
theory VaultChecks
  imports Sessions
begin

text \<open>
  What the vault tasks and the leverage manager leave: the price sources at the oracle and the
  internal tokens in the configuration; and the runs that cannot succeed.
\<close>

section \<open>Price sources\<close>

lemma addressArg_Inr: "addressArg v w = (Inr a, w') \<longleftrightarrow> v = Some a \<and> is_address w a \<and> w' = w"
  by (auto simp: addressArg_def io_run split: option.splits if_splits)

lemma forIO_addressArg_Inr:
  "forIO vs addressArg w = (Inr xs, w') \<Longrightarrow> vs = map Some xs \<and> list_all (is_address w) xs \<and> w' = w"
  by (induction vs arbitrary: xs)
    (auto simp: addressArg_Inr returnIO_run dest: returnIO_InrD elim!: bindIO_InrE)

lemma senderOf_Inr: "senderOf h w = (Inr s, w') \<longleftrightarrow> h_signer h = Some s \<and> w' = w"
  by (auto simp: senderOf_def io_run split: option.splits)

lemma callContract_Inr:
  "callContract h m args w = (Inr (), w') \<longleftrightarrow>
   h_signer h \<noteq> None \<and> \<not> call_rejected w (h_factory h) m args \<and>
   w' = w\<lparr>call_log := call_log w @ [(h_address h, m, args)]\<rparr>"
  by (auto simp: callContract_def senderOf_def revert_def io_run split: option.splits if_splits)

lemma setAssetSources_Inr:
  assumes "setAssetSources oracle assets sources bs w = (Inr (), w')"
  obtains xs ys where "assets = map Some xs" and "sources = map Some ys"
    and "length ys = length xs" and "length bs = length xs"
    and "list_all (is_address w) (xs @ ys)"
    and "w' = w\<lparr>call_log := call_log w @ [(h_address oracle, ''setAssetSources'', [Strs xs, Strs ys, Bools bs])]\<rparr>"
  using assms unfolding setAssetSources_def
  by (auto elim!: bindIO_InrE dest!: forIO_addressArg_Inr
      simp: senderOf_Inr revert_def throwIO_run callContract_Inr split: if_splits)

lemma oracleAt_setAssetSources:
  assumes "setAssetSources oracle (map Some xs) (map Some ys) bs w = (Inr (), w')"
  shows "oracleAt self w' =
    (if self = h_address oracle then assignSources (zip xs (zip ys bs)) (oracleAt self w) else oracleAt self w)"
  by (rule setAssetSources_Inr [OF assms]) (auto simp: oracleAt_def sol_setAssetsSources_def cong: option.case_cong)

lemma assignSources_other:
  "a \<notin> fst ` set rows \<Longrightarrow> assetsSources (assignSources rows st) a = assetsSources st a \<and>
     assetsValidatesAvail (assignSources rows st) a = assetsValidatesAvail st a"
  by (induction rows st rule: assignSources.induct) auto

lemma assignSources_last:
  "i < length rows \<Longrightarrow> rows ! i = (a, source, validate) \<Longrightarrow> a \<notin> fst ` set (drop (Suc i) rows) \<Longrightarrow>
   assetsSources (assignSources rows st) a = source \<and>
   assetsValidatesAvail (assignSources rows st) a = validate"
proof (induction rows st arbitrary: i rule: assignSources.induct)
  case (2 asset s v rows st)
  show ?case
  proof (cases i)
    case 0
    with 2 assignSources_other show ?thesis by auto
  next
    case (Suc j)
    with 2 show ?thesis by auto
  qed
qed simp

text \<open>When \<open>setAssetSources\<close> succeeds, every asset of the call whose address is not repeated later
  in it has its new source and validation flag, every other asset keeps its own, and no other
  oracle changes.\<close>

theorem setAssetSources_sources:
  assumes "setAssetSources oracle assets sources validateAvails w = (Inr (), w')"
  shows "(\<forall>i < length assets. assets ! i \<notin> set (drop (Suc i) assets) \<longrightarrow>
      assetsSources (oracleAt (h_address oracle) w') (the (assets ! i)) = the (sources ! i) \<and>
      assetsValidatesAvail (oracleAt (h_address oracle) w') (the (assets ! i)) = validateAvails ! i) \<and>
    (\<forall>a. Some a \<notin> set assets \<longrightarrow>
      assetsSources (oracleAt (h_address oracle) w') a = assetsSources (oracleAt (h_address oracle) w) a) \<and>
    (\<forall>self. self \<noteq> h_address oracle \<longrightarrow> oracleAt self w' = oracleAt self w)"
proof -
  from assms obtain xs ys where xy: "assets = map Some xs" "sources = map Some ys"
    "length ys = length xs" "length validateAvails = length xs"
    by (rule setAssetSources_Inr)
  let ?rows = "zip xs (zip ys validateAvails)"
  note at = oracleAt_setAssetSources [OF assms [unfolded xy(1,2)]]
  have fsts: "fst ` set (drop n ?rows) = set (drop n xs)" for n
    by (metis drop_zip image_set map_fst_zip length_drop length_zip min.idem xy(3,4))
  show ?thesis
    unfolding at xy(1,2)
    using fsts [of 0] assignSources_last [of _ ?rows] assignSources_other [of _ ?rows]
    by (auto simp: xy(3,4) fsts drop_map image_iff simp del: drop_zip)
qed

lemma entryHere_Inr:
  "entryHere param symbol w = (Inr v, w') \<longleftrightarrow>
   w' = w \<and> (\<exists>entries. getParamPerNetwork param (currentNetwork w) w = Some entries \<and> v = obj_get entries symbol)"
  by (auto simp: entryHere_def io_run split: option.splits)

lemma configuredParam_Inr:
  "configuredParam field w = (Inr v, w') \<longleftrightarrow>
   w' = w \<and> (\<exists>param. field = Some param \<and> v = getParamPerNetwork param (currentNetwork w) w)"
  by (auto simp: configuredParam_def io_run split: option.splits)

text \<open>The leverage manager gives the liquidity token of a vault the price source its internal
  token had.\<close>

theorem copyAssetSource_equal:
  assumes "copyAssetSource oracle config symbol lp w = (Inr (), w')"
  shows "\<exists>internal lpToken. entryHere (ReserveAssets config) symbol w = (Inr (Some internal), w) \<and>
    configuredParam lp w = (Inr (Some lpToken), w) \<and>
    assetsSources (oracleAt (h_address oracle) w') lpToken =
      assetsSources (oracleAt (h_address oracle) w) internal"
proof -
  from assms obtain internal lpToken src where
    1: "entryHere (ReserveAssets config) symbol w = (Inr (Some internal), w)"
    and 2: "src = assetsSources (oracleAt (h_address oracle) w) internal"
    and 3: "configuredParam lp w = (Inr lpToken, w)"
    and 4: "setAssetSources oracle [lpToken] [Some src] [False] w = (Inr (), w')"
    unfolding copyAssetSource_def getSourceOfAsset_def
    by (auto elim!: bindIO_InrE simp: addressArg_Inr getsIO_run Let_def entryHere_Inr configuredParam_Inr)
  from 4 obtain a where "lpToken = Some a"
    by (rule setAssetSources_Inr) (auto simp: map_eq_Cons_conv)
  with 1 2 3 4 show ?thesis
    using oracleAt_setAssetSources [of "oracle" "[a]" "[src]" "[False]" w w'] by simp
qed

section \<open>Runs that cannot succeed\<close>

text \<open>The task of the Yearn rETH-wstETH vault never succeeds: it registers one price source with
  two validation flags, which the oracle rejects.\<close>

theorem yearn_reth_wsteth_never_succeeds:
  "fst (full_deploy_yearn_reth_wsteth_vault pool verify w) \<noteq> Inr ()"
proof
  assume "fst (full_deploy_yearn_reth_wsteth_vault pool verify w) = Inr ()"
  then obtain w' where "full_deploy_yearn_reth_wsteth_vault pool verify w = (Inr (), w')"
    by (cases "full_deploy_yearn_reth_wsteth_vault pool verify w") simp
  then obtain h asset source w1 w2
    where "setAssetSources h [asset] [source] [False, False] w1 = (Inr (), w2)"
    unfolding full_deploy_yearn_reth_wsteth_vault_def Let_def by (elim bindIO_InrE thenIO_InrE) simp
  then show False by (rule setAssetSources_Inr) auto
qed

section \<open>Silent scripts\<close>

text \<open>A script that changes neither the environment nor the loaded configurations.\<close>

definition silent :: "'a script \<Rightarrow> bool" where
  "silent m \<longleftrightarrow> keeps (\<lambda>_. True) frame_step (\<lambda>_ _. True) ([] :: handle list) m \<and>
     keeps (\<lambda>_. True) writes_kept (\<lambda>_ _. True) ([] :: handle list) m"

lemma silentD:
  assumes "silent m" and "m w = (r, w')"
  shows "same_environment w w'" and "asset_writes w' = asset_writes w"
  using assms keepsD [of "\<lambda>_. True" frame_step "\<lambda>_ _. True" "[] :: handle list" m w r w']
    keepsD [of "\<lambda>_. True" writes_kept "\<lambda>_ _. True" "[] :: handle list" m w r w']
  by (simp_all add: silent_def frame_step_def writes_kept_def)

lemma silent_rules:
  "silent m \<Longrightarrow> (\<And>x. silent (f x)) \<Longrightarrow> silent (bindIO m f)"
  "silent m \<Longrightarrow> silent k \<Longrightarrow> silent (thenIO m k)"
  unfolding silent_def by (blast intro: frame.keeps_rules kept.keeps_rules)+

lemma currentNetwork_same: "same_environment w w' \<Longrightarrow> currentNetwork w' = currentNetwork w"
  by (simp add: same_environment_def currentNetwork_def)

section \<open>The Fantom migration\<close>

text \<open>Not successful in a fresh process on Fantom.\<close>

definition stuckOnFantom :: "unit script \<Rightarrow> bool" where
  "stuckOnFantom m \<longleftrightarrow> (\<forall>w. asset_writes w = [] \<longrightarrow> currentNetwork w = ''ftm'' \<longrightarrow> fst (m w) \<noteq> Inr ())"

lemma stuckOnFantom_after:
  assumes "silent m" and "stuckOnFantom k"
  shows "stuckOnFantom (thenIO m k)"
proof (unfold stuckOnFantom_def, intro allI impI)
  fix w
  assume w: "asset_writes w = []" "currentNetwork w = ''ftm''"
  obtain r w1 where m: "m w = (r, w1)" by fastforce
  with silentD [OF assms(1) m] w have "asset_writes w1 = []" "currentNetwork w1 = ''ftm''"
    by (simp_all add: currentNetwork_same)
  with assms(2) m show "fst (thenIO m k w) \<noteq> Inr ()"
    by (auto simp: stuckOnFantom_def thenIO_run split: sum.split)
qed

lemma stuckOnFantom_first: "stuckOnFantom m \<Longrightarrow> stuckOnFantom (thenIO m k)"
  by (force simp: stuckOnFantom_def thenIO_run split: prod.splits sum.splits)

lemma paramOn_ftm:
  "currentNetwork w = ''ftm'' \<Longrightarrow> getParamPerNetwork param ''ftm'' w = obj_get param ''ftm''"
  by (auto simp: getParamPerNetwork_def currentNetwork_def split: if_splits)

lemma mooWETH_not_configured:
  "(case obj_get (ReserveAssets FantomConfig) ''ftm'' of None \<Rightarrow> None | Some assets \<Rightarrow> obj_get assets ''mooWETH'') = None"
  by (simp add: Fantom_ReserveAssets_def)

lemma requireChainId_Inr: "requireChainId w = (Inr x, w') \<Longrightarrow> w' = w"
  by (auto simp: requireChainId_def io_run split: if_splits)

lemma currentPoolConfig_Inr:
  "currentPoolConfig pool w = (Inr pc, w') \<longleftrightarrow>
   w' = w \<and> (\<exists>base. loadPoolConfig pool = Inr base \<and>
     pc = withReserveAssets (writtenAssets (asset_writes w) pool) base)"
  by (auto simp: currentPoolConfig_def liftSum_def io_run split: sum.splits)

lemma silent_vault_steps:
  "silent (deployBeefyETHVault v)" "silent (getSturdyOracle a)"
  "silent m \<Longrightarrow> silent (deployRegisteredVault config m)"
  unfolding silent_def deployRegisteredVault_def
  by (blast intro: script_keeps frame.keeps_rules kept.keeps_rules)+

lemma beefy_eth_vault_stuck: "stuckOnFantom (full_deploy_beefy_eth_vault ''Fantom'' verify)"
proof (unfold stuckOnFantom_def, intro allI impI notI)
  fix w
  assume w: "asset_writes w = []" "currentNetwork w = ''ftm''"
    and "fst (full_deploy_beefy_eth_vault ''Fantom'' verify w) = Inr ()"
  then obtain w' where "full_deploy_beefy_eth_vault ''Fantom'' verify w = (Inr (), w')"
    by (cases "full_deploy_beefy_eth_vault ''Fantom'' verify w") simp
  then obtain pc w0 vault w1 v w1' h w2 asset w2' source w3
    where 0: "requireChainId w = (Inr (), w0)" "currentPoolConfig ''Fantom'' w0 = (Inr pc, w0)"
      and 1: "deployRegisteredVault (commonConfiguration pc) (deployBeefyETHVault verify) w0 = (Inr vault, w1)"
      and 2: "entryHere (ChainlinkAggregator (commonConfiguration pc)) ''mooWETH'' w1 = (Inr v, w1')"
        "getSturdyOracle None w1' = (Inr h, w2)"
      and 3: "entryHere (ReserveAssets (commonConfiguration pc)) ''mooWETH'' w2 = (Inr asset, w2')"
      and 4: "setAssetSources h [asset] [source] [False] w2' = (Inr (), w3)"
    unfolding full_deploy_beefy_eth_vault_def Let_def
    by (elim bindIO_InrE thenIO_InrE) (auto simp: currentPoolConfig_Inr)
  from 0 w(1) have pc: "ReserveAssets (commonConfiguration pc) = ReserveAssets FantomConfig" and "w0 = w"
    by (auto dest!: requireChainId_Inr
        simp: currentPoolConfig_Inr loadPoolConfig_def writtenAssets_def ICommonConfiguration.truncate_def)
  moreover from 2(1) have "w1' = w1" by (simp add: entryHere_Inr)
  ultimately
  have "currentNetwork w2 = ''ftm''"
    using silentD(1) [OF silent_vault_steps(3) [OF silent_vault_steps(1)] 1]
      silentD(1) [OF silent_vault_steps(2) 2(2)] w(2) by (simp add: currentNetwork_same)
  with 3 have "asset = None"
    using mooWETH_not_configured
    by (auto simp: entryHere_Inr paramOn_ftm pc split: option.splits)
  with 4 show False by (auto elim: setAssetSources_Inr)
qed

text \<open>C26. In a fresh process on Fantom the migration \<open>sturdy:ftm\<close> never succeeds: it runs the task of
  the Beefy WETH vault, whose token is not among the market's assets there.\<close>

theorem sturdy_ftm_never_succeeds:
  assumes "asset_writes w = []" and "currentNetwork w = ''ftm''"
  shows "fst (sturdy_ftm bn verify skipRegistry w) \<noteq> Inr ()"
proof -
  have "stuckOnFantom (sturdy_ftm bn verify skipRegistry)"
    unfolding sturdy_ftm_def Let_def
    by (intro stuckOnFantom_after stuckOnFantom_first [OF beefy_eth_vault_stuck];
        unfold silent_def; intro conjI script_keeps)
  with assms show ?thesis by (simp add: stuckOnFantom_def)
qed

theorem sturdy_ftm_never_succeeds_witness:
  "fst (sturdy_ftm decimal_js False True (sampleWorld ''ftm'')) \<noteq> Inr ()"
  by (rule sturdy_ftm_never_succeeds) (simp_all add: sampleWorld_def currentNetwork_def)

section \<open>Internal tokens in the configuration\<close>

text \<open>The tasks that write a token, with the symbol they write.\<close>

definition internalAssetTasks :: "string \<Rightarrow> bool \<Rightarrow> (string \<times> unit script) list" where
  "internalAssetTasks pool verify =
     [(''cvxRETH_WSTETH'', full_deploy_convex_rocket_pool_eth_vault pool verify),
      (''cvxFRAX_3CRV'', full_deploy_convex_frax_3crv_vault pool verify),
      (''cvxSTECRV'', full_deploy_convex_steth_vault pool verify),
      (''cvxDOLA_3CRV'', full_deploy_convex_dola_3crv_vault pool verify),
      (''cvxMIM_3CRV'', full_deploy_convex_mim_3crv_vault pool verify),
      (''cvxDAI_USDC_USDT_SUSD'', full_deploy_convex_dai_usdc_usdt_susd_vault pool verify),
      (''cvxHBTC_WBTC'', full_deploy_convex_hbtc_wbtc_vault pool verify),
      (''cvxIRON_BANK'', full_deploy_convex_iron_bank_vault pool verify),
      (''cvxFRAX_USDC'', full_deploy_convex_frax_usdc_vault pool verify),
      (''auraDAI_USDC_USDT'', full_deploy_aura_dai_usdc_usdt_vault pool verify),
      (''cvxTUSD_FRAXBP'', full_deploy_convex_tusd_fraxbp_vault pool verify),
      (''auraBB_A_USD'', full_deploy_aura_bb_a_usd_vault pool verify),
      (''auraBB_A3_USD'', full_deploy_aura_bb_a3_usd_vault pool verify)]"

text \<open>An address that some vault reports as its internal token.\<close>

definition reported :: "world \<Rightarrow> address \<Rightarrow> bool" where
  "reported w a \<longleftrightarrow> (\<exists>calls vault. a = view_result w calls vault ''getInternalAsset'' '''')"

lemma reportedI [simp]: "reported w (view_result w calls vault ''getInternalAsset'' '''')"
  unfolding reported_def by blast

lemma reported_same: "same_environment w w' \<Longrightarrow> reported w' = reported w"
  by (simp add: reported_def same_environment_def fun_eq_iff)

text \<open>One such token was written into a network the configuration has.\<close>

definition asset_recorded :: "string \<Rightarrow> ICommonConfiguration \<Rightarrow> string \<Rightarrow> world \<Rightarrow> world \<Rightarrow> bool" where
  "asset_recorded pool config symbol w w' \<longleftrightarrow> same_environment w w' \<and>
     obj_get (ReserveAssets config) (currentNetwork w) \<noteq> None \<and>
     (\<exists>a. reported w a \<and> asset_writes w' = asset_writes w @ [(pool, currentNetwork w, symbol, a)])"

lemma asset_recorded_extend:
  "same_environment w w1 \<Longrightarrow> asset_writes w1 = asset_writes w \<Longrightarrow>
   asset_recorded pool config symbol w1 w' \<Longrightarrow> asset_recorded pool config symbol w w'"
  "asset_recorded pool config symbol w w1 \<Longrightarrow> same_environment w1 w' \<Longrightarrow>
   asset_writes w' = asset_writes w1 \<Longrightarrow> asset_recorded pool config symbol w w'"
  by (auto simp: asset_recorded_def currentNetwork_same reported_same intro: same_environment_trans)

definition records_asset :: "string \<Rightarrow> ICommonConfiguration \<Rightarrow> string \<Rightarrow> unit script \<Rightarrow> bool" where
  "records_asset pool config symbol m \<longleftrightarrow>
     (\<forall>w w'. m w = (Inr (), w') \<longrightarrow> asset_recorded pool config symbol w w')"

lemma records_asset_bind:
  assumes "silent m" and "\<And>x. records_asset pool config symbol (f x)"
  shows "records_asset pool config symbol (bindIO m f)"
  unfolding records_asset_def
proof (intro allI impI)
  fix w w'
  assume "bindIO m f w = (Inr (), w')"
  then obtain x w1 where m: "m w = (Inr x, w1)" and f: "f x w1 = (Inr (), w')" by (rule bindIO_InrE)
  from assms(2) f have "asset_recorded pool config symbol w1 w'"
    unfolding records_asset_def by blast
  with silentD [OF assms(1) m] show "asset_recorded pool config symbol w w'"
    by (rule asset_recorded_extend(1))
qed

lemma records_asset_then:
  "silent m \<Longrightarrow> records_asset pool config symbol k \<Longrightarrow> records_asset pool config symbol (thenIO m k)"
  unfolding thenIO_def by (rule records_asset_bind)

lemma records_asset_here:
  assumes "\<And>a. silent (f a)"
  shows "records_asset pool config symbol (bindIO (recordInternalAsset pool config symbol vault) f)"
  unfolding records_asset_def
proof (intro allI impI)
  fix w w'
  assume "bindIO (recordInternalAsset pool config symbol vault) f w = (Inr (), w')"
  then obtain a w1 where 1: "recordInternalAsset pool config symbol vault w = (Inr a, w1)"
    and 2: "f a w1 = (Inr (), w')" by (rule bindIO_InrE)
  from 1 have "asset_recorded pool config symbol w w1"
    by (auto simp: recordInternalAsset_def writeReserveAsset_def viewContract_def io_run
        asset_recorded_def same_environment_def split: option.splits)
  with silentD [OF assms 2] show "asset_recorded pool config symbol w w'"
    by (blast intro: asset_recorded_extend(2))
qed

lemma silent_deployments:
  "silent (deployConvexRocketPoolETHVault v)" "silent (deployRETHWstETHLPOracle v)"
  "silent (deployConvexFRAX3CRVVault v)" "silent (deployFRAX3CRVPOracle v)"
  "silent (deployConvexSTETHVault v)" "silent (deploySTECRVOracle v)"
  "silent (deployConvexDOLA3CRVVault v)" "silent (deployDOLA3CRVOracle v)"
  "silent (deployConvexMIM3CRVVault v)" "silent (deployMIM3CRVOracle v)"
  "silent (deployMIMOracle v)" "silent (deployConvexDAIUSDCUSDTSUSDVault v)"
  "silent (deployDAIUSDCUSDTSUSDOracle v)" "silent (deployConvexHBTCWBTCVault v)"
  "silent (deployHBTCWBTCOracle v)" "silent (deployConvexIronBankVault v)"
  "silent (deployIronBankOracle v)" "silent (deployConvexFRAXUSDCVault v)"
  "silent (deployFRAXUSDCOracle v)" "silent (deployAuraDAIUSDCUSDTVault v)"
  "silent (deployBALDAIUSDCUSDTOracle v)" "silent (deployConvexTUSDFRAXBPVault v)"
  "silent (deployTUSDFRAXBPCOracle v)" "silent (deployAuraBBAUSDVault v)"
  "silent (deployBALBBAUSDOracle v)" "silent (deployAURAOracle v)"
  "silent (deployAuraBBA3USDVault v)" "silent (deployBALBBA3USDOracle v)"
  unfolding silent_def by (intro conjI script_keeps)+

lemma silent_steps:
  "silent (setVaultConfiguration h field n)" "silent (callContract h m args)"
  "silent (entryHere p symbol)" "silent (configuredParam field)" "silent (logAssetPrice h a)"
  "silent (setAssetSources h as ss bs)" "silent (getSturdyOracle a)"
  unfolding silent_def by (intro conjI script_keeps)+

lemma silent_aggregatorOr: "silent m \<Longrightarrow> silent (aggregatorOr config symbol m)"
  unfolding silent_def aggregatorOr_def
  by (blast intro: script_keeps frame.keeps_rules kept.keeps_rules)

lemmas records_asset_rules = records_asset_here records_asset_bind records_asset_then
  silent_rules silent_aggregatorOr silent_vault_steps(3) silent_steps silent_deployments

text \<open>What a task of this kind shows of the configuration it leaves.\<close>

definition token_configured :: "string \<Rightarrow> string \<Rightarrow> world \<Rightarrow> bool" where
  "token_configured pool symbol w \<longleftrightarrow>
     (\<exists>poolConfig assets a. currentPoolConfig pool w = (Inr poolConfig, w) \<and>
        obj_get (ReserveAssets (commonConfiguration poolConfig)) (currentNetwork w) = Some assets \<and>
        obj_get assets symbol = Some a \<and> reported w a)"

definition configures_token :: "string \<Rightarrow> string \<Rightarrow> unit script \<Rightarrow> bool" where
  "configures_token pool symbol m \<longleftrightarrow>
     (\<forall>w w'. m w = (Inr (), w') \<longrightarrow> token_configured pool symbol w')"

lemma ReserveAssets_withReserveAssets:
  "ReserveAssets (commonConfiguration (withReserveAssets f pc)) = f (ReserveAssets (commonConfiguration pc))"
  by (cases pc) (simp_all add: ICommonConfiguration.truncate_def)

lemma writtenAssets_snoc:
  "obj_get (writtenAssets ws pool assets) network = Some here \<Longrightarrow>
   obj_get (writtenAssets (ws @ [(pool, network, symbol, a)]) pool assets) network =
     Some (obj_set symbol a here)"
  by (simp add: writtenAssets_def)

lemma configures_tokenI:
  assumes "\<And>pc. records_asset pool (commonConfiguration pc) symbol (f pc)"
  shows "configures_token pool symbol (thenIO requireChainId (bindIO (currentPoolConfig pool) f))"
  unfolding configures_token_def
proof (intro allI impI)
  fix w w'
  assume "thenIO requireChainId (bindIO (currentPoolConfig pool) f) w = (Inr (), w')"
  then obtain base where base: "loadPoolConfig pool = Inr base"
    and f: "f (withReserveAssets (writtenAssets (asset_writes w) pool) base) w = (Inr (), w')"
    by (elim thenIO_InrE bindIO_InrE) (auto simp: currentPoolConfig_Inr dest!: requireChainId_Inr)
  let ?pc = "withReserveAssets (writtenAssets (asset_writes w) pool) base"
  from f assms have "asset_recorded pool (commonConfiguration ?pc) symbol w w'"
    unfolding records_asset_def by blast
  then obtain here a
    where here: "obj_get (writtenAssets (asset_writes w) pool (ReserveAssets (commonConfiguration base)))
        (currentNetwork w) = Some here"
      and env: "same_environment w w'"
      and a: "reported w a" "asset_writes w' = asset_writes w @ [(pool, currentNetwork w, symbol, a)]"
    by (auto simp: asset_recorded_def ReserveAssets_withReserveAssets)
  have "currentNetwork w' = currentNetwork w" "reported w' = reported w"
    using env by (simp_all add: currentNetwork_same reported_same)
  then show "token_configured pool symbol w'"
    using writtenAssets_snoc [OF here] base a
    by (auto simp: token_configured_def currentPoolConfig_Inr ReserveAssets_withReserveAssets)
qed

lemma internal_asset_tasks_configure:
  "list_all (\<lambda>(symbol, task). configures_token pool symbol task) (internalAssetTasks pool verify)"
  unfolding internalAssetTasks_def list.pred_inject(2) prod.case
    full_deploy_convex_rocket_pool_eth_vault_def full_deploy_convex_frax_3crv_vault_def
    full_deploy_convex_steth_vault_def full_deploy_convex_dola_3crv_vault_def
    full_deploy_convex_mim_3crv_vault_def full_deploy_convex_dai_usdc_usdt_susd_vault_def
    full_deploy_convex_hbtc_wbtc_vault_def full_deploy_convex_iron_bank_vault_def
    full_deploy_convex_frax_usdc_vault_def full_deploy_aura_dai_usdc_usdt_vault_def
    full_deploy_convex_tusd_fraxbp_vault_def full_deploy_aura_bb_a_usd_vault_def
    full_deploy_aura_bb_a3_usd_vault_def Let_def
  by (intro conjI list.pred_inject(1) configures_tokenI records_asset_rules)


section \<open>Verification arguments\<close>

text \<open>C27. The verification of an interest rate strategy states other constructor arguments than the
  ones \<open>initReservesByHelper\<close> deploys the strategy with: the capacity is missing.\<close>

theorem strategy_verified_with_other_arguments:
  assumes "ensureStrategy provider verify strat st w = (Inr st', w')"
    and "\<not> truthy (obj_get (strategyAddresses st) (strategy_name strat))"
  shows "\<exists>a c. obj_get (strategyAddresses st') (strategy_name strat) = Some a \<and> contracts w' a = Some c \<and>
    code c = ''DefaultReserveInterestRateStrategy'' \<and> ctor_args c \<noteq> strategyVerificationArgs provider' strat"
proof -
  from assms obtain h w1 where 1: "deployDefaultReserveInterestRateStrategy
      [Str provider, Str (optimalUtilizationRate strat), Str (baseVariableBorrowRate strat),
       Str (variableRateSlope1 strat), Str (variableRateSlope2 strat), Str (stableRateSlope1 strat),
       Str (stableRateSlope2 strat), Str (capacity strat)] verify w = (Inr h, w1)"
    and 2: "rawInsertContractAddressInDb (strategy_name strat) (h_address h) w1 = (Inr (), w')"
    and st': "st' = st\<lparr>strategyAddresses := obj_set (strategy_name strat) (h_address h) (strategyAddresses st)\<rparr>"
    unfolding ensureStrategy_def
    by (auto elim!: bindIO_InrE thenIO_InrE simp: returnIO_run)
  from 2 have "contracts w' = contracts w1"
    by (auto simp: rawInsertContractAddressInDb_def io_run)
  with deployAndSave_Inr [OF 1 [unfolded deployDefaultReserveInterestRateStrategy_def]] st'
  show ?thesis
    by (auto simp: deployed_as_def new_contract_def strategyVerificationArgs_def)
qed

theorem strategy_verified_with_other_arguments_witness:
  "\<exists>st' w'. ensureStrategy ''0xC'' False
      \<lparr>strategy_name = ''rateStrategy'', optimalUtilizationRate = ''1'', baseVariableBorrowRate = ''0'',
       variableRateSlope1 = ''0'', variableRateSlope2 = ''0'', stableRateSlope1 = ''0'',
       stableRateSlope2 = ''0'', capacity = ''5''\<rparr> init_state0 (sampleMarket ''main'') = (Inr st', w') \<and>
    (\<exists>a c. obj_get (strategyAddresses st') ''rateStrategy'' = Some a \<and> contracts w' a = Some c \<and>
      ctor_args c \<noteq> [Str ''0xC'', Str ''1'', Str ''0'', Str ''0'', Str ''0'', Str ''0'', Str ''0''])"
proof -
  let ?s = "\<lparr>strategy_name = ''rateStrategy'', optimalUtilizationRate = ''1'', baseVariableBorrowRate = ''0'',
       variableRateSlope1 = ''0'', variableRateSlope2 = ''0'', stableRateSlope1 = ''0'',
       stableRateSlope2 = ''0'', capacity = ''5''\<rparr>"
  obtain st' w' where run: "ensureStrategy ''0xC'' False ?s init_state0 (sampleMarket ''main'') = (Inr st', w')"
    by (simp add: ensureStrategy_def init_state0_def deployDefaultReserveInterestRateStrategy_def
        rawInsertContractAddressInDb_def run_defs sampleMarket_eq Let_def sampleWorld_def db_put_def
        create_contract_def run_constructor_def)
  have "\<not> truthy (obj_get (strategyAddresses init_state0) (strategy_name ?s))"
    by (simp add: init_state0_def)
  from run strategy_verified_with_other_arguments [OF run this, of "''0xC''"] show ?thesis
    by (auto simp: strategyVerificationArgs_def)
qed

section \<open>A sample market with an oracle\<close>

text \<open>The sample market on the main network, with a configurator and an oracle on the registry, and
  vaults that report one internal token.\<close>

definition sampleVaultMarket :: world where
  "sampleVaultMarket =
     (db_put ''SturdyOracle'' \<lparr>entry_address = ''0xD2'', entry_deployer = None\<rparr>
       (db_put ''LendingPoolConfigurator'' \<lparr>entry_address = ''0xD1'', entry_deployer = None\<rparr>
         (sampleMarket ''main'')))\<lparr>view_result := (\<lambda>_ _ _ _. ''0xD3'')\<rparr>"

lemmas vault_run_defs = Let_def run_defs sampleWorld_def db_put_def create_contract_def
  next_address_def getLendingPoolAddressesProvider_def connectOrRegistered_def registeredAddress_def
  db_get_def initialize_def senderOf_def connectAt_def transaction_def initializer_def getRevision_def
  versionedContracts_def initialize_body_def revert_def requires_def update_contract_def
  new_contract_def setAddressAsProxy_def formatBytes32String_def addressArg_def providerTx_def
  sol_setAddressAsProxy_def onlyOwner_def updateImpl_def sol_getAddress_def createProxy_def
  proxy_contract_def proxyCode_def proxy_initialize_def setImplementation_def delegateInitialize_def
  codeAt_def put_address_def construct_provider_def ZERO_ADDRESS_def run_constructor_def
  getAddress_def insertContractAddressInDb_def

lemma sample_vault_deployed:
  "\<exists>w. deployConvexSTETHVault False sampleVaultMarket =
      (Inr \<lparr>h_address = ''0xC11'', h_factory = ''ConvexCurveLPVault'', h_signer = Some ''0xA1'', h_deployer = None\<rparr>, w) \<and>
    db_get ''LendingPoolConfigurator'' w = Some \<lparr>entry_address = ''0xD1'', entry_deployer = None\<rparr> \<and>
    db_get ''SturdyOracle'' w = Some \<lparr>entry_address = ''0xD2'', entry_deployer = None\<rparr>"
  by (simp add: deployConvexSTETHVault_def getConvexSTETHVault_def sampleVaultMarket_def sampleMarket_eq vault_run_defs)


lemma sampleVaultMarket_simps:
  "network_chainId sampleVaultMarket = Some 1" "asset_writes sampleVaultMarket = []"
  "network_name sampleVaultMarket = ''main''" "env_FORK sampleVaultMarket = None"
  "env_TENDERLY sampleVaultMarket = None" "env_DEFENDER sampleVaultMarket = None"
  "node_signers sampleVaultMarket = [''0xA1'', ''0xA2'']"
  "is_address sampleVaultMarket = (\<lambda>s. take 2 s = ''0x'')"
  "call_rejected sampleVaultMarket = (\<lambda>_ _ _. False)"
  "creation_rejected sampleVaultMarket = (\<lambda>_ _. False)"
  "view_result sampleVaultMarket = (\<lambda>_ _ _ _. ''0xD3'')"
  "create_address sampleVaultMarket = (\<lambda>n. ''0xC'' @ replicate n CHR ''1'')"
  "call_log sampleVaultMarket = []" "contracts sampleVaultMarket ''0xD2'' = None"
  by (simp_all add: sampleVaultMarket_def sampleMarket_eq Let_def sampleWorld_def db_put_def
      create_contract_def next_address_def)

lemma sample_vault_task: "\<exists>w'. full_deploy_convex_steth_vault ''Sturdy'' False sampleVaultMarket = (Inr (), w')"
proof -
  obtain w where deploy: "deployConvexSTETHVault False sampleVaultMarket =
      (Inr \<lparr>h_address = ''0xC11'', h_factory = ''ConvexCurveLPVault'', h_signer = Some ''0xA1'', h_deployer = None\<rparr>, w)"
    and db: "db_get ''LendingPoolConfigurator'' w = Some \<lparr>entry_address = ''0xD1'', entry_deployer = None\<rparr>"
      "db_get ''SturdyOracle'' w = Some \<lparr>entry_address = ''0xD2'', entry_deployer = None\<rparr>"
    using sample_vault_deployed by blast
  have "silent (deployConvexSTETHVault False)" by (rule silent_deployments)
  from silentD(1) [OF this deploy] have env: "network_name w = ''main''" "env_FORK w = None"
    "env_TENDERLY w = None" "env_DEFENDER w = None" "node_signers w = [''0xA1'', ''0xA2'']"
    "is_address w = (\<lambda>s. take 2 s = ''0x'')" "call_rejected w = (\<lambda>_ _ _. False)"
    "creation_rejected w = (\<lambda>_ _. False)" "view_result w = (\<lambda>_ _ _ _. ''0xD3'')"
    "create_address w = (\<lambda>n. ''0xC'' @ replicate n CHR ''1'')"
    by (simp_all add: same_environment_def sampleVaultMarket_simps)
  show ?thesis
    by (simp add: full_deploy_convex_steth_vault_def deployRegisteredVault_def requireChainId_def
        currentPoolConfig_def loadPoolConfig_def liftSum_def writtenAssets_def configuredParam_def
        getParamPerNetwork_def currentNetwork_def setVaultConfiguration_def recordInternalAsset_def
        writeReserveAsset_def viewContract_def aggregatorOr_def entryHere_def setAssetSources_def
        logAssetPrice_def callContract_def getLendingPoolConfiguratorProxy_def getSturdyOracle_def
        deploySTECRVOracle_def connectOrRegistered_def registeredAddress_def connectAt_def
        addressArg_def senderOf_def revert_def run_defs Let_def sampleVaultMarket_simps deploy env db [unfolded db_get_def env(1)]
        ICommonConfiguration.truncate_def MarketSturdy_data db_put_def db_get_def create_contract_def
        run_constructor_def next_address_def)
qed



definition sampleOracle :: handle where
  "sampleOracle = connectAt ''SturdyOracle'' ''0xD2'' (Some ''0xA1'')"

lemma sample_sources_set:
  "setAssetSources sampleOracle [Some ''0x1'', Some ''0x2''] [Some ''0x3'', Some ''0x4''] [False, True] sampleVaultMarket =
   (Inr (), snd (setAssetSources sampleOracle [Some ''0x1'', Some ''0x2''] [Some ''0x3'', Some ''0x4''] [False, True] sampleVaultMarket))"
  by (simp add: setAssetSources_def sampleOracle_def connectAt_def addressArg_def senderOf_def callContract_def
      io_run sampleVaultMarket_simps)

theorem setAssetSources_sources_witness:
  "assetsSources (oracleAt ''0xD2'' (snd (setAssetSources sampleOracle
     [Some ''0x1'', Some ''0x2''] [Some ''0x3'', Some ''0x4''] [False, True] sampleVaultMarket))) ''0x1'' = ''0x3''"
  using setAssetSources_sources [OF sample_sources_set, THEN conjunct1, rule_format, of 0]
  by (simp add: sampleOracle_def connectAt_def)

lemma sample_source_copied:
  "\<exists>w'. copyAssetSource sampleOracle (commonConfiguration (SturdyPool SturdyConfig)) ''cvxFRAX_USDC''
      (sturdyField FRAX_USDC_LP (SturdyPool SturdyConfig)) sampleVaultMarket = (Inr (), w')"
  by (simp add: copyAssetSource_def getSourceOfAsset_def entryHere_def configuredParam_def setAssetSources_def
      sampleOracle_def connectAt_def addressArg_def senderOf_def callContract_def getParamPerNetwork_def
      currentNetwork_def oracleAt_def io_run sampleVaultMarket_simps MarketSturdy_data Let_def
      ICommonConfiguration.truncate_def)

theorem copyAssetSource_equal_witness:
  "\<exists>w' internal lpToken. copyAssetSource sampleOracle (commonConfiguration (SturdyPool SturdyConfig)) ''cvxFRAX_USDC''
      (sturdyField FRAX_USDC_LP (SturdyPool SturdyConfig)) sampleVaultMarket = (Inr (), w') \<and>
    assetsSources (oracleAt ''0xD2'' w') lpToken = assetsSources (oracleAt ''0xD2'' sampleVaultMarket) internal"
proof -
  obtain w' where run: "copyAssetSource sampleOracle (commonConfiguration (SturdyPool SturdyConfig)) ''cvxFRAX_USDC''
      (sturdyField FRAX_USDC_LP (SturdyPool SturdyConfig)) sampleVaultMarket = (Inr (), w')"
    using sample_source_copied by blast
  have "h_address sampleOracle = ''0xD2''" by (simp add: sampleOracle_def connectAt_def)
  with run copyAssetSource_equal [OF run] show ?thesis by metis
qed

end
