(* ===== verification/TestnetChecks.thy ===== *)
theory TestnetChecks
  imports VaultChecks
begin

text \<open>
  The deployment of a test network: it stops at its third stage, whatever the environment; and
  what a vault task that prices its asset leaves in the mock oracle.
\<close>

section \<open>Scripts that never return\<close>

definition never_returns :: "'a script \<Rightarrow> bool" where
  "never_returns m \<longleftrightarrow> (\<forall>w x w'. m w \<noteq> (Inr x, w'))"

lemma never_returnsD: "never_returns m \<Longrightarrow> \<exists>e w'. m w = (Inl e, w')"
  by (cases "m w"; cases "fst (m w)") (auto simp: never_returns_def)

lemma never_returns_rules:
  "never_returns m \<Longrightarrow> never_returns (bindIO m f)"
  "(\<And>x. never_returns (f x)) \<Longrightarrow> never_returns (bindIO m f)"
  "never_returns m \<Longrightarrow> never_returns (thenIO m k)"
  "never_returns k \<Longrightarrow> never_returns (thenIO m k)"
  "never_returns (throwIO e)"
  by (auto simp: never_returns_def throwIO_def elim: bindIO_InrE thenIO_InrE)

lemma forIO_visits:
  assumes "forIO xs f w = (Inr ys, w')" and "x \<in> set xs"
  shows "\<exists>w1 y w2. f x w1 = (Inr y, w2)"
  using assms
proof (induction xs arbitrary: w ys)
  case (Cons a xs)
  from Cons.prems(1) obtain y w1 ys' where "f a w = (Inr y, w1)" and "forIO xs f w1 = (Inr ys', w')"
    by (auto elim!: bindIO_InrE simp: returnIO_def)
  with Cons.IH Cons.prems(2) show ?case by auto
qed simp

lemma never_returns_forIO: "x \<in> set xs \<Longrightarrow> never_returns (f x) \<Longrightarrow> never_returns (forIO xs f)"
  unfolding never_returns_def by (blast dest: forIO_visits)

section \<open>The third stage\<close>

text \<open>The mock prices have a price for \<open>TOMB\<close>; the assets handed along have no such key.\<close>

lemma TOMB_priced: "\<exists>p. (''TOMB'', p) \<in> set (MOCK_CHAINLINK_AGGREGATORS_PRICES bn)"
  by (simp add: MOCK_CHAINLINK_AGGREGATORS_PRICES_def Let_def)

lemma TOMB_not_listed: "''TOMB'' \<notin> set (obj_keys (pricedAssets assets usd))"
  by (simp add: pricedAssets_def pricedSymbols_def obj_keys_def)

lemma findIndex_None: "findIndex p xs = None \<longleftrightarrow> (\<forall>x \<in> set xs. \<not> p x)"
  by (induction xs) auto

lemma entryOf_missing:
  assumes "symbol \<notin> set (obj_keys ob)"
  shows "entryOf ob symbol = Inl (TypeError symbol)"
proof -
  have "findIndex (\<lambda>value. value = symbol) (obj_keys ob) = None"
    using assms by (auto simp: findIndex_None)
  then show ?thesis by (simp add: entryOf_def)
qed

lemma initial_prices_never_return:
  "never_returns (setInitialAssetPricesInOracle (MOCK_CHAINLINK_AGGREGATORS_PRICES bn)
     (pricedAssets assets usd) h)"
proof -
  obtain p where p: "(''TOMB'', p) \<in> set (MOCK_CHAINLINK_AGGREGATORS_PRICES bn)"
    using TOMB_priced by blast
  show ?thesis
    unfolding setInitialAssetPricesInOracle_def
    by (rule never_returns_forIO [OF p])
      (simp add: entryOf_missing TOMB_not_listed liftSum_def never_returns_rules)
qed

lemma testnet_oracles_never_return: "never_returns (testnet_deploy_oracles bn pool verify)"
  unfolding testnet_deploy_oracles_def Let_def
  by (intro never_returns_rules(2,4))
    (auto split: option.split intro!: never_returns_rules(5) never_returns_rules(3) [OF initial_prices_never_return])

text \<open>C28. No deployment of a test network succeeds, in any environment: the task of the oracles ends in an
  error for every pool, since the mock prices name tokens (\<open>TOMB\<close> is the first) that the task hands
  no address key for, and both migrations run it as their third stage.\<close>

theorem testnet_migrations_never_succeed:
  "(\<exists>e w'. testnet_deploy_oracles bn pool verify w = (Inl e, w')) \<and>
   (\<exists>e w'. sturdy_testnet bn verify skipRegistry w = (Inl e, w')) \<and>
   (\<exists>e w'. sturdy_ftm_testnet bn verify skipRegistry w = (Inl e, w'))"
proof -
  have "never_returns (sturdy_testnet bn verify skipRegistry)"
    "never_returns (sturdy_ftm_testnet bn verify skipRegistry)"
    unfolding sturdy_testnet_def sturdy_ftm_testnet_def Let_def
    by (intro never_returns_rules(3) [OF testnet_oracles_never_return] never_returns_rules(4))+
  then show ?thesis by (blast intro: never_returnsD testnet_oracles_never_return)
qed

section \<open>Prices on the mock oracle\<close>

lemma rawEntry_Inr:
  "rawEntry param symbol w = (Inr v, w') \<longleftrightarrow>
   w' = w \<and> (\<exists>entries. obj_get param (currentNetwork w) = Some entries \<and> v = obj_get entries symbol)"
  by (auto simp: rawEntry_def io_run split: option.splits)

lemma setAssetPrice_Inr:
  "setAssetPrice h asset price w = (Inr (), w') \<Longrightarrow>
   \<exists>a p. asset = Some a \<and> price = Some p \<and> mockPricesAt (h_address h) w' a = p \<and> bookkeeping w w' \<and>
     asset_writes w' = asset_writes w"
  unfolding setAssetPrice_def
  by (elim bindIO_InrE)
    (auto simp: addressArg_Inr callContract_Inr mockPricesAt_def bookkeeping_def throwIO_run split: option.splits)

text \<open>The configured reserve asset has its mock price on the registered oracle.\<close>

definition price_configured :: "'n bignumber_js \<Rightarrow> string \<Rightarrow> string \<Rightarrow> world \<Rightarrow> bool" where
  "price_configured bn pool symbol w \<longleftrightarrow>
     (\<exists>poolConfig assets a p entry. currentPoolConfig pool w = (Inr poolConfig, w) \<and>
        obj_get (ReserveAssets (commonConfiguration poolConfig)) (currentNetwork w) = Some assets \<and>
        obj_get assets symbol = Some a \<and> mockPrice bn symbol = Some p \<and>
        db_get ''PriceOracle'' w = Some entry \<and> mockPricesAt (entry_address entry) w a = p)"

lemma setReservePrice_Inr:
  assumes "setReservePrice bn (commonConfiguration pc) h symbol w = (Inr (), w')"
    and "currentPoolConfig pool w = (Inr pc, w)"
    and "db_get ''PriceOracle'' w = Some e" and "h_address h = entry_address e"
  shows "price_configured bn pool symbol w'"
proof -
  from assms(1) obtain v w1 where 1: "rawEntry (ReserveAssets (commonConfiguration pc)) symbol w = (Inr v, w1)"
    and 2: "setAssetPrice h v (mockPrice bn symbol) w1 = (Inr (), w')"
    unfolding setReservePrice_def by (rule bindIO_InrE)
  from 1 obtain assets where
    "obj_get (ReserveAssets (commonConfiguration pc)) (currentNetwork w) = Some assets"
    and v: "v = obj_get assets symbol" and "w1 = w"
    by (auto simp: rawEntry_Inr)
  moreover from setAssetPrice_Inr [OF 2] obtain a p where
    "v = Some a" "mockPrice bn symbol = Some p" "mockPricesAt (h_address h) w' a = p"
    and "bookkeeping w1 w'" "asset_writes w' = asset_writes w1"
    by blast
  ultimately have cfg: "obj_get (ReserveAssets (commonConfiguration pc)) (currentNetwork w) = Some assets"
    "obj_get assets symbol = Some a" "mockPrice bn symbol = Some p" "mockPricesAt (h_address h) w' a = p"
    and w': "bookkeeping w w'" "asset_writes w' = asset_writes w"
    by simp_all
  have "currentPoolConfig pool w' = (Inr pc, w')" "currentNetwork w' = currentNetwork w"
    "db_get ''PriceOracle'' w' = Some e"
    using assms(2,3) bookkeeping_simps [OF w'(1)] w'(2) by (auto simp: currentPoolConfig_Inr currentNetwork_same)
  with cfg assms(4) show ?thesis unfolding price_configured_def by auto
qed

lemma silent_testnet_steps:
  "silent m \<Longrightarrow> silent (registerDeployed m)" "silent (getPriceOracle a)"
  "silent (forIO xs (\<lambda>(field, token). setTokenPrice bn (g field) h token))"
  unfolding silent_def registerDeployed_def
  by (blast intro: script_keeps frame.keeps_rules kept.keeps_rules)+

lemma quiet_token_prices:
  "quiet (forIO xs (\<lambda>(field, token). setTokenPrice bn field h token))" "quiet (getPriceOracle a)"
  unfolding setTokenPrice_def setAssetPrice_def rawParam_def addressArg_def getPriceOracle_def
  by (intro book.keeps_rules quiet_scripts)+

lemma getPriceOracle_Inr:
  assumes "getPriceOracle None w = (Inr h, w')"
  shows "\<exists>e. db_get ''PriceOracle'' w' = Some e \<and> h_address h = entry_address e"
proof -
  have "bookkeeping w w'" using quietD [OF quiet_token_prices(2) assms] .
  moreover have "\<exists>e. db_get ''PriceOracle'' w = Some e \<and> h_address h = entry_address e"
    using assms unfolding getPriceOracle_def connectOrRegistered_def registeredAddress_def
    by (auto elim!: bindIO_InrE simp: connectAt_def getsIO_run returnIO_run throwIO_run split: option.splits)
  ultimately show ?thesis by (simp add: bookkeeping_simps)
qed

lemma deployPricedVaultTask_prices:
  assumes run: "deployPricedVaultTask bn pool deployVault tokens symbol w = (Inr (), w')"
    and deploys: "silent deployVault"
  shows "price_configured bn pool symbol w'"
proof -
  from run obtain pc w0 v w1 h w2 us w3 where
    0: "requireChainId w = (Inr (), w0)" "currentPoolConfig pool w0 = (Inr pc, w0)"
    and 1: "registerDeployed deployVault w0 = (Inr v, w1)"
    and 2: "getPriceOracle None w1 = (Inr h, w2)"
    and 3: "forIO (tokens pc) (\<lambda>(field, token). setTokenPrice bn field h token) w2 = (Inr us, w3)"
    and 4: "setReservePrice bn (commonConfiguration pc) h symbol w3 = (Inr (), w')"
    unfolding deployPricedVaultTask_def
    by (elim bindIO_InrE thenIO_InrE) (auto simp: currentPoolConfig_Inr)
  have "asset_writes w3 = asset_writes w0"
    using silentD(2) [OF silent_testnet_steps(1) [OF deploys] 1] silentD(2) [OF silent_testnet_steps(2) 2]
      silentD(2) [OF silent_testnet_steps(3) 3] by simp
  with 0(2) have pc: "currentPoolConfig pool w3 = (Inr pc, w3)" by (simp add: currentPoolConfig_Inr)
  from getPriceOracle_Inr [OF 2] obtain e where "db_get ''PriceOracle'' w2 = Some e" "h_address h = entry_address e"
    by blast
  with quietD [OF quiet_token_prices(1) 3] show ?thesis
    using setReservePrice_Inr [OF 4 pc] by (simp add: bookkeeping_simps)
qed

definition pricedVaultTasks :: "'n bignumber_js \<Rightarrow> string \<Rightarrow> bool \<Rightarrow> (string \<times> unit script) list" where
  "pricedVaultTasks bn pool verify =
     [(''mooTOMB_FTM'', testnet_deploy_tomb_ftm_beefy_vault bn pool verify),
      (''mooTOMB_MIMATIC'', testnet_deploy_tomb_mimatic_beefy_vault bn pool verify),
      (''yvfBEETS'', testnet_deploy_yearn_fbeets_vault bn pool verify),
      (''yvLINK'', testnet_deploy_yearn_link_vault bn pool verify),
      (''yvCRV'', testnet_deploy_yearn_crv_vault bn pool verify),
      (''yvSPELL'', testnet_deploy_yearn_spell_vault bn pool verify),
      (''mooBASED_MIMATIC'', testnet_deploy_based_mimatic_beefy_vault bn pool verify)]"

lemma silent_priced_deployments:
  "silent (deployTombFTMBeefyVault v)" "silent (deployTombMiMaticBeefyVault v)"
  "silent (deployYearnFBeetsVault v)" "silent (deployYearnLINKVault v)" "silent (deployYearnCRVVault v)"
  "silent (deployYearnSPELLVault v)" "silent (deployBasedMiMaticBeefyVault v)"
  unfolding silent_def by (intro conjI script_keeps)+

text \<open>C29. When the task of a priced vault succeeds on a test network, the vault's asset as it is configured
  has its mock price on the registered price oracle.\<close>

theorem testnet_prices_set:
  assumes "(symbol, task) \<in> set (pricedVaultTasks bn pool verify)" and "task w = (Inr (), w')"
  shows "price_configured bn pool symbol w'"
  using assms unfolding pricedVaultTasks_def testnet_deploy_tomb_ftm_beefy_vault_def
    testnet_deploy_tomb_mimatic_beefy_vault_def testnet_deploy_yearn_fbeets_vault_def
    testnet_deploy_yearn_link_vault_def testnet_deploy_yearn_crv_vault_def
    testnet_deploy_yearn_spell_vault_def testnet_deploy_based_mimatic_beefy_vault_def
  by (auto intro: deployPricedVaultTask_prices silent_priced_deployments)

section \<open>A sample run\<close>

definition sampleTestnet :: world where
  "sampleTestnet =
     db_put ''PriceOracle'' \<lparr>entry_address = ''0xD2'', entry_deployer = None\<rparr>
       (db_put ''LendingPoolConfigurator'' \<lparr>entry_address = ''0xD1'', entry_deployer = None\<rparr>
         (sampleMarket ''ftm_test''))"

lemma sampleTestnet_simps:
  "network_chainId sampleTestnet = Some 1" "asset_writes sampleTestnet = []"
  "network_name sampleTestnet = ''ftm_test''" "env_FORK sampleTestnet = None"
  "env_TENDERLY sampleTestnet = None" "env_DEFENDER sampleTestnet = None"
  "node_signers sampleTestnet = [''0xA1'', ''0xA2'']"
  "is_address sampleTestnet = (\<lambda>s. take 2 s = ''0x'')"
  "call_rejected sampleTestnet = (\<lambda>_ _ _. False)"
  by (simp_all add: sampleTestnet_def sampleMarket_eq Let_def sampleWorld_def db_put_def
      create_contract_def next_address_def)

lemma sample_link_deployed:
  "\<exists>w. deployYearnLINKVault False sampleTestnet =
      (Inr \<lparr>h_address = ''0xC11'', h_factory = ''YearnLINKVault'', h_signer = Some ''0xA1'', h_deployer = None\<rparr>, w) \<and>
    db_get ''LendingPoolConfigurator'' w = Some \<lparr>entry_address = ''0xD1'', entry_deployer = None\<rparr> \<and>
    db_get ''PriceOracle'' w = Some \<lparr>entry_address = ''0xD2'', entry_deployer = None\<rparr>"
  by (simp add: deployYearnLINKVault_def getYearnLINKVault_def setConfiguredAddress_def getParamPerNetwork_def
      setAddress_def sol_setAddress_def paramHere_def MarketFtm_data sampleTestnet_def sampleMarket_eq vault_run_defs)

lemma sample_link_task:
  "\<exists>w'. testnet_deploy_yearn_link_vault bn ''Fantom'' False sampleTestnet = (Inr (), w')"
proof -
  obtain w where deploy: "deployYearnLINKVault False sampleTestnet =
      (Inr \<lparr>h_address = ''0xC11'', h_factory = ''YearnLINKVault'', h_signer = Some ''0xA1'', h_deployer = None\<rparr>, w)"
    and db: "db_get ''LendingPoolConfigurator'' w = Some \<lparr>entry_address = ''0xD1'', entry_deployer = None\<rparr>"
      "db_get ''PriceOracle'' w = Some \<lparr>entry_address = ''0xD2'', entry_deployer = None\<rparr>"
    using sample_link_deployed by blast
  have "silent (deployYearnLINKVault False)" by (rule silent_priced_deployments)
  from silentD(1) [OF this deploy] have env: "network_name w = ''ftm_test''" "env_FORK w = None"
    "env_TENDERLY w = None" "env_DEFENDER w = None" "node_signers w = [''0xA1'', ''0xA2'']"
    "is_address w = (\<lambda>s. take 2 s = ''0x'')" "call_rejected w = (\<lambda>_ _ _. False)"
    by (simp_all add: same_environment_def sampleTestnet_simps)
  show ?thesis
    by (simp add: testnet_deploy_yearn_link_vault_def deployPricedVaultTask_def registerDeployed_def
        requireChainId_def currentPoolConfig_def loadPoolConfig_def liftSum_def writtenAssets_def
        setReservePrice_def rawEntry_def currentNetwork_def setAssetPrice_def mockPrice_def
        MOCK_CHAINLINK_AGGREGATORS_PRICES_def callContract_def getLendingPoolConfiguratorProxy_def
        getPriceOracle_def connectOrRegistered_def registeredAddress_def connectAt_def addressArg_def
        senderOf_def revert_def run_defs Let_def sampleTestnet_simps deploy env db [unfolded db_get_def env(1)]
        ICommonConfiguration.truncate_def MarketFtm_data db_get_def)
qed

theorem testnet_prices_set_witness:
  "\<exists>w'. testnet_deploy_yearn_link_vault decimal_js ''Fantom'' False sampleTestnet = (Inr (), w') \<and>
     price_configured decimal_js ''Fantom'' ''yvLINK'' w'"
proof -
  obtain w' where run: "testnet_deploy_yearn_link_vault decimal_js ''Fantom'' False sampleTestnet = (Inr (), w')"
    using sample_link_task by blast
  have "(''yvLINK'', testnet_deploy_yearn_link_vault decimal_js ''Fantom'' False)
      \<in> set (pricedVaultTasks decimal_js ''Fantom'' False)"
    by (simp add: pricedVaultTasks_def)
  with run testnet_prices_set [OF this run] show ?thesis by blast
qed

end
