(* ===== verification/Permits.thy ===== *)
theory Permits
  imports WadRayMath BigMath
begin

text \<open>
  Permits: the typed data \<open>buildPermitParams\<close> and \<open>getSignatureFromTypedData\<close> of
  \<open>helpers/contracts-helpers.ts\<close> build and sign off the chain, and \<open>permit\<close> of
  \<open>contracts/protocol/tokenization/AToken.sol\<close>, which rebuilds the digest and recovers the signer. The
  hash \<open>keccak\<close>, the encoding \<open>abiEncode\<close> of a list of words, the packed encoding, the signature and
  \<open>ecrecover\<close> are arguments.
\<close>

section \<open>Typed data\<close>

datatype typed_value = TString string | TNumber nat

text \<open>Fields are pairs of a name and a type.\<close>

record TypedData =
  td_types :: "(string \<times> string) list jsobj"
  primaryType :: string
  td_domain :: "typed_value jsobj"
  td_message :: "typed_value jsobj"

definition buildPermitParams ::
  "nat \<Rightarrow> address \<Rightarrow> string \<Rightarrow> string \<Rightarrow> address \<Rightarrow> address \<Rightarrow> nat \<Rightarrow> string \<Rightarrow> string \<Rightarrow> TypedData" where
  "buildPermitParams chainId token revision tokenName holder spender nonce deadline value =
     \<lparr>td_types =
        [(''EIP712Domain'',
          [(''name'', ''string''), (''version'', ''string''), (''chainId'', ''uint256''),
           (''verifyingContract'', ''address'')]),
         (''Permit'',
          [(''owner'', ''address''), (''spender'', ''address''), (''value'', ''uint256''),
           (''nonce'', ''uint256''), (''deadline'', ''uint256'')])],
      primaryType = ''Permit'',
      td_domain =
        [(''name'', TString tokenName), (''version'', TString revision), (''chainId'', TNumber chainId),
         (''verifyingContract'', TString token)],
      td_message =
        [(''owner'', TString holder), (''spender'', TString spender), (''value'', TString value),
         (''nonce'', TNumber nonce), (''deadline'', TString deadline)]\<rparr>"

text \<open>\<open>privateKey.substring(2, 66)\<close> drops the prefix \<open>0x\<close>.\<close>

definition getSignatureFromTypedData ::
  "(string \<Rightarrow> TypedData \<Rightarrow> 'sig) \<Rightarrow> string \<Rightarrow> TypedData \<Rightarrow> 'sig" where
  "getSignatureFromTypedData signTypedData privateKey typedData =
     signTypedData (take 64 (drop 2 privateKey)) typedData"

section \<open>EIP 712\<close>

text \<open>
  The digest of typed data by the standard, which both sides refer to: \<open>encodeType\<close> prints a type,
  \<open>hashStruct\<close> hashes the hash of the printed type followed by the fields, a string as its hash.
  A field the object lacks, or whose value is no number where one is asked for, has no encoding.
\<close>

datatype abi_word = Bytes32 string | Address address | Uint256 nat

fun joinComma :: "string list \<Rightarrow> string" where
  "joinComma [] = []"
| "joinComma [x] = x"
| "joinComma (x # xs) = x @ '','' @ joinComma xs"

definition encodeType :: "string \<Rightarrow> (string \<times> string) list \<Rightarrow> string" where
  "encodeType name fs = name @ ''('' @ joinComma (map (\<lambda>(f, t). t @ '' '' @ f) fs) @ '')''"

fun encodeValue :: "(string \<Rightarrow> string) \<Rightarrow> string \<Rightarrow> typed_value \<Rightarrow> abi_word option" where
  "encodeValue keccak t (TNumber n) = (if t = ''uint256'' then Some (Uint256 n) else None)"
| "encodeValue keccak t (TString s) =
     (if t = ''string'' then Some (Bytes32 (keccak s))
      else if t = ''address'' then Some (Address s)
      else if t = ''uint256'' \<and> isNumeral s then Some (Uint256 (readDigits s)) else None)"

fun encodeFields :: "(string \<Rightarrow> string) \<Rightarrow> (string \<times> string) list \<Rightarrow> typed_value jsobj \<Rightarrow> abi_word list option" where
  "encodeFields keccak [] obj = Some []"
| "encodeFields keccak ((f, t) # fs) obj =
     (case Option.bind (obj_get obj f) (encodeValue keccak t) of None \<Rightarrow> None
      | Some w \<Rightarrow> map_option ((#) w) (encodeFields keccak fs obj))"

definition hashStruct ::
  "(string \<Rightarrow> string) \<Rightarrow> (abi_word list \<Rightarrow> string) \<Rightarrow> TypedData \<Rightarrow> string \<Rightarrow> typed_value jsobj \<Rightarrow> string option" where
  "hashStruct keccak abiEncode td name obj =
     (case obj_get (td_types td) name of None \<Rightarrow> None
      | Some fs \<Rightarrow> map_option (\<lambda>ws. keccak (abiEncode (Bytes32 (keccak (encodeType name fs)) # ws)))
          (encodeFields keccak fs obj))"

text \<open>\<open>abi.encodePacked('\x19\x01', separator, hash)\<close> is \<open>packed separator hash\<close>.\<close>

definition eip712Digest ::
  "(string \<Rightarrow> string) \<Rightarrow> (abi_word list \<Rightarrow> string) \<Rightarrow> (string \<Rightarrow> string \<Rightarrow> string) \<Rightarrow> TypedData \<Rightarrow> string option" where
  "eip712Digest keccak abiEncode packed td =
     (case (hashStruct keccak abiEncode td ''EIP712Domain'' (td_domain td),
            hashStruct keccak abiEncode td (primaryType td) (td_message td)) of
        (Some separator, Some h) \<Rightarrow> Some (keccak (packed separator h))
      | _ \<Rightarrow> None)"

section \<open>The token\<close>

record token_state =
  token_self :: address
  token_name :: string
  nonces :: "address \<Rightarrow> uint256"
  allowances :: "address \<Rightarrow> address \<Rightarrow> uint256"

definition EIP712_REVISION :: string where
  "EIP712_REVISION = ''1''"

definition EIP712_DOMAIN :: "(string \<Rightarrow> string) \<Rightarrow> string" where
  "EIP712_DOMAIN keccak =
     keccak ''EIP712Domain(string name,string version,uint256 chainId,address verifyingContract)''"

definition PERMIT_TYPEHASH :: "(string \<Rightarrow> string) \<Rightarrow> string" where
  "PERMIT_TYPEHASH keccak =
     keccak ''Permit(address owner,address spender,uint256 value,uint256 nonce,uint256 deadline)''"

definition domain_separator ::
  "(string \<Rightarrow> string) \<Rightarrow> (abi_word list \<Rightarrow> string) \<Rightarrow> uint256 \<Rightarrow> token_state \<Rightarrow> string" where
  "domain_separator keccak abiEncode chainid t =
     keccak (abiEncode
       [Bytes32 (EIP712_DOMAIN keccak), Bytes32 (keccak (token_name t)), Bytes32 (keccak EIP712_REVISION),
        Uint256 (unat chainid), Address (token_self t)])"

definition approve_internal ::
  "address \<Rightarrow> address \<Rightarrow> uint256 \<Rightarrow> token_state \<Rightarrow> error + token_state" where
  "approve_internal holder spender amount t =
     check (holder \<noteq> ZERO_ADDRESS) ''ERC20: approve from the zero address''
     (check (spender \<noteq> ZERO_ADDRESS) ''ERC20: approve to the zero address''
     (Inr (t\<lparr>allowances := (allowances t)(holder := (allowances t holder)(spender := amount))\<rparr>)))"

text \<open>\<open>recover digest signature\<close> is \<open>ecrecover\<close>, \<open>now\<close> is \<open>block.timestamp\<close>.\<close>

definition permitDigest ::
  "(string \<Rightarrow> string) \<Rightarrow> (abi_word list \<Rightarrow> string) \<Rightarrow> (string \<Rightarrow> string \<Rightarrow> string) \<Rightarrow> uint256 \<Rightarrow>
   address \<Rightarrow> address \<Rightarrow> uint256 \<Rightarrow> uint256 \<Rightarrow> token_state \<Rightarrow> string" where
  "permitDigest keccak abiEncode packed chainid holder spender value deadline t =
     keccak (packed (domain_separator keccak abiEncode chainid t)
       (keccak (abiEncode
         [Bytes32 (PERMIT_TYPEHASH keccak), Address holder, Address spender, Uint256 (unat value),
          Uint256 (unat (nonces t holder)), Uint256 (unat deadline)])))"

definition permit ::
  "(string \<Rightarrow> string) \<Rightarrow> (abi_word list \<Rightarrow> string) \<Rightarrow> (string \<Rightarrow> string \<Rightarrow> string) \<Rightarrow>
   (string \<Rightarrow> 'sig \<Rightarrow> address) \<Rightarrow> uint256 \<Rightarrow> uint256 \<Rightarrow>
   address \<Rightarrow> address \<Rightarrow> uint256 \<Rightarrow> uint256 \<Rightarrow> 'sig \<Rightarrow> token_state \<Rightarrow> error + token_state" where
  "permit keccak abiEncode packed recover chainid now holder spender value deadline sig t =
     check (holder \<noteq> ZERO_ADDRESS) ''INVALID_OWNER''
     (check (now \<le> deadline) ''INVALID_EXPIRATION''
     (let currentValidNonce = nonces t holder;
          digest = permitDigest keccak abiEncode packed chainid holder spender value deadline t in
      check (holder = recover digest sig) ''INVALID_SIGNATURE''
      (bindSum (addChecked currentValidNonce 1) (\<lambda>next.
       approve_internal holder spender value (t\<lparr>nonces := (nonces t)(holder := next)\<rparr>)))))"

section \<open>The two digests\<close>

lemma permit_types:
  "encodeType ''EIP712Domain''
     [(''name'', ''string''), (''version'', ''string''), (''chainId'', ''uint256''), (''verifyingContract'', ''address'')] =
   ''EIP712Domain(string name,string version,uint256 chainId,address verifyingContract)''"
  "encodeType ''Permit''
     [(''owner'', ''address''), (''spender'', ''address''), (''value'', ''uint256''), (''nonce'', ''uint256''),
      (''deadline'', ''uint256'')] =
   ''Permit(address owner,address spender,uint256 value,uint256 nonce,uint256 deadline)''"
  by (simp_all add: encodeType_def)

lemma digests_agree:
  assumes "isNumeral shown" and "readDigits shown = unat amount"
    and "isNumeral deadline" and "readDigits deadline = unat expiry"
  shows "eip712Digest keccak abiEncode packed
      (buildPermitParams (unat chainid) (token_self t) ''1'' (token_name t) holder spender (unat (nonces t holder))
         deadline shown) =
    Some (permitDigest keccak abiEncode packed chainid holder spender amount expiry t)"
  using assms
  by (simp add: eip712Digest_def hashStruct_def buildPermitParams_def permit_types permitDigest_def
      domain_separator_def EIP712_DOMAIN_def PERMIT_TYPEHASH_def EIP712_REVISION_def obj_get_def)

lemma permit_Inr:
  "permit keccak abiEncode packed recover chainid now holder spender value deadline sig t = Inr t' \<longleftrightarrow>
   holder \<noteq> ZERO_ADDRESS \<and> spender \<noteq> ZERO_ADDRESS \<and> now \<le> deadline \<and>
   recover (permitDigest keccak abiEncode packed chainid holder spender value deadline t) sig = holder \<and>
   unat (nonces t holder) + 1 < 2 ^ 256 \<and>
   t' = t\<lparr>nonces := (nonces t)(holder := nonces t holder + 1),
           allowances := (allowances t)(holder := (allowances t holder)(spender := value))\<rparr>"
  by (auto simp: permit_def approve_internal_def check_Inr bindSum_Inr addChecked_def Let_def)

text \<open>C30. The digest of the typed data the suites sign, by EIP 712, is the digest \<open>permit\<close> recovers the
  signer from, whatever the hash and the encodings: the printed types are the strings the contract
  hashes, and the fields are in its order. This needs the current nonce, the chain of the token, its
  name and address, and the revision 1.\<close>

theorem permit_digests_agree:
  assumes "isNumeral shown" and "readDigits shown = unat amount"
    and "isNumeral deadline" and "readDigits deadline = unat expiry"
  shows "eip712Digest keccak abiEncode packed
      (buildPermitParams (unat chainid) (token_self t) ''1'' (token_name t) holder spender (unat (nonces t holder))
         deadline shown) =
    Some (permitDigest keccak abiEncode packed chainid holder spender amount expiry t)"
  using assms by (rule digests_agree)


text \<open>The sample takes the identity for the hash and pairs of a digest and a signer for signatures.\<close>

definition sampleEncode :: "abi_word list \<Rightarrow> string" where
  "sampleEncode ws = concat (map (\<lambda>w. case w of Bytes32 s \<Rightarrow> s | Address a \<Rightarrow> a | Uint256 n \<Rightarrow> showNat n) ws)"

definition sampleSign :: "string \<Rightarrow> TypedData \<Rightarrow> string \<times> address" where
  "sampleSign key td =
     (case eip712Digest (\<lambda>s. s) sampleEncode (@) td of None \<Rightarrow> ('''', key) | Some d \<Rightarrow> (d, key))"

definition sampleRecover :: "string \<Rightarrow> string \<times> address \<Rightarrow> address" where
  "sampleRecover d sig = (if fst sig = d then snd sig else ZERO_ADDRESS)"

definition sampleToken :: token_state where
  "sampleToken = \<lparr>token_self = ''0xf00d'', token_name = ''aDAI'', nonces = (\<lambda>_. 7), allowances = (\<lambda>_ _. 0)\<rparr>"

theorem permit_digests_agree_witness:
  "eip712Digest (\<lambda>s. s) sampleEncode (@)
      (buildPermitParams 250 ''0xf00d'' ''1'' ''aDAI'' ''0xaa'' ''0xbb'' 7 ''900'' ''20'') =
    Some (permitDigest (\<lambda>s. s) sampleEncode (@) 250 ''0xaa'' ''0xbb'' 20 900 sampleToken)"
  using permit_digests_agree [of "''20''" 20 "''900''" 900 "\<lambda>s. s" sampleEncode "(@)" 250 sampleToken
      "''0xaa''" "''0xbb''"]
  by (simp add: sampleToken_def isNumeral_def readDigits_def)


end
