(* ===== verification/SuiteActions.thy ===== *)
theory SuiteActions
  imports CalculationsFtm TokenHelpers VaultTasks
begin

text \<open>
  \<open>test-suites/*/helpers/actions.ts\<close> and \<open>utils/helpers.ts\<close>: the actions of the scenarios. An action
  reads the reserve and the user, sends one transaction as a user, reads again and compares with
  the calculators. The scripts run on the world of the deployment scripts beside a live chain, whose
  views, transactions and blocks are the argument \<open>live\<close>. What the two suites have in common is
  written once, over the modules a suite imports: \<open>suite\<close>.
\<close>

section \<open>The live chain\<close>

text \<open>A view returns text or reverts; a transaction of a sender to a contract returns its receipt.\<close>

record receipt =
  blockNumber :: nat
  transactionHash :: string
  cumulativeGasUsed :: nat

record 'c live_chain =
  chain_view :: "'c \<Rightarrow> address \<Rightarrow> string \<Rightarrow> string list \<Rightarrow> error + string"
  chain_send :: "address \<Rightarrow> address \<Rightarrow> string \<Rightarrow> arg list \<Rightarrow> string option \<Rightarrow> ('c, error, receipt) io"
  chain_rpc :: "string \<Rightarrow> nat list \<Rightarrow> ('c, error, unit) io"
  blockTimestamp :: "'c \<Rightarrow> nat \<Rightarrow> nat"
  latestTimestamp :: "'c \<Rightarrow> nat"
  currentBlockTimestamp :: "'c \<Rightarrow> nat option"
  gasPrice :: "'c \<Rightarrow> string \<Rightarrow> nat"

type_synonym ('c, 'a) suite_script = "(world \<times> 'c, error, 'a) io"

definition onWorld :: "'a script \<Rightarrow> ('c, 'a) suite_script" where
  "onWorld m = (\<lambda>(w, c). case m w of (r, w') \<Rightarrow> (r, (w', c)))"

definition onChain :: "('c, error, 'a) io \<Rightarrow> ('c, 'a) suite_script" where
  "onChain m = (\<lambda>(w, c). case m c of (r, c') \<Rightarrow> (r, (w, c')))"

definition liftError :: "error + 'a \<Rightarrow> ('c, 'a) suite_script" where
  "liftError r = (case r of Inl e \<Rightarrow> throwIO e | Inr x \<Rightarrow> returnIO x)"

definition view :: "'c live_chain \<Rightarrow> handle \<Rightarrow> string \<Rightarrow> string list \<Rightarrow> ('c, string) suite_script" where
  "view ch h method args =
     bindIO (getsIO (\<lambda>(w, c). chain_view ch c (h_address h) method args)) liftError"

text \<open>\<open>contract.connect(user.signer).method(...args, { value })\<close>, mined.\<close>

definition sendAs :: "'c live_chain \<Rightarrow> address \<Rightarrow> handle \<Rightarrow> string \<Rightarrow> arg list \<Rightarrow> string option \<Rightarrow>
    ('c, receipt) suite_script" where
  "sendAs ch sender h method args value = onChain (chain_send ch sender (h_address h) method args value)"

text \<open>\<open>expect(transaction).to.be.reverted\<close>: the message given to \<open>expect\<close> is only printed.\<close>

definition expectReverted :: "('c, 'a) suite_script \<Rightarrow> ('c, unit) suite_script" where
  "expectReverted m = (\<lambda>s. case m s of
     (Inl (Revert reason), s') \<Rightarrow> (Inr (), s')
   | (Inl e, s') \<Rightarrow> (Inl (Error ''Expected transaction to be reverted''), s')
   | (Inr x, s') \<Rightarrow> (Inl (Error ''Expected transaction to be reverted''), s'))"

definition expectRevertedWith :: "string \<Rightarrow> ('c, 'a) suite_script \<Rightarrow> ('c, unit) suite_script" where
  "expectRevertedWith message m = (\<lambda>s. case m s of
     (Inl (Revert reason), s') \<Rightarrow>
       ((if str_includes reason message then Inr () else Inl (Error ''Expected transaction to be reverted'')), s')
   | (Inl e, s') \<Rightarrow> (Inl (Error ''Expected transaction to be reverted''), s')
   | (Inr x, s') \<Rightarrow> (Inl (Error ''Expected transaction to be reverted''), s'))"

section \<open>Time\<close>

text \<open>\<open>helpers/misc-utils.ts\<close>\<close>

definition timeLatest :: "'n bignumber \<Rightarrow> 'c live_chain \<Rightarrow> ('c, 'n) suite_script" where
  "timeLatest bn ch = getsIO (\<lambda>(w, c). bn_number bn (int (latestTimestamp ch c)))"

definition advanceTimeAndBlock :: "'c live_chain \<Rightarrow> nat \<Rightarrow> ('c, unit) suite_script" where
  "advanceTimeAndBlock ch forwardTime =
     bindIO (getsIO (\<lambda>(w, c). currentBlockTimestamp ch c)) (\<lambda>currentBlock. case currentBlock of
       None \<Rightarrow>
         thenIO (onChain (chain_rpc ch ''evm_increaseTime'' [forwardTime])) (
         thenIO (onChain (chain_rpc ch ''evm_mine'' [])) (
         onChain (chain_rpc ch ''evm_increaseTime'' [15])))
     | Some currentTime \<Rightarrow>
         thenIO (onChain (chain_rpc ch ''evm_setNextBlockTimestamp'' [currentTime + forwardTime])) (
         onChain (chain_rpc ch ''evm_mine'' [])))"

definition getTxCostAndTimestamp :: "'n bignumber \<Rightarrow> 'c live_chain \<Rightarrow> receipt \<Rightarrow> ('c, 'n \<times> 'n) suite_script" where
  "getTxCostAndTimestamp bn ch tx =
     thenIO (requireIO (blockNumber tx \<noteq> 0 \<and> transactionHash tx \<noteq> '''') (Error ''No tx blocknumber'')) (
     getsIO (\<lambda>(w, c).
       (bn_multipliedBy bn (bn_new bn (showNat (cumulativeGasUsed tx)))
          (bn_new bn (showNat (gasPrice ch c (transactionHash tx)))),
        bn_number bn (int (blockTimestamp ch c (blockNumber tx))))))"

section \<open>Suites\<close>

text \<open>The contracts of the environment by name; a declared name that was never assigned is the empty
  object, on which every use throws: here, the action that takes it from the environment does.\<close>

record test_env =
  deployer :: address
  emergencyUser :: address
  users :: "address list"
  env_contracts :: "handle jsobj"

definition fromEnv :: "test_env \<Rightarrow> string \<Rightarrow> ('c, handle) suite_script" where
  "fromEnv env name = (case obj_get (env_contracts env) name of
     None \<Rightarrow> throwIO (TypeError name) | Some h \<Rightarrow> returnIO h)"

text \<open>What \<open>actions.ts\<close> imports from the modules of its own suite, and its configuration.\<close>

record ('c, 'n) suite =
  tools :: "'n tools"
  live :: "'c live_chain"
  reservesParams :: "IReserveParams jsobj"
  skipIntegrityCheck :: bool
  getReserveAddressFromSymbol :: "string \<Rightarrow> address script"
  walletToken :: "address \<Rightarrow> handle script"
  reserveAfterDeposit :: "'n bignumber \<Rightarrow> IReserveParams jsobj \<Rightarrow> string \<Rightarrow> 'n ReserveData \<Rightarrow> 'n \<Rightarrow> error + 'n ReserveData"
  userAfterDeposit :: "'n bignumber \<Rightarrow> string \<Rightarrow> 'n ReserveData \<Rightarrow> 'n ReserveData \<Rightarrow> 'n UserReserveData \<Rightarrow> 'n \<Rightarrow> string \<Rightarrow>
    'n UserReserveData"
  reserveAfterWithdraw :: "'n bignumber \<Rightarrow> IReserveParams jsobj \<Rightarrow> string \<Rightarrow> 'n ReserveData \<Rightarrow> 'n UserReserveData \<Rightarrow> 'n \<Rightarrow>
    error + 'n ReserveData"
  userAfterWithdraw :: "'n bignumber \<Rightarrow> string \<Rightarrow> 'n ReserveData \<Rightarrow> 'n ReserveData \<Rightarrow> 'n UserReserveData \<Rightarrow> 'n \<Rightarrow>
    'n UserReserveData"
  reserveAfterBorrow :: "'n bignumber \<Rightarrow> IReserveParams jsobj \<Rightarrow> string \<Rightarrow> string \<Rightarrow> 'n ReserveData \<Rightarrow> 'n \<Rightarrow> 'n \<Rightarrow>
    error + 'n ReserveData"
  userAfterBorrow :: "'n bignumber \<Rightarrow> string \<Rightarrow> string \<Rightarrow> 'n ReserveData \<Rightarrow> 'n ReserveData \<Rightarrow> 'n UserReserveData \<Rightarrow> 'n \<Rightarrow> 'n \<Rightarrow>
    'n UserReserveData"
  reserveAfterRepay :: "'n bignumber \<Rightarrow> IReserveParams jsobj \<Rightarrow> string \<Rightarrow> string \<Rightarrow> 'n ReserveData \<Rightarrow> 'n UserReserveData \<Rightarrow> 'n \<Rightarrow>
    error + 'n ReserveData"
  userAfterRepay :: "'n bignumber \<Rightarrow> string \<Rightarrow> string \<Rightarrow> 'n ReserveData \<Rightarrow> 'n ReserveData \<Rightarrow> 'n UserReserveData \<Rightarrow> string \<Rightarrow>
    string \<Rightarrow> 'n \<Rightarrow> 'n \<Rightarrow> 'n UserReserveData"
  userAfterSetUseAsCollateral :: "bool \<Rightarrow> 'n UserReserveData \<Rightarrow> 'n UserReserveData"

abbreviation sbn :: "('c, 'n) suite \<Rightarrow> 'n bignumber" where
  "sbn S \<equiv> big (tools S)"

section \<open>Reading the chain\<close>

definition getReserveData ::
  "'n bignumber \<Rightarrow> 'c live_chain \<Rightarrow> handle \<Rightarrow> address \<Rightarrow> ('c, 'n ReserveData) suite_script" where
  "getReserveData bn ch helper reserve =
     (let read = (\<lambda>field. view ch helper (''getReserveData.'' @ field) [reserve]);
          tokenOf = (\<lambda>field. view ch helper (''getReserveTokensAddresses.'' @ field) [reserve]) in
      bindIO (read ''availableLiquidity'') (\<lambda>available.
      bindIO (read ''totalStableDebt'') (\<lambda>stableDebt.
      bindIO (read ''totalVariableDebt'') (\<lambda>variableDebt.
      bindIO (read ''liquidityRate'') (\<lambda>rate1.
      bindIO (read ''variableBorrowRate'') (\<lambda>rate2.
      bindIO (read ''stableBorrowRate'') (\<lambda>rate3.
      bindIO (read ''averageStableBorrowRate'') (\<lambda>rate4.
      bindIO (read ''liquidityIndex'') (\<lambda>index1.
      bindIO (read ''variableBorrowIndex'') (\<lambda>index2.
      bindIO (read ''lastUpdateTimestamp'') (\<lambda>updated.
      bindIO (tokenOf ''aTokenAddress'') (\<lambda>aToken.
      bindIO (tokenOf ''stableDebtTokenAddress'') (\<lambda>stableToken.
      bindIO (tokenOf ''variableDebtTokenAddress'') (\<lambda>variableToken.
      bindIO (onWorld (getLendingRateOracle None)) (\<lambda>rateOracle.
      bindIO (onWorld (getIErc20Detailed reserve)) (\<lambda>token.
      bindIO (onWorld (getStableDebtToken (Some stableToken))) (\<lambda>stableDebtToken.
      bindIO (onWorld (getVariableDebtToken (Some variableToken))) (\<lambda>variableDebtToken.
      bindIO (view ch stableDebtToken ''getSupplyData.0'' []) (\<lambda>principal.
      bindIO (view ch stableDebtToken ''getTotalSupplyLastUpdated'' []) (\<lambda>supplyUpdated.
      bindIO (view ch variableDebtToken ''scaledTotalSupply'' []) (\<lambda>scaled.
      bindIO (view ch rateOracle ''getMarketBorrowRate'' [reserve]) (\<lambda>marketRate.
      bindIO (view ch token ''symbol'' []) (\<lambda>symbol.
      bindIO (view ch token ''decimals'' []) (\<lambda>decimals.
      let num = bn_new bn;
          liquidity = bn_plus bn (bn_plus bn (num available) (num stableDebt)) (num variableDebt);
          totalDebt = bn_plus bn (num stableDebt) (num variableDebt) in
      returnIO
        \<lparr>r_address = Some reserve, r_symbol = Some symbol, r_decimals = num decimals,
         totalLiquidity = liquidity, availableLiquidity = num available,
         totalStableDebt = num stableDebt, totalVariableDebt = num variableDebt,
         principalStableDebt = num principal, scaledVariableDebt = num scaled,
         averageStableBorrowRate = num rate4, variableBorrowRate = num rate2, stableBorrowRate = num rate3,
         utilizationRate =
           (if bn_eq bn liquidity (bn_number bn 0) then bn_number bn 0 else rayDiv bn totalDebt liquidity),
         liquidityIndex = num index1, variableBorrowIndex = num index2, r_aTokenAddress = Some aToken,
         marketStableRate = num marketRate, lastUpdateTimestamp = num updated,
         totalStableDebtLastUpdated = num supplyUpdated, liquidityRate = num rate1\<rparr>))))))))))))))))))))))))"

definition getATokenUserData ::
  "'c live_chain \<Rightarrow> address \<Rightarrow> address \<Rightarrow> handle \<Rightarrow> ('c, string) suite_script" where
  "getATokenUserData ch reserve user helpersContract =
     bindIO (view ch helpersContract ''getReserveTokensAddresses.aTokenAddress'' [reserve]) (\<lambda>aTokenAddress.
     bindIO (onWorld (getAToken (Some aTokenAddress))) (\<lambda>aToken.
     view ch aToken ''scaledBalanceOf'' [user]))"

text \<open>The pool is not read. The flag is a boolean, printed by the view.\<close>

definition getUserData ::
  "('c, 'n) suite \<Rightarrow> handle \<Rightarrow> address \<Rightarrow> address \<Rightarrow> address \<Rightarrow> ('c, 'n UserReserveData) suite_script" where
  "getUserData S helper reserve user holder =
     (let bn = sbn S; num = bn_new bn;
          read = (\<lambda>field. view (live S) helper (''getUserReserveData.'' @ field) [reserve, user]) in
      bindIO (read ''currentATokenBalance'') (\<lambda>balance.
      bindIO (read ''currentStableDebt'') (\<lambda>stableDebt.
      bindIO (read ''currentVariableDebt'') (\<lambda>variableDebt.
      bindIO (read ''principalStableDebt'') (\<lambda>principal.
      bindIO (read ''scaledVariableDebt'') (\<lambda>scaled.
      bindIO (read ''stableBorrowRate'') (\<lambda>rate.
      bindIO (read ''liquidityRate'') (\<lambda>liquidity.
      bindIO (read ''usageAsCollateralEnabled'') (\<lambda>flag.
      bindIO (read ''stableRateLastUpdated'') (\<lambda>updated.
      bindIO (getATokenUserData (live S) reserve user helper) (\<lambda>scaledATokenBalance.
      bindIO (onWorld (walletToken S reserve)) (\<lambda>token.
      bindIO (view (live S) token ''balanceOf'' [holder]) (\<lambda>wallet.
      returnIO ((emptyUserReserveData bn)
        \<lparr>u_scaledATokenBalance := num scaledATokenBalance, u_currentATokenBalance := num balance,
         u_currentStableDebt := num stableDebt, u_currentVariableDebt := num variableDebt,
         u_principalStableDebt := num principal, u_scaledVariableDebt := num scaled,
         u_stableBorrowRate := num rate, u_liquidityRate := num liquidity,
         u_usageAsCollateralEnabled := Some (flag = ''true''), u_stableRateLastUpdated := num updated,
         u_walletBalance := num wallet\<rparr>))))))))))))))"

definition getContractsData ::
  "('c, 'n) suite \<Rightarrow> address \<Rightarrow> address \<Rightarrow> test_env \<Rightarrow> string option \<Rightarrow>
   ('c, 'n ReserveData \<times> 'n UserReserveData \<times> 'n) suite_script" where
  "getContractsData S reserve user env sender =
     bindIO (fromEnv env ''helpersContract'') (\<lambda>helper.
     bindIO (getUserData S helper reserve user (if truthy sender then the sender else user)) (\<lambda>userData.
     bindIO (getReserveData (sbn S) (live S) helper reserve) (\<lambda>reserveData.
     bindIO (timeLatest (sbn S) (live S)) (\<lambda>timestamp. returnIO (reserveData, userData, timestamp)))))"

definition getDataBeforeAction ::
  "('c, 'n) suite \<Rightarrow> string \<Rightarrow> address \<Rightarrow> test_env \<Rightarrow>
   ('c, address \<times> 'n ReserveData \<times> 'n UserReserveData \<times> handle) suite_script" where
  "getDataBeforeAction S reserveSymbol user env =
     bindIO (onWorld (getReserveAddressFromSymbol S reserveSymbol)) (\<lambda>reserve.
     bindIO (getContractsData S reserve user env None) (\<lambda>(reserveData, userData, _).
     bindIO (onWorld (getAToken (r_aTokenAddress reserveData))) (\<lambda>aTokenInstance.
     returnIO (reserve, reserveData, userData, aTokenInstance))))"

text \<open>\<open>convertToCurrencyDecimals\<close> against the live chain.\<close>

definition inUnits :: "('c, 'n) suite \<Rightarrow> address \<Rightarrow> string \<Rightarrow> ('c, string) suite_script" where
  "inUnits S tokenAddress amount =
     bindIO (onWorld (getIErc20Detailed tokenAddress)) (\<lambda>token.
     bindIO (view (live S) token ''decimals'' []) (\<lambda>decimals.
     liftError (unitsOf (tools S) amount decimals)))"

section \<open>Comparisons\<close>

text \<open>\<open>almostEqualOrEqual\<close>: the numbers are cut to integers, and may differ by up to three.\<close>

definition closeEnough :: "'n bignumber \<Rightarrow> 'n \<Rightarrow> 'n \<Rightarrow> bool" where
  "closeEnough bn actual expected =
     (let actualValue = roundDown bn actual; expectedValue = roundDown bn expected;
          shifted = (\<lambda>x k. bn_plus bn x (bn_number bn k)) in
      bn_eq bn actualValue expectedValue
      \<or> bn_eq bn (shifted actualValue 1) expectedValue \<or> bn_eq bn actualValue (shifted expectedValue 1)
      \<or> bn_eq bn (shifted actualValue 2) expectedValue \<or> bn_eq bn actualValue (shifted expectedValue 2)
      \<or> bn_eq bn (shifted actualValue 3) expectedValue \<or> bn_eq bn actualValue (shifted expectedValue 3))"

text \<open>The keys of the actual object but for the accessory ones. A field the expected object lacks fails
  the comparison, by a \<open>TypeError\<close>.\<close>

definition reserveNumbers :: "('n ReserveData \<Rightarrow> 'n) jsobj" where
  "reserveNumbers =
     [(''totalLiquidity'', totalLiquidity), (''utilizationRate'', utilizationRate),
      (''availableLiquidity'', availableLiquidity), (''totalStableDebt'', totalStableDebt),
      (''totalVariableDebt'', totalVariableDebt), (''liquidityRate'', liquidityRate),
      (''variableBorrowRate'', variableBorrowRate), (''stableBorrowRate'', stableBorrowRate),
      (''averageStableBorrowRate'', averageStableBorrowRate), (''liquidityIndex'', liquidityIndex),
      (''variableBorrowIndex'', variableBorrowIndex), (''principalStableDebt'', principalStableDebt),
      (''scaledVariableDebt'', scaledVariableDebt)]"

definition userNumbers :: "('n UserReserveData \<Rightarrow> 'n) jsobj" where
  "userNumbers =
     [(''scaledATokenBalance'', u_scaledATokenBalance), (''currentATokenBalance'', u_currentATokenBalance),
      (''currentStableDebt'', u_currentStableDebt), (''currentVariableDebt'', u_currentVariableDebt),
      (''principalStableDebt'', u_principalStableDebt), (''scaledVariableDebt'', u_scaledVariableDebt),
      (''stableBorrowRate'', u_stableBorrowRate), (''liquidityRate'', u_liquidityRate),
      (''stableRateLastUpdated'', u_stableRateLastUpdated), (''walletBalance'', u_walletBalance)]"

definition numbersAgree :: "'n bignumber \<Rightarrow> ('d \<Rightarrow> 'n) jsobj \<Rightarrow> 'd \<Rightarrow> 'd \<Rightarrow> bool" where
  "numbersAgree bn numbers actual expected = list_all (\<lambda>(key, f). closeEnough bn (f actual) (f expected)) numbers"

definition reservesAgree :: "'n bignumber \<Rightarrow> ('n ReserveData \<Rightarrow> 'n) jsobj \<Rightarrow> 'n ReserveData \<Rightarrow> 'n ReserveData \<Rightarrow> bool" where
  "reservesAgree bn numbers actual expected \<longleftrightarrow>
     numbersAgree bn numbers actual expected \<and> r_address actual \<noteq> None \<and> r_address actual = r_address expected"

definition usersAgree ::
  "'n bignumber \<Rightarrow> ('n UserReserveData \<Rightarrow> 'n) jsobj \<Rightarrow> 'n UserReserveData \<Rightarrow> 'n UserReserveData \<Rightarrow> bool" where
  "usersAgree bn numbers actual expected \<longleftrightarrow>
     numbersAgree bn numbers actual expected \<and> u_usageAsCollateralEnabled actual \<noteq> None \<and>
     u_usageAsCollateralEnabled actual = u_usageAsCollateralEnabled expected"

definition expectEqual :: "('c, 'n) suite \<Rightarrow> bool \<Rightarrow> ('c, unit) suite_script" where
  "expectEqual S agree = requireIO (skipIntegrityCheck S \<or> agree) (Error ''AssertionError'')"

definition expectData ::
  "('c, 'n) suite \<Rightarrow> 'n ReserveData \<times> 'n UserReserveData \<Rightarrow> 'n ReserveData \<times> 'n UserReserveData \<Rightarrow>
   ('c, unit) suite_script" where
  "expectData S = (\<lambda>(reserveAfter, userAfter) (expectedReserve, expectedUser).
     thenIO (expectEqual S (reservesAgree (sbn S) reserveNumbers reserveAfter expectedReserve))
       (expectEqual S (usersAgree (sbn S) userNumbers userAfter expectedUser)))"

section \<open>Actions\<close>

text \<open>\<open>if (expectedResult === 'success') ... else if (expectedResult === 'revert') ...\<close>\<close>

definition byOutcome :: "string \<Rightarrow> ('c, unit) suite_script \<Rightarrow> ('c, unit) suite_script \<Rightarrow> ('c, unit) suite_script" where
  "byOutcome expectedResult success reverted =
     (if expectedResult = ''success'' then success
      else if expectedResult = ''revert'' then reverted else returnIO ())"

definition theUser :: "address option \<Rightarrow> ('c, address) suite_script" where
  "theUser user = (case user of None \<Rightarrow> throwIO (TypeError ''address'') | Some a \<Rightarrow> returnIO a)"

text \<open>An amount, all of it when it is \<open>-1\<close>.\<close>

definition amountOrAll :: "('c, 'n) suite \<Rightarrow> address \<Rightarrow> string \<Rightarrow> ('c, string) suite_script" where
  "amountOrAll S tokenAddress amount =
     (if amount \<noteq> ''-1'' then inUnits S tokenAddress amount else returnIO MAX_UINT_AMOUNT)"

definition sentValue :: "('c, 'n) suite \<Rightarrow> address \<Rightarrow> string option \<Rightarrow> ('c, string option) suite_script" where
  "sentValue S tokenAddress sendValue =
     (if truthy sendValue then bindIO (inUnits S tokenAddress (the sendValue)) (\<lambda>v. returnIO (Some v))
      else returnIO None)"

definition approveFor :: "('c, 'n) suite \<Rightarrow> address \<Rightarrow> address option \<Rightarrow> handle \<Rightarrow> ('c, unit) suite_script" where
  "approveFor S tokenAddress user spender =
     bindIO (onWorld (getMintableERC20 tokenAddress)) (\<lambda>token.
     bindIO (theUser user) (\<lambda>sender.
     bindIO (sendAs (live S) sender token ''approve''
               [Str (h_address spender), Str ''100000000000000000000000000000''] None) (\<lambda>_. returnIO ())))"

definition approve :: "('c, 'n) suite \<Rightarrow> string \<Rightarrow> address option \<Rightarrow> test_env \<Rightarrow> ('c, unit) suite_script" where
  "approve S reserveSymbol user env =
     bindIO (fromEnv env ''pool'') (\<lambda>pool.
     bindIO (onWorld (getReserveAddressFromSymbol S reserveSymbol)) (\<lambda>reserve.
     approveFor S reserve user pool))"

text \<open>A deposit through a contract and method, checked against the calculators of deposits.\<close>

definition depositThrough ::
  "('c, 'n) suite \<Rightarrow> string \<Rightarrow> string \<Rightarrow> (address \<Rightarrow> string \<Rightarrow> arg list) \<Rightarrow> string \<Rightarrow> string \<Rightarrow> address option \<Rightarrow>
   address \<Rightarrow> string option \<Rightarrow> string \<Rightarrow> test_env \<Rightarrow> ('c, unit) suite_script" where
  "depositThrough S target method args reserveSymbol amount sender onBehalfOf sendValue expectedResult env =
     bindIO (fromEnv env target) (\<lambda>h.
     bindIO (onWorld (getReserveAddressFromSymbol S reserveSymbol)) (\<lambda>reserve.
     bindIO (inUnits S reserve amount) (\<lambda>amountToDeposit.
     bindIO (theUser sender) (\<lambda>from.
     bindIO (getContractsData S reserve onBehalfOf env (Some from)) (\<lambda>(reserveBefore, userBefore, _).
     bindIO (sentValue S reserve sendValue) (\<lambda>sent.
     let tx = sendAs (live S) from h method (args reserve amountToDeposit) sent in
     byOutcome expectedResult
       (bindIO tx (\<lambda>txResult.
        bindIO (getContractsData S reserve onBehalfOf env (Some from)) (\<lambda>(reserveAfter, userAfter, timestamp).
        bindIO (getTxCostAndTimestamp (sbn S) (live S) txResult) (\<lambda>(txCost, txTimestamp).
        bindIO (liftError (reserveAfterDeposit S (sbn S) (reservesParams S) amountToDeposit reserveBefore txTimestamp))
          (\<lambda>expectedReserve.
        expectData S (reserveAfter, userAfter)
          (expectedReserve,
           userAfterDeposit S (sbn S) amountToDeposit reserveBefore expectedReserve userBefore txTimestamp
             reserveSymbol))))))
       (expectReverted tx)))))))"

definition deposit ::
  "('c, 'n) suite \<Rightarrow> string \<Rightarrow> string \<Rightarrow> address option \<Rightarrow> address \<Rightarrow> string option \<Rightarrow> string \<Rightarrow> test_env \<Rightarrow>
   ('c, unit) suite_script" where
  "deposit S reserveSymbol amount sender onBehalfOf =
     depositThrough S ''pool'' ''deposit''
       (\<lambda>reserve amountToDeposit. [Str reserve, Str amountToDeposit, Str onBehalfOf, Str ''0''])
       reserveSymbol amount sender onBehalfOf"

definition withdrawThrough ::
  "('c, 'n) suite \<Rightarrow> string \<Rightarrow> string \<Rightarrow> (address \<Rightarrow> string \<Rightarrow> address \<Rightarrow> arg list) \<Rightarrow> string \<Rightarrow> string \<Rightarrow>
   address option \<Rightarrow> string \<Rightarrow> test_env \<Rightarrow> ('c, unit) suite_script" where
  "withdrawThrough S target method args reserveSymbol amount user expectedResult env =
     bindIO (fromEnv env target) (\<lambda>h.
     bindIO (theUser user) (\<lambda>from.
     bindIO (getDataBeforeAction S reserveSymbol from env) (\<lambda>(reserve, reserveBefore, userBefore, _).
     bindIO (amountOrAll S reserve amount) (\<lambda>amountToWithdraw.
     let tx = sendAs (live S) from h method (args reserve amountToWithdraw from) None in
     byOutcome expectedResult
       (bindIO tx (\<lambda>txResult.
        bindIO (getContractsData S reserve from env None) (\<lambda>(reserveAfter, userAfter, timestamp).
        bindIO (getTxCostAndTimestamp (sbn S) (live S) txResult) (\<lambda>(txCost, txTimestamp).
        bindIO (liftError (reserveAfterWithdraw S (sbn S) (reservesParams S) amountToWithdraw reserveBefore
                  userBefore txTimestamp)) (\<lambda>expectedReserve.
        expectData S (reserveAfter, userAfter)
          (expectedReserve,
           userAfterWithdraw S (sbn S) amountToWithdraw reserveBefore expectedReserve userBefore txTimestamp))))))
       (expectReverted tx)))))"

definition withdraw ::
  "('c, 'n) suite \<Rightarrow> string \<Rightarrow> string \<Rightarrow> address option \<Rightarrow> string \<Rightarrow> test_env \<Rightarrow> ('c, unit) suite_script" where
  "withdraw S =
     withdrawThrough S ''pool'' ''withdraw'' (\<lambda>reserve amountToWithdraw user. [Str reserve, Str amountToWithdraw, Str user])"

text \<open>The approval is checked afterwards unless a revert is expected with a message.\<close>

definition delegateBorrowAllowance ::
  "('c, 'n) suite \<Rightarrow> string \<Rightarrow> string \<Rightarrow> string \<Rightarrow> address option \<Rightarrow> address \<Rightarrow> string \<Rightarrow> test_env \<Rightarrow> string option \<Rightarrow>
   ('c, unit) suite_script" where
  "delegateBorrowAllowance S reserve amount interestRateMode user receiver expectedResult env revertMessage =
     bindIO (fromEnv env ''pool'') (\<lambda>pool.
     bindIO (onWorld (getReserveAddressFromSymbol S reserve)) (\<lambda>reserveAddress.
     bindIO (inUnits S reserveAddress amount) (\<lambda>amountToDelegate.
     bindIO (view (live S) pool ''getReserveData.stableDebtTokenAddress'' [reserveAddress]) (\<lambda>stableToken.
     bindIO (view (live S) pool ''getReserveData.variableDebtTokenAddress'' [reserveAddress]) (\<lambda>variableToken.
     bindIO (onWorld (if interestRateMode = ''1'' then getStableDebtToken (Some stableToken)
                      else getVariableDebtToken (Some variableToken))) (\<lambda>debtToken.
     bindIO (theUser user) (\<lambda>from.
     let tx = sendAs (live S) from debtToken ''approveDelegation'' [Str receiver, Str amountToDelegate] None in
     if expectedResult = ''revert'' \<and> truthy revertMessage then expectRevertedWith (the revertMessage) tx
     else bindIO tx (\<lambda>_.
          bindIO (view (live S) debtToken ''borrowAllowance'' [from, receiver]) (\<lambda>allowance.
          requireIO (allowance = amountToDelegate) (Error ''borrowAllowance is set incorrectly''))))))))))"

text \<open>The time travelled is a number of days.\<close>

definition borrow ::
  "('c, 'n) suite \<Rightarrow> string \<Rightarrow> string \<Rightarrow> string \<Rightarrow> address option \<Rightarrow> address \<Rightarrow> string option \<Rightarrow> string \<Rightarrow> test_env \<Rightarrow>
   ('c, unit) suite_script" where
  "borrow S reserveSymbol amount interestRateMode user onBehalfOf timeTravel expectedResult env =
     (let bn = sbn S in
      bindIO (fromEnv env ''pool'') (\<lambda>pool.
      bindIO (onWorld (getReserveAddressFromSymbol S reserveSymbol)) (\<lambda>reserve.
      bindIO (theUser user) (\<lambda>from.
      bindIO (getContractsData S reserve onBehalfOf env (Some from)) (\<lambda>(reserveBefore, userBefore, _).
      bindIO (inUnits S reserve amount) (\<lambda>amountToBorrow.
      let tx = sendAs (live S) from pool ''borrow''
                 [Str reserve, Str amountToBorrow, Str interestRateMode, Str ''0'', Str onBehalfOf] None in
      byOutcome expectedResult
        (bindIO tx (\<lambda>txResult.
         bindIO (getTxCostAndTimestamp bn (live S) txResult) (\<lambda>(txCost, txTimestamp).
         thenIO (if truthy timeTravel
                 then advanceTimeAndBlock (live S)
                   (toNumber (tools S) (bn_div bn (bn_multipliedBy bn (bn_new bn (the timeTravel)) (bn_new bn ONE_YEAR))
                      (bn_number bn 365)))
                 else returnIO ()) (
         bindIO (getContractsData S reserve onBehalfOf env (Some from)) (\<lambda>(reserveAfter, userAfter, timestamp).
         bindIO (liftError (reserveAfterBorrow S bn (reservesParams S) amountToBorrow interestRateMode reserveBefore
                   txTimestamp timestamp)) (\<lambda>expectedReserve.
         expectData S (reserveAfter, userAfter)
           (expectedReserve,
            userAfterBorrow S bn amountToBorrow interestRateMode reserveBefore expectedReserve userBefore
              txTimestamp timestamp)))))))
        (expectReverted tx)))))))"

definition repay ::
  "('c, 'n) suite \<Rightarrow> string \<Rightarrow> string \<Rightarrow> string \<Rightarrow> address option \<Rightarrow> address option \<Rightarrow> string option \<Rightarrow> string \<Rightarrow>
   test_env \<Rightarrow> ('c, unit) suite_script" where
  "repay S reserveSymbol amount rateMode user onBehalfOf sendValue expectedResult env =
     (let bn = sbn S; hexOf = (\<lambda>s. ''0x'' @ toHex (tools S) (bn_new bn s)) in
      bindIO (fromEnv env ''pool'') (\<lambda>pool.
      bindIO (onWorld (getReserveAddressFromSymbol S reserveSymbol)) (\<lambda>reserve.
      bindIO (theUser onBehalfOf) (\<lambda>debtor.
      bindIO (getContractsData S reserve debtor env None) (\<lambda>(reserveBefore, userBefore, _).
      bindIO (amountOrAll S reserve amount) (\<lambda>units.
      let amountToRepay = hexOf units in
      bindIO (sentValue S reserve sendValue) (\<lambda>sent.
      let tx = (\<lambda>from. sendAs (live S) from pool ''repay''
                 [Str reserve, Str amountToRepay, Str rateMode, Str debtor] (map_option hexOf sent)) in
      byOutcome expectedResult
        (bindIO (theUser user) (\<lambda>from.
         bindIO (tx from) (\<lambda>txResult.
         bindIO (getTxCostAndTimestamp bn (live S) txResult) (\<lambda>(txCost, txTimestamp).
         bindIO (getContractsData S reserve debtor env None) (\<lambda>(reserveAfter, userAfter, timestamp).
         bindIO (liftError (reserveAfterRepay S bn (reservesParams S) amountToRepay rateMode reserveBefore userBefore
                   txTimestamp)) (\<lambda>expectedReserve.
         expectData S (reserveAfter, userAfter)
           (expectedReserve,
            userAfterRepay S bn amountToRepay rateMode reserveBefore expectedReserve userBefore from debtor
              txTimestamp timestamp)))))))
        (bindIO (theUser user) (\<lambda>from. expectReverted (tx from))))))))))"

text \<open>Only the user is compared.\<close>

definition setUseAsCollateral ::
  "('c, 'n) suite \<Rightarrow> string \<Rightarrow> address option \<Rightarrow> string \<Rightarrow> string \<Rightarrow> test_env \<Rightarrow> ('c, unit) suite_script" where
  "setUseAsCollateral S reserveSymbol user useAsCollateral expectedResult env =
     bindIO (fromEnv env ''pool'') (\<lambda>pool.
     bindIO (onWorld (getReserveAddressFromSymbol S reserveSymbol)) (\<lambda>reserve.
     bindIO (theUser user) (\<lambda>from.
     bindIO (getContractsData S reserve from env None) (\<lambda>(reserveBefore, userBefore, _).
     let useAsCollateralBool = (toLowerCase useAsCollateral = ''true'');
         tx = sendAs (live S) from pool ''setUserUseReserveAsCollateral'' [Str reserve, Flag useAsCollateralBool] None in
     byOutcome expectedResult
       (bindIO tx (\<lambda>txResult.
        bindIO (getTxCostAndTimestamp (sbn S) (live S) txResult) (\<lambda>(txCost, txTimestamp).
        bindIO (getContractsData S reserve from env None) (\<lambda>(_, userAfter, _).
        expectEqual S (usersAgree (sbn S) userNumbers userAfter
          (userAfterSetUseAsCollateral S useAsCollateralBool userBefore))))))
       (expectReverted tx)))))"

end
