(* ===== verification/ScenarioEngine.thy ===== *)
theory ScenarioEngine
  imports SuiteActions
begin

text \<open>
  The two suites, \<open>test-sturdy\<close> and \<open>test-ftm\<close>: their own modules and actions, and the engine that
  runs the stories of the \<open>scenarios/*.json\<close>, \<open>helpers/scenario-engine.ts\<close> (the two copies are the same
  text, each with the actions of its suite).
\<close>

section \<open>The Sturdy suite\<close>

definition sturdyReserveAddress :: "string \<Rightarrow> address script" where
  "sturdyReserveAddress symbol =
     bindIO (currentPoolConfig ''Sturdy'') (\<lambda>config.
     bindIO (paramHere (ReserveAssets (commonConfiguration config))) (\<lambda>reserveAssets. case reserveAssets of
       None \<Rightarrow> throwIO (TypeError symbol)
     | Some entries \<Rightarrow>
       bindIO (if truthy (obj_get entries symbol) then returnIO (the (obj_get entries symbol))
               else registeredAddress symbol) (\<lambda>a.
       bindIO (getMintableERC20 a) (\<lambda>token. returnIO (h_address token)))))"

definition sturdySuite ::
  "'n tools \<Rightarrow> 'c live_chain \<Rightarrow> IReserveParams jsobj \<Rightarrow> bool \<Rightarrow> ('c, 'n) suite" where
  "sturdySuite t c params skip =
     \<lparr>tools = t, live = c, reservesParams = params, skipIntegrityCheck = skip,
      getReserveAddressFromSymbol = sturdyReserveAddress, walletToken = getMintableERC20,
      reserveAfterDeposit = calcExpectedReserveDataAfterDeposit,
      userAfterDeposit = calcExpectedUserDataAfterDeposit,
      reserveAfterWithdraw = calcExpectedReserveDataAfterWithdraw,
      userAfterWithdraw = calcExpectedUserDataAfterWithdraw,
      reserveAfterBorrow = calcExpectedReserveDataAfterBorrow,
      userAfterBorrow = calcExpectedUserDataAfterBorrow,
      reserveAfterRepay = calcExpectedReserveDataAfterRepay,
      userAfterRepay = calcExpectedUserDataAfterRepay,
      userAfterSetUseAsCollateral = calcExpectedUserDataAfterSetUseAsCollateral\<rparr>"

text \<open>The holder the tokens are taken from, and the token's name in the environment.\<close>

definition sturdyMintSources :: "(string \<times> string) jsobj" where
  "sturdyMintSources =
     [(''USDC'', (''0x28C6c06298d514Db089934071355E5743bf21d60'', ''usdc'')),
      (''DAI'', (''0x28C6c06298d514Db089934071355E5743bf21d60'', ''dai'')),
      (''stETH'', (''0x41318419CFa25396b47A94896FfA2C77c6434040'', ''lido''))]"

definition mintFrom :: "('c, 'n) suite \<Rightarrow> (string \<times> string) jsobj \<Rightarrow> string \<Rightarrow> string \<Rightarrow> address option \<Rightarrow> test_env \<Rightarrow>
    ('c, unit) suite_script" where
  "mintFrom S sources reserveSymbol amount user env =
     (case obj_get sources reserveSymbol of
        None \<Rightarrow> throwIO (TypeError ''address'')
      | Some (ownerAddress, name) \<Rightarrow>
          bindIO (fromEnv env name) (\<lambda>token.
          bindIO (inUnits S (h_address token) amount) (\<lambda>depositAmount.
          thenIO (onWorld (impersonateAccountsHardhat [ownerAddress])) (
          bindIO (theUser user) (\<lambda>recipient.
          bindIO (sendAs (live S) ownerAddress token ''transfer'' [Str recipient, Str depositAmount] None)
            (\<lambda>_. returnIO ()))))))"

definition mint :: "('c, 'n) suite \<Rightarrow> string \<Rightarrow> string \<Rightarrow> address option \<Rightarrow> test_env \<Rightarrow> ('c, unit) suite_script" where
  "mint S = mintFrom S sturdyMintSources"

definition approveVault :: "('c, 'n) suite \<Rightarrow> string \<Rightarrow> address option \<Rightarrow> test_env \<Rightarrow> ('c, unit) suite_script" where
  "approveVault S reserveSymbol user env =
     bindIO (fromEnv env ''lidoVault'') (\<lambda>lidoVault.
     bindIO (onWorld (getReserveAddressFromSymbol S reserveSymbol)) (\<lambda>reserve.
     approveFor S reserve user lidoVault))"

definition depositCollateral ::
  "('c, 'n) suite \<Rightarrow> string \<Rightarrow> string \<Rightarrow> address option \<Rightarrow> address \<Rightarrow> string option \<Rightarrow> string \<Rightarrow> test_env \<Rightarrow>
   ('c, unit) suite_script" where
  "depositCollateral S =
     depositThrough S ''lidoVault'' ''depositCollateral''
       (\<lambda>reserve amountToDeposit. [Str reserve, Str amountToDeposit])"

definition withdrawCollateral ::
  "('c, 'n) suite \<Rightarrow> string \<Rightarrow> string \<Rightarrow> address option \<Rightarrow> string \<Rightarrow> test_env \<Rightarrow> ('c, unit) suite_script" where
  "withdrawCollateral S =
     withdrawThrough S ''lidoVault'' ''withdrawCollateral''
       (\<lambda>reserve amountToWithdraw user. [Str reserve, Str amountToWithdraw, Str ''9900'', Str user])"

section \<open>The Fantom suite\<close>

text \<open>\<open>(...)?.address\<close>: an unregistered symbol reads the registered \<open>MintableERC20\<close>, as the empty address
  does.\<close>

definition ftmReserveAddress :: "string \<Rightarrow> address script" where
  "ftmReserveAddress symbol =
     bindIO (currentPoolConfig ''Fantom'') (\<lambda>config.
     bindIO (paramHere (ReserveAssets (commonConfiguration config))) (\<lambda>reserveAssets. case reserveAssets of
       None \<Rightarrow> throwIO (TypeError symbol)
     | Some entries \<Rightarrow>
       bindIO (if truthy (obj_get entries symbol) then returnIO (obj_get entries symbol)
               else registeredAddressOrUndefined symbol) (\<lambda>a.
       bindIO (getMintableERC20 (case a of None \<Rightarrow> '''' | Some s \<Rightarrow> s)) (\<lambda>token.
       returnIO (h_address token)))))"

definition ftmWalletToken :: "address \<Rightarrow> handle script" where
  "ftmWalletToken reserve =
     bindIO (currentPoolConfig ''Fantom'') (\<lambda>config.
     bindIO (paramHere (ReserveAssets (commonConfiguration config))) (\<lambda>reserveAssets.
     bindIO (paramHere (WFTM (commonConfiguration config))) (\<lambda>wftm.
     bindIO (getMintableERC20 reserve) (\<lambda>token. case reserveAssets of
       None \<Rightarrow> throwIO (TypeError ''yvWFTM'')
     | Some entries \<Rightarrow>
       if Some reserve = obj_get entries ''yvWFTM''
       then getMintableERC20 (case wftm of None \<Rightarrow> '''' | Some s \<Rightarrow> s)
       else returnIO token))))"

definition ftmSuite ::
  "'n tools \<Rightarrow> 'c live_chain \<Rightarrow> IReserveParams jsobj \<Rightarrow> bool \<Rightarrow> ('c, 'n) suite" where
  "ftmSuite t c params skip =
     \<lparr>tools = t, live = c, reservesParams = params, skipIntegrityCheck = skip,
      getReserveAddressFromSymbol = ftmReserveAddress, walletToken = ftmWalletToken,
      reserveAfterDeposit = ftm_calcExpectedReserveDataAfterDeposit,
      userAfterDeposit = ftm_calcExpectedUserDataAfterDeposit,
      reserveAfterWithdraw = ftm_calcExpectedReserveDataAfterWithdraw,
      userAfterWithdraw = ftm_calcExpectedUserDataAfterWithdraw,
      reserveAfterBorrow = ftm_calcExpectedReserveDataAfterBorrow,
      userAfterBorrow = ftm_calcExpectedUserDataAfterBorrow,
      reserveAfterRepay = ftm_calcExpectedReserveDataAfterRepay,
      userAfterRepay = ftm_calcExpectedUserDataAfterRepay,
      userAfterSetUseAsCollateral = ftm_calcExpectedUserDataAfterSetUseAsCollateral\<rparr>"

definition ftmMintSources :: "(string \<times> string) jsobj" where
  "ftmMintSources =
     [(''USDC'', (''0x93C08a3168fC469F3fC165cd3A471D19a37ca19e'', ''usdc'')),
      (''DAI'', (''0x6Bf97f2534be2242dDb3A29bfb24d498212DcdED'', ''dai'')),
      (''yvWFTM'', (''0x4901C740607E415685b4d09E4Aa960329cd183Ca'', ''WFTM''))]"

definition ftm_mint :: "('c, 'n) suite \<Rightarrow> string \<Rightarrow> string \<Rightarrow> address option \<Rightarrow> test_env \<Rightarrow> ('c, unit) suite_script" where
  "ftm_mint S = mintFrom S ftmMintSources"

definition ftm_approveVault :: "('c, 'n) suite \<Rightarrow> string \<Rightarrow> address option \<Rightarrow> test_env \<Rightarrow> ('c, unit) suite_script" where
  "ftm_approveVault S reserveSymbol user env =
     bindIO (fromEnv env ''yearnVault'') (\<lambda>yearnVault.
     bindIO (fromEnv env ''WFTM'') (\<lambda>wftm. approveFor S (h_address wftm) user yearnVault))"

definition atMost :: "'n bignumber \<Rightarrow> int \<Rightarrow> 'n \<Rightarrow> bool" where
  "atMost bn k x \<longleftrightarrow> bn_lt bn x (bn_number bn k) \<or> bn_eq bn x (bn_number bn k)"

text \<open>\<open>expect(a.minus(b).lte(k)).to.equal(true)\<close>: a bound on one side.\<close>

definition expectAtMost :: "'n bignumber \<Rightarrow> int \<Rightarrow> 'n \<Rightarrow> 'n \<Rightarrow> ('c, unit) suite_script" where
  "expectAtMost bn k a b = requireIO (atMost bn k (bn_minus bn a b)) (Error ''AssertionError'')"

text \<open>\<open>const { key, ...remained } = data\<close>\<close>

definition withoutKeys :: "string list \<Rightarrow> 'a jsobj \<Rightarrow> 'a jsobj" where
  "withoutKeys keys ob = filter (\<lambda>(k, v). k \<notin> set keys) ob"

definition ftm_depositCollateral ::
  "('c, 'n) suite \<Rightarrow> string \<Rightarrow> string \<Rightarrow> address option \<Rightarrow> address \<Rightarrow> string option \<Rightarrow> string \<Rightarrow> test_env \<Rightarrow>
   ('c, unit) suite_script" where
  "ftm_depositCollateral S reserveSymbol amount sender onBehalfOf sendValue expectedResult env =
     (let bn = sbn S in
      bindIO (fromEnv env ''yearnVault'') (\<lambda>yearnVault.
      bindIO (fromEnv env ''WFTM'') (\<lambda>wftm.
      bindIO (onWorld (getReserveAddressFromSymbol S reserveSymbol)) (\<lambda>reserve.
      bindIO (inUnits S reserve amount) (\<lambda>amountToDeposit.
      bindIO (theUser sender) (\<lambda>from.
      bindIO (getContractsData S reserve onBehalfOf env (Some from)) (\<lambda>(reserveBefore, userBefore, _).
      bindIO (sentValue S (h_address wftm) sendValue) (\<lambda>sent.
      let tx = (\<lambda>asset. sendAs (live S) from yearnVault ''depositCollateral''
                 [Str asset, Str amountToDeposit] sent) in
      byOutcome expectedResult
        (bindIO (tx (h_address wftm)) (\<lambda>txResult.
         bindIO (getContractsData S reserve onBehalfOf env (Some from)) (\<lambda>(reserveAfter, userAfter, timestamp).
         bindIO (getTxCostAndTimestamp bn (live S) txResult) (\<lambda>(txCost, txTimestamp).
         bindIO (liftError (calcExpectedReserveDataAfterDepositCollateral bn (reservesParams S) amountToDeposit
                   reserveBefore reserveAfter txTimestamp)) (\<lambda>expectedReserve.
         let expectedUser = calcExpectedUserDataAfterDepositCollateral bn amountToDeposit reserveBefore
               expectedReserve userBefore txTimestamp reserveSymbol in
         thenIO (expectEqual S (reservesAgree bn
                   (withoutKeys [''totalLiquidity'', ''availableLiquidity''] reserveNumbers)
                   reserveAfter expectedReserve)) (
         thenIO (expectAtMost bn 10000 (totalLiquidity expectedReserve) (totalLiquidity reserveAfter)) (
         thenIO (expectAtMost bn 10000 (availableLiquidity expectedReserve) (availableLiquidity reserveAfter)) (
         thenIO (expectEqual S (usersAgree bn
                   (withoutKeys [''scaledATokenBalance'', ''currentATokenBalance''] userNumbers)
                   userAfter expectedUser)) (
         thenIO (expectAtMost bn 1000 (u_scaledATokenBalance expectedUser) (u_scaledATokenBalance userAfter)) (
         expectAtMost bn 1000 (u_currentATokenBalance expectedUser) (u_currentATokenBalance userAfter)))))))))))
        (expectReverted (tx reserve))))))))))"

definition ftm_withdrawCollateral ::
  "('c, 'n) suite \<Rightarrow> string \<Rightarrow> string \<Rightarrow> address option \<Rightarrow> string \<Rightarrow> test_env \<Rightarrow> ('c, unit) suite_script" where
  "ftm_withdrawCollateral S reserveSymbol amount user expectedResult env =
     (let bn = sbn S in
      bindIO (fromEnv env ''yearnVault'') (\<lambda>yearnVault.
      bindIO (fromEnv env ''WFTM'') (\<lambda>wftm.
      bindIO (theUser user) (\<lambda>from.
      bindIO (getDataBeforeAction S reserveSymbol from env) (\<lambda>(reserve, reserveBefore, userBefore, _).
      bindIO (amountOrAll S (h_address wftm) amount) (\<lambda>amountToWithdraw.
      let tx = (\<lambda>asset. sendAs (live S) from yearnVault ''withdrawCollateral''
                 [Str asset, Str amountToWithdraw, Str ''9900'', Str from] None);
          remained = withoutKeys [''walletBalance''] userNumbers in
      byOutcome expectedResult
        (bindIO (tx (h_address wftm)) (\<lambda>txResult.
         bindIO (getContractsData S reserve from env None) (\<lambda>(reserveAfter, userAfter, timestamp).
         bindIO (getTxCostAndTimestamp bn (live S) txResult) (\<lambda>(txCost, txTimestamp).
         bindIO (liftError (calcExpectedReserveDataAfterWithdrawCollateral bn (reservesParams S) amountToWithdraw
                   reserveBefore reserveAfter userBefore txTimestamp)) (\<lambda>expectedReserve.
         let expectedUser = calcExpectedUserDataAfterWithdrawCollateral bn amountToWithdraw reserveBefore
               expectedReserve userBefore txTimestamp in
         thenIO (expectEqual S (reservesAgree bn reserveNumbers reserveAfter expectedReserve)) (
         thenIO (expectEqual S (usersAgree bn remained userAfter expectedUser)) (
         thenIO (expectAtMost bn 1000 (u_walletBalance userAfter) (u_walletBalance expectedUser)) (
         expectEqual S (usersAgree bn remained userAfter expectedUser)))))))))
        (expectReverted (tx reserve))))))))"

section \<open>The engine\<close>

record story_action =
  action_name :: "string option"
  action_args :: "string jsobj option"
  action_expected :: "string option"
  action_revertMessage :: "string option"

record Story =
  story_description :: string
  actions :: "story_action list"

text \<open>\<open>parseInt\<close>: leading blanks and a sign are skipped, a prefix \<open>0x\<close> means base 16 unless the base is
  given, the digits end at the first other character; without digits the result is no number.\<close>

definition digitOf :: "nat \<Rightarrow> char \<Rightarrow> nat option" where
  "digitOf base c =
     (let n = of_char (char_lower c) :: nat;
          d = (if 48 \<le> n \<and> n \<le> 57 then Some (n - 48) else if 97 \<le> n \<and> n \<le> 122 then Some (n - 87) else None) in
      case d of None \<Rightarrow> None | Some k \<Rightarrow> if k < base then Some k else None)"

definition readPrefix :: "nat \<Rightarrow> string \<Rightarrow> nat option" where
  "readPrefix base s =
     (case takeWhile (\<lambda>c. digitOf base c \<noteq> None) s of
        [] \<Rightarrow> None
      | ds \<Rightarrow> Some (foldl (\<lambda>n c. n * base + the (digitOf base c)) 0 ds))"

definition parseInt :: "bool \<Rightarrow> string \<Rightarrow> int option" where
  "parseInt baseGiven s =
     (let body = dropWhile (\<lambda>c. (of_char c :: nat) \<in> {9, 10, 11, 12, 13, 32, 160}) s;
          (negative, digits) = (case body of
             c # cs \<Rightarrow> if c = CHR ''-'' then (True, cs) else if c = CHR ''+'' then (False, cs) else (False, c # cs)
           | [] \<Rightarrow> (False, []));
          value = (if \<not> baseGiven \<and> take 2 (toLowerCase digits) = ''0x'' then readPrefix 16 (drop 2 digits)
                   else readPrefix 10 digits) in
      map_option (\<lambda>n. if negative then - int n else int n) value)"

text \<open>\<open>users[parseInt(index)]\<close>, with \<open>parseInt(undefined)\<close> no number.\<close>

definition userAt :: "test_env \<Rightarrow> bool \<Rightarrow> string option \<Rightarrow> address option" where
  "userAt env baseGiven index =
     (case Option.bind index (parseInt baseGiven) of
        None \<Rightarrow> None
      | Some i \<Rightarrow> if 0 \<le> i \<and> nat i < length (users env) then Some (users env ! nat i) else None)"

definition rateModeOf :: "string option \<Rightarrow> string" where
  "rateModeOf borrowRateMode =
     (if truthy borrowRateMode then
        if borrowRateMode = Some ''none'' then ''0''
        else if borrowRateMode = Some ''stable'' then ''2''
        else if borrowRateMode = Some ''variable'' then ''2''
        else ''4''
      else ''0'')"

text \<open>The actions the engine imports from its suite.\<close>

record 'c suite_actions =
  do_mint :: "string \<Rightarrow> string \<Rightarrow> address option \<Rightarrow> test_env \<Rightarrow> ('c, unit) suite_script"
  do_approve :: "string \<Rightarrow> address option \<Rightarrow> test_env \<Rightarrow> ('c, unit) suite_script"
  do_approveVault :: "string \<Rightarrow> address option \<Rightarrow> test_env \<Rightarrow> ('c, unit) suite_script"
  do_depositCollateral :: "string \<Rightarrow> string \<Rightarrow> address option \<Rightarrow> address \<Rightarrow> string option \<Rightarrow> string \<Rightarrow> test_env \<Rightarrow>
    ('c, unit) suite_script"
  do_deposit :: "string \<Rightarrow> string \<Rightarrow> address option \<Rightarrow> address \<Rightarrow> string option \<Rightarrow> string \<Rightarrow> test_env \<Rightarrow>
    ('c, unit) suite_script"
  do_delegate :: "string \<Rightarrow> string \<Rightarrow> string \<Rightarrow> address option \<Rightarrow> address \<Rightarrow> string \<Rightarrow> test_env \<Rightarrow> string option \<Rightarrow>
    ('c, unit) suite_script"
  do_withdraw :: "string \<Rightarrow> string \<Rightarrow> address option \<Rightarrow> string \<Rightarrow> test_env \<Rightarrow> ('c, unit) suite_script"
  do_withdrawCollateral :: "string \<Rightarrow> string \<Rightarrow> address option \<Rightarrow> string \<Rightarrow> test_env \<Rightarrow> ('c, unit) suite_script"
  do_borrow :: "string \<Rightarrow> string \<Rightarrow> string \<Rightarrow> address option \<Rightarrow> address \<Rightarrow> string option \<Rightarrow> string \<Rightarrow> test_env \<Rightarrow>
    ('c, unit) suite_script"
  do_repay :: "string \<Rightarrow> string \<Rightarrow> string \<Rightarrow> address option \<Rightarrow> address option \<Rightarrow> string option \<Rightarrow> string \<Rightarrow> test_env \<Rightarrow>
    ('c, unit) suite_script"
  do_setUseAsCollateral :: "string \<Rightarrow> address option \<Rightarrow> string \<Rightarrow> string \<Rightarrow> test_env \<Rightarrow> ('c, unit) suite_script"

text \<open>\<open>if (!field || field === '') throw message\<close>\<close>

definition needed :: "string option \<Rightarrow> string \<Rightarrow> (string \<Rightarrow> ('c, 'a) suite_script) \<Rightarrow> ('c, 'a) suite_script" where
  "needed field message k = (if truthy field then k (the field) else throwIO (Thrown message))"

text \<open>\<open>onBehalfOfIndex ? users[parseInt(onBehalfOfIndex)].address : user.address\<close>\<close>

definition onBehalf :: "test_env \<Rightarrow> string option \<Rightarrow> address option \<Rightarrow> ('c, address) suite_script" where
  "onBehalf env index user = (if truthy index then theUser (userAt env False index) else theUser user)"

definition dispatch ::
  "'c suite_actions \<Rightarrow> string \<Rightarrow> string jsobj \<Rightarrow> string \<Rightarrow> address option \<Rightarrow> string \<Rightarrow> string option \<Rightarrow> string \<Rightarrow>
   test_env \<Rightarrow> ('c, unit) suite_script" where
  "dispatch acts name args reserve user expected revertMessage rateMode env =
     (let arg = obj_get args; amount = arg ''amount'' in
      if name = ''mint'' then
        needed amount (''Invalid amount of '' @ reserve @ '' to mint'') (\<lambda>a. do_mint acts reserve a user env)
      else if name = ''approve'' then do_approve acts reserve user env
      else if name = ''approveVault'' then do_approveVault acts reserve user env
      else if name = ''depositCollateral'' then
        bindIO (onBehalf env (arg ''onBehalfOf'') user) (\<lambda>onBehalfOf.
        needed amount (''Invalid amount to deposit into the '' @ reserve @ '' reserve'') (\<lambda>a.
        do_depositCollateral acts reserve a user onBehalfOf (arg ''sendValue'') expected env))
      else if name = ''deposit'' then
        bindIO (onBehalf env (arg ''onBehalfOf'') user) (\<lambda>onBehalfOf.
        needed amount (''Invalid amount to deposit into the '' @ reserve @ '' reserve'') (\<lambda>a.
        do_deposit acts reserve a user onBehalfOf (arg ''sendValue'') expected env))
      else if name = ''delegateBorrowAllowance'' then
        bindIO (theUser (userAt env True (arg ''toUser''))) (\<lambda>toUser.
        needed amount (''Invalid amount to deposit into the '' @ reserve @ '' reserve'') (\<lambda>a.
        do_delegate acts reserve a rateMode user toUser expected env revertMessage))
      else if name = ''withdraw'' then
        needed amount (''Invalid amount to withdraw from the '' @ reserve @ '' reserve'') (\<lambda>a.
        do_withdraw acts reserve a user expected env)
      else if name = ''withdrawCollateral'' then
        needed amount (''Invalid amount to withdraw from the '' @ reserve @ '' reserve'') (\<lambda>a.
        do_withdrawCollateral acts reserve a user expected env)
      else if name = ''borrow'' then
        bindIO (onBehalf env (arg ''onBehalfOf'') user) (\<lambda>onBehalfOf.
        needed amount (''Invalid amount to borrow from the '' @ reserve @ '' reserve'') (\<lambda>a.
        do_borrow acts reserve a rateMode user onBehalfOf (arg ''timeTravel'') expected env))
      else if name = ''repay'' then
        needed amount (''Invalid amount to repay into the '' @ reserve @ '' reserve'') (\<lambda>a.
        do_repay acts reserve a rateMode user
          (if truthy (arg ''onBehalfOf'') then userAt env False (arg ''onBehalfOf'') else user)
          (arg ''sendValue'') expected env)
      else if name = ''setUseAsCollateral'' then
        needed (arg ''useAsCollateral'')
          (''A valid value for useAsCollateral needs to be set when calling setUseReserveAsCollateral on reserve ''
           @ reserve)
          (\<lambda>flag. do_setUseAsCollateral acts reserve user flag expected env)
      else throwIO (Thrown (''Invalid action requested: '' @ name)))"

definition executeAction :: "'c suite_actions \<Rightarrow> test_env \<Rightarrow> story_action \<Rightarrow> ('c, unit) suite_script" where
  "executeAction acts env action =
     (case action_args action of
        None \<Rightarrow> throwIO (TypeError ''reserve'')
      | Some args \<Rightarrow>
          needed (action_name action) ''Action name is missing'' (\<lambda>name.
          needed (obj_get args ''reserve'') ''Invalid reserve selected for deposit'' (\<lambda>reserve.
          needed (obj_get args ''user'') (''Invalid user selected to deposit into the '' @ reserve @ '' reserve'')
            (\<lambda>userIndex.
          needed (action_expected action) (''An expected resut for action '' @ name @ '' is required'') (\<lambda>expected.
          dispatch acts name args reserve (userAt env False (Some userIndex)) expected
            (action_revertMessage action) (rateModeOf (obj_get args ''borrowRateMode'')) env)))))"

definition executeStory :: "'c suite_actions \<Rightarrow> Story \<Rightarrow> test_env \<Rightarrow> ('c, unit) suite_script" where
  "executeStory acts story env =
     bindIO (forIO (actions story) (executeAction acts env)) (\<lambda>_. returnIO ())"

definition sturdyActions :: "('c, 'n) suite \<Rightarrow> 'c suite_actions" where
  "sturdyActions S =
     \<lparr>do_mint = mint S, do_approve = approve S, do_approveVault = approveVault S,
      do_depositCollateral = depositCollateral S, do_deposit = deposit S,
      do_delegate = delegateBorrowAllowance S, do_withdraw = withdraw S,
      do_withdrawCollateral = withdrawCollateral S, do_borrow = borrow S, do_repay = repay S,
      do_setUseAsCollateral = setUseAsCollateral S\<rparr>"

text \<open>The functions of \<open>test-ftm/helpers\<close> whose text is that of \<open>test-sturdy/helpers\<close>: they differ in the
  modules they import, the argument \<open>S\<close>.\<close>

definition ftm_approve :: "('c, 'n) suite \<Rightarrow> string \<Rightarrow> address option \<Rightarrow> test_env \<Rightarrow> ('c, unit) suite_script" where
  "ftm_approve S = approve S"

definition ftm_deposit ::
  "('c, 'n) suite \<Rightarrow> string \<Rightarrow> string \<Rightarrow> address option \<Rightarrow> address \<Rightarrow> string option \<Rightarrow> string \<Rightarrow> test_env \<Rightarrow>
   ('c, unit) suite_script" where
  "ftm_deposit S = deposit S"

definition ftm_withdraw ::
  "('c, 'n) suite \<Rightarrow> string \<Rightarrow> string \<Rightarrow> address option \<Rightarrow> string \<Rightarrow> test_env \<Rightarrow> ('c, unit) suite_script" where
  "ftm_withdraw S = withdraw S"

definition ftm_delegateBorrowAllowance ::
  "('c, 'n) suite \<Rightarrow> string \<Rightarrow> string \<Rightarrow> string \<Rightarrow> address option \<Rightarrow> address \<Rightarrow> string \<Rightarrow> test_env \<Rightarrow> string option \<Rightarrow>
   ('c, unit) suite_script" where
  "ftm_delegateBorrowAllowance S = delegateBorrowAllowance S"

definition ftm_borrow ::
  "('c, 'n) suite \<Rightarrow> string \<Rightarrow> string \<Rightarrow> string \<Rightarrow> address option \<Rightarrow> address \<Rightarrow> string option \<Rightarrow> string \<Rightarrow> test_env \<Rightarrow>
   ('c, unit) suite_script" where
  "ftm_borrow S = borrow S"

definition ftm_repay ::
  "('c, 'n) suite \<Rightarrow> string \<Rightarrow> string \<Rightarrow> string \<Rightarrow> address option \<Rightarrow> address option \<Rightarrow> string option \<Rightarrow> string \<Rightarrow>
   test_env \<Rightarrow> ('c, unit) suite_script" where
  "ftm_repay S = repay S"

definition ftm_setUseAsCollateral ::
  "('c, 'n) suite \<Rightarrow> string \<Rightarrow> address option \<Rightarrow> string \<Rightarrow> string \<Rightarrow> test_env \<Rightarrow> ('c, unit) suite_script" where
  "ftm_setUseAsCollateral S = setUseAsCollateral S"

lemmas ftm_copies = ftm_approve_def ftm_deposit_def ftm_withdraw_def ftm_delegateBorrowAllowance_def ftm_borrow_def
  ftm_repay_def ftm_setUseAsCollateral_def

definition ftmActions :: "('c, 'n) suite \<Rightarrow> 'c suite_actions" where
  "ftmActions S =
     \<lparr>do_mint = ftm_mint S, do_approve = ftm_approve S, do_approveVault = ftm_approveVault S,
      do_depositCollateral = ftm_depositCollateral S, do_deposit = ftm_deposit S,
      do_delegate = ftm_delegateBorrowAllowance S, do_withdraw = ftm_withdraw S,
      do_withdrawCollateral = ftm_withdrawCollateral S, do_borrow = ftm_borrow S, do_repay = ftm_repay S,
      do_setUseAsCollateral = ftm_setUseAsCollateral S\<rparr>"

text \<open>The engines of the two suites.\<close>

definition sturdyStory :: "('c, 'n) suite \<Rightarrow> Story \<Rightarrow> test_env \<Rightarrow> ('c, unit) suite_script" where
  "sturdyStory S = executeStory (sturdyActions S)"

definition ftmStory :: "('c, 'n) suite \<Rightarrow> Story \<Rightarrow> test_env \<Rightarrow> ('c, unit) suite_script" where
  "ftmStory S = executeStory (ftmActions S)"

end
