(* ===== verification/SampleScenario.thy ===== *)
theory SampleScenario
  imports ScenarioEngine VaultChecks
begin

text \<open>
  A deposit of the Sturdy suite that passes, computed: a market whose registry has the rate oracle, a
  chain that counts one deposit, and exact numbers.
\<close>

abbreviation (input) "sampleDai \<equiv> ''0x6B175474E89094C44Da98b954EedeAC495271d0F''"

abbreviation (input) "sampleRay \<equiv> 1000000000000000000000000000"

definition sampleView :: "bool \<Rightarrow> address \<Rightarrow> string \<Rightarrow> string list \<Rightarrow> error + string" where
  "sampleView deposited a method args = Inr
     (if method = ''symbol'' then ''DAI''
      else if method \<in> {''getTotalSupplyLastUpdated'', ''getReserveData.lastUpdateTimestamp''} then ''7''
      else if method \<in> {''getReserveData.liquidityIndex'', ''getReserveData.variableBorrowIndex''}
      then ''1000000000000000000000000000''
      else if take (length ''getReserveTokensAddresses'') method = ''getReserveTokensAddresses'' then ''0xAA''
      else if method = ''getUserReserveData.usageAsCollateralEnabled'' then ''false''
      else if method = ''balanceOf'' then (if deposited then ''900'' else ''1000'')
      else if method \<in> {''getReserveData.availableLiquidity'', ''scaledBalanceOf'',
                         ''getUserReserveData.currentATokenBalance''}
      then (if deposited then ''100'' else ''0'')
      else ''0'')"

definition sampleChain :: "bool live_chain" where
  "sampleChain =
     \<lparr>chain_view = sampleView,
      chain_send = (\<lambda>sender a method args value. \<lambda>c.
        if method = ''deposit'' \<and> \<not> c
        then (Inr \<lparr>blockNumber = 9, transactionHash = ''0x1'', cumulativeGasUsed = 21000\<rparr>, True)
        else (Inl (Revert method), c)),
      chain_rpc = (\<lambda>method args. returnIO ()),
      blockTimestamp = (\<lambda>c b. 7), latestTimestamp = (\<lambda>c. 7), currentBlockTimestamp = (\<lambda>c. Some 7),
      gasPrice = (\<lambda>c h. 1)\<rparr>"

definition sampleTools :: "rat option tools" where
  "sampleTools = \<lparr>big = rational_js 0 ROUND_DOWN, parseUnits = (\<lambda>amount decimals. Inr amount),
     toHex = (\<lambda>x. ''0''), toNumber = (\<lambda>x. 0)\<rparr>"

definition sampleParams :: "IReserveParams jsobj" where
  "sampleParams = [(''DAI'', (strategyDAI decimal_js)\<lparr>strategy :=
     \<lparr>strategy_name = ''s'', optimalUtilizationRate = ''800000000000000000000000000'', baseVariableBorrowRate = ''0'',
       variableRateSlope1 = ''0'', variableRateSlope2 = ''0'', stableRateSlope1 = ''0'',
       stableRateSlope2 = ''0'', capacity = ''5''\<rparr>\<rparr>)]"

definition sampleSuiteWorld :: world where
  "sampleSuiteWorld = db_put ''LendingRateOracle'' \<lparr>entry_address = ''0xD9'', entry_deployer = None\<rparr> (sampleMarket ''main'')"

definition sampleEnv :: test_env where
  "sampleEnv = \<lparr>deployer = ''0xA1'', emergencyUser = ''0xA2'', users = [''0xA3''],
     env_contracts = [(''pool'', connectAt ''LendingPool'' ''0xE1'' (Some ''0xA1'')),
       (''helpersContract'', connectAt ''SturdyProtocolDataProvider'' ''0xE2'' (Some ''0xA1''))]\<rparr>"



definition sampleSuite :: "(bool, rat option) suite" where
  "sampleSuite = sturdySuite sampleTools sampleChain sampleParams False"

abbreviation (input) "js \<equiv> rational_js 0 ROUND_DOWN"

section \<open>Running\<close>

lemma view_run:
  "view c h m args (w, s) =
     (case chain_view c s (h_address h) m args of Inl e \<Rightarrow> (Inl e, (w, s)) | Inr v \<Rightarrow> (Inr v, (w, s)))"
  by (simp add: view_def liftError_def io_run split: sum.split)

lemma onWorld_run: "onWorld m (w, c) = (case m w of (r, w') \<Rightarrow> (r, (w', c)))"
  by (simp add: onWorld_def)

lemma liftError_run: "liftError (Inr x) s = (Inr x, s)"
  by (simp add: liftError_def io_run)

lemma sampleSuite_simps:
  "tools sampleSuite = sampleTools" "live sampleSuite = sampleChain" "reservesParams sampleSuite = sampleParams"
  "skipIntegrityCheck sampleSuite = False" "getReserveAddressFromSymbol sampleSuite = sturdyReserveAddress"
  "walletToken sampleSuite = getMintableERC20" "chain_view sampleChain = sampleView" "big sampleTools = js"
  "parseUnits sampleTools a d = Inr a" "latestTimestamp sampleChain c = 7" "blockTimestamp sampleChain c n = 7"
  "gasPrice sampleChain c h = 1"
  by (simp_all add: sampleSuite_def sturdySuite_def sampleTools_def sampleChain_def)

lemma sampleSuiteWorld_simps:
  "network_name sampleSuiteWorld = ''main''" "env_FORK sampleSuiteWorld = None"
  "node_signers sampleSuiteWorld = [''0xA1'', ''0xA2'']" "env_TENDERLY sampleSuiteWorld = None"
  "env_DEFENDER sampleSuiteWorld = None" "asset_writes sampleSuiteWorld = []"
  "db_get ''LendingRateOracle'' sampleSuiteWorld = Some \<lparr>entry_address = ''0xD9'', entry_deployer = None\<rparr>"
  by (simp_all add: sampleSuiteWorld_def sampleMarket_eq vault_run_defs)

lemmas suite_run_defs = currentPoolConfig_def paramHere_def MarketSturdy_data sampleSuiteWorld_simps io_run
  liftSum_def loadPoolConfig_def writtenAssets_def getParamPerNetwork_def connectOrRegistered_def
  getFirstSigner_def getEthersSigners_def usingDefender_def nth_opt_def connectAt_def
  ICommonConfiguration.truncate_def currentNetwork_def

lemma sample_reserve: "sturdyReserveAddress ''DAI'' sampleSuiteWorld = (Inr sampleDai, sampleSuiteWorld)"
  by (simp add: sturdyReserveAddress_def getMintableERC20_def suite_run_defs)

lemma sample_getters:
  "a \<noteq> '''' \<Longrightarrow> getIErc20Detailed a sampleSuiteWorld =
     (Inr (connectAt ''IERC20Detailed'' a (Some ''0xA1'')), sampleSuiteWorld)"
  "a \<noteq> '''' \<Longrightarrow> getMintableERC20 a sampleSuiteWorld =
     (Inr (connectAt ''MintableERC20'' a (Some ''0xA1'')), sampleSuiteWorld)"
  "a \<noteq> '''' \<Longrightarrow> getAToken (Some a) sampleSuiteWorld =
     (Inr (connectAt ''AToken'' a (Some ''0xA1'')), sampleSuiteWorld)"
  "a \<noteq> '''' \<Longrightarrow> getStableDebtToken (Some a) sampleSuiteWorld =
     (Inr (connectAt ''StableDebtToken'' a (Some ''0xA1'')), sampleSuiteWorld)"
  "a \<noteq> '''' \<Longrightarrow> getVariableDebtToken (Some a) sampleSuiteWorld =
     (Inr (connectAt ''VariableDebtToken'' a (Some ''0xA1'')), sampleSuiteWorld)"
  "getLendingRateOracle None sampleSuiteWorld =
     (Inr (connectAt ''LendingRateOracle'' ''0xD9'' (Some ''0xA1'')), sampleSuiteWorld)"
  by (simp_all add: getIErc20Detailed_def getMintableERC20_def getAToken_def getStableDebtToken_def
      getVariableDebtToken_def getLendingRateOracle_def registeredAddress_def suite_run_defs)

section \<open>Numbers\<close>

lemma js_literals:
  "bn_new js ''0'' = Some 0" "bn_new js ''7'' = Some 7" "bn_new js ''100'' = Some 100" "bn_new js ''900'' = Some 900"
  "bn_new js ''1000'' = Some 1000" "bn_new js ''10000'' = Some 10000"
  "bn_new js ''800000000000000000000000000'' = Some 800000000000000000000000000"
  "bn_new js ''1000000000000000000000000000'' = Some sampleRay"
  by (simp_all add: rational_js_def isLiteral_def literalParts_def literalRat_def literalValue_def isNumeral_def
      readDigits_def)

lemma js_RAY: "bn_new js (RAY js) = Some sampleRay"
  using rational.denotes_RAY [of 0 ROUND_DOWN] by (simp add: denotes_def ray_def)

lemma js_operations:
  "bn_plus js (Some a) (Some b) = Some (a + b)" "bn_minus js (Some a) (Some b) = Some (a - b)"
  "bn_multipliedBy js (Some a) (Some b) = Some (a * b)" "bn_number js i = Some (of_int i)"
  "bn_eq js (Some a) (Some b) \<longleftrightarrow> a = b" "bn_lt js (Some a) (Some b) \<longleftrightarrow> a < b" "bn_gt js (Some a) (Some b) \<longleftrightarrow> b < a"
  "bn_toFixedPlaces js x k = printNat x" "bn_undefined js = None"
  by (simp_all add: rational_js_def lift2_def)

lemma js_rayDiv: "b \<noteq> 0 \<Longrightarrow> rayDiv js (Some (of_nat a)) (Some (of_nat b)) = Some (of_nat (rayDivN a b))"
  using rational_integers.denotes_rayDiv [of "Some (of_nat a)" a "Some (of_nat b)" b] by (simp add: denotes_def)

lemma js_rayMul: "rayMul js (Some (of_nat a)) (Some (of_nat b)) = Some (of_nat (rayMulN a b))"
  using rational_integers.denotes_rayMul [of "Some (of_nat a)" a "Some (of_nat b)" b] by (simp add: denotes_def)

lemma js_products:
  "rayDiv js (Some 0) (Some 100) = Some 0" "rayDiv js (Some 0) (Some sampleRay) = Some 0"
  "rayDiv js (Some 0) (Some 800000000000000000000000000) = Some 0" "rayDiv js (Some 100) (Some sampleRay) = Some 100"
  "rayMul js (Some 0) (Some 0) = Some 0" "rayMul js (Some sampleRay) (Some 0) = Some 0"
  "rayMul js (Some 0) (Some sampleRay) = Some 0" "percentMul js (Some 0) (Some 9000) = Some 0"
  using js_rayDiv [of 100 0] js_rayDiv [of sampleRay 0] js_rayDiv [of 800000000000000000000000000 0]
    js_rayDiv [of sampleRay 100] js_rayMul [of 0 0] js_rayMul [of sampleRay 0] js_rayMul [of 0 sampleRay]
    rational_integers.denotes_percentMul [of "Some 0" 0 "Some 9000" 9000]
  by (simp_all add: denotes_def rayDivN_def percentMulN_def ray_def)

lemmas js_simps = js_literals js_RAY js_operations js_products Let_def

section \<open>Readings\<close>

definition sampleUserOn :: "bool \<Rightarrow> rat option UserReserveData" where
  "sampleUserOn c = (emptyUserReserveData js)
     \<lparr>u_scaledATokenBalance := Some (if c then 100 else 0), u_currentATokenBalance := Some (if c then 100 else 0),
      u_currentStableDebt := Some 0, u_currentVariableDebt := Some 0, u_principalStableDebt := Some 0,
      u_scaledVariableDebt := Some 0, u_stableBorrowRate := Some 0, u_liquidityRate := Some 0,
      u_usageAsCollateralEnabled := Some False, u_stableRateLastUpdated := Some 0,
      u_walletBalance := Some (if c then 900 else 1000)\<rparr>"

definition sampleReserveOn :: "bool \<Rightarrow> rat option ReserveData" where
  "sampleReserveOn c =
     \<lparr>r_address = Some sampleDai, r_symbol = Some ''DAI'', r_decimals = Some 0,
      totalLiquidity = Some (if c then 100 else 0), availableLiquidity = Some (if c then 100 else 0),
      totalStableDebt = Some 0, totalVariableDebt = Some 0, principalStableDebt = Some 0, scaledVariableDebt = Some 0,
      averageStableBorrowRate = Some 0, variableBorrowRate = Some 0, stableBorrowRate = Some 0,
      utilizationRate = Some 0, liquidityIndex = Some sampleRay, variableBorrowIndex = Some sampleRay,
      r_aTokenAddress = Some ''0xAA'', marketStableRate = Some 0, lastUpdateTimestamp = Some 7,
      totalStableDebtLastUpdated = Some 7, liquidityRate = Some 0\<rparr>"

text \<open>What the calculators leave undefined is not compared.\<close>

definition sampleExpectedReserve :: "rat option ReserveData" where
  "sampleExpectedReserve = (sampleReserveOn True)
     \<lparr>r_symbol := None, r_decimals := None, r_aTokenAddress := None, marketStableRate := None,
      lastUpdateTimestamp := None, totalStableDebtLastUpdated := None\<rparr>"

lemmas sample_reads = sampleSuite_simps Let_def bindIO_def view_run sampleView_def onWorld_run returnIO_run
  getATokenUserData_def sample_getters connectAt_def js_simps

lemma sample_user:
  "getUserData sampleSuite (connectAt ''SturdyProtocolDataProvider'' ''0xE2'' (Some ''0xA1'')) sampleDai ''0xA3'' ''0xA3''
     (sampleSuiteWorld, c) = (Inr (sampleUserOn c), (sampleSuiteWorld, c))"
  by (cases c) (simp_all add: getUserData_def sample_reads sampleUserOn_def emptyUserReserveData_def)

lemma sample_reserve_data:
  "getReserveData js sampleChain (connectAt ''SturdyProtocolDataProvider'' ''0xE2'' (Some ''0xA1'')) sampleDai
     (sampleSuiteWorld, c) = (Inr (sampleReserveOn c), (sampleSuiteWorld, c))"
  by (cases c) (simp_all add: getReserveData_def sample_reads sampleReserveOn_def)

lemma sample_contracts_data:
  "getContractsData sampleSuite sampleDai ''0xA3'' sampleEnv (Some ''0xA3'') (sampleSuiteWorld, c) =
     (Inr (sampleReserveOn c, sampleUserOn c, Some 7), (sampleSuiteWorld, c))"
  by (simp add: getContractsData_def fromEnv_def sampleEnv_def truthy_def sample_user sample_reserve_data bindIO_def
      sampleSuite_simps timeLatest_def io_run js_simps)

lemma sample_units: "inUnits sampleSuite sampleDai ''100'' (sampleSuiteWorld, c) = (Inr ''100'', (sampleSuiteWorld, c))"
  by (simp add: inUnits_def sample_reads unitsOf_def liftError_def printNat_def) code_simp

section \<open>Expectations\<close>

lemma sample_zero_rates:
  "calcExpectedInterestRates js sampleParams (Some ''DAI'') (Some 0) (Some 0) (Some 0) (Some 0) (Some 0) =
     Inr (Some 0, Some 0, Some 0)"
  by (simp add: calcExpectedInterestRates_def sampleParams_def strategyDAI_def js_simps
      calcExpectedOverallBorrowRate_def strToBN_def PERCENTAGE_FACTOR_def obj_keys_def)

lemma sample_expected_reserve:
  "reserveAfterDeposit sampleSuite js sampleParams ''100'' (sampleReserveOn False) (Some 7) = Inr sampleExpectedReserve"
  by (simp add: sampleSuite_def sturdySuite_def calcExpectedReserveDataAfterDeposit_def sampleReserveOn_def
      sampleExpectedReserve_def emptyReserveData_def js_simps calcExpectedTotalStableDebt_def calcCompoundedInterest_def
      calcExpectedTotalVariableDebt_def calcExpectedVariableBorrowIndex_def calcExpectedUtilizationRate_def strToBN_def
      sample_zero_rates setRates_def calcExpectedLiquidityIndex_def)

lemma sample_no_collateral:
  "(case obj_get (SturdyReservesConfig (bignumber_js.truncate js)) ''DAI'' of
      None \<Rightarrow> False | Some x \<Rightarrow> collateralEnabled x) = False"
  by (simp add: SturdyReservesConfig_def obj_get_def strategyDAI_def)

lemma sample_expected_user:
  "userAfterDeposit sampleSuite js ''100'' (sampleReserveOn False) sampleExpectedReserve (sampleUserOn False) (Some 7)
     ''DAI'' = sampleUserOn True"
  by (simp add: sampleSuite_def sturdySuite_def calcExpectedUserDataAfterDeposit_def sampleReserveOn_def
      sampleExpectedReserve_def sampleUserOn_def emptyUserReserveData_def js_simps sample_no_collateral
      calcExpectedScaledATokenBalance_def calcExpectedATokenBalance_def calcExpectedReserveNormalizedIncome_def
      calcExpectedStableDebtTokenBalance_def calcExpectedVariableDebtTokenBalance_def
      calcExpectedReserveNormalizedDebt_def)

lemma sample_agreement:
  "reservesAgree js reserveNumbers (sampleReserveOn True) sampleExpectedReserve"
  "usersAgree js userNumbers (sampleUserOn True) (sampleUserOn True)"
  by (simp_all add: reservesAgree_def usersAgree_def numbersAgree_def reserveNumbers_def userNumbers_def closeEnough_def
      roundDown_def js_operations Let_def rational_js_def lift2_def sampleReserveOn_def sampleExpectedReserve_def
      sampleUserOn_def emptyUserReserveData_def)

lemma sample_deposit_sent:
  "sendAs sampleChain ''0xA3'' h ''deposit'' args None (w, False) =
     (Inr \<lparr>blockNumber = 9, transactionHash = ''0x1'', cumulativeGasUsed = 21000\<rparr>, (w, True))"
  by (simp add: sendAs_def onChain_def sampleChain_def)

lemma sample_deposit_passes:
  "deposit sampleSuite ''DAI'' ''100'' (Some ''0xA3'') ''0xA3'' None ''success'' sampleEnv (sampleSuiteWorld, False) =
     (Inr (), (sampleSuiteWorld, True))"
proof -
  have pool: "fromEnv sampleEnv ''pool'' s = (Inr (connectAt ''LendingPool'' ''0xE1'' (Some ''0xA1'')), s)" for s
    by (simp add: fromEnv_def sampleEnv_def io_run)
  have cost: "\<exists>cost. getTxCostAndTimestamp js sampleChain \<lparr>blockNumber = 9, transactionHash = ''0x1'',
      cumulativeGasUsed = 21000\<rparr> s = (Inr (cost, Some 7), s)" for s :: "world \<times> bool"
    by (simp add: getTxCostAndTimestamp_def io_run sampleSuite_simps js_operations split: prod.split)
  from cost obtain cost where cost: "getTxCostAndTimestamp js sampleChain \<lparr>blockNumber = 9, transactionHash = ''0x1'',
      cumulativeGasUsed = 21000\<rparr> (sampleSuiteWorld, True) = (Inr (cost, Some 7), (sampleSuiteWorld, True))"
    by blast
  show ?thesis
    by (simp add: deposit_def depositThrough_def bindIO_def pool sampleSuite_simps onWorld_run sample_reserve sample_units
        sample_contracts_data theUser_def sentValue_def byOutcome_def truthy_def returnIO_run Let_def
        sample_deposit_sent cost sample_expected_reserve sample_expected_user liftError_run
        expectData_def expectEqual_def sample_agreement io_run)
qed

end
