(* ===== verification/ScenarioChecks.thy ===== *)
theory ScenarioChecks
  imports SampleScenario
begin

text \<open>
  What the scenario engine guarantees, and what it cannot see: malformed actions are rejected without
  an effect, a passing deposit is within three units of the calculators in every number, unknown
  outcomes check nothing, and stable rate modes and revert messages make no difference.
\<close>

section \<open>Reading leaves the chain alone\<close>

definition keeps_chain :: "('c, 'a) suite_script \<Rightarrow> bool" where
  "keeps_chain m \<longleftrightarrow> (\<forall>s. snd (snd (m s)) = snd s)"

named_theorems chain_keeps \<open>scripts that send no transaction\<close>

lemma keeps_chain_bind [chain_keeps]:
  "keeps_chain m \<Longrightarrow> (\<And>x. keeps_chain (f x)) \<Longrightarrow> keeps_chain (bindIO m f)"
  unfolding keeps_chain_def bindIO_def
  by (auto split: prod.split sum.split) (metis snd_conv)+

lemma keeps_chain_then [chain_keeps]: "keeps_chain m \<Longrightarrow> keeps_chain k \<Longrightarrow> keeps_chain (thenIO m k)"
  unfolding thenIO_def by (intro keeps_chain_bind)

lemma keeps_chain_basic [chain_keeps]:
  "keeps_chain (returnIO x)" "keeps_chain (throwIO e)" "keeps_chain (getsIO f)" "keeps_chain (requireIO b e)"
  by (simp_all add: keeps_chain_def io_run)

lemma keeps_chain_onWorld [chain_keeps]: "keeps_chain (onWorld m)"
  by (simp add: keeps_chain_def onWorld_def split: prod.split)

lemma keeps_chain_if [chain_keeps]: "keeps_chain m \<Longrightarrow> keeps_chain k \<Longrightarrow> keeps_chain (if b then m else k)"
  by simp

lemma keeps_chain_cases [chain_keeps]:
  "keeps_chain m \<Longrightarrow> (\<And>x. keeps_chain (f x)) \<Longrightarrow> keeps_chain (case v of None \<Rightarrow> m | Some x \<Rightarrow> f x)"
  "(\<And>a b. keeps_chain (g a b)) \<Longrightarrow> keeps_chain (case p of (a, b) \<Rightarrow> g a b)"
  by (simp_all split: option.split prod.split)

lemma keeps_chain_read [chain_keeps]:
  "keeps_chain (liftError r)" "keeps_chain (view c h method args)" "keeps_chain (timeLatest bn c)"
  "keeps_chain (getTxCostAndTimestamp bn c tx)" "keeps_chain (fromEnv env name)" "keeps_chain (theUser user)"
  unfolding view_def timeLatest_def getTxCostAndTimestamp_def fromEnv_def theUser_def
  by (intro chain_keeps | simp add: liftError_def chain_keeps split: sum.split)+

lemma keeps_chain_data [chain_keeps]:
  "keeps_chain (getATokenUserData c reserve user h)" "keeps_chain (getReserveData bn c h reserve)"
  "keeps_chain (getUserData S h reserve user holder)"
  unfolding getATokenUserData_def getReserveData_def getUserData_def Let_def by (intro chain_keeps)+

lemma keeps_chain_helpers [chain_keeps]:
  "keeps_chain (getContractsData S reserve user env sender)" "keeps_chain (getDataBeforeAction S symbol user env)"
  "keeps_chain (inUnits S a amount)" "keeps_chain (amountOrAll S a amount)" "keeps_chain (sentValue S a sendValue)"
  unfolding getContractsData_def getDataBeforeAction_def inUnits_def amountOrAll_def sentValue_def
  by (intro chain_keeps)+

text \<open>An expected outcome that is neither of the two words.\<close>

lemma keeps_chain_byOutcome:
  "expected \<noteq> ''success'' \<Longrightarrow> expected \<noteq> ''revert'' \<Longrightarrow> keeps_chain (byOutcome expected m k)"
  by (simp add: byOutcome_def chain_keeps)

lemma unknown_outcome [chain_keeps]:
  assumes "expected \<noteq> ''success''" "expected \<noteq> ''revert''"
  shows "keeps_chain (depositThrough S target method args symbol amount user onBehalfOf sendValue expected env)"
    "keeps_chain (withdrawThrough S target method args' symbol amount user expected env)"
    "keeps_chain (borrow S symbol amount mode user onBehalfOf timeTravel expected env)"
    "keeps_chain (repay S symbol amount mode user debtor sendValue expected env)"
    "keeps_chain (setUseAsCollateral S symbol user flag expected env)"
    "keeps_chain (ftm_depositCollateral S symbol amount user onBehalfOf sendValue expected env)"
    "keeps_chain (ftm_withdrawCollateral S symbol amount user expected env)"
  unfolding depositThrough_def withdrawThrough_def borrow_def repay_def setUseAsCollateral_def
    ftm_depositCollateral_def ftm_withdrawCollateral_def Let_def
  by (intro chain_keeps keeps_chain_byOutcome assms)+

lemma keeps_chain_needed [chain_keeps]:
  "(truthy field \<Longrightarrow> keeps_chain (k (the field))) \<Longrightarrow> keeps_chain (needed field message k)"
  unfolding needed_def by (simp add: chain_keeps)

lemma keeps_chain_onBehalf [chain_keeps]: "keeps_chain (onBehalf env index user)"
  unfolding onBehalf_def by (intro chain_keeps)

lemma unknown_outcome_dispatch:
  assumes "expected \<noteq> ''success''" "expected \<noteq> ''revert''"
    and "name \<notin> {''mint'', ''approve'', ''approveVault'', ''delegateBorrowAllowance''}"
  shows "keeps_chain (dispatch (sturdyActions S) name args reserve user expected message mode env)"
    "keeps_chain (dispatch (ftmActions S) name args reserve user expected message mode env)"
  using assms(3)
  by (auto intro!: chain_keeps assms(1,2) simp: dispatch_def Let_def sturdyActions_def ftmActions_def ftm_copies
      deposit_def withdraw_def depositCollateral_def withdrawCollateral_def)

section \<open>Malformed actions\<close>

definition actionNames :: "string set" where
  "actionNames =
     {''mint'', ''approve'', ''approveVault'', ''depositCollateral'', ''deposit'', ''delegateBorrowAllowance'',
      ''withdraw'', ''withdrawCollateral'', ''borrow'', ''repay'', ''setUseAsCollateral''}"

definition wellFormed :: "story_action \<Rightarrow> bool" where
  "wellFormed action \<longleftrightarrow>
     (case action_args action of None \<Rightarrow> False
      | Some args \<Rightarrow> truthy (obj_get args ''reserve'') \<and> truthy (obj_get args ''user'')) \<and>
     action_name action \<in> Some ` actionNames \<and> truthy (action_expected action)"

lemma dispatch_unknown:
  "name \<notin> actionNames \<Longrightarrow>
   dispatch acts name args reserve user expected message mode env =
     throwIO (Thrown (''Invalid action requested: '' @ name))"
  unfolding actionNames_def dispatch_def Let_def by simp

lemma needed_cases: "needed field message k s = (if truthy field then k (the field) s else (Inl (Thrown message), s))"
  by (simp add: needed_def io_run)

lemma malformed_throws:
  assumes "\<not> wellFormed action"
  shows "\<exists>e. executeAction acts env action s = (Inl e, s)"
proof (cases "action_args action")
  case None
  then show ?thesis by (simp add: executeAction_def io_run)
next
  case (Some args)
  show ?thesis
  proof (cases "truthy (action_name action) \<and> truthy (obj_get args ''reserve'') \<and> truthy (obj_get args ''user'') \<and>
      truthy (action_expected action)")
    case True
    with assms Some have "the (action_name action) \<notin> actionNames"
      by (auto simp: wellFormed_def truthy_def image_iff)
    with True Some show ?thesis by (simp add: executeAction_def needed_cases dispatch_unknown io_run)
  next
    case False
    with Some show ?thesis by (auto simp: executeAction_def needed_cases)
  qed
qed

section \<open>Numbers within three\<close>

text \<open>The integer parts of two numbers differ by at most three.\<close>

definition withinThree :: "('n \<Rightarrow> rat option) \<Rightarrow> 'n \<Rightarrow> 'n \<Rightarrow> bool" where
  "withinThree val x y \<longleftrightarrow> (\<forall>a b. val x = Some a \<longrightarrow> val y = Some b \<longrightarrow> 0 \<le> a \<longrightarrow> 0 \<le> b \<longrightarrow> \<bar>\<lfloor>a\<rfloor> - \<lfloor>b\<rfloor>\<bar> \<le> 3)"

context bignumber_laws
begin

lemma closeEnough_val:
  assumes "val x = Some a" "val y = Some b" "0 \<le> a" "0 \<le> b"
  shows "closeEnough bn x y \<longleftrightarrow> \<bar>\<lfloor>a\<rfloor> - \<lfloor>b\<rfloor>\<bar> \<le> 3"
proof -
  have r: "val (roundDown bn x) = Some (of_int \<lfloor>a\<rfloor>)" "val (roundDown bn y) = Some (of_int \<lfloor>b\<rfloor>)"
    using val_decimalPlaces [OF assms(1), of 0 "Some ROUND_DOWN"] val_decimalPlaces [OF assms(2), of 0 "Some ROUND_DOWN"]
      assms(3,4)
    by (simp_all add: roundDown_def roundTo_nonneg roundAbs_def)
  have s: "val (bn_plus bn (roundDown bn x) (bn_number bn k)) = Some (of_int (\<lfloor>a\<rfloor> + k))"
    "val (bn_plus bn (roundDown bn y) (bn_number bn k)) = Some (of_int (\<lfloor>b\<rfloor> + k))" for k
    using val_plus [OF r(1) val_number [of k]] val_plus [OF r(2) val_number [of k]] by simp_all
  have "closeEnough bn x y \<longleftrightarrow> \<lfloor>a\<rfloor> = \<lfloor>b\<rfloor> \<or> \<lfloor>a\<rfloor> + 1 = \<lfloor>b\<rfloor> \<or> \<lfloor>a\<rfloor> = \<lfloor>b\<rfloor> + 1 \<or> \<lfloor>a\<rfloor> + 2 = \<lfloor>b\<rfloor> \<or>
      \<lfloor>a\<rfloor> = \<lfloor>b\<rfloor> + 2 \<or> \<lfloor>a\<rfloor> + 3 = \<lfloor>b\<rfloor> \<or> \<lfloor>a\<rfloor> = \<lfloor>b\<rfloor> + 3"
    unfolding closeEnough_def Let_def eq_val [OF r] eq_val [OF s(1) r(2)] eq_val [OF r(1) s(2)] of_int_eq_iff ..
  then show ?thesis by linarith
qed

lemma closeEnough_withinThree: "closeEnough bn x y \<Longrightarrow> withinThree val x y"
  using closeEnough_val by (auto simp: withinThree_def)

lemma numbersAgree_withinThree:
  "numbersAgree bn numbers actual expected \<Longrightarrow> (key, f) \<in> set numbers \<Longrightarrow> withinThree val (f actual) (f expected)"
  by (fastforce simp: numbersAgree_def list_all_iff intro: closeEnough_withinThree)

end

section \<open>Passing deposits\<close>

lemma getsIO_case_Inr: "getsIO f s = (Inr y, s') \<longleftrightarrow> y = f s \<and> s' = s"
  by (auto simp: getsIO_def)

lemma expectData_Inr:
  assumes "expectData S data expected s = (Inr (), s')" and "\<not> skipIntegrityCheck S"
  shows "s' = s \<and> reservesAgree (sbn S) reserveNumbers (fst data) (fst expected) \<and>
    usersAgree (sbn S) userNumbers (snd data) (snd expected)"
  using assms
  by (auto simp: expectData_def expectEqual_def io_run split: prod.splits sum.splits if_splits)

lemma liftError_Inr: "liftError r s = (Inr y, s') \<longleftrightarrow> r = Inr y \<and> s' = s"
  by (auto simp: liftError_def io_run split: sum.split)

lemma getTx_Inr: "getTxCostAndTimestamp bn c tx s = (Inr y, s') \<Longrightarrow> s' = s"
  by (auto simp: getTxCostAndTimestamp_def io_run split: if_splits)

lemma theUser_Inr: "theUser user s = (Inr a, s') \<longleftrightarrow> user = Some a \<and> s' = s"
  by (auto simp: theUser_def io_run split: option.split)

text \<open>What a deposit that was expected to succeed has read, sent and computed when it passes.\<close>

lemma passing_deposit:
  assumes "depositThrough S target method args symbol amount user onBehalfOf sendValue ''success'' env s = (Inr (), s')"
    and "\<not> skipIntegrityCheck S"
  obtains units sender reserve before userBefore now0 s1 s2 after userAfter now expected t s3 where
    "user = Some sender"
    and "getContractsData S reserve onBehalfOf env (Some sender) s1 = (Inr (before, userBefore, now0), s2)"
    and "getContractsData S reserve onBehalfOf env (Some sender) s3 = (Inr (after, userAfter, now), s')"
    and "reserveAfterDeposit S (sbn S) (reservesParams S) units before t = Inr expected"
    and "reservesAgree (sbn S) reserveNumbers after expected"
    and "usersAgree (sbn S) userNumbers userAfter
      (userAfterDeposit S (sbn S) units before expected userBefore t symbol)"
proof -
  note run = assms(1) [unfolded depositThrough_def Let_def byOutcome_def simp_thms if_True]
  show thesis
    using run
    by (elim bindIO_triple_InrE bindIO_pair_InrE bindIO_InrE)
      (auto simp: theUser_Inr liftError_Inr dest!: getTx_Inr expectData_Inr [OF _ assms(2)] intro: that)
qed

section \<open>Properties\<close>

lemma withinThree_numbers:
  assumes "bignumber_laws bn val dp mode" and "numbersAgree bn numbers actual expected" and "(key, f) \<in> set numbers"
  shows "withinThree val (f actual) (f expected)"
  using bignumber_laws.numbersAgree_withinThree [OF assms] .


text \<open>C34. In both suites a passing deposit has compared the principal of the stable debt with the expected
  variable debt: both debts of the user on the chain are within three of the same number, so the check
  fails for every depositor with a variable debt and no stable debt.\<close>

theorem deposit_compares_wrong_debt:
  assumes "depositThrough S target method args symbol amount user onBehalfOf sendValue ''success'' env s = (Inr (), s')"
    and "S \<in> {sturdySuite t c params False, ftmSuite t c params False}" and "bignumber_laws (big t) val dp mode"
  shows "\<exists>reserve before userBefore now0 s1 s2 after userAfter now txTimestamp s3.
    getContractsData S reserve onBehalfOf env user s1 = (Inr (before, userBefore, now0), s2) \<and>
    getContractsData S reserve onBehalfOf env user s3 = (Inr (after, userAfter, now), s') \<and>
    withinThree val (u_principalStableDebt userAfter)
      (calcExpectedVariableDebtTokenBalance (big t) before userBefore txTimestamp) \<and>
    withinThree val (u_currentVariableDebt userAfter)
      (calcExpectedVariableDebtTokenBalance (big t) before userBefore txTimestamp)"
proof -
  have skip: "\<not> skipIntegrityCheck S" and bn: "sbn S = big t"
    using assms(2) by (auto simp: sturdySuite_def ftmSuite_def)
  have wrong: "u_principalStableDebt (userAfterDeposit S (big t) units before r userBefore now symbol) =
      calcExpectedVariableDebtTokenBalance (big t) before userBefore now"
    "u_currentVariableDebt (userAfterDeposit S (big t) units before r userBefore now symbol) =
      calcExpectedVariableDebtTokenBalance (big t) before userBefore now" for units before r userBefore now
    using assms(2)
    by (auto simp: sturdySuite_def ftmSuite_def calcExpectedUserDataAfterDeposit_def
        ftm_calcExpectedUserDataAfterDeposit_def ftm_calculators Let_def)
  have keys: "(''principalStableDebt'', u_principalStableDebt) \<in> set userNumbers"
    "(''currentVariableDebt'', u_currentVariableDebt) \<in> set userNumbers"
    by (simp_all add: userNumbers_def)
  show ?thesis
    by (rule passing_deposit [OF assms(1) skip])
      (use withinThree_numbers [OF assms(3) _ keys(1)] withinThree_numbers [OF assms(3) _ keys(2)] in
        \<open>fastforce simp: usersAgree_def wrong bn\<close>)
qed

lemma forIO_stops: "x \<in> set xs \<Longrightarrow> (\<And>s. \<exists>e. f x s = (Inl e, s)) \<Longrightarrow> forIO xs f s \<noteq> (Inr ys, s')"
proof (induction xs arbitrary: s ys)
  case (Cons a xs)
  show ?case
  proof
    assume "forIO (a # xs) f s = (Inr ys, s')"
    then obtain y s1 zs where "f a s = (Inr y, s1)" and "forIO xs f s1 = (Inr zs, s')"
      by (auto elim!: bindIO_InrE simp: returnIO_run)
    moreover obtain e where "f x s = (Inl e, s)" using Cons.prems(2) by blast
    ultimately show False using Cons.IH [OF _ Cons.prems(2)] Cons.prems(1) by (cases "x = a") auto
  qed
qed simp

lemma malformed_story:
  assumes "\<not> wellFormed action" and "action \<in> set (actions story)"
  shows "executeStory acts story env s \<noteq> (Inr (), s')"
proof
  assume "executeStory acts story env s = (Inr (), s')"
  then obtain ys s1 where "forIO (actions story) (executeAction acts env) s = (Inr ys, s1)"
    unfolding executeStory_def by (elim bindIO_InrE)
  moreover have "forIO (actions story) (executeAction acts env) s \<noteq> (Inr ys, s1)"
    by (rule forIO_stops [OF assms(2)]) (rule malformed_throws [OF assms(1)])
  ultimately show False by blast
qed

text \<open>A malformed action is rejected before anything is read or sent, so no story with one passes.\<close>

theorem malformed_actions_rejected:
  assumes "\<not> wellFormed action"
  shows "(\<exists>e. executeAction acts env action s = (Inl e, s)) \<and>
    (action \<in> set (actions story) \<longrightarrow> executeStory acts story env s \<noteq> (Inr (), s'))"
  using malformed_throws [OF assms] malformed_story [OF assms] by blast

lemma keeps_chain_forIO [chain_keeps]: "(\<And>x. x \<in> set xs \<Longrightarrow> keeps_chain (f x)) \<Longrightarrow> keeps_chain (forIO xs f)"
  by (induction xs) (auto intro!: chain_keeps)

definition checksNothing :: "story_action \<Rightarrow> bool" where
  "checksNothing action \<longleftrightarrow>
     (case action_expected action of None \<Rightarrow> True | Some expected \<Rightarrow> expected \<notin> {''success'', ''revert''}) \<and>
     (case action_name action of None \<Rightarrow> True
      | Some name \<Rightarrow> name \<notin> {''mint'', ''approve'', ''approveVault'', ''delegateBorrowAllowance''})"

lemma keeps_chain_checksNothing:
  assumes "checksNothing action"
  shows "keeps_chain (executeAction (sturdyActions S) env action)"
    "keeps_chain (executeAction (ftmActions S) env action)"
  using assms unfolding executeAction_def checksNothing_def
  by (auto intro!: chain_keeps unknown_outcome_dispatch simp: truthy_def split: option.splits)


definition withRateMode :: "string \<Rightarrow> story_action \<Rightarrow> story_action" where
  "withRateMode mode action =
     action\<lparr>action_args := map_option (\<lambda>args. obj_set ''borrowRateMode'' mode args) (action_args action)\<rparr>"

lemma dispatch_args:
  assumes "\<And>key. key \<noteq> ''borrowRateMode'' \<Longrightarrow> obj_get args key = obj_get args' key"
  shows "dispatch acts name args reserve user expected message mode env =
    dispatch acts name args' reserve user expected message mode env"
  using assms unfolding dispatch_def Let_def by simp

lemma dispatch_message:
  "name \<noteq> ''delegateBorrowAllowance'' \<Longrightarrow>
   dispatch acts name args reserve user expected message mode env =
   dispatch acts name args reserve user expected message' mode env"
  unfolding dispatch_def Let_def by simp

lemma rate_mode_stable:
  "executeAction acts env (withRateMode ''stable'' action) = executeAction acts env (withRateMode ''variable'' action)"
proof (cases "action_args action")
  case None
  then show ?thesis by (simp add: executeAction_def withRateMode_def)
next
  case (Some args)
  have "dispatch acts name (obj_set ''borrowRateMode'' mode args) reserve user expected message mode' env =
      dispatch acts name args reserve user expected message mode' env" for name mode reserve user expected message mode'
    by (rule dispatch_args) simp
  with Some show ?thesis by (simp add: executeAction_def withRateMode_def rateModeOf_def truthy_def)
qed

lemma message_ignored:
  assumes "action_name action \<noteq> Some ''delegateBorrowAllowance''"
  shows "executeAction acts env (action\<lparr>action_revertMessage := message\<rparr>) = executeAction acts env action"
proof (cases action)
  case (fields name args expected message')
  show ?thesis
  proof (cases name)
    case None
    with fields show ?thesis by (simp add: executeAction_def needed_def truthy_def split: option.split)
  next
    case (Some n)
    with assms fields have "n \<noteq> ''delegateBorrowAllowance''" by simp
    then have "dispatch acts n a r u e message mode env = dispatch acts n a r u e message' mode env" for a r u e mode
      by (rule dispatch_message)
    with fields Some show ?thesis by (simp add: executeAction_def needed_def split: option.split)
  qed
qed

text \<open>The engine runs a stable rate mode as the variable one, and looks at a revert message only for a
  delegation.\<close>

theorem stable_runs_as_variable:
  "executeAction acts env (withRateMode ''stable'' action) = executeAction acts env (withRateMode ''variable'' action)
   \<and> (action_name action \<noteq> Some ''delegateBorrowAllowance'' \<longrightarrow>
      executeAction acts env (action\<lparr>action_revertMessage := message\<rparr>) = executeAction acts env action)"
  using rate_mode_stable message_ignored by blast

section \<open>Examples\<close>

lemma sample_passes:
  "depositThrough sampleSuite ''pool'' ''deposit''
     (\<lambda>reserve amountToDeposit. [Str reserve, Str amountToDeposit, Str ''0xA3'', Str ''0''])
     ''DAI'' ''100'' (Some ''0xA3'') ''0xA3'' None ''success'' sampleEnv (sampleSuiteWorld, False) =
   (Inr (), (sampleSuiteWorld, True))"
  using sample_deposit_passes by (simp add: deposit_def)

lemma sample_laws: "bignumber_laws (sbn sampleSuite) (\<lambda>x. x) 0 ROUND_DOWN"
  using rational.bignumber_laws_axioms by (simp add: sampleSuite_simps)


theorem deposit_compares_wrong_debt_witness:
  "\<exists>before userBefore t (userAfter :: rat option UserReserveData).
     withinThree (\<lambda>x. x) (u_principalStableDebt userAfter)
       (calcExpectedVariableDebtTokenBalance (big sampleTools) before userBefore t)"
proof -
  have member: "sampleSuite \<in> {sturdySuite sampleTools sampleChain sampleParams False,
      ftmSuite sampleTools sampleChain sampleParams False}"
    by (simp add: sampleSuite_def)
  have laws: "bignumber_laws (big sampleTools) (\<lambda>x. x) 0 ROUND_DOWN"
    using sample_laws by (simp add: sampleSuite_simps)
  from deposit_compares_wrong_debt [OF sample_passes member laws] show ?thesis by blast
qed

definition sampleBorrow :: "string \<Rightarrow> story_action" where
  "sampleBorrow expected =
     \<lparr>action_name = Some ''borrow'',
      action_args = Some [(''reserve'', ''DAI''), (''amount'', ''1''), (''user'', ''0''), (''borrowRateMode'', ''stable'')],
      action_expected = Some expected, action_revertMessage = Some ''the message''\<rparr>"

theorem malformed_actions_rejected_witness:
  "\<exists>e. executeAction (sturdyActions sampleSuite) sampleEnv ((sampleBorrow ''success'')\<lparr>action_name := Some ''burrow''\<rparr>)
     (sampleSuiteWorld, False) = (Inl e, (sampleSuiteWorld, False))"
  by (rule malformed_actions_rejected [THEN conjunct1])
    (simp add: wellFormed_def sampleBorrow_def actionNames_def)


theorem stable_runs_as_variable_witness:
  "executeAction (sturdyActions sampleSuite) sampleEnv ((sampleBorrow ''revert'')\<lparr>action_revertMessage := None\<rparr>) =
   executeAction (sturdyActions sampleSuite) sampleEnv (sampleBorrow ''revert'')"
  using stable_runs_as_variable [of "sturdyActions sampleSuite" sampleEnv "sampleBorrow ''revert''" None]
  by (simp add: sampleBorrow_def)

end
