(* ===== verification/MakeSuite.thy ===== *)
theory MakeSuite
  imports ScenarioEngine
begin

text \<open>
  \<open>test-suites/*/helpers/make-suite.ts\<close>: the environment of the tests, filled from the registry, the
  configuration and the chain by \<open>initializeMakeSuite\<close>, and the snapshot around a suite. The live
  chain also answers the list views of the data provider and takes snapshots: \<open>test_node\<close>.
\<close>

record 'c test_node = "'c live_chain" +
  tokenList :: "'c \<Rightarrow> address \<Rightarrow> string \<Rightarrow> (string \<times> address) list"
  evmSnapshot :: "('c, error, string) io"
  evmRevert :: "string \<Rightarrow> ('c, error, unit) io"
  tenderlyGetHead :: "('c, error, string option) io"
  tenderlySetHead :: "string \<Rightarrow> ('c, error, unit) io"

abbreviation liveOf :: "'c test_node \<Rightarrow> 'c live_chain" where
  "liveOf node \<equiv> live_chain.truncate node"

record suite_env = test_env +
  ownerUser :: "address option"
  registryOwnerSigner :: "address option"

text \<open>The environment of the module, before any initialization.\<close>

definition emptyEnv :: suite_env where
  "emptyEnv = \<lparr>deployer = '''', emergencyUser = '''', users = [], env_contracts = [], ownerUser = None,
     registryOwnerSigner = None\<rparr>"

section \<open>Steps of both suites\<close>

text \<open>\<open>testEnv.name = await getter()\<close>, one after the other.\<close>

fun assignContracts :: "(string \<times> handle script) list \<Rightarrow> handle jsobj \<Rightarrow> ('c, handle jsobj) suite_script" where
  "assignContracts [] cs = returnIO cs"
| "assignContracts ((name, getter) # rest) cs =
     bindIO (onWorld getter) (\<lambda>h. assignContracts rest (obj_set name h cs))"

text \<open>\<open>X__factory.connect(address, deployer.signer)\<close>; ethers refuses \<open>undefined\<close>.\<close>

definition connectTo :: "string \<Rightarrow> address option \<Rightarrow> address \<Rightarrow> handle script" where
  "connectTo factory a signer = (case a of
     None \<Rightarrow> throwIO (InvalidArgument ''invalid contract address or ENS name'')
   | Some s \<Rightarrow> returnIO (connectAt factory s (Some signer)))"

text \<open>\<open>connectTo\<close> at a configured address, and a getter at one.\<close>

definition connectParam :: "string \<Rightarrow> string jsobj option \<Rightarrow> address \<Rightarrow> handle script" where
  "connectParam factory param signer = bindIO (configuredParam param) (\<lambda>a. connectTo factory a signer)"

definition getAt :: "(address \<Rightarrow> handle script) \<Rightarrow> string jsobj option \<Rightarrow> handle script" where
  "getAt getter param = bindIO (configuredParam param) (\<lambda>a. getter (case a of None \<Rightarrow> '''' | Some s \<Rightarrow> s))"

text \<open>\<open>tokens.find((t) => t.symbol === ...)?.tokenAddress\<close>\<close>

definition tokenNamed :: "string list \<Rightarrow> (string \<times> address) list \<Rightarrow> address option" where
  "tokenNamed symbols tokens = map_option snd (find (\<lambda>(symbol, a). symbol \<in> set symbols) tokens)"

text \<open>The symbols of the token of a reserve: with the prefix of the old market and the new one.\<close>

definition aTokenOf :: "string \<Rightarrow> (string \<times> address) list \<Rightarrow> address option" where
  "aTokenOf symbol = tokenNamed [''a'' @ symbol, ''s'' @ symbol]"

text \<open>An account of the live network taken over, with ether from the first signer.\<close>

definition impersonateFunded ::
  "'n tools \<Rightarrow> 'c test_node \<Rightarrow> address \<Rightarrow> string \<Rightarrow> address \<Rightarrow> ('c, address) suite_script" where
  "impersonateFunded t node sender ether account =
     thenIO (onWorld (impersonateAccountsHardhat [account])) (
     bindIO (liftError (parseEther t ether)) (\<lambda>amount.
     bindIO (onChain (chain_send node sender account '''' [] (Some amount))) (\<lambda>_. returnIO account)))"

definition firstSigners :: "('c, address \<times> address list) suite_script" where
  "firstSigners = bindIO (onWorld getEthersSigners) (\<lambda>signers. case signers of
     d # e # rest \<Rightarrow> returnIO (d, e # rest)
   | _ \<Rightarrow> throwIO (TypeError ''getAddress''))"

text \<open>The registry, with what a suite assigns beside it on a fork and otherwise.\<close>

definition assignRegistry ::
  "PoolConfiguration \<Rightarrow> (string \<times> handle script) list \<Rightarrow> (string \<times> handle script) list \<Rightarrow> handle jsobj \<Rightarrow>
   ('c, handle jsobj \<times> address option) suite_script" where
  "assignRegistry poolConfig forkContracts liveContracts cs =
     bindIO (onWorld (getsIO env_FORK)) (\<lambda>fork.
     if truthy fork then
       bindIO (onWorld (configuredParam (Some (ProviderRegistry SturdyConfig)))) (\<lambda>registry.
       bindIO (assignContracts
                 ((''registry'', getLendingPoolAddressesProviderRegistry registry) # forkContracts) cs) (\<lambda>cs.
       bindIO (onWorld (configuredParam (Some (ProviderRegistryOwner (commonConfiguration poolConfig)))))
         (\<lambda>providerRegistryOwner.
       bindIO (if truthy providerRegistryOwner then returnIO providerRegistryOwner else onWorld getFirstSigner)
         (\<lambda>signer. returnIO (cs, signer)))))
     else
       bindIO (assignContracts
                 ((''registry'', getLendingPoolAddressesProviderRegistry None) # liveContracts) cs) (\<lambda>cs.
       returnIO (cs, None)))"

text \<open>\<open>getPriceOracle(await testEnv.addressesProvider.getPriceOracle())\<close>\<close>

definition oracleOfProvider :: "handle jsobj \<Rightarrow> handle script" where
  "oracleOfProvider cs = (case obj_get cs ''addressesProvider'' of
     None \<Rightarrow> throwIO (TypeError ''addressesProvider'')
   | Some provider \<Rightarrow> bindIO (getPriceOracle_addr provider) (\<lambda>a. getPriceOracle (Some a)))"

definition listedTokens :: "'c test_node \<Rightarrow> handle \<Rightarrow> string \<Rightarrow> ('c, (string \<times> address) list) suite_script" where
  "listedTokens node helpersContract method =
     getsIO (\<lambda>(w, c). tokenList node c (h_address helpersContract) method)"

section \<open>The Sturdy suite\<close>

definition sturdyDeployers ::
  "'n tools \<Rightarrow> 'c test_node \<Rightarrow> string \<Rightarrow> address \<Rightarrow> address list \<Rightarrow> address option \<Rightarrow>
   ('c, address \<times> address \<times> address option) suite_script" where
  "sturdyDeployers t node network firstSigner restSigners ownerAccount =
     bindIO (if network = ''goerli'' then
               bindIO (impersonateFunded t node firstSigner ''90000'' ''0x661fB502E24Deb30e927E39A38Bd2CC44D67339F'') (\<lambda>d.
               bindIO (impersonateFunded t node firstSigner ''90000'' ''0x05d75FB9db95AfC448d9F79c016ab027320acEc7'') (\<lambda>e.
               returnIO (d, e)))
             else returnIO (firstSigner, hd restSigners)) (\<lambda>(d, e).
     bindIO (if network = ''main'' then
               bindIO (impersonateFunded t node firstSigner ''90000'' ''0x48Cc0719E3bF9561D861CB98E863fdA0CEB07Dbc'')
                 (\<lambda>a. returnIO (Some a))
             else returnIO ownerAccount) (\<lambda>ownerAccount.
     returnIO (d, e, ownerAccount)))"

definition sturdyVaultContracts :: "(string \<times> handle script) list" where
  "sturdyVaultContracts =
     [(''pool'', getLendingPool None),
      (''lidoVault'', getLidoVault None),
      (''convexFRAX3CRVVault'', getConvexFRAX3CRVVault None),
      (''convexMIM3CRVVault'', getConvexMIM3CRVVault None),
      (''convexDAIUSDCUSDTSUSDVault'', getConvexDAIUSDCUSDTSUSDVault None),
      (''convexFRAXUSDCVault'', getConvexFRAXUSDCVault None),
      (''convexTUSDFRAXBPVault'', getConvexTUSDFRAXBPVault None),
      (''auraBBA3USDVault'', getAuraBBA3USDVault None)]"

text \<open>The vaults asked for their internal assets, and the names of the assets.\<close>

definition sturdyInternalAssets :: "(string \<times> string) list" where
  "sturdyInternalAssets =
     [(''convexFRAX3CRVVault'', ''cvxfrax_3crv''),
      (''convexMIM3CRVVault'', ''cvxmim_3crv''),
      (''convexDAIUSDCUSDTSUSDVault'', ''cvxdai_usdc_usdt_susd''),
      (''convexFRAXUSDCVault'', ''cvxfrax_usdc''),
      (''convexTUSDFRAXBPVault'', ''cvxtusd_fraxbp''),
      (''auraBBA3USDVault'', ''aurabb_a3_usd'')]"

definition internalAssetOf :: "'c test_node \<Rightarrow> handle jsobj \<Rightarrow> string \<Rightarrow> ('c, string) suite_script" where
  "internalAssetOf node cs vault = (case obj_get cs vault of
     None \<Rightarrow> throwIO (TypeError vault) | Some h \<Rightarrow> view (liveOf node) h ''getInternalAsset'' [])"

definition sturdyProtocolContracts :: "(string \<times> handle script) list" where
  "sturdyProtocolContracts =
     [(''incentiveController'', getSturdyIncentivesController None),
      (''yieldManager'', getYieldManager None),
      (''levSwapManager'', getLeverageSwapManager None),
      (''variableYieldDistributor'', getVariableYieldDistribution None),
      (''configurator'', getLendingPoolConfiguratorProxy None),
      (''addressesProvider'', getLendingPoolAddressesProvider None)]"

text \<open>The name of each token of a reserve, the symbol of the reserve, and whether the suite exits
  without it; the one of \<open>aAURADAI_USDC_USDT\<close> is looked up and not used.\<close>

definition sturdyATokens :: "(string \<times> string \<times> bool) list" where
  "sturdyATokens =
     [(''aDai'', ''DAI'', True), (''aStETH'', ''stETH'', True), (''aCVXFRAX_3CRV'', ''cvxFRAX_3CRV'', True),
      (''aCVXMIM_3CRV'', ''cvxMIM_3CRV'', True), (''aCVXDAI_USDC_USDT_SUSD'', ''cvxDAI_USDC_USDT_SUSD'', True),
      (''aCVXFRAX_USDC'', ''cvxFRAX_USDC'', True), (''aCVXTUSD_FRAXBP'', ''cvxTUSD_FRAXBP'', True),
      (''aAURABB_A3_USD'', ''auraBB_A3_USD'', True), (''aUsdc'', ''USDC'', False), (''aUsdt'', ''USDT'', False)]"

text \<open>The name of each reserve token in the environment, its symbol and its getter.\<close>

definition sturdyReserveTokens :: "(string \<times> string \<times> (address \<Rightarrow> handle script)) list" where
  "sturdyReserveTokens =
     [(''dai'', ''DAI'', getMintableERC20), (''usdc'', ''USDC'', getMintableERC20),
      (''usdt'', ''USDT'', getMintableERC20)]"

text \<open>\<open>if (!a || ...) process.exit(1)\<close>, then the contracts of the tokens.\<close>

definition tokenContracts ::
  "(string \<times> string \<times> bool) list \<Rightarrow> (string \<times> string \<times> (address \<Rightarrow> handle script)) list \<Rightarrow>
   (string \<Rightarrow> address option) \<Rightarrow> (string \<Rightarrow> address option) \<Rightarrow>
   ('c, (string \<times> handle script) list) suite_script" where
  "tokenContracts aTokenNames baseTokens aTokenAt reserveAt =
     thenIO (requireIO (\<forall>(name, symbol, required) \<in> set aTokenNames. required \<longrightarrow> truthy (aTokenAt symbol)) (ProcessExit 1)) (
     thenIO (requireIO (\<forall>(name, symbol, getter) \<in> set baseTokens. truthy (reserveAt symbol)) (ProcessExit 1)) (
     returnIO
       (map (\<lambda>(name, symbol, required). (name, getAToken (aTokenAt symbol))) aTokenNames @
        map (\<lambda>(name, symbol, getter). (name, getter (the (reserveAt symbol)))) baseTokens)))"

definition sturdyTokenContracts :: "PoolConfiguration \<Rightarrow> address \<Rightarrow> (string \<times> handle script) list" where
  "sturdyTokenContracts poolConfig signer =
     (let lp = (\<lambda>field. getAt getMintableERC20 (sturdyField field poolConfig));
          erc20 = (\<lambda>param. connectParam ''IERC20Detailed'' param signer) in
      [(''brick'', getSturdyToken None),
       (''lido'', connectParam ''ILido'' (sturdyField Lido poolConfig) signer),
       (''FRAX_3CRV_LP'', lp FRAX_3CRV_LP),
       (''MIM_3CRV_LP'', lp MIM_3CRV_LP),
       (''DAI_USDC_USDT_SUSD_LP'', lp DAI_USDC_USDT_SUSD_LP),
       (''FRAX_USDC_LP'', lp FRAX_USDC_LP),
       (''TUSD_FRAXBP_LP'', lp TUSD_FRAXBP_LP),
       (''BAL_BB_A3_USD_LP'', lp BAL_BB_A3_USD_LP),
       (''WETH'', erc20 (Some (WETH (commonConfiguration poolConfig)))),
       (''CRV'', erc20 (CRV_field poolConfig)),
       (''CVX'', erc20 (sturdyField CVX poolConfig)),
       (''BAL'', erc20 (sturdyField BAL poolConfig)),
       (''AURA'', erc20 (sturdyField AURA poolConfig)),
       (''TUSD'', erc20 (sturdyField TUSD poolConfig)),
       (''FRAX'', erc20 (sturdyField FRAX poolConfig)),
       (''MIM'', erc20 (sturdyField MIM poolConfig))])"

definition initializeMakeSuite :: "'n tools \<Rightarrow> 'c test_node \<Rightarrow> suite_env \<Rightarrow> ('c, suite_env) suite_script" where
  "initializeMakeSuite t node env =
     bindIO (onWorld (currentPoolConfig ''Sturdy'')) (\<lambda>poolConfig.
     bindIO (onWorld (getsIO currentNetwork)) (\<lambda>network.
     bindIO firstSigners (\<lambda>(firstSigner, restSigners).
     bindIO (sturdyDeployers t node network firstSigner restSigners (ownerUser env)) (\<lambda>(d, e, ownerAccount).
     bindIO (assignContracts sturdyVaultContracts (env_contracts env)) (\<lambda>cs.
     bindIO (forIO sturdyInternalAssets (\<lambda>(vault, name). internalAssetOf node cs vault)) (\<lambda>internalAssets.
     bindIO (assignContracts sturdyProtocolContracts cs) (\<lambda>cs.
     bindIO (assignContracts
               [(''oracle'', oracleOfProvider cs),
                (''aprProvider'', getSturdyAPRDataProvider None),
                (''vaultWhitelist'', getVaultWhitelist (Some ''0x88eE44794bAf865E3b0b192d1F9f0AC3Daf1EA0E''))] cs) (\<lambda>cs.
     bindIO (assignRegistry poolConfig [] [] cs) (\<lambda>(cs, registryOwner).
     bindIO (onWorld (getSturdyProtocolDataProvider None)) (\<lambda>helpersContract.
     bindIO (listedTokens node helpersContract ''getAllATokens'') (\<lambda>allTokens.
     bindIO (listedTokens node helpersContract ''getAllReservesTokens'') (\<lambda>reservesTokens.
     bindIO (tokenContracts sturdyATokens sturdyReserveTokens (\<lambda>symbol. aTokenOf symbol allTokens)
               (\<lambda>symbol. tokenNamed [symbol] reservesTokens)) (\<lambda>tokens.
     bindIO (assignContracts
               (tokens @ sturdyTokenContracts poolConfig d @
                map2 (\<lambda>(vault, name) a. (name, connectTo ''SturdyInternalAsset'' (Some a) d))
                  sturdyInternalAssets internalAssets)
               (obj_set ''helpersContract'' helpersContract cs)) (\<lambda>cs.
     returnIO
       \<lparr>deployer = d, emergencyUser = e, users = users env @ restSigners, env_contracts = cs,
        ownerUser = ownerAccount,
        registryOwnerSigner = (if registryOwner = None then registryOwnerSigner env else registryOwner)\<rparr>))))))))))))))"

section \<open>The Fantom suite\<close>

definition ftmDeployers ::
  "'n tools \<Rightarrow> 'c test_node \<Rightarrow> bool \<Rightarrow> string \<Rightarrow> address \<Rightarrow> address list \<Rightarrow> ('c, address \<times> address) suite_script" where
  "ftmDeployers t node skipDeploy network firstSigner restSigners =
     (let takeOver = impersonateFunded t node firstSigner ''9000'' in
      if network = ''ftm_test'' then
        bindIO (takeOver ''0x661fB502E24Deb30e927E39A38Bd2CC44D67339F'') (\<lambda>d.
        bindIO (takeOver ''0x05d75FB9db95AfC448d9F79c016ab027320acEc7'') (\<lambda>e. returnIO (d, e)))
      else if network = ''ftm'' \<and> skipDeploy then
        bindIO (takeOver ''0x48Cc0719E3bF9561D861CB98E863fdA0CEB07Dbc'') (\<lambda>d.
        bindIO (takeOver ''0xc4bb97d8c974221faed7b023736b990cA3EF1C5d'') (\<lambda>e. returnIO (d, e)))
      else returnIO (firstSigner, hd restSigners))"

definition ftmContracts :: "(string \<times> handle script) list" where
  "ftmContracts =
     [(''pool'', getLendingPool None),
      (''yearnVault'', getYearnVault None),
      (''beefyETHVault'', getBeefyETHVault None),
      (''yearnWETHVault'', getYearnWETHVault None),
      (''yearnWBTCVault'', getYearnWBTCVault None),
      (''yearnBOOVault'', getYearnBOOVault None),
      (''TombFtmBeefyVault'', getTombFtmBeefyVault None),
      (''TombMiMaticBeefyVault'', getTombMiMaticBeefyVault None),
      (''BasedMiMaticBeefyVault'', getBasedMiMaticBeefyVault None),
      (''yearnFBEETSVault'', getYearnFBEETSVault None),
      (''yearnLINKVault'', getYearnLINKVault None),
      (''yearnCRVVault'', getYearnCRVVault None),
      (''yearnSPELLVault'', getYearnSPELLVault None),
      (''incentiveController'', getSturdyIncentivesController None),
      (''configurator'', getLendingPoolConfiguratorProxy None),
      (''addressesProvider'', getLendingPoolAddressesProvider None)]"

text \<open>Of several tokens of \<open>yvWBTC\<close> the second one is taken.\<close>

definition ftmATokenAt :: "(string \<times> address) list \<Rightarrow> string \<Rightarrow> address option" where
  "ftmATokenAt allTokens symbol =
     (if symbol = ''yvWBTC'' then
        case filter (\<lambda>(s, a). s \<in> {''ayvWBTC'', ''syvWBTC''}) allTokens of
          _ # (s, a) # _ \<Rightarrow> Some a
        | _ \<Rightarrow> aTokenOf symbol allTokens
      else aTokenOf symbol allTokens)"

definition ftmATokens :: "(string \<times> string \<times> bool) list" where
  "ftmATokens =
     [(''aDai'', ''DAI'', True), (''aYVWFTM'', ''yvWFTM'', True), (''aYVWETH'', ''yvWETH'', True),
      (''aYVWBTC'', ''yvWBTC'', True), (''aYVBOO'', ''yvBOO'', True), (''aMooTOMB_FTM'', ''mooTOMB_FTM'', True),
      (''aMooTOMB_MIMATIC'', ''mooTOMB_MIMATIC'', True), (''aMooBASED_MIMATIC'', ''mooBASED_MIMATIC'', True),
      (''aYVFBEETS'', ''yvfBEETS'', True), (''aYVLINK'', ''yvLINK'', True), (''aYVCRV'', ''yvCRV'', True),
      (''aYVSPELL'', ''yvSPELL'', True), (''aUsdc'', ''USDC'', True), (''aUsdt'', ''fUSDT'', True)]"

definition ftmReserveTokens :: "string \<Rightarrow> (string \<times> string \<times> (address \<Rightarrow> handle script)) list" where
  "ftmReserveTokens network =
     [(''dai'', ''DAI'', getMintableERC20), (''usdc'', ''USDC'', getSwapinERC20),
      (''usdt'', if network = ''ftm_test'' then ''USDT'' else ''fUSDT'', getMintableERC20)]"

definition ftmTokenContracts :: "PoolConfiguration \<Rightarrow> address \<Rightarrow> (string \<times> handle script) list" where
  "ftmTokenContracts poolConfig signer =
     (let config = commonConfiguration poolConfig;
          mintable = getAt getMintableERC20; swapin = getAt getSwapinERC20;
          vault = (\<lambda>field. connectParam ''IERC20Detailed'' (fantomField field poolConfig) signer) in
      [(''WFTM'', mintable (Some (WFTM config))),
       (''WETH'', swapin (Some (WETH config))),
       (''WBTC'', swapin (Some (WBTC config))),
       (''BOO'', mintable (fantomField BOO poolConfig)),
       (''TOMB_FTM_LP'', mintable (fantomField TOMB_FTM_LP poolConfig)),
       (''TOMB_MIMATIC_LP'', mintable (fantomField TOMB_MIMATIC_LP poolConfig)),
       (''BASED_MIMATIC_LP'', mintable (fantomField BASED_MIMATIC_LP poolConfig)),
       (''fBEETS'', mintable (fantomField fBEETS poolConfig)),
       (''BEETS'', mintable (fantomField BEETS poolConfig)),
       (''LINK'', mintable (fantomField LINK poolConfig)),
       (''CRV'', mintable (CRV_field poolConfig)),
       (''SPELL'', mintable (fantomField SPELL poolConfig)),
       (''brick'', getSturdyToken None),
       (''yvwftm'', vault YearnVaultFTM),
       (''yvweth'', vault YearnWETHVaultFTM),
       (''yvwbtc'', vault YearnWBTCVaultFTM),
       (''yvboo'', vault YearnBOOVaultFTM),
       (''mootomb_ftm'', vault BeefyVaultTOMB_FTM),
       (''mootomb_mimatic'', vault BeefyVaultTOMB_MIMATIC),
       (''moobased_mimatic'', vault BeefyVaultBASED_MIMATIC),
       (''yvfbeets'', vault YearnFBEETSVaultFTM),
       (''yvlink'', vault YearnLINKVaultFTM),
       (''yvcrv'', vault YearnCRVVaultFTM),
       (''yvspell'', vault YearnSPELLVaultFTM)])"

definition ftm_initializeMakeSuite ::
  "'n tools \<Rightarrow> 'c test_node \<Rightarrow> bool \<Rightarrow> suite_env \<Rightarrow> ('c, suite_env) suite_script" where
  "ftm_initializeMakeSuite t node skipDeploy env =
     bindIO (onWorld (currentPoolConfig ''Fantom'')) (\<lambda>poolConfig.
     bindIO (onWorld (getsIO currentNetwork)) (\<lambda>network.
     bindIO firstSigners (\<lambda>(firstSigner, restSigners).
     bindIO (ftmDeployers t node skipDeploy network firstSigner restSigners) (\<lambda>(d, e).
     bindIO (assignContracts ftmContracts (env_contracts env)) (\<lambda>cs.
     bindIO (assignRegistry poolConfig [(''oracle'', oracleOfProvider cs)] [(''oracle'', getPriceOracle None)] cs)
       (\<lambda>(cs, registryOwner).
     bindIO (onWorld (getSturdyProtocolDataProvider None)) (\<lambda>helpersContract.
     bindIO (listedTokens node helpersContract ''getAllATokens'') (\<lambda>allTokens.
     bindIO (listedTokens node helpersContract ''getAllReservesTokens'') (\<lambda>reservesTokens.
     bindIO (tokenContracts ftmATokens (ftmReserveTokens network) (ftmATokenAt allTokens)
               (\<lambda>symbol. tokenNamed [symbol] reservesTokens)) (\<lambda>tokens.
     bindIO (assignContracts (tokens @ ftmTokenContracts poolConfig d)
               (obj_set ''helpersContract'' helpersContract cs)) (\<lambda>cs.
     returnIO
       \<lparr>deployer = d, emergencyUser = e, users = users env @ restSigners, env_contracts = cs,
        ownerUser = ownerUser env,
        registryOwnerSigner = (if registryOwner = None then registryOwnerSigner env else registryOwner)\<rparr>)))))))))))"

section \<open>Snapshots\<close>

text \<open>The two copies of \<open>setSnapshot\<close>, \<open>revertHead\<close> and \<open>makeSuite\<close> are the same text. The identifier of
  the snapshot is a variable of the module; \<open>before\<close> and \<open>after\<close> run the hooks around the tests, and
  \<open>after\<close> runs also when a test fails.\<close>

definition setSnapshot :: "'c test_node \<Rightarrow> ('c, string) suite_script" where
  "setSnapshot node =
     bindIO (onWorld (getsIO usingTenderly)) (\<lambda>tenderly.
     if tenderly then
       bindIO (onChain (tenderlyGetHead node)) (\<lambda>head. returnIO (if truthy head then the head else ''0x1''))
     else onChain (evmSnapshot node))"

definition revertHead :: "'c test_node \<Rightarrow> string \<Rightarrow> ('c, unit) suite_script" where
  "revertHead node buidlerevmSnapshotId =
     bindIO (onWorld (getsIO usingTenderly)) (\<lambda>tenderly.
     if tenderly then onChain (tenderlySetHead node buidlerevmSnapshotId)
     else onChain (evmRevert node buidlerevmSnapshotId))"

text \<open>The result of the tests, and the identifier left in the module.\<close>

definition makeSuite ::
  "'c test_node \<Rightarrow> ('c, unit) suite_script \<Rightarrow> string \<Rightarrow> ('c, (error + unit) \<times> string) suite_script" where
  "makeSuite node tests snapshotId =
     bindIO (onWorld (getsIO network_name)) (\<lambda>network.
     bindIO (if network \<noteq> ''goerli'' then setSnapshot node else returnIO snapshotId) (\<lambda>snapshotId.
     bindIO (\<lambda>s. case tests s of (r, s') \<Rightarrow> (Inr r, s')) (\<lambda>outcome.
     thenIO (if network \<noteq> ''goerli'' then revertHead node snapshotId else returnIO ())
       (returnIO (outcome, snapshotId)))))"

end
