(* ===== verification/SuiteChecks.thy ===== *)
theory SuiteChecks
  imports MakeSuite SampleScenario
begin

text \<open>
  What an initialized environment offers: the contracts every action of the scenarios takes from it.
\<close>

section \<open>Assigned names\<close>

declare assignContracts.simps [simp del]

text \<open>A script whose results, when there are any, have a property.\<close>

definition yields :: "('c, 'a) suite_script \<Rightarrow> ('a \<Rightarrow> bool) \<Rightarrow> bool" where
  "yields m P \<longleftrightarrow> (\<forall>s x s'. m s = (Inr x, s') \<longrightarrow> P x)"

lemma yieldsD: "yields m P \<Longrightarrow> m s = (Inr x, s') \<Longrightarrow> P x"
  unfolding yields_def by blast

lemma yields_any: "(\<And>x. yields (f x) P) \<Longrightarrow> yields (bindIO m f) P"
  by (fastforce simp: yields_def elim: bindIO_InrE)

lemma suite_yields_bind: "yields m Q \<Longrightarrow> (\<And>x. Q x \<Longrightarrow> yields (f x) P) \<Longrightarrow> yields (bindIO m f) P"
  by (fastforce simp: yields_def elim: bindIO_InrE)

lemma suite_yields_return: "P x \<Longrightarrow> yields (returnIO x) P"
  by (simp add: yields_def returnIO_run)

lemma suite_yields_if: "(b \<Longrightarrow> yields m P) \<Longrightarrow> (\<not> b \<Longrightarrow> yields k P) \<Longrightarrow> yields (if b then m else k) P"
  by simp

abbreviation offers :: "string \<Rightarrow> handle jsobj \<Rightarrow> bool" where
  "offers name cs \<equiv> obj_get cs name \<noteq> None"

lemma yields_assigned: "offers name cs \<or> name \<in> fst ` set xs \<Longrightarrow> yields (assignContracts xs cs) (offers name)"
proof (induction xs cs rule: assignContracts.induct)
  case (2 n getter rest cs)
  then show ?case by (auto simp: assignContracts.simps intro!: yields_any)
qed (simp add: assignContracts.simps suite_yields_return)

lemma yields_assignRegistry:
  "offers name cs \<Longrightarrow> yields (assignRegistry poolConfig forkContracts liveContracts cs) (\<lambda>p. offers name (fst p))"
  unfolding assignRegistry_def
  by (intro yields_any suite_yields_if suite_yields_bind [OF yields_assigned])
    (auto simp: yields_def returnIO_run)

lemma yields_tokenContracts:
  "yields (tokenContracts aTokenNames baseTokens f g) (\<lambda>tokens. fst ` set baseTokens \<subseteq> fst ` set tokens)"
  unfolding tokenContracts_def thenIO_def
  by (intro yields_any suite_yields_return) (force simp: image_iff)

lemma yields_assigned_tokens:
  assumes "fst ` set baseTokens \<subseteq> fst ` set tokens"
    and "offers name cs \<or> name \<in> fst ` set baseTokens \<or> name \<in> fst ` set rest"
  shows "yields (assignContracts (tokens @ rest) cs) (offers name)"
  using assms by (intro yields_assigned) auto

section \<open>The contracts of the actions\<close>

text \<open>What the actions of the scenarios take from the environment.\<close>

definition sturdyActionContracts :: "string list" where
  "sturdyActionContracts = [''pool'', ''helpersContract'', ''lidoVault''] @ map (snd \<circ> snd) sturdyMintSources"

definition ftmActionContracts :: "string list" where
  "ftmActionContracts = [''pool'', ''helpersContract'', ''yearnVault''] @ map (snd \<circ> snd) ftmMintSources"

text \<open>Follows the steps of an initialization to the one that assigns the name.\<close>

lemma sturdy_environment_offers:
  assumes "name \<in> set sturdyActionContracts"
  shows "yields (initializeMakeSuite t node env) (\<lambda>env'. offers name (env_contracts env'))"
proof -
  have sources: "name \<in> fst ` set sturdyVaultContracts \<or> name = ''helpersContract'' \<or>
      name \<in> fst ` set sturdyReserveTokens \<or> name \<in> fst ` set (sturdyTokenContracts poolConfig d)" for poolConfig d
    using assms
    by (auto simp: sturdyActionContracts_def sturdyMintSources_def sturdyVaultContracts_def sturdyReserveTokens_def
        sturdyTokenContracts_def Let_def)
  show ?thesis
  proof (cases "name \<in> fst ` set sturdyVaultContracts")
    case True
    show ?thesis
      unfolding initializeMakeSuite_def split_def
      by ((rule suite_yields_bind [OF yields_assigned [where name = name]], (simp add: True; fail)) |
          (rule suite_yields_bind [OF yields_assignRegistry [where name = name]], assumption) | rule yields_any | (rule suite_yields_return, simp))+
  next
    case False
    have given: "offers name (obj_set ''helpersContract'' h cs) \<or> name \<in> fst ` set sturdyReserveTokens \<or>
        name \<in> fst ` set (sturdyTokenContracts poolConfig d @ rest)" for h :: handle and cs poolConfig d rest
      using False sources [of poolConfig d] by auto
    show ?thesis
      unfolding initializeMakeSuite_def split_def
      by ((rule suite_yields_bind [OF yields_tokenContracts]) |
          (rule suite_yields_bind [OF yields_assigned_tokens [where name = name]], assumption, rule given) | rule yields_any | (rule suite_yields_return, simp))+
  qed
qed

lemma ftm_environment_offers:
  assumes "name \<in> set ftmActionContracts"
  shows "yields (ftm_initializeMakeSuite t node skipDeploy env) (\<lambda>env'. offers name (env_contracts env'))"
proof -
  have sources: "name \<in> fst ` set ftmContracts \<or> name = ''helpersContract'' \<or>
      name \<in> fst ` set (ftmReserveTokens network) \<or> name \<in> fst ` set (ftmTokenContracts poolConfig d)"
    for network poolConfig d
    using assms
    by (auto simp: ftmActionContracts_def ftmMintSources_def ftmContracts_def ftmReserveTokens_def
        ftmTokenContracts_def Let_def)
  show ?thesis
  proof (cases "name \<in> fst ` set ftmContracts")
    case True
    show ?thesis
      unfolding ftm_initializeMakeSuite_def split_def
      by ((rule suite_yields_bind [OF yields_assigned [where name = name]], (simp add: True; fail)) |
          (rule suite_yields_bind [OF yields_assignRegistry [where name = name]], assumption) | rule yields_any | (rule suite_yields_return, simp))+
  next
    case False
    have given: "offers name (obj_set ''helpersContract'' h cs) \<or> name \<in> fst ` set (ftmReserveTokens network) \<or>
        name \<in> fst ` set (ftmTokenContracts poolConfig d)" for h :: handle and cs network poolConfig d
      using False sources [of network poolConfig d] by auto
    show ?thesis
      unfolding ftm_initializeMakeSuite_def split_def
      by (rule suite_yields_bind [OF yields_tokenContracts] |
          (rule suite_yields_bind [OF yields_assigned_tokens [where name = name]], assumption, rule given) | rule yields_any |
          (rule suite_yields_return, simp))+
  qed
qed

section \<open>Users\<close>

lemma yields_firstSigners: "yields firstSigners (\<lambda>p. snd p \<noteq> [])"
  unfolding firstSigners_def by (rule yields_any) (auto simp: yields_def throwIO_run returnIO_run split: list.splits)

lemma users_grow:
  "yields (initializeMakeSuite t node env) (\<lambda>env'. \<exists>signers. users env' = users env @ signers \<and> signers \<noteq> [])"
  "yields (ftm_initializeMakeSuite t node skipDeploy env) (\<lambda>env'. \<exists>signers. users env' = users env @ signers \<and> signers \<noteq> [])"
  unfolding initializeMakeSuite_def ftm_initializeMakeSuite_def split_def
  by ((rule suite_yields_bind [OF yields_firstSigners] | rule yields_any | (rule suite_yields_return, simp))+)

section \<open>Properties\<close>


section \<open>Example\<close>

definition sampleNode :: "bool test_node" where
  "sampleNode = live_chain.extend sampleChain
     \<lparr>tokenList = (\<lambda>c a method.
        if method = ''getAllATokens'' then map (\<lambda>(name, symbol, required). (''s'' @ symbol, ''0xAA'')) ftmATokens
        else map (\<lambda>(name, symbol, getter). (symbol, ''0xAB'')) (ftmReserveTokens ''ftm'')),
      evmSnapshot = returnIO ''0x1'', evmRevert = (\<lambda>snapshot. returnIO ()), tenderlyGetHead = returnIO None,
      tenderlySetHead = (\<lambda>h. returnIO ())\<rparr>"

definition sampleRegistered :: world where
  "sampleRegistered = (sampleMarket ''ftm'')
     \<lparr>json_db := (\<lambda>key network. Some \<lparr>entry_address = ''0xE0'', entry_deployer = None\<rparr>)\<rparr>"

lemma sampleRegistered_simps:
  "network_name sampleRegistered = ''ftm''" "env_FORK sampleRegistered = None"
  "node_signers sampleRegistered = [''0xA1'', ''0xA2'']" "env_TENDERLY sampleRegistered = None"
  "env_DEFENDER sampleRegistered = None" "asset_writes sampleRegistered = []"
  "json_db sampleRegistered = (\<lambda>key network. Some \<lparr>entry_address = ''0xE0'', entry_deployer = None\<rparr>)"
  by (simp_all add: sampleRegistered_def sampleMarket_eq vault_run_defs)

definition settled :: "handle script \<Rightarrow> bool" where
  "settled getter \<longleftrightarrow> (\<exists>h. getter sampleRegistered = (Inr h, sampleRegistered))"

lemma assignContracts_settled:
  "list_all (settled \<circ> snd) xs \<Longrightarrow>
   \<exists>cs'. assignContracts xs cs (sampleRegistered, c) = (Inr cs', (sampleRegistered, c))"
  by (induction xs cs rule: assignContracts.induct)
    (auto simp: assignContracts.simps returnIO_run bindIO_def onWorld_run settled_def)

lemmas registered_runs = connectOrRegistered_def registeredAddress_def db_get_def sampleRegistered_simps io_run
  getFirstSigner_def getEthersSigners_def usingDefender_def nth_opt_def connectAt_def

lemma settled_registered: "settled (connectOrRegistered factory a key)"
  by (simp add: settled_def registered_runs)

lemma settled_ftmContracts: "list_all (settled \<circ> snd) ftmContracts"
  by (simp add: ftmContracts_def settled_registered getLendingPool_def getYearnVault_def getBeefyETHVault_def
      getYearnWETHVault_def getYearnWBTCVault_def getYearnBOOVault_def getTombFtmBeefyVault_def
      getTombMiMaticBeefyVault_def getBasedMiMaticBeefyVault_def getYearnFBEETSVault_def getYearnLINKVault_def
      getYearnCRVVault_def getYearnSPELLVault_def getSturdyIncentivesController_def
      getLendingPoolConfiguratorProxy_def getLendingPoolAddressesProvider_def)

lemma settled_at: "(\<And>a. settled (getter a)) \<Longrightarrow> settled (getAt getter (Some p))"
  by (simp add: settled_def getAt_def configuredParam_def io_run)

lemma settled_connect: "obj_get p ''ftm'' \<noteq> None \<Longrightarrow> settled (connectParam factory (Some p) d)"
  by (auto simp: settled_def connectParam_def connectTo_def configuredParam_def getParamPerNetwork_def currentNetwork_def
      sampleRegistered_simps io_run)

lemma settled_ftmTokenContracts: "list_all (settled \<circ> snd) (ftmTokenContracts (FantomPool FantomConfig) d)"
  by (simp add: ftmTokenContracts_def Let_def)
   (intro conjI settled_at settled_connect; simp add: getMintableERC20_def getSwapinERC20_def getSturdyToken_def settled_registered MarketFtm_data)

lemma sample_tokens:
  "\<exists>tokens. tokenContracts ftmATokens (ftmReserveTokens ''ftm'')
      (ftmATokenAt (map (\<lambda>(name, symbol, required). (''s'' @ symbol, ''0xAA'')) ftmATokens))
      (\<lambda>symbol. tokenNamed [symbol] (map (\<lambda>(name, symbol, getter). (symbol, ''0xAB'')) (ftmReserveTokens ''ftm'')))
      s = (Inr tokens, s) \<and> list_all (settled \<circ> snd) tokens"
  by (simp add: tokenContracts_def ftmATokens_def ftmReserveTokens_def ftmATokenAt_def aTokenOf_def tokenNamed_def
      truthy_def io_run settled_registered getAToken_def getMintableERC20_def getSwapinERC20_def)


end
