(* ===== verification/ErrorCodes.thy ===== *)
theory ErrorCodes
  imports Prelude
begin

text \<open>
  The names the program shares as text: the enums \<open>eContractid\<close> (keys of the registry file) and
  \<open>ProtocolErrors\<close> (messages the test specifications wait for) of \<open>helpers/types.ts\<close>, and the error codes of
  \<open>Errors.sol\<close>. Each is an object from the name to its text.
\<close>

definition eContractid :: "string jsobj" where
  "eContractid =
     [(''Example'', ''Example''), (''LendingPoolAddressesProvider'', ''LendingPoolAddressesProvider''),
      (''MintableERC20'', ''MintableERC20''), (''MintableDelegationERC20'', ''MintableDelegationERC20''),
      (''LendingPoolAddressesProviderRegistry'', ''LendingPoolAddressesProviderRegistry''),
      (''LendingPoolParametersProvider'', ''LendingPoolParametersProvider''),
      (''LendingPoolConfigurator'', ''LendingPoolConfigurator''),
      (''ValidationLogic'', ''ValidationLogic''), (''ReserveLogic'', ''ReserveLogic''),
      (''GenericLogic'', ''GenericLogic''), (''PriceOracle'', ''PriceOracle''), (''Proxy'', ''Proxy''),
      (''MockAggregator'', ''MockAggregator''), (''LendingRateOracle'', ''LendingRateOracle''),
      (''SturdyOracle'', ''SturdyOracle''), (''BooOracle'', ''BooOracle''),
      (''TombOracle'', ''TombOracle''), (''TombFtmLPOracle'', ''TombFtmLPOracle''),
      (''MiMaticOracle'', ''MiMaticOracle''), (''TombMiMaticLPOracle'', ''TombMiMaticLPOracle''),
      (''FBeetsOracle'', ''FBeetsOracle''), (''BeetsOracle'', ''BeetsOracle''),
      (''BasedOracle'', ''BasedOracle''), (''BasedMiMaticLPOracle'', ''BasedMiMaticLPOracle''),
      (''MIM2CRVOracle'', ''MIM2CRVOracle''), (''RETHWstETHLPOracle'', ''RETHWstETHLPOracle''),
      (''FRAX3CRVOracle'', ''FRAX3CRVOracle''), (''STECRVOracle'', ''STECRVOracle''),
      (''DOLA3CRVOracle'', ''DOLA3CRVOracle''), (''MIM3CRVOracle'', ''MIM3CRVOracle''),
      (''MIMOracle'', ''MIMOracle''), (''DAIUSDCUSDTSUSDOracle'', ''DAIUSDCUSDTSUSDOracle''),
      (''HBTCWBTCOracle'', ''HBTCWBTCOracle''), (''IronBankOracle'', ''IronBankOracle''),
      (''FRAXUSDCOracle'', ''FRAXUSDCOracle''), (''BALDAIUSDCUSDTOracle'', ''BALDAIUSDCUSDTOracle''),
      (''TUSDFRAXBPOracle'', ''TUSDFRAXBPOracle''), (''BALBBAUSDOracle'', ''BALBBAUSDOracle''),
      (''BALBBA3USDOracle'', ''BALBBA3USDOracle''), (''AURAOracle'', ''AURAOracle''),
      (''DefaultReserveInterestRateStrategy'', ''DefaultReserveInterestRateStrategy''),
      (''LendingPoolCollateralManager'', ''LendingPoolCollateralManager''),
      (''InitializableImmutableAdminUpgradeabilityProxy'', ''InitializableImmutableAdminUpgradeabilityProxy''),
      (''InitializableAdminUpgradeabilityProxy'', ''InitializableAdminUpgradeabilityProxy''),
      (''StaticAToken'', ''StaticAToken''), (''StaticATokenImpl'', ''StaticATokenImpl''),
      (''AToken'', ''AToken''), (''ATokenForCollateral'', ''ATokenForCollateral''),
      (''MockAToken'', ''MockAToken''), (''MockStableDebtToken'', ''MockStableDebtToken''),
      (''MockVariableDebtToken'', ''MockVariableDebtToken''),
      (''StakedTokenIncentivesControllerImpl'', ''StakedTokenIncentivesControllerImpl''),
      (''StakedTokenIncentivesController'', ''StakedTokenIncentivesController''),
      (''SturdyTokenImpl'', ''SturdyTokenImpl''), (''SturdyToken'', ''SturdyToken''),
      (''StableYieldDistributionImpl'', ''StableYieldDistributionImpl''),
      (''LDOStableYieldDistribution'', ''LDOStableYieldDistribution''),
      (''VariableYieldDistributionImpl'', ''VariableYieldDistributionImpl''),
      (''VariableYieldDistribution'', ''VariableYieldDistribution''),
      (''YieldDistributorAdapter'', ''YieldDistributorAdapter''),
      (''SturdyProtocolDataProvider'', ''SturdyProtocolDataProvider''),
      (''WalletBalanceProvider'', ''WalletBalanceProvider''),
      (''UiIncentiveDataProvider'', ''UiIncentiveDataProvider''),
      (''UiPoolDataProvider'', ''UiPoolDataProvider''), (''IERC20Detailed'', ''IERC20Detailed''),
      (''SwapinERC20'', ''SwapinERC20''), (''StableDebtToken'', ''StableDebtToken''),
      (''VariableDebtToken'', ''VariableDebtToken''),
      (''StableAndVariableTokensHelper'', ''StableAndVariableTokensHelper''),
      (''ATokensAndRatesHelper'', ''ATokensAndRatesHelper''), (''DAIToken'', ''DAIToken''),
      (''USDCToken'', ''USDCToken''), (''USDTToken'', ''USDTToken''), (''WETHMocked'', ''WETHMocked''),
      (''LendingPoolImpl'', ''LendingPoolImpl''),
      (''LendingPoolConfiguratorImpl'', ''LendingPoolConfiguratorImpl''),
      (''LendingPoolCollateralManagerImpl'', ''LendingPoolCollateralManagerImpl''),
      (''LendingPool'', ''LendingPool''), (''LidoVaultImpl'', ''LidoVaultImpl''),
      (''LidoVault'', ''LidoVault''), (''YearnRETHWstETHVaultImpl'', ''YearnRETHWstETHVaultImpl''),
      (''YearnRETHWstETHVault'', ''YearnRETHWstETHVault''),
      (''ConvexRocketPoolETHVaulttImpl'', ''ConvexRocketPoolETHVaulttImpl''),
      (''ConvexRocketPoolETHVault'', ''ConvexRocketPoolETHVault''),
      (''ConvexFRAX3CRVVaultImpl'', ''ConvexFRAX3CRVVaultImpl''),
      (''ConvexFRAX3CRVVault'', ''ConvexFRAX3CRVVault''),
      (''ConvexSTETHVaultImpl'', ''ConvexSTETHVaultImpl''), (''ConvexSTETHVault'', ''ConvexSTETHVault''),
      (''ConvexDOLA3CRVVaultImpl'', ''ConvexDOLA3CRVVaultImpl''),
      (''ConvexDOLA3CRVVault'', ''ConvexDOLA3CRVVault''),
      (''ConvexMIM3CRVVaultImpl'', ''ConvexMIM3CRVVaultImpl''),
      (''ConvexMIM3CRVVault'', ''ConvexMIM3CRVVault''),
      (''ConvexDAIUSDCUSDTSUSDVaultImpl'', ''ConvexDAIUSDCUSDTSUSDVaultImpl''),
      (''ConvexDAIUSDCUSDTSUSDVault'', ''ConvexDAIUSDCUSDTSUSDVault''),
      (''ConvexHBTCWBTCVaultImpl'', ''ConvexHBTCWBTCVaultImpl''),
      (''ConvexHBTCWBTCVault'', ''ConvexHBTCWBTCVault''),
      (''ConvexIronBankVaultImpl'', ''ConvexIronBankVaultImpl''),
      (''ConvexIronBankVault'', ''ConvexIronBankVault''),
      (''ConvexFRAXUSDCVaultImpl'', ''ConvexFRAXUSDCVaultImpl''),
      (''ConvexFRAXUSDCVault'', ''ConvexFRAXUSDCVault''),
      (''AuraDAIUSDCUSDTVaultImpl'', ''AuraDAIUSDCUSDTVaultImpl''),
      (''AuraDAIUSDCUSDTVault'', ''AuraDAIUSDCUSDTVault''),
      (''ConvexTUSDFRAXBPVaultImpl'', ''ConvexTUSDFRAXBPVaultImpl''),
      (''ConvexTUSDFRAXBPVault'', ''ConvexTUSDFRAXBPVault''),
      (''AuraBBAUSDVaultImpl'', ''AuraBBAUSDVaultImpl''), (''AuraBBAUSDVault'', ''AuraBBAUSDVault''),
      (''AuraBBA3USDVaultImpl'', ''AuraBBA3USDVaultImpl''), (''AuraBBA3USDVault'', ''AuraBBA3USDVault''),
      (''YearnVaultImpl'', ''YearnVaultImpl''), (''YearnVault'', ''YearnVault''),
      (''YearnWETHVaultImpl'', ''YearnWETHVaultImpl''), (''YearnWETHVault'', ''YearnWETHVault''),
      (''YearnWBTCVaultImpl'', ''YearnWBTCVaultImpl''), (''YearnWBTCVault'', ''YearnWBTCVault''),
      (''YearnBOOVaultImpl'', ''YearnBOOVaultImpl''), (''YearnBOOVault'', ''YearnBOOVault''),
      (''TombFtmBeefyVaultImpl'', ''TombFtmBeefyVaultImpl''),
      (''TombFtmBeefyVault'', ''TombFtmBeefyVault''),
      (''TombMiMaticBeefyVaultImpl'', ''TombMiMaticBeefyVaultImpl''),
      (''TombMiMaticBeefyVault'', ''TombMiMaticBeefyVault''),
      (''YearnFBEETSVaultImpl'', ''YearnFBEETSVaultImpl''), (''YearnFBEETSVault'', ''YearnFBEETSVault''),
      (''YearnLINKVaultImpl'', ''YearnLINKVaultImpl''), (''YearnLINKVault'', ''YearnLINKVault''),
      (''YearnCRVVaultImpl'', ''YearnCRVVaultImpl''), (''YearnCRVVault'', ''YearnCRVVault''),
      (''YearnSPELLVaultImpl'', ''YearnSPELLVaultImpl''), (''YearnSPELLVault'', ''YearnSPELLVault''),
      (''BasedMiMaticBeefyVaultImpl'', ''BasedMiMaticBeefyVaultImpl''),
      (''BasedMiMaticBeefyVault'', ''BasedMiMaticBeefyVault''),
      (''BeefyMIM2CRVVaultImpl'', ''BeefyMIM2CRVVaultImpl''),
      (''BeefyMIM2CRVVault'', ''BeefyMIM2CRVVault''), (''MockyvWFTM'', ''MockyvWFTM''),
      (''MockyvWETH'', ''MockyvWETH''), (''MockyvWBTC'', ''MockyvWBTC''), (''MockyvBOO'', ''MockyvBOO''),
      (''MockMooTOMBFTM'', ''MockMooTOMBFTM''), (''MockMooTOMBMIMATIC'', ''MockMooTOMBMIMATIC''),
      (''MockMooBASEDMIMATIC'', ''MockMooBASEDMIMATIC''), (''MockWETHForFTM'', ''MockWETHForFTM''),
      (''MockWBTCForFTM'', ''MockWBTCForFTM''), (''MockBOOForFTM'', ''MockBOOForFTM''),
      (''BeefyETHVault'', ''BeefyETHVault''), (''BeefyETHVaultImpl'', ''BeefyETHVaultImpl''),
      (''CollateralAdapter'', ''CollateralAdapter''),
      (''CollateralAdapterImpl'', ''CollateralAdapterImpl''), (''FTMLiquidator'', ''FTMLiquidator''),
      (''ETHLiquidator'', ''ETHLiquidator''), (''MockLINKForFTM'', ''MockLINKForFTM''),
      (''MockFBEETSForFTM'', ''MockFBEETSForFTM''), (''MockBeeefyETHForFTM'', ''MockBeeefyETHForFTM''),
      (''MockCRVForFTM'', ''MockCRVForFTM''), (''MockSPELLForFTM'', ''MockSPELLForFTM''),
      (''DeployVaultHelper'', ''DeployVaultHelper''), (''YieldManagerImpl'', ''YieldManagerImpl''),
      (''YieldManager'', ''YieldManager''), (''UniswapAdapter'', ''UniswapAdapter''),
      (''UniswapAdapter2'', ''UniswapAdapter2''), (''CurveswapAdapter'', ''CurveswapAdapter''),
      (''CurveswapAdapter2'', ''CurveswapAdapter2''), (''BalancerswapAdapter'', ''BalancerswapAdapter''),
      (''BalancerswapAdapter2'', ''BalancerswapAdapter2''),
      (''LeverageSwapManagerImpl'', ''LeverageSwapManagerImpl''),
      (''LeverageSwapManager'', ''LeverageSwapManager''), (''FRAX3CRVLevSwap'', ''FRAX3CRVLevSwap''),
      (''DAIUSDCUSDTSUSDLevSwap'', ''DAIUSDCUSDTSUSDLevSwap''), (''MIM3CRVLevSwap'', ''MIM3CRVLevSwap''),
      (''FRAXUSDCLevSwap'', ''FRAXUSDCLevSwap''), (''IRONBANKLevSwap'', ''IRONBANKLevSwap''),
      (''TUSDFRAXBPLevSwap'', ''TUSDFRAXBPLevSwap''), (''AURABBAUSDLevSwap'', ''AURABBAUSDLevSwap''),
      (''AURABBA3USDLevSwap'', ''AURABBA3USDLevSwap''),
      (''SturdyAPRDataProvider'', ''SturdyAPRDataProvider''), (''VaultWhitelist'', ''VaultWhitelist''),
      (''ERC4626Vault'', ''ERC4626Vault''), (''ERC4626Router'', ''ERC4626Router''),
      (''StructuredVault'', ''StructuredVault''), (''StructuredVaultImpl'', ''StructuredVaultImpl'')]"

definition ProtocolErrors :: "string jsobj" where
  "ProtocolErrors =
     [(''CALLER_NOT_POOL_ADMIN'', ''33''), (''VL_INVALID_AMOUNT'', ''1''),
      (''VL_NO_ACTIVE_RESERVE'', ''2''), (''VL_RESERVE_FROZEN'', ''3''),
      (''VL_CURRENT_AVAILABLE_LIQUIDITY_NOT_ENOUGH'', ''4''),
      (''VL_NOT_ENOUGH_AVAILABLE_USER_BALANCE'', ''5''), (''VL_TRANSFER_NOT_ALLOWED'', ''6''),
      (''VL_BORROWING_NOT_ENABLED'', ''7''), (''VL_INVALID_INTEREST_RATE_MODE_SELECTED'', ''8''),
      (''VL_COLLATERAL_BALANCE_IS_0'', ''9''),
      (''VL_HEALTH_FACTOR_LOWER_THAN_LIQUIDATION_THRESHOLD'', ''10''),
      (''VL_COLLATERAL_CANNOT_COVER_NEW_BORROW'', ''11''), (''VL_STABLE_BORROWING_NOT_ENABLED'', ''12''),
      (''VL_COLLATERAL_SAME_AS_BORROWING_CURRENCY'', ''13''),
      (''VL_AMOUNT_BIGGER_THAN_MAX_LOAN_SIZE_STABLE'', ''14''), (''VL_NO_DEBT_OF_SELECTED_TYPE'', ''15''),
      (''VL_NO_EXPLICIT_AMOUNT_TO_REPAY_ON_BEHALF'', ''16''),
      (''VL_NO_STABLE_RATE_LOAN_IN_RESERVE'', ''17''), (''VL_NO_VARIABLE_RATE_LOAN_IN_RESERVE'', ''18''),
      (''VL_UNDERLYING_BALANCE_NOT_GREATER_THAN_0'', ''19''), (''VL_DEPOSIT_ALREADY_IN_USE'', ''20''),
      (''LP_NOT_ENOUGH_STABLE_BORROW_BALANCE'', ''21''),
      (''LP_INTEREST_RATE_REBALANCE_CONDITIONS_NOT_MET'', ''22''),
      (''LP_LIQUIDATION_CALL_FAILED'', ''23''), (''LP_NOT_ENOUGH_LIQUIDITY_TO_BORROW'', ''24''),
      (''LP_REQUESTED_AMOUNT_TOO_SMALL'', ''25''), (''LP_INCONSISTENT_PROTOCOL_ACTUAL_BALANCE'', ''26''),
      (''LP_CALLER_NOT_LENDING_POOL_CONFIGURATOR'', ''27''),
      (''LP_INCONSISTENT_FLASHLOAN_PARAMS'', ''28''), (''CT_CALLER_MUST_BE_LENDING_POOL'', ''29''),
      (''CT_CANNOT_GIVE_ALLOWANCE_TO_HIMSELF'', ''30''), (''CT_TRANSFER_AMOUNT_NOT_GT_0'', ''31''),
      (''RL_RESERVE_ALREADY_INITIALIZED'', ''32''), (''LPC_RESERVE_LIQUIDITY_NOT_0'', ''34''),
      (''LPC_INVALID_ATOKEN_POOL_ADDRESS'', ''35''),
      (''LPC_INVALID_STABLE_DEBT_TOKEN_POOL_ADDRESS'', ''36''),
      (''LPC_INVALID_VARIABLE_DEBT_TOKEN_POOL_ADDRESS'', ''37''),
      (''LPC_INVALID_STABLE_DEBT_TOKEN_UNDERLYING_ADDRESS'', ''38''),
      (''LPC_INVALID_VARIABLE_DEBT_TOKEN_UNDERLYING_ADDRESS'', ''39''),
      (''LPC_INVALID_ADDRESSES_PROVIDER_ID'', ''40''), (''LPC_CALLER_NOT_EMERGENCY_ADMIN'', ''76''),
      (''LPAPR_PROVIDER_NOT_REGISTERED'', ''41''), (''LPCM_HEALTH_FACTOR_NOT_BELOW_THRESHOLD'', ''42''),
      (''LPCM_COLLATERAL_CANNOT_BE_LIQUIDATED'', ''43''),
      (''LPCM_SPECIFIED_CURRENCY_NOT_BORROWED_BY_USER'', ''44''),
      (''LPCM_NOT_ENOUGH_LIQUIDITY_TO_LIQUIDATE'', ''45''), (''LPCM_NO_ERRORS'', ''46''),
      (''LP_INVALID_FLASHLOAN_MODE'', ''47''), (''MATH_MULTIPLICATION_OVERFLOW'', ''48''),
      (''MATH_ADDITION_OVERFLOW'', ''49''), (''MATH_DIVISION_BY_ZERO'', ''50''),
      (''RL_LIQUIDITY_INDEX_OVERFLOW'', ''51''), (''RL_VARIABLE_BORROW_INDEX_OVERFLOW'', ''52''),
      (''RL_LIQUIDITY_RATE_OVERFLOW'', ''53''), (''RL_VARIABLE_BORROW_RATE_OVERFLOW'', ''54''),
      (''RL_STABLE_BORROW_RATE_OVERFLOW'', ''55''), (''CT_INVALID_MINT_AMOUNT'', ''56''),
      (''LP_FAILED_REPAY_WITH_COLLATERAL'', ''57''), (''CT_INVALID_BURN_AMOUNT'', ''58''),
      (''LP_BORROW_ALLOWANCE_NOT_ENOUGH'', ''59''), (''LP_FAILED_COLLATERAL_SWAP'', ''60''),
      (''LP_INVALID_EQUAL_ASSETS_TO_SWAP'', ''61''), (''LP_REENTRANCY_NOT_ALLOWED'', ''62''),
      (''LP_CALLER_MUST_BE_AN_ATOKEN'', ''63''), (''LP_IS_PAUSED'', ''64''),
      (''LP_NO_MORE_RESERVES_ALLOWED'', ''65''), (''LP_INVALID_FLASH_LOAN_EXECUTOR_RETURN'', ''66''),
      (''RC_INVALID_LTV'', ''67''), (''RC_INVALID_LIQ_THRESHOLD'', ''68''),
      (''RC_INVALID_LIQ_BONUS'', ''69''), (''RC_INVALID_DECIMALS'', ''70''),
      (''RC_INVALID_RESERVE_FACTOR'', ''71''), (''LPAPR_INVALID_ADDRESSES_PROVIDER_ID'', ''72''),
      (''INVALID_FROM_BALANCE_AFTER_TRANSFER'', ''Invalid from balance after transfer''),
      (''INVALID_TO_BALANCE_AFTER_TRANSFER'', ''Invalid from balance after transfer''),
      (''INVALID_OWNER_REVERT_MSG'', ''Ownable: caller is not the owner''),
      (''INVALID_HF'', ''Invalid health factor''),
      (''TRANSFER_AMOUNT_EXCEEDS_BALANCE'', ''ERC20: transfer amount exceeds balance''),
      (''SAFEERC20_LOWLEVEL_CALL'', ''SafeERC20: low-level call failed'')]"

definition contractErrors :: "string jsobj" where
  "contractErrors =
     [(''CALLER_NOT_POOL_ADMIN'', ''33''), (''BORROW_ALLOWANCE_NOT_ENOUGH'', ''59''),
      (''VL_INVALID_AMOUNT'', ''1''), (''VL_NO_ACTIVE_RESERVE'', ''2''), (''VL_RESERVE_FROZEN'', ''3''),
      (''VL_CURRENT_AVAILABLE_LIQUIDITY_NOT_ENOUGH'', ''4''),
      (''VL_NOT_ENOUGH_AVAILABLE_USER_BALANCE'', ''5''), (''VL_TRANSFER_NOT_ALLOWED'', ''6''),
      (''VL_BORROWING_NOT_ENABLED'', ''7''), (''VL_INVALID_INTEREST_RATE_MODE_SELECTED'', ''8''),
      (''VL_COLLATERAL_BALANCE_IS_0'', ''9''),
      (''VL_HEALTH_FACTOR_LOWER_THAN_LIQUIDATION_THRESHOLD'', ''10''),
      (''VL_COLLATERAL_CANNOT_COVER_NEW_BORROW'', ''11''), (''VL_STABLE_BORROWING_NOT_ENABLED'', ''12''),
      (''VL_COLLATERAL_SAME_AS_BORROWING_CURRENCY'', ''13''),
      (''VL_AMOUNT_BIGGER_THAN_MAX_LOAN_SIZE_STABLE'', ''14''), (''VL_NO_DEBT_OF_SELECTED_TYPE'', ''15''),
      (''VL_NO_EXPLICIT_AMOUNT_TO_REPAY_ON_BEHALF'', ''16''),
      (''VL_NO_STABLE_RATE_LOAN_IN_RESERVE'', ''17''), (''VL_NO_VARIABLE_RATE_LOAN_IN_RESERVE'', ''18''),
      (''VL_UNDERLYING_BALANCE_NOT_GREATER_THAN_0'', ''19''), (''VL_DEPOSIT_ALREADY_IN_USE'', ''20''),
      (''LP_NOT_ENOUGH_STABLE_BORROW_BALANCE'', ''21''),
      (''LP_INTEREST_RATE_REBALANCE_CONDITIONS_NOT_MET'', ''22''),
      (''LP_LIQUIDATION_CALL_FAILED'', ''23''), (''LP_NOT_ENOUGH_LIQUIDITY_TO_BORROW'', ''24''),
      (''LP_REQUESTED_AMOUNT_TOO_SMALL'', ''25''), (''LP_INCONSISTENT_PROTOCOL_ACTUAL_BALANCE'', ''26''),
      (''LP_CALLER_NOT_LENDING_POOL_CONFIGURATOR'', ''27''),
      (''LP_INCONSISTENT_FLASHLOAN_PARAMS'', ''28''), (''CT_CALLER_MUST_BE_LENDING_POOL'', ''29''),
      (''CT_CANNOT_GIVE_ALLOWANCE_TO_HIMSELF'', ''30''), (''CT_TRANSFER_AMOUNT_NOT_GT_0'', ''31''),
      (''RL_RESERVE_ALREADY_INITIALIZED'', ''32''), (''LPC_RESERVE_LIQUIDITY_NOT_0'', ''34''),
      (''LPC_INVALID_ATOKEN_POOL_ADDRESS'', ''35''),
      (''LPC_INVALID_STABLE_DEBT_TOKEN_POOL_ADDRESS'', ''36''),
      (''LPC_INVALID_VARIABLE_DEBT_TOKEN_POOL_ADDRESS'', ''37''),
      (''LPC_INVALID_STABLE_DEBT_TOKEN_UNDERLYING_ADDRESS'', ''38''),
      (''LPC_INVALID_VARIABLE_DEBT_TOKEN_UNDERLYING_ADDRESS'', ''39''),
      (''LPC_INVALID_ADDRESSES_PROVIDER_ID'', ''40''), (''LPC_INVALID_CONFIGURATION'', ''75''),
      (''LPC_CALLER_NOT_EMERGENCY_ADMIN'', ''76''), (''LPAPR_PROVIDER_NOT_REGISTERED'', ''41''),
      (''LPCM_HEALTH_FACTOR_NOT_BELOW_THRESHOLD'', ''42''),
      (''LPCM_COLLATERAL_CANNOT_BE_LIQUIDATED'', ''43''),
      (''LPCM_SPECIFIED_CURRENCY_NOT_BORROWED_BY_USER'', ''44''),
      (''LPCM_NOT_ENOUGH_LIQUIDITY_TO_LIQUIDATE'', ''45''), (''LPCM_NO_ERRORS'', ''46''),
      (''LP_INVALID_FLASHLOAN_MODE'', ''47''), (''MATH_MULTIPLICATION_OVERFLOW'', ''48''),
      (''MATH_ADDITION_OVERFLOW'', ''49''), (''MATH_DIVISION_BY_ZERO'', ''50''),
      (''RL_LIQUIDITY_INDEX_OVERFLOW'', ''51''), (''RL_VARIABLE_BORROW_INDEX_OVERFLOW'', ''52''),
      (''RL_LIQUIDITY_RATE_OVERFLOW'', ''53''), (''RL_VARIABLE_BORROW_RATE_OVERFLOW'', ''54''),
      (''RL_STABLE_BORROW_RATE_OVERFLOW'', ''55''), (''CT_INVALID_MINT_AMOUNT'', ''56''),
      (''LP_FAILED_REPAY_WITH_COLLATERAL'', ''57''), (''CT_INVALID_BURN_AMOUNT'', ''58''),
      (''LP_FAILED_COLLATERAL_SWAP'', ''60''), (''LP_INVALID_EQUAL_ASSETS_TO_SWAP'', ''61''),
      (''LP_REENTRANCY_NOT_ALLOWED'', ''62''), (''LP_CALLER_MUST_BE_AN_ATOKEN'', ''63''),
      (''LP_IS_PAUSED'', ''64''), (''LP_NO_MORE_RESERVES_ALLOWED'', ''65''),
      (''LP_INVALID_FLASH_LOAN_EXECUTOR_RETURN'', ''66''), (''RC_INVALID_LTV'', ''67''),
      (''RC_INVALID_LIQ_THRESHOLD'', ''68''), (''RC_INVALID_LIQ_BONUS'', ''69''),
      (''RC_INVALID_DECIMALS'', ''70''), (''RC_INVALID_RESERVE_FACTOR'', ''71''),
      (''LPAPR_INVALID_ADDRESSES_PROVIDER_ID'', ''72''), (''VL_INCONSISTENT_FLASHLOAN_PARAMS'', ''73''),
      (''LP_INCONSISTENT_PARAMS_LENGTH'', ''74''), (''UL_INVALID_INDEX'', ''77''),
      (''LP_NOT_CONTRACT'', ''78''), (''SDT_STABLE_DEBT_OVERFLOW'', ''79''),
      (''SDT_BURN_EXCEEDS_BALANCE'', ''80''), (''VT_COLLATERAL_DEPOSIT_REQUIRE_ETH'', ''81''),
      (''VT_COLLATERAL_DEPOSIT_INVALID'', ''82''), (''VT_LIQUIDITY_DEPOSIT_INVALID'', ''83''),
      (''VT_COLLATERAL_WITHDRAW_INVALID'', ''84''), (''VT_COLLATERAL_WITHDRAW_INVALID_AMOUNT'', ''85''),
      (''VT_CONVERT_ASSET_BY_CURVE_INVALID'', ''86''), (''VT_PROCESS_YIELD_INVALID'', ''87''),
      (''VT_TREASURY_INVALID'', ''88''), (''LP_ATOKEN_INIT_INVALID'', ''89''),
      (''VT_FEE_TOO_BIG'', ''90''), (''VT_COLLATERAL_DEPOSIT_VAULT_UNAVAILABLE'', ''91''),
      (''LP_LIQUIDATION_CONVERT_FAILED'', ''92''), (''VT_DEPLOY_FAILED'', ''93''),
      (''VT_INVALID_CONFIGURATION'', ''94''), (''VL_OVERFLOW_MAX_RESERVE_CAPACITY'', ''95''),
      (''VT_WITHDRAW_AMOUNT_MISMATCH'', ''96''), (''VT_SWAP_MISMATCH_RETURNED_AMOUNT'', ''97''),
      (''CALLER_NOT_YIELD_PROCESSOR'', ''98''), (''VT_EXTRA_REWARDS_INDEX_INVALID'', ''97''),
      (''VT_SWAP_PATH_LENGTH_INVALID'', ''100''), (''VT_SWAP_PATH_TOKEN_INVALID'', ''101''),
      (''CLAIMER_UNAUTHORIZED'', ''102''), (''YD_INVALID_CONFIGURATION'', ''103''),
      (''CALLER_NOT_EMISSION_MANAGER'', ''104''), (''CALLER_NOT_INCENTIVE_CONTROLLER'', ''105''),
      (''YD_VR_ASSET_ALREADY_IN_USE'', ''106''), (''YD_VR_INVALID_VAULT'', ''107''),
      (''YD_VR_INVALID_REWARDS_AMOUNT'', ''108''), (''YD_VR_REWARD_TOKEN_NOT_VALID'', ''109''),
      (''YD_VR_ASSET_NOT_REGISTERED'', ''110''), (''YD_VR_CALLER_NOT_VAULT'', ''111''),
      (''LS_INVALID_CONFIGURATION'', ''112''), (''LS_SWAP_AMOUNT_NOT_GT_0'', ''113''),
      (''LS_STABLE_COIN_NOT_SUPPORTED'', ''114''), (''LS_SUPPLY_NOT_ALLOWED'', ''115''),
      (''LS_SUPPLY_FAILED'', ''116''), (''LS_REMOVE_ITERATION_OVER'', ''117''),
      (''CALLER_NOT_WHITELIST_USER'', ''118''), (''SAT_INVALID_OWNER'', ''119''),
      (''SAT_INVALID_EXPIRATION'', ''120''), (''SAT_INVALID_SIGNATURE'', ''121''),
      (''SAT_INVALID_DEPOSITOR'', ''122''), (''SAT_INVALID_RECIPIENT'', ''123''),
      (''SAT_ONLY_ONE_AMOUNT_FORMAT_ALLOWED'', ''125''), (''LS_REPAY_FAILED'', ''126''),
      (''O_WRONG_PRICE'', ''127'')]"

text \<open>The revert reason of a contract that fails with an error constant.\<close>

definition codeOf :: "string \<Rightarrow> string" where
  "codeOf name = (case obj_get contractErrors name of Some code \<Rightarrow> code | None \<Rightarrow> name)"

text \<open>\<open>ProtocolErrors.NAME\<close>\<close>

definition messageOf :: "string \<Rightarrow> string" where
  "messageOf name = (case obj_get ProtocolErrors name of Some message \<Rightarrow> message | None \<Rightarrow> ''undefined'')"

section \<open>Agreement\<close>

text \<open>The contract's name of an error the tests know by another one.\<close>

definition renamedErrors :: "string jsobj" where
  "renamedErrors = [(''LP_BORROW_ALLOWANCE_NOT_ENOUGH'', ''BORROW_ALLOWANCE_NOT_ENOUGH'')]"

text \<open>The messages of \<open>ProtocolErrors\<close> that are not codes of \<open>Errors.sol\<close>.\<close>

definition plainMessages :: "string list" where
  "plainMessages = [''INVALID_FROM_BALANCE_AFTER_TRANSFER'', ''INVALID_TO_BALANCE_AFTER_TRANSFER'',
     ''INVALID_OWNER_REVERT_MSG'', ''INVALID_HF'', ''TRANSFER_AMOUNT_EXCEEDS_BALANCE'', ''SAFEERC20_LOWLEVEL_CALL'']"

definition distinctCodes :: "string list" where
  "distinctCodes =
     [''33'', ''59'', ''1'', ''2'', ''3'', ''4'', ''5'', ''6'', ''7'', ''8'', ''9'', ''10'', ''11'',
      ''12'', ''13'', ''14'', ''15'', ''16'', ''17'', ''18'', ''19'', ''20'', ''21'', ''22'', ''23'',
      ''24'', ''25'', ''26'', ''27'', ''28'', ''29'', ''30'', ''31'', ''32'', ''34'', ''35'', ''36'',
      ''37'', ''38'', ''39'', ''40'', ''75'', ''76'', ''41'', ''42'', ''43'', ''44'', ''45'', ''46'',
      ''47'', ''48'', ''49'', ''50'', ''51'', ''52'', ''53'', ''54'', ''55'', ''56'', ''57'', ''58'',
      ''60'', ''61'', ''62'', ''63'', ''64'', ''65'', ''66'', ''67'', ''68'', ''69'', ''70'', ''71'',
      ''72'', ''73'', ''74'', ''77'', ''78'', ''79'', ''80'', ''81'', ''82'', ''83'', ''84'', ''85'',
      ''86'', ''87'', ''88'', ''89'', ''90'', ''91'', ''92'', ''93'', ''94'', ''95'', ''96'', ''97'',
      ''98'', ''100'', ''101'', ''102'', ''103'', ''104'', ''105'', ''106'', ''107'', ''108'', ''109'',
      ''110'', ''111'', ''112'', ''113'', ''114'', ''115'', ''116'', ''117'', ''118'', ''119'', ''120'',
      ''121'', ''122'', ''123'', ''125'', ''126'', ''127'']"

definition contractError :: "string \<times> string \<Rightarrow> bool" where
  "contractError entry \<longleftrightarrow> entry \<in> set contractErrors"

lemma contract_errors_listed: "list_all contractError contractErrors"
  by (simp add: contractError_def list_all_iff)

lemmas contract_error_entries = contract_errors_listed [unfolded contractErrors_def list.pred_inject(2)]

text \<open>C37. The messages the specifications wait for are the contracts' error codes: every name of \<open>ProtocolErrors\<close> that
  is not one of six plain messages is a constant of \<open>Errors.sol\<close> with that code, under the same name but
  for one. A code belongs to one error of the contracts, except for 97, which two errors have.\<close>

theorem error_codes_agree:
  "list_all (\<lambda>(name, message). name \<in> set plainMessages \<or>
     contractError (case obj_get renamedErrors name of Some n \<Rightarrow> n | None \<Rightarrow> name, message)) ProtocolErrors \<and>
   distinct (map snd (filter (\<lambda>(name, code). name \<noteq> ''VT_EXTRA_REWARDS_INDEX_INVALID'') contractErrors)) \<and>
   contractError (''VT_EXTRA_REWARDS_INDEX_INVALID'', ''97'') \<and> contractError (''VT_SWAP_MISMATCH_RETURNED_AMOUNT'', ''97'')"
proof (intro conjI)
  show "list_all (\<lambda>(name, message). name \<in> set plainMessages \<or>
      contractError (case obj_get renamedErrors name of Some n \<Rightarrow> n | None \<Rightarrow> name, message)) ProtocolErrors"
    unfolding ProtocolErrors_def list.pred_inject(2) prod.case
    by (intro conjI list.pred_inject(1); simp add: contract_error_entries plainMessages_def renamedErrors_def)
  have "map snd (filter (\<lambda>(name, code). name \<noteq> ''VT_EXTRA_REWARDS_INDEX_INVALID'') contractErrors) = distinctCodes"
    unfolding contractErrors_def distinctCodes_def by simp
  moreover have "distinct distinctCodes" unfolding distinctCodes_def by simp
  ultimately show "distinct (map snd (filter (\<lambda>(name, code). name \<noteq> ''VT_EXTRA_REWARDS_INDEX_INVALID'') contractErrors))"
    by simp
qed (simp_all add: contract_error_entries)

end
