(* ===== verification/RegistryKeys.thy ===== *)
theory RegistryKeys
  imports RoundTrips ProxyDeployment ErrorCodes
begin

text \<open>
  The keys of the registry file are typed: the getters and the deployments use values of the enum
  \<open>eContractid\<close> only.
\<close>

definition contractKey :: "string \<Rightarrow> bool" where
  "contractKey key \<longleftrightarrow> key \<in> set (map snd eContractid)"

lemma contract_ids_listed: "list_all (\<lambda>(name, key). contractKey key) eContractid"
  by (force simp: contractKey_def list_all_iff)

lemmas contract_keys = contract_ids_listed [unfolded eContractid_def list.pred_inject(2) prod.case]

lemma getter_keys: "list_all (\<lambda>(getter, factory, key). contractKey key) namedGetters"
  unfolding namedGetters_def list.pred_inject(2) prod.case
  by (intro conjI list.pred_inject(1); simp add: contract_keys)

lemma deployment_keys: "list_all (\<lambda>(deploy, getter, factory, key). contractKey key) (deploymentsWithGetters s args v)"
  unfolding deploymentsWithGetters_def list.pred_inject(2) prod.case
  by (intro conjI list.pred_inject(1); simp add: contract_keys)

lemma proxied_keys: "list_all (\<lambda>(deploy, ps). contractKey (ps_key ps) \<and> contractKey (ps_implKey ps)) proxiedContracts"
  unfolding proxiedContracts_def list.pred_inject(2) prod.case proxy_spec.select_convs
  by (intro conjI list.pred_inject(1); simp add: contract_keys)


end
