(* ===== verification/ProviderRegistry.thy ===== *)
theory ProviderRegistry
  imports ReserveChecks ErrorCodes "HOL-Library.AList"
begin

text \<open>
  \<open>LendingPoolAddressesProviderRegistry.sol\<close> with its \<open>Ownable\<close>: the registry of the addresses providers of all
  markets. Its abstract specification is an association list of slots.
\<close>

section \<open>The contract\<close>

record provider_registry =
  reg_owner :: address
  reg_ids :: "address \<Rightarrow> uint256"
  reg_list :: "address list"

definition construct_registry :: "address \<Rightarrow> provider_registry" where
  "construct_registry sender = \<lparr>reg_owner = sender, reg_ids = (\<lambda>p. 0), reg_list = []\<rparr>"

definition ownerOnly :: "address \<Rightarrow> provider_registry \<Rightarrow> error + 'a \<Rightarrow> error + 'a" where
  "ownerOnly sender st m = check (reg_owner st = sender) ''Ownable: caller is not the owner'' m"

definition getAddressesProvidersList :: "provider_registry \<Rightarrow> address list" where
  "getAddressesProvidersList st = map (\<lambda>p. if reg_ids st p \<noteq> 0 then p else ZERO_ADDRESS) (reg_list st)"

definition getAddressesProviderIdByAddress :: "provider_registry \<Rightarrow> address \<Rightarrow> uint256" where
  "getAddressesProviderIdByAddress st addressesProvider = reg_ids st addressesProvider"

text \<open>The loop returns at the first entry that is the provider, and pushes after the last.\<close>

fun addToAddressesProvidersList :: "address \<Rightarrow> address list \<Rightarrow> address list" where
  "addToAddressesProvidersList p [] = [p]"
| "addToAddressesProvidersList p (a # as) = (if a = p then a # as else a # addToAddressesProvidersList p as)"

definition registerAddressesProvider ::
  "address \<Rightarrow> address \<Rightarrow> uint256 \<Rightarrow> provider_registry \<Rightarrow> error + provider_registry" where
  "registerAddressesProvider sender p i st =
     ownerOnly sender st (check (i \<noteq> 0) ''LPAPR_INVALID_ADDRESSES_PROVIDER_ID''
       (Inr (st\<lparr>reg_ids := (reg_ids st)(p := i), reg_list := addToAddressesProvidersList p (reg_list st)\<rparr>)))"

definition unregisterAddressesProvider ::
  "address \<Rightarrow> address \<Rightarrow> provider_registry \<Rightarrow> error + provider_registry" where
  "unregisterAddressesProvider sender p st =
     ownerOnly sender st (check (reg_ids st p \<noteq> 0) ''LPAPR_PROVIDER_NOT_REGISTERED''
       (Inr (st\<lparr>reg_ids := (reg_ids st)(p := 0)\<rparr>)))"

definition transferOwnership :: "address \<Rightarrow> address \<Rightarrow> provider_registry \<Rightarrow> error + provider_registry" where
  "transferOwnership sender newOwner st =
     ownerOnly sender st (check (newOwner \<noteq> ZERO_ADDRESS) ''Ownable: new owner is the zero address''
       (Inr (st\<lparr>reg_owner := newOwner\<rparr>)))"

definition renounceOwnership :: "address \<Rightarrow> provider_registry \<Rightarrow> error + provider_registry" where
  "renounceOwnership sender st = ownerOnly sender st (Inr (st\<lparr>reg_owner := ZERO_ADDRESS\<rparr>))"

section \<open>Transactions\<close>

datatype registry_call =
  Register address uint256
| Unregister address
| Transfer address
| Renounce

fun registryCall :: "address \<Rightarrow> registry_call \<Rightarrow> provider_registry \<Rightarrow> error + provider_registry" where
  "registryCall sender (Register p i) st = registerAddressesProvider sender p i st"
| "registryCall sender (Unregister p) st = unregisterAddressesProvider sender p st"
| "registryCall sender (Transfer a) st = transferOwnership sender a st"
| "registryCall sender Renounce st = renounceOwnership sender st"

lemmas registry_defs = registerAddressesProvider_def unregisterAddressesProvider_def transferOwnership_def
  renounceOwnership_def ownerOnly_def

inductive registry_step :: "provider_registry \<Rightarrow> provider_registry \<Rightarrow> bool" where
  "registryCall sender call st = Inr st' \<Longrightarrow> registry_step st st'"

inductive_cases registry_stepE: "registry_step st st'"

section \<open>Slots\<close>

text \<open>The abstract registry: one slot per provider in the order of its first registration, with its id while it is
  registered.\<close>

type_synonym slots = "(address \<times> uint256 option) list"

definition slotOf :: "(address \<Rightarrow> uint256) \<Rightarrow> address \<Rightarrow> uint256 option" where
  "slotOf ids p = (if ids p = 0 then None else Some (ids p))"

definition slots :: "provider_registry \<Rightarrow> slots" where
  "slots st = map (\<lambda>p. (p, slotOf (reg_ids st) p)) (reg_list st)"

definition registered :: "slots \<Rightarrow> address \<Rightarrow> uint256 option" where
  "registered s p = Option.bind (map_of s p) id"

fun slotCall :: "registry_call \<Rightarrow> slots \<Rightarrow> error + slots" where
  "slotCall (Register p i) s =
     check (i \<noteq> 0) ''LPAPR_INVALID_ADDRESSES_PROVIDER_ID'' (Inr (AList.update p (Some i) s))"
| "slotCall (Unregister p) s =
     check (registered s p \<noteq> None) ''LPAPR_PROVIDER_NOT_REGISTERED'' (Inr (AList.update p None s))"
| "slotCall (Transfer a) s = check (a \<noteq> ZERO_ADDRESS) ''Ownable: new owner is the zero address'' (Inr s)"
| "slotCall Renounce s = Inr s"

definition wf_registry :: "provider_registry \<Rightarrow> bool" where
  "wf_registry st \<longleftrightarrow> distinct (reg_list st) \<and> (\<forall>p. reg_ids st p \<noteq> 0 \<longrightarrow> p \<in> set (reg_list st))"

lemma addTo_eq: "addToAddressesProvidersList p ps = (if p \<in> set ps then ps else ps @ [p])"
  by (induction ps) auto

lemma wf_registry_step: "registry_step st st' \<Longrightarrow> wf_registry st \<Longrightarrow> wf_registry st'"
  by (auto elim!: registry_stepE elim: registryCall.elims simp: registry_defs check_def wf_registry_def addTo_eq
      split: if_splits)

lemma reachable_wf:
  assumes "registry_step\<^sup>*\<^sup>* (construct_registry d) st"
  shows "wf_registry st"
  using assms
proof (induction rule: rtranclp_induct)
  case base
  then show ?case by (simp add: wf_registry_def construct_registry_def)
qed (rule wf_registry_step)

lemma slot_written:
  "distinct ps \<Longrightarrow> map (\<lambda>a. (a, (f(p := v)) a)) (addToAddressesProvidersList p ps) =
     AList.update p v (map (\<lambda>a. (a, f a)) ps)"
  by (induction ps) (auto simp: addTo_eq)

lemma slotOf_upd: "slotOf (ids(p := i)) = (slotOf ids)(p := if i = 0 then None else Some i)"
  by (auto simp: slotOf_def fun_eq_iff)

lemma slots_written:
  assumes "distinct (reg_list st)"
  shows "slots (st\<lparr>reg_ids := (reg_ids st)(p := i), reg_list := addToAddressesProvidersList p (reg_list st)\<rparr>) =
    AList.update p (if i = 0 then None else Some i) (slots st)"
  unfolding slots_def by (simp add: slotOf_upd slot_written [OF assms, symmetric] del: fun_upd_apply)

lemma slots_cleared:
  assumes "distinct (reg_list st)" and "p \<in> set (reg_list st)"
  shows "slots (st\<lparr>reg_ids := (reg_ids st)(p := 0)\<rparr>) = AList.update p None (slots st)"
  using slots_written [OF assms(1), of p 0] assms(2) by (simp add: addTo_eq)

lemma registered_slots:
  assumes "wf_registry st"
  shows "registered (slots st) p = slotOf (reg_ids st) p"
  using assms
  by (auto simp: registered_def slots_def slotOf_def wf_registry_def map_of_map_restrict restrict_map_def)

lemma slots_same: "slots (st\<lparr>reg_owner := a\<rparr>) = slots st"
  by (simp add: slots_def)



end
