(* ===== verification/Configurator.thy ===== *)
theory Configurator
  imports ReserveChecks ErrorCodes
begin

text \<open>
  The administration of a market: the operations of \<open>LendingPoolConfigurator.sol\<close> on the
  configurations of all reserves, behind their modifiers, and what the data provider shows of a
  configuration. What happens to one configuration word is in \<open>ReserveChecks\<close> and here.
  The initialization of reserves and the upgrades of tokens are not part of it.
\<close>

section \<open>One configuration\<close>

definition disableBorrowingOnReserve :: "uint256 \<Rightarrow> uint256" where
  "disableBorrowingOnReserve data = setBorrowingEnabled data False"

definition disableCollateralOnReserve :: "uint256 \<Rightarrow> uint256" where
  "disableCollateralOnReserve data = setCollateralEnabled data False"

definition enableReserveStableRate :: "uint256 \<Rightarrow> uint256" where
  "enableReserveStableRate data = setStableRateBorrowingEnabled data True"

definition disableReserveStableRate :: "uint256 \<Rightarrow> uint256" where
  "disableReserveStableRate data = setStableRateBorrowingEnabled data False"

definition activateReserve :: "uint256 \<Rightarrow> uint256" where
  "activateReserve data = setActive data True"

definition deactivateReserve :: "bool \<Rightarrow> uint256 \<Rightarrow> error + uint256" where
  "deactivateReserve noLiquidity data =
     check noLiquidity ''LPC_RESERVE_LIQUIDITY_NOT_0'' (Inr (setActive data False))"

definition freezeReserve :: "uint256 \<Rightarrow> uint256" where
  "freezeReserve data = setFrozen data True"

definition unfreezeReserve :: "uint256 \<Rightarrow> uint256" where
  "unfreezeReserve data = setFrozen data False"

section \<open>The market\<close>

text \<open>What the configurator reads and writes: the admins of the addresses provider and, of the pool, the
  configuration, the strategy, the liquidity and the rates of each reserve and the pause.\<close>

record market_state =
  ms_poolAdmin :: address
  ms_emergencyAdmin :: address
  ms_configuration :: "address \<Rightarrow> uint256"
  ms_strategy :: "address \<Rightarrow> address"
  ms_liquidity :: "address \<Rightarrow> uint256"
  ms_liquidityRate :: "address \<Rightarrow> uint256"
  ms_variableIndex :: "address \<Rightarrow> uint256"
  ms_paused :: bool

definition onlyPoolAdmin :: "address \<Rightarrow> market_state \<Rightarrow> error + 'a \<Rightarrow> error + 'a" where
  "onlyPoolAdmin sender st m = check (ms_poolAdmin st = sender) ''CALLER_NOT_POOL_ADMIN'' m"

definition onlyEmergencyAdmin :: "address \<Rightarrow> market_state \<Rightarrow> error + 'a \<Rightarrow> error + 'a" where
  "onlyEmergencyAdmin sender st m = check (ms_emergencyAdmin st = sender) ''LPC_CALLER_NOT_EMERGENCY_ADMIN'' m"

definition checkNoLiquidity :: "address \<Rightarrow> market_state \<Rightarrow> bool" where
  "checkNoLiquidity asset st \<longleftrightarrow> ms_liquidity st asset = 0 \<and> ms_liquidityRate st asset = 0"

text \<open>\<open>pool.getConfiguration\<close>, a change, \<open>pool.setConfiguration\<close>\<close>

definition reconfigure :: "address \<Rightarrow> (uint256 \<Rightarrow> error + uint256) \<Rightarrow> market_state \<Rightarrow> error + market_state" where
  "reconfigure asset change st =
     bindSum (change (ms_configuration st asset)) (\<lambda>data.
     Inr (st\<lparr>ms_configuration := (ms_configuration st)(asset := data)\<rparr>))"

text \<open>The functions that change the configuration of one reserve, with their arguments after the asset;
  the first argument of a change tells whether the reserve is without liquidity. Arguments that are no
  numerals are rejected before a transaction is sent.\<close>

definition plainChanges :: "(bool \<Rightarrow> uint256 \<Rightarrow> error + uint256) jsobj" where
  "plainChanges =
     [(''disableBorrowingOnReserve'', \<lambda>_ d. Inr (disableBorrowingOnReserve d)),
      (''disableCollateralOnReserve'', \<lambda>_ d. Inr (disableCollateralOnReserve d)),
      (''enableReserveStableRate'', \<lambda>_ d. Inr (enableReserveStableRate d)),
      (''disableReserveStableRate'', \<lambda>_ d. Inr (disableReserveStableRate d)),
      (''activateReserve'', \<lambda>_ d. Inr (activateReserve d)),
      (''deactivateReserve'', deactivateReserve),
      (''freezeReserve'', \<lambda>_ d. Inr (freezeReserve d)),
      (''unfreezeReserve'', \<lambda>_ d. Inr (unfreezeReserve d))]"

fun reserveChange :: "string \<Rightarrow> arg list \<Rightarrow> (bool \<Rightarrow> uint256 \<Rightarrow> error + uint256) option" where
  "reserveChange method [] = obj_get plainChanges method"
| "reserveChange method [Flag enabled] =
     obj_get [(''enableBorrowingOnReserve'', \<lambda>_. enableBorrowingOnReserve enabled),
              (''enableCollateralOnReserve'', \<lambda>_. enableCollateralOnReserve)] method"
| "reserveChange method [Str factor] = (case uint256Arg factor of
     Inr f \<Rightarrow> obj_get [(''setReserveFactor'', \<lambda>_ d. setReserveFactor d f)] method
   | Inl _ \<Rightarrow> None)"
| "reserveChange method [Str ltv, Str threshold, Str bonus] =
     (case (uint256Arg ltv, uint256Arg threshold, uint256Arg bonus) of
        (Inr l, Inr t, Inr b) \<Rightarrow>
          obj_get [(''configureReserveAsCollateral'', \<lambda>noLiquidity. configureReserveAsCollateral noLiquidity l t b)] method
      | _ \<Rightarrow> None)"
| "reserveChange method args = None"

text \<open>A transaction to the configurator.\<close>

fun configuratorTx :: "address \<Rightarrow> string \<Rightarrow> arg list \<Rightarrow> market_state \<Rightarrow> error + market_state" where
  "configuratorTx sender method (Str asset # args) st =
     (if method = ''setReserveInterestRateStrategyAddress'' then
        (case args of
           [Str strat] \<Rightarrow> onlyPoolAdmin sender st (Inr (st\<lparr>ms_strategy := (ms_strategy st)(asset := strat)\<rparr>))
         | _ \<Rightarrow> Inl (InvalidArgument method))
      else case reserveChange method args of
        None \<Rightarrow> Inl (InvalidArgument method)
      | Some change \<Rightarrow>
          onlyPoolAdmin sender st (reconfigure asset (change (checkNoLiquidity asset st)) st))"
| "configuratorTx sender method [Flag val] st =
     (if method = ''setPoolPause'' then onlyEmergencyAdmin sender st (Inr (st\<lparr>ms_paused := val\<rparr>))
      else Inl (InvalidArgument method))"
| "configuratorTx sender method args st = Inl (InvalidArgument method)"

declare configuratorTx.simps [simp del]

section \<open>The data provider\<close>

text \<open>\<open>SturdyProtocolDataProvider.getReserveConfigurationData(asset)\<close>, field by field, as text.\<close>

definition showBool :: "bool \<Rightarrow> string" where
  "showBool b = (if b then ''true'' else ''false'')"

definition configurationField :: "uint256 \<Rightarrow> string \<Rightarrow> string option" where
  "configurationField data field =
     (let (isActive, isFrozen, isBorrowing, isStable, _) = getFlags data;
          (ltv, threshold, bonus, decimals, factor) = getParams data;
          num = (\<lambda>x. showNat (unat x)) in
      obj_get
        [(''decimals'', num decimals), (''ltv'', num ltv), (''liquidationThreshold'', num threshold),
         (''liquidationBonus'', num bonus), (''reserveFactor'', num factor),
         (''usageAsCollateralEnabled'', showBool (threshold \<noteq> 0)), (''borrowingEnabled'', showBool isBorrowing),
         (''stableBorrowRateEnabled'', showBool isStable), (''isActive'', showBool isActive),
         (''isFrozen'', showBool isFrozen)] field)"

end
