(* ===== verification/ConfiguratorChecks.thy ===== *)
theory ConfiguratorChecks
  imports Configurator
begin

text \<open>
  What the configurator guarantees in every state it can bring a market to.
\<close>

section \<open>Steps\<close>

lemma bindSum_Inr_iff: "bindSum m f = Inr y \<longleftrightarrow> (\<exists>x. m = Inr x \<and> f x = Inr y)"
  by (cases m) simp_all

lemma check_Inr_iff: "check b e m = Inr y \<longleftrightarrow> b \<and> m = Inr y"
  by (simp add: check_def)

lemmas step_iffs = bindSum_Inr_iff check_Inr_iff

lemma reconfigure_Inr:
  assumes "reconfigure asset change st = Inr st'"
  obtains data where "change (ms_configuration st asset) = Inr data"
    and "ms_configuration st' = (ms_configuration st)(asset := data)"
  using assms by (auto simp: reconfigure_def step_iffs)

lemma configuratorTx_Inr:
  assumes "configuratorTx sender fn args st = Inr st'"
  obtains (plain) "ms_configuration st' = ms_configuration st"
  | (reserve) asset rest change where "args = Str asset # rest" and "reserveChange fn rest = Some change"
      and "ms_poolAdmin st = sender" and "reconfigure asset (change (checkNoLiquidity asset st)) st = Inr st'"
  using assms
  by (induction sender fn args st rule: configuratorTx.induct)
    (auto simp: configuratorTx.simps onlyPoolAdmin_def onlyEmergencyAdmin_def check_Inr_iff
      split: if_splits option.splits list.splits arg.splits)

lemma reserveChange_method:
  "reserveChange fn args = Some change \<Longrightarrow> fn \<noteq> ''setReserveInterestRateStrategyAddress''"
  by (induction fn args rule: reserveChange.induct) (auto simp: plainChanges_def split: if_splits sum.splits)

lemma configuratorTx_reserve:
  assumes "reserveChange fn args = Some change"
  shows "configuratorTx sender fn (Str a # args) st =
    onlyPoolAdmin sender st (reconfigure a (change (checkNoLiquidity a st)) st)"
  using assms reserveChange_method [OF assms] by (simp add: configuratorTx.simps)

section \<open>Sound configurations\<close>

definition sound :: "reserve_config \<Rightarrow> bool" where
  "sound c \<longleftrightarrow> \<not> (rc_borrowing c \<and> rc_collateral c) \<and> rc_ltv c \<le> rc_threshold c \<and>
     (if rc_threshold c = 0 then rc_bonus c = 0
      else sol_PERCENTAGE_FACTOR < rc_bonus c \<and>
        (\<exists>p. sol_percentMul (rc_threshold c) (rc_bonus c) = Inr p \<and> p \<le> sol_PERCENTAGE_FACTOR))"

text \<open>The transactions of the configurator, the initialization of a reserve, and whatever else happens in the
  market: others do not touch the configurations.\<close>

inductive market_step :: "market_state \<Rightarrow> market_state \<Rightarrow> bool" where
  administered: "configuratorTx sender fn args st = Inr st' \<Longrightarrow> market_step st st'"
| initialized: "reconfigure asset (initReserveConfig decimals) st = Inr st' \<Longrightarrow> market_step st st'"
| traded: "ms_configuration st' = ms_configuration st \<Longrightarrow> market_step st st'"

lemma configureReserveAsCollateral_sound:
  assumes "configureReserveAsCollateral noLiquidity l t b data = Inr data'" and "sound (config_of data)"
  shows "sound (config_of data')"
proof -
  let ?d = "config_of data"
  from assms(1) obtain d1 d2 where set: "setLtv data l = Inr d1" "setLiquidationThreshold d1 t = Inr d2"
      "setLiquidationBonus d2 b = Inr data'"
    and "l \<le> t"
    and "if t \<noteq> 0 then sol_PERCENTAGE_FACTOR < b \<and>
           (\<exists>p. sol_percentMul t b = Inr p \<and> p \<le> sol_PERCENTAGE_FACTOR) else b = 0"
    by (auto simp: configureReserveAsCollateral_def step_iffs split: prod.splits if_splits)
  moreover from set have "config_of data' = ?d\<lparr>rc_ltv := l, rc_threshold := t, rc_bonus := b\<rparr>"
    by (simp add: config_of_setLtv config_of_setLiquidationThreshold config_of_setLiquidationBonus)
  ultimately show ?thesis
    using assms(2) by (simp add: sound_def)
qed

lemmas one_configuration_defs = disableBorrowingOnReserve_def disableCollateralOnReserve_def enableReserveStableRate_def
  disableReserveStableRate_def activateReserve_def deactivateReserve_def freezeReserve_def unfreezeReserve_def
  enableBorrowingOnReserve_def enableCollateralOnReserve_def

lemma plainChanges_sound:
  assumes "obj_get plainChanges fn = Some change" and "change noLiquidity data = Inr data'"
    and "sound (config_of data)"
  shows "sound (config_of data')"
  using assms by (auto simp: plainChanges_def one_configuration_defs sound_def check_Inr_iff split: if_splits)

lemma reserveChange_sound:
  assumes "reserveChange fn args = Some change" and "change noLiquidity data = Inr data'"
    and "sound (config_of data)"
  shows "sound (config_of data')"
  using assms
proof (induction fn args rule: reserveChange.induct)
  case (1 fn)
  then show ?case by (auto elim: plainChanges_sound)
next
  case (2 fn enabled)
  then show ?case
    by (auto simp: one_configuration_defs sound_def check_Inr_iff getFlags_config split: if_splits)
next
  case (3 fn factor)
  then show ?case
    by (auto simp: sound_def config_of_setReserveFactor split: if_splits sum.splits)
next
  case (4 fn ltv threshold bonus)
  then show ?case
    by (auto split: if_splits sum.splits elim: configureReserveAsCollateral_sound)
qed auto

lemma initReserveConfig_sound:
  assumes "initReserveConfig decimals data = Inr data'" and "sound (config_of data)"
  shows "sound (config_of data')"
  using assms by (auto simp: initReserveConfig_def step_iffs sound_def config_of_setDecimals)

lemma market_step_sound:
  assumes "market_step st st'" and "\<forall>a. sound (config_of (ms_configuration st a))"
  shows "\<forall>a. sound (config_of (ms_configuration st' a))"
  using assms
proof (induction rule: market_step.induct)
  case (administered sender fn args st st')
  from administered(1) show ?case
  proof (cases rule: configuratorTx_Inr)
    case (reserve asset rest change)
    then show ?thesis
      using administered(2) reserveChange_sound by (auto elim!: reconfigure_Inr)
  qed (use administered(2) in simp)
next
  case (initialized asset decimals st st')
  then show ?case using initReserveConfig_sound by (auto elim!: reconfigure_Inr)
qed simp

text \<open>C11. In every state a market can reach from one without reserves, whoever sends what to the configurator and
  whatever is traded, no reserve is both borrowable and collateral, no loan-to-value exceeds its liquidation
  threshold, a collateral's bonus is above 100%, and the threshold times the bonus is within 100%.\<close>

theorem reachable_configurations_sound:
  assumes "market_step\<^sup>*\<^sup>* st st'" and "\<forall>a. ms_configuration st a = 0"
  shows "sound (config_of (ms_configuration st' a))"
proof -
  have "\<forall>a. sound (config_of (ms_configuration st a))"
    using assms(2) by (simp add: sound_def config_of_0)
  with assms(1) have "\<forall>a. sound (config_of (ms_configuration st' a))"
    by (induction rule: rtranclp_induct) (simp, use market_step_sound in blast)
  then show ?thesis ..
qed

theorem reachable_configurations_sound_witness: "sound (config_of (setActive 0 True))"
proof -
  let ?st = "\<lparr>ms_poolAdmin = ''0xA1'', ms_emergencyAdmin = ''0xA2'', ms_configuration = (\<lambda>a. 0),
      ms_strategy = (\<lambda>a. ''0xB1''), ms_liquidity = (\<lambda>a. 0), ms_liquidityRate = (\<lambda>a. 0), ms_variableIndex = (\<lambda>a. 0),
      ms_paused = False\<rparr>"
  let ?st' = "?st\<lparr>ms_configuration := (\<lambda>a. 0)(''0x1D0'' := setActive 0 True)\<rparr>"
  have "configuratorTx ''0xA1'' ''activateReserve'' [Str ''0x1D0''] ?st = Inr ?st'"
    by (simp add: configuratorTx_reserve plainChanges_def onlyPoolAdmin_def check_def reconfigure_def
        activateReserve_def)
  then have "market_step\<^sup>*\<^sup>* ?st ?st'" by (blast intro: administered)
  from reachable_configurations_sound [OF this, of "''0x1D0''"] show ?thesis by simp
qed

end
