(* ===== verification/ConfiguratorSpec.thy ===== *)
theory ConfiguratorSpec
  imports SuiteActions Configurator
begin

text \<open>
  The test specifications of the configurator: \<open>configurator.spec.goerli.ts\<close>, its Fantom twin
  \<open>configurator.spec.testnet.ts\<close> and \<open>audit/configurator.spec.audit.ts\<close>. The three have the same tests up to
  the reserve, the reserve that gets borrowing, and two tests the twin has commented out. A test talks to
  the live chain of its suite; the assertions of a test are one comparison of all fields it reads.
\<close>

section \<open>Tests\<close>

text \<open>\<open>it(title, test)\<close>: a failing test is reported and the next one runs in the state it left.\<close>

type_synonym 'c test_case = "string \<times> ('c, unit) suite_script"

fun runTests :: "'c test_case list \<Rightarrow> world \<times> 'c \<Rightarrow> (string \<times> error option) list \<times> (world \<times> 'c)" where
  "runTests [] s = ([], s)"
| "runTests ((title, test) # rest) s =
     (case test s of (r, s') \<Rightarrow>
        (case runTests rest s' of (results, s'') \<Rightarrow>
           ((title, case r of Inl e \<Rightarrow> Some e | Inr _ \<Rightarrow> None) # results, s'')))"

definition failures :: "(string \<times> error option) list \<Rightarrow> string list" where
  "failures results = map fst (filter (\<lambda>(title, e). e \<noteq> None) results)"

text \<open>\<open>users[i].signer\<close>\<close>

definition signerOf :: "test_env \<Rightarrow> nat \<Rightarrow> ('c, address) suite_script" where
  "signerOf env i = theUser (if i < length (users env) then Some (users env ! i) else None)"

definition expectAll :: "bool \<Rightarrow> ('c, unit) suite_script" where
  "expectAll ok = requireIO ok (Error ''AssertionError'')"

section \<open>The configurator\<close>

definition APPROVAL_AMOUNT_LENDING_POOL :: string where
  "APPROVAL_AMOUNT_LENDING_POOL = ''1000000000000000000000000000''"

definition asAdmin :: "('c, 'n) suite \<Rightarrow> test_env \<Rightarrow> string \<Rightarrow> string \<Rightarrow> arg list \<Rightarrow> ('c, receipt) suite_script" where
  "asAdmin S env asset method args =
     bindIO (fromEnv env ''configurator'') (\<lambda>configurator.
     bindIO (fromEnv env asset) (\<lambda>token.
     sendAs (live S) (deployer env) configurator method (Str (h_address token) # args) None))"

text \<open>\<open>expect(configurator.connect(users[2].signer)...).to.be.revertedWith(CALLER_NOT_POOL_ADMIN)\<close>\<close>

definition deniedTo :: "('c, 'n) suite \<Rightarrow> test_env \<Rightarrow> string \<Rightarrow> string \<Rightarrow> arg list \<Rightarrow> ('c, unit) suite_script" where
  "deniedTo S env asset method args =
     bindIO (fromEnv env ''configurator'') (\<lambda>configurator.
     bindIO (fromEnv env asset) (\<lambda>token.
     bindIO (signerOf env 2) (\<lambda>user.
     expectRevertedWith (messageOf ''CALLER_NOT_POOL_ADMIN'')
       (sendAs (live S) user configurator method (Str (h_address token) # args) None))))"

definition configurationView :: "string \<Rightarrow> string" where
  "configurationView name = ''getReserveConfigurationData.'' @ name"

definition configurationOf :: "('c, 'n) suite \<Rightarrow> test_env \<Rightarrow> string \<Rightarrow> string list \<Rightarrow> ('c, string list) suite_script" where
  "configurationOf S env asset names =
     bindIO (fromEnv env ''helpersContract'') (\<lambda>helper.
     bindIO (fromEnv env asset) (\<lambda>token.
     forIO names (\<lambda>name. view (live S) helper (configurationView name) [h_address token])))"

definition expectConfiguration ::
  "('c, 'n) suite \<Rightarrow> test_env \<Rightarrow> string \<Rightarrow> (string \<times> string) list \<Rightarrow> ('c, unit) suite_script" where
  "expectConfiguration S env asset expected =
     bindIO (configurationOf S env asset (map fst expected)) (\<lambda>values. expectAll (values = map snd expected))"

definition changes ::
  "('c, 'n) suite \<Rightarrow> test_env \<Rightarrow> string \<Rightarrow> string \<Rightarrow> arg list \<Rightarrow> (string \<times> string) list \<Rightarrow> ('c, unit) suite_script" where
  "changes S env asset method args expected =
     bindIO (asAdmin S env asset method args) (\<lambda>_. expectConfiguration S env asset expected)"

text \<open>The nine assertions on a configuration: the flags and the reserve factor of the test, the numbers of the
  reserve parameters.\<close>

definition configurationWith :: "bool \<Rightarrow> bool \<Rightarrow> bool \<Rightarrow> string \<Rightarrow> IReserveParams \<Rightarrow> (string \<times> string) list" where
  "configurationWith borrowing frozen stableRate factor params =
     [(''borrowingEnabled'', showBool borrowing), (''isActive'', showBool True), (''isFrozen'', showBool frozen),
      (''decimals'', reserveDecimals params), (''ltv'', baseLTVAsCollateral params),
      (''liquidationThreshold'', liquidationThreshold params), (''liquidationBonus'', liquidationBonus params),
      (''stableBorrowRateEnabled'', showBool stableRate), (''reserveFactor'', factor)]"

definition enablesBorrowing ::
  "('c, 'n) suite \<Rightarrow> test_env \<Rightarrow> string \<Rightarrow> IReserveParams \<Rightarrow> ('c, unit) suite_script" where
  "enablesBorrowing S env asset params =
     bindIO (asAdmin S env asset ''enableBorrowingOnReserve'' [Flag True]) (\<lambda>_.
     bindIO (fromEnv env ''helpersContract'') (\<lambda>helper.
     bindIO (fromEnv env asset) (\<lambda>token.
     bindIO (view (live S) helper ''getReserveData.variableBorrowIndex'' [h_address token]) (\<lambda>variableBorrowIndex.
     thenIO (expectConfiguration S env asset
               (configurationWith True False True (reserveFactor params) params))
       (expectAll (variableBorrowIndex = RAY (sbn S)))))))"

text \<open>The deposit of the last test; \<open>funder\<close> is the account the audit takes the DAI from.\<close>

definition depositDai :: "('c, 'n) suite \<Rightarrow> test_env \<Rightarrow> address option \<Rightarrow> ('c, unit) suite_script" where
  "depositDai S env funder =
     bindIO (fromEnv env ''dai'') (\<lambda>dai.
     bindIO (fromEnv env ''pool'') (\<lambda>pool.
     thenIO (case funder of None \<Rightarrow> returnIO () | Some a \<Rightarrow> onWorld (impersonateAccountsHardhat [a])) (
     bindIO (onWorld (senderOf pool)) (\<lambda>userAddress.
     bindIO (inUnits S (h_address dai) ''1000'') (\<lambda>amountDAItoDeposit.
     thenIO (case funder of None \<Rightarrow> returnIO ()
             | Some a \<Rightarrow> bindIO (sendAs (live S) a dai ''transfer'' [Str (deployer env), Str amountDAItoDeposit] None)
                 (\<lambda>_. returnIO ())) (
     bindIO (sendAs (live S) (deployer env) dai ''approve''
               [Str (h_address pool), Str APPROVAL_AMOUNT_LENDING_POOL] None) (\<lambda>_.
     bindIO (sendAs (live S) (deployer env) pool ''deposit''
               [Str (h_address dai), Str amountDAItoDeposit, Str userAddress, Str ''0''] None) (\<lambda>_.
     returnIO ()))))))))"

section \<open>The specifications\<close>

text \<open>
  \<open>coin\<close> and \<open>asset\<close> name the reserve in the titles and in the environment, \<open>params\<close> are its parameters;
  \<open>lent\<close> is the reserve the specification enables borrowing on. \<open>borrowable\<close> is the flag the later tests
  expect of the first reserve; \<open>forked\<close> leaves out the two tests that need a reserve without liquidity.
\<close>

definition activationTests :: "('c, 'n) suite \<Rightarrow> test_env \<Rightarrow> string \<Rightarrow> string \<Rightarrow> bool \<Rightarrow> 'c test_case list" where
  "activationTests S env coin asset forked =
     [(''Reverts trying to set an invalid reserve factor'',
       expectRevertedWith (messageOf ''RC_INVALID_RESERVE_FACTOR'')
         (asAdmin S env asset ''setReserveFactor'' [Str ''65536'']))]
     @ (if forked then [] else
         [(''Deactivates the '' @ coin @ '' reserve'',
           changes S env asset ''deactivateReserve'' [] [(''isActive'', ''false'')])])
     @ [(''Rectivates the '' @ coin @ '' reserve'', changes S env asset ''activateReserve'' [] [(''isActive'', ''true'')]),
        (''Check the onlySturdyAdmin on deactivateReserve '', deniedTo S env asset ''deactivateReserve'' []),
        (''Check the onlySturdyAdmin on activateReserve '', deniedTo S env asset ''activateReserve'' [])]"

definition asConfigured :: "bool \<Rightarrow> IReserveParams \<Rightarrow> (string \<times> string) list" where
  "asConfigured frozen params =
     configurationWith False frozen (stableBorrowRateEnabled params) (reserveFactor params) params"

definition freezeTests ::
  "('c, 'n) suite \<Rightarrow> test_env \<Rightarrow> string \<Rightarrow> string \<Rightarrow> IReserveParams \<Rightarrow> 'c test_case list" where
  "freezeTests S env coin asset params =
     [(''Freezes the '' @ coin @ '' reserve'', changes S env asset ''freezeReserve'' [] (asConfigured True params)),
      (''Unfreezes the '' @ coin @ '' reserve'', changes S env asset ''unfreezeReserve'' [] (asConfigured False params)),
      (''Check the onlySturdyAdmin on freezeReserve '', deniedTo S env asset ''freezeReserve'' []),
      (''Check the onlySturdyAdmin on unfreezeReserve '', deniedTo S env asset ''unfreezeReserve'' [])]"

definition borrowingTests ::
  "('c, 'n) suite \<Rightarrow> test_env \<Rightarrow> string \<Rightarrow> string \<Rightarrow> IReserveParams \<Rightarrow> string \<times> string \<times> IReserveParams \<Rightarrow>
   'c test_case list" where
  "borrowingTests S env coin asset params lent =
     (case lent of (lentCoin, lentAsset, lentParams) \<Rightarrow>
     [(''Deactivates the '' @ coin @ '' reserve for borrowing'',
       changes S env asset ''disableBorrowingOnReserve'' [] (asConfigured False params)),
      (''Activates the '' @ lentCoin @ '' reserve for borrowing'', enablesBorrowing S env lentAsset lentParams),
      (''Check the onlySturdyAdmin on disableBorrowingOnReserve '', deniedTo S env asset ''disableBorrowingOnReserve'' []),
      (''Check the onlySturdyAdmin on enableBorrowingOnReserve '',
       deniedTo S env asset ''enableBorrowingOnReserve'' [Flag True])])"

definition collateralTests ::
  "('c, 'n) suite \<Rightarrow> test_env \<Rightarrow> string \<Rightarrow> string \<Rightarrow> IReserveParams \<Rightarrow> bool \<Rightarrow> bool \<Rightarrow> 'c test_case list" where
  "collateralTests S env coin asset params borrowable forked =
     (if forked then [] else
       [(''Deactivates the '' @ coin @ '' reserve as collateral'',
         changes S env asset ''configureReserveAsCollateral'' [Str ''0'', Str ''0'', Str ''0'']
           (configurationWith borrowable False borrowable (reserveFactor params)
              (params\<lparr>reserveDecimals := ''18'', baseLTVAsCollateral := ''0'', liquidationThreshold := ''0'',
                 liquidationBonus := ''0''\<rparr>)))])
     @ [(''Activates the '' @ coin @ '' reserve as collateral'',
         changes S env asset ''configureReserveAsCollateral'' [Str ''7000'', Str ''7500'', Str ''10750'']
           (configurationWith borrowable False borrowable (reserveFactor params) params)),
        (''Check the onlySturdyAdmin on configureReserveAsCollateral '',
         deniedTo S env asset ''configureReserveAsCollateral'' [Str ''7500'', Str ''8000'', Str ''10500''])]"

definition stableRateTests ::
  "('c, 'n) suite \<Rightarrow> test_env \<Rightarrow> string \<Rightarrow> string \<Rightarrow> IReserveParams \<Rightarrow> string \<times> string \<times> IReserveParams \<Rightarrow>
   bool \<Rightarrow> 'c test_case list" where
  "stableRateTests S env coin asset params lent borrowable =
     (case lent of (lentCoin, lentAsset, lentParams) \<Rightarrow>
     [(''Disable stable borrow rate on the '' @ coin @ '' reserve'',
       changes S env asset ''disableReserveStableRate'' []
         (configurationWith borrowable False False (reserveFactor params) params)),
      (''Enables stable borrow rate on the '' @ lentCoin @ '' reserve'',
       changes S env lentAsset ''enableReserveStableRate'' []
         (configurationWith True False True (reserveFactor lentParams) lentParams)),
      (''Check the onlySturdyAdmin on disableReserveStableRate'', deniedTo S env asset ''disableReserveStableRate'' []),
      (''Check the onlySturdyAdmin on enableReserveStableRate'', deniedTo S env asset ''enableReserveStableRate'' [])])"

definition factorTests ::
  "('c, 'n) suite \<Rightarrow> test_env \<Rightarrow> string \<Rightarrow> string \<Rightarrow> IReserveParams \<Rightarrow> bool \<Rightarrow> address option \<Rightarrow> 'c test_case list" where
  "factorTests S env name asset params borrowable funder =
     [(''Changes the reserve factor of '' @ name,
       changes S env asset ''setReserveFactor'' [Str ''1000'']
         (configurationWith borrowable False borrowable ''1000'' params)),
      (''Check the onlyLendingPoolManager on setReserveFactor'', deniedTo S env asset ''setReserveFactor'' [Str ''2000'']),
      (''Reverts when trying to disable the DAI reserve with liquidity on it'',
       thenIO (depositDai S env funder)
         (expectRevertedWith (messageOf ''LPC_RESERVE_LIQUIDITY_NOT_0'') (asAdmin S env ''dai'' ''deactivateReserve'' [])))]"

definition configuratorSpec ::
  "('c, 'n) suite \<Rightarrow> test_env \<Rightarrow> string \<times> string \<times> string \<times> IReserveParams \<Rightarrow>
   string \<times> string \<times> IReserveParams \<Rightarrow> bool \<Rightarrow> bool \<Rightarrow> address option \<Rightarrow> 'c test_case list" where
  "configuratorSpec S env reserve lent borrowable forked funder =
     (case reserve of (coin, name, asset, params) \<Rightarrow>
        activationTests S env coin asset forked @ freezeTests S env coin asset params
        @ borrowingTests S env coin asset params lent
        @ collateralTests S env coin asset params borrowable forked
        @ stableRateTests S env coin asset params lent borrowable
        @ factorTests S env name asset params borrowable funder)"

lemmas configurator_tests = configuratorSpec_def activationTests_def freezeTests_def asConfigured_def borrowingTests_def
  collateralTests_def stableRateTests_def factorTests_def

definition goerliConfiguratorSpec :: "'m bignumber_js \<Rightarrow> ('c, 'n) suite \<Rightarrow> test_env \<Rightarrow> 'c test_case list" where
  "goerliConfiguratorSpec js S env =
     configuratorSpec S env (''ETH'', ''stETH'', ''lido'', strategySTETH js) (''ETH'', ''lido'', strategySTETH js) True False None"

definition testnetConfiguratorSpec :: "'m bignumber_js \<Rightarrow> ('c, 'n) suite \<Rightarrow> test_env \<Rightarrow> 'c test_case list" where
  "testnetConfiguratorSpec js S env =
     configuratorSpec S env (''FTM'', ''yvWFTM'', ''yvwftm'', ftm_strategyYVWFTM js)
       (''FTM'', ''yvwftm'', ftm_strategyYVWFTM js) True True None"

definition auditConfiguratorSpec :: "'m bignumber_js \<Rightarrow> ('c, 'n) suite \<Rightarrow> test_env \<Rightarrow> 'c test_case list" where
  "auditConfiguratorSpec js S env =
     configuratorSpec S env (''ETH'', ''stETH'', ''lido'', strategySTETH js) (''USDC'', ''usdc'', strategyUSDC js) False False
       (Some ''0x28C6c06298d514Db089934071355E5743bf21d60'')"

end
