(* ===== verification/ConfiguratorRuns.thy ===== *)
theory ConfiguratorRuns
  imports ConfiguratorChecks ConfiguratorSpec SampleScenario
begin

text \<open>
  What the test specifications of the configurator report when they run against it: \<open>marketChain\<close> is a live
  chain whose configurator and data provider are the model's, every other contract being an argument.
\<close>

section \<open>The chain\<close>

definition withCode :: "error \<Rightarrow> error" where
  "withCode e = (case e of Revert reason \<Rightarrow> Revert (codeOf reason) | _ \<Rightarrow> e)"

definition marketChain :: "address \<Rightarrow> address \<Rightarrow> market_state live_chain \<Rightarrow> market_state live_chain" where
  "marketChain configurator helper other = other
     \<lparr>chain_view := (\<lambda>st a method args. case args of
        [asset] \<Rightarrow>
          if a = helper \<and> method = ''getReserveData.variableBorrowIndex''
          then Inr (showNat (unat (ms_variableIndex st asset)))
          else if a = helper \<and> take 28 method = ''getReserveConfigurationData.''
          then (case configurationField (ms_configuration st asset) (drop 28 method) of
             Some v \<Rightarrow> Inr v | None \<Rightarrow> Inl (TypeError method))
          else chain_view other st a method args
      | _ \<Rightarrow> chain_view other st a method args),
      chain_send := (\<lambda>sender a method args value.
        if a = configurator then (\<lambda>st. case configuratorTx sender method args st of
            Inl e \<Rightarrow> (Inl (withCode e), st)
          | Inr st' \<Rightarrow> (Inr \<lparr>blockNumber = 0, transactionHash = '''', cumulativeGasUsed = 0\<rparr>, st'))
        else chain_send other sender a method args value)\<rparr>"

text \<open>The state a specification runs in: the deployer is the pool admin and \<open>users[2]\<close> is not, the contracts are
  in the environment, the first reserve has no liquidity, nobody has borrowed the second, and the deposit of DAI
  goes through in the world \<open>w0\<close> the specification starts in.\<close>

definition contractOf :: "test_env \<Rightarrow> string \<Rightarrow> address" where
  "contractOf env name = (case obj_get (env_contracts env) name of Some h \<Rightarrow> h_address h | None \<Rightarrow> '''')"

definition spec_environment ::
  "(market_state, 'n) suite \<Rightarrow> test_env \<Rightarrow> world \<Rightarrow> string \<Rightarrow> string \<Rightarrow> address option \<Rightarrow> bool" where
  "spec_environment S env w0 asset lent funder \<longleftrightarrow>
     (\<exists>other. live S = marketChain (contractOf env ''configurator'') (contractOf env ''helpersContract'') other) \<and>
     (\<forall>name \<in> {''configurator'', ''helpersContract'', ''dai'', asset, lent}. obj_get (env_contracts env) name \<noteq> None) \<and>
     2 < length (users env) \<and> users env ! 2 \<noteq> deployer env \<and>
     (\<forall>st. \<exists>w' st'. depositDai S env funder (w0, st) = (Inr (), (w', st')) \<and>
        ms_poolAdmin st' = ms_poolAdmin st \<and> \<not> checkNoLiquidity (contractOf env ''dai'') st')"

definition in_market :: "(market_state, 'n) suite \<Rightarrow> test_env \<Rightarrow> world \<Rightarrow> string \<Rightarrow> string \<Rightarrow> (address \<Rightarrow> reserve_config) \<Rightarrow>
    world \<times> market_state \<Rightarrow> bool" where
  "in_market S env w0 asset lent C s \<longleftrightarrow>
     fst s = w0 \<and> ms_poolAdmin (snd s) = deployer env \<and> checkNoLiquidity (contractOf env asset) (snd s) \<and>
     showNat (unat (ms_variableIndex (snd s) (contractOf env lent))) = RAY (sbn S) \<and>
     (\<lambda>a. config_of (ms_configuration (snd s) a)) = C"

definition fails_from ::
  "(world \<times> 'c \<Rightarrow> bool) \<Rightarrow> 'c test_case list \<Rightarrow> string list \<Rightarrow> bool" where
  "fails_from P tests titles \<longleftrightarrow> (\<forall>s. P s \<longrightarrow> failures (fst (runTests tests s)) = titles)"

lemma fails_from_Nil: "fails_from P [] []"
  by (simp add: fails_from_def failures_def)

lemma fails_from_Cons:
  assumes "\<And>s. P s \<Longrightarrow> \<exists>r s'. test s = (r, s') \<and> (isl r \<longleftrightarrow> bad) \<and> Q s'" and "fails_from Q tests titles"
  shows "fails_from P ((title, test) # tests) (if bad then title # titles else titles)"
  unfolding fails_from_def
proof (intro allI impI)
  fix s assume "P s"
  then obtain r s' where run: "test s = (r, s')" "isl r \<longleftrightarrow> bad" and "Q s'"
    using assms(1) by blast
  then have "failures (fst (runTests tests s')) = titles"
    using assms(2) unfolding fails_from_def by blast
  with run show "failures (fst (runTests ((title, test) # tests) s)) = (if bad then title # titles else titles)"
    by (cases r) (auto simp: failures_def split: prod.splits)
qed

text \<open>What a transaction does to a configuration. A reserve whose liquidity matters has none.\<close>

definition effect :: "bool \<Rightarrow> string \<Rightarrow> arg list \<Rightarrow> reserve_config \<Rightarrow> reserve_config \<Rightarrow> bool" where
  "effect idle method args c c' \<longleftrightarrow> (\<exists>change. reserveChange method args = Some change \<and>
     (\<forall>data noLiquidity. config_of data = c \<and> (idle \<longrightarrow> noLiquidity) \<longrightarrow>
        (\<exists>data'. change noLiquidity data = Inr data' \<and> config_of data' = c')))"

definition rejects :: "string \<Rightarrow> arg list \<Rightarrow> reserve_config \<Rightarrow> string \<Rightarrow> bool" where
  "rejects method args c reason \<longleftrightarrow> (\<exists>change. reserveChange method args = Some change \<and>
     (\<forall>data noLiquidity. config_of data = c \<longrightarrow> change noLiquidity data = Inl (Revert reason)))"

lemma plain_effects:
  "effect False ''disableBorrowingOnReserve'' [] c (c\<lparr>rc_borrowing := False\<rparr>)"
  "effect False ''enableReserveStableRate'' [] c (c\<lparr>rc_stable := True\<rparr>)"
  "effect False ''disableReserveStableRate'' [] c (c\<lparr>rc_stable := False\<rparr>)"
  "effect False ''activateReserve'' [] c (c\<lparr>rc_active := True\<rparr>)"
  "effect True ''deactivateReserve'' [] c (c\<lparr>rc_active := False\<rparr>)"
  "effect False ''freezeReserve'' [] c (c\<lparr>rc_frozen := True\<rparr>)"
  "effect False ''unfreezeReserve'' [] c (c\<lparr>rc_frozen := False\<rparr>)"
  by (simp_all add: effect_def plainChanges_def one_configuration_defs check_def)

lemma effect_enableBorrowing:
  "\<not> rc_collateral c \<Longrightarrow>
     effect False ''enableBorrowingOnReserve'' [Flag b] c (c\<lparr>rc_borrowing := True, rc_stable := b\<rparr>)"
  by (auto simp: effect_def enableBorrowingOnReserve_def getFlags_config check_def)

lemma rejects_enableBorrowing:
  "rc_collateral c \<Longrightarrow> rejects ''enableBorrowingOnReserve'' [Flag b] c ''LPC_INVALID_CONFIGURATION''"
  by (auto simp: rejects_def enableBorrowingOnReserve_def getFlags_config check_def)

lemma numerals:
  "uint256Arg ''0'' = Inr 0" "uint256Arg ''1000'' = Inr 1000" "uint256Arg ''2000'' = Inr 2000"
  "uint256Arg ''7000'' = Inr 7000" "uint256Arg ''7500'' = Inr 7500" "uint256Arg ''10750'' = Inr 10750"
  "uint256Arg ''8000'' = Inr 8000" "uint256Arg ''10500'' = Inr 10500" "uint256Arg ''65536'' = Inr 65536"
  by (simp_all add: uint256Arg_def isNumeral_def readDigits_def)

lemma setters_Inr:
  assumes "accepts setter bound upd" and "unat v \<le> bound"
  obtains d where "setter data v = Inr d" and "config_of d = upd v (config_of data)"
  using assms that unfolding accepts_def by metis

lemma effect_setReserveFactor:
  "effect False ''setReserveFactor'' [Str ''1000''] c (c\<lparr>rc_factor := 1000\<rparr>)"
  using setters_accept(5) by (auto simp: effect_def numerals accepts_def)

lemma rejects_setReserveFactor:
  "rejects ''setReserveFactor'' [Str ''65536''] c ''RC_INVALID_RESERVE_FACTOR''"
  by (auto simp: rejects_def numerals setReserveFactor_def max_valid_defs)

lemma effect_notCollateral:
  "effect True ''configureReserveAsCollateral'' [Str ''0'', Str ''0'', Str ''0''] c
     (c\<lparr>rc_ltv := 0, rc_threshold := 0, rc_bonus := 0\<rparr>)"
proof -
  have "\<exists>data'. configureReserveAsCollateral True 0 0 0 data = Inr data' \<and>
      config_of data' = (config_of data)\<lparr>rc_ltv := 0, rc_threshold := 0, rc_bonus := 0\<rparr>" for data
  proof -
    obtain d1 where 1: "setLtv data 0 = Inr d1" "config_of d1 = (config_of data)\<lparr>rc_ltv := 0\<rparr>"
      by (rule setters_Inr [OF setters_accept(1)]) auto
    obtain d2 where 2: "setLiquidationThreshold d1 0 = Inr d2" "config_of d2 = (config_of d1)\<lparr>rc_threshold := 0\<rparr>"
      by (rule setters_Inr [OF setters_accept(2)]) auto
    obtain d3 where 3: "setLiquidationBonus d2 0 = Inr d3" "config_of d3 = (config_of d2)\<lparr>rc_bonus := 0\<rparr>"
      by (rule setters_Inr [OF setters_accept(3)]) auto
    show ?thesis
      using 1 2 3 by (simp add: configureReserveAsCollateral_def getFlags_config check_def)
  qed
  then show ?thesis by (auto simp: effect_def numerals)
qed

lemma effect_collateral:
  assumes "rc_collateral c"
  shows "effect False ''configureReserveAsCollateral'' [Str ''7000'', Str ''7500'', Str ''10750''] c
    (c\<lparr>rc_ltv := 7000, rc_threshold := 7500, rc_bonus := 10750\<rparr>)"
proof -
  have percent: "sol_percentMul 7500 10750 = Inr 8063"
    by (simp add: sol_percentMul_def mulChecked_def addChecked_def check_def HALF_PERCENT_def sol_PERCENTAGE_FACTOR_def)
  have "\<exists>data'. configureReserveAsCollateral noLiquidity 7000 7500 10750 data = Inr data' \<and>
      config_of data' = (config_of data)\<lparr>rc_ltv := 7000, rc_threshold := 7500, rc_bonus := 10750\<rparr>"
    if "rc_collateral (config_of data)" for data noLiquidity
  proof -
    obtain d1 where 1: "setLtv data 7000 = Inr d1" "config_of d1 = (config_of data)\<lparr>rc_ltv := 7000\<rparr>"
      by (rule setters_Inr [OF setters_accept(1)]) auto
    obtain d2 where 2: "setLiquidationThreshold d1 7500 = Inr d2" "config_of d2 = (config_of d1)\<lparr>rc_threshold := 7500\<rparr>"
      by (rule setters_Inr [OF setters_accept(2)]) auto
    obtain d3 where 3: "setLiquidationBonus d2 10750 = Inr d3" "config_of d3 = (config_of d2)\<lparr>rc_bonus := 10750\<rparr>"
      by (rule setters_Inr [OF setters_accept(3)]) auto
    show ?thesis
      using 1 2 3 that percent
      by (simp add: configureReserveAsCollateral_def getFlags_config check_def sol_PERCENTAGE_FACTOR_def)
  qed
  with assms show ?thesis by (auto simp: effect_def numerals)
qed

text \<open>What the tests see of a configuration.\<close>

definition configField :: "reserve_config \<Rightarrow> string \<Rightarrow> string option" where
  "configField c field =
     (let num = (\<lambda>x. showNat (unat x)) in
      obj_get
        [(''decimals'', num (rc_decimals c)), (''ltv'', num (rc_ltv c)),
         (''liquidationThreshold'', num (rc_threshold c)), (''liquidationBonus'', num (rc_bonus c)),
         (''reserveFactor'', num (rc_factor c)), (''usageAsCollateralEnabled'', showBool (rc_threshold c \<noteq> 0)),
         (''borrowingEnabled'', showBool (rc_borrowing c)), (''stableBorrowRateEnabled'', showBool (rc_stable c)),
         (''isActive'', showBool (rc_active c)), (''isFrozen'', showBool (rc_frozen c))] field)"

lemma configurationField_config: "configurationField data = configField (config_of data)"
proof
  fix field
  have "getParams data = (rc_ltv (config_of data), rc_threshold (config_of data), rc_bonus (config_of data),
      rc_decimals (config_of data), rc_factor (config_of data))"
    by (simp add: getParams_def config_of_def getter_defs)
  then show "configurationField data field = configField (config_of data) field"
    by (simp add: configurationField_def configField_def getFlags_config Let_def)
qed

definition shows_all :: "reserve_config \<Rightarrow> (string \<times> string) list \<Rightarrow> bool" where
  "shows_all c expected \<longleftrightarrow> (\<forall>(field, x) \<in> set expected. configField c field = Some x)"

definition readable :: "(string \<times> string) list \<Rightarrow> bool" where
  "readable expected \<longleftrightarrow> (\<forall>(field, x) \<in> set expected. \<forall>c. configField c field \<noteq> None)"

lemma asAdmin_run:
  assumes env: "spec_environment S env w0 asset lent funder" and at: "in_market S env w0 asset lent C (w, st)"
    and name: "name \<in> {''dai'', asset, lent}"
  shows "asAdmin S env name method args (w, st) =
    (case configuratorTx (deployer env) method (Str (contractOf env name) # args) st of
       Inl e \<Rightarrow> (Inl (withCode e), (w, st))
     | Inr st' \<Rightarrow> (Inr \<lparr>blockNumber = 0, transactionHash = '''', cumulativeGasUsed = 0\<rparr>, (w, st')))"
proof -
  from env obtain h c where "obj_get (env_contracts env) ''configurator'' = Some c"
    and "obj_get (env_contracts env) name = Some h"
    using name by (auto simp: spec_environment_def)
  moreover from env obtain other where
    "live S = marketChain (contractOf env ''configurator'') (contractOf env ''helpersContract'') other"
    by (auto simp: spec_environment_def)
  ultimately show ?thesis
    by (simp add: asAdmin_def fromEnv_def contractOf_def sendAs_def onChain_def marketChain_def split: sum.splits)
qed

lemma configurationOf_run:
  assumes env: "spec_environment S env w0 asset lent funder" and name: "name \<in> {asset, lent}"
    and "readable expected"
  shows "configurationOf S env name (map fst expected) (w, st) =
    (Inr (map (\<lambda>(field, x). the (configField (config_of (ms_configuration st (contractOf env name))) field)) expected),
     (w, st))"
proof -
  from env obtain h c where hs: "obj_get (env_contracts env) ''helpersContract'' = Some c"
    "obj_get (env_contracts env) name = Some h"
    using name by (auto simp: spec_environment_def)
  from env obtain other where ch:
    "live S = marketChain (contractOf env ''configurator'') (contractOf env ''helpersContract'') other"
    by (auto simp: spec_environment_def)
  have field: "view (live S) c (configurationView field) [h_address h] (w, st) =
      (Inr v, (w, st))" if "configField (config_of (ms_configuration st (h_address h))) field = Some v" for field v
    using that hs by (simp add: configurationView_def ch view_def io_run marketChain_def contractOf_def liftError_def
        configurationField_config)
  have "forIO (map fst expected) (\<lambda>name. view (live S) c (configurationView name) [h_address h]) (w, st) =
    (Inr (map (\<lambda>(field, x). the (configField (config_of (ms_configuration st (h_address h))) field)) expected), (w, st))"
    using \<open>readable expected\<close>
  proof (induction expected)
    case (Cons a expected)
    obtain f x where a: "a = (f, x)" by (cases a)
    with Cons.prems have "configField (config_of (ms_configuration st (h_address h))) f \<noteq> None"
      by (simp add: readable_def)
    then obtain v where "configField (config_of (ms_configuration st (h_address h))) f = Some v"
      by blast
    with Cons a show ?case by (simp add: field readable_def io_run)
  qed (simp add: io_run)
  then show ?thesis
    using hs by (simp add: configurationOf_def fromEnv_def contractOf_def)
qed

lemma effect_run:
  assumes "effect idle method args (config_of (ms_configuration st a)) c'" and "idle \<longrightarrow> checkNoLiquidity a st"
    and "ms_poolAdmin st = sender"
  obtains data where "configuratorTx sender method (Str a # args) st =
      Inr (st\<lparr>ms_configuration := (ms_configuration st)(a := data)\<rparr>)" and "config_of data = c'"
proof -
  from assms(1) obtain change where change: "reserveChange method args = Some change"
    and does: "\<And>data noLiquidity. config_of data = config_of (ms_configuration st a) \<and> (idle \<longrightarrow> noLiquidity) \<Longrightarrow>
        \<exists>data'. change noLiquidity data = Inr data' \<and> config_of data' = c'"
    by (auto simp: effect_def)
  from does [of "ms_configuration st a" "checkNoLiquidity a st"] assms(2)
  obtain data where data: "change (checkNoLiquidity a st) (ms_configuration st a) = Inr data" "config_of data = c'"
    by auto
  then have "configuratorTx sender method (Str a # args) st =
      Inr (st\<lparr>ms_configuration := (ms_configuration st)(a := data)\<rparr>)"
    using assms(3) by (simp add: configuratorTx_reserve [OF change] onlyPoolAdmin_def check_def reconfigure_def)
  with data(2) show thesis by (rule that [rotated])
qed

lemma in_market_configured:
  assumes "in_market S env w0 asset lent C (w, st)" and "config_of data = c'"
  shows "in_market S env w0 asset lent (C(a := c')) (w, st\<lparr>ms_configuration := (ms_configuration st)(a := data)\<rparr>)"
  using assms by (auto simp: in_market_def checkNoLiquidity_def fun_eq_iff)

lemma shows_all_map:
  assumes "readable expected"
  shows "map (\<lambda>(field, x). the (configField c field)) expected = map snd expected \<longleftrightarrow> shows_all c expected"
proof -
  have "configField c field \<noteq> None" if "(field, x) \<in> set expected" for field x
    using assms that by (auto simp: readable_def)
  then show ?thesis by (fastforce simp: shows_all_def)
qed

lemma expectConfiguration_run:
  assumes "spec_environment S env w0 asset lent funder" and "name \<in> {asset, lent}" and "readable expected"
  shows "expectConfiguration S env name expected (w, st) =
    (if shows_all (config_of (ms_configuration st (contractOf env name))) expected then Inr ()
     else Inl (Error ''AssertionError''), (w, st))"
  unfolding expectConfiguration_def bindIO_run configurationOf_run [OF assms] expectAll_def requireIO_run prod.case
    sum.case shows_all_map [OF assms(3)]
  by simp

lemma fails_changes:
  assumes env: "spec_environment S env w0 asset lent funder" and name: "name \<in> {asset, lent}"
    and eff: "effect idle method args (C (contractOf env name)) c'" and idle: "idle \<longrightarrow> name = asset"
    and expected: "readable expected"
    and rest: "fails_from (in_market S env w0 asset lent (C(contractOf env name := c'))) tests titles"
  shows "fails_from (in_market S env w0 asset lent C) ((title, changes S env name method args expected) # tests)
    (if \<not> shows_all c' expected then title # titles else titles)"
  using _ rest
proof (rule fails_from_Cons)
  fix s assume at: "in_market S env w0 asset lent C s"
  obtain w st where s: "s = (w, st)" by (cases s)
  let ?a = "contractOf env name"
  have eff': "effect idle method args (config_of (ms_configuration st ?a)) c'"
    and idle': "idle \<longrightarrow> checkNoLiquidity ?a st" and admin: "ms_poolAdmin st = deployer env"
    using at eff idle by (auto simp: in_market_def s)
  obtain data where tx: "configuratorTx (deployer env) method (Str ?a # args) st =
      Inr (st\<lparr>ms_configuration := (ms_configuration st)(?a := data)\<rparr>)" and data: "config_of data = c'"
    by (rule effect_run [OF eff' idle' admin])
  let ?st = "st\<lparr>ms_configuration := (ms_configuration st)(?a := data)\<rparr>"
  have "name \<in> {''dai'', asset, lent}" using name by auto
  note run = asAdmin_run [OF env at [unfolded s] this]
  have "changes S env name method args expected s =
      (if shows_all c' expected then Inr () else Inl (Error ''AssertionError''), (w, ?st))"
    by (simp add: changes_def io_run s run tx expectConfiguration_run [OF env name expected] data)
  moreover have "in_market S env w0 asset lent (C(?a := c')) (w, ?st)"
    using in_market_configured [OF at [unfolded s] data] .
  ultimately show "\<exists>r s'. changes S env name method args expected s = (r, s') \<and>
      (isl r \<longleftrightarrow> \<not> shows_all c' expected) \<and> in_market S env w0 asset lent (C(?a := c')) s'"
    by auto
qed

lemma messages:
  "messageOf ''CALLER_NOT_POOL_ADMIN'' = ''33''" "messageOf ''RC_INVALID_RESERVE_FACTOR'' = ''71''"
  "messageOf ''LPC_RESERVE_LIQUIDITY_NOT_0'' = ''34''"
  "codeOf ''CALLER_NOT_POOL_ADMIN'' = ''33''" "codeOf ''RC_INVALID_RESERVE_FACTOR'' = ''71''"
  "codeOf ''LPC_RESERVE_LIQUIDITY_NOT_0'' = ''34''"
  "str_includes ''33'' ''33''" "str_includes ''71'' ''71''" "str_includes ''34'' ''34''"
  by (simp_all add: messageOf_def codeOf_def ProtocolErrors_def contractErrors_def)

lemma fails_denied:
  assumes env: "spec_environment S env w0 asset lent funder" and name: "name \<in> {asset, lent}"
    and "reserveChange method args = Some change" and rest: "fails_from (in_market S env w0 asset lent C) tests titles"
  shows "fails_from (in_market S env w0 asset lent C) ((title, deniedTo S env name method args) # tests) titles"
proof -
  have "fails_from (in_market S env w0 asset lent C) ((title, deniedTo S env name method args) # tests)
      (if False then title # titles else titles)"
    using _ rest
  proof (rule fails_from_Cons)
    fix s assume at: "in_market S env w0 asset lent C s"
    obtain w st where s: "s = (w, st)" by (cases s)
    from env name obtain h c where hs: "obj_get (env_contracts env) ''configurator'' = Some c"
      "obj_get (env_contracts env) name = Some h"
      by (auto simp: spec_environment_def)
    from env obtain other where ch:
      "live S = marketChain (contractOf env ''configurator'') (contractOf env ''helpersContract'') other"
      by (auto simp: spec_environment_def)
    from env at have "2 < length (users env)" "ms_poolAdmin st \<noteq> users env ! 2"
      by (auto simp: spec_environment_def in_market_def s)
    then have "deniedTo S env name method args s = (Inr (), s)"
      using hs assms(3) by (simp add: deniedTo_def io_run fromEnv_def signerOf_def theUser_def s
          expectRevertedWith_def sendAs_def onChain_def ch marketChain_def contractOf_def withCode_def
          configuratorTx_reserve onlyPoolAdmin_def check_def messages)
    with at show "\<exists>r s'. deniedTo S env name method args s = (r, s') \<and> (isl r \<longleftrightarrow> False) \<and>
        in_market S env w0 asset lent C s'"
      by auto
  qed
  then show ?thesis by simp
qed

lemma rejects_run:
  assumes env: "spec_environment S env w0 asset lent funder" and at: "in_market S env w0 asset lent C (w, st)"
    and name: "name \<in> {asset, lent}" and "rejects method args (C (contractOf env name)) reason"
  shows "asAdmin S env name method args (w, st) = (Inl (Revert (codeOf reason)), (w, st))"
proof -
  from assms(4) obtain change where change: "reserveChange method args = Some change"
    and "\<And>data noLiquidity. config_of data = C (contractOf env name) \<Longrightarrow> change noLiquidity data = Inl (Revert reason)"
    by (auto simp: rejects_def)
  moreover have "ms_poolAdmin st = deployer env"
    "config_of (ms_configuration st (contractOf env name)) = C (contractOf env name)"
    using at by (auto simp: in_market_def)
  ultimately have "configuratorTx (deployer env) method (Str (contractOf env name) # args) st = Inl (Revert reason)"
    by (simp add: configuratorTx_reserve [OF change] onlyPoolAdmin_def check_def reconfigure_def)
  moreover have "name \<in> {''dai'', asset, lent}" using name by auto
  ultimately show ?thesis
    by (simp add: asAdmin_run [OF env at] withCode_def)
qed

lemma fails_invalidFactor:
  assumes env: "spec_environment S env w0 asset lent funder"
    and rest: "fails_from (in_market S env w0 asset lent C) tests titles"
  shows "fails_from (in_market S env w0 asset lent C)
    ((title, expectRevertedWith (messageOf ''RC_INVALID_RESERVE_FACTOR'')
       (asAdmin S env asset ''setReserveFactor'' [Str ''65536''])) # tests) titles"
    (is "fails_from ?P ((title, ?test) # tests) titles")
proof -
  have "fails_from ?P ((title, ?test) # tests) (if False then title # titles else titles)"
    using _ rest
  proof (rule fails_from_Cons)
    fix s assume at: "?P s"
    obtain w st where s: "s = (w, st)" by (cases s)
    have "?test s = (Inr (), s)"
      using rejects_run [OF env at [unfolded s] _ rejects_setReserveFactor]
      by (simp add: s expectRevertedWith_def messages)
    with at show "\<exists>r s'. ?test s = (r, s') \<and> (isl r \<longleftrightarrow> False) \<and> ?P s'" by auto
  qed
  then show ?thesis by simp
qed

lemma fails_enablesBorrowing:
  assumes env: "spec_environment S env w0 asset lent funder"
    and "rc_collateral (C (contractOf env lent))" and rest: "fails_from (in_market S env w0 asset lent C) tests titles"
  shows "fails_from (in_market S env w0 asset lent C) ((title, enablesBorrowing S env lent params) # tests) (title # titles)"
    (is "fails_from ?P ((title, ?test) # tests) _")
proof -
  have "fails_from ?P ((title, ?test) # tests) (if True then title # titles else titles)"
    using _ rest
  proof (rule fails_from_Cons)
    fix s assume at: "?P s"
    obtain w st where s: "s = (w, st)" by (cases s)
    have "?test s = (Inl (Revert (codeOf ''LPC_INVALID_CONFIGURATION'')), s)"
      using rejects_run [OF env at [unfolded s] _ rejects_enableBorrowing [OF assms(2)]]
      by (simp add: s enablesBorrowing_def io_run)
    with at show "\<exists>r s'. ?test s = (r, s') \<and> (isl r \<longleftrightarrow> True) \<and> ?P s'" by auto
  qed
  then show ?thesis by simp
qed

lemma passes_enablesBorrowing:
  assumes env: "spec_environment S env w0 asset lent funder"
    and "\<not> rc_collateral (C (contractOf env lent))"
    and expected: "shows_all ((C (contractOf env lent))\<lparr>rc_borrowing := True, rc_stable := True\<rparr>)
        (configurationWith True False True (reserveFactor params) params)"
    and readable: "readable (configurationWith True False True (reserveFactor params) params)"
    and rest: "fails_from (in_market S env w0 asset lent
        (C(contractOf env lent := (C (contractOf env lent))\<lparr>rc_borrowing := True, rc_stable := True\<rparr>))) tests titles"
  shows "fails_from (in_market S env w0 asset lent C) ((title, enablesBorrowing S env lent params) # tests) titles"
    (is "fails_from ?P ((title, ?test) # tests) _")
proof -
  let ?a = "contractOf env lent"
  let ?c = "(C ?a)\<lparr>rc_borrowing := True, rc_stable := True\<rparr>"
  have "fails_from ?P ((title, ?test) # tests) (if False then title # titles else titles)"
    using _ rest
  proof (rule fails_from_Cons)
    fix s assume at: "?P s"
    obtain w st where s: "s = (w, st)" by (cases s)
    have "effect False ''enableBorrowingOnReserve'' [Flag True] (config_of (ms_configuration st ?a)) ?c"
      and admin: "ms_poolAdmin st = deployer env"
      using at effect_enableBorrowing [OF assms(2)] by (auto simp: in_market_def s)
    then obtain data where tx: "configuratorTx (deployer env) ''enableBorrowingOnReserve'' [Str ?a, Flag True] st =
        Inr (st\<lparr>ms_configuration := (ms_configuration st)(?a := data)\<rparr>)" and data: "config_of data = ?c"
      using effect_run by blast
    let ?st = "st\<lparr>ms_configuration := (ms_configuration st)(?a := data)\<rparr>"
    have after: "in_market S env w0 asset lent (C(?a := ?c)) (w, ?st)"
      using in_market_configured [OF at [unfolded s] data] .
    from env obtain h c where hs: "obj_get (env_contracts env) ''helpersContract'' = Some c"
      "obj_get (env_contracts env) lent = Some h"
      by (auto simp: spec_environment_def)
    from env obtain other where ch:
      "live S = marketChain (contractOf env ''configurator'') (contractOf env ''helpersContract'') other"
      by (auto simp: spec_environment_def)
    have index: "view (live S) c ''getReserveData.variableBorrowIndex'' [h_address h] (w, ?st) =
        (Inr (RAY (sbn S)), (w, ?st))"
      using after hs by (simp add: ch view_def io_run marketChain_def contractOf_def liftError_def in_market_def)
    have "?test s = (Inr (), (w, ?st))"
      using hs index by (simp add: enablesBorrowing_def io_run s asAdmin_run [OF env at [unfolded s]] tx fromEnv_def
          expectConfiguration_run [OF env _ readable] data expected expectAll_def)
    with after show "\<exists>r s'. ?test s = (r, s') \<and> (isl r \<longleftrightarrow> False) \<and>
        in_market S env w0 asset lent (C(?a := ?c)) s'" by auto
  qed
  then show ?thesis by simp
qed

lemma fails_last:
  assumes env: "spec_environment S env w0 asset lent funder"
  shows "fails_from (in_market S env w0 asset lent C)
    [(title, thenIO (depositDai S env funder)
       (expectRevertedWith (messageOf ''LPC_RESERVE_LIQUIDITY_NOT_0'') (asAdmin S env ''dai'' ''deactivateReserve'' [])))] []"
    (is "fails_from ?P [(title, ?test)] []")
  unfolding fails_from_def
proof (intro allI impI)
  fix s assume at: "?P s"
  obtain w st where s: "s = (w, st)" by (cases s)
  from env obtain w' st' where dep: "depositDai S env funder (w0, st) = (Inr (), (w', st'))"
    and admin: "ms_poolAdmin st' = ms_poolAdmin st" and liquid: "\<not> checkNoLiquidity (contractOf env ''dai'') st'"
    unfolding spec_environment_def by blast
  from env obtain h c where hs: "obj_get (env_contracts env) ''configurator'' = Some c"
    "obj_get (env_contracts env) ''dai'' = Some h"
    by (auto simp: spec_environment_def)
  from env obtain other where ch:
    "live S = marketChain (contractOf env ''configurator'') (contractOf env ''helpersContract'') other"
    by (auto simp: spec_environment_def)
  have "reserveChange ''deactivateReserve'' [] = Some deactivateReserve"
    by (simp add: plainChanges_def)
  note tx = configuratorTx_reserve [OF this]
  have "ms_poolAdmin st' = deployer env" using at admin by (simp add: in_market_def s)
  then have "asAdmin S env ''dai'' ''deactivateReserve'' [] (w', st') = (Inl (Revert ''34''), (w', st'))"
    using hs liquid by (simp add: asAdmin_def io_run fromEnv_def sendAs_def onChain_def ch marketChain_def contractOf_def
        tx onlyPoolAdmin_def check_def reconfigure_def deactivateReserve_def withCode_def messages)
  then have "?test s = (Inr (), (w', st'))"
    using at by (simp add: s in_market_def io_run dep expectRevertedWith_def messages)
  then show "failures (fst (runTests [(title, ?test)] s)) = []"
    by (simp add: failures_def)
qed

section \<open>Runs\<close>

lemma showBool_eq [simp]: "showBool a = showBool b \<longleftrightarrow> a = b"
  by (simp add: showBool_def)

lemma readable_configurationWith: "readable (configurationWith borrowing frozen stableRate factor params)"
  by (simp add: readable_def configurationWith_def configField_def)

lemma readable_isActive: "readable [(''isActive'', x)]"
  by (simp add: readable_def configField_def)

lemma shows_configurationWith:
  "shows_all c (configurationWith borrowing frozen stableRate factor params) \<longleftrightarrow>
     rc_borrowing c = borrowing \<and> rc_active c \<and> rc_frozen c = frozen \<and> rc_stable c = stableRate \<and>
     showNat (unat (rc_decimals c)) = reserveDecimals params \<and> showNat (unat (rc_ltv c)) = baseLTVAsCollateral params \<and>
     showNat (unat (rc_threshold c)) = liquidationThreshold params \<and>
     showNat (unat (rc_bonus c)) = liquidationBonus params \<and> showNat (unat (rc_factor c)) = factor"
  by (auto simp: shows_all_def configurationWith_def configField_def)

lemma shows_isActive:
  "shows_all c [(''isActive'', ''true'')] \<longleftrightarrow> rc_active c" "shows_all c [(''isActive'', ''false'')] \<longleftrightarrow> \<not> rc_active c"
  by (simp_all add: shows_all_def configField_def showBool_def)

lemma shown_numbers:
  "showNat 0 = ''0''" "showNat 6 = ''6''" "showNat 18 = ''18''" "showNat 1000 = ''1000''" "showNat 7000 = ''7000''"
  "showNat 7500 = ''7500''" "showNat 10750 = ''10750''"
  by (simp_all add: showNat.simps char_of_def bit_0)

lemma collateral_parameters:
  assumes "params = strategySTETH bn \<or> params = ftm_strategyYVWFTM bn"
  shows "intendedConfig params =
      \<lparr>rc_ltv = 7000, rc_threshold = 7500, rc_bonus = 10750, rc_decimals = 18, rc_factor = 0, rc_active = True,
       rc_frozen = False, rc_borrowing = False, rc_stable = False, rc_collateral = True\<rparr>"
    "reserveDecimals params = ''18''" "baseLTVAsCollateral params = ''7000''" "liquidationThreshold params = ''7500''"
    "liquidationBonus params = ''10750''" "reserveFactor params = ''0''" "stableBorrowRateEnabled params = False"
  using assms
  by (auto simp: intendedConfig_def strategySTETH_def ftm_strategyYVWFTM_def readDigits_def)

lemma usdc_parameters:
  "intendedConfig (strategyUSDC bn) =
      \<lparr>rc_ltv = 0, rc_threshold = 0, rc_bonus = 0, rc_decimals = 6, rc_factor = 1000, rc_active = True,
       rc_frozen = False, rc_borrowing = True, rc_stable = False, rc_collateral = False\<rparr>"
    "reserveDecimals (strategyUSDC bn) = ''6''" "baseLTVAsCollateral (strategyUSDC bn) = ''0''"
    "liquidationThreshold (strategyUSDC bn) = ''0''"
    "liquidationBonus (strategyUSDC bn) = ''0''" "reserveFactor (strategyUSDC bn) = ''1000''"
  by (simp_all add: intendedConfig_def strategyUSDC_def readDigits_def)

lemmas side_conditions = readable_isActive readable_configurationWith plainChanges_def numerals
lemmas shown = shows_isActive shows_configurationWith shown_numbers

text \<open>The configurations of the two reserves of a specification are all that matters.\<close>

definition fails_with :: "(market_state, 'n) suite \<Rightarrow> test_env \<Rightarrow> world \<Rightarrow> string \<Rightarrow> string \<Rightarrow> reserve_config \<Rightarrow> reserve_config \<Rightarrow>
    market_state test_case list \<Rightarrow> string list \<Rightarrow> bool" where
  "fails_with S env w0 asset lent c l tests titles \<longleftrightarrow>
     (\<forall>C. C (contractOf env asset) = c \<and> C (contractOf env lent) = l \<longrightarrow>
        fails_from (in_market S env w0 asset lent C) tests titles)"

lemma with_invalidFactor:
  "spec_environment S env w0 asset lent funder \<Longrightarrow> fails_with S env w0 asset lent c l tests titles \<Longrightarrow>
   fails_with S env w0 asset lent c l ((title, expectRevertedWith (messageOf ''RC_INVALID_RESERVE_FACTOR'')
       (asAdmin S env asset ''setReserveFactor'' [Str ''65536''])) # tests) titles"
  unfolding fails_with_def by (blast intro: fails_invalidFactor)

lemma with_denied:
  "spec_environment S env w0 asset lent funder \<Longrightarrow> reserveChange method args = Some change \<Longrightarrow>
   fails_with S env w0 asset lent c l tests titles \<Longrightarrow>
   fails_with S env w0 asset lent c l ((title, deniedTo S env asset method args) # tests) titles"
  unfolding fails_with_def by (blast intro: fails_denied)

lemma with_last:
  "spec_environment S env w0 asset lent funder \<Longrightarrow>
   fails_with S env w0 asset lent c l [(title, thenIO (depositDai S env funder)
       (expectRevertedWith (messageOf ''LPC_RESERVE_LIQUIDITY_NOT_0'') (asAdmin S env ''dai'' ''deactivateReserve'' [])))] []"
  unfolding fails_with_def by (blast intro: fails_last)

lemma with_change:
  assumes "spec_environment S env w0 asset lent funder" and "contractOf env asset \<noteq> contractOf env lent"
    and "effect idle method args c c'" and "readable expected" and "fails_with S env w0 asset lent c' l tests titles"
  shows "fails_with S env w0 asset lent c l ((title, changes S env asset method args expected) # tests)
    (if \<not> shows_all c' expected then title # titles else titles)"
  using assms unfolding fails_with_def
  by (intro allI impI fails_changes [where idle = idle]) auto

lemma with_change_lent:
  assumes "spec_environment S env w0 asset lent funder" and "contractOf env asset \<noteq> contractOf env lent"
    and "effect False method args l l'" and "readable expected" and "fails_with S env w0 asset lent c l' tests titles"
  shows "fails_with S env w0 asset lent c l ((title, changes S env lent method args expected) # tests)
    (if \<not> shows_all l' expected then title # titles else titles)"
  using assms unfolding fails_with_def
  by (intro allI impI fails_changes [where idle = False]) auto

lemma with_change_same:
  assumes "spec_environment S env w0 asset asset funder"
    and "effect idle method args c c'" and "readable expected" and "fails_with S env w0 asset asset c' c' tests titles"
  shows "fails_with S env w0 asset asset c c ((title, changes S env asset method args expected) # tests)
    (if \<not> shows_all c' expected then title # titles else titles)"
  using assms unfolding fails_with_def
  by (intro allI impI fails_changes [where idle = idle]) auto

lemma with_enablesBorrowing:
  assumes "spec_environment S env w0 asset lent funder" and "rc_collateral l" and "fails_with S env w0 asset lent c l tests titles"
  shows "fails_with S env w0 asset lent c l ((title, enablesBorrowing S env lent params) # tests) (title # titles)"
  using assms unfolding fails_with_def by (blast intro: fails_enablesBorrowing)

lemma with_borrowing:
  assumes "spec_environment S env w0 asset lent funder" and "contractOf env asset \<noteq> contractOf env lent"
    and "\<not> rc_collateral l"
    and "shows_all (l\<lparr>rc_borrowing := True, rc_stable := True\<rparr>) (configurationWith True False True (reserveFactor params) params)"
    and "fails_with S env w0 asset lent c (l\<lparr>rc_borrowing := True, rc_stable := True\<rparr>) tests titles"
  shows "fails_with S env w0 asset lent c l ((title, enablesBorrowing S env lent params) # tests) titles"
  using assms unfolding fails_with_def
  by (intro allI impI passes_enablesBorrowing readable_configurationWith) auto

lemmas common_steps = with_last with_invalidFactor with_denied

lemmas lent_steps = common_steps with_borrowing with_change_lent [OF _ _ plain_effects(2)]
  with_change [OF _ _ plain_effects(1)] with_change [OF _ _ plain_effects(3)] with_change [OF _ _ plain_effects(4)]
  with_change [OF _ _ plain_effects(5)] with_change [OF _ _ plain_effects(6)] with_change [OF _ _ plain_effects(7)]
  with_change [OF _ _ effect_setReserveFactor] with_change [OF _ _ effect_notCollateral]
  with_change [OF _ _ effect_collateral]

lemmas same_steps = common_steps with_enablesBorrowing with_change_same [OF _ plain_effects(1)]
  with_change_same [OF _ plain_effects(2)] with_change_same [OF _ plain_effects(3)]
  with_change_same [OF _ plain_effects(4)] with_change_same [OF _ plain_effects(5)]
  with_change_same [OF _ plain_effects(6)] with_change_same [OF _ plain_effects(7)]
  with_change_same [OF _ effect_setReserveFactor] with_change_same [OF _ effect_notCollateral]
  with_change_same [OF _ effect_collateral]

lemma audit_spec_run:
  assumes env: "spec_environment S env w0 ''lido'' ''usdc'' (Some ''0x28C6c06298d514Db089934071355E5743bf21d60'')"
    and distinct: "contractOf env ''lido'' \<noteq> contractOf env ''usdc''"
  shows "fails_with S env w0 ''lido'' ''usdc'' (intendedConfig (strategySTETH bn)) (intendedConfig (strategyUSDC bn))
    (auditConfiguratorSpec bn S env) []"
proof -
  note params = collateral_parameters [OF disjI1 [OF refl], of bn] usdc_parameters
  have "\<exists>titles. fails_with S env w0 ''lido'' ''usdc'' (intendedConfig (strategySTETH bn)) (intendedConfig (strategyUSDC bn))
      (auditConfiguratorSpec bn S env) titles \<and> titles = []"
    unfolding auditConfiguratorSpec_def configurator_tests prod.case Let_def if_False append.simps
    by (rule exI, rule conjI) (rule lent_steps | rule env | rule distinct | (simp add: side_conditions params shown; fail))+
  then show ?thesis by simp
qed

definition outdatedTests :: "string \<Rightarrow> string \<Rightarrow> bool \<Rightarrow> string list" where
  "outdatedTests coin name forked =
     [''Activates the '' @ coin @ '' reserve for borrowing'']
     @ (if forked then [] else [''Deactivates the '' @ coin @ '' reserve as collateral''])
     @ [''Activates the '' @ coin @ '' reserve as collateral'',
        ''Disable stable borrow rate on the '' @ coin @ '' reserve'',
        ''Enables stable borrow rate on the '' @ coin @ '' reserve'', ''Changes the reserve factor of '' @ name]"

lemma outdated_spec_run:
  assumes env: "spec_environment S env w0 asset asset None"
    and "params = strategySTETH bn \<or> params = ftm_strategyYVWFTM bn"
  shows "fails_with S env w0 asset asset (intendedConfig params) (intendedConfig params)
    (configuratorSpec S env (coin, name, asset, params) (coin, asset, params) True forked None)
    (outdatedTests coin name forked)"
    (is "fails_with _ _ _ _ _ _ _ ?spec _")
proof -
  note params = collateral_parameters [OF assms(2)]
  have "\<exists>titles. fails_with S env w0 asset asset (intendedConfig params) (intendedConfig params) ?spec titles \<and>
      titles = outdatedTests coin name forked"
    unfolding configurator_tests prod.case Let_def
    by (cases forked; simp only: if_True if_False append.simps; (rule exI; rule conjI))
      (rule same_steps | rule env | (simp add: side_conditions params shown outdatedTests_def; fail))+
  then show ?thesis by simp
qed

text \<open>C12. The audit's specification of the configurator passes: run against the configurator in a market whose
  stETH and USDC reserves are set up as configured, none of its tests fails. It needs a deployer who is the
  pool admin, another third user, no liquidity in stETH, no loan of USDC, and a deposit that arrives.\<close>

theorem audit_configurator_spec_passes:
  assumes "spec_environment S env w0 ''lido'' ''usdc'' (Some ''0x28C6c06298d514Db089934071355E5743bf21d60'')"
    and "contractOf env ''lido'' \<noteq> contractOf env ''usdc''"
    and "in_market S env w0 ''lido'' ''usdc'' C s"
    and "C (contractOf env ''lido'') = intendedConfig (strategySTETH bn)"
    and "C (contractOf env ''usdc'') = intendedConfig (strategyUSDC bn)"
  shows "failures (fst (runTests (auditConfiguratorSpec bn S env) s)) = []"
  using audit_spec_run [OF assms(1,2)] assms(3-5) unfolding fails_with_def fails_from_def by blast

text \<open>C13. The specifications of the two test networks are out of date: enabling borrowing on a collateral
  reserve is rejected by the configurator, and exactly that test and the ones that rely on it fail.\<close>

theorem testnet_configurator_specs_fail:
  assumes "spec_environment S env w0 asset asset None" and "in_market S env w0 asset asset C s"
    and "(asset, params, spec, titles) \<in>
      {(''lido'', strategySTETH bn, goerliConfiguratorSpec bn S env, outdatedTests ''ETH'' ''stETH'' False),
       (''yvwftm'', ftm_strategyYVWFTM bn, testnetConfiguratorSpec bn S env, outdatedTests ''FTM'' ''yvWFTM'' True)}"
    and "C (contractOf env asset) = intendedConfig params"
  shows "failures (fst (runTests spec s)) = titles"
proof -
  from assms(3) obtain coin name forked where "titles = outdatedTests coin name forked"
    and "spec = configuratorSpec S env (coin, name, asset, params) (coin, asset, params) True forked None"
    and "params = strategySTETH bn \<or> params = ftm_strategyYVWFTM bn"
    by (auto simp: goerliConfiguratorSpec_def testnetConfiguratorSpec_def)
  with outdated_spec_run [OF assms(1)]
  have "fails_with S env w0 asset asset (intendedConfig params) (intendedConfig params) spec titles"
    by blast
  with assms(2,4) show ?thesis unfolding fails_with_def fails_from_def by blast
qed

section \<open>A market to run in\<close>

definition sampleOther :: "market_state live_chain" where
  "sampleOther =
     \<lparr>chain_view = (\<lambda>st a method args. Inr ''18''),
      chain_send = (\<lambda>sender a method args value st.
        (Inr \<lparr>blockNumber = 1, transactionHash = '''', cumulativeGasUsed = 0\<rparr>,
         if method = ''deposit'' then st\<lparr>ms_liquidity := (ms_liquidity st)(''0xDA1'' := 1)\<rparr> else st)),
      chain_rpc = (\<lambda>method args. returnIO ()),
      blockTimestamp = (\<lambda>c b. 7), latestTimestamp = (\<lambda>c. 7), currentBlockTimestamp = (\<lambda>c. Some 7),
      gasPrice = (\<lambda>c h. 1)\<rparr>"

definition sampleSpecSuite :: "(market_state, rat option) suite" where
  "sampleSpecSuite = sturdySuite sampleTools (marketChain ''0xC0'' ''0xC1'' sampleOther) [] False"

definition sampleSpecEnv :: test_env where
  "sampleSpecEnv = \<lparr>deployer = ''0xA1'', emergencyUser = ''0xA2'', users = [''0xA3'', ''0xA4'', ''0xA5''],
     env_contracts = map (\<lambda>(name, a). (name, connectAt name a (Some ''0xA1'')))
       [(''configurator'', ''0xC0''), (''helpersContract'', ''0xC1''), (''pool'', ''0xC2''), (''dai'', ''0xDA1''),
        (''lido'', ''0x1D0''), (''usdc'', ''0x05DC''), (''yvwftm'', ''0xF7'')]\<rparr>"

definition sampleMarketState :: "uint256 \<Rightarrow> uint256 \<Rightarrow> market_state" where
  "sampleMarketState collateral lent =
     \<lparr>ms_poolAdmin = ''0xA1'', ms_emergencyAdmin = ''0xA2'',
      ms_configuration = (\<lambda>a. if a = ''0x05DC'' then lent else collateral), ms_strategy = (\<lambda>a. ''0xB1''),
      ms_liquidity = (\<lambda>a. 0), ms_liquidityRate = (\<lambda>a. 0), ms_variableIndex = (\<lambda>a. 1000000000000000000000000000),
      ms_paused = False\<rparr>"

lemma sampleSpecEnv_simps:
  "contractOf sampleSpecEnv ''configurator'' = ''0xC0''" "contractOf sampleSpecEnv ''helpersContract'' = ''0xC1''"
  "contractOf sampleSpecEnv ''dai'' = ''0xDA1''" "contractOf sampleSpecEnv ''lido'' = ''0x1D0''"
  "contractOf sampleSpecEnv ''usdc'' = ''0x05DC''" "contractOf sampleSpecEnv ''yvwftm'' = ''0xF7''"
  "deployer sampleSpecEnv = ''0xA1''" "users sampleSpecEnv = [''0xA3'', ''0xA4'', ''0xA5'']"
  by (simp_all add: contractOf_def sampleSpecEnv_def connectAt_def)

lemma sample_spec_deposit:
  assumes "funder \<in> {None, Some ''0x28C6c06298d514Db089934071355E5743bf21d60''}"
  shows "\<exists>w' st'. depositDai sampleSpecSuite sampleSpecEnv funder (sampleSuiteWorld, st) = (Inr (), (w', st')) \<and>
    ms_poolAdmin st' = ms_poolAdmin st \<and> \<not> checkNoLiquidity ''0xDA1'' st'"
proof -
  have env: "obj_get (env_contracts sampleSpecEnv) ''dai'' = Some (connectAt ''dai'' ''0xDA1'' (Some ''0xA1''))"
    "obj_get (env_contracts sampleSpecEnv) ''pool'' = Some (connectAt ''pool'' ''0xC2'' (Some ''0xA1''))"
    by (simp_all add: sampleSpecEnv_def)
  have token: "getIErc20Detailed ''0xDA1'' sampleSuiteWorld =
      (Inr (connectAt ''IERC20Detailed'' ''0xDA1'' (Some ''0xA1'')), sampleSuiteWorld)"
    "getIErc20Detailed ''0xDA1'' (sampleSuiteWorld\<lparr>impersonated := xs\<rparr>) =
      (Inr (connectAt ''IERC20Detailed'' ''0xDA1'' (Some ''0xA1'')), sampleSuiteWorld\<lparr>impersonated := xs\<rparr>)" for xs
    by (simp_all add: getIErc20Detailed_def suite_run_defs)
  show ?thesis
    using assms
    by (auto simp: depositDai_def io_run fromEnv_def env onWorld_run impersonateAccountsHardhat_def sampleSuiteWorld_simps
        senderOf_def connectAt_def inUnits_def token view_run sampleSpecSuite_def sturdySuite_def marketChain_def
        sampleOther_def unitsOf_def sampleTools_def liftError_run sendAs_def onChain_def checkNoLiquidity_def)
qed

lemma sample_spec_environment:
  assumes "asset \<in> {''lido'', ''yvwftm''}" and "lent \<in> {''usdc'', ''lido'', ''yvwftm''}"
    and "funder \<in> {None, Some ''0x28C6c06298d514Db089934071355E5743bf21d60''}"
  shows "spec_environment sampleSpecSuite sampleSpecEnv sampleSuiteWorld asset lent funder"
  unfolding spec_environment_def sampleSpecEnv_simps
proof (intro conjI)
  show "\<exists>other. live sampleSpecSuite = marketChain ''0xC0'' ''0xC1'' other"
    by (auto simp: sampleSpecSuite_def sturdySuite_def)
  show "\<forall>name\<in>{''configurator'', ''helpersContract'', ''dai'', asset, lent}. obj_get (env_contracts sampleSpecEnv) name \<noteq> None"
    using assms(1,2) by (auto simp: sampleSpecEnv_def)
qed (use sample_spec_deposit [OF assms(3)] in auto)

text \<open>The configuration word of a reserve that is set up as configured.\<close>

definition setUpWord :: "IReserveParams \<Rightarrow> uint256" where
  "setUpWord params = projr (setUpReserve params)"

lemma config_of_setUpWord:
  assumes "params \<in> {strategySTETH bn, strategyUSDC bn, ftm_strategyYVWFTM bn}"
  shows "config_of (setUpWord params) = intendedConfig params"
proof -
  have "acceptable params"
    using assms reserves_acceptable [of bn]
    by (auto simp: SturdyReservesConfig_def FantomReservesConfig_def)
  from setUpReserve_ok [OF this] show ?thesis by (auto simp: setUpWord_def)
qed

lemma sample_in_market:
  "in_market sampleSpecSuite sampleSpecEnv sampleSuiteWorld asset lent
     (\<lambda>a. config_of (ms_configuration (sampleMarketState c l) a)) (sampleSuiteWorld, sampleMarketState c l)"
  by (simp add: in_market_def sampleMarketState_def sampleSpecEnv_simps checkNoLiquidity_def RAY_def
      sampleSpecSuite_def sturdySuite_def sampleTools_def rational_js_def printNat_def)

theorem audit_configurator_spec_passes_witness:
  "failures (fst (runTests (auditConfiguratorSpec decimal_js sampleSpecSuite sampleSpecEnv)
     (sampleSuiteWorld, sampleMarketState (setUpWord (strategySTETH decimal_js)) (setUpWord (strategyUSDC decimal_js))))) = []"
  by (rule audit_configurator_spec_passes [OF sample_spec_environment _ sample_in_market])
    (simp_all add: sampleSpecEnv_simps sampleMarketState_def config_of_setUpWord [where bn = decimal_js])

theorem testnet_configurator_specs_fail_witness:
  "failures (fst (runTests (goerliConfiguratorSpec decimal_js sampleSpecSuite sampleSpecEnv)
     (sampleSuiteWorld, sampleMarketState (setUpWord (strategySTETH decimal_js)) 0))) = outdatedTests ''ETH'' ''stETH'' False"
  by (rule testnet_configurator_specs_fail [where asset = "''lido''" and bn = decimal_js, OF sample_spec_environment sample_in_market])
    (simp_all add: sampleSpecEnv_simps sampleMarketState_def config_of_setUpWord [where bn = decimal_js])

end
