(* ===== verification/RegistrySpec.thy ===== *)
theory RegistrySpec
  imports ProviderRegistry MakeSuite ConfiguratorRuns
begin

text \<open>
  The test specification \<open>addresses-provider-registry.spec.goerli.ts\<close> (its copies for the forked main network, for
  Fantom and for the audit have the same text), and what it reports when it runs against the registry.
\<close>

section \<open>The specification\<close>

text \<open>\<open>registry.connect(registryOwnerSigner)\<close>: a contract without a signer cannot send a transaction.\<close>

definition asRegistryOwner :: "('c, 'n) suite \<Rightarrow> suite_env \<Rightarrow> string \<Rightarrow> arg list \<Rightarrow> ('c, receipt) suite_script" where
  "asRegistryOwner S env fn args =
     bindIO (fromEnv (test_env.truncate env) ''registry'') (\<lambda>registry.
     case registryOwnerSigner env of
       None \<Rightarrow> throwIO (Error ''sending a transaction requires a signer'')
     | Some signer \<Rightarrow> sendAs (live S) signer registry fn args None)"

text \<open>\<open>getAddressesProvidersList()\<close>, its length and the entries a test compares.\<close>

definition expectProviders :: "('c, 'n) suite \<Rightarrow> suite_env \<Rightarrow> nat \<Rightarrow> (nat \<times> address) list \<Rightarrow> ('c, unit) suite_script" where
  "expectProviders S env n expected =
     bindIO (fromEnv (test_env.truncate env) ''registry'') (\<lambda>registry.
     bindIO (view (live S) registry ''getAddressesProvidersList.length'' []) (\<lambda>count.
     thenIO (expectAll (count = showNat n))
       (bindIO (forIO expected (\<lambda>(i, a).
          bindIO (view (live S) registry (''getAddressesProvidersList.'' @ showNat i) []) (\<lambda>p. expectAll (p = a))))
        (\<lambda>_. returnIO ()))))"

definition providerId :: "('c, 'n) suite \<Rightarrow> suite_env \<Rightarrow> address \<Rightarrow> ('c, string) suite_script" where
  "providerId S env a =
     bindIO (fromEnv (test_env.truncate env) ''registry'') (\<lambda>registry.
     view (live S) registry ''getAddressesProviderIdByAddress'' [a])"

definition userOf :: "suite_env \<Rightarrow> nat \<Rightarrow> ('c, address) suite_script" where
  "userOf env = signerOf (test_env.truncate env)"

definition registersProvider :: "('c, 'n) suite \<Rightarrow> suite_env \<Rightarrow> ('c, unit) suite_script" where
  "registersProvider S env =
     bindIO (userOf env 1) (\<lambda>user.
     bindIO (asRegistryOwner S env ''registerAddressesProvider'' [Str user, Str ''2'']) (\<lambda>_.
     expectProviders S env 2 [(1, user)]))"

definition removesProvider :: "('c, 'n) suite \<Rightarrow> suite_env \<Rightarrow> ('c, unit) suite_script" where
  "removesProvider S env =
     bindIO (userOf env 1) (\<lambda>user.
     bindIO (providerId S env user) (\<lambda>i.
     thenIO (expectAll (i = ''2''))
       (bindIO (asRegistryOwner S env ''unregisterAddressesProvider'' [Str user]) (\<lambda>_.
        bindIO (fromEnv (test_env.truncate env) ''addressesProvider'') (\<lambda>addressesProvider.
        expectProviders S env 2 [(0, h_address addressesProvider), (1, ZERO_ADDRESS)])))))"

definition removesUnregistered :: "('c, 'n) suite \<Rightarrow> suite_env \<Rightarrow> ('c, unit) suite_script" where
  "removesUnregistered S env =
     bindIO (userOf env 2) (\<lambda>user.
     expectRevertedWith (messageOf ''LPAPR_PROVIDER_NOT_REGISTERED'')
       (asRegistryOwner S env ''unregisterAddressesProvider'' [Str user]))"

text \<open>The id read in the last test is not compared with anything.\<close>

definition registrySpec :: "('c, 'n) suite \<Rightarrow> suite_env \<Rightarrow> 'c test_case list" where
  "registrySpec S env =
     [(''Checks the addresses provider is added to the registry'',
       bindIO (fromEnv (test_env.truncate env) ''addressesProvider'') (\<lambda>addressesProvider.
       expectProviders S env 1 [(0, h_address addressesProvider)])),
      (''tries to register an addresses provider with id 0'',
       bindIO (userOf env 2) (\<lambda>user.
       expectRevertedWith (messageOf ''LPAPR_INVALID_ADDRESSES_PROVIDER_ID'')
         (asRegistryOwner S env ''registerAddressesProvider'' [Str user, Str ''0'']))),
      (''Registers a new mock addresses provider'', registersProvider S env),
      (''Removes the mock addresses provider'', removesProvider S env),
      (''Tries to remove a unregistered addressesProvider'', removesUnregistered S env),
      (''Tries to remove a unregistered addressesProvider'', removesUnregistered S env),
      (''Tries to add an already added addressesProvider with a different id. Should overwrite the previous id'',
       bindIO (fromEnv (test_env.truncate env) ''addressesProvider'') (\<lambda>addressesProvider.
       bindIO (asRegistryOwner S env ''registerAddressesProvider'' [Str (h_address addressesProvider), Str ''2'']) (\<lambda>_.
       bindIO (providerId S env (h_address addressesProvider)) (\<lambda>_.
       expectProviders S env 2 [(0, h_address addressesProvider), (1, ZERO_ADDRESS)]))))]"

section \<open>The chain\<close>

fun registryView :: "provider_registry \<Rightarrow> string \<Rightarrow> string list \<Rightarrow> error + string" where
  "registryView st fn [] =
     (let providers = getAddressesProvidersList st in
      if fn = ''getAddressesProvidersList.length'' then Inr (showNat (length providers))
      else case find (\<lambda>i. fn = ''getAddressesProvidersList.'' @ showNat i) [0..<length providers] of
        Some i \<Rightarrow> Inr (providers ! i) | None \<Rightarrow> Inl (TypeError fn))"
| "registryView st fn [a] =
     (if fn = ''getAddressesProviderIdByAddress'' then Inr (showNat (unat (getAddressesProviderIdByAddress st a)))
      else Inl (TypeError fn))"
| "registryView st fn args = Inl (TypeError fn)"

fun registryTx :: "string \<Rightarrow> arg list \<Rightarrow> error + registry_call" where
  "registryTx fn [Str a, Str i] =
     (if fn = ''registerAddressesProvider'' then bindSum (uint256Arg i) (\<lambda>n. Inr (Register a n))
      else Inl (InvalidArgument fn))"
| "registryTx fn [Str a] =
     (if fn = ''unregisterAddressesProvider'' then Inr (Unregister a)
      else if fn = ''transferOwnership'' then Inr (Transfer a) else Inl (InvalidArgument fn))"
| "registryTx fn [] = (if fn = ''renounceOwnership'' then Inr Renounce else Inl (InvalidArgument fn))"
| "registryTx fn args = Inl (InvalidArgument fn)"

definition registryChain :: "address \<Rightarrow> provider_registry live_chain \<Rightarrow> provider_registry live_chain" where
  "registryChain registry other = other
     \<lparr>chain_view := (\<lambda>st a fn args. if a = registry then registryView st fn args else chain_view other st a fn args),
      chain_send := (\<lambda>sender a fn args value.
        if a = registry then (\<lambda>st. case bindSum (registryTx fn args) (\<lambda>call. registryCall sender call st) of
            Inl e \<Rightarrow> (Inl (withCode e), st)
          | Inr st' \<Rightarrow> (Inr \<lparr>blockNumber = 0, transactionHash = '''', cumulativeGasUsed = 0\<rparr>, st'))
        else chain_send other sender a fn args value)\<rparr>"

section \<open>Runs\<close>

text \<open>The market a specification runs in: two providers at most, of which the first is the market's own.\<close>

definition registry_environment :: "(provider_registry, 'n) suite \<Rightarrow> suite_env \<Rightarrow> address \<Rightarrow> address \<Rightarrow> address \<Rightarrow> bool" where
  "registry_environment S env a u v \<longleftrightarrow>
     (\<exists>r p other. obj_get (env_contracts env) ''registry'' = Some r \<and>
        obj_get (env_contracts env) ''addressesProvider'' = Some p \<and> h_address p = a \<and>
        live S = registryChain (h_address r) other) \<and>
     (\<exists>first rest. users env = first # u # v # rest) \<and> distinct [a, u, v]"

lemma registry_environmentE:
  assumes "registry_environment S env a u v"
  obtains r p other first rest where "obj_get (env_contracts (test_env.truncate env)) ''registry'' = Some r"
    and "obj_get (env_contracts (test_env.truncate env)) ''addressesProvider'' = Some p" and "h_address p = a"
    and "live S = registryChain (h_address r) other" and "users (test_env.truncate env) = first # u # v # rest"
    and "distinct [a, u, v]"
  using assms by (auto simp: registry_environment_def test_env.defs)

lemma userOf_run:
  assumes "registry_environment S env a u v"
  shows "userOf env (Suc 0) s = (Inr u, s)" and "userOf env 2 s = (Inr v, s)"
  using assms by (auto elim!: registry_environmentE simp: userOf_def signerOf_def theUser_def io_run)

lemma provider_run:
  assumes "registry_environment S env a u v"
  obtains p where "fromEnv (test_env.truncate env) ''addressesProvider'' = (returnIO p :: (provider_registry, handle) suite_script)"
    and "h_address p = a"
  using assms by (auto elim!: registry_environmentE simp: fromEnv_def)

lemma shown_positions: "showNat 0 = ''0''" "showNat 1 = ''1''" "showNat 2 = ''2''" "showNat (Suc 0) = ''1''"
  by (simp_all add: showNat.simps char_of_def bit_0)

lemma showNat_eq: "showNat m = showNat n \<longleftrightarrow> m = n"
  using readDigits_showNat by metis

lemma registryView_entry:
  assumes "i < length (reg_list st)"
  shows "registryView st (''getAddressesProvidersList.'' @ showNat i) [] = Inr (getAddressesProvidersList st ! i)"
proof -
  have "showNat i \<noteq> ''length''" using readDigits_showNat [of i] by (auto simp: isNumeral_def)
  then have "''getAddressesProvidersList.'' @ showNat i \<noteq> ''getAddressesProvidersList.'' @ ''length''"
    unfolding same_append_eq .
  moreover have "find (\<lambda>j. i = j) [0..<length (reg_list st)] = Some i"
    unfolding find_Some_iff using assms by (intro exI [of _ i]) simp
  ultimately show ?thesis
    by (simp add: getAddressesProvidersList_def showNat_eq)
qed

lemma expectAll_run: "expectAll b s = (if b then Inr () else Inl (Error ''AssertionError''), s)"
  by (simp add: expectAll_def requireIO_run)

lemma bind_Inr: "m s = (Inr x, s') \<Longrightarrow> bindIO m f s = f x s'"
  by (simp add: bindIO_run)

lemma forIO_units: "(\<And>x. x \<in> set xs \<Longrightarrow> f x s = (Inr (), s)) \<Longrightarrow> forIO xs f s = (Inr (map (\<lambda>_. ()) xs), s)"
  by (induction xs) (simp_all add: io_run)

lemma expectProviders_run:
  assumes env: "registry_environment S env a u v"
    and "\<forall>(i, x) \<in> set expected. i < length (reg_list st) \<and> getAddressesProvidersList st ! i = x"
  shows "expectProviders S env n expected (w, st) =
    (if length (reg_list st) = n then Inr () else Inl (Error ''AssertionError''), (w, st))"
proof -
  from env obtain r other where r: "fromEnv (test_env.truncate env) ''registry'' = (returnIO r :: (provider_registry, handle) suite_script)"
    and ch: "live S = registryChain (h_address r) other"
    by (auto elim!: registry_environmentE simp: fromEnv_def)
  have read: "view (live S) r fn [] (w, st) = (case registryView st fn [] of Inl e \<Rightarrow> (Inl e, (w, st)) | Inr x \<Rightarrow> (Inr x, (w, st)))" for fn
    by (simp add: view_def io_run ch registryChain_def liftError_def split: sum.splits)
  have count: "registryView st ''getAddressesProvidersList.length'' [] = Inr (showNat (length (reg_list st)))"
    by (simp add: getAddressesProvidersList_def)
  have entry: "bindIO (view (live S) r (''getAddressesProvidersList.'' @ showNat i) []) (\<lambda>p. expectAll (p = x)) (w, st) =
      (Inr (), (w, st))" if "i < length (reg_list st)" and "getAddressesProvidersList st ! i = x" for i x
    by (simp only: bindIO_run read registryView_entry [OF that(1)] sum.case prod.case expectAll_def requireIO_run that
        simp_thms if_True)
  let ?loop = "forIO expected (\<lambda>(i, x). bindIO (view (live S) r (''getAddressesProvidersList.'' @ showNat i) [])
      (\<lambda>p. expectAll (p = x)))"
  have "?loop (w, st) = (Inr (map (\<lambda>_. ()) expected), (w, st))"
    using assms(2) by (intro forIO_units) (auto simp only: entry split: prod.splits)
  then have loop: "bindIO ?loop (\<lambda>_. returnIO ()) (w, st) = (Inr (), (w, st))"
    by (simp only: bind_Inr returnIO_run)
  have "view (live S) r ''getAddressesProvidersList.length'' [] (w, st) = (Inr (showNat (length (reg_list st))), (w, st))"
    by (simp only: read count sum.case)
  then have "expectProviders S env n expected (w, st) =
      thenIO (expectAll (showNat (length (reg_list st)) = showNat n)) (bindIO ?loop (\<lambda>_. returnIO ())) (w, st)"
    unfolding expectProviders_def r by (intro trans [OF bind_Inr [OF returnIO_run]] bind_Inr)
  then show ?thesis
    by (cases "length (reg_list st) = n")
      (simp_all only: thenIO_run expectAll_run showNat_eq loop simp_thms if_True if_False prod.case sum.case)
qed

lemma asRegistryOwner_run:
  assumes "registry_environment S env a u v" and "registryOwnerSigner env = Some (reg_owner st)"
    and "registryTx fn args = Inr call"
  shows "asRegistryOwner S env fn args (w, st) =
    (case registryCall (reg_owner st) call st of
       Inl e \<Rightarrow> (Inl (withCode e), (w, st))
     | Inr st' \<Rightarrow> (Inr \<lparr>blockNumber = 0, transactionHash = '''', cumulativeGasUsed = 0\<rparr>, (w, st')))"
  using assms
  by (auto elim!: registry_environmentE simp: asRegistryOwner_def fromEnv_def io_run sendAs_def onChain_def
      registryChain_def split: sum.splits)

lemma asRegistryOwner_nobody:
  assumes "registry_environment S env a u v" and "registryOwnerSigner env = None"
  shows "asRegistryOwner S env fn args s = (Inl (Error ''sending a transaction requires a signer''), s)"
  using assms by (auto elim!: registry_environmentE simp: asRegistryOwner_def fromEnv_def io_run)

lemma providerId_run:
  assumes "registry_environment S env a u v"
  shows "providerId S env x (w, st) = (Inr (showNat (unat (reg_ids st x))), (w, st))"
  using assms by (auto elim!: registry_environmentE simp: providerId_def fromEnv_def io_run view_def
      registryChain_def liftError_def getAddressesProviderIdByAddress_def)

lemma registry_messages:
  "messageOf ''LPAPR_INVALID_ADDRESSES_PROVIDER_ID'' = ''72''" "messageOf ''LPAPR_PROVIDER_NOT_REGISTERED'' = ''41''"
  "codeOf ''LPAPR_INVALID_ADDRESSES_PROVIDER_ID'' = ''72''" "codeOf ''LPAPR_PROVIDER_NOT_REGISTERED'' = ''41''"
  "str_includes ''72'' ''72''" "str_includes ''41'' ''41''"
  by (simp_all add: messageOf_def codeOf_def ProtocolErrors_def contractErrors_def)

text \<open>One test after the other.\<close>

lemma failures_Cons:
  assumes "test s = (r, s')"
  shows "failures (fst (runTests ((title, test) # tests) s)) =
    (if isl r then title # failures (fst (runTests tests s')) else failures (fst (runTests tests s')))"
  using assms by (cases r) (auto simp: failures_def split: prod.splits)

lemma failures_Nil: "failures (fst (runTests [] s)) = []"
  by (simp add: failures_def)

lemma two: "uint256Arg ''2'' = Inr 2"
  by (simp add: uint256Arg_def isNumeral_def readDigits_def)

lemmas test_defs = registersProvider_def removesProvider_def removesUnregistered_def expectRevertedWith_def expectAll_def
  withCode_def registry_messages

lemma registry_spec_with_owner:
  assumes env: "registry_environment S env a u v" and owner: "registryOwnerSigner env = Some (reg_owner st)"
    and st: "reg_list st = [a]" "reg_ids st a \<noteq> 0" "reg_ids st u = 0" "reg_ids st v = 0"
  shows "failures (fst (runTests (registrySpec S env) (w, st))) = []"
proof -
  obtain p where p: "fromEnv (test_env.truncate env) ''addressesProvider'' = (returnIO p :: (provider_registry, handle) suite_script)"
    and a: "h_address p = a"
    using provider_run [OF env] .
  from env have distinct: "a \<noteq> u" "a \<noteq> v" "u \<noteq> v" by (auto simp: registry_environment_def)
  let ?st1 = "st\<lparr>reg_ids := (reg_ids st)(u := 2), reg_list := [a, u]\<rparr>"
  let ?st2 = "st\<lparr>reg_ids := (reg_ids st)(u := 0), reg_list := [a, u]\<rparr>"
  let ?st3 = "st\<lparr>reg_ids := (reg_ids st)(u := 0, a := 2), reg_list := [a, u]\<rparr>"
  note runs = bindIO_run returnIO_run thenIO_run requireIO_run userOf_run [OF env] expectProviders_run [OF env] providerId_run [OF env]
    asRegistryOwner_run [OF env] p a owner st distinct distinct [symmetric]
  note calls = numerals two registry_defs check_def getAddressesProvidersList_def shown_positions
  have "bindIO (fromEnv (test_env.truncate env) ''addressesProvider'') (\<lambda>q. expectProviders S env 1 [(0, h_address q)]) (w, st) =
      (Inr (), (w, st))"
    by (simp add: runs calls)
  moreover have "bindIO (userOf env 2) (\<lambda>user. expectRevertedWith (messageOf ''LPAPR_INVALID_ADDRESSES_PROVIDER_ID'')
      (asRegistryOwner S env ''registerAddressesProvider'' [Str user, Str ''0''])) (w, st) = (Inr (), (w, st))"
    by (simp add: runs calls test_defs)
  moreover have "registersProvider S env (w, st) = (Inr (), (w, ?st1))"
    by (simp add: runs calls test_defs)
  moreover have "removesProvider S env (w, ?st1) = (Inr (), (w, ?st2))"
    by (simp add: runs calls test_defs)
  moreover have "removesUnregistered S env (w, ?st2) = (Inr (), (w, ?st2))"
    by (simp add: runs calls test_defs)
  moreover have "bindIO (fromEnv (test_env.truncate env) ''addressesProvider'') (\<lambda>addressesProvider.
       bindIO (asRegistryOwner S env ''registerAddressesProvider'' [Str (h_address addressesProvider), Str ''2'']) (\<lambda>_.
       bindIO (providerId S env (h_address addressesProvider)) (\<lambda>_.
       expectProviders S env 2 [(0, h_address addressesProvider), (1, ZERO_ADDRESS)]))) (w, ?st2) = (Inr (), (w, ?st3))"
    by (simp add: runs calls)
  ultimately show ?thesis
    unfolding registrySpec_def by (simp only: failures_Cons failures_Nil sum.disc if_False)
qed

lemma registry_spec_without_owner:
  assumes env: "registry_environment S env a u v" and owner: "registryOwnerSigner env = None"
    and st: "reg_list st = [a]" "reg_ids st a \<noteq> 0" "reg_ids st u = 0"
  shows "failures (fst (runTests (registrySpec S env) (w, st))) = map fst (tl (registrySpec S env))"
proof -
  obtain p where p: "fromEnv (test_env.truncate env) ''addressesProvider'' = (returnIO p :: (provider_registry, handle) suite_script)"
    and a: "h_address p = a"
    using provider_run [OF env] .
  note runs = bindIO_run returnIO_run thenIO_run requireIO_run userOf_run [OF env] expectProviders_run [OF env] providerId_run [OF env]
    asRegistryOwner_nobody [OF env owner] p a st getAddressesProvidersList_def shown_positions
  let ?nobody = "Error ''sending a transaction requires a signer''"
  let ?missing = "Error ''Expected transaction to be reverted''"
  have "bindIO (fromEnv (test_env.truncate env) ''addressesProvider'') (\<lambda>q. expectProviders S env 1 [(0, h_address q)]) (w, st) =
      (Inr (), (w, st))"
    by (simp add: runs)
  moreover have "bindIO (userOf env 2) (\<lambda>user. expectRevertedWith (messageOf ''LPAPR_INVALID_ADDRESSES_PROVIDER_ID'')
      (asRegistryOwner S env ''registerAddressesProvider'' [Str user, Str ''0''])) (w, st) = (Inl ?missing, (w, st))"
    by (simp add: runs test_defs)
  moreover have "registersProvider S env (w, st) = (Inl ?nobody, (w, st))"
    by (simp add: runs test_defs)
  moreover have "removesProvider S env (w, st) = (Inl (Error ''AssertionError''), (w, st))"
    by (simp add: runs test_defs)
  moreover have "removesUnregistered S env (w, st) = (Inl ?missing, (w, st))"
    by (simp add: runs test_defs)
  moreover have "bindIO (fromEnv (test_env.truncate env) ''addressesProvider'') (\<lambda>addressesProvider.
       bindIO (asRegistryOwner S env ''registerAddressesProvider'' [Str (h_address addressesProvider), Str ''2'']) (\<lambda>_.
       bindIO (providerId S env (h_address addressesProvider)) (\<lambda>_.
       expectProviders S env 2 [(0, h_address addressesProvider), (1, ZERO_ADDRESS)]))) (w, st) = (Inl ?nobody, (w, st))"
    by (simp add: runs)
  ultimately show ?thesis
    unfolding registrySpec_def by (simp only: failures_Cons failures_Nil sum.disc if_False if_True list.sel(3) list.map fst_conv)
qed

text \<open>C39. The specification of the registry passes when the suite has a signer for the owner, and fails in every test
  but the first when it has none, as in the suites that are not run on a fork: run against a reachable
  registry that has the market's addresses provider and no other, by an environment with three users.\<close>

theorem registry_spec_reports:
  assumes "registry_environment S env a u v" and "registryOwnerSigner env \<in> {None, Some (reg_owner st)}"
    and "registry_step\<^sup>*\<^sup>* (construct_registry d) st" and "reg_list st = [a]" and "reg_ids st a \<noteq> 0"
  shows "failures (fst (runTests (registrySpec S env) (w, st))) =
    (if registryOwnerSigner env = None then map fst (tl (registrySpec S env)) else [])"
proof -
  have "a \<noteq> u" "a \<noteq> v" using assms(1) by (auto simp: registry_environment_def)
  moreover have "wf_registry st" using assms(3) by (rule reachable_wf)
  ultimately have "reg_ids st u = 0" "reg_ids st v = 0" using assms(4) by (auto simp: wf_registry_def)
  then show ?thesis
    using assms registry_spec_with_owner registry_spec_without_owner by auto
qed

section \<open>A market to run in\<close>

definition sampleRegistryOther :: "provider_registry live_chain" where
  "sampleRegistryOther =
     \<lparr>chain_view = (\<lambda>st a fn args. Inr ''18''),
      chain_send = (\<lambda>sender a fn args value st. (Inl (Revert fn), st)),
      chain_rpc = (\<lambda>fn args. returnIO ()),
      blockTimestamp = (\<lambda>c b. 7), latestTimestamp = (\<lambda>c. 7), currentBlockTimestamp = (\<lambda>c. Some 7),
      gasPrice = (\<lambda>c h. 1)\<rparr>"

definition sampleRegistrySuite :: "(provider_registry, rat option) suite" where
  "sampleRegistrySuite = sturdySuite sampleTools (registryChain ''0xC0'' sampleRegistryOther) [] False"

definition sampleRegistryEnv :: suite_env where
  "sampleRegistryEnv = \<lparr>deployer = ''0xA1'', emergencyUser = ''0xA2'', users = [''0xA3'', ''0xA4'', ''0xA5''],
     env_contracts = map (\<lambda>(name, a). (name, connectAt name a (Some ''0xA1'')))
       [(''registry'', ''0xC0''), (''addressesProvider'', ''0xC1'')],
     ownerUser = None, registryOwnerSigner = Some ''0xA1''\<rparr>"

definition sampleRegistry :: provider_registry where
  "sampleRegistry = \<lparr>reg_owner = ''0xA1'', reg_ids = (\<lambda>p. 0)(''0xC1'' := 1), reg_list = [''0xC1'']\<rparr>"

theorem registry_spec_reports_witness:
  "failures (fst (runTests (registrySpec sampleRegistrySuite sampleRegistryEnv) (sampleSuiteWorld, sampleRegistry))) = []"
proof -
  have "registryCall ''0xA1'' (Register ''0xC1'' 1) (construct_registry ''0xA1'') = Inr sampleRegistry"
    by (simp add: registry_defs construct_registry_def check_def sampleRegistry_def)
  then have "registry_step\<^sup>*\<^sup>* (construct_registry ''0xA1'') sampleRegistry" by (blast intro: registry_step.intros)
  moreover have "registry_environment sampleRegistrySuite sampleRegistryEnv ''0xC1'' ''0xA4'' ''0xA5''"
    by (auto simp: registry_environment_def sampleRegistryEnv_def sampleRegistrySuite_def sturdySuite_def connectAt_def)
  moreover have "registryOwnerSigner sampleRegistryEnv = Some (reg_owner sampleRegistry)"
    by (simp add: sampleRegistryEnv_def sampleRegistry_def)
  ultimately show ?thesis
    using registry_spec_reports [of sampleRegistrySuite sampleRegistryEnv "''0xC1''" "''0xA4''" "''0xA5''"
        sampleRegistry "''0xA1''" sampleSuiteWorld]
    by (simp add: sampleRegistry_def)
qed

end
