(* ===== verification/VaultHelper.thy ===== *)
theory VaultHelper
  imports Migrations VaultChecks
begin

text \<open>
  The vault helper: \<open>DeployVaultHelper.sol\<close>, which sets up the reserve of a new vault in one transaction while it
  owns the addresses provider, and the migration that hands it the ownership for one vault on a fork,
  \<open>tasks/migrations/sturdy.ftm.deployVaultHelper.ts\<close> (its other vaults are commented out). The calls of the helper
  to contracts outside the model are recorded and may be rejected. Ids given as \<open>bytes32\<close> literals are their text.
\<close>

section \<open>The contract\<close>

text \<open>\<open>transferOwnership\<close> of the addresses provider\<close>

definition sol_transferOwnership :: "address \<Rightarrow> address \<Rightarrow> address \<Rightarrow> unit script" where
  "sol_transferOwnership self sender newOwner =
     thenIO (onlyOwner self sender)
    (thenIO (requires (newOwner \<noteq> ZERO_ADDRESS) ''Ownable: new owner is the zero address'')
      (modifyIO (\<lambda>w. w\<lparr>providers := (providers w)(self :=
         map_option (\<lambda>p. p\<lparr>owner := newOwner\<rparr>) (providers w self))\<rparr>)))"

record vault_helper =
  vh_owner :: address
  vh_provider :: address

definition internalCall :: "address \<Rightarrow> string \<Rightarrow> address \<Rightarrow> string \<Rightarrow> arg list \<Rightarrow> unit script" where
  "internalCall self name target fn args = callContract (connectAt name target (Some self)) fn args"

type_synonym input_struct = "(string \<times> arg) list"

definition sol_deployVault ::
  "vault_helper \<Rightarrow> address \<Rightarrow> address \<Rightarrow> string list \<Rightarrow> address list \<Rightarrow> address \<Rightarrow> nat \<Rightarrow> address \<Rightarrow>
   input_struct list \<Rightarrow> input_struct list \<Rightarrow> unit script" where
  "sol_deployVault vh self sender ids addrs treasuryAddress treasuryFee aTokenHelper inputParams input =
     (let provider = vh_provider vh; setPoolAdmin = sol_setAddress provider self ''POOL_ADMIN'' in
      thenIO (requires (vh_owner vh = sender) ''Ownable: caller is not the owner'') (
      thenIO (requires (length ids = length addrs) ''VT_DEPLOY_FAILED'') (
      thenIO (requires (3 \<le> length ids) ''VT_DEPLOY_FAILED'') (
      thenIO (requires (length input = 1) ''VT_DEPLOY_FAILED'') (
      thenIO (requires (length inputParams = 1) ''VT_DEPLOY_FAILED'') (
      bindIO (getsIO (sol_getAddress provider ''POOL_ADMIN'')) (\<lambda>orgPoolAdmin.
      thenIO (setPoolAdmin self) (
      bindIO (forIO (tl (zip ids addrs)) (\<lambda>(i, a). sol_setAddress provider self i a)) (\<lambda>_.
      bindIO (getsIO (sol_getAddress provider ''LENDING_POOL_CONFIGURATOR'')) (\<lambda>configurator.
      bindIO (getsIO (sol_getAddress provider (ids ! 0))) (\<lambda>newVault.
      thenIO (internalCall self ''LendingPoolConfigurator'' configurator ''registerVault'' [Str newVault]) (
      thenIO (internalCall self ''GeneralVault'' newVault ''setTreasuryInfo''
                [Str treasuryAddress, Str (showNat treasuryFee)]) (
      bindIO (getsIO (sol_getAddress provider ''COLLATERAL_ADAPTER'')) (\<lambda>collateralAdapter.
      thenIO (internalCall self ''CollateralAdapter'' collateralAdapter ''addCollateralAsset''
                [Str (addrs ! 2), Str (addrs ! 1), Str newVault]) (
      thenIO (internalCall self ''LendingPoolConfigurator'' configurator ''batchInitReserve''
                [Structs [Struct (obj_set ''yieldAddress'' (Str newVault) (input ! 0))]]) (
      thenIO (setPoolAdmin aTokenHelper) (
      thenIO (internalCall self ''ATokensAndRatesHelper'' aTokenHelper ''configureReserves''
                [Structs (map Struct inputParams)]) (
      thenIO (setPoolAdmin orgPoolAdmin) (
      thenIO (sol_transferOwnership provider self sender)
        (internalCall self ''ATokensAndRatesHelper'' aTokenHelper ''transferOwnership'' [Str sender]))))))))))))))))))))"

definition sol_removeHelperAsOwner :: "vault_helper \<Rightarrow> address \<Rightarrow> address \<Rightarrow> address \<Rightarrow> unit script" where
  "sol_removeHelperAsOwner vh self sender aTokenHelper =
     thenIO (requires (vh_owner vh = sender) ''Ownable: caller is not the owner'') (
     thenIO (sol_transferOwnership (vh_provider vh) self sender)
       (internalCall self ''ATokensAndRatesHelper'' aTokenHelper ''transferOwnership'' [Str sender]))"

text \<open>A transaction to the helper.\<close>

definition deployVault ::
  "vault_helper \<Rightarrow> handle \<Rightarrow> string list \<Rightarrow> address list \<Rightarrow> address \<Rightarrow> nat \<Rightarrow> address \<Rightarrow>
   input_struct list \<Rightarrow> input_struct list \<Rightarrow> unit script" where
  "deployVault vh h ids addrs treasuryAddress treasuryFee aTokenHelper inputParams input =
     bindIO (senderOf h) (\<lambda>sender.
     transaction (sol_deployVault vh (h_address h) sender ids addrs treasuryAddress treasuryFee aTokenHelper
       inputParams input))"

section \<open>The migration\<close>

definition vaultOwner :: address where
  "vaultOwner = ''0xb4124ceb3451635dacedd11767f004d8a28c6ee7''"

text \<open>\<open>contract.connect(signer)\<close>\<close>

definition connectedAs :: "address \<Rightarrow> handle \<Rightarrow> handle" where
  "connectedAs signer h = h\<lparr>h_signer := Some signer\<rparr>"

text \<open>Ether sent by the first account to \<open>vaultOwner\<close>, whose balance is left out, and the account taken over.\<close>

definition fundVaultOwner :: "unit script" where
  "fundVaultOwner =
     bindIO getEthersSigners (\<lambda>signers.
     thenIO (requireIO (signers \<noteq> []) (TypeError ''sendTransaction''))
       (impersonateAccountsHardhat [vaultOwner]))"

definition transferProviderOwnership :: "handle \<Rightarrow> address \<Rightarrow> unit script" where
  "transferProviderOwnership h newOwner =
     providerTx h (\<lambda>self sender. sol_transferOwnership self sender newOwner)"

definition logOwner :: "handle \<Rightarrow> unit script" where
  "logOwner h = bindIO (getsIO (\<lambda>w. providers w (h_address h))) (\<lambda>p. case p of
     None \<Rightarrow> revert ''call revert exception'' | Some _ \<Rightarrow> returnIO ())"

definition auraConfiguration :: "address \<Rightarrow> input_struct" where
  "auraConfiguration internalAsset =
     [(''asset'', Str internalAsset), (''baseLTV'', Str ''9000''), (''liquidationThreshold'', Str ''9300''),
      (''liquidationBonus'', Str ''10200''), (''reserveFactor'', Str ''0''), (''stableBorrowingEnabled'', Flag False),
      (''borrowingEnabled'', Flag False), (''collateralEnabled'', Flag True)]"

definition auraReserve :: "address \<Rightarrow> input_struct" where
  "auraReserve internalAsset =
     [(''aTokenImpl'', Str ''0xd74F685A403607BB6548eb73d161e9A65da04833''),
      (''stableDebtTokenImpl'', Str ''0x45652Da975f14612CD42C24CDEC18f7f4886Ab01''),
      (''variableDebtTokenImpl'', Str ''0xB0c3823eC6597673F9952A41dc6d3a0e656d110d''),
      (''underlyingAssetDecimals'', Str ''18''),
      (''interestRateStrategyAddress'', Str ''0xd16f4D8F5A14187dDd254aA8097857125D78d314''),
      (''yieldAddress'', Str ''0x0000000000000000000000000000000000000000''),
      (''underlyingAsset'', Str internalAsset),
      (''treasury'', Str ''0xFd1D36995d76c0F75bbe4637C84C06E4A68bBB3a''),
      (''incentivesController'', Str ''0xA897716BA0c7603B10b8b2854c104912a6058542''),
      (''underlyingAssetName'', Str ''auraBB_A3_USD''),
      (''aTokenName'', Str ''Sturdy interest bearing auraBB_A3_USD''),
      (''aTokenSymbol'', Str ''sauraBB_A3_USD''),
      (''variableDebtTokenName'', Str ''Sturdy variable debt bearing auraBB_A3_USD''),
      (''variableDebtTokenSymbol'', Str ''variableDebtauraBB_A3_USD''),
      (''stableDebtTokenName'', Str ''Sturdy stable debt bearing auraBB_A3_USD''),
      (''stableDebtTokenSymbol'', Str ''stableDebtauraBB_A3_USD''),
      (''params'', Str ''0x10'')]"

text \<open>The vault: its proxy, its registry entry and its settings; its result is the proxy and the internal asset.\<close>

definition prepareAuraVault :: "handle \<Rightarrow> (address \<times> address) script" where
  "prepareAuraVault addressProvider =
     bindIO (getLendingPoolAddressesProvider None) (\<lambda>provider.
     thenIO fundVaultOwner (
     thenIO (setAddressAsProxy (connectedAs vaultOwner provider) ''AURA_BB_A3_USD_VAULT''
               ''0x996fE74F47c58611b594707CCaEEC401a5C949a7'') (
     bindIO (getAddress addressProvider ''AURA_BB_A3_USD_VAULT'') (\<lambda>newVaultProxyAddress.
     thenIO (insertContractAddressInDb ''AuraBBA3USDVault'' newVaultProxyAddress) (
     bindIO (getAuraBBA3USDVault None) (\<lambda>vault.
     thenIO (callContract (connectedAs vaultOwner vault) ''setConfiguration''
               [Str ''0xfeBb0bbf162E64fb9D0dfe186E517d84C395f016'', Str ''81'']) (
     thenIO (callContract (connectedAs vaultOwner vault) ''setIncentiveRatio'' [Str ''7500'']) (
     bindIO (viewContract vault ''getInternalAsset'' '''') (\<lambda>internalAsset.
     returnIO (newVaultProxyAddress, internalAsset))))))))))"

text \<open>The reserve, its price sources and its yield distributor. The price source of the vault is looked up under
  the symbol of another vault.\<close>

definition registerAuraVault ::
  "ICommonConfiguration \<Rightarrow> bool \<Rightarrow> handle \<Rightarrow> address \<times> address \<Rightarrow> unit script" where
  "registerAuraVault config verify yieldDistributorAdapter vault =
     (case vault of (newVaultProxyAddress, internalAsset) \<Rightarrow>
     bindIO (aggregatorOr config ''auraBB_A_USD'' (deployBALBBA3USDOracle verify)) (\<lambda>BALBBA3USDOracleAddress.
     bindIO (aggregatorOr config ''AURA'' (deployAURAOracle verify)) (\<lambda>AURAOracleAddress.
     bindIO (getSturdyOracle None) (\<lambda>sturdyOracle.
     thenIO (impersonateAccountsHardhat [vaultOwner]) (
     bindIO (entryHere (ChainlinkAggregator config) ''BAL'') (\<lambda>source.
     thenIO (setAssetSources (connectedAs vaultOwner sturdyOracle)
               [Some internalAsset, Some ''0xfeBb0bbf162E64fb9D0dfe186E517d84C395f016'',
                Some ''0xba100000625a3754423978a60c9317c58a424e3D'', Some ''0xC0c293ce456fF0ED870ADd98a0828Dd4d2903DBF'']
               [BALBBA3USDOracleAddress, BALBBA3USDOracleAddress, source, AURAOracleAddress] [True, False, False, False]) (
     bindIO (getLendingPool None) (\<lambda>lendingPool.
     bindIO (viewContract lendingPool ''getReserveData.aTokenAddress'' internalAsset) (\<lambda>aTokenAddress.
     bindIO (getVariableYieldDistribution None) (\<lambda>VariableYieldDistributor.
     thenIO (callContract (connectedAs vaultOwner VariableYieldDistributor) ''registerAsset''
               [Str aTokenAddress, Str newVaultProxyAddress])
       (callContract yieldDistributorAdapter ''setVariableYieldDistributor''
          [Str internalAsset, Str (h_address VariableYieldDistributor)])))))))))))"

text \<open>The storage of the registered vault helper is \<open>vh\<close>.\<close>

definition sturdy_ftm_deployVaultHelper :: "vault_helper \<Rightarrow> string \<Rightarrow> bool \<Rightarrow> unit script" where
  "sturdy_ftm_deployVaultHelper vh pool verify =
     bindIO (currentPoolConfig pool) (\<lambda>poolConfig.
     bindIO (getDeployVaultHelper None) (\<lambda>vaultHelper.
     bindIO (getATokensAndRatesHelper None) (\<lambda>aTokenHelper.
     bindIO (getLendingPoolAddressesProvider None) (\<lambda>addressProvider.
     bindIO (getYieldDistributorAdapter None) (\<lambda>yieldDistributorAdapter.
     thenIO fundVaultOwner (
     thenIO (callContract (connectedAs vaultOwner aTokenHelper) ''transferOwnership'' [Str (h_address vaultHelper)]) (
     bindIO (prepareAuraVault addressProvider) (\<lambda>(newVaultProxyAddress, internalAsset).
     thenIO (transferProviderOwnership (connectedAs vaultOwner addressProvider) (h_address vaultHelper)) (
     thenIO (deployVault vh (connectedAs vaultOwner vaultHelper)
               [''AURA_BB_A3_USD_VAULT'', ''AURABAL_BB_A3_USD'', ''BAL_BB_A3_USD_LP'']
               [''0x996fE74F47c58611b594707CCaEEC401a5C949a7'', internalAsset, ''0xfeBb0bbf162E64fb9D0dfe186E517d84C395f016'']
               ''0xFd1D36995d76c0F75bbe4637C84C06E4A68bBB3a'' 1000 (h_address aTokenHelper)
               [auraConfiguration internalAsset] [auraReserve internalAsset]) (
     thenIO (registerAuraVault (commonConfiguration poolConfig) verify yieldDistributorAdapter
               (newVaultProxyAddress, internalAsset))
       (logOwner addressProvider)))))))))))"

section \<open>What a deployment changes\<close>

definition written :: "(string \<times> address) list \<Rightarrow> (string \<Rightarrow> address) \<Rightarrow> string \<Rightarrow> address" where
  "written entries as = fold (\<lambda>(i, a) f. f(i := a)) entries as"

definition withAddresses :: "address \<Rightarrow> provider \<Rightarrow> world \<Rightarrow> world" where
  "withAddresses self p w = w\<lparr>providers := (providers w)(self \<mapsto> p)\<rparr>"

lemma sol_setAddress_run:
  assumes "providers w self = Some p"
  shows "sol_setAddress self sender i a w =
    (if owner p = sender then (Inr (), withAddresses self (p\<lparr>addresses := (addresses p)(i := a)\<rparr>) w)
     else (Inl (Revert ''Ownable: caller is not the owner''), w))"
  using assms
  by (simp add: sol_setAddress_def onlyOwner_def requires_def io_run put_address_def withAddresses_def)

lemma withAddresses_simps [simp]:
  "providers (withAddresses self p w) self = Some p" "withAddresses self q (withAddresses self p w) = withAddresses self q w"
  "call_log (withAddresses self p w) = call_log w" "call_rejected (withAddresses self p w) = call_rejected w"
  "withAddresses self q (w\<lparr>call_log := l\<rparr>) = (withAddresses self q w)\<lparr>call_log := l\<rparr>"
  by (simp_all add: withAddresses_def)

lemma setAddresses_run:
  assumes "providers w self = Some p" and "owner p = sender"
  shows "forIO entries (\<lambda>(i, a). sol_setAddress self sender i a) w =
    (Inr (map (\<lambda>_. ()) entries),
     if entries = [] then w else withAddresses self (p\<lparr>addresses := written entries (addresses p)\<rparr>) w)"
  using assms
proof (induction entries arbitrary: w p)
  case (Cons e entries)
  obtain i a where "e = (i, a)" by (cases e)
  with Cons.prems show ?case
    by (simp add: io_run sol_setAddress_run written_def Cons.IH)
qed (simp add: io_run)

lemma sol_transferOwnership_run:
  assumes "providers w self = Some p" and "owner p = sender" and "newOwner \<noteq> ZERO_ADDRESS"
  shows "sol_transferOwnership self sender newOwner w = (Inr (), withAddresses self (p\<lparr>owner := newOwner\<rparr>) w)"
  using assms by (simp add: sol_transferOwnership_def onlyOwner_def requires_def io_run withAddresses_def)

lemma internalCall_run:
  "internalCall self name target fn args w =
    (if call_rejected w name fn args then (Inl (Revert fn), w)
     else (Inr (), w\<lparr>call_log := call_log w @ [(target, fn, args)]\<rparr>))"
  by (simp add: internalCall_def callContract_def connectAt_def senderOf_def revert_def io_run)

text \<open>The calls of a deployment, with \<open>q\<close> the addresses the provider has by then.\<close>

definition helperCalls ::
  "(string \<Rightarrow> address) \<Rightarrow> string list \<Rightarrow> address list \<Rightarrow> address \<Rightarrow> nat \<Rightarrow> address \<Rightarrow> address \<Rightarrow>
   input_struct list \<Rightarrow> input_struct list \<Rightarrow> (address \<times> string \<times> arg list) list" where
  "helperCalls q ids addrs treasuryAddress treasuryFee aTokenHelper sender inputParams input =
     (let configurator = q ''LENDING_POOL_CONFIGURATOR''; newVault = q (ids ! 0) in
      [(configurator, ''registerVault'', [Str newVault]),
       (newVault, ''setTreasuryInfo'', [Str treasuryAddress, Str (showNat treasuryFee)]),
       (q ''COLLATERAL_ADAPTER'', ''addCollateralAsset'', [Str (addrs ! 2), Str (addrs ! 1), Str newVault]),
       (configurator, ''batchInitReserve'', [Structs [Struct (obj_set ''yieldAddress'' (Str newVault) (input ! 0))]]),
       (aTokenHelper, ''configureReserves'', [Structs (map Struct inputParams)]),
       (aTokenHelper, ''transferOwnership'', [Str sender])])"

lemma internalCall_Inr:
  "internalCall self name target fn args w = (Inr (), w') \<longleftrightarrow>
   \<not> call_rejected w name fn args \<and> w' = w\<lparr>call_log := call_log w @ [(target, fn, args)]\<rparr>"
  by (auto simp: internalCall_run)

lemma requires_Inr: "requires b reason w = (Inr (), w') \<longleftrightarrow> b \<and> w' = w"
  by (auto simp: requires_def io_run)

lemma sol_setAddress_Inr':
  "sol_setAddress self sender i a w = (Inr (), w') \<longleftrightarrow>
   (\<exists>p. providers w self = Some p \<and> owner p = sender \<and>
      w' = withAddresses self (p\<lparr>addresses := (addresses p)(i := a)\<rparr>) w)"
  by (auto simp: sol_setAddress_Inr put_address_def withAddresses_def)

lemma sol_transferOwnership_Inr:
  "sol_transferOwnership self sender newOwner w = (Inr (), w') \<longleftrightarrow>
   (\<exists>p. providers w self = Some p \<and> owner p = sender \<and> newOwner \<noteq> ZERO_ADDRESS \<and>
      w' = withAddresses self (p\<lparr>owner := newOwner\<rparr>) w)"
  by (auto simp: sol_transferOwnership_def onlyOwner_def requires_def io_run withAddresses_def)

lemma sol_getAddress_withAddresses [simp]: "sol_getAddress self i (withAddresses self p w) = addresses p i"
  by (simp add: sol_getAddress_def)

lemma sol_getAddress_call_log [simp]: "sol_getAddress self i (w\<lparr>call_log := l\<rparr>) = sol_getAddress self i w"
  by (simp add: sol_getAddress_def)

text \<open>C14. A deployment by the vault helper is all or nothing, and lends the market's rights only: when it fails the
  world is as before, and when it succeeds the caller was the owner of the helper and the helper the owner of the
  provider, the provider belongs to the caller, its pool admin is the one it had, the given ids have their
  addresses, and the other contracts got exactly the calls of the deployment.\<close>

theorem deployVault_restores:
  assumes "deployVault vh h ids addrs treasuryAddress treasuryFee aTokenHelper inputParams input w = (r, w')"
  shows "case r of
      Inl e \<Rightarrow> w' = w
    | Inr _ \<Rightarrow> \<exists>p. h_signer h = Some (vh_owner vh) \<and> providers w (vh_provider vh) = Some p \<and> owner p = h_address h \<and>
        length ids = length addrs \<and> 3 \<le> length ids \<and>
        (let q = written (tl (zip ids addrs)) ((addresses p)(''POOL_ADMIN'' := h_address h)) in
         w' = w\<lparr>providers := (providers w)(vh_provider vh \<mapsto>
                  p\<lparr>addresses := q(''POOL_ADMIN'' := addresses p ''POOL_ADMIN''), owner := vh_owner vh\<rparr>),
                call_log := call_log w @ helperCalls q ids addrs treasuryAddress treasuryFee aTokenHelper
                  (vh_owner vh) inputParams input\<rparr>)"
proof (cases r)
  case (Inl e)
  then show ?thesis
    using assms by (auto simp: deployVault_def senderOf_def transaction_def io_run split: option.splits prod.splits sum.splits)
next
  case (Inr x)
  with assms obtain sender where sender: "h_signer h = Some sender" and
    run: "sol_deployVault vh (h_address h) sender ids addrs treasuryAddress treasuryFee aTokenHelper inputParams input w = (Inr (), w')"
    by (auto simp: deployVault_def senderOf_def transaction_def io_run split: option.splits prod.splits sum.splits)
  then obtain p where p: "providers w (vh_provider vh) = Some p" "owner p = h_address h"
    and lengths: "length ids = length addrs" "3 \<le> length ids" and own: "vh_owner vh = sender"
    unfolding sol_deployVault_def Let_def
    by (auto elim!: bindIO_InrE thenIO_InrE simp: requires_Inr sol_setAddress_Inr' getsIO_run)
  from p have org: "sol_getAddress (vh_provider vh) ''POOL_ADMIN'' w = addresses p ''POOL_ADMIN''"
    by (simp add: sol_getAddress_def)
  from lengths have entries: "tl (zip ids addrs) \<noteq> []"
    by (cases ids; cases addrs; auto)
  from run p lengths own entries Inr show ?thesis
    unfolding sol_deployVault_def Let_def
    by (auto elim!: bindIO_InrE thenIO_InrE
        simp: requires_Inr sol_setAddress_run setAddresses_run getsIO_run internalCall_Inr
          sol_transferOwnership_Inr sender helperCalls_def Let_def org split: if_splits)
      (simp add: withAddresses_def)
qed

theorem deployVault_restores_witness:
  "owner (the (providers (snd (deployVault \<lparr>vh_owner = ''0xA2'', vh_provider = ''0xC''\<rparr>
     (connectAt ''DeployVaultHelper'' ''0xA1'' (Some ''0xA2'')) [''VAULT'', ''INTERNAL'', ''EXTERNAL''] [''0xB1'', ''0xB2'', ''0xB3'']
     ''0xD1'' 1000 ''0xD2'' [[]] [[]] sampleProviderWorld)) ''0xC'')) = ''0xA2''"
proof -
  let ?h = "connectAt ''DeployVaultHelper'' ''0xA1'' (Some ''0xA2'')" and ?vh = "\<lparr>vh_owner = ''0xA2'', vh_provider = ''0xC''\<rparr>"
  let ?run = "deployVault ?vh ?h [''VAULT'', ''INTERNAL'', ''EXTERNAL''] [''0xB1'', ''0xB2'', ''0xB3''] ''0xD1'' 1000 ''0xD2'' [[]] [[]]
    sampleProviderWorld"
  have provider: "providers sampleProviderWorld ''0xC'' = Some (construct_provider ''0xA1'' ''Market'')"
    "call_rejected sampleProviderWorld name fn args = False" for name fn args
    by (simp_all add: sampleProviderWorld_def sampleWorld_def)
  have "\<exists>w'. sol_deployVault ?vh ''0xA1'' ''0xA2'' [''VAULT'', ''INTERNAL'', ''EXTERNAL''] [''0xB1'', ''0xB2'', ''0xB3'']
      ''0xD1'' 1000 ''0xD2'' [[]] [[]] sampleProviderWorld = (Inr (), w')"
    using provider
    by (simp add: sol_deployVault_def Let_def io_run requires_def sol_setAddress_run internalCall_run
        sol_transferOwnership_run construct_provider_def ZERO_ADDRESS_def)
  then have "\<exists>w'. ?run = (Inr (), w')"
    by (auto simp: deployVault_def senderOf_def connectAt_def transaction_def io_run)
  then obtain w' where run: "?run = (Inr (), w')" by blast
  from deployVault_restores [OF run] show ?thesis
    by (auto simp: run Let_def)
qed

section \<open>A second run\<close>

text \<open>The registered addresses provider is at \<open>a\<close> and has the proxy of the vault, with an initialized implementation.\<close>

definition vaultInstalled :: "address \<Rightarrow> world \<Rightarrow> bool" where
  "vaultInstalled a w \<longleftrightarrow>
     map_option entry_address (db_get ''LendingPoolAddressesProvider'' w) = Some a \<and> contracts w a \<noteq> None \<and>
     (\<exists>p c. providers w a = Some p \<and> addresses p ''AURA_BB_A3_USD_VAULT'' \<noteq> ZERO_ADDRESS \<and>
        contracts w (addresses p ''AURA_BB_A3_USD_VAULT'') = Some c \<and> 0 < lastInitializedRevision c)"

definition stopped :: "address \<Rightarrow> 'a script \<Rightarrow> bool" where
  "stopped a m \<longleftrightarrow> (\<forall>w. vaultInstalled a w \<longrightarrow> (\<exists>e w'. m w = (Inl e, w') \<and> bookkeeping w w'))"

lemma vaultInstalled_bookkeeping: "vaultInstalled a w \<Longrightarrow> bookkeeping w w' \<Longrightarrow> vaultInstalled a w'"
  by (simp add: vaultInstalled_def bookkeeping_simps)

lemma stoppedI: "(\<And>w. vaultInstalled a w \<Longrightarrow> \<exists>e w'. m w = (Inl e, w') \<and> bookkeeping w w') \<Longrightarrow> stopped a m"
  by (simp add: stopped_def)

lemma stopped_bind: "stopped a m \<Longrightarrow> stopped a (bindIO m f)"
  by (fastforce simp: stopped_def bindIO_run)

lemma stopped_then: "stopped a m \<Longrightarrow> stopped a (thenIO m n)"
  by (simp add: thenIO_def stopped_bind)

lemma stopped_after:
  assumes "quiet m" and "\<And>x. stopped a (f x)"
  shows "stopped a (bindIO m f)"
proof (rule stoppedI)
  fix w assume at: "vaultInstalled a w"
  obtain r w1 where m: "m w = (r, w1)" by fastforce
  then have b: "bookkeeping w w1" by (rule quietD [OF assms(1)])
  show "\<exists>e w'. bindIO m f w = (Inl e, w') \<and> bookkeeping w w'"
  proof (cases r)
    case (Inr x)
    with assms(2) vaultInstalled_bookkeeping [OF at b] obtain e w' where "f x w1 = (Inl e, w')" "bookkeeping w1 w'"
      unfolding stopped_def by blast
    with m Inr bookkeeping_trans [OF b] show ?thesis by (auto simp: bindIO_run)
  qed (use m b in \<open>simp add: bindIO_run\<close>)
qed

lemma stopped_afterwards: "quiet m \<Longrightarrow> stopped a n \<Longrightarrow> stopped a (thenIO m n)"
  unfolding thenIO_def by (rule stopped_after)

lemma stopped_provider:
  assumes "\<And>s. stopped a (f (connectAt ''LendingPoolAddressesProvider'' a s))"
  shows "stopped a (bindIO (getLendingPoolAddressesProvider None) f)"
proof (rule stoppedI)
  fix w assume at: "vaultInstalled a w"
  obtain r w1 where m: "getLendingPoolAddressesProvider None w = (r, w1)" by fastforce
  then have b: "bookkeeping w w1"
    unfolding getLendingPoolAddressesProvider_def by (rule quietD [OF quiet_getters(3)])
  show "\<exists>e w'. bindIO (getLendingPoolAddressesProvider None) f w = (Inl e, w') \<and> bookkeeping w w'"
  proof (cases r)
    case (Inr h)
    with m at obtain s where "h = connectAt ''LendingPoolAddressesProvider'' a s"
      unfolding getLendingPoolAddressesProvider_def by (auto elim!: connectOrRegistered_Inr simp: vaultInstalled_def)
    with assms vaultInstalled_bookkeeping [OF at b] obtain e w' where "f h w1 = (Inl e, w')" "bookkeeping w1 w'"
      unfolding stopped_def by blast
    with m Inr bookkeeping_trans [OF b] show ?thesis by (auto simp: bindIO_run)
  qed (use m b in \<open>simp add: bindIO_run\<close>)
qed

lemma stopped_proxy: "stopped a (setAddressAsProxy (h\<lparr>h_address := a\<rparr>) ''AURA_BB_A3_USD_VAULT'' impl)"
proof (rule stoppedI)
  let ?m = "setAddressAsProxy (h\<lparr>h_address := a\<rparr>) ''AURA_BB_A3_USD_VAULT'' impl"
  fix w assume "vaultInstalled a w"
  then obtain p c where a: "contracts w a \<noteq> None" "providers w a = Some p"
    and proxy: "addresses p ''AURA_BB_A3_USD_VAULT'' \<noteq> ZERO_ADDRESS"
      "contracts w (addresses p ''AURA_BB_A3_USD_VAULT'') = Some c" "0 < lastInitializedRevision c"
    by (auto simp: vaultInstalled_def)
  have never: "sol_setAddressAsProxy a sender ''AURA_BB_A3_USD_VAULT'' i w \<noteq> (Inr (), w')" for sender i w'
    using a proxy by (auto simp: sol_setAddressAsProxy_Inr updateImpl_Inr sol_getAddress_def installed_def
        getRevision_def split: if_splits)
  have "\<exists>e. ?m w = (Inl e, w)"
    using a never by (auto simp: setAddressAsProxy_def formatBytes32String_def addressArg_def providerTx_def senderOf_def
        transaction_def io_run split: option.splits prod.splits sum.splits)
  then show "\<exists>e w'. ?m w = (Inl e, w') \<and> bookkeeping w w'" using bookkeeping_refl by blast
qed

lemma quiet_liftSum [quiet_scripts]: "quiet (liftSum m)"
  by (rule keepsI) (simp add: liftSum_def throwIO_run returnIO_run bookkeeping_refl split: sum.split)

lemma quiet_currentPoolConfig [quiet_scripts]: "quiet (currentPoolConfig pool)"
  unfolding currentPoolConfig_def by (intro book.keeps_rules quiet_scripts)

lemma quiet_fundVaultOwner [quiet_scripts]: "quiet fundVaultOwner"
  unfolding fundVaultOwner_def by (intro book.keeps_rules quiet_scripts)

text \<open>C40. The migration of the vault helper runs once: where the vault's proxy is already initialized, it fails, and it
  leaves the registry, the provider and every contract as they were; only recorded calls may be new, such as the
  transfer of \<open>ATokensAndRatesHelper\<close> to the vault helper, which comes first.\<close>

theorem vault_helper_runs_once:
  assumes "vaultInstalled a w"
  shows "\<exists>e w'. sturdy_ftm_deployVaultHelper vh pool verify w = (Inl e, w') \<and> bookkeeping w w'"
proof -
  have "stopped a (prepareAuraVault addressProvider)" for addressProvider
    unfolding prepareAuraVault_def connectedAs_def
    by (intro stopped_provider stopped_afterwards stopped_then quiet_scripts)
      (use stopped_proxy [of a "connectAt ''LendingPoolAddressesProvider'' a (Some vaultOwner)"] in
        \<open>simp add: connectAt_def\<close>)
  then have "stopped a (sturdy_ftm_deployVaultHelper vh pool verify)"
    unfolding sturdy_ftm_deployVaultHelper_def getDeployVaultHelper_def getATokensAndRatesHelper_def
      getYieldDistributorAdapter_def
    by (intro stopped_after stopped_afterwards stopped_provider quiet_scripts stopped_bind)
  with assms show ?thesis by (simp add: stopped_def)
qed

definition sampleInstalledWorld :: world where
  "sampleInstalledWorld = db_put ''LendingPoolAddressesProvider'' \<lparr>entry_address = ''0xC'', entry_deployer = None\<rparr>
     (sampleProviderWorld
        \<lparr>contracts := (contracts sampleProviderWorld)(''0xE'' \<mapsto>
           (new_contract proxyCode [] [])\<lparr>lastInitializedRevision := 1\<rparr>),
         providers := [''0xC'' \<mapsto> (construct_provider vaultOwner ''Market'')
           \<lparr>addresses := (\<lambda>i. ''0xE'')\<rparr>]\<rparr>)"

theorem vault_helper_runs_once_witness:
  "\<exists>e w'. sturdy_ftm_deployVaultHelper \<lparr>vh_owner = vaultOwner, vh_provider = ''0xC''\<rparr> ''Sturdy'' False sampleInstalledWorld =
     (Inl e, w') \<and> bookkeeping sampleInstalledWorld w'"
proof (rule vault_helper_runs_once)
  show "vaultInstalled ''0xC'' sampleInstalledWorld"
    by (simp add: vaultInstalled_def sampleInstalledWorld_def db_get_def db_put_def sampleProviderWorld_def
        ZERO_ADDRESS_def construct_provider_def)
qed

end
