(* ===== verification/Spec2Isabelle.thy ===== *)
theory Spec2Isabelle
  imports Sessions ProxyDeployment RoundTrips CalculationsFtm VaultChecks TestnetChecks Permits ScenarioChecks SuiteChecks
    RegistryKeys RegistrySpec VaultHelper
begin

text \<open>
  A verification library for the deployment code and the scenario tests of the Sturdy lending protocol
  (the TypeScript under \<open>helpers/\<close>, \<open>markets/\<close>, \<open>tasks/\<close> and \<open>test-suites/*/helpers/\<close>) and for the
  Solidity they talk to most.

  \<^bold>\<open>The program.\<close> A market is brought up by Hardhat tasks. They create contracts through ethers,
  write every address into \<open>deployed-contracts.json\<close> under the current network, read addresses
  back through getters, install implementations behind proxies owned by a
  \<open>LendingPoolAddressesProvider\<close>, and set up oracles, incentives and reserves from the data of a
  market configuration. The scenario tests drive the deployed market: an engine runs stories of actions, each
  of which reads the reserve and the user, sends a transaction, reads again, and compares with what the
  calculators predict.

  \<^bold>\<open>The model.\<close> \<open>World\<close> has the state: the runtime environment (network, environment variables,
  signers), the chain (accounts, providers, calls made), the registry file, and the writes made into
  the loaded configurations. An \<open>async\<close>
  function is a function from the world to an error or a value and the world it leaves
  (\<open>Prelude\<close>), so an error keeps the effects before it. Every throw, revert, process exit and
  early return of the sources is a branch. What is not under \<open>src/\<close> (address allocation, address
  syntax, acceptance of creations and calls, outcomes of verification runs, build artifacts,
  results of view calls on contracts outside the model) is a field of the environment, with the
  laws relied upon in \<open>env_laws\<close>; \<open>bignumber.js\<close> is the argument \<open>bn\<close>, with its documented laws in
  \<open>bignumber_exact\<close> and in the locale \<open>bignumber_laws\<close>. Console output, delays and events are left out.

  \<^bold>\<open>The theories.\<close>
  \<^item> \<open>AddressesProvider\<close>: \<open>LendingPoolAddressesProvider.sol\<close>, its proxies, the \<open>initializer\<close> guard, and
    the calls the scripts make to them.
  \<^item> \<open>MiscUtils\<close>, \<open>Etherscan\<close>, \<open>ContractsHelpers\<close>, \<open>Getters\<close>, \<open>Configuration\<close>, \<open>Deployments\<close>, \<open>Vaults\<close>,
    \<open>OraclesHelpers\<close>, \<open>InitHelpers\<close>: the files \<open>misc-utils\<close>, \<open>etherscan-verification\<close> (with
    \<open>tenderly-utils\<close> and \<open>defender-utils\<close>), \<open>contracts-helpers\<close>, \<open>contracts-getters\<close>, \<open>configuration\<close>,
    \<open>contracts-deployments\<close> (two theories), \<open>oracles-helpers\<close> (with \<open>mock-helpers\<close>) and \<open>init-helpers\<close>,
    one definition per function under the function's name.
  \<^item> \<open>MarketTypes\<close>, \<open>MarketSturdy\<close>, \<open>MarketFtm\<close>, \<open>Reserves\<close>: the two market configurations and their
    reserve parameters as data.
  \<^item> \<open>FullDeployment\<close>: the tasks \<open>tasks/full/0\<close> to \<open>5-2\<close>, \<open>8-2\<close>, \<open>8-3\<close> and \<open>add-market-to-registry\<close>.
  \<^item> \<open>PriceOracle\<close>: the price sources of \<open>SturdyOracle.sol\<close> and the calls to it.
  \<^item> \<open>VaultTasks\<close>, \<open>MarketInit\<close>: the tasks \<open>tasks/full/6-*\<close>, \<open>7-*\<close> (one per vault) and \<open>8-*\<close>. The tasks of the
    Convex and Aura vaults write a token into the configuration object in memory; \<open>currentPoolConfig\<close>
    is \<open>loadPoolConfig\<close> with the writes of the process applied.
  \<^item> \<open>VerifyTasks\<close>, \<open>Migrations\<close>: \<open>tasks/verifications\<close>, and the migrations \<open>sturdy:mainnet\<close>, \<open>sturdy:ftm\<close> and
    \<open>sturdy:*Impl\<close>.
  \<^item> \<open>ReserveConfiguration\<close>, \<open>ReserveChecks\<close>: the packed configuration word of a reserve at its 256
    bits, the configurator's checks on it, and the markets' parameters against them.
  \<^item> \<open>WadRayMath\<close>, \<open>InterestRates\<close>: the contracts' fixed point arithmetic and interest model at 256 bits
    (\<open>WadRayMath.sol\<close>, \<open>MathUtils.sol\<close>, \<open>PercentageMath.sol\<close>, \<open>DefaultReserveInterestRateStrategy.sol\<close>, the
    indexes of \<open>ReserveLogic.sol\<close>).
  \<^item> \<open>BigMath\<close>, \<open>Calculations\<close>, \<open>CalculationsFtm\<close>: the test suites' \<open>math.ts\<close> and \<open>calculations.ts\<close>, which
    predict the reserve and the user after each action of the pool; \<open>ExpectedValues\<close> relates the
    predictions to the contracts.
  \<^item> \<open>TestnetTasks\<close>, \<open>TestnetChecks\<close>: the tasks \<open>tasks/testnet/*\<close>, the two migrations that run them, the
    storage of the mock \<open>PriceOracle.sol\<close>, and what becomes of them.
  \<^item> \<open>TokenHelpers\<close>, \<open>DeveloperTasks\<close>: the unit conversions and adapter parameters of \<open>contracts-helpers\<close>;
    the tasks under \<open>tasks/helpers\<close> and \<open>tasks/misc\<close> and the migrations of test tokens.
  \<^item> \<open>Permits\<close>: \<open>buildPermitParams\<close> and \<open>getSignatureFromTypedData\<close> against the \<open>permit\<close> of \<open>AToken.sol\<close>; the
    hash, the encodings, signing and recovery are arguments.
  \<^item> \<open>FantomCalculators\<close>: the Fantom suite's calculators, one by one; \<open>CalculationsFtm\<close> compares the suites.
  \<^item> \<open>SuiteActions\<close>, \<open>ScenarioEngine\<close>: \<open>actions.ts\<close>, \<open>utils/helpers.ts\<close> and \<open>scenario-engine.ts\<close> of both suites.
    The node, the pool and the vaults are the argument \<open>live\<close> of a \<open>suite\<close> (\<open>live_chain\<close>), next to what a suite
    imports from its own modules. \<open>SampleScenario\<close> has a computed deposit that passes; \<open>ScenarioChecks\<close> what a
    passing story has checked.
  \<^item> \<open>MakeSuite\<close>, \<open>SuiteChecks\<close>: \<open>make-suite.ts\<close> of both suites.
  \<^item> \<open>ErrorCodes\<close>, \<open>RegistryKeys\<close>: the enum of registry keys and the error codes of \<open>types.ts\<close>, against
    \<open>Errors.sol\<close> and against the getters and deployments.
  \<^item> \<open>Configurator\<close>, \<open>ConfiguratorChecks\<close>: the administration of a market by \<open>LendingPoolConfigurator.sol\<close>, and
    what holds of every configuration it can produce.
  \<^item> \<open>ConfiguratorSpec\<close>, \<open>ConfiguratorRuns\<close>: the three test specifications of the configurator, and what they
    report when they run against it.
  \<^item> \<open>ProviderRegistry\<close>, \<open>RegistrySpec\<close>: \<open>LendingPoolAddressesProviderRegistry.sol\<close> with its ownership, the association
    list it implements, and its test specification.
  \<^item> \<open>VaultHelper\<close>: \<open>DeployVaultHelper.sol\<close> and the migration that uses it.
  \<^item> \<open>ScriptSteps\<close>, \<open>Frames\<close>, \<open>Effects\<close>, \<open>ProxyDeployment\<close>, \<open>RoundTrips\<close>, \<open>Sessions\<close>, \<open>VaultChecks\<close>:
    the proofs that span components.

  \<^bold>\<open>How the proofs are organized.\<close> The locale \<open>guarded_steps\<close> composes, for effectful code, a
  relation between the first and the last state from its primitive steps; \<open>script_steps\<close>
  extends it by the primitive steps of the scripts and proves once, for every script, that it
  keeps whatever the primitive steps keep; \<open>task_steps\<close> adds the one step of the tasks that write into
  the configuration. They are interpreted on the model for the frame
  (\<open>frame\<close>: environment and other networks), for the chain invariant (\<open>chain\<close>:
  \<open>wf_world\<close> and \<open>chain_grows\<close>), for the scripts that leave the configurations alone (\<open>kept\<close>) and for
  the growth of the writes (\<open>grown\<close>); \<open>guarded_steps\<close> once more for bookkeeping (\<open>book\<close>). The locale \<open>bit_field\<close>
  states what a mask and a position have to satisfy and is interpreted for the ten fields of
  the configuration word. The locale \<open>bignumber_laws\<close> has the documented behaviour of \<open>bignumber.js\<close>
  for any setting of precision and rounding; \<open>bignumber_integers\<close> extends it by the setting of the
  scenarios. They are interpreted on \<open>rational_js\<close>, an exact rational arithmetic with that
  rounding; the rules \<open>denotes_intros\<close> carry each method to its function on the natural numbers,
  and \<open>checked_unat\<close> each contract function to the same one. \<open>deployBehindProxy\<close> is the abstract specification of the 31 functions
  that deploy behind a proxy; they are shown equal to its instances, and the post-condition,
  the conditions for success and the behaviour on a second run are proved for it once.

  \<^bold>\<open>Loops.\<close> Every loop of the sources is structural recursion over a list or over the number of
  attempts left, so every definition is total and no fuel is needed.

  \<^bold>\<open>Not modelled.\<close> The contracts the scripts deploy, beyond the parts named above: their calls are
  recorded in \<open>call_log\<close> and may be rejected by the environment, and for the scenario tests they are the
  argument \<open>live\<close>. \<open>deploy-atoken-wrapper\<close> (it imports a
  factory the generated types do not have), the settings of the build tool, and the other test specifications, which
  are examples run against a forked chain, mostly of contracts outside the model.
\<close>

end
